(* ===== verification/GoPrelude.thy ===== *)
theory GoPrelude
  imports Main "HOL-Library.Word"
begin

text \<open>
  What every component shares: Go's error values, results as a sum, 64-bit arithmetic, decimal
  rendering, and the theorem collections that carry the component proofs.

  A Go function that returns \<open>(T, error)\<close> is a function into \<open>goerror + 'a\<close> (\<open>Inl\<close> for a non-nil
  error). A function that returns \<open>error\<close> alone is a function into \<open>goerror option\<close>, \<open>None\<close> for
  \<open>nil\<close>. Error values keep what the code can observe of them: the text of \<open>Error()\<close>, the sentinel
  \<open>errors.Is\<close> finds, and the \<open>*api.RequestError\<close> or \<open>*exec.ExitError\<close> that \<open>errors.As\<close> finds.
\<close>

named_theorems go_defs \<open>definitions that component proofs unfold together\<close>
named_theorems go_frame \<open>facts saying which part of the state an operation leaves alone\<close>
named_theorems go_inv \<open>invariant preservation facts\<close>

subsection \<open>Error values\<close>

text \<open>The package-level sentinels, compared by identity with \<open>errors.Is\<close>.\<close>

datatype sentinel =
    ErrUnsupportedTaskType | ErrInvalidTaskPayload | ErrUnsupportedExecutionEnvironment
  | ErrTaskCancelledByControl
  | ErrSessionExists | ErrSessionNotFound | ErrInvalidTerminalSize
  | ErrIdentityNotFound | ErrSessionNotActive
  | CtxCanceled | CtxDeadlineExceeded
  | OsErrNotExist | OsErrClosed | IoEOF

fun sentinel_text :: "sentinel \<Rightarrow> string" where
  "sentinel_text ErrUnsupportedTaskType = ''unsupported task type''"
| "sentinel_text ErrInvalidTaskPayload = ''invalid task payload''"
| "sentinel_text ErrUnsupportedExecutionEnvironment = ''unsupported execution environment''"
| "sentinel_text ErrTaskCancelledByControl = ''task cancelled by control endpoint''"
| "sentinel_text ErrSessionExists = ''terminal session already exists''"
| "sentinel_text ErrSessionNotFound = ''terminal session was not found''"
| "sentinel_text ErrInvalidTerminalSize = ''terminal size is invalid''"
| "sentinel_text ErrIdentityNotFound = ''identity state file not found''"
| "sentinel_text ErrSessionNotActive = ''realtime session is not authenticated''"
| "sentinel_text CtxCanceled = ''context canceled''"
| "sentinel_text CtxDeadlineExceeded = ''context deadline exceeded''"
| "sentinel_text OsErrNotExist = ''file does not exist''"
| "sentinel_text OsErrClosed = ''file already closed''"
| "sentinel_text IoEOF = ''EOF''"

text \<open>\<open>api.RequestError\<close>: the HTTP API answered with an error status.\<close>

record request_error =
  reqMethod :: string
  reqPath :: string
  reqStatusCode :: int
  reqMessage :: string
  reqBody :: string

text \<open>
  \<open>Plain\<close> is an error with a text only, \<open>Request\<close> an \<open>*api.RequestError\<close> with its text, \<open>ExitErr\<close>
  an \<open>*exec.ExitError\<close> with its exit code and text, and \<open>Wrapped m e\<close> what \<open>fmt.Errorf\<close> builds with
  \<open>%w\<close>: text \<open>m\<close>, inner error \<open>e\<close>.
\<close>

datatype goerror =
    Plain string
  | Sentinel sentinel
  | Request string request_error
  | ExitErr int string
  | Wrapped string goerror

fun err_text :: "goerror \<Rightarrow> string" where
  "err_text (Plain m) = m"
| "err_text (Sentinel s) = sentinel_text s"
| "err_text (Request m r) = m"
| "err_text (ExitErr c m) = m"
| "err_text (Wrapped m e) = m"

fun err_is :: "goerror \<Rightarrow> sentinel \<Rightarrow> bool" where
  "err_is (Sentinel s) t = (s = t)"
| "err_is (Wrapped m e) t = err_is e t"
| "err_is (Plain m) t = False"
| "err_is (Request m r) t = False"
| "err_is (ExitErr c m) t = False"

fun err_as_request :: "goerror \<Rightarrow> request_error option" where
  "err_as_request (Request m r) = Some r"
| "err_as_request (Wrapped m e) = err_as_request e"
| "err_as_request (Plain m) = None"
| "err_as_request (Sentinel s) = None"
| "err_as_request (ExitErr c m) = None"

fun err_as_exit :: "goerror \<Rightarrow> int option" where
  "err_as_exit (ExitErr c m) = Some c"
| "err_as_exit (Wrapped m e) = err_as_exit e"
| "err_as_exit (Plain m) = None"
| "err_as_exit (Sentinel s) = None"
| "err_as_exit (Request m r) = None"

text \<open>\<open>fmt.Errorf(p + "%w", e)\<close>, and \<open>fmt.Errorf("%w: " + t, s)\<close> for a sentinel \<open>s\<close>.\<close>

definition wrap_prefix :: "string \<Rightarrow> goerror \<Rightarrow> goerror" where
  "wrap_prefix p e = Wrapped (p @ err_text e) e"

definition wrap_sentinel :: "sentinel \<Rightarrow> string \<Rightarrow> goerror" where
  "wrap_sentinel s t = Wrapped (sentinel_text s @ '': '' @ t) (Sentinel s)"

lemma err_is_wrap_prefix [simp]: "err_is (wrap_prefix p e) s = err_is e s"
  by (simp add: wrap_prefix_def)

lemma err_is_wrap_sentinel [simp]: "err_is (wrap_sentinel s t) u = (s = u)"
  by (simp add: wrap_sentinel_def)

lemma err_as_request_wrap [simp]:
  "err_as_request (wrap_prefix p e) = err_as_request e"
  "err_as_request (wrap_sentinel s t) = None"
  by (simp_all add: wrap_prefix_def wrap_sentinel_def)

lemma err_text_wrap [simp]:
  "err_text (wrap_prefix p e) = p @ err_text e"
  "err_text (wrap_sentinel s t) = sentinel_text s @ '': '' @ t"
  by (simp_all add: wrap_prefix_def wrap_sentinel_def)

subsection \<open>Results\<close>

definition res_ok :: "'e + 'a \<Rightarrow> bool" where
  "res_ok r \<longleftrightarrow> (case r of Inl _ \<Rightarrow> False | Inr _ \<Rightarrow> True)"

lemma res_ok_simps [simp]: "res_ok (Inr x)" "\<not> res_ok (Inl e)"
  by (simp_all add: res_ok_def)

definition rbind :: "'e + 'a \<Rightarrow> ('a \<Rightarrow> 'e + 'b) \<Rightarrow> 'e + 'b" where
  "rbind r f = (case r of Inl e \<Rightarrow> Inl e | Inr x \<Rightarrow> f x)"

lemma rbind_simps [simp]: "rbind (Inl e) f = Inl e" "rbind (Inr x) f = f x"
  by (simp_all add: rbind_def)

lemma rbind_Inr_iff: "rbind r f = Inr y \<longleftrightarrow> (\<exists>x. r = Inr x \<and> f x = Inr y)"
  by (cases r) auto

lemma rbind_Inl_iff: "rbind r f = Inl e \<longleftrightarrow> r = Inl e \<or> (\<exists>x. r = Inr x \<and> f x = Inl e)"
  by (cases r) auto

subsection \<open>64-bit integers and durations\<close>

text \<open>
  Go's \<open>int\<close>, \<open>int64\<close> and \<open>time.Duration\<close> are 64 bits wide here. They are \<open>int\<close> in the model, with
  \<open>wrap64\<close> where a product of untrusted values can overflow. Durations count nanoseconds.
\<close>

definition wrap64 :: "int \<Rightarrow> int" where
  "wrap64 x = sint (word_of_int x :: 64 word)"

lemma wrap64_id: "- (2 ^ 63) \<le> x \<Longrightarrow> x < 2 ^ 63 \<Longrightarrow> wrap64 x = x"
  by (simp add: wrap64_def int_word_sint)

lemma wrap64_range: "- (2 ^ 63) \<le> wrap64 x \<and> wrap64 x < 2 ^ 63"
  using sint_range_size [of "word_of_int x :: 64 word"]
  by (simp add: wrap64_def word_size)

abbreviation millisecond :: int where "millisecond \<equiv> 1000000"
abbreviation second :: int where "second \<equiv> 1000000000"
abbreviation minute :: int where "minute \<equiv> 60000000000"

text \<open>Go's \<open>/\<close> truncates towards zero.\<close>

definition quot_int :: "int \<Rightarrow> int \<Rightarrow> int" where
  "quot_int a b = sgn a * sgn b * (\<bar>a\<bar> div \<bar>b\<bar>)"

lemma quot_int_nonneg: "0 \<le> a \<Longrightarrow> 0 < b \<Longrightarrow> quot_int a b = a div b"
  by (cases "a = 0") (simp_all add: quot_int_def)

subsection \<open>Shared list facts\<close>

lemma butlast_snoc_last: "xs \<noteq> [] \<Longrightarrow> xs = butlast xs @ [last xs]"
  by simp

lemma drop_drop_length: "length xs - n < length xs \<Longrightarrow> length (drop (length xs - n) xs) = n \<or> length xs < n"
  by auto

lemma sum_list_take_drop: "sum_list (map f (take n xs)) + sum_list (map f (drop n xs)) = (sum_list (map f xs) :: nat)"
  by (metis append_take_drop_id map_append sum_list_append)

end
