(* ===== verification/GoStrings.thy ===== *)
theory GoStrings
  imports GoPrelude
begin

text \<open>
  Go strings and the functions of packages \<open>strings\<close>, \<open>unicode/utf8\<close> and \<open>strconv\<close> that the agent
  calls. A Go string is a sequence of bytes, as HOL's \<open>string\<close> is (\<open>char\<close> has 256 values). Where Go
  works on runes (\<open>range s\<close>, \<open>[]rune(s)\<close>, \<open>TrimSpace\<close>, \<open>Fields\<close>, \<open>ToLower\<close>) the model splits the bytes
  into the same runes: \<open>runes s\<close> lists the byte sequences Go's UTF-8 decoder consumes one by one, a
  lone byte where the encoding is invalid.
\<close>

subsection \<open>UTF-8\<close>

definition byte_in :: "nat \<Rightarrow> nat \<Rightarrow> char \<Rightarrow> bool" where
  "byte_in lo hi c \<longleftrightarrow> lo \<le> (of_char c :: nat) \<and> (of_char c :: nat) \<le> hi"

text \<open>The range of the second byte, which depends on the first (\<open>utf8.acceptRanges\<close>).\<close>

definition second_lo :: "char \<Rightarrow> nat" where
  "second_lo a = (if byte_in 224 224 a then 160 else if byte_in 240 240 a then 144 else 128)"

definition second_hi :: "char \<Rightarrow> nat" where
  "second_hi a = (if byte_in 237 237 a then 159 else if byte_in 244 244 a then 143 else 191)"

text \<open>Bytes of the first rune, 0 where the encoding is invalid (\<open>utf8.DecodeRuneInString\<close>).\<close>

fun utf8_width :: "string \<Rightarrow> nat" where
  "utf8_width [] = 0"
| "utf8_width (a # s) =
    (if byte_in 0 127 a then 1
     else if byte_in 194 223 a then
       (case s of b # _ \<Rightarrow> if byte_in 128 191 b then 2 else 0 | _ \<Rightarrow> 0)
     else if byte_in 224 239 a then
       (case s of b # c # _ \<Rightarrow>
          if byte_in (second_lo a) (second_hi a) b \<and> byte_in 128 191 c then 3 else 0
        | _ \<Rightarrow> 0)
     else if byte_in 240 244 a then
       (case s of b # c # d # _ \<Rightarrow>
          if byte_in (second_lo a) (second_hi a) b \<and> byte_in 128 191 c \<and> byte_in 128 191 d
          then 4 else 0
        | _ \<Rightarrow> 0)
     else 0)"

declare utf8_width.simps(2) [simp del]

lemma utf8_width_ascii [simp]: "byte_in 0 127 a \<Longrightarrow> utf8_width (a # s) = 1"
  by (simp add: utf8_width.simps)

lemma utf8_width_le: "utf8_width s \<le> length s"
  by (cases s) (auto simp: utf8_width.simps split: list.splits)

lemma utf8_width_take4:
  "utf8_width (a # s) = Suc n \<Longrightarrow> utf8_width (a # take n s @ t) = Suc n"
  by (auto simp: utf8_width.simps(2) split: list.splits if_split_asm)

lemma utf8_width_append_take:
  "utf8_width s = Suc n \<Longrightarrow> utf8_width (take (utf8_width s) s @ t) = utf8_width s"
  by (cases s) (auto simp: utf8_width_take4)

lemma utf8_width_single: "utf8_width (c # s) = 0 \<Longrightarrow> utf8_width [c] = 0"
  by (auto simp: utf8_width.simps split: list.splits if_splits)

function runes :: "string \<Rightarrow> string list" where
  "runes [] = []"
| "runes (c # s) =
     take (max 1 (utf8_width (c # s))) (c # s) # runes (drop (max 1 (utf8_width (c # s))) (c # s))"
  by pat_completeness auto
termination by (relation "measure length") auto

declare runes.simps(2) [simp del]

definition is_ascii :: "string \<Rightarrow> bool" where
  "is_ascii s \<longleftrightarrow> list_all (byte_in 0 127) s"

lemma is_ascii_simps [simp]:
  "is_ascii []" "is_ascii (c # s) \<longleftrightarrow> byte_in 0 127 c \<and> is_ascii s"
  "is_ascii (s @ t) \<longleftrightarrow> is_ascii s \<and> is_ascii t"
  by (simp_all add: is_ascii_def)

lemma concat_runes [simp]: "concat (runes s) = s"
proof (induction s rule: runes.induct)
  case (2 c s)
  then show ?case by (simp only: runes.simps concat.simps append_take_drop_id)
qed simp

lemma runes_nonempty: "r \<in> set (runes s) \<Longrightarrow> r \<noteq> []"
proof (induction s arbitrary: r rule: runes.induct)
  case (2 c s)
  then show ?case by (auto simp: runes.simps(2) max_def split: if_splits)
qed simp

lemma runes_ascii_Cons: "byte_in 0 127 c \<Longrightarrow> runes (c # s) = [c] # runes s"
  by (simp add: runes.simps(2))

lemma runes_ascii: "is_ascii s \<Longrightarrow> runes s = map (\<lambda>c. [c]) s"
  by (induction s) (auto simp: runes_ascii_Cons)

lemma runes_ascii_append: "is_ascii s \<Longrightarrow> runes (s @ t) = map (\<lambda>c. [c]) s @ runes t"
  by (induction s) (auto simp: runes_ascii_Cons)

lemma length_runes: "length (runes s) \<le> length s"
proof (induction s rule: runes.induct)
  case (2 c s)
  have "length (drop (max 1 (utf8_width (c # s))) (c # s)) \<le> length s" by auto
  with 2 show ?case by (simp add: runes.simps(2))
qed simp

lemma runes_Nil_iff [simp]: "runes s = [] \<longleftrightarrow> s = []"
  by (cases s) (auto simp: runes.simps(2))

lemma utf8_width_truncate: "utf8_width (c # s) = 0 \<Longrightarrow> utf8_width (c # take k s) = 0"
  by (cases k; cases "k - 1"; cases "k - 2")
     (auto simp: utf8_width.simps(2) take_Cons' split: list.splits if_split_asm)

lemma runes_drop: "runes (concat (drop k (runes s))) = drop k (runes s)"
proof (induction s arbitrary: k rule: runes.induct)
  case (2 c s)
  show ?case
  proof (cases k)
    case 0
    then show ?thesis by simp
  next
    case (Suc j)
    with 2 [of j] show ?thesis by (simp add: runes.simps(2))
  qed
qed simp

lemma concat_take_runes: "\<exists>j. concat (take k (runes s)) = take j s"
  by (metis append_eq_conv_conj append_take_drop_id concat_append concat_runes)

lemma runes_take: "runes (concat (take k (runes s))) = take k (runes s)"
proof (induction s arbitrary: k rule: runes.induct)
  case (2 c s)
  let ?w = "utf8_width (c # s)" and ?rest = "drop (max 1 (utf8_width (c # s))) (c # s)"
  show ?case
  proof (cases k)
    case (Suc j)
    let ?t = "concat (take j (runes ?rest))"
    have eq: "concat (take k (runes (c # s))) = take (max 1 ?w) (c # s) @ ?t"
      using Suc by (simp add: runes.simps(2))
    have "runes (take (max 1 ?w) (c # s) @ ?t) = take (max 1 ?w) (c # s) # runes ?t"
    proof (cases ?w)
      case 0
      obtain i where "?t = take i s" using concat_take_runes [of j s] 0 by auto
      with utf8_width_truncate [OF 0, of i] 0 show ?thesis by (simp add: runes.simps(2))
    next
      case (Suc n)
      with utf8_width_take4 [OF Suc, of ?t] utf8_width_le [of "c # s"] show ?thesis
        by (simp add: runes.simps(2))
    qed
    with eq 2 [of j] Suc show ?thesis by (simp add: runes.simps(2))
  qed simp
qed simp

lemma utf8_width_multibyte:
  assumes "utf8_width (a # s) = Suc (Suc n)" "c \<in> set (take (Suc (Suc n)) (a # s))"
  shows "\<not> byte_in 0 127 c"
proof -
  have lo: "128 \<le> second_lo a" by (simp add: second_lo_def)
  have hi: "\<And>b. byte_in (second_lo a) (second_hi a) b \<Longrightarrow> \<not> byte_in 0 127 b"
    using lo by (simp add: byte_in_def)
  have co: "\<And>b. byte_in 128 191 b \<Longrightarrow> \<not> byte_in 0 127 b" by (simp add: byte_in_def)
  have "\<not> byte_in 0 127 a" using assms(1) by auto
  then show ?thesis using assms hi co
    by (cases n; cases "n - 1") (auto simp: utf8_width.simps(2) take_Cons' split: list.splits if_split_asm)
qed

lemma runes_multibyte:
  "r \<in> set (runes s) \<Longrightarrow> length r \<noteq> 1 \<Longrightarrow> c \<in> set r \<Longrightarrow> \<not> byte_in 0 127 c"
proof (induction s arbitrary: r rule: runes.induct)
  case (2 a s)
  let ?w = "utf8_width (a # s)"
  from 2(2) consider "r = take (max 1 ?w) (a # s)" | "r \<in> set (runes (drop (max 1 ?w) (a # s)))"
    by (auto simp: runes.simps(2))
  then show ?case
  proof cases
    case 1
    have "?w \<noteq> 0" using 1 2(3) by (cases "?w = 0") auto
    moreover have "?w \<noteq> 1" using 1 2(3) by (cases "?w = 1") auto
    ultimately obtain n where n: "?w = Suc (Suc n)" by (metis One_nat_def not0_implies_Suc)
    with 1 2(4) have "c \<in> set (take (Suc (Suc n)) (a # s))" by simp
    with n show ?thesis by (rule utf8_width_multibyte)
  next
    case 2
    with "2.IH" "2.prems" show ?thesis by blast
  qed
qed simp

lemma ascii_mem_runes: "c \<in> set s \<Longrightarrow> byte_in 0 127 c \<Longrightarrow> [c] \<in> set (runes s)"
proof -
  assume c: "c \<in> set s" "byte_in 0 127 c"
  have "set s = (\<Union>r\<in>set (runes s). set r)" by (metis concat_runes set_concat)
  with c(1) obtain r where r: "r \<in> set (runes s)" "c \<in> set r" by blast
  with c(2) runes_multibyte have "length r = 1" by blast
  then obtain d where "r = [d]" by (auto simp: length_Suc_conv)
  with r show ?thesis by simp
qed

text \<open>\<open>utf8.RuneCountInString\<close>, \<open>len([]rune(s))\<close>, the number of turns of \<open>for range s\<close>.\<close>

definition rune_count :: "string \<Rightarrow> nat" where
  "rune_count s = length (runes s)"

lemma rune_count_ascii [simp]: "is_ascii s \<Longrightarrow> rune_count s = length s"
  by (simp add: rune_count_def runes_ascii)

text \<open>
  \<open>string([]rune(...))\<close> and \<open>WriteRune\<close> write an invalid byte as U+FFFD.
\<close>

definition encode_rune :: "string \<Rightarrow> string" where
  "encode_rune r = (if utf8_width r = 0 then [CHR 0xEF, CHR 0xBF, CHR 0xBD] else r)"

definition encode_runes :: "string list \<Rightarrow> string" where
  "encode_runes rs = concat (map encode_rune rs)"

lemma encode_runes_ascii [simp]: "is_ascii s \<Longrightarrow> encode_runes (map (\<lambda>c. [c]) s) = s"
  by (induction s) (auto simp: encode_runes_def encode_rune_def)

lemma encode_runes_append [simp]: "encode_runes (xs @ ys) = encode_runes xs @ encode_runes ys"
  by (simp add: encode_runes_def)

lemma utf8_width_replacement [simp]: "utf8_width (CHR 0xEF # CHR 0xBF # CHR 0xBD # t) = 3"
  by (simp add: utf8_width.simps(2) byte_in_def second_lo_def second_hi_def)

lemma runes_encode_rune_Cons:
  assumes "r \<in> set (runes s)"
  shows "runes (encode_rune r @ t) = encode_rune r # runes t"
  using assms
proof (induction s arbitrary: r rule: runes.induct)
  case (2 c s)
  let ?w = "utf8_width (c # s)"
  from 2(2) consider "r = take (max 1 ?w) (c # s)" | "r \<in> set (runes (drop (max 1 ?w) (c # s)))"
    by (auto simp: runes.simps(2))
  then show ?case
  proof cases
    case 1
    show ?thesis
    proof (cases "utf8_width r")
      case 0
      then show ?thesis by (simp add: encode_rune_def runes.simps(2))
    next
      case (Suc n)
      have w: "?w = 0 \<or> utf8_width (r @ t) = ?w \<and> length r = ?w"
        using 1 utf8_width_append_take [of "c # s" _ t] utf8_width_le [of "c # s"]
        by (cases ?w) (auto simp: max_def)
      from 1 obtain r' where r: "r = c # r'" by (cases "max 1 ?w") auto
      have z: "?w \<noteq> 0"
      proof
        assume "?w = 0"
        with 1 have "r = [c]" by simp
        with Suc \<open>?w = 0\<close> utf8_width_single [of c s] show False by simp
      qed
      then have "utf8_width (r @ t) = length r" using w by simp
      then have "take (max 1 (utf8_width (r @ t))) (r @ t) = r"
        "drop (max 1 (utf8_width (r @ t))) (r @ t) = t"
        using r by (auto simp: max_def)
      then show ?thesis using Suc r by (simp add: encode_rune_def runes.simps(2))
    qed
  next
    case 2
    with \<open>\<And>r. r \<in> set (runes (drop (max 1 ?w) (c # s))) \<Longrightarrow> _\<close> show ?thesis by blast
  qed
qed simp

lemma runes_encode_runes_append:
  "set rs \<subseteq> set (runes s) \<Longrightarrow> runes (encode_runes rs @ t) = map encode_rune rs @ runes t"
  by (induction rs) (auto simp: encode_runes_def runes_encode_rune_Cons)

lemma rune_count_encode_runes_append:
  "set rs \<subseteq> set (runes s) \<Longrightarrow> rune_count (encode_runes rs @ t) = length rs + rune_count t"
  by (simp add: rune_count_def runes_encode_runes_append)

lemma rune_count_ascii_append: "is_ascii s \<Longrightarrow> rune_count (s @ t) = length s + rune_count t"
  by (simp add: rune_count_def runes_ascii_append)

subsection \<open>White space: \<open>TrimSpace\<close> and \<open>Fields\<close>\<close>

text \<open>The runes of \<open>unicode.IsSpace\<close>, as UTF-8.\<close>

definition ascii_space :: "char \<Rightarrow> bool" where
  "ascii_space c \<longleftrightarrow> byte_in 9 13 c \<or> byte_in 32 32 c"

definition is_space :: "string \<Rightarrow> bool" where
  "is_space r \<longleftrightarrow>
     (case r of
        [c] \<Rightarrow> ascii_space c
      | [a, b] \<Rightarrow> a = CHR 0xC2 \<and> (b = CHR 0x85 \<or> b = CHR 0xA0)
      | [a, b, c] \<Rightarrow>
          (a, b, c) = (CHR 0xE1, CHR 0x9A, CHR 0x80)
          \<or> (a, b) = (CHR 0xE2, CHR 0x80) \<and>
             (byte_in 128 138 c \<or> c = CHR 0xA8 \<or> c = CHR 0xA9 \<or> c = CHR 0xAF)
          \<or> (a, b, c) = (CHR 0xE2, CHR 0x81, CHR 0x9F)
          \<or> (a, b, c) = (CHR 0xE3, CHR 0x80, CHR 0x80)
      | _ \<Rightarrow> False)"

lemma is_space_single [simp]: "is_space [c] = ascii_space c"
  by (simp add: is_space_def)

definition trim_space :: "string \<Rightarrow> string" where
  "trim_space s = concat (rev (dropWhile is_space (rev (dropWhile is_space (runes s)))))"

fun fields_from :: "string list \<Rightarrow> string \<Rightarrow> string list" where
  "fields_from [] cur = (if cur = [] then [] else [cur])"
| "fields_from (r # rs) cur =
     (if is_space r then (if cur = [] then fields_from rs [] else cur # fields_from rs [])
      else fields_from rs (cur @ r))"

definition str_fields :: "string \<Rightarrow> string list" where
  "str_fields s = fields_from (runes s) []"

lemma trim_space_Nil [simp]: "trim_space [] = []"
  by (simp add: trim_space_def)

lemma trim_space_ascii:
  "is_ascii s \<Longrightarrow> trim_space s = rev (dropWhile ascii_space (rev (dropWhile ascii_space s)))"
  by (simp add: trim_space_def runes_ascii dropWhile_map rev_map o_def)

lemma length_trim_space: "length (trim_space s) \<le> length s"
proof -
  have *: "\<And>P xs. length (concat (dropWhile P xs)) \<le> length (concat xs)"
    by (metis concat_append le_add2 length_append takeWhile_dropWhile_id)
  have r: "\<And>xs. length (concat (rev xs)) = length (concat xs)"
    by (metis length_concat rev_map sum_list_rev)
  have "length (trim_space s) \<le> length (concat (rev (rev (dropWhile is_space (runes s)))))"
    unfolding trim_space_def r using * [of is_space "rev (dropWhile is_space (runes s))"] r by simp
  also have "\<dots> \<le> length s" using * [of is_space "runes s"] by simp
  finally show ?thesis .
qed

lemma dropWhile_drop: "\<exists>k. dropWhile P xs = drop k xs"
  by (metis append_eq_conv_conj takeWhile_dropWhile_id)

lemma rev_dropWhile_rev_take: "\<exists>k. rev (dropWhile P (rev xs)) = take k xs"
  by (metis dropWhile_drop rev_drop rev_rev_ident)

text \<open>The runes of a trimmed string are a stretch of those of the string.\<close>

lemma runes_trim_space:
  "runes (trim_space s) = rev (dropWhile is_space (rev (dropWhile is_space (runes s))))"
proof -
  obtain k where k: "dropWhile is_space (runes s) = drop k (runes s)" using dropWhile_drop by blast
  let ?u = "concat (drop k (runes s))"
  have u: "runes ?u = drop k (runes s)" by (rule runes_drop)
  obtain j where "rev (dropWhile is_space (rev (runes ?u))) = take j (runes ?u)"
    using rev_dropWhile_rev_take by blast
  with u k runes_take [of j ?u] show ?thesis by (simp add: trim_space_def)
qed

lemma dropWhile_idem: "dropWhile P (rev (dropWhile P (rev (dropWhile P xs)))) = rev (dropWhile P (rev (dropWhile P xs)))"
proof (cases "rev (dropWhile P (rev (dropWhile P xs))) = []")
  case True
  then show ?thesis by (simp only: dropWhile.simps)
next
  case False
  let ?ys = "dropWhile P xs" and ?zs = "rev (dropWhile P (rev (dropWhile P xs)))"
  obtain k where k: "?zs = take k ?ys" using rev_dropWhile_rev_take by blast
  have "?zs \<noteq> []" using False by simp
  with k have ne: "?ys \<noteq> []" "k \<noteq> 0" by (metis take_Nil, metis take0)
  then have "hd ?zs = hd ?ys" using k by (simp add: hd_take)
  with ne(1) have "\<not> P (hd ?zs)" by (metis hd_dropWhile)
  with False show ?thesis by (cases ?zs) auto
qed

lemma trim_space_idem [simp]: "trim_space (trim_space s) = trim_space s"
  by (simp add: trim_space_def [of "trim_space s"] runes_trim_space dropWhile_idem)
     (simp add: trim_space_def)

lemma trim_space_Nil_iff: "trim_space s = [] \<longleftrightarrow> (\<forall>r\<in>set (runes s). is_space r)"
proof -
  have "trim_space s = [] \<longleftrightarrow> runes (trim_space s) = []" by simp
  also have "\<dots> \<longleftrightarrow> (\<forall>r\<in>set (runes s). is_space r)"
    unfolding runes_trim_space
    by (auto dest: set_dropWhileD) (metis set_rev takeWhile_dropWhile_id in_set_conv_decomp set_takeWhileD Un_iff set_append)
  finally show ?thesis .
qed

lemma trim_space_ascii_mem: "c \<in> set s \<Longrightarrow> byte_in 33 126 c \<Longrightarrow> trim_space s \<noteq> []"
proof -
  assume c: "c \<in> set s" "byte_in 33 126 c"
  then have "[c] \<in> set (runes s)" by (intro ascii_mem_runes) (auto simp: byte_in_def)
  moreover have "\<not> is_space [c]" using c(2) by (auto simp: ascii_space_def byte_in_def)
  ultimately show ?thesis unfolding trim_space_Nil_iff by blast
qed

lemma fields_from_ne: "cur = [] \<or> cur \<noteq> [] \<Longrightarrow> w \<in> set (fields_from rs cur) \<Longrightarrow> w \<noteq> []"
  by (induction rs cur rule: fields_from.induct) (auto split: if_splits)

lemma str_fields_nonempty: "w \<in> set (str_fields s) \<Longrightarrow> w \<noteq> []"
  by (auto simp: str_fields_def dest: fields_from_ne [rotated])

lemma fields_from_no_space: "list_all (\<lambda>r. \<not> is_space r) rs \<Longrightarrow> fields_from rs cur = (if cur @ concat rs = [] then [] else [cur @ concat rs])"
  by (induction rs arbitrary: cur) auto

subsection \<open>Prefixes, suffixes, substrings\<close>

definition has_prefix :: "string \<Rightarrow> string \<Rightarrow> bool" where
  "has_prefix s p \<longleftrightarrow> take (length p) s = p"

definition has_suffix :: "string \<Rightarrow> string \<Rightarrow> bool" where
  "has_suffix s p \<longleftrightarrow> length p \<le> length s \<and> drop (length s - length p) s = p"

definition trim_prefix :: "string \<Rightarrow> string \<Rightarrow> string" where
  "trim_prefix s p = (if has_prefix s p then drop (length p) s else s)"

fun str_contains :: "string \<Rightarrow> string \<Rightarrow> bool" where
  "str_contains [] p \<longleftrightarrow> p = []"
| "str_contains (c # s) p \<longleftrightarrow> has_prefix (c # s) p \<or> str_contains s p"

fun str_index :: "string \<Rightarrow> string \<Rightarrow> nat option" where
  "str_index [] p = (if p = [] then Some 0 else None)"
| "str_index (c # s) p = (if has_prefix (c # s) p then Some 0 else map_option Suc (str_index s p))"

text \<open>\<open>strings.LastIndex\<close> for a one-byte needle.\<close>

fun last_index_of :: "string \<Rightarrow> char \<Rightarrow> nat option" where
  "last_index_of [] c = None"
| "last_index_of (x # s) c =
     (case last_index_of s c of Some i \<Rightarrow> Some (Suc i) | None \<Rightarrow> if x = c then Some 0 else None)"

definition contains_any :: "string \<Rightarrow> string \<Rightarrow> bool" where
  "contains_any s cs \<longleftrightarrow> list_ex (\<lambda>c. c \<in> set cs) s"

text \<open>Cutsets of ASCII bytes: \<open>TrimRight\<close>, \<open>TrimLeft\<close>, \<open>Trim\<close>.\<close>

definition trim_right :: "string \<Rightarrow> string \<Rightarrow> string" where
  "trim_right cs s = rev (dropWhile (\<lambda>c. c \<in> set cs) (rev s))"

definition trim_left :: "string \<Rightarrow> string \<Rightarrow> string" where
  "trim_left cs s = dropWhile (\<lambda>c. c \<in> set cs) s"

definition trim_cutset :: "string \<Rightarrow> string \<Rightarrow> string" where
  "trim_cutset cs s = trim_right cs (trim_left cs s)"

lemma has_prefix_iff: "has_prefix s p \<longleftrightarrow> (\<exists>t. s = p @ t)"
  unfolding has_prefix_def by (metis append_take_drop_id append_eq_conv_conj)

lemma has_prefix_append [simp]: "has_prefix (p @ t) p"
  by (simp add: has_prefix_def)

lemma has_prefix_Nil [simp]: "has_prefix s []" "has_prefix [] p \<longleftrightarrow> p = []"
  by (auto simp: has_prefix_def)

lemma has_prefix_Cons [simp]: "has_prefix (a # s) (b # p) \<longleftrightarrow> a = b \<and> has_prefix s p"
  by (auto simp: has_prefix_def)

lemma str_contains_append_prefix: "str_contains t p \<Longrightarrow> str_contains (s @ t) p"
  by (induction s) auto

lemma has_prefix_str_contains: "has_prefix s p \<Longrightarrow> str_contains s p"
  by (cases s) auto

lemma str_contains_iff: "str_contains s p \<longleftrightarrow> (\<exists>u v. s = u @ p @ v)"
proof
  show "str_contains s p \<Longrightarrow> \<exists>u v. s = u @ p @ v"
  proof (induction s)
    case (Cons c s)
    then consider "has_prefix (c # s) p" | "str_contains s p" by auto
    then show ?case
    proof cases
      case 1 then show ?thesis by (metis append_Nil has_prefix_iff)
    next
      case 2 with Cons.IH show ?thesis by (metis append_Cons)
    qed
  qed auto
next
  assume "\<exists>u v. s = u @ p @ v"
  then show "str_contains s p"
    using has_prefix_str_contains str_contains_append_prefix has_prefix_append by blast
qed

lemma trim_right_last: "trim_right cs s \<noteq> [] \<Longrightarrow> last (trim_right cs s) \<notin> set cs"
  unfolding trim_right_def
  by (metis (no_types, lifting) hd_dropWhile last_rev rev_is_Nil_conv)

lemma trim_right_split: "\<exists>t. s = trim_right cs s @ t \<and> set t \<subseteq> set cs"
proof -
  have "s = trim_right cs s @ rev (takeWhile (\<lambda>c. c \<in> set cs) (rev s))"
    unfolding trim_right_def by (metis rev_append rev_rev_ident takeWhile_dropWhile_id)
  moreover have "set (rev (takeWhile (\<lambda>c. c \<in> set cs) (rev s))) \<subseteq> set cs"
    by (auto dest: set_takeWhileD)
  ultimately show ?thesis by blast
qed

subsection \<open>Splitting and joining\<close>

text \<open>\<open>strings.Split\<close> and \<open>strings.Cut\<close>/\<open>SplitN(_, _, 2)\<close> at a one-byte separator.\<close>

fun split_char :: "char \<Rightarrow> string \<Rightarrow> string list" where
  "split_char c [] = [[]]"
| "split_char c (x # s) =
     (if x = c then [] # split_char c s
      else (case split_char c s of [] \<Rightarrow> [[x]] | w # ws \<Rightarrow> (x # w) # ws))"

definition cut_char :: "char \<Rightarrow> string \<Rightarrow> string \<times> string option" where
  "cut_char c s = (takeWhile (\<lambda>x. x \<noteq> c) s,
     (case dropWhile (\<lambda>x. x \<noteq> c) s of [] \<Rightarrow> None | _ # r \<Rightarrow> Some r))"

fun str_join :: "string \<Rightarrow> string list \<Rightarrow> string" where
  "str_join sep [] = []"
| "str_join sep [w] = w"
| "str_join sep (w # v # ws) = w @ sep @ str_join sep (v # ws)"

lemma split_char_not_Nil [simp]: "split_char c s \<noteq> []"
  by (cases s) (auto split: list.splits)

lemma join_split_char: "str_join [c] (split_char c s) = s"
proof (induction s)
  case (Cons x s)
  obtain w ws where w: "split_char c s = w # ws" by (cases "split_char c s") auto
  with Cons.IH show ?case by (cases ws) auto
qed simp

lemma split_char_no_sep: "w \<in> set (split_char c s) \<Longrightarrow> c \<notin> set w"
proof (induction s arbitrary: w)
  case (Cons x s)
  obtain v vs where "split_char c s = v # vs" by (cases "split_char c s") auto
  with Cons show ?case by (auto split: if_splits)
qed simp

lemma split_char_append_sep:
  "c \<notin> set a \<Longrightarrow> split_char c (a @ c # s) = a # split_char c s"
  by (induction a) auto

lemma split_char_single: "c \<notin> set a \<Longrightarrow> split_char c a = [a]"
  by (induction a) auto

lemma split_char_join:
  "ws \<noteq> [] \<Longrightarrow> \<forall>w\<in>set ws. c \<notin> set w \<Longrightarrow> split_char c (str_join [c] ws) = ws"
  by (induction "[c]" ws rule: str_join.induct) (auto simp: split_char_single split_char_append_sep)

text \<open>\<open>strings.ReplaceAll\<close> with a non-empty pattern.\<close>

function replace_all :: "string \<Rightarrow> string \<Rightarrow> string \<Rightarrow> string" where
  "replace_all old new [] = []"
| "replace_all old new (c # s) =
     (if old \<noteq> [] \<and> has_prefix (c # s) old then new @ replace_all old new (drop (length old) (c # s))
      else c # replace_all old new s)"
  by pat_completeness auto
termination by (relation "measure (\<lambda>(old, new, s). length s)") auto

declare replace_all.simps(2) [simp del]

subsection \<open>Case\<close>

text \<open>
  \<open>strings.ToLower\<close>: ASCII letters are lowered; U+0130 and U+212A, the only other runes whose lower
  case is ASCII, become \<open>i\<close> and \<open>k\<close>; an invalid byte becomes U+FFFD. Other runes are left as they
  are: the agent compares the lowered text with ASCII words only.
\<close>

definition ascii_lower :: "char \<Rightarrow> char" where
  "ascii_lower c = (if byte_in 65 90 c then char_of (of_char c + 32 :: nat) else c)"

definition lower_rune :: "string \<Rightarrow> string" where
  "lower_rune r = (case r of
       [c] \<Rightarrow> if byte_in 0 127 c then [ascii_lower c] else [CHR 0xEF, CHR 0xBF, CHR 0xBD]
     | _ \<Rightarrow> if r = [CHR 0xC4, CHR 0xB0] then ''i''
           else if r = [CHR 0xE2, CHR 0x84, CHR 0xAA] then ''k'' else r)"

definition to_lower :: "string \<Rightarrow> string" where
  "to_lower s = concat (map lower_rune (runes s))"

definition ascii_upper :: "char \<Rightarrow> char" where
  "ascii_upper c = (if byte_in 97 122 c then char_of (of_char c - 32 :: nat) else c)"

lemma to_lower_ascii: "is_ascii s \<Longrightarrow> to_lower s = map ascii_lower s"
  by (induction s) (auto simp: to_lower_def runes_ascii_Cons lower_rune_def)

subsection \<open>Numbers and quoting\<close>

definition digit_char :: "nat \<Rightarrow> char" where
  "digit_char d = char_of (48 + d)"

fun nat_text :: "nat \<Rightarrow> string" where
  "nat_text n = (if n < 10 then [digit_char n] else nat_text (n div 10) @ [digit_char (n mod 10)])"

declare nat_text.simps [simp del]

text \<open>\<open>strconv.Itoa\<close> and \<open>%d\<close>.\<close>

definition int_text :: "int \<Rightarrow> string" where
  "int_text i = (if i < 0 then ''-'' @ nat_text (nat (- i)) else nat_text (nat i))"

definition is_digit :: "char \<Rightarrow> bool" where
  "is_digit c \<longleftrightarrow> byte_in 48 57 c"

fun digits_value :: "nat \<Rightarrow> string \<Rightarrow> nat" where
  "digits_value acc [] = acc"
| "digits_value acc (c # s) = digits_value (10 * acc + (of_char c - 48)) s"

text \<open>\<open>strconv.ParseInt(s, 10, 64)\<close>: an optional sign, digits, and the 64-bit range.\<close>

definition parse_int64 :: "string \<Rightarrow> int option" where
  "parse_int64 s =
     (let neg = has_prefix s ''-'';
          body = (if neg \<or> has_prefix s ''+'' then drop 1 s else s);
          v = int (digits_value 0 body)
      in if body = [] \<or> \<not> list_all is_digit body then None
         else if neg then (if v \<le> 2 ^ 63 then Some (- v) else None)
         else (if v < 2 ^ 63 then Some v else None))"

lemma char_of_small: "n < 256 \<Longrightarrow> char_of n = c \<longleftrightarrow> n = (of_char c :: nat)"
  by (auto simp: char_of_eq_iff take_bit_eq_mod)

lemma of_char_digit [simp]: "d < 10 \<Longrightarrow> (of_char (digit_char d) :: nat) = 48 + d"
  by (simp add: digit_char_def)

lemma nat_text_digits: "list_all is_digit (nat_text n)"
proof (induction n rule: nat_text.induct)
  case (1 n)
  then show ?case
    by (subst nat_text.simps) (auto simp: is_digit_def [abs_def] byte_in_def)
qed

lemma nat_text_not_Nil [simp]: "nat_text n \<noteq> []"
  by (subst nat_text.simps) simp

lemma digits_value_append: "digits_value acc (s @ [c]) = 10 * digits_value acc s + (of_char c - 48)"
  by (induction s arbitrary: acc) auto

lemma digits_value_nat_text: "digits_value 0 (nat_text n) = n"
proof (induction n rule: nat_text.induct)
  case (1 n)
  then show ?case
    by (subst nat_text.simps) (auto simp: digits_value_append)
qed

lemma nat_text_inj: "nat_text m = nat_text n \<longleftrightarrow> m = n"
  by (metis digits_value_nat_text)

lemma is_ascii_nat_text [simp]: "is_ascii (nat_text n)"
proof -
  have "list_all is_digit s \<Longrightarrow> is_ascii s" for s
    by (induction s) (auto simp: is_digit_def byte_in_def)
  then show ?thesis using nat_text_digits by blast
qed

lemma parse_int64_nat_text: "n < 2 ^ 63 \<Longrightarrow> parse_int64 (nat_text n) = Some (int n)"
proof -
  assume n: "n < 2 ^ 63"
  obtain c s where c: "nat_text n = c # s" by (cases "nat_text n") auto
  with nat_text_digits [of n] have "is_digit c" by simp
  then have "c \<noteq> CHR ''-''" "c \<noteq> CHR ''+''" by (auto simp: is_digit_def byte_in_def)
  moreover have "int n < 2 ^ 63" using n by (metis of_nat_less_iff of_nat_numeral of_nat_power)
  ultimately show ?thesis
    using nat_text_digits [of n] digits_value_nat_text [of n] c
    by (auto simp: parse_int64_def Let_def)
qed

lemma parse_int64_int_text:
  assumes "- (2 ^ 63) \<le> k" "k < 2 ^ 63"
  shows "parse_int64 (int_text k) = Some k"
proof (cases "k < 0")
  case True
  with assms have "int (nat (- k)) \<le> 2 ^ 63" by simp
  with True show ?thesis
    using nat_text_digits [of "nat (- k)"]
    by (simp add: parse_int64_def int_text_def Let_def has_prefix_def digits_value_nat_text)
next
  case False
  with assms have "nat k < 2 ^ 63" by (simp add: nat_less_iff)
  with False show ?thesis using parse_int64_nat_text [of "nat k"] by (simp add: int_text_def)
qed

text \<open>
  \<open>%q\<close>: quotes, backslashes and control bytes escaped; a byte that is not valid UTF-8 as \<open>\xNN\<close>.
  Valid runes beyond ASCII are kept (Go escapes the unprintable ones among them).
\<close>

definition hex_digit :: "nat \<Rightarrow> char" where
  "hex_digit d = (if d < 10 then char_of (48 + d) else char_of (87 + d))"

definition quote_rune :: "string \<Rightarrow> string" where
  "quote_rune r =
     (case r of
        [c] \<Rightarrow>
          if c = CHR 0x22 then [CHR 0x5C, CHR 0x22]
          else if c = CHR 0x5C then [CHR 0x5C, CHR 0x5C]
          else if c = CHR 0x07 then [CHR 0x5C, CHR ''a'']
          else if c = CHR 0x08 then [CHR 0x5C, CHR ''b'']
          else if c = CHR 0x0C then [CHR 0x5C, CHR ''f'']
          else if c = CHR 0x0A then [CHR 0x5C, CHR ''n'']
          else if c = CHR 0x0D then [CHR 0x5C, CHR ''r'']
          else if c = CHR 0x09 then [CHR 0x5C, CHR ''t'']
          else if c = CHR 0x0B then [CHR 0x5C, CHR ''v'']
          else if byte_in 32 126 c then [c]
          else [CHR 0x5C, CHR ''x'', hex_digit (of_char c div 16), hex_digit (of_char c mod 16)]
      | _ \<Rightarrow> r)"

definition quote_text :: "string \<Rightarrow> string" where
  "quote_text s = [CHR 0x22] @ concat (map quote_rune (runes s)) @ [CHR 0x22]"

end
