(* ===== verification/GoJson.thy ===== *)
theory GoJson
  imports GoStrings "HOL-Library.AList"
begin

text \<open>
  The part of \<open>encoding/json\<close> the agent relies on. JSON text is parsed by a parameter
  \<open>parse :: string \<Rightarrow> goerror + json\<close> of the definitions that decode (\<open>Inl\<close>: a syntax error); what
  \<open>Unmarshal\<close> then does with the value is modelled here: object members are matched with struct
  fields exactly or else case-insensitively, in document order; \<open>null\<close> leaves a field alone; a value
  of the wrong type leaves the field alone, is reported as the first such error, and decoding goes on.
\<close>

datatype json =
    JNull
  | JBool bool
  | JNum string
  | JStr string
  | JArr "json list"
  | JObj "(string \<times> json) list"

fun json_kind :: "json \<Rightarrow> string" where
  "json_kind JNull = ''null''"
| "json_kind (JBool b) = ''bool''"
| "json_kind (JNum n) = ''number''"
| "json_kind (JStr s) = ''string''"
| "json_kind (JArr xs) = ''array''"
| "json_kind (JObj ms) = ''object''"

text \<open>The fold that member names are compared under (ASCII letters, U+017F and U+212A).\<close>

definition fold_name :: "string \<Rightarrow> string" where
  "fold_name s = concat (map (\<lambda>r. case r of [c] \<Rightarrow> [ascii_lower c]
      | _ \<Rightarrow> if r = [CHR 0xC5, CHR 0xBF] then ''s''
            else if r = [CHR 0xE2, CHR 0x84, CHR 0xAA] then ''k'' else r) (runes s))"

text \<open>A field of a struct \<open>'s\<close>: its JSON name and how a value is stored into it.\<close>

type_synonym 's field = "string \<times> (json \<Rightarrow> 's \<Rightarrow> goerror option \<times> 's)"

definition find_field :: "'s field list \<Rightarrow> string \<Rightarrow> (json \<Rightarrow> 's \<Rightarrow> goerror option \<times> 's) option" where
  "find_field fs k =
     (case find (\<lambda>f. fst f = k) fs of
        Some f \<Rightarrow> Some (snd f)
      | None \<Rightarrow> map_option snd (find (\<lambda>f. fold_name (fst f) = fold_name k) fs))"

definition first_error :: "goerror option \<Rightarrow> goerror option \<Rightarrow> goerror option" where
  "first_error a b = (case a of Some e \<Rightarrow> Some e | None \<Rightarrow> b)"

fun decode_members :: "'s field list \<Rightarrow> (string \<times> json) list \<Rightarrow> 's \<Rightarrow> goerror option \<times> 's" where
  "decode_members fs [] s = (None, s)"
| "decode_members fs ((k, v) # ms) s =
     (case find_field fs k of
        None \<Rightarrow> decode_members fs ms s
      | Some d \<Rightarrow>
          (case d v s of (e, s1) \<Rightarrow>
             (case decode_members fs ms s1 of (e2, s2) \<Rightarrow> (first_error e e2, s2))))"

definition decode_struct :: "string \<Rightarrow> 's field list \<Rightarrow> json \<Rightarrow> 's \<Rightarrow> goerror option \<times> 's" where
  "decode_struct tname fs j s =
     (case j of
        JObj ms \<Rightarrow> decode_members fs ms s
      | JNull \<Rightarrow> (None, s)
      | _ \<Rightarrow> (Some (Plain (''json: cannot unmarshal '' @ json_kind j @ '' into Go value of type '' @ tname)), s))"

definition type_error :: "string \<Rightarrow> string \<Rightarrow> string \<Rightarrow> goerror" where
  "type_error v path ty =
     Plain (''json: cannot unmarshal '' @ v @ '' into Go struct field '' @ path @ '' of type '' @ ty)"

text \<open>Setters for fields of type \<open>string\<close>, \<open>bool\<close>, \<open>int\<close>, \<open>[]string\<close> and \<open>map[string]string\<close>.\<close>

definition dec_string :: "string \<Rightarrow> ((string \<Rightarrow> string) \<Rightarrow> 's \<Rightarrow> 's) \<Rightarrow> json \<Rightarrow> 's \<Rightarrow> goerror option \<times> 's" where
  "dec_string path upd j s =
     (case j of JStr x \<Rightarrow> (None, upd (\<lambda>_. x) s) | JNull \<Rightarrow> (None, s)
      | _ \<Rightarrow> (Some (type_error (json_kind j) path ''string''), s))"

definition dec_bool :: "string \<Rightarrow> ((bool \<Rightarrow> bool) \<Rightarrow> 's \<Rightarrow> 's) \<Rightarrow> json \<Rightarrow> 's \<Rightarrow> goerror option \<times> 's" where
  "dec_bool path upd j s =
     (case j of JBool x \<Rightarrow> (None, upd (\<lambda>_. x) s) | JNull \<Rightarrow> (None, s)
      | _ \<Rightarrow> (Some (type_error (json_kind j) path ''bool''), s))"

definition dec_int :: "string \<Rightarrow> ((int \<Rightarrow> int) \<Rightarrow> 's \<Rightarrow> 's) \<Rightarrow> json \<Rightarrow> 's \<Rightarrow> goerror option \<times> 's" where
  "dec_int path upd j s =
     (case j of
        JNum t \<Rightarrow> (case parse_int64 t of Some x \<Rightarrow> (None, upd (\<lambda>_. x) s)
                   | None \<Rightarrow> (Some (type_error (''number '' @ t) path ''int''), s))
      | JNull \<Rightarrow> (None, s)
      | _ \<Rightarrow> (Some (type_error (json_kind j) path ''int''), s))"

fun dec_strings :: "string \<Rightarrow> json list \<Rightarrow> goerror option \<times> string list" where
  "dec_strings path [] = (None, [])"
| "dec_strings path (j # js) =
     (case dec_strings path js of (e, xs) \<Rightarrow>
        (case j of JStr x \<Rightarrow> (e, x # xs) | JNull \<Rightarrow> (e, [] # xs)
         | _ \<Rightarrow> (Some (type_error (json_kind j) path ''string''), [] # xs)))"

definition dec_string_list :: "string \<Rightarrow> ((string list \<Rightarrow> string list) \<Rightarrow> 's \<Rightarrow> 's) \<Rightarrow> json \<Rightarrow> 's \<Rightarrow> goerror option \<times> 's" where
  "dec_string_list path upd j s =
     (case j of
        JArr js \<Rightarrow> (case dec_strings path js of (e, xs) \<Rightarrow> (e, upd (\<lambda>_. xs) s))
      | JNull \<Rightarrow> (None, upd (\<lambda>_. []) s)
      | _ \<Rightarrow> (Some (type_error (json_kind j) path ''[]string''), s))"

fun dec_pairs :: "string \<Rightarrow> (string \<times> json) list \<Rightarrow> (string \<times> string) list \<Rightarrow> goerror option \<times> (string \<times> string) list" where
  "dec_pairs path [] m = (None, m)"
| "dec_pairs path ((k, j) # ms) m =
     (case j of
        JStr x \<Rightarrow> dec_pairs path ms (AList.update k x m)
      | JNull \<Rightarrow> dec_pairs path ms (AList.update k [] m)
      | _ \<Rightarrow> (case dec_pairs path ms (AList.update k [] m) of (_, m') \<Rightarrow>
               (Some (type_error (json_kind j) path ''string''), m')))"

definition dec_string_map :: "string \<Rightarrow> (((string \<times> string) list \<Rightarrow> (string \<times> string) list) \<Rightarrow> 's \<Rightarrow> 's) \<Rightarrow> json \<Rightarrow> 's \<Rightarrow> goerror option \<times> 's" where
  "dec_string_map path upd j s =
     (case j of
        JObj ms \<Rightarrow> (case dec_pairs path ms [] of (e, m) \<Rightarrow> (e, upd (\<lambda>_. m) s))
      | JNull \<Rightarrow> (None, upd (\<lambda>_. []) s)
      | _ \<Rightarrow> (Some (type_error (json_kind j) path ''map[string]string''), s))"

lemmas json_dec_defs = decode_struct_def dec_string_def dec_bool_def dec_int_def dec_string_list_def
  dec_string_map_def find_field_def first_error_def

subsection \<open>Encoding\<close>

definition json_escape :: "string \<Rightarrow> string" where
  "json_escape r =
     (case r of
        [c] \<Rightarrow>
          if c = CHR 0x22 then [CHR 0x5C, CHR 0x22]
          else if c = CHR 0x5C then [CHR 0x5C, CHR 0x5C]
          else if c = CHR 0x08 then [CHR 0x5C, CHR ''b'']
          else if c = CHR 0x0C then [CHR 0x5C, CHR ''f'']
          else if c = CHR 0x0A then [CHR 0x5C, CHR ''n'']
          else if c = CHR 0x0D then [CHR 0x5C, CHR ''r'']
          else if c = CHR 0x09 then [CHR 0x5C, CHR ''t'']
          else if byte_in 0 31 c then [CHR 0x5C] @ ''u00'' @ [hex_digit (of_char c div 16), hex_digit (of_char c mod 16)]
          else if byte_in 0 127 c then [c]
          else [CHR 0x5C] @ ''ufffd''
      | _ \<Rightarrow> if r = [CHR 0xE2, CHR 0x80, CHR 0xA8] then [CHR 0x5C] @ ''u2028''
            else if r = [CHR 0xE2, CHR 0x80, CHR 0xA9] then [CHR 0x5C] @ ''u2029'' else r)"

definition json_quote :: "string \<Rightarrow> string" where
  "json_quote s = [CHR 0x22] @ concat (map json_escape (runes s)) @ [CHR 0x22]"

fun json_text :: "json \<Rightarrow> string" where
  "json_text JNull = ''null''"
| "json_text (JBool b) = (if b then ''true'' else ''false'')"
| "json_text (JNum n) = n"
| "json_text (JStr s) = json_quote s"
| "json_text (JArr xs) = ''['' @ str_join '','' (map json_text xs) @ '']''"
| "json_text (JObj ms) = ''{'' @ str_join '','' (map (\<lambda>(k, v). json_quote k @ '':'' @ json_text v) ms) @ ''}''"

text \<open>Members that \<open>omitempty\<close> drops when empty.\<close>

definition omit_empty :: "string \<Rightarrow> string \<Rightarrow> (string \<times> json) list" where
  "omit_empty k s = (if s = [] then [] else [(k, JStr s)])"

definition omit_zero :: "string \<Rightarrow> int \<Rightarrow> (string \<times> json) list" where
  "omit_zero k n = (if n = 0 then [] else [(k, JNum (int_text n))])"

definition omit_false :: "string \<Rightarrow> bool \<Rightarrow> (string \<times> json) list" where
  "omit_false k b = (if b then [(k, JBool True)] else [])"

text \<open>
  \<open>Marshal\<close> and \<open>MarshalIndent(v, "", "  ")\<close> escape \<open><\<close>, \<open>>\<close> and \<open>&\<close>; an \<open>Encoder\<close> with
  \<open>SetEscapeHTML(false)\<close> (above) does not.
\<close>

definition json_escape_html :: "string \<Rightarrow> string" where
  "json_escape_html r =
     (if r = ''<'' then [CHR 0x5C] @ ''u003c'' else if r = ''>'' then [CHR 0x5C] @ ''u003e''
      else if r = ''&'' then [CHR 0x5C] @ ''u0026'' else json_escape r)"

definition json_quote_html :: "string \<Rightarrow> string" where
  "json_quote_html s = [CHR 0x22] @ concat (map json_escape_html (runes s)) @ [CHR 0x22]"

definition newline_indent :: "nat \<Rightarrow> string" where
  "newline_indent d = CHR 0x0A # replicate (2 * d) CHR '' ''"

fun json_indent :: "nat \<Rightarrow> json \<Rightarrow> string" where
  "json_indent d JNull = ''null''"
| "json_indent d (JBool b) = (if b then ''true'' else ''false'')"
| "json_indent d (JNum n) = n"
| "json_indent d (JStr s) = json_quote_html s"
| "json_indent d (JArr xs) =
     (if xs = [] then ''[]''
      else ''['' @ newline_indent (Suc d)
        @ str_join ('','' @ newline_indent (Suc d)) (map (json_indent (Suc d)) xs)
        @ newline_indent d @ '']'')"
| "json_indent d (JObj ms) =
     (if ms = [] then ''{}''
      else ''{'' @ newline_indent (Suc d)
        @ str_join ('','' @ newline_indent (Suc d))
            (map (\<lambda>(k, v). json_quote_html k @ '': '' @ json_indent (Suc d) v) ms)
        @ newline_indent d @ ''}'')"

end
