(* ===== verification/Api.thy ===== *)
theory Api
  imports Complex_Main GoJson
begin

text \<open>
  Package \<open>internal/api\<close>: the message types of \<open>types.go\<close> and the HTTP client of \<open>client.go\<close>. The HTTP
  library is a parameter: \<open>http\<close> maps a request to what \<open>resty\<close> returns, a transport error or a
  response. A client keeps the two headers the agent authenticates with.
\<close>

text \<open>A \<open>float64\<close>: every finite one is a rational number; \<open>Infinite\<close> carries whether it is negative.\<close>

datatype go_float = NaN | Infinite bool | Num rat

definition finite_float :: "go_float \<Rightarrow> bool" where
  "finite_float x \<longleftrightarrow> (case x of Num _ \<Rightarrow> True | _ \<Rightarrow> False)"

text \<open>Floats in \<open>json.Marshal\<close>: \<open>num_text\<close> renders a finite float; others cannot be encoded.\<close>

definition marshal_float :: "(rat \<Rightarrow> string) \<Rightarrow> go_float \<Rightarrow> goerror + json" where
  "marshal_float num_text x =
     (case x of Num q \<Rightarrow> Inr (JNum (num_text q))
      | NaN \<Rightarrow> Inl (Plain ''json: unsupported value: NaN'')
      | Infinite neg \<Rightarrow> Inl (Plain (if neg then ''json: unsupported value: -Inf'' else ''json: unsupported value: +Inf'')))"

definition optional_float :: "(rat \<Rightarrow> string) \<Rightarrow> string \<Rightarrow> go_float option \<Rightarrow> goerror + (string \<times> json) list" where
  "optional_float num_text k x =
     (case x of None \<Rightarrow> Inr [] | Some f \<Rightarrow> rbind (marshal_float num_text f) (\<lambda>j. Inr [(k, j)]))"

subsection \<open>URLs\<close>

text \<open>\<open>url.Parse\<close> and \<open>URL.String\<close> are parameters: what they give for a string and for the parts.\<close>

record url_parts =
  urScheme :: string
  urHost :: string

record url_lib =
  ulParse :: "string \<Rightarrow> goerror + url_parts"
  ulText :: "string \<Rightarrow> string \<Rightarrow> string \<Rightarrow> string \<Rightarrow> string"

subsection \<open>types.go\<close>

text \<open>\<open>RootAccessProfile\<close> is a string type; these are its declared constants.\<close>

type_synonym root_profile = string

definition declared_profiles :: "root_profile list" where
  "declared_profiles = [''off'', ''operational'', ''task'', ''terminal'', ''operational_task'',
     ''operational_terminal'', ''task_terminal'', ''all'']"

record desired_snapshot =
  dsProfile :: root_profile
  dsUpdatedAt :: string

record agent_report =
  arAppliedProfile :: root_profile
  arLastAppliedAt :: string
  arLastError :: string

record node_location =
  locProvider :: string
  locSource :: string
  locRegion :: string
  locZone :: string
  locLatitude :: "go_float option"
  locLongitude :: "go_float option"

text \<open>\<open>Task.Payload\<close> is a \<open>json.RawMessage\<close>: the bytes of the member, decoded later.\<close>

record task =
  taskID :: string
  taskType :: string
  taskPayload :: string
  taskTimeoutSeconds :: int

record log_entry =
  leTimestamp :: int
  leStream :: string
  leLine :: string

record complete_request =
  crTaskID :: string
  crStatus :: string
  crResult :: "json option"
  crOutput :: string
  crExitCode :: int
  crError :: string
  crCompletedAt :: int
  crDurationMS :: int

record claim_request =
  clMaxTasks :: int
  clWaitMS :: int
  clRootAccess :: "agent_report option"

record claim_response =
  rsTask :: "task option"
  rsRootAccess :: "desired_snapshot option"

record control_response =
  ctStatus :: string
  ctCancelRequested :: bool
  ctCancelReason :: string

record enrollment_status =
  esStatus :: string
  esNodeID :: string
  esAgentToken :: string

record error_response =
  erError :: string
  erMessage :: string

definition error_response_text :: "error_response \<Rightarrow> string" where
  "error_response_text e =
     (if erMessage e \<noteq> [] then erMessage e else if erError e \<noteq> [] then erError e else ''request failed'')"

subsection \<open>client.go: errors\<close>

text \<open>\<open>RequestError.Error\<close>. Methods are ASCII, so \<open>strings.ToUpper\<close> is bytewise.\<close>

definition request_error_text :: "request_error \<Rightarrow> string" where
  "request_error_text e =
     (let m0 = trim_space (reqMessage e);
          m1 = (if m0 = [] then trim_space (reqBody e) else m0);
          m = (if m1 = [] then ''request failed'' else m1);
          head = map ascii_upper (reqMethod e) @ '' '' @ reqPath e @ '': status='' @ int_text (reqStatusCode e)
      in if reqStatusCode e = 401 \<or> reqStatusCode e = 403
         then head @ '' unauthorized message='' @ m
         else head @ '' message='' @ m)"

text \<open>What \<open>resty\<close> returns: the status code, the status line, the body and the decoded error body.\<close>

record http_response =
  hrStatus :: int
  hrStatusLine :: string
  hrBody :: string
  hrError :: error_response

definition new_request_error :: "string \<Rightarrow> string \<Rightarrow> http_response \<Rightarrow> request_error" where
  "new_request_error verb path r =
     (let m0 = trim_space (error_response_text (hrError r));
          body = trim_space (hrBody r);
          m1 = (if m0 = [] then body else m0);
          m = (if m1 = [] then hrStatusLine r else m1)
      in \<lparr>reqMethod = verb, reqPath = path, reqStatusCode = hrStatus r, reqMessage = m, reqBody = body\<rparr>)"

definition format_api_error :: "http_response \<Rightarrow> error_response \<Rightarrow> string" where
  "format_api_error r e =
     (let m0 = trim_space (error_response_text e);
          m1 = (if m0 = [] then trim_space (hrBody r) else m0);
          m = (if m1 = [] then hrStatusLine r else m1)
      in if hrStatus r = 401 \<or> hrStatus r = 403
         then ''status='' @ int_text (hrStatus r) @ '' unauthorized message='' @ m
         else ''status='' @ int_text (hrStatus r) @ '' message='' @ m)"

text \<open>The retry condition given to \<open>resty\<close>.\<close>

definition retry_condition :: "goerror option \<Rightarrow> int \<Rightarrow> bool" where
  "retry_condition err status = (err \<noteq> None \<or> status = 429 \<or> 500 \<le> status)"

text \<open>\<open>resty\<close>'s \<open>IsError\<close>: status above 399.\<close>

definition is_error_status :: "int \<Rightarrow> bool" where
  "is_error_status s \<longleftrightarrow> 399 < s"

subsection \<open>client.go: requests\<close>

record client =
  cAuthToken :: string
  cNodeIDHeader :: string

definition set_agent_token :: "string \<Rightarrow> client \<Rightarrow> client" where
  "set_agent_token t c = (if trim_space t = [] then c else c\<lparr>cAuthToken := t\<rparr>)"

definition set_agent_node_id :: "string \<Rightarrow> client \<Rightarrow> client" where
  "set_agent_node_id n c = (if trim_space n = [] then c else c\<lparr>cNodeIDHeader := n\<rparr>)"

record http_request =
  hqMethod :: string
  hqPath :: string
  hqAuthToken :: string
  hqNodeID :: string
  hqBody :: "json option"

type_synonym http_lib = "http_request \<Rightarrow> goerror + http_response"

definition send_request :: "http_lib \<Rightarrow> string \<Rightarrow> client \<Rightarrow> string \<Rightarrow> json option \<Rightarrow> goerror + http_response" where
  "send_request http verb c path body =
     (case http \<lparr>hqMethod = verb, hqPath = path, hqAuthToken = cAuthToken c,
                 hqNodeID = cNodeIDHeader c, hqBody = body\<rparr> of
        Inl e \<Rightarrow> Inl (wrap_prefix (verb @ '' '' @ path @ '': '') e)
      | Inr r \<Rightarrow>
          if is_error_status (hrStatus r)
          then (let q = new_request_error verb path r in Inl (Request (request_error_text q) q))
          else Inr r)"

definition client_post :: "http_lib \<Rightarrow> client \<Rightarrow> string \<Rightarrow> json \<Rightarrow> goerror + http_response" where
  "client_post http c path body = send_request http ''post'' c path (Some body)"

definition client_get :: "http_lib \<Rightarrow> client \<Rightarrow> string \<Rightarrow> goerror + http_response" where
  "client_get http c path = send_request http ''get'' c path None"

definition api_path :: "string \<Rightarrow> string" where
  "api_path p = ''/api/v1'' @ p"

text \<open>\<open>url.PathEscape\<close>: unreserved bytes and \<open>$ & + : = @\<close> stay, every other byte becomes \<open>%XX\<close>.\<close>

definition upper_hex :: "nat \<Rightarrow> char" where
  "upper_hex d = (if d < 10 then char_of (48 + d) else char_of (55 + d))"

definition path_safe :: "char \<Rightarrow> bool" where
  "path_safe c \<longleftrightarrow> byte_in 97 122 c \<or> byte_in 65 90 c \<or> byte_in 48 57 c \<or> c \<in> set ''-_.~$&+:=@''"

definition escape_byte :: "char \<Rightarrow> string" where
  "escape_byte c = (if path_safe c then [c]
     else [CHR ''%'', upper_hex (of_char c div 16), upper_hex (of_char c mod 16)])"

definition path_escape :: "string \<Rightarrow> string" where
  "path_escape s = concat (map escape_byte s)"

definition enrollment_path :: "string \<Rightarrow> string" where
  "enrollment_path token = api_path (''/enrollments/'' @ token)"

definition claim_path :: string where
  "claim_path = api_path ''/agent/tasks/claim''"

definition task_accepted_path :: "string \<Rightarrow> string" where
  "task_accepted_path tid = api_path (''/agent/tasks/'' @ path_escape tid @ ''/accepted'')"

definition task_started_path :: "string \<Rightarrow> string" where
  "task_started_path tid = api_path (''/agent/tasks/'' @ path_escape tid @ ''/started'')"

definition task_logs_path :: "string \<Rightarrow> string" where
  "task_logs_path tid = api_path (''/agent/tasks/'' @ path_escape tid @ ''/logs'')"

definition task_completed_path :: "string \<Rightarrow> string" where
  "task_completed_path tid = api_path (''/agent/tasks/'' @ path_escape tid @ ''/completed'')"

definition task_control_path :: "string \<Rightarrow> string" where
  "task_control_path tid = api_path (''/agent/tasks/'' @ path_escape tid @ ''/control'')"

definition update_progress_path :: "string \<Rightarrow> string" where
  "update_progress_path target = api_path (''/agent-updates/targets/'' @ path_escape target @ ''/progress'')"

subsection \<open>Facts\<close>

lemma upper_hex_safe: "d < 16 \<Longrightarrow> upper_hex d \<noteq> CHR ''/'' \<and> upper_hex d \<noteq> CHR ''?''  \<and> upper_hex d \<noteq> CHR ''#''"
proof -
  assume "d < 16"
  then have "d \<in> set [0..<16]" by simp
  moreover have "\<forall>d \<in> set [0..<16]. upper_hex d \<noteq> CHR ''/'' \<and> upper_hex d \<noteq> CHR ''?'' \<and> upper_hex d \<noteq> CHR ''#''"
    by code_simp
  ultimately show ?thesis by blast
qed

lemma path_safe_not_sep: "path_safe c \<Longrightarrow> c \<noteq> CHR ''/'' \<and> c \<noteq> CHR ''?'' \<and> c \<noteq> CHR ''#''"
  by (auto simp: path_safe_def byte_in_def)

lemma of_char_bound: "(of_char c :: nat) < 256"
  by (metis of_char_mod_256 mod_less_divisor zero_less_numeral)

lemma of_char_div16: "(of_char c :: nat) div 16 < 16"
  using of_char_bound [of c] by (intro less_mult_imp_div_less) linarith

lemma escape_byte_no_sep:
  assumes "c = CHR ''/'' \<or> c = CHR ''?'' \<or> c = CHR ''#''"
  shows "c \<notin> set (escape_byte x)"
proof (cases "path_safe x")
  case True
  with path_safe_not_sep [OF True] assms show ?thesis by (auto simp: escape_byte_def)
next
  case False
  have "(of_char x :: nat) div 16 < 16" "(of_char x :: nat) mod 16 < 16"
    using of_char_div16 [of x] by auto
  from upper_hex_safe [OF this(1)] upper_hex_safe [OF this(2)] assms False
  show ?thesis by (auto simp: escape_byte_def)
qed

lemma path_escape_no_sep:
  "c = CHR ''/'' \<or> c = CHR ''?'' \<or> c = CHR ''#'' \<Longrightarrow> c \<notin> set (path_escape s)"
  using escape_byte_no_sep by (auto simp: path_escape_def)

text \<open>What a server's \<open>PathUnescape\<close> makes of an escaped segment: the id itself.\<close>

definition hex_value :: "char \<Rightarrow> nat" where
  "hex_value c = (if byte_in 48 57 c then of_char c - 48 else of_char c - 55)"

fun unescape :: "string \<Rightarrow> string" where
  "unescape [] = []"
| "unescape (c # s) =
     (if c = CHR ''%'' then
        (case s of a # b # t \<Rightarrow> char_of (16 * hex_value a + hex_value b) # unescape t | _ \<Rightarrow> [])
      else c # unescape s)"

lemma hex_value_upper_hex: "d < 16 \<Longrightarrow> hex_value (upper_hex d) = d"
  by (auto simp: hex_value_def upper_hex_def byte_in_def)

lemma unescape_escape_byte: "unescape (escape_byte c @ s) = c # unescape s"
proof (cases "path_safe c")
  case True
  then have "c \<noteq> CHR ''%''" by (auto simp: path_safe_def byte_in_def)
  with True show ?thesis by (simp add: escape_byte_def)
next
  case False
  with of_char_div16 [of c] show ?thesis by (simp add: escape_byte_def hex_value_upper_hex)
qed

lemma unescape_path_escape: "unescape (path_escape s) = s"
  by (induction s) (auto simp: path_escape_def unescape_escape_byte)

lemma path_escape_inj: "path_escape s = path_escape t \<Longrightarrow> s = t"
  by (metis unescape_path_escape)

lemma send_request_ok:
  "send_request http verb c path body = Inr r \<Longrightarrow>
    http \<lparr>hqMethod = verb, hqPath = path, hqAuthToken = cAuthToken c, hqNodeID = cNodeIDHeader c, hqBody = body\<rparr> = Inr r
    \<and> \<not> is_error_status (hrStatus r)"
  by (auto simp: send_request_def Let_def split: sum.splits if_splits)

text \<open>A transport failure is no \<open>RequestError\<close>; an error status is one, with that status.\<close>

lemma send_request_status:
  assumes "send_request http verb c path body = Inl e"
    and "\<And>q e'. http q = Inl e' \<Longrightarrow> err_as_request e' = None"
  shows "(\<exists>r q. http q = Inr r \<and> is_error_status (hrStatus r)
            \<and> map_option reqStatusCode (err_as_request e) = Some (hrStatus r))
       \<or> err_as_request e = None"
proof -
  let ?q = "\<lparr>hqMethod = verb, hqPath = path, hqAuthToken = cAuthToken c,
              hqNodeID = cNodeIDHeader c, hqBody = body\<rparr>"
  show ?thesis
  proof (cases "http ?q")
    case (Inl e')
    with assms show ?thesis by (auto simp: send_request_def)
  next
    case (Inr r)
    with assms(1) have "is_error_status (hrStatus r)"
      "e = Request (request_error_text (new_request_error verb path r)) (new_request_error verb path r)"
      by (auto simp: send_request_def Let_def split: if_splits)
    then show ?thesis using Inr by (auto simp: new_request_error_def Let_def)
  qed
qed

lemma set_agent_token_nonblank: "cAuthToken c \<noteq> [] \<Longrightarrow> cAuthToken (set_agent_token t c) \<noteq> []"
  by (auto simp: set_agent_token_def)



end
