(* ===== verification/GoIO.thy ===== *)
theory GoIO
  imports GoStrings
begin

text \<open>
  The parts of \<open>path/filepath\<close>, \<open>os\<close> and \<open>bufio\<close> the agent uses. Paths are Unix paths. The file
  system is a map from paths to contents and permission bits; every call consumes one tick, and the
  environment decides per tick and call whether it fails (\<open>wfault\<close>), what a failed write leaves
  behind (\<open>wpartial\<close>) and what random text \<open>os.CreateTemp\<close> tries (\<open>wtemp\<close>). Theorems hold for
  every such environment, so they cover every pattern of I/O failures. Directories are not tracked:
  a missing directory is a fault of the call that meets it.
\<close>

subsection \<open>Lexical paths\<close>

text \<open>One component against the reversed stack of those kept (\<open>filepath.Clean\<close>).\<close>

definition clean_step :: "bool \<Rightarrow> string list \<Rightarrow> string \<Rightarrow> string list" where
  "clean_step rooted st c =
     (if c = [] \<or> c = ''.'' then st
      else if c = ''..'' then
        (case st of
           t # ts \<Rightarrow> if t = ''..'' then c # st else ts
         | [] \<Rightarrow> if rooted then [] else [c])
      else c # st)"

definition path_clean :: "string \<Rightarrow> string" where
  "path_clean p =
     (let rooted = has_prefix p ''/'';
          out = str_join ''/'' (rev (foldl (clean_step rooted) [] (split_char CHR ''/'' p)))
      in if rooted then CHR ''/'' # out else if out = [] then ''.'' else out)"

definition path_dir :: "string \<Rightarrow> string" where
  "path_dir p = path_clean (case last_index_of p CHR ''/'' of None \<Rightarrow> [] | Some i \<Rightarrow> take (Suc i) p)"

definition path_join :: "string list \<Rightarrow> string" where
  "path_join ps = (let qs = filter (\<lambda>q. q \<noteq> []) ps in if qs = [] then [] else path_clean (str_join ''/'' qs))"

lemma path_clean_not_Nil [simp]: "path_clean p \<noteq> []"
  by (simp add: path_clean_def Let_def)

subsection \<open>The file system\<close>

datatype os_op =
    OpMkdirAll string
  | OpCreateTemp string string
  | OpWrite string string
  | OpChmod string nat
  | OpClose string
  | OpRename string string
  | OpRemove string
  | OpReadFile string
  | OpWriteFile string string nat

record world =
  wfiles :: "string \<Rightarrow> (string \<times> nat) option"
  wtick :: nat
  wfault :: "nat \<Rightarrow> os_op \<Rightarrow> goerror option"
  wpartial :: "nat \<Rightarrow> nat option"
  wtemp :: "nat \<Rightarrow> string"

definition not_exist :: "string \<Rightarrow> string \<Rightarrow> goerror" where
  "not_exist call p = Wrapped (call @ '' '' @ p @ '': no such file or directory'') (Sentinel OsErrNotExist)"

definition set_files :: "(string \<Rightarrow> (string \<times> nat) option) \<Rightarrow> world \<Rightarrow> world" where
  "set_files f w = w\<lparr>wfiles := f, wtick := Suc (wtick w)\<rparr>"

lemma set_files_simps [simp]:
  "wfiles (set_files f w) = f"
  "wtick (set_files f w) = Suc (wtick w)"
  "wfault (set_files f w) = wfault w"
  "wpartial (set_files f w) = wpartial w"
  "wtemp (set_files f w) = wtemp w"
  by (simp_all add: set_files_def)

definition os_mkdir_all :: "string \<Rightarrow> world \<Rightarrow> goerror option \<times> world" where
  "os_mkdir_all p w = (wfault w (wtick w) (OpMkdirAll p), set_files (wfiles w) w)"

text \<open>The name \<open>os.CreateTemp\<close> builds: the last \<open>*\<close> of the pattern is replaced.\<close>

definition temp_name :: "string \<Rightarrow> string \<Rightarrow> string \<Rightarrow> string" where
  "temp_name dir pattern rnd =
     (let base = (if has_suffix dir ''/'' then dir else dir @ ''/'') in
      case last_index_of pattern CHR ''*'' of
        None \<Rightarrow> base @ pattern @ rnd
      | Some i \<Rightarrow> base @ take i pattern @ rnd @ drop (Suc i) pattern)"

definition os_create_temp :: "string \<Rightarrow> string \<Rightarrow> world \<Rightarrow> (goerror + string) \<times> world" where
  "os_create_temp dir pattern w =
     (let t = temp_name dir pattern (wtemp w (wtick w)) in
      case wfault w (wtick w) (OpCreateTemp dir pattern) of
        Some e \<Rightarrow> (Inl e, set_files (wfiles w) w)
      | None \<Rightarrow>
          (case wfiles w t of
             Some _ \<Rightarrow> (Inl (Plain (''createtemp '' @ t @ '': file exists'')), set_files (wfiles w) w)
           | None \<Rightarrow> (Inr t, set_files ((wfiles w)(t \<mapsto> ([], 0x180))) w)))"

text \<open>\<open>file.Write\<close>, \<open>file.WriteString\<close> on the open file \<open>p\<close>: append; a failed write may keep a part.\<close>

definition append_file :: "string \<Rightarrow> string \<Rightarrow> world \<Rightarrow> (string \<Rightarrow> (string \<times> nat) option)" where
  "append_file p d w =
     (wfiles w)(p \<mapsto> (case wfiles w p of Some (old, m) \<Rightarrow> (old @ d, m) | None \<Rightarrow> (d, 0x180)))"

definition os_write :: "string \<Rightarrow> string \<Rightarrow> world \<Rightarrow> goerror option \<times> world" where
  "os_write p d w =
     (case wfault w (wtick w) (OpWrite p d) of
        Some e \<Rightarrow> (Some e, set_files
          (case wpartial w (wtick w) of None \<Rightarrow> wfiles w | Some k \<Rightarrow> append_file p (take k d) w) w)
      | None \<Rightarrow> (None, set_files (append_file p d w) w))"

definition os_chmod :: "string \<Rightarrow> nat \<Rightarrow> world \<Rightarrow> goerror option \<times> world" where
  "os_chmod p m w =
     (case wfault w (wtick w) (OpChmod p m) of
        Some e \<Rightarrow> (Some e, set_files (wfiles w) w)
      | None \<Rightarrow>
          (case wfiles w p of
             None \<Rightarrow> (Some (not_exist ''chmod'' p), set_files (wfiles w) w)
           | Some (d, _) \<Rightarrow> (None, set_files ((wfiles w)(p \<mapsto> (d, m))) w)))"

definition os_close :: "string \<Rightarrow> world \<Rightarrow> goerror option \<times> world" where
  "os_close p w = (wfault w (wtick w) (OpClose p), set_files (wfiles w) w)"

definition os_rename :: "string \<Rightarrow> string \<Rightarrow> world \<Rightarrow> goerror option \<times> world" where
  "os_rename a b w =
     (case wfault w (wtick w) (OpRename a b) of
        Some e \<Rightarrow> (Some e, set_files (wfiles w) w)
      | None \<Rightarrow>
          (case wfiles w a of
             None \<Rightarrow> (Some (not_exist ''rename'' a), set_files (wfiles w) w)
           | Some f \<Rightarrow> (None, set_files (((wfiles w)(a := None))(b \<mapsto> f)) w)))"

definition os_remove :: "string \<Rightarrow> world \<Rightarrow> goerror option \<times> world" where
  "os_remove p w =
     (case wfault w (wtick w) (OpRemove p) of
        Some e \<Rightarrow> (Some e, set_files (wfiles w) w)
      | None \<Rightarrow>
          if wfiles w p = None then (Some (not_exist ''remove'' p), set_files (wfiles w) w)
          else (None, set_files ((wfiles w)(p := None)) w))"

definition os_read_file :: "string \<Rightarrow> world \<Rightarrow> (goerror + string) \<times> world" where
  "os_read_file p w =
     (case wfault w (wtick w) (OpReadFile p) of
        Some e \<Rightarrow> (Inl e, set_files (wfiles w) w)
      | None \<Rightarrow>
          (case wfiles w p of
             None \<Rightarrow> (Inl (not_exist ''open'' p), set_files (wfiles w) w)
           | Some (d, _) \<Rightarrow> (Inr d, set_files (wfiles w) w)))"

text \<open>The bits of an existing file, else those asked for.\<close>

definition mode_of :: "world \<Rightarrow> string \<Rightarrow> nat \<Rightarrow> nat" where
  "mode_of w p m = (case wfiles w p of Some (_, old) \<Rightarrow> old | None \<Rightarrow> m)"

text \<open>\<open>os.WriteFile\<close> truncates, then writes: a failure may leave the file cut short.\<close>

definition os_write_file :: "string \<Rightarrow> string \<Rightarrow> nat \<Rightarrow> world \<Rightarrow> goerror option \<times> world" where
  "os_write_file p d m w =
     (case wfault w (wtick w) (OpWriteFile p d m) of
        Some e \<Rightarrow> (Some e, set_files
          (case wpartial w (wtick w) of
             None \<Rightarrow> wfiles w
           | Some k \<Rightarrow> (wfiles w)(p \<mapsto> (take k d, mode_of w p m))) w)
      | None \<Rightarrow> (None, set_files ((wfiles w)(p \<mapsto> (d, mode_of w p m))) w))"

lemmas os_defs = os_mkdir_all_def os_create_temp_def os_write_def os_chmod_def os_close_def
  os_rename_def os_remove_def os_read_file_def os_write_file_def

subsection \<open>Operations that may fail\<close>

text \<open>
  A function returning \<open>(T, error)\<close> that touches the file system is a function from a world to a result
  and the world after it; \<open>io_bind\<close> is the \<open>if err != nil { return ..., err }\<close> after each call.
\<close>

type_synonym 'a io = "world \<Rightarrow> (goerror + 'a) \<times> world"

definition io_ret :: "'a \<Rightarrow> 'a io" where
  "io_ret x w = (Inr x, w)"

definition io_fail :: "goerror \<Rightarrow> 'a io" where
  "io_fail e w = (Inl e, w)"

definition io_lift :: "goerror + 'a \<Rightarrow> 'a io" where
  "io_lift r w = (r, w)"

definition io_bind :: "'a io \<Rightarrow> ('a \<Rightarrow> 'b io) \<Rightarrow> 'b io" where
  "io_bind m f w = (case m w of (Inl e, w1) \<Rightarrow> (Inl e, w1) | (Inr x, w1) \<Rightarrow> f x w1)"

text \<open>\<open>if err := op; err != nil { return f(err) }\<close>.\<close>

definition io_check :: "(goerror \<Rightarrow> goerror) \<Rightarrow> (world \<Rightarrow> goerror option \<times> world) \<Rightarrow> unit io" where
  "io_check f m w = (case m w of (Some e, w1) \<Rightarrow> (Inl (f e), w1) | (None, w1) \<Rightarrow> (Inr (), w1))"

lemma io_bind_simps [simp]:
  "io_bind (io_ret x) f = f x"
  "io_bind (io_fail e) f = io_fail e"
  "io_bind (io_lift (Inl e)) f = io_fail e"
  "io_bind (io_lift (Inr x)) f = f x"
  by (simp_all add: io_bind_def io_ret_def io_fail_def io_lift_def fun_eq_iff)

lemma io_bind_Inr:
  "io_bind m f w = (Inr y, w') \<longleftrightarrow> (\<exists>x w1. m w = (Inr x, w1) \<and> f x w1 = (Inr y, w'))"
  by (auto simp: io_bind_def split: prod.splits sum.splits)

lemma io_bind_Inl:
  "io_bind m f w = (Inl e, w') \<longleftrightarrow> m w = (Inl e, w') \<or> (\<exists>x w1. m w = (Inr x, w1) \<and> f x w1 = (Inl e, w'))"
  by (auto simp: io_bind_def split: prod.splits sum.splits)

lemma io_result_simps [simp]:
  "io_ret x w = (Inr y, w') \<longleftrightarrow> y = x \<and> w' = w"
  "io_ret x w = (Inl e, w') \<longleftrightarrow> False"
  "io_fail e' w = (Inl e, w') \<longleftrightarrow> e = e' \<and> w' = w"
  "io_fail e' w = (Inr y, w') \<longleftrightarrow> False"
  "io_lift r w = (q, w') \<longleftrightarrow> r = q \<and> w' = w"
  by (auto simp: io_ret_def io_fail_def io_lift_def)

lemma io_check_iff:
  "io_check f m w = (Inr u, w') \<longleftrightarrow> m w = (None, w')"
  "io_check f m w = (Inl e, w') \<longleftrightarrow> (\<exists>e0. m w = (Some e0, w') \<and> e = f e0)"
  by (auto simp: io_check_def split: prod.splits option.splits)

subsection \<open>Frames: what a call can change\<close>

text \<open>\<open>only_changes T w w'\<close>: files outside \<open>T\<close> are the same in both worlds.\<close>

definition only_changes :: "string set \<Rightarrow> world \<Rightarrow> world \<Rightarrow> bool" where
  "only_changes T w w' \<longleftrightarrow> (\<forall>p. p \<notin> T \<longrightarrow> wfiles w' p = wfiles w p)"

lemma only_changes_refl [simp]: "only_changes T w w"
  by (simp add: only_changes_def)

lemma only_changes_trans: "only_changes T u v \<Longrightarrow> only_changes T v w \<Longrightarrow> only_changes T u w"
  by (simp add: only_changes_def)

lemma only_changes_mono: "only_changes S u v \<Longrightarrow> S \<subseteq> T \<Longrightarrow> only_changes T u v"
  by (auto simp: only_changes_def)

lemma os_mkdir_all_files [go_frame]: "os_mkdir_all p w = (r, w') \<Longrightarrow> wfiles w' = wfiles w"
  by (auto simp: os_mkdir_all_def)

lemma os_close_files [go_frame]: "os_close p w = (r, w') \<Longrightarrow> wfiles w' = wfiles w"
  by (auto simp: os_close_def)

lemma os_read_file_files [go_frame]: "os_read_file p w = (r, w') \<Longrightarrow> wfiles w' = wfiles w"
  by (auto simp: os_read_file_def split: option.splits)

lemma os_create_temp_ok:
  "os_create_temp d pt w = (Inr t, w') \<Longrightarrow> wfiles w t = None \<and> wfiles w' = (wfiles w)(t \<mapsto> ([], 0x180))"
  by (auto simp: os_create_temp_def Let_def split: option.splits if_splits)

lemma os_create_temp_err: "os_create_temp d pt w = (Inl e, w') \<Longrightarrow> wfiles w' = wfiles w"
  by (auto simp: os_create_temp_def Let_def split: option.splits if_splits)

lemma os_write_frame: "os_write p d w = (r, w') \<Longrightarrow> only_changes {p} w w'"
  by (auto simp: os_write_def only_changes_def append_file_def split: option.splits)

lemma os_write_ok:
  "os_write p d w = (None, w') \<Longrightarrow> wfiles w p = Some (old, m) \<Longrightarrow> wfiles w' = (wfiles w)(p \<mapsto> (old @ d, m))"
  by (auto simp: os_write_def append_file_def split: option.splits)

lemma os_chmod_frame: "os_chmod p m w = (r, w') \<Longrightarrow> only_changes {p} w w'"
  by (auto simp: os_chmod_def only_changes_def split: option.splits prod.splits)

lemma os_chmod_ok:
  "os_chmod p m w = (None, w') \<Longrightarrow> wfiles w p = Some (d, m0) \<Longrightarrow> wfiles w' = (wfiles w)(p \<mapsto> (d, m))"
  by (auto simp: os_chmod_def split: option.splits prod.splits)

lemma os_remove_frame: "os_remove p w = (r, w') \<Longrightarrow> only_changes {p} w w'"
  by (auto simp: os_remove_def only_changes_def split: option.splits if_splits)

lemma os_rename_ok:
  "os_rename a b w = (None, w') \<Longrightarrow> \<exists>f. wfiles w a = Some f \<and> wfiles w' = ((wfiles w)(a := None))(b \<mapsto> f)"
  by (auto simp: os_rename_def split: option.splits)

lemma os_rename_err: "os_rename a b w = (Some e, w') \<Longrightarrow> wfiles w' = wfiles w"
  by (auto simp: os_rename_def split: option.splits)

lemma os_write_file_frame: "os_write_file p d m w = (r, w') \<Longrightarrow> only_changes {p} w w'"
  by (auto simp: os_write_file_def only_changes_def split: option.splits)

lemma os_write_file_ok:
  "os_write_file p d m w = (None, w') \<Longrightarrow>
    wfiles w' = (wfiles w)(p \<mapsto> (d, mode_of w p m))"
  by (auto simp: os_write_file_def split: option.splits)

subsection \<open>\<open>bufio.Scanner\<close> over lines\<close>

text \<open>
  \<open>ScanLines\<close> with a buffer limit of \<open>max\<close> bytes: lines end at \<open>\n\<close>, one trailing \<open>\r\<close> is dropped, a
  last line needs no \<open>\n\<close> unless it is empty. A line of \<open>max\<close> bytes or more (its \<open>\r\<close> counted) stops
  the scan with \<open>bufio.Scanner: token too long\<close>.
\<close>

definition drop_cr :: "string \<Rightarrow> string" where
  "drop_cr l = (if l \<noteq> [] \<and> last l = CHR 0x0D then butlast l else l)"

definition raw_lines :: "string \<Rightarrow> string list" where
  "raw_lines s = (let ls = split_char CHR 0x0A s in if last ls = [] then butlast ls else ls)"

definition scan_lines :: "nat \<Rightarrow> string \<Rightarrow> string list \<times> goerror option" where
  "scan_lines lim s =
     (let ls = raw_lines s; good = takeWhile (\<lambda>l. length l < lim) ls in
      (map drop_cr good,
       if length good < length ls then Some (Plain ''bufio.Scanner: token too long'') else None))"

lemma split_newline_no_nl: "l \<in> set (raw_lines s) \<Longrightarrow> CHR 0x0A \<notin> set l"
  by (auto simp: raw_lines_def Let_def dest: in_set_butlastD split_char_no_sep split: if_splits)

lemma scan_lines_no_newline:
  "l \<in> set (fst (scan_lines lim s)) \<Longrightarrow> CHR 0x0A \<notin> set l"
  unfolding scan_lines_def Let_def drop_cr_def
  by (auto dest!: set_takeWhileD dest: split_newline_no_nl in_set_butlastD split: if_splits)

text \<open>An empty file system without faults, for concrete instances.\<close>

definition quiet_world :: world where
  "quiet_world = \<lparr>wfiles = (\<lambda>_. None), wtick = 0, wfault = (\<lambda>_ _. None),
     wpartial = (\<lambda>_. None), wtemp = nat_text\<rparr>"

lemma quiet_world_simps [simp]:
  "wfiles quiet_world = (\<lambda>_. None)" "wtick quiet_world = 0" "wfault quiet_world = (\<lambda>_ _. None)"
  "wpartial quiet_world = (\<lambda>_. None)" "wtemp quiet_world = nat_text"
  by (simp_all add: quiet_world_def)

end
