(* ===== verification/RootAccess.thy ===== *)
theory RootAccess
  imports Api GoIO
begin

text \<open>
  Package \<open>internal/rootaccess\<close>: the manager that keeps the root access profile of the node. Its
  state is the applied profile, the time and error of the last change, and a format revision; it is
  mirrored in a JSON file. The control plane sends desired profiles; applying one runs a privileged
  helper. What the host decides (\<open>runtime.GOOS\<close>, the effective user, whether the helper is installed,
  how the command ends, the clock) is the record \<open>apply_env\<close>.
\<close>

subsection \<open>State and operations\<close>

record root_state =
  rsAppliedProfile :: root_profile
  rsLastAppliedAt :: string
  rsLastError :: string
  rsRevision :: int

record manager =
  mgStatePath :: string
  mgState :: root_state

record apply_env =
  aeGoos :: string
  aeHelperStat :: "goerror option"
  aeEuid :: int
  aeRun :: "string list \<Rightarrow> string \<times> goerror option"
  aeNow :: string

definition root_access_state_revision :: int where
  "root_access_state_revision = 1"

definition helper_path :: string where
  "helper_path = ''/usr/local/libexec/noderax-agent-root-profile''"

definition build_state_path :: "string \<Rightarrow> string" where
  "build_state_path identity_path =
     (let clean = path_clean (trim_space identity_path) in
      if clean = ''.'' \<or> clean = [] then ''root_access_state.json''
      else path_join [path_dir clean, ''root_access_state.json''])"

definition profile_allows_operational :: "root_profile \<Rightarrow> bool" where
  "profile_allows_operational p \<longleftrightarrow> p = ''operational'' \<or> p = ''operational_task''
     \<or> p = ''operational_terminal'' \<or> p = ''all''"

definition profile_allows_task :: "root_profile \<Rightarrow> bool" where
  "profile_allows_task p \<longleftrightarrow> p = ''task'' \<or> p = ''operational_task''
     \<or> p = ''task_terminal'' \<or> p = ''all''"

definition profile_allows_terminal :: "root_profile \<Rightarrow> bool" where
  "profile_allows_terminal p \<longleftrightarrow> p = ''terminal'' \<or> p = ''operational_terminal''
     \<or> p = ''task_terminal'' \<or> p = ''all''"

definition build_agent_report :: "manager \<Rightarrow> agent_report" where
  "build_agent_report m =
     \<lparr>arAppliedProfile = rsAppliedProfile (mgState m),
      arLastAppliedAt = rsLastAppliedAt (mgState m),
      arLastError = rsLastError (mgState m)\<rparr>"

definition can_use_root_scope :: "manager \<Rightarrow> string \<Rightarrow> bool" where
  "can_use_root_scope m scope =
     (let profile = rsAppliedProfile (mgState m); s = trim_space scope in
      if s = ''task'' then profile_allows_task profile
      else if s = ''operational'' then profile_allows_operational profile
      else False)"

definition can_start_root_terminal :: "manager \<Rightarrow> bool" where
  "can_start_root_terminal m = profile_allows_terminal (rsAppliedProfile (mgState m))"

definition state_json :: "root_state \<Rightarrow> json" where
  "state_json s = JObj ([(''appliedProfile'', JStr (rsAppliedProfile s))]
     @ omit_empty ''lastAppliedAt'' (rsLastAppliedAt s)
     @ omit_empty ''lastError'' (rsLastError s)
     @ omit_zero ''revision'' (rsRevision s))"

definition state_fields :: "root_state field list" where
  "state_fields =
     [(''appliedProfile'', dec_string ''state.appliedProfile'' rsAppliedProfile_update),
      (''lastAppliedAt'', dec_string ''state.lastAppliedAt'' rsLastAppliedAt_update),
      (''lastError'', dec_string ''state.lastError'' rsLastError_update),
      (''revision'', dec_int ''state.revision'' rsRevision_update)]"

definition zero_state :: root_state where
  "zero_state = \<lparr>rsAppliedProfile = [], rsLastAppliedAt = [], rsLastError = [], rsRevision = 0\<rparr>"

definition initial_manager :: "string \<Rightarrow> manager" where
  "initial_manager identity_path =
     \<lparr>mgStatePath = build_state_path identity_path,
      mgState = \<lparr>rsAppliedProfile = ''off'', rsLastAppliedAt = [], rsLastError = [],
                 rsRevision = root_access_state_revision\<rparr>\<rparr>"

definition load_state :: "(string \<Rightarrow> goerror + json) \<Rightarrow> manager \<Rightarrow> world \<Rightarrow> manager \<times> world" where
  "load_state parse m w =
     (case os_read_file (mgStatePath m) w of
        (Inl e, w1) \<Rightarrow> (m, w1)
      | (Inr data, w1) \<Rightarrow>
          (case parse data of
             Inl e \<Rightarrow> (m, w1)
           | Inr j \<Rightarrow>
               (case decode_struct ''rootaccess.state'' state_fields j zero_state of
                  (Some e, _) \<Rightarrow> (m, w1)
                | (None, s0) \<Rightarrow>
                    (let s1 = (if trim_space (rsAppliedProfile s0) = [] then s0\<lparr>rsAppliedProfile := ''off''\<rparr> else s0);
                         s2 = (if rsRevision s1 < 0 then s1\<lparr>rsRevision := 0\<rparr> else s1)
                     in (m\<lparr>mgState := s2\<rparr>, w1)))))"

definition new_manager :: "(string \<Rightarrow> goerror + json) \<Rightarrow> string \<Rightarrow> world \<Rightarrow> manager \<times> world" where
  "new_manager parse identity_path w = load_state parse (initial_manager identity_path) w"

text \<open>What \<open>updateState\<close> makes of the mutated copy: a blank profile is \<open>off\<close>, the revision current.\<close>

definition finish_state :: "root_state \<Rightarrow> root_state" where
  "finish_state n0 =
     (let n1 = (if trim_space (rsAppliedProfile n0) = [] then n0\<lparr>rsAppliedProfile := ''off''\<rparr> else n0)
      in n1\<lparr>rsRevision := root_access_state_revision\<rparr>)"

definition state_file_text :: "root_state \<Rightarrow> string" where
  "state_file_text s = json_indent 0 (state_json s) @ [CHR 0x0A]"

definition update_state :: "(root_state \<Rightarrow> root_state) \<Rightarrow> manager \<Rightarrow> world \<Rightarrow> goerror option \<times> manager \<times> world" where
  "update_state mutator m w =
     (let next = finish_state (mutator (mgState m))
      in case os_mkdir_all (path_dir (mgStatePath m)) w of
           (Some e, w1) \<Rightarrow> (Some (wrap_prefix ''create root access state directory: '' e), m, w1)
         | (None, w1) \<Rightarrow>
             (case os_write_file (mgStatePath m) (state_file_text next) 0x180 w1 of
                (Some e, w2) \<Rightarrow> (Some (wrap_prefix ''write root access state: '' e), m, w2)
              | (None, w2) \<Rightarrow> (None, m\<lparr>mgState := next\<rparr>, w2)))"

definition applied_mutator :: "root_profile \<Rightarrow> string \<Rightarrow> root_state \<Rightarrow> root_state" where
  "applied_mutator p now s = s\<lparr>rsAppliedProfile := p, rsLastAppliedAt := now, rsLastError := []\<rparr>"

definition error_mutator :: "string \<Rightarrow> root_state \<Rightarrow> root_state" where
  "error_mutator msg s = s\<lparr>rsLastError := msg\<rparr>"

text \<open>\<open>_ = m.updateState(...)\<close> followed by \<open>return err\<close>.\<close>

definition record_failure :: "goerror \<Rightarrow> string \<Rightarrow> manager \<Rightarrow> world \<Rightarrow> goerror option \<times> manager \<times> world" where
  "record_failure e msg m w = (case update_state (error_mutator msg) m w of (_, m1, w1) \<Rightarrow> (Some e, m1, w1))"

definition helper_argv :: "apply_env \<Rightarrow> root_profile \<Rightarrow> string list" where
  "helper_argv env profile =
     (if aeEuid env = 0 then [path_clean helper_path, ''apply'', profile]
      else [''sudo'', ''-n'', path_clean helper_path, ''apply'', profile])"

definition apply_profile :: "apply_env \<Rightarrow> root_profile \<Rightarrow> manager \<Rightarrow> world \<Rightarrow> goerror option \<times> manager \<times> world" where
  "apply_profile env profile m w =
     (if aeGoos env \<noteq> ''linux'' then
        if profile = ''off'' then update_state (applied_mutator profile (aeNow env)) m w
        else (let e = Plain ''root access profiles are only supported on linux hosts''
              in record_failure e (err_text e) m w)
      else if aeHelperStat env \<noteq> None then
        if profile = ''off'' then update_state (applied_mutator profile (aeNow env)) m w
        else (let e = Plain ''root profile helper is not installed'' in record_failure e (err_text e) m w)
      else
        (case aeRun env (helper_argv env profile) of
           (output, Some err) \<Rightarrow>
             (let e = Wrapped (err_text err @ '': '' @ trim_space output) err
              in record_failure e (trim_space (err_text e)) m w)
         | (output, None) \<Rightarrow> update_state (applied_mutator profile (aeNow env)) m w))"

definition handle_desired_snapshot :: "apply_env \<Rightarrow> desired_snapshot option \<Rightarrow> manager \<Rightarrow> world \<Rightarrow> manager \<times> world" where
  "handle_desired_snapshot env snapshot m w =
     (case snapshot of
        None \<Rightarrow> (m, w)
      | Some s \<Rightarrow>
          if trim_space (dsProfile s) = [] then (m, w)
          else if rsAppliedProfile (mgState m) = dsProfile s
             \<and> trim_space (rsLastError (mgState m)) = []
             \<and> root_access_state_revision \<le> rsRevision (mgState m) then (m, w)
          else snd (apply_profile env (dsProfile s) m w))"

subsection \<open>Updates of the state\<close>

lemma update_state_err:
  "update_state f m w = (Some e, m', w') \<Longrightarrow> m' = m"
  by (auto simp: update_state_def Let_def split: prod.splits option.splits)

lemma update_state_ok:
  assumes "update_state f m w = (None, m', w')"
  shows "m' = m\<lparr>mgState := finish_state (f (mgState m))\<rparr>"
    and "wfiles w' = (wfiles w)(mgStatePath m \<mapsto> (state_file_text (mgState m'), mode_of w (mgStatePath m) 0x180))"
proof -
  from assms obtain w1 where w1: "os_mkdir_all (path_dir (mgStatePath m)) w = (None, w1)"
    and w2: "os_write_file (mgStatePath m) (state_file_text (finish_state (f (mgState m)))) 0x180 w1 = (None, w')"
    and m': "m' = m\<lparr>mgState := finish_state (f (mgState m))\<rparr>"
    by (auto simp: update_state_def Let_def split: prod.splits option.splits)
  have "wfiles w1 = wfiles w" by (rule os_mkdir_all_files [OF w1])
  then have "mode_of w1 = mode_of w" by (simp add: mode_of_def fun_eq_iff)
  with os_write_file_ok [OF w2] m' \<open>wfiles w1 = wfiles w\<close>
  show "wfiles w' = (wfiles w)(mgStatePath m \<mapsto> (state_file_text (mgState m'), mode_of w (mgStatePath m) 0x180))"
    by simp
  show "m' = m\<lparr>mgState := finish_state (f (mgState m))\<rparr>" by (rule m')
qed

lemma update_state_frame: "update_state f m w = (r, m', w') \<Longrightarrow> only_changes {mgStatePath m} w w'"
  unfolding update_state_def Let_def
  by (auto split: prod.splits option.splits dest!: os_mkdir_all_files os_write_file_frame simp: only_changes_def)

lemma record_failure_state:
  assumes "record_failure e msg m w = (r, m', w')"
  shows "r = Some e" "mgStatePath m' = mgStatePath m"
    "m' = m \<or> mgState m' = finish_state (error_mutator msg (mgState m))"
    "trim_space (rsAppliedProfile (mgState m)) \<noteq> [] \<Longrightarrow> rsAppliedProfile (mgState m') = rsAppliedProfile (mgState m)"
proof -
  obtain q where q: "update_state (error_mutator msg) m w = (q, m', w')" and r: "r = Some e"
    using assms by (auto simp: record_failure_def split: prod.splits)
  show "r = Some e" by (rule r)
  have *: "m' = m \<or> m' = m\<lparr>mgState := finish_state (error_mutator msg (mgState m))\<rparr>"
    using q update_state_err update_state_ok(1) by (cases q) blast+
  then show "mgStatePath m' = mgStatePath m" "m' = m \<or> mgState m' = finish_state (error_mutator msg (mgState m))"
    by auto
  assume "trim_space (rsAppliedProfile (mgState m)) \<noteq> []"
  with * show "rsAppliedProfile (mgState m') = rsAppliedProfile (mgState m)"
    by (auto simp: finish_state_def error_mutator_def Let_def)
qed

text \<open>The invariant of the manager: its applied profile is never blank.\<close>

definition manager_ok :: "manager \<Rightarrow> bool" where
  "manager_ok m \<longleftrightarrow> trim_space (rsAppliedProfile (mgState m)) \<noteq> []"

lemma trim_off [simp]: "trim_space ''off'' = ''off''"
  by code_simp

lemma finish_state_ok: "trim_space (rsAppliedProfile (finish_state s)) \<noteq> []"
  by (simp add: finish_state_def Let_def)

lemma initial_manager_ok: "manager_ok (initial_manager p)"
  by (simp add: manager_ok_def initial_manager_def)

lemma load_state_ok: "load_state parse m w = (m', w') \<Longrightarrow> manager_ok m \<Longrightarrow> manager_ok m'"
  by (auto simp: load_state_def manager_ok_def Let_def split: prod.splits sum.splits option.splits if_splits)

lemma update_state_manager_ok: "update_state f m w = (r, m', w') \<Longrightarrow> manager_ok m \<Longrightarrow> manager_ok m'"
  by (cases r) (auto dest: update_state_err update_state_ok(1) simp: manager_ok_def finish_state_ok)

text \<open>The helper confirmed a profile: it is installed on a linux host and its command succeeded.\<close>

definition helper_confirms :: "apply_env \<Rightarrow> root_profile \<Rightarrow> bool" where
  "helper_confirms env p \<longleftrightarrow> aeGoos env = ''linux'' \<and> aeHelperStat env = None \<and> snd (aeRun env (helper_argv env p)) = None"

lemma apply_profile_cases:
  assumes "apply_profile env p m w = (r, m', w')"
  obtains (applied) "update_state (applied_mutator p (aeNow env)) m w = (r, m', w')"
      "helper_confirms env p \<or> p = ''off''"
    | (refused) e msg where "record_failure e msg m w = (r, m', w')" "\<not> helper_confirms env p"
      "msg = trim_space (err_text e)" "trim_space msg \<noteq> []"
proof -
  have t: "trim_space ''root access profiles are only supported on linux hosts'' \<noteq> []"
    "trim_space ''root profile helper is not installed'' \<noteq> []"
    "trim_space ''root access profiles are only supported on linux hosts''
       = ''root access profiles are only supported on linux hosts''"
    "trim_space ''root profile helper is not installed'' = ''root profile helper is not installed''"
    by code_simp+
  show ?thesis
  proof (cases "aeGoos env = ''linux'' \<and> aeHelperStat env = None")
    case False
    show ?thesis
    proof (cases "p = ''off''")
      case True
      with False assms applied show ?thesis by (auto simp: apply_profile_def split: if_splits)
    next
      case p: False
      from False have nh: "\<not> helper_confirms env p" by (auto simp: helper_confirms_def)
      show ?thesis
      proof (cases "aeGoos env = ''linux''")
        case True
        with p False assms have
          "record_failure (Plain ''root profile helper is not installed'') ''root profile helper is not installed'' m w = (r, m', w')"
          by (auto simp: apply_profile_def Let_def)
        from refused [OF this nh] t show ?thesis by simp
      next
        case False
        with p assms have
          "record_failure (Plain ''root access profiles are only supported on linux hosts'')
             ''root access profiles are only supported on linux hosts'' m w = (r, m', w')"
          by (auto simp: apply_profile_def Let_def)
        from refused [OF this nh] t show ?thesis by simp
      qed
    qed
  next
    case True
    obtain out res where run: "aeRun env (helper_argv env p) = (out, res)" by (cases "aeRun env (helper_argv env p)")
    show ?thesis
    proof (cases res)
      case None
      with True run assms applied show ?thesis by (auto simp: apply_profile_def helper_confirms_def)
    next
      case (Some err)
      let ?e = "Wrapped (err_text err @ '': '' @ trim_space out) err"
      have "record_failure ?e (trim_space (err_text ?e)) m w = (r, m', w')"
        using True run Some assms by (simp add: apply_profile_def Let_def)
      moreover have "\<not> helper_confirms env p" using run Some by (simp add: helper_confirms_def)
      moreover have "trim_space (err_text ?e) \<noteq> []"
        by (rule trim_space_ascii_mem [where c = "CHR '':''"]) (auto simp: byte_in_def)
      ultimately show ?thesis by (intro refused [OF _ _ refl]) (simp_all only: trim_space_idem not_False_eq_True)
    qed
  qed
qed

lemma apply_profile_manager_ok: "apply_profile env p m w = (r, m', w') \<Longrightarrow> manager_ok m \<Longrightarrow> manager_ok m'"
  by (erule apply_profile_cases)
     (blast intro: update_state_manager_ok, simp add: manager_ok_def record_failure_state(4))

lemma handle_desired_snapshot_cases:
  assumes "handle_desired_snapshot env snap m w = (m', w')"
  obtains (ignored) "m' = m" "w' = w"
    | (synced) s r where "snap = Some s" "trim_space (dsProfile s) \<noteq> []" "apply_profile env (dsProfile s) m w = (r, m', w')"
proof (cases snap)
  case None
  with assms ignored show ?thesis by (simp add: handle_desired_snapshot_def)
next
  case (Some s)
  show ?thesis
  proof (cases "(m', w') = (m, w)")
    case True
    with ignored show ?thesis by simp
  next
    case False
    obtain r m1 w1 where ap: "apply_profile env (dsProfile s) m w = (r, m1, w1)"
      by (cases "apply_profile env (dsProfile s) m w") auto
    from False assms Some ap have "trim_space (dsProfile s) \<noteq> []" "(m', w') = (m1, w1)"
      by (auto simp: handle_desired_snapshot_def split: if_splits)
    with synced Some ap show ?thesis by simp
  qed
qed

lemma handle_desired_snapshot_ok [go_inv]:
  "handle_desired_snapshot env snap m w = (m', w') \<Longrightarrow> manager_ok m \<Longrightarrow> manager_ok m'"
  by (erule handle_desired_snapshot_cases) (auto dest: apply_profile_manager_ok)

lemma allows_declared:
  "profile_allows_operational p \<or> profile_allows_task p \<or> profile_allows_terminal p \<Longrightarrow> p \<in> set declared_profiles \<and> p \<noteq> ''off''"
  by (auto simp: profile_allows_operational_def profile_allows_task_def profile_allows_terminal_def declared_profiles_def)

subsection \<open>The controller interface\<close>

text \<open>
  \<open>tasks.RootAccessController\<close>: what the task service relies on. It reports the profile in force,
  answers whether a scope may be used, and is handed the snapshots of the control plane.
\<close>

locale root_access_controller =
  fixes ctl_ok :: "'m \<Rightarrow> bool"
    and ctl_applied :: "'m \<Rightarrow> root_profile"
    and ctl_report :: "'m \<Rightarrow> agent_report"
    and ctl_can_use :: "'m \<Rightarrow> string \<Rightarrow> bool"
    and ctl_handle :: "desired_snapshot option \<Rightarrow> 'm \<Rightarrow> 'm"
  assumes report_applied: "arAppliedProfile (ctl_report m) = ctl_applied m"
    and use_needs_profile: "ctl_can_use m scope \<Longrightarrow>
      trim_space scope = ''task'' \<and> profile_allows_task (ctl_applied m)
      \<or> trim_space scope = ''operational'' \<and> profile_allows_operational (ctl_applied m)"
    and handle_none: "ctl_handle None m = m"
    and handle_ok: "ctl_ok m \<Longrightarrow> ctl_ok (ctl_handle x m)"
    and handle_applied: "ctl_ok m \<Longrightarrow> ctl_applied (ctl_handle (Some s) m) = ctl_applied m
      \<or> ctl_applied (ctl_handle (Some s) m) = dsProfile s"
begin

lemma fold_handle_applied:
  "ctl_ok m \<Longrightarrow> ctl_applied (fold ctl_handle ss m) = ctl_applied m
     \<or> (\<exists>s. Some s \<in> set ss \<and> ctl_applied (fold ctl_handle ss m) = dsProfile s)"
proof (induction ss arbitrary: m)
  case (Cons x ss)
  have ok: "ctl_ok (ctl_handle x m)" using Cons.prems by (rule handle_ok)
  have step: "ctl_applied (ctl_handle x m) = ctl_applied m \<or> (\<exists>s. x = Some s \<and> ctl_applied (ctl_handle x m) = dsProfile s)"
    using handle_applied [OF Cons.prems] by (cases x) (auto simp: handle_none)
  show ?case using Cons.IH [OF ok] step by (auto; metis)
qed simp

lemma fold_handle_scope:
  assumes "ctl_ok m" "ctl_can_use (fold ctl_handle ss m) scope"
  shows "\<exists>p. (p = ctl_applied m \<or> (\<exists>s. Some s \<in> set ss \<and> p = dsProfile s))
      \<and> p = arAppliedProfile (ctl_report (fold ctl_handle ss m))
      \<and> (trim_space scope = ''task'' \<and> profile_allows_task p
         \<or> trim_space scope = ''operational'' \<and> profile_allows_operational p)"
  using fold_handle_applied [OF assms(1), of ss] use_needs_profile [OF assms(2)] report_applied by metis

end

text \<open>One handled snapshot as a step on the manager and the host's files.\<close>

definition handle_step :: "apply_env \<Rightarrow> desired_snapshot option \<Rightarrow> manager \<times> world \<Rightarrow> manager \<times> world" where
  "handle_step env s mw = handle_desired_snapshot env s (fst mw) (snd mw)"

lemma apply_profile_applied:
  assumes "apply_profile env p m w = (r, m', w')" "manager_ok m" "trim_space p \<noteq> []"
  shows "rsAppliedProfile (mgState m') = rsAppliedProfile (mgState m) \<or> rsAppliedProfile (mgState m') = p"
  using assms(1)
proof (cases rule: apply_profile_cases)
  case applied
  then show ?thesis using assms(3)
    by (cases r) (auto dest: update_state_err update_state_ok(1) simp: finish_state_def applied_mutator_def Let_def)
next
  case refused
  then show ?thesis using assms(2) by (simp add: manager_ok_def record_failure_state(4))
qed

interpretation ra: root_access_controller "\<lambda>mw. manager_ok (fst mw)" "\<lambda>mw. rsAppliedProfile (mgState (fst mw))"
  "\<lambda>mw. build_agent_report (fst mw)" "\<lambda>mw. can_use_root_scope (fst mw)" "handle_step env" for env
proof (unfold_locales, goal_cases)
  case (1 m) show ?case by (simp add: build_agent_report_def)
next
  case (2 m scope) then show ?case by (auto simp: can_use_root_scope_def Let_def split: if_splits)
next
  case (3 m) show ?case by (simp add: handle_step_def handle_desired_snapshot_def)
next
  case (4 m s)
  then show ?case unfolding handle_step_def
    by (metis handle_desired_snapshot_ok prod.collapse)
next
  case (5 m s)
  obtain m' w' where h: "handle_desired_snapshot env (Some s) (fst m) (snd m) = (m', w')"
    by (cases "handle_desired_snapshot env (Some s) (fst m) (snd m)") auto
  then show ?case
    by (cases rule: handle_desired_snapshot_cases) (use 5 h in \<open>auto simp: handle_step_def dest: apply_profile_applied\<close>)
qed

subsection \<open>Properties\<close>

text \<open>
  C2. A change of the applied root profile is always backed: it can only come from a desired snapshot
  naming exactly the new profile, which the privileged helper confirmed (or which is \<open>off\<close>), it
  clears the recorded error, and the new state is in the state file before it takes effect.
\<close>

theorem root_profile_change_is_backed:
  assumes "manager_ok m" "handle_desired_snapshot env snap m w = (m', w')"
    and "rsAppliedProfile (mgState m') \<noteq> rsAppliedProfile (mgState m)"
  shows "\<exists>s. snap = Some s \<and> rsAppliedProfile (mgState m') = dsProfile s
      \<and> (helper_confirms env (dsProfile s) \<or> dsProfile s = ''off'')
      \<and> rsLastError (mgState m') = []
      \<and> wfiles w' (mgStatePath m) = Some (state_file_text (mgState m'), mode_of w (mgStatePath m) 0x180)"
  using assms(2)
proof (cases rule: handle_desired_snapshot_cases)
  case ignored
  with assms(3) show ?thesis by simp
next
  case (synced s r)
  from synced(3) show ?thesis
  proof (cases rule: apply_profile_cases)
    case applied
    with assms(3) have r: "r = None" by (cases r) (auto dest: update_state_err)
    from update_state_ok [OF applied(1) [unfolded r]] synced(1,2) applied(2) show ?thesis
      by (auto simp: finish_state_def applied_mutator_def Let_def)
  next
    case refused
    with assms(1,3) record_failure_state(4) show ?thesis by (auto simp: manager_ok_def)
  qed
qed

text \<open>
  No root privilege appears without the helper: when a scope or the root terminal is usable after
  a snapshot and was not before, the helper ran on this linux host and confirmed the profile in force.
\<close>

theorem root_privilege_needs_helper:
  assumes "manager_ok m" "handle_desired_snapshot env snap m w = (m', w')"
    and "can_use_root_scope m' scope \<and> \<not> can_use_root_scope m scope
       \<or> can_start_root_terminal m' \<and> \<not> can_start_root_terminal m"
  shows "helper_confirms env (rsAppliedProfile (mgState m'))"
proof -
  have ne: "rsAppliedProfile (mgState m') \<noteq> rsAppliedProfile (mgState m)"
    using assms(3) by (auto simp: can_use_root_scope_def can_start_root_terminal_def)
  have "profile_allows_task (rsAppliedProfile (mgState m')) \<or> profile_allows_operational (rsAppliedProfile (mgState m'))
      \<or> profile_allows_terminal (rsAppliedProfile (mgState m'))"
    using assms(3) by (auto simp: can_use_root_scope_def can_start_root_terminal_def Let_def split: if_splits)
  then have "rsAppliedProfile (mgState m') \<noteq> ''off''" using allows_declared by blast
  moreover have "helper_confirms env (rsAppliedProfile (mgState m')) \<or> rsAppliedProfile (mgState m') = ''off''"
  proof -
    from assms(2) show ?thesis
    proof (cases rule: handle_desired_snapshot_cases)
      case ignored
      with ne show ?thesis by simp
    next
      case (synced s r)
      from synced(3) show ?thesis
      proof (cases rule: apply_profile_cases)
        case applied
        have "rsAppliedProfile (mgState m') = dsProfile s"
          using apply_profile_applied [OF synced(3) assms(1) synced(2)] ne by blast
        with applied(2) show ?thesis by simp
      next
        case refused
        with assms(1) ne record_failure_state(4) show ?thesis by (auto simp: manager_ok_def)
      qed
    qed
  qed
  ultimately show ?thesis by auto
qed

text \<open>
  Synchronisation is idempotent: once a profile has been applied, receiving the same desired
  snapshot again changes nothing, runs no helper and writes no file, whatever the host does.
\<close>

theorem root_profile_sync_idempotent:
  assumes "apply_profile env (dsProfile s) m w = (None, m1, w1)" "trim_space (dsProfile s) \<noteq> []"
  shows "handle_desired_snapshot env2 (Some s) m1 w2 = (m1, w2)"
  using assms(1)
proof (cases rule: apply_profile_cases)
  case applied
  from update_state_ok(1) [OF applied(1)] assms(2) show ?thesis
    by (simp add: handle_desired_snapshot_def finish_state_def applied_mutator_def Let_def root_access_state_revision_def)
next
  case refused
  from record_failure_state(1) [OF refused(1)] show ?thesis by simp
qed

text \<open>
  A failed synchronisation keeps the profile in force and is never forgotten: the same desired
  snapshot is tried again the next time it arrives.
\<close>

theorem failed_sync_is_retried:
  assumes "manager_ok m" "trim_space (dsProfile s) \<noteq> []"
    and "\<not> (rsAppliedProfile (mgState m) = dsProfile s \<and> trim_space (rsLastError (mgState m)) = []
            \<and> root_access_state_revision \<le> rsRevision (mgState m))"
    and "apply_profile env (dsProfile s) m w = (Some e, m1, w1)"
  shows "rsAppliedProfile (mgState m1) = rsAppliedProfile (mgState m)
    \<and> handle_desired_snapshot env2 (Some s) m1 w2 = snd (apply_profile env2 (dsProfile s) m1 w2)"
  using assms(4)
proof (cases rule: apply_profile_cases)
  case applied
  with update_state_err have "m1 = m" by blast
  with assms(2,3) show ?thesis by (auto simp: handle_desired_snapshot_def)
next
  case (refused e' msg)
  have "rsAppliedProfile (mgState m1) = rsAppliedProfile (mgState m)"
    using assms(1) record_failure_state(4) [OF refused(1)] by (simp add: manager_ok_def)
  moreover have "rsLastError (finish_state (error_mutator msg (mgState m))) = msg"
    by (simp add: finish_state_def error_mutator_def Let_def)
  then have "m1 = m \<or> rsLastError (mgState m1) = msg"
    using record_failure_state(3) [OF refused(1)] by auto
  ultimately show ?thesis using assms(2,3) refused(4) by (auto simp: handle_desired_snapshot_def)
qed

subsection \<open>Restart\<close>

lemma decode_state_json:
  "rsRevision s = 1 \<Longrightarrow> decode_struct ''rootaccess.state'' state_fields (state_json s) zero_state = (None, s)"
proof -
  assume r: "rsRevision s = 1"
  have i: "parse_int64 (int_text 1) = Some 1" by code_simp
  have f: "find_field state_fields ''appliedProfile'' = Some (dec_string ''state.appliedProfile'' rsAppliedProfile_update)"
    "find_field state_fields ''lastAppliedAt'' = Some (dec_string ''state.lastAppliedAt'' rsLastAppliedAt_update)"
    "find_field state_fields ''lastError'' = Some (dec_string ''state.lastError'' rsLastError_update)"
    "find_field state_fields ''revision'' = Some (dec_int ''state.revision'' rsRevision_update)"
    by (simp_all add: find_field_def state_fields_def)
  show ?thesis using r
    by (simp add: decode_struct_def state_json_def omit_empty_def omit_zero_def f dec_string_def dec_int_def i
        zero_state_def first_error_def)
qed

text \<open>
  C30. The applied profile survives a restart: after a successful change, a manager created anew for the
  same identity file reads back exactly the state in force. The JSON parser is assumed to invert the
  rendering of this state.
\<close>

theorem root_profile_survives_restart:
  assumes "apply_profile env p m w = (None, m1, w1)"
    and "mgStatePath m = build_state_path identity"
    and "wfault w1 (wtick w1) (OpReadFile (mgStatePath m)) = None"
    and "parse (state_file_text (mgState m1)) = Inr (state_json (mgState m1))"
  shows "fst (new_manager parse identity w1) = m1"
proof -
  obtain f where u: "update_state f m w = (None, m1, w1)"
    using assms(1) by (cases rule: apply_profile_cases) (auto dest: record_failure_state(1))
  note ok = update_state_ok [OF u]
  have rev: "rsRevision (mgState m1) = 1"
    using ok(1) by (simp add: finish_state_def root_access_state_revision_def Let_def)
  have prof: "trim_space (rsAppliedProfile (mgState m1)) \<noteq> []"
    using ok(1) finish_state_ok by simp
  have path: "mgStatePath (initial_manager identity) = mgStatePath m"
    using assms(2) by (simp add: initial_manager_def)
  have read: "fst (os_read_file (mgStatePath m) w1) = Inr (state_file_text (mgState m1))"
    using assms(3) ok(2) by (simp add: os_read_file_def)
  obtain w2 where read2: "os_read_file (mgStatePath m) w1 = (Inr (state_file_text (mgState m1)), w2)"
    using read by (metis prod.collapse)
  have "m1 = (initial_manager identity)\<lparr>mgState := mgState m1\<rparr>"
    using ok(1) assms(2) by (simp add: initial_manager_def)
  then show ?thesis
    using read2 assms(4) prof rev
    by (simp add: new_manager_def load_state_def path decode_state_json Let_def)
qed

subsection \<open>Witnesses\<close>

text \<open>A linux host with the helper installed, and one where \<open>sudo\<close> fails.\<close>

definition good_env :: apply_env where
  "good_env = \<lparr>aeGoos = ''linux'', aeHelperStat = None, aeEuid = 1000,
     aeRun = (\<lambda>_. ([], None)), aeNow = ''2025-01-01T00:00:00Z''\<rparr>"

definition sudo_fails_env :: apply_env where
  "sudo_fails_env = good_env\<lparr>aeRun := (\<lambda>_. (''denied'', Some (ExitErr 1 ''exit status 1'')))\<rparr>"

definition sample_manager :: manager where
  "sample_manager = initial_manager ''/var/lib/noderax/identity.json''"

definition task_snapshot :: desired_snapshot where
  "task_snapshot = \<lparr>dsProfile = ''task'', dsUpdatedAt = []\<rparr>"

lemma sample_facts:
  "trim_space ''task'' = ''task''" "trim_space ''denied'' = ''denied''" "trim_space [] = []"
  by code_simp+

lemmas sample_defs = good_env_def sudo_fails_env_def sample_manager_def task_snapshot_def initial_manager_def

lemma sample_apply:
  "handle_desired_snapshot good_env (Some task_snapshot) sample_manager quiet_world
     = snd (apply_profile good_env ''task'' sample_manager quiet_world)"
  "apply_profile good_env ''task'' sample_manager quiet_world
     = update_state (applied_mutator ''task'' ''2025-01-01T00:00:00Z'') sample_manager quiet_world"
  by (simp_all add: handle_desired_snapshot_def sample_defs sample_facts apply_profile_def)

definition sample_after :: "goerror option \<times> manager \<times> world" where
  "sample_after = update_state (applied_mutator ''task'' ''2025-01-01T00:00:00Z'') sample_manager quiet_world"

lemma sample_after_eqs:
  "fst sample_after = None"
  "rsAppliedProfile (mgState (fst (snd sample_after))) = ''task''"
  "wfault (snd (snd sample_after)) = (\<lambda>_ _. None)"
  by (simp_all add: sample_after_def update_state_def Let_def os_mkdir_all_def os_write_file_def quiet_world_def
      finish_state_def applied_mutator_def sample_facts)

theorem root_profile_change_is_backed_witness:
  "rsLastError (mgState (fst (snd sample_after))) = [] \<and> helper_confirms good_env ''task''"
proof -
  have h: "handle_desired_snapshot good_env (Some task_snapshot) sample_manager quiet_world
      = (fst (snd sample_after), snd (snd sample_after))"
    by (simp add: sample_apply sample_after_def)
  have "rsAppliedProfile (mgState (fst (snd sample_after))) \<noteq> rsAppliedProfile (mgState sample_manager)"
    by (simp add: sample_after_eqs sample_defs)
  from root_profile_change_is_backed [OF _ h this] show ?thesis
    by (simp add: sample_after_eqs manager_ok_def sample_defs)
qed

theorem root_privilege_needs_helper_witness:
  "helper_confirms good_env (rsAppliedProfile (mgState (fst (snd sample_after))))"
proof -
  have h: "handle_desired_snapshot good_env (Some task_snapshot) sample_manager quiet_world
      = (fst (snd sample_after), snd (snd sample_after))"
    by (simp add: sample_apply sample_after_def)
  show ?thesis
    by (rule root_privilege_needs_helper [OF _ h, where scope = "''task''"])
       (simp_all add: sample_after_eqs manager_ok_def can_use_root_scope_def sample_facts
         profile_allows_task_def sample_defs)
qed

theorem root_profile_sync_idempotent_witness:
  "handle_desired_snapshot sudo_fails_env (Some task_snapshot) (fst (snd sample_after)) quiet_world
     = (fst (snd sample_after), quiet_world)"
  by (rule root_profile_sync_idempotent [where env = good_env and m = sample_manager and w = quiet_world
        and ?w1.0 = "snd (snd sample_after)"])
     (simp_all add: task_snapshot_def sample_facts sample_apply sample_after_def [symmetric]
       prod_eq_iff sample_after_eqs)

theorem root_profile_survives_restart_witness:
  "fst (new_manager (\<lambda>_. Inr (state_json (mgState (fst (snd sample_after))))) ''/var/lib/noderax/identity.json''
      (snd (snd sample_after))) = fst (snd sample_after)"
  by (rule root_profile_survives_restart [where env = good_env and p = "''task''" and m = sample_manager and w = quiet_world])
     (simp_all add: sample_apply sample_after_def [symmetric] prod_eq_iff sample_after_eqs,
      simp add: sample_defs)

theorem failed_sync_is_retried_witness:
  "rsAppliedProfile (mgState (fst (snd (apply_profile sudo_fails_env ''task'' sample_manager quiet_world)))) = ''off''"
proof -
  obtain r m1 w1 where a: "apply_profile sudo_fails_env (dsProfile task_snapshot) sample_manager quiet_world = (r, m1, w1)"
    by (cases "apply_profile sudo_fails_env (dsProfile task_snapshot) sample_manager quiet_world") auto
  have "r \<noteq> None"
    using a record_failure_state(1)
    by (fastforce simp: apply_profile_def sample_defs Let_def)
  then obtain e where "r = Some e" by auto
  with failed_sync_is_retried [OF _ _ _ a [unfolded \<open>r = Some e\<close>]] a show ?thesis
    by (simp add: manager_ok_def sample_defs sample_facts)
qed

end
