(* ===== verification/RequestFiles.thy ===== *)
theory RequestFiles
  imports GoIO GoJson
begin

text \<open>
  The request files of \<open>internal/tasks/executor.go\<close>, through which the unprivileged agent hands work to
  the root helpers. Each of the four writers makes a temporary file beside the target, fills it, sets
  its mode, closes it and renames it over the target; every error closes and removes the temporary
  file. The stages they share are \<open>prepare_request\<close>, \<open>write_chunks\<close> and \<open>commit_request\<close>, with the
  noun of the error texts as a parameter.
\<close>

subsection \<open>Shared stages\<close>

text \<open>\<open>file.Close(); _ = os.Remove(tempPath)\<close>.\<close>

definition discard_temp :: "string \<Rightarrow> world \<Rightarrow> world" where
  "discard_temp t w = snd (os_remove t (snd (os_close t w)))"

text \<open>The writes, each with the prefix of its error.\<close>

fun write_chunks :: "string \<Rightarrow> (string \<times> string) list \<Rightarrow> world \<Rightarrow> goerror option \<times> world" where
  "write_chunks t [] w = (None, w)"
| "write_chunks t ((label, d) # cs) w =
     (case os_write t d w of
        (Some e, w1) \<Rightarrow> (Some (wrap_prefix label e), discard_temp t w1)
      | (None, w1) \<Rightarrow> write_chunks t cs w1)"

definition request_label :: "string \<Rightarrow> string \<Rightarrow> string" where
  "request_label verb noun = verb @ '' '' @ noun @ '' request file: ''"

text \<open>\<open>Chmod(0o600)\<close>, \<open>Close\<close>; shared with \<open>writeJSONTempRequest\<close>, which does not rename.\<close>

definition seal_temp :: "string \<Rightarrow> string \<Rightarrow> string \<Rightarrow> world \<Rightarrow> goerror option \<times> world" where
  "seal_temp chmod_label close_label t w =
     (case os_chmod t 0x180 w of
        (Some e, w1) \<Rightarrow> (Some (wrap_prefix chmod_label e), discard_temp t w1)
      | (None, w1) \<Rightarrow>
          (case os_close t w1 of
             (Some e, w2) \<Rightarrow> (Some (wrap_prefix close_label e), snd (os_remove t w2))
           | (None, w2) \<Rightarrow> (None, w2)))"

definition commit_request :: "string \<Rightarrow> string \<Rightarrow> string \<Rightarrow> world \<Rightarrow> goerror option \<times> world" where
  "commit_request noun t target w =
     (case seal_temp (request_label ''chmod'' noun) (request_label ''close'' noun) t w of
        (Some e, w1) \<Rightarrow> (Some e, w1)
      | (None, w1) \<Rightarrow>
          (case os_rename t target w1 of
             (Some e, w2) \<Rightarrow> (Some (wrap_prefix (request_label ''replace'' noun) e), snd (os_remove t w2))
           | (None, w2) \<Rightarrow> (None, w2)))"

definition replace_request :: "string \<Rightarrow> string \<Rightarrow> (string \<times> string) list \<Rightarrow> string \<Rightarrow> world \<Rightarrow> goerror option \<times> world" where
  "replace_request noun pattern chunks path w =
     (let clean = path_clean (trim_space path) in
      if clean = [] then (Some (Plain ''request path is empty''), w)
      else case os_mkdir_all (path_dir clean) w of
        (Some e, w1) \<Rightarrow> (Some (wrap_prefix (''create '' @ noun @ '' request directory: '') e), w1)
      | (None, w1) \<Rightarrow>
          (case os_create_temp (path_dir clean) pattern w1 of
             (Inl e, w2) \<Rightarrow> (Some (wrap_prefix (request_label ''create'' noun) e), w2)
           | (Inr t, w2) \<Rightarrow>
               (case write_chunks t chunks w2 of
                  (Some e, w3) \<Rightarrow> (Some e, w3)
                | (None, w3) \<Rightarrow> commit_request noun t clean w3)))"

subsection \<open>The four writers\<close>

definition package_chunks :: "string \<Rightarrow> string list \<Rightarrow> (string \<times> string) list" where
  "package_chunks operation packages =
     (''write package mutation operation: '', trim_space operation @ [CHR 0x0A])
     # map (\<lambda>n. (''write package mutation request package: '', n @ [CHR 0x0A]))
         (filter (\<lambda>n. n \<noteq> []) (map trim_space packages))"

definition write_package_mutation_request :: "string \<Rightarrow> string list \<Rightarrow> string \<Rightarrow> world \<Rightarrow> goerror option \<times> world" where
  "write_package_mutation_request operation packages =
     replace_request ''package mutation'' ''.noderax-agent-package-mutation-*.txt'' (package_chunks operation packages)"

definition write_task_root_request :: "string \<Rightarrow> string \<Rightarrow> world \<Rightarrow> goerror option \<times> world" where
  "write_task_root_request command =
     replace_request ''task root'' ''.noderax-agent-task-root-*.txt''
       [(request_label ''write'' ''task root'', command)]"

definition write_operational_log_scan_request :: "string \<Rightarrow> string \<Rightarrow> world \<Rightarrow> goerror option \<times> world" where
  "write_operational_log_scan_request payload =
     replace_request ''operational log scan'' ''.noderax-agent-operational-log-scan-*.json''
       [(request_label ''write'' ''operational log scan'', payload)]"

record update_payload =
  upTargetVersion :: string
  upTargetID :: string
  upRollback :: bool

definition update_payload_json :: "update_payload \<Rightarrow> json" where
  "update_payload_json p = JObj ([(''targetVersion'', JStr (upTargetVersion p)), (''targetId'', JStr (upTargetID p))]
     @ omit_false ''rollback'' (upRollback p))"

definition write_managed_update_request :: "update_payload \<Rightarrow> string \<Rightarrow> world \<Rightarrow> goerror option \<times> world" where
  "write_managed_update_request p =
     replace_request ''update'' ''.noderax-agent-update-request-*.json''
       [(request_label ''write'' ''update'', json_text (update_payload_json p) @ [CHR 0x0A])]"

text \<open>\<open>writeJSONTempRequest\<close>: a fresh file in the temporary directory, never renamed.\<close>

definition write_json_temp_request :: "string \<Rightarrow> string \<Rightarrow> string \<Rightarrow> string io" where
  "write_json_temp_request tmpdir pattern payload w =
     (case os_create_temp tmpdir pattern w of
        (Inl e, w1) \<Rightarrow> (Inl (wrap_prefix ''create request file: '' e), w1)
      | (Inr t, w1) \<Rightarrow>
          (case write_chunks t [(''write request file: '', payload)] w1 of
             (Some e, w2) \<Rightarrow> (Inl e, w2)
           | (None, w2) \<Rightarrow>
               (case seal_temp ''chmod request file: '' ''close request file: '' t w2 of
                  (Some e, w3) \<Rightarrow> (Inl e, w3)
                | (None, w3) \<Rightarrow> (Inr t, w3))))"

subsection \<open>What the stages do to files\<close>

lemma remove_snd_frame: "only_changes {t} w (snd (os_remove t w))"
  by (metis os_remove_frame prod.collapse)

lemma discard_temp_frame: "only_changes {t} w (discard_temp t w)"
proof -
  have "only_changes {t} w (snd (os_close t w))" by (simp add: only_changes_def os_close_def)
  with remove_snd_frame show ?thesis unfolding discard_temp_def by (metis only_changes_trans)
qed

lemma write_chunks_frame: "write_chunks t cs w = (r, w') \<Longrightarrow> only_changes {t} w w'"
proof (induction t cs w rule: write_chunks.induct)
  case (2 t label d cs w)
  obtain r1 w1 where o: "os_write t d w = (r1, w1)" by (cases "os_write t d w")
  note f = os_write_frame [OF o]
  show ?case
  proof (cases r1)
    case None
    with 2 o f show ?thesis by (auto intro: only_changes_trans)
  next
    case (Some e)
    with 2(2) o have "w' = discard_temp t w1" by simp
    with f discard_temp_frame show ?thesis by (metis only_changes_trans)
  qed
qed simp

lemma write_chunks_ok:
  "write_chunks t cs w = (None, w') \<Longrightarrow> wfiles w t = Some (old, m) \<Longrightarrow>
    wfiles w' t = Some (old @ concat (map snd cs), m)"
proof (induction t cs w arbitrary: old rule: write_chunks.induct)
  case (2 t label d cs w)
  obtain w1 where o: "os_write t d w = (None, w1)" and rest: "write_chunks t cs w1 = (None, w')"
    using 2(2) by (auto split: prod.splits option.splits)
  have "wfiles w1 t = Some (old @ d, m)" using os_write_ok [OF o 2(3)] by simp
  from "2.IH" [OF o [symmetric] refl rest this] show ?case by simp
qed simp

lemma seal_temp_frame: "seal_temp a b t w = (r, w') \<Longrightarrow> only_changes {t} w w'"
proof -
  assume s: "seal_temp a b t w = (r, w')"
  obtain r1 w1 where c: "os_chmod t 0x180 w = (r1, w1)" by (cases "os_chmod t 0x180 w")
  note f = os_chmod_frame [OF c]
  obtain r2 w2 where k: "os_close t w1 = (r2, w2)" by (cases "os_close t w1")
  have f2: "only_changes {t} w1 w2" using os_close_files [OF k] by (simp add: only_changes_def)
  have "w' = discard_temp t w1 \<or> w' = snd (os_remove t w2) \<or> w' = w2"
    using s c k by (auto simp: seal_temp_def split: option.splits)
  then show ?thesis using f f2 discard_temp_frame remove_snd_frame by (metis only_changes_trans)
qed

lemma seal_temp_ok:
  assumes "seal_temp a b t w = (None, w')" "wfiles w t = Some (d, m)"
  shows "wfiles w' t = Some (d, 0x180)"
proof -
  obtain w1 where c: "os_chmod t 0x180 w = (None, w1)" and k: "os_close t w1 = (None, w')"
    using assms(1) by (auto simp: seal_temp_def split: option.splits prod.splits)
  show ?thesis using os_chmod_ok [OF c assms(2)] os_close_files [OF k] by simp
qed

lemma commit_request_ok:
  assumes "commit_request noun t target w = (None, w')" "wfiles w t = Some (d, m)"
  shows "wfiles w' target = Some (d, 0x180)" "t \<noteq> target \<Longrightarrow> wfiles w' t = None" "only_changes {t, target} w w'"
proof -
  obtain a b w1 where s: "seal_temp a b t w = (None, w1)" and rn: "os_rename t target w1 = (None, w')"
    using assms(1) by (auto simp: commit_request_def split: prod.splits option.splits)
  have t1: "wfiles w1 t = Some (d, 0x180)" by (rule seal_temp_ok [OF s assms(2)])
  from os_rename_ok [OF rn] t1 have w': "wfiles w' = ((wfiles w1)(t := None))(target \<mapsto> (d, 0x180))" by simp
  then show "wfiles w' target = Some (d, 0x180)" "t \<noteq> target \<Longrightarrow> wfiles w' t = None" by simp_all
  from seal_temp_frame [OF s] w' show "only_changes {t, target} w w'" by (auto simp: only_changes_def)
qed

lemma commit_request_err:
  assumes "commit_request noun t target w = (Some e, w')"
  shows "only_changes {t} w w'"
proof -
  obtain a b r1 w1 where s: "seal_temp a b t w = (r1, w1)"
    and r: "r1 \<noteq> None \<and> w' = w1 \<or> r1 = None \<and> (\<exists>e2 w2. os_rename t target w1 = (Some e2, w2) \<and> w' = snd (os_remove t w2))"
    using assms by (auto simp: commit_request_def split: prod.splits option.splits)
  note f = seal_temp_frame [OF s]
  from r show ?thesis
  proof
    assume "r1 = None \<and> (\<exists>e2 w2. os_rename t target w1 = (Some e2, w2) \<and> w' = snd (os_remove t w2))"
    then obtain e2 w2 where "os_rename t target w1 = (Some e2, w2)" "w' = snd (os_remove t w2)" by blast
    moreover from os_rename_err [OF this(1)] have "only_changes {t} w1 w2" by (simp add: only_changes_def)
    ultimately show ?thesis using f remove_snd_frame by (metis only_changes_trans)
  qed (use f in simp)
qed

subsection \<open>Atomic replacement\<close>

definition request_target :: "string \<Rightarrow> string" where
  "request_target path = path_clean (trim_space path)"

lemma replace_request_stages:
  assumes "replace_request noun pattern chunks path w = (r, w')"
  obtains (early) e where "r = Some e" "wfiles w' = wfiles w"
    | (chunk) t w2 e where "wfiles w t = None" "wfiles w2 = (wfiles w)(t \<mapsto> ([], 0x180))"
        "write_chunks t chunks w2 = (Some e, w')" "r = Some e"
    | (commit) t w2 w3 where "wfiles w t = None" "wfiles w2 = (wfiles w)(t \<mapsto> ([], 0x180))"
        "write_chunks t chunks w2 = (None, w3)" "commit_request noun t (request_target path) w3 = (r, w')"
proof -
  obtain r1 w1 where mk: "os_mkdir_all (path_dir (request_target path)) w = (r1, w1)"
    by (cases "os_mkdir_all (path_dir (request_target path)) w")
  have f1: "wfiles w1 = wfiles w" by (rule os_mkdir_all_files [OF mk])
  show ?thesis
  proof (cases r1)
    case (Some e)
    with assms mk f1 early show ?thesis by (auto simp: replace_request_def request_target_def Let_def)
  next
    case None
    obtain r2 w2 where ct: "os_create_temp (path_dir (request_target path)) pattern w1 = (r2, w2)"
      by (cases "os_create_temp (path_dir (request_target path)) pattern w1")
    show ?thesis
    proof (cases r2)
      case (Inl e)
      from os_create_temp_err [OF ct [unfolded Inl]] f1 have "wfiles w2 = wfiles w" by simp
      with assms mk None ct Inl early show ?thesis by (auto simp: replace_request_def request_target_def Let_def)
    next
      case (Inr t)
      from os_create_temp_ok [OF ct [unfolded Inr]] f1
      have t: "wfiles w t = None" "wfiles w2 = (wfiles w)(t \<mapsto> ([], 0x180))" by simp_all
      obtain r3 w3 where wc: "write_chunks t chunks w2 = (r3, w3)" by (cases "write_chunks t chunks w2")
      show ?thesis
      proof (cases r3)
        case None
        have "commit_request noun t (request_target path) w3 = (r, w')"
          using assms mk \<open>r1 = None\<close> ct Inr wc None by (simp add: replace_request_def request_target_def Let_def)
        with commit [OF t wc [unfolded None]] show ?thesis .
      next
        case (Some e)
        then have "(r, w') = (Some e, w3)"
          using assms mk None ct Inr wc by (simp add: replace_request_def request_target_def Let_def)
        with chunk [OF t, of e] wc Some show ?thesis by simp
      qed
    qed
  qed
qed

lemma replace_request_ok:
  assumes "replace_request noun pattern chunks path w = (None, w')"
  shows "wfiles w' = (wfiles w)(request_target path \<mapsto> (concat (map snd chunks), 0x180))"
  using assms
proof (cases rule: replace_request_stages)
  case (commit t w2 w3)
  have "wfiles w3 t = Some ([] @ concat (map snd chunks), 0x180)"
    by (rule write_chunks_ok [OF commit(3)]) (simp add: commit(2))
  then have t3: "wfiles w3 t = Some (concat (map snd chunks), 0x180)" by simp
  note c = commit_request_ok [OF commit(4) t3]
  show ?thesis
  proof
    fix p
    have "p = t \<or> wfiles w3 p = wfiles w p"
      using write_chunks_frame [OF commit(3)] commit(2) by (auto simp: only_changes_def)
    with c commit(1) show "wfiles w' p = ((wfiles w)(request_target path \<mapsto> (concat (map snd chunks), 0x180))) p"
      by (cases "p = t"; cases "p = request_target path") (auto simp: only_changes_def)
  qed
qed auto

lemma replace_request_err:
  assumes "replace_request noun pattern chunks path w = (Some e, w')"
  shows "wfiles w' = wfiles w \<or> (\<exists>t. wfiles w t = None \<and> only_changes {t} w w')"
  using assms
proof (cases rule: replace_request_stages)
  case early
  then show ?thesis by simp
next
  case (chunk t w2 e')
  with write_chunks_frame [OF chunk(3)] show ?thesis by (auto simp: only_changes_def)
next
  case (commit t w2 w3)
  with write_chunks_frame [OF commit(3)] commit_request_err [OF commit(4)] show ?thesis
    by (auto simp: only_changes_def)
qed

text \<open>
  The contract every writer keeps: an error leaves every existing file as it was (at most the new
  temporary file remains), success puts the whole content, mode 0600, in place and changes nothing else.
\<close>

locale request_writer =
  fixes writer :: "'a \<Rightarrow> string \<Rightarrow> world \<Rightarrow> goerror option \<times> world"
    and content :: "'a \<Rightarrow> string"
  assumes writer_ok: "writer x path w = (None, w') \<Longrightarrow>
      wfiles w' = (wfiles w)(request_target path \<mapsto> (content x, 0x180))"
    and writer_err: "writer x path w = (Some e, w') \<Longrightarrow>
      wfiles w' = wfiles w \<or> (\<exists>t. wfiles w t = None \<and> only_changes {t} w w')"
begin

lemma writer_keeps:
  assumes "writer x path w = (r, w')" "wfiles w p = Some f" "p \<noteq> request_target path \<or> r \<noteq> None"
  shows "wfiles w' p = Some f"
proof (cases r)
  case None
  with assms writer_ok show ?thesis by auto
next
  case (Some e)
  with assms writer_err have "wfiles w' = wfiles w \<or> (\<exists>t. wfiles w t = None \<and> only_changes {t} w w')" by blast
  with assms(2) show ?thesis by (auto simp: only_changes_def) (metis option.distinct(1))
qed

text \<open>Any sequence of attempts: the helper never reads a torn request.\<close>

lemma attempts_not_torn:
  "wfiles w (request_target path) = Some f \<Longrightarrow>
    wfiles (fold (\<lambda>x w. snd (writer x path w)) xs w) (request_target path)
      \<in> {Some f} \<union> {Some (content x, 0x180) | x. x \<in> set xs}"
proof (induction xs arbitrary: w f)
  case (Cons x xs)
  obtain r w1 where s: "writer x path w = (r, w1)" by (cases "writer x path w")
  have "wfiles w1 (request_target path) = Some f \<or> wfiles w1 (request_target path) = Some (content x, 0x180)"
    using writer_ok s writer_keeps [OF s Cons.prems] by (cases r) auto
  with Cons.IH [of w1] s show ?case by fastforce
qed simp

end

lemma replace_request_writer: "request_writer (\<lambda>x. replace_request noun pattern (chunks x)) (\<lambda>x. concat (map snd (chunks x)))"
  by unfold_locales (auto dest: replace_request_ok replace_request_err)

interpretation package_writer: request_writer "\<lambda>(operation, packages). write_package_mutation_request operation packages"
  "\<lambda>(operation, packages). concat (map snd (package_chunks operation packages))"
  using replace_request_writer [of _ _ "\<lambda>(operation, packages). package_chunks operation packages"]
  by (simp add: write_package_mutation_request_def [abs_def] case_prod_unfold)

interpretation task_root_writer: request_writer write_task_root_request "\<lambda>command. command"
  using replace_request_writer [of _ _ "\<lambda>command. [(request_label ''write'' ''task root'', command)]"]
  by (simp add: write_task_root_request_def [abs_def])

interpretation log_scan_writer: request_writer write_operational_log_scan_request "\<lambda>payload. payload"
  using replace_request_writer [of _ _ "\<lambda>payload. [(request_label ''write'' ''operational log scan'', payload)]"]
  by (simp add: write_operational_log_scan_request_def [abs_def])

interpretation update_writer: request_writer write_managed_update_request "\<lambda>p. json_text (update_payload_json p) @ [CHR 0x0A]"
  using replace_request_writer [of _ _ "\<lambda>p. [(request_label ''write'' ''update'', json_text (update_payload_json p) @ [CHR 0x0A])]"]
  by (simp add: write_managed_update_request_def [abs_def])

subsection \<open>Properties\<close>

text \<open>
  C31. However the calls of the file system fail, a root helper never finds a half-written command: after
  any sequence of attempts to hand over commands, the request file holds its earlier content or exactly
  one of the commands.
\<close>

theorem task_root_request_never_torn:
  assumes "wfiles w (request_target path) = Some f"
  shows "wfiles (fold (\<lambda>c w. snd (write_task_root_request c path w)) commands w) (request_target path)
      \<in> {Some f} \<union> {Some (c, 0x180) | c. c \<in> set commands}"
  using assms by (rule task_root_writer.attempts_not_torn)

theorem task_root_request_never_torn_witness:
  "wfiles (fold (\<lambda>c w. snd (write_task_root_request c ''/r'' w)) [''id''] (quiet_world\<lparr>wfiles := [''/r'' \<mapsto> (''old'', 0)]\<rparr>)) ''/r''
     \<in> {Some (''old'', 0), Some (''id'', 0x180)}"
proof -
  have r: "request_target ''/r'' = ''/r''" by code_simp
  show ?thesis
    using task_root_request_never_torn [of "quiet_world\<lparr>wfiles := [''/r'' \<mapsto> (''old'', 0)]\<rparr>" "''/r''" "(''old'', 0)" "[''id'']"]
    by (simp add: r) blast
qed

text \<open>
  A package mutation request is replaced as a whole or not at all: on success the request file holds
  the operation and one line per package with mode 0600 and no other file differs; on an error every
  file that existed is untouched and at most one new file is left.
\<close>

theorem package_request_atomic:
  "case write_package_mutation_request operation packages path w of
     (None, w') \<Rightarrow> wfiles w' = (wfiles w)(request_target path \<mapsto>
         (concat (map (\<lambda>l. l @ [CHR 0x0A]) (trim_space operation # filter (\<lambda>n. n \<noteq> []) (map trim_space packages))), 0x180))
   | (Some e, w') \<Rightarrow> wfiles w' = wfiles w \<or> (\<exists>t. wfiles w t = None \<and> only_changes {t} w w')"
proof -
  have c: "concat (map snd (package_chunks operation packages))
      = concat (map (\<lambda>l. l @ [CHR 0x0A]) (trim_space operation # filter (\<lambda>n. n \<noteq> []) (map trim_space packages)))"
    by (simp add: package_chunks_def o_def)
  obtain r w' where s: "write_package_mutation_request operation packages path w = (r, w')"
    by (cases "write_package_mutation_request operation packages path w")
  show ?thesis
  proof (cases r)
    case None
    have "wfiles w' = (wfiles w)(request_target path \<mapsto> (concat (map snd (package_chunks operation packages)), 0x180))"
      using package_writer.writer_ok [of "(operation, packages)" path w w'] s None by simp
    then show ?thesis unfolding s None c by simp
  next
    case (Some e)
    have "wfiles w' = wfiles w \<or> (\<exists>t. wfiles w t = None \<and> only_changes {t} w w')"
      using package_writer.writer_err [of "(operation, packages)" path w e w'] s Some by simp
    then show ?thesis unfolding s Some by (simp only: prod.case option.case)
  qed
qed

end
