(* ===== verification/PackageParsers.thy ===== *)
theory PackageParsers
  imports GoJson
begin

text \<open>
  The result parsers of \<open>internal/tasks/executor.go\<close>: what \<open>dpkg -l\<close>, \<open>apt list\<close>, \<open>apt search\<close> and the
  agent's own \<open>log-scan\<close> print, turned into the structured result of a task. A parser returns the lines
  it logs (stream and text, in order) and its result, the model of Go's \<open>any\<close>.
\<close>

subsection \<open>Results\<close>

record package_info =
  pkName :: string
  pkVersion :: string
  pkArchitecture :: string
  pkDescription :: string

datatype task_result =
    NoResult
  | PackagesResult "package_info list"
  | SearchResult "package_info list"
  | HandoffResult string string bool
  | JsonResult json

type_synonym log_line = "string \<times> string"

type_synonym result_parser = "string \<Rightarrow> log_line list \<times> task_result"

definition package_json :: "package_info \<Rightarrow> json" where
  "package_json p = JObj ([(''name'', JStr (pkName p))] @ omit_empty ''version'' (pkVersion p)
     @ omit_empty ''architecture'' (pkArchitecture p) @ omit_empty ''description'' (pkDescription p))"

text \<open>What the control plane receives; maps are marshalled with sorted keys.\<close>

fun result_json :: "task_result \<Rightarrow> json option" where
  "result_json NoResult = None"
| "result_json (PackagesResult ps) = Some (JObj [(''packages'', JArr (map package_json ps))])"
| "result_json (SearchResult ps) = Some (JObj [(''results'', JArr (map package_json ps))])"
| "result_json (HandoffResult target version rollback) =
     Some (JObj [(''rollback'', JBool rollback), (''status'', JStr ''handoff''),
       (''targetId'', JStr target), (''targetVersion'', JStr version)])"
| "result_json (JsonResult j) = Some j"

subsection \<open>parsePackageList\<close>

datatype list_format = FormatDpkg | FormatApt | FormatCompact

text \<open>One trimmed, non-empty line of the loop: the package it adds and the format it counts.\<close>

definition parse_list_line :: "string \<Rightarrow> (list_format \<times> package_info) option" where
  "parse_list_line line =
     (let fields = str_fields line in
      if has_prefix line ''ii '' \<or> has_prefix line ''hi '' \<or> has_prefix line ''rc '' then
        (if 4 \<le> length fields
         then Some (FormatDpkg, \<lparr>pkName = fields ! 1, pkVersion = fields ! 2, pkArchitecture = fields ! 3,
                pkDescription = str_join '' '' (drop 4 fields)\<rparr>)
         else None)
      else if str_contains line ''[installed'' then
        (if 3 \<le> length fields
         then Some (FormatApt, \<lparr>pkName = fst (cut_char CHR ''/'' (fields ! 0)), pkVersion = fields ! 1,
                pkArchitecture = fields ! 2, pkDescription = []\<rparr>)
         else None)
      else if str_contains line '':'' \<and> length fields = 1 then
        (case cut_char CHR '':'' line of
           (a, Some b) \<Rightarrow> if a \<noteq> [] \<and> b \<noteq> []
             then Some (FormatCompact, \<lparr>pkName = a, pkVersion = b, pkArchitecture = [], pkDescription = []\<rparr>)
             else None
         | (a, None) \<Rightarrow> None)
      else None)"

definition list_entries :: "string \<Rightarrow> (list_format \<times> package_info) list" where
  "list_entries output =
     List.map_filter parse_list_line (filter (\<lambda>l. l \<noteq> []) (map trim_space (split_char CHR 0x0A output)))"

definition detected_format :: "(list_format \<times> package_info) list \<Rightarrow> string" where
  "detected_format es =
     (if FormatDpkg \<in> fst ` set es then ''dpkg''
      else if FormatApt \<in> fst ` set es then ''apt''
      else if FormatCompact \<in> fst ` set es then ''compact''
      else ''unknown'')"

definition parsed_packages_line :: "(list_format \<times> package_info) list \<Rightarrow> log_line" where
  "parsed_packages_line es =
     (''system'', ''parsed '' @ nat_text (length es) @ '' packages (format: '' @ detected_format es @ '')'')"

definition parse_package_list :: result_parser where
  "parse_package_list output =
     (let es = list_entries output in
      if trim_space output = [] then
        ([(''system'', ''error: command output is completely empty''), parsed_packages_line es],
         PackagesResult (map snd es))
      else if es = [] then
        ([(''system'', ''error: parse failure, unable to extract any packages from output (parse count is zero)'')],
         NoResult)
      else ([parsed_packages_line es], PackagesResult (map snd es)))"

subsection \<open>parsePackageSearch\<close>

text \<open>The loop state: the finished results and the package whose description is being read.\<close>

type_synonym search_state = "package_info list \<times> package_info option"

definition flush_package :: "search_state \<Rightarrow> package_info list" where
  "flush_package st = fst st @ (case snd st of None \<Rightarrow> [] | Some p \<Rightarrow> [p])"

definition search_step :: "search_state \<Rightarrow> string \<Rightarrow> search_state" where
  "search_step st raw =
     (let line = trim_right [CHR 0x0D, CHR 0x09, CHR '' ''] raw in
      if line = [] \<or> has_prefix line ''Sorting...'' \<or> has_prefix line ''Full Text Search...'' then st
      else if \<not> has_prefix line '' '' then
        (let fields = str_fields line in
         if 2 \<le> length fields then
           (flush_package st,
            Some \<lparr>pkName = fst (cut_char CHR ''/'' (fields ! 0)), pkVersion = fields ! 1,
              pkArchitecture = (if 3 \<le> length fields then fields ! 2 else []), pkDescription = []\<rparr>)
         else st)
      else (case snd st of
          None \<Rightarrow> st
        | Some p \<Rightarrow>
            (fst st, Some (p\<lparr>pkDescription :=
               (if pkDescription p = [] then trim_space line else pkDescription p @ '' '' @ trim_space line)\<rparr>))))"

definition search_entries :: "string \<Rightarrow> package_info list" where
  "search_entries output = flush_package (foldl search_step ([], None) (split_char CHR 0x0A output))"

definition parse_package_search :: result_parser where
  "parse_package_search output =
     (let ps = search_entries output in
      if trim_space output \<noteq> [] \<and> ps = [] then
        ([(''system'', ''parse failure: unable to extract any package search results from output'')], NoResult)
      else ([(''system'', ''parsed '' @ nat_text (length ps) @ '' search results'')], SearchResult ps))"

subsection \<open>parseLogScanResult\<close>

text \<open>Decoding into \<open>map[string]any\<close>: only an object or \<open>null\<close> (a nil map) is accepted.\<close>

definition parse_log_scan_result :: "(string \<Rightarrow> goerror + json) \<Rightarrow> result_parser" where
  "parse_log_scan_result parse output =
     (let trimmed = trim_space output in
      if trimmed = [] then ([(''system'', ''error: log.scan output is empty'')], NoResult)
      else case parse trimmed of
        Inl e \<Rightarrow> ([(''system'', ''error: failed to parse log.scan JSON result: '' @ err_text e)], NoResult)
      | Inr (JObj ms) \<Rightarrow> ([], JsonResult (JObj ms))
      | Inr JNull \<Rightarrow> ([], JsonResult JNull)
      | Inr j \<Rightarrow> ([(''system'', ''error: failed to parse log.scan JSON result: json: cannot unmarshal ''
            @ json_kind j @ '' into Go value of type map[string]interface {}'')], NoResult))"

subsection \<open>Words and fields\<close>

text \<open>A printable ASCII word.\<close>

definition plain_word :: "string \<Rightarrow> bool" where
  "plain_word w \<longleftrightarrow> w \<noteq> [] \<and> list_all (byte_in 33 126) w"

lemma printable_ascii: "list_all (byte_in 33 126) w \<Longrightarrow> is_ascii w"
  by (auto simp: is_ascii_def byte_in_def list_all_iff)

lemma printable_not_space: "byte_in 33 126 c \<Longrightarrow> \<not> ascii_space c"
  by (auto simp: ascii_space_def byte_in_def)

lemma plain_word_ascii [simp]: "plain_word w \<Longrightarrow> is_ascii w"
  by (simp add: plain_word_def printable_ascii)

lemma fields_from_word:
  "list_all (byte_in 33 126) w \<Longrightarrow> fields_from (map (\<lambda>c. [c]) w @ rs) cur = fields_from rs (cur @ w)"
  by (induction w arbitrary: cur) (auto simp: printable_not_space)

lemma fields_from_space:
  "ascii_space c \<Longrightarrow> fields_from ([c] # rs) cur = (if cur = [] then fields_from rs [] else cur # fields_from rs [])"
  by simp

lemma ascii_space_blank [simp]: "ascii_space CHR '' ''"
  by (simp add: ascii_space_def byte_in_def)

lemma is_ascii_join: "\<forall>w\<in>set ws. plain_word w \<Longrightarrow> is_ascii (str_join '' '' ws)"
  by (induction "'' ''" ws rule: str_join.induct) (auto simp: byte_in_def)

lemma fields_from_join:
  "\<forall>w\<in>set ws. plain_word w \<Longrightarrow> fields_from (map (\<lambda>c. [c]) (str_join '' '' ws)) [] = ws"
proof (induction "'' ''" ws rule: str_join.induct)
  case (2 w)
  then show ?case using fields_from_word [of w "[]" "[]"] by (auto simp: plain_word_def)
next
  case (3 w v ws)
  then have w: "list_all (byte_in 33 126) w" "w \<noteq> []" by (simp_all add: plain_word_def)
  with 3 show ?case by (simp add: fields_from_word)
qed simp

text \<open>\<open>strings.Fields\<close> undoes joining words with blanks.\<close>

lemma str_fields_join: "\<forall>w\<in>set ws. plain_word w \<Longrightarrow> str_fields (str_join '' '' ws) = ws"
  by (simp add: str_fields_def runes_ascii is_ascii_join fields_from_join)

lemma str_fields_blank: "str_fields (CHR '' '' # s) = str_fields s"
  by (simp add: str_fields_def runes_ascii_Cons byte_in_def)

lemma str_fields_word_blank:
  "plain_word w \<Longrightarrow> str_fields (w @ CHR '' '' # s) = w # str_fields s"
proof -
  assume w: "plain_word w"
  then have "runes (w @ CHR '' '' # s) = map (\<lambda>c. [c]) w @ [CHR '' ''] # runes s"
    by (simp add: runes_ascii_append runes_ascii_Cons byte_in_def)
  with w show ?thesis by (simp add: str_fields_def fields_from_word plain_word_def)
qed

lemma join_last_printable:
  "\<forall>w\<in>set ws. plain_word w \<Longrightarrow> ws \<noteq> [] \<Longrightarrow> str_join '' '' ws \<noteq> [] \<and> byte_in 33 126 (last (str_join '' '' ws))
     \<and> byte_in 33 126 (hd (str_join '' '' ws))"
proof (induction "'' ''" ws rule: str_join.induct)
  case (2 w)
  then show ?case using hd_in_set [of w] last_in_set [of w] by (auto simp: plain_word_def list_all_iff)
next
  case (3 w v ws)
  then have "w \<noteq> []" "byte_in 33 126 (hd w)" using hd_in_set [of w] by (auto simp: plain_word_def list_all_iff)
  with 3 show ?case by auto
qed simp

lemma trim_space_printable_ends:
  assumes "is_ascii s" "s \<noteq> []" "\<not> ascii_space (hd s)" "\<not> ascii_space (last s)"
  shows "trim_space s = s"
proof -
  have d: "dropWhile ascii_space u = u" if "u \<noteq> []" "\<not> ascii_space (hd u)" for u
    using that by (cases u) simp_all
  have "dropWhile ascii_space s = s" using assms(2,3) by (rule d)
  moreover have "dropWhile ascii_space (rev s) = rev s" using assms(2,4) by (intro d) (simp_all add: hd_rev)
  ultimately show ?thesis using assms(1) by (simp add: trim_space_ascii)
qed

lemma trim_space_join: "\<forall>w\<in>set ws. plain_word w \<Longrightarrow> trim_space (str_join '' '' ws) = str_join '' '' ws"
proof (cases "ws = []")
  case False
  assume "\<forall>w\<in>set ws. plain_word w"
  with False join_last_printable [of ws] is_ascii_join [of ws] show ?thesis
    by (intro trim_space_printable_ends) (auto dest: printable_not_space)
qed simp

lemma split_lines: "\<forall>l\<in>set ls. CHR 0x0A \<notin> set l \<Longrightarrow> split_char CHR 0x0A (concat (map (\<lambda>l. l @ [CHR 0x0A]) ls)) = ls @ [[]]"
  by (induction ls) (auto simp: split_char_append_sep)

lemma join_plain_chars: "\<forall>w\<in>set ws. plain_word w \<Longrightarrow> c \<in> set (str_join '' '' ws) \<Longrightarrow> c = CHR '' '' \<or> byte_in 33 126 c"
  by (induction "'' ''" ws rule: str_join.induct) (auto simp: plain_word_def list_all_iff)

subsection \<open>Round trips\<close>

text \<open>What \<open>dpkg -l\<close> prints for an installed package, and the package it stands for.\<close>

definition dpkg_line :: "package_info \<times> string list \<Rightarrow> string" where
  "dpkg_line p = ''ii  '' @ str_join '' '' ([pkName (fst p), pkVersion (fst p), pkArchitecture (fst p)] @ snd p)"

definition described :: "package_info \<times> string list \<Rightarrow> package_info" where
  "described p = (fst p)\<lparr>pkDescription := str_join '' '' (snd p)\<rparr>"

definition plain_package :: "package_info \<times> string list \<Rightarrow> bool" where
  "plain_package p \<longleftrightarrow> (\<forall>w\<in>set ([pkName (fst p), pkVersion (fst p), pkArchitecture (fst p)] @ snd p). plain_word w)"

lemma plain_ii: "plain_word ''ii''"
  by (simp add: plain_word_def byte_in_def)

lemma dpkg_line_entry:
  assumes "plain_package p"
  shows "trim_space (dpkg_line p) = dpkg_line p" "dpkg_line p \<noteq> []"
    "parse_list_line (dpkg_line p) = Some (FormatDpkg, described p)" "CHR 0x0A \<notin> set (dpkg_line p)"
proof -
  let ?ws = "[pkName (fst p), pkVersion (fst p), pkArchitecture (fst p)] @ snd p"
  have ws: "\<forall>w\<in>set ?ws. plain_word w" using assms unfolding plain_package_def .
  have j: "dpkg_line p = ''ii'' @ CHR '' '' # CHR '' '' # str_join '' '' ?ws" by (simp add: dpkg_line_def)
  have last: "\<not> ascii_space (last (str_join '' '' ?ws))" "str_join '' '' ?ws \<noteq> []"
    using join_last_printable [OF ws] printable_not_space by auto
  then show "trim_space (dpkg_line p) = dpkg_line p" unfolding j
    using is_ascii_join [OF ws] by (intro trim_space_printable_ends) (simp_all add: byte_in_def ascii_space_def)
  show "dpkg_line p \<noteq> []" by (simp add: dpkg_line_def)
  have f: "str_fields (dpkg_line p) = ''ii'' # ?ws"
    unfolding j by (simp only: str_fields_word_blank [OF plain_ii] str_fields_blank str_fields_join [OF ws])
  have pre: "has_prefix (dpkg_line p) ''ii ''" by (simp add: dpkg_line_def)
  show "parse_list_line (dpkg_line p) = Some (FormatDpkg, described p)"
    by (simp add: parse_list_line_def Let_def f pre described_def)
  show "CHR 0x0A \<notin> set (dpkg_line p)"
    unfolding j using join_plain_chars [OF ws, of "CHR 0x0A"] by (auto simp: byte_in_def)
qed

lemma map_filter_all: "\<forall>x\<in>set xs. f x = Some (g x) \<Longrightarrow> List.map_filter f xs = map g xs"
  by (induction xs) (auto simp: map_filter_simps)

lemma map_filter_none: "\<forall>x\<in>set xs. f x = None \<Longrightarrow> List.map_filter f xs = []"
  by (induction xs) (auto simp: map_filter_simps)

lemma map_filter_append': "List.map_filter f (xs @ ys) = List.map_filter f xs @ List.map_filter f ys"
  by (simp add: map_filter_def)

text \<open>
  The package list reported to the control plane is exactly what \<open>dpkg -l\<close> printed: for any header
  lines the parser does not recognise, followed by one line per package, the result lists every package
  in order with all four fields, and the count and format are logged.
\<close>

theorem dpkg_list_parsed_exactly:
  assumes "ps \<noteq> []" "\<forall>p\<in>set ps. plain_package p"
    and "\<forall>h\<in>set headers. CHR 0x0A \<notin> set h \<and> (trim_space h = [] \<or> parse_list_line (trim_space h) = None)"
  shows "parse_package_list (concat (map (\<lambda>l. l @ [CHR 0x0A]) (headers @ map dpkg_line ps)))
    = ([(''system'', ''parsed '' @ nat_text (length ps) @ '' packages (format: dpkg)'')], PackagesResult (map described ps))"
proof -
  let ?ls = "headers @ map dpkg_line ps" and ?out = "concat (map (\<lambda>l. l @ [CHR 0x0A]) (headers @ map dpkg_line ps))"
  have "\<forall>l\<in>set ?ls. CHR 0x0A \<notin> set l" using assms(2,3) dpkg_line_entry(4) by auto
  then have sp: "split_char CHR 0x0A ?out = ?ls @ [[]]" by (rule split_lines)
  have trims: "map trim_space (map dpkg_line ps) = map dpkg_line ps"
    using assms(2) dpkg_line_entry(1) by simp
  have keep: "filter (\<lambda>l. l \<noteq> []) (map dpkg_line ps) = map dpkg_line ps"
    using assms(2) dpkg_line_entry(2) by (auto simp: filter_map o_def cong: filter_cong)
  have none: "List.map_filter parse_list_line (filter (\<lambda>l. l \<noteq> []) (map trim_space headers)) = []"
    using assms(3) by (intro map_filter_none) auto
  have all: "List.map_filter parse_list_line (map dpkg_line ps) = map (\<lambda>p. (FormatDpkg, described p)) ps"
  proof -
    have "List.map_filter parse_list_line (map dpkg_line ps) = List.map_filter (\<lambda>p. parse_list_line (dpkg_line p)) ps"
      by (simp add: map_filter_def filter_map o_def)
    also have "\<dots> = map (\<lambda>p. (FormatDpkg, described p)) ps"
      using assms(2) dpkg_line_entry(3) by (intro map_filter_all) auto
    finally show ?thesis .
  qed
  have es: "list_entries ?out = map (\<lambda>p. (FormatDpkg, described p)) ps"
    unfolding list_entries_def sp unfolding map_append filter_append map_filter_append' trims keep none all
    by (simp add: map_filter_simps)
  have nonempty: "trim_space ?out \<noteq> []"
  proof -
    obtain p rest where "ps = p # rest" using assms(1) by (cases ps) auto
    then have "CHR ''i'' \<in> set ?out" by (simp add: dpkg_line_def)
    then show ?thesis by (rule trim_space_ascii_mem) (simp add: byte_in_def)
  qed
  have "FormatDpkg \<in> fst ` set (map (\<lambda>p. (FormatDpkg, described p)) ps)"
    using assms(1) by (cases ps) auto
  then have det: "detected_format (map (\<lambda>p. (FormatDpkg, described p)) ps) = ''dpkg''"
    by (simp add: detected_format_def)
  have ne: "map (\<lambda>p. (FormatDpkg, described p)) ps \<noteq> []" using assms(1) by simp
  have parsed: "parse_package_list ?out = ([parsed_packages_line (list_entries ?out)], PackagesResult (map snd (list_entries ?out)))"
    unfolding parse_package_list_def Let_def using nonempty ne es by (simp only: if_False)
  show ?thesis
    unfolding parsed es by (simp add: parsed_packages_line_def det o_def)
qed

definition sample_package :: package_info where
  "sample_package = \<lparr>pkName = ''curl'', pkVersion = ''8.5.0'', pkArchitecture = ''amd64'', pkDescription = ''tool''\<rparr>"

theorem dpkg_list_parsed_exactly_witness:
  "parse_package_list (concat (map (\<lambda>l. l @ [CHR 0x0A]) [''Desired=Unknown/Install'', ''ii  curl 8.5.0 amd64 tool'']))
    = ([(''system'', ''parsed 1 packages (format: dpkg)'')], PackagesResult [sample_package])"
proof -
  have h: "parse_list_line (trim_space ''Desired=Unknown/Install'') = None" by code_simp
  have c: "plain_package (sample_package, [''tool''])" by code_simp
  have d: "dpkg_line (sample_package, [''tool'']) = ''ii  curl 8.5.0 amd64 tool''" by code_simp
  have e: "described (sample_package, [''tool'']) = sample_package" by code_simp
  have n: "nat_text (length [(sample_package, [''tool''])]) = ''1''" by code_simp
  have "parse_package_list (concat (map (\<lambda>l. l @ [CHR 0x0A]) ([''Desired=Unknown/Install''] @ map dpkg_line [(sample_package, [''tool''])])))
    = ([(''system'', ''parsed '' @ nat_text (length [(sample_package, [''tool''])]) @ '' packages (format: dpkg)'')],
       PackagesResult (map described [(sample_package, [''tool''])]))"
    by (rule dpkg_list_parsed_exactly) (simp_all add: c h)
  then show ?thesis unfolding n by (simp add: d e)
qed

text \<open>One entry of \<open>apt search\<close>: a header line, an indented description, a blank line.\<close>

definition apt_entry :: "string \<times> package_info \<times> string list \<Rightarrow> string list" where
  "apt_entry e = (case e of (suite, p, ws) \<Rightarrow>
     [str_join '' '' [pkName p @ ''/'' @ suite, pkVersion p, pkArchitecture p], ''  '' @ str_join '' '' ws, []])"

definition plain_entry :: "string \<times> package_info \<times> string list \<Rightarrow> bool" where
  "plain_entry e = (case e of (suite, p, ws) \<Rightarrow> plain_package (p, ws) \<and> plain_word suite \<and> ws \<noteq> []
     \<and> CHR ''/'' \<notin> set (pkName p) \<and> (is_digit (hd (pkName p)) \<or> byte_in 97 122 (hd (pkName p))))"

lemma trim_right_id: "s \<noteq> [] \<Longrightarrow> last s \<notin> set cs \<Longrightarrow> trim_right cs s = s"
  unfolding trim_right_def by (cases s rule: rev_cases) auto

lemma cut_char_append: "c \<notin> set a \<Longrightarrow> cut_char c (a @ c # b) = (a, Some b)"
  by (induction a) (auto simp: cut_char_def)

lemma printable_not_blank: "byte_in 33 126 c \<Longrightarrow> c \<notin> set [CHR 0x0D, CHR 0x09, CHR '' '']"
  by (auto simp: byte_in_def)

lemma apt_header_line:
  assumes e: "plain_entry (suite, p, ws)"
  shows "search_step st (str_join '' '' [pkName p @ ''/'' @ suite, pkVersion p, pkArchitecture p])
    = (flush_package st, Some (p\<lparr>pkDescription := []\<rparr>))"
proof -
  let ?hs = "[pkName p @ ''/'' @ suite, pkVersion p, pkArchitecture p]"
  have n: "plain_word (pkName p)" "CHR ''/'' \<notin> set (pkName p)" "is_digit (hd (pkName p)) \<or> byte_in 97 122 (hd (pkName p))"
    using e by (auto simp: plain_entry_def plain_package_def)
  have hs: "\<forall>w\<in>set ?hs. plain_word w"
    using e by (auto simp: plain_entry_def plain_package_def plain_word_def byte_in_def)
  have t1: "trim_right [CHR 0x0D, CHR 0x09, CHR '' ''] (str_join '' '' ?hs) = str_join '' '' ?hs"
    using join_last_printable [OF hs] printable_not_blank by (intro trim_right_id) blast+
  obtain c r where cr: "pkName p = c # r" using n(1) by (cases "pkName p") (auto simp: plain_word_def)
  obtain rest where j: "str_join '' '' ?hs = c # rest" using cr by simp
  have c: "is_digit c \<or> byte_in 97 122 c" using n(3) cr by simp
  have pre: "\<not> has_prefix (str_join '' '' ?hs) ''Sorting...''" "\<not> has_prefix (str_join '' '' ?hs) ''Full Text Search...''"
    "\<not> has_prefix (str_join '' '' ?hs) '' ''" "str_join '' '' ?hs \<noteq> []"
    unfolding j using c by (auto simp: is_digit_def byte_in_def)
  have f: "str_fields (str_join '' '' ?hs) = ?hs" by (rule str_fields_join [OF hs])
  have cut: "fst (cut_char CHR ''/'' (pkName p @ ''/'' @ suite)) = pkName p"
    using cut_char_append [OF n(2), of suite] by simp
  show ?thesis
    unfolding search_step_def Let_def t1 using pre f by (simp del: str_join.simps add: cut [simplified])
qed

lemma apt_description_line:
  assumes "\<forall>w\<in>set ws. plain_word w" "ws \<noteq> []" "pkDescription q = []"
  shows "search_step (rs, Some q) (''  '' @ str_join '' '' ws) = (rs, Some (q\<lparr>pkDescription := str_join '' '' ws\<rparr>))"
proof -
  note lw = join_last_printable [OF assms(1,2)]
  have t2: "trim_right [CHR 0x0D, CHR 0x09, CHR '' ''] (''  '' @ str_join '' '' ws) = ''  '' @ str_join '' '' ws"
    using lw printable_not_blank by (intro trim_right_id) (simp, metis last_appendR)
  have "trim_space (''  '' @ str_join '' '' ws) = trim_space (str_join '' '' ws)"
    using is_ascii_join [OF assms(1)] by (simp add: trim_space_ascii byte_in_def ascii_space_def)
  then have "trim_space (''  '' @ str_join '' '' ws) = str_join '' '' ws"
    by (simp only: trim_space_join [OF assms(1)])
  then show ?thesis
    unfolding search_step_def Let_def t2 using assms(3) by simp
qed

lemma apt_entry_steps:
  assumes e: "plain_entry (suite, p, ws)"
  shows "foldl search_step st (apt_entry (suite, p, ws)) = (flush_package st, Some (described (p, ws)))"
proof -
  have ws: "\<forall>w\<in>set ws. plain_word w" "ws \<noteq> []" using e by (auto simp: plain_entry_def plain_package_def)
  have blank: "search_step s [] = s" for s by (simp add: search_step_def trim_right_def)
  show ?thesis
    using apt_header_line [OF e, of st] apt_description_line [OF ws, of "p\<lparr>pkDescription := []\<rparr>" "flush_package st"]
    by (simp del: str_join.simps add: apt_entry_def blank described_def)
qed

lemma apt_entries_steps:
  "\<forall>e\<in>set es. plain_entry e \<Longrightarrow>
    flush_package (foldl search_step st (concat (map apt_entry es))) = flush_package st @ map (\<lambda>(s, p, ws). described (p, ws)) es"
proof (induction es arbitrary: st)
  case (Cons e es)
  obtain s p ws where e: "e = (s, p, ws)" by (cases e)
  with Cons.prems apt_entry_steps [of s p ws st]
  have "foldl search_step st (concat (map apt_entry (e # es)))
      = foldl search_step (flush_package st, Some (described (p, ws))) (concat (map apt_entry es))" by simp
  with Cons e show ?case by (simp add: flush_package_def)
qed simp

lemma apt_entry_no_newline: "plain_entry e \<Longrightarrow> l \<in> set (apt_entry e) \<Longrightarrow> CHR 0x0A \<notin> set l"
proof -
  assume e: "plain_entry e" and l: "l \<in> set (apt_entry e)"
  obtain s p ws where x: "e = (s, p, ws)" by (cases e)
  let ?hs = "[pkName p @ ''/'' @ s, pkVersion p, pkArchitecture p]"
  have hs: "\<forall>w\<in>set ?hs. plain_word w" and ws: "\<forall>w\<in>set ws. plain_word w"
    using e x by (auto simp: plain_entry_def plain_package_def plain_word_def byte_in_def)
  have "\<not> byte_in 33 126 CHR 0x0A" by (simp add: byte_in_def)
  then have "CHR 0x0A \<notin> set (str_join '' '' ?hs)" "CHR 0x0A \<notin> set (str_join '' '' ws)"
    using join_plain_chars [OF hs, of "CHR 0x0A"] join_plain_chars [OF ws, of "CHR 0x0A"] by auto
  with l x show ?thesis by (auto simp: apt_entry_def)
qed

text \<open>
  The search results reported are exactly what \<open>apt search\<close> printed: progress lines are skipped, and
  every entry gives one result, in order, with its name cut at the slash, version, architecture and
  description.
\<close>

theorem apt_search_parsed_exactly:
  assumes "\<forall>e\<in>set es. plain_entry e" "es \<noteq> []"
  shows "parse_package_search (concat (map (\<lambda>l. l @ [CHR 0x0A])
        ([''Sorting...'', ''Full Text Search...''] @ concat (map apt_entry es))))
    = ([(''system'', ''parsed '' @ nat_text (length es) @ '' search results'')],
       SearchResult (map (\<lambda>(s, p, ws). described (p, ws)) es))"
proof -
  let ?ls = "[''Sorting...'', ''Full Text Search...''] @ concat (map apt_entry es)"
  let ?out = "concat (map (\<lambda>l. l @ [CHR 0x0A]) ([''Sorting...'', ''Full Text Search...''] @ concat (map apt_entry es)))"
  have "\<forall>l\<in>set ?ls. CHR 0x0A \<notin> set l" using assms(1) apt_entry_no_newline by auto
  then have sp: "split_char CHR 0x0A ?out = ?ls @ [[]]" by (rule split_lines)
  have skip: "search_step st ''Sorting...'' = st" "search_step st ''Full Text Search...'' = st" "search_step st [] = st" for st
    by (simp_all add: search_step_def trim_right_def Let_def)
  have ps: "search_entries ?out = map (\<lambda>(s, p, ws). described (p, ws)) es"
    unfolding search_entries_def sp using apt_entries_steps [OF assms(1), of "([], None)"]
    by (simp add: skip flush_package_def)
  with assms(2) show ?thesis by (simp only: parse_package_search_def Let_def ps) (simp add: case_prod_unfold)
qed

theorem apt_search_parsed_exactly_witness:
  "parse_package_search (concat (map (\<lambda>l. l @ [CHR 0x0A])
       [''Sorting...'', ''Full Text Search...'', ''curl/noble 8.5.0 amd64'', ''  tool'', []]))
    = ([(''system'', ''parsed 1 search results'')], SearchResult [sample_package])"
proof -
  have e: "plain_entry (''noble'', sample_package, [''tool''])" by code_simp
  have a: "apt_entry (''noble'', sample_package, [''tool'']) = [''curl/noble 8.5.0 amd64'', ''  tool'', []]" by code_simp
  have d: "described (sample_package, [''tool'']) = sample_package" by code_simp
  have n: "nat_text (length [(''noble'', sample_package, [''tool''])]) = ''1''" by code_simp
  show ?thesis
    using apt_search_parsed_exactly [of "[(''noble'', sample_package, [''tool''])]"] unfolding n by (simp add: e a d)
qed

end
