(* ===== verification/GoTime.thy ===== *)
theory GoTime
  imports GoStrings
begin

text \<open>
  \<open>time.ParseDuration\<close>, which reads the timeouts and intervals of tasks and configuration. The integer
  parts follow the library's \<open>uint64\<close> overflow checks; the fraction is computed exactly (the library
  rounds it through \<open>float64\<close>). \<open>None\<close> is an error.
\<close>

definition unit_of :: "string \<Rightarrow> int option" where
  "unit_of u =
     (if u = ''ns'' then Some 1
      else if u = ''us'' \<or> u = [CHR 0xC2, CHR 0xB5, CHR ''s''] \<or> u = [CHR 0xCE, CHR 0xBC, CHR ''s''] then Some 1000
      else if u = ''ms'' then Some millisecond
      else if u = ''s'' then Some second
      else if u = ''m'' then Some minute
      else if u = ''h'' then Some (60 * minute)
      else None)"

text \<open>\<open>leadingInt\<close>: the value overflows beyond \<open>2 ^ 63\<close>.\<close>

definition leading_int :: "string \<Rightarrow> (int \<times> string) option" where
  "leading_int s =
     (let ds = takeWhile is_digit s; v = int (digits_value 0 ds)
      in if v \<le> 2 ^ 63 then Some (v, dropWhile is_digit s) else None)"

text \<open>\<open>leadingFraction\<close>: digits past an overflow are skipped; returns value, scale and rest.\<close>

fun fraction_digits :: "int \<Rightarrow> int \<Rightarrow> string \<Rightarrow> int \<times> int" where
  "fraction_digits f scale [] = (f, scale)"
| "fraction_digits f scale (c # s) =
     (let y = f * 10 + (of_char c - 48) in
      if f > (2 ^ 63 - 1) div 10 \<or> y > 2 ^ 63 then (f, scale) else fraction_digits y (scale * 10) s)"

definition leading_fraction :: "string \<Rightarrow> (int \<times> int) \<times> string" where
  "leading_fraction s = (fraction_digits 0 1 (takeWhile is_digit s), dropWhile is_digit s)"

text \<open>
  One \<open>number unit\<close> group: first the number (integer part, fraction, scale and the rest of the text),
  then its value in nanoseconds and the rest.
\<close>

definition group_number :: "string \<Rightarrow> (int \<times> (int \<times> int) \<times> string) option" where
  "group_number s =
     (case leading_int s of
        None \<Rightarrow> None
      | Some (v, s1) \<Rightarrow>
          (let pre = (length s1 \<noteq> length s);
               dot = (s1 \<noteq> [] \<and> hd s1 = CHR ''.'');
               frac = (if dot then leading_fraction (tl s1) else ((0, 1), s1));
               post = (dot \<and> length (snd frac) \<noteq> length (tl s1))
           in if \<not> pre \<and> \<not> post then None else Some (v, frac)))"

definition not_numeric :: "char \<Rightarrow> bool" where
  "not_numeric c \<longleftrightarrow> c \<noteq> CHR ''.'' \<and> \<not> is_digit c"

definition group_value :: "int \<Rightarrow> int \<Rightarrow> int \<Rightarrow> int \<Rightarrow> int option" where
  "group_value v f scale k =
     (if v > 2 ^ 63 div k then None
      else (let w = v * k + (f * k) div scale in if f > 0 \<and> w > 2 ^ 63 then None else Some w))"

definition duration_group :: "string \<Rightarrow> (int \<times> string) option" where
  "duration_group s =
     (if s = [] \<or> not_numeric (hd s) then None
      else case group_number s of
        None \<Rightarrow> None
      | Some (v, (f, scale), s2) \<Rightarrow>
          (if takeWhile not_numeric s2 = [] then None
           else case unit_of (takeWhile not_numeric s2) of
             None \<Rightarrow> None
           | Some k \<Rightarrow> map_option (\<lambda>w. (w, dropWhile not_numeric s2)) (group_value v f scale k)))"

lemma group_number_rest: "group_number s = Some (v, fs, t) \<Longrightarrow> length t \<le> length s"
proof -
  assume a: "group_number s = Some (v, fs, t)"
  let ?s1 = "dropWhile is_digit s"
  have "t = ?s1 \<or> t = dropWhile is_digit (tl ?s1)"
    using a by (auto simp: group_number_def leading_int_def leading_fraction_def Let_def split: if_split_asm)
  moreover have "length ?s1 \<le> length s" "length (dropWhile is_digit (tl ?s1)) \<le> length (tl ?s1)"
    by (rule length_dropWhile_le)+
  ultimately show ?thesis by (auto simp del: length_tl) (metis diff_le_self le_trans length_tl)
qed

lemma duration_group_shorter: "duration_group s = Some (v, t) \<Longrightarrow> length t < length s"
proof -
  assume a: "duration_group s = Some (v, t)"
  then obtain n fs s2 where n: "group_number s = Some (n, fs, s2)" and tw: "takeWhile not_numeric s2 \<noteq> []"
    and t: "t = dropWhile not_numeric s2"
    by (auto simp: duration_group_def split: if_split_asm option.split_asm)
  from tw have "length t < length s2" unfolding t
    by (metis add_less_cancel_right add.left_neutral length_append length_greater_0_conv takeWhile_dropWhile_id)
  with group_number_rest [OF n] show ?thesis by simp
qed

function duration_groups :: "string \<Rightarrow> int \<Rightarrow> int option" where
  "duration_groups s d =
     (if s = [] then Some d
      else case duration_group s of
        None \<Rightarrow> None
      | Some (v, t) \<Rightarrow> if d + v > 2 ^ 63 then None else duration_groups t (d + v))"
  by pat_completeness auto
termination by (relation "measure (\<lambda>(s, d). length s)") (auto dest: duration_group_shorter)

declare duration_groups.simps [simp del]

definition parse_duration :: "string \<Rightarrow> int option" where
  "parse_duration s0 =
     (let neg = has_prefix s0 ''-''; s = (if neg \<or> has_prefix s0 ''+'' then tl s0 else s0)
      in if s = ''0'' then Some 0
         else if s = [] then None
         else case duration_groups s 0 of
           None \<Rightarrow> None
         | Some d \<Rightarrow> if neg then Some (- d) else if d > 2 ^ 63 - 1 then None else Some d)"

lemma parse_duration_examples:
  "parse_duration ''1h30m'' = Some (90 * minute)"
  "parse_duration ''1.5s'' = Some (1500 * millisecond)"
  "parse_duration ''-250ms'' = Some (- 250 * millisecond)"
  "parse_duration ''5'' = None"
  by (code_simp | simp add: parse_duration_def Let_def duration_groups.simps)+

lemma duration_groups_bound:
  "duration_groups s d = Some e \<Longrightarrow> d \<le> 2 ^ 63 \<Longrightarrow> e \<le> 2 ^ 63"
proof (induction s d rule: duration_groups.induct)
  case (1 s d)
  from "1.prems" show ?case
    by (subst (asm) duration_groups.simps)
       (auto split: if_split_asm option.split_asm prod.split_asm dest: "1.IH")
qed

lemma digit_nonneg: "is_digit c \<Longrightarrow> 0 \<le> (of_char c :: int) - 48"
proof -
  assume "is_digit c"
  then have "48 \<le> (of_char c :: nat)" by (simp add: is_digit_def byte_in_def)
  then have "int 48 \<le> int (of_char c)" by (metis of_nat_le_iff)
  also have "int (of_char c) = of_char c" by (rule of_nat_of_char)
  finally show ?thesis by simp
qed

lemma fraction_digits_nonneg:
  "0 \<le> f \<Longrightarrow> 0 < scale \<Longrightarrow> list_all is_digit s \<Longrightarrow> 0 \<le> fst (fraction_digits f scale s) \<and> 0 < snd (fraction_digits f scale s)"
proof (induction f scale s rule: fraction_digits.induct)
  case (2 f scale c s)
  have "0 \<le> f * 10 + (of_char c - 48)" using digit_nonneg [of c] 2(2,4) by simp
  moreover have "0 < scale * 10" "list_all is_digit s" using 2(3,4) by simp_all
  ultimately have "0 \<le> fst (fraction_digits (f * 10 + (of_char c - 48)) (scale * 10) s)
      \<and> 0 < snd (fraction_digits (f * 10 + (of_char c - 48)) (scale * 10) s)"
    if "\<not> (f > (2 ^ 63 - 1) div 10 \<or> f * 10 + (of_char c - 48) > 2 ^ 63)"
    using 2(1) [OF refl that] by blast
  with 2(2,3) show ?case
    by (cases "f > (2 ^ 63 - 1) div 10 \<or> f * 10 + (of_char c - 48) > 2 ^ 63")
       (simp_all only: fraction_digits.simps Let_def if_True if_False fst_conv snd_conv simp_thms)
qed simp

lemma leading_fraction_nonneg:
  assumes "leading_fraction s = ((f, scale), t)"
  shows "0 \<le> f \<and> 0 < scale"
proof -
  have "list_all is_digit (takeWhile is_digit s)" by (auto simp: list_all_iff dest: set_takeWhileD)
  then have "0 \<le> fst (fraction_digits 0 1 (takeWhile is_digit s)) \<and> 0 < snd (fraction_digits 0 1 (takeWhile is_digit s))"
    by (rule fraction_digits_nonneg [OF order.refl zero_less_one])
  moreover have "fraction_digits 0 1 (takeWhile is_digit s) = (f, scale)"
    using assms unfolding leading_fraction_def by (rule Pair_inject)
  ultimately show ?thesis by (simp only: fst_conv snd_conv)
qed

lemma group_number_nonneg:
  assumes "group_number s = Some (v, (f, scale), t)"
  shows "0 \<le> v \<and> 0 \<le> f \<and> 0 < scale"
proof -
  have "0 \<le> v" using assms by (auto simp: group_number_def leading_int_def Let_def split: if_split_asm)
  moreover have "(f, scale) = (0, 1) \<or> (\<exists>u. leading_fraction u = ((f, scale), t))"
    using assms by (auto simp: group_number_def Let_def split: if_split_asm option.split_asm)
  ultimately show ?thesis using leading_fraction_nonneg by auto
qed

lemma unit_of_pos: "unit_of u = Some k \<Longrightarrow> 0 < k"
  by (auto simp: unit_of_def split: if_splits)

lemma duration_group_nonneg: "duration_group s = Some (v, t) \<Longrightarrow> 0 \<le> v"
proof -
  assume "duration_group s = Some (v, t)"
  then obtain n f scale s2 k where "group_number s = Some (n, (f, scale), s2)"
    and k: "unit_of (takeWhile not_numeric s2) = Some k" and v: "group_value n f scale k = Some v"
    by (auto simp: duration_group_def split: if_split_asm option.split_asm)
  then have "0 \<le> n \<and> 0 \<le> f \<and> 0 < scale" by (intro group_number_nonneg)
  with v unit_of_pos [OF k] show ?thesis
    by (auto simp: group_value_def Let_def pos_imp_zdiv_nonneg_iff split: if_split_asm)
qed

lemma duration_groups_mono:
  "duration_groups s d = Some e \<Longrightarrow> d \<le> e"
proof (induction s d rule: duration_groups.induct)
  case (1 s d)
  from "1.prems" show ?case
    by (subst (asm) duration_groups.simps)
       (fastforce split: if_split_asm option.split_asm prod.split_asm dest: "1.IH" duration_group_nonneg)
qed

text \<open>The result always fits a \<open>Duration\<close>.\<close>

lemma parse_duration_range:
  assumes "parse_duration s = Some d"
  shows "- (2 ^ 63) \<le> d \<and> d < 2 ^ 63"
proof -
  have "0 \<le> e \<and> e \<le> 2 ^ 63" if "duration_groups t 0 = Some e" for t e
    using duration_groups_bound [OF that] duration_groups_mono [OF that] by simp
  with assms show ?thesis
    by (auto simp: parse_duration_def Let_def split: if_split_asm option.split_asm; fastforce)
qed

end
