(* ===== verification/TaskExecutor.thy ===== *)
theory TaskExecutor
  imports RequestFiles PackageParsers Api GoTime "HOL-Library.Multiset"
begin

text \<open>
  \<open>internal/tasks/executor.go\<close>: from a task to the command that runs it, and the run itself. The fields
  of \<open>ShellExecutor\<close> are the record \<open>executor\<close>, with the host calls the file makes directly
  (\<open>os.Geteuid\<close>, \<open>os.TempDir\<close>, \<open>os.Environ\<close>, \<open>json.Unmarshal\<close>'s parser) beside them. What a started
  process does is the record \<open>process_run\<close>.
\<close>

subsection \<open>Executor and payloads\<close>

record executor =
  exDefaultTimeout :: int
  exGoos :: string
  exLookPath :: "string \<Rightarrow> goerror + string"
  exExecutablePath :: "goerror + string"
  exFileExists :: "string \<Rightarrow> bool"
  exUpdateRequestPath :: string
  exPackageRequestPath :: string
  exLogScanRequestPath :: string
  exTaskRootRequestPath :: string
  exRootScopeChecker :: "(string \<Rightarrow> bool) option"
  exEuid :: int
  exTempDir :: string
  exEnviron :: "string list"
  exParse :: "string \<Rightarrow> goerror + json"

definition update_helper_path :: string where
  "update_helper_path = ''/usr/local/libexec/noderax-agent-self-update''"

definition package_helper_path :: string where
  "package_helper_path = ''/usr/local/libexec/noderax-agent-package-mutation''"

definition log_scan_helper_path :: string where
  "log_scan_helper_path = ''/usr/local/libexec/noderax-agent-operational-log-scan''"

definition task_root_helper_path :: string where
  "task_root_helper_path = ''/usr/local/libexec/noderax-agent-task-root''"

record shell_payload =
  spCommand :: string
  spShell :: string
  spWorkingDir :: string
  spEnvironment :: "(string \<times> string) list"
  spTimeout :: string
  spTimeoutSeconds :: int
  spRunAsRoot :: bool
  spRootScope :: string

record search_payload =
  seQuery :: string
  seTerm :: string

record mutation_payload =
  muPackage :: string
  muPackages :: "string list"
  muNames :: "string list"
  muPurge :: bool

record log_scan_payload =
  lsMode :: string
  lsSourcePresetID :: string
  lsRunAsRoot :: bool
  lsRootScope :: string

definition shell_fields :: "shell_payload field list" where
  "shell_fields =
     [(''command'', dec_string ''ShellExecPayload.command'' spCommand_update),
      (''shell'', dec_string ''ShellExecPayload.shell'' spShell_update),
      (''working_dir'', dec_string ''ShellExecPayload.working_dir'' spWorkingDir_update),
      (''environment'', dec_string_map ''ShellExecPayload.environment'' spEnvironment_update),
      (''timeout'', dec_string ''ShellExecPayload.timeout'' spTimeout_update),
      (''timeout_seconds'', dec_int ''ShellExecPayload.timeout_seconds'' spTimeoutSeconds_update),
      (''runAsRoot'', dec_bool ''ShellExecPayload.runAsRoot'' spRunAsRoot_update),
      (''rootScope'', dec_string ''ShellExecPayload.rootScope'' spRootScope_update)]"

definition zero_shell :: shell_payload where
  "zero_shell = \<lparr>spCommand = [], spShell = [], spWorkingDir = [], spEnvironment = [], spTimeout = [],
     spTimeoutSeconds = 0, spRunAsRoot = False, spRootScope = []\<rparr>"

definition search_fields :: "search_payload field list" where
  "search_fields = [(''query'', dec_string ''packageSearchPayload.query'' seQuery_update),
     (''term'', dec_string ''packageSearchPayload.term'' seTerm_update)]"

definition mutation_fields :: "mutation_payload field list" where
  "mutation_fields =
     [(''package'', dec_string ''packageMutationPayload.package'' muPackage_update),
      (''packages'', dec_string_list ''packageMutationPayload.packages'' muPackages_update),
      (''names'', dec_string_list ''packageMutationPayload.names'' muNames_update),
      (''purge'', dec_bool ''packageMutationPayload.purge'' muPurge_update)]"

definition update_fields :: "update_payload field list" where
  "update_fields =
     [(''targetVersion'', dec_string ''agentUpdatePayload.targetVersion'' upTargetVersion_update),
      (''targetId'', dec_string ''agentUpdatePayload.targetId'' upTargetID_update),
      (''rollback'', dec_bool ''agentUpdatePayload.rollback'' upRollback_update)]"

definition log_scan_fields :: "log_scan_payload field list" where
  "log_scan_fields =
     [(''mode'', dec_string ''logScanPayload.mode'' lsMode_update),
      (''sourcePresetId'', dec_string ''logScanPayload.sourcePresetId'' lsSourcePresetID_update),
      (''runAsRoot'', dec_bool ''logScanPayload.runAsRoot'' lsRunAsRoot_update),
      (''rootScope'', dec_string ''logScanPayload.rootScope'' lsRootScope_update)]"

definition decode_payload :: "executor \<Rightarrow> string \<Rightarrow> string \<Rightarrow> string \<Rightarrow> 's field list \<Rightarrow> 's \<Rightarrow> goerror + 's" where
  "decode_payload ex payload tname ttype fs zero =
     (if payload = [] then Inl (wrap_sentinel ErrInvalidTaskPayload (''missing '' @ ttype @ '' payload''))
      else case exParse ex payload of
        Inl e \<Rightarrow> Inl (wrap_sentinel ErrInvalidTaskPayload (''decode '' @ ttype @ '' payload: '' @ err_text e))
      | Inr j \<Rightarrow>
          (case decode_struct tname fs j zero of
             (Some e, _) \<Rightarrow> Inl (wrap_sentinel ErrInvalidTaskPayload (''decode '' @ ttype @ '' payload: '' @ err_text e))
           | (None, p) \<Rightarrow> Inr p))"

definition decode_shell_payload :: "executor \<Rightarrow> string \<Rightarrow> goerror + shell_payload" where
  "decode_shell_payload ex payload = decode_payload ex payload ''tasks.ShellExecPayload'' ''shell.exec'' shell_fields zero_shell"

definition decode_search_payload :: "executor \<Rightarrow> string \<Rightarrow> goerror + search_payload" where
  "decode_search_payload ex payload = decode_payload ex payload ''tasks.packageSearchPayload'' ''packageSearch'' search_fields
     \<lparr>seQuery = [], seTerm = []\<rparr>"

definition decode_mutation_payload :: "executor \<Rightarrow> string \<Rightarrow> string \<Rightarrow> goerror + mutation_payload" where
  "decode_mutation_payload ex ttype payload = decode_payload ex payload ''tasks.packageMutationPayload'' ttype mutation_fields
     \<lparr>muPackage = [], muPackages = [], muNames = [], muPurge = False\<rparr>"

definition decode_update_payload :: "executor \<Rightarrow> string \<Rightarrow> goerror + update_payload" where
  "decode_update_payload ex payload = decode_payload ex payload ''tasks.agentUpdatePayload'' ''agent.update'' update_fields
     \<lparr>upTargetVersion = [], upTargetID = [], upRollback = False\<rparr>"

definition decode_log_scan_payload :: "executor \<Rightarrow> string \<Rightarrow> goerror + log_scan_payload" where
  "decode_log_scan_payload ex payload = decode_payload ex payload ''tasks.logScanPayload'' ''log.scan'' log_scan_fields
     \<lparr>lsMode = [], lsSourcePresetID = [], lsRunAsRoot = False, lsRootScope = []\<rparr>"

definition timeout_for :: "executor \<Rightarrow> task \<Rightarrow> int" where
  "timeout_for ex t =
     (if taskTimeoutSeconds t > 0 then wrap64 (taskTimeoutSeconds t * second)
      else if taskType t \<noteq> ''shell.exec'' then exDefaultTimeout ex
      else case decode_shell_payload ex (taskPayload t) of
        Inl e \<Rightarrow> exDefaultTimeout ex
      | Inr p \<Rightarrow>
          if spTimeoutSeconds p > 0 then wrap64 (spTimeoutSeconds p * second)
          else if spTimeout p \<noteq> [] then
            (case parse_duration (spTimeout p) of
               Some d \<Rightarrow> if d > 0 then d else exDefaultTimeout ex
             | None \<Rightarrow> exDefaultTimeout ex)
          else exDefaultTimeout ex)"

subsection \<open>Commands\<close>

record command_spec =
  csName :: string
  csArgs :: "string list"
  csEnv :: "(string \<times> string) list"
  csDir :: string
  csStartMessage :: string
  csParse :: "result_parser option"

text \<open>\<open>strconvQuote\<close> and \<open>formatCommandForLog\<close>.\<close>

definition strconv_quote :: "string \<Rightarrow> string" where
  "strconv_quote v = [CHR 0x22] @ replace_all [CHR 0x22] [CHR 0x5C, CHR 0x22]
     (replace_all [CHR 0x5C] [CHR 0x5C, CHR 0x5C] v) @ [CHR 0x22]"

definition format_command_for_log :: "string \<Rightarrow> string list \<Rightarrow> string" where
  "format_command_for_log name args =
     str_join '' '' (name # map (\<lambda>a. if contains_any a [CHR '' '', CHR 0x09, CHR 0x0D, CHR 0x0A, CHR 0x22, CHR 0x27]
        then strconv_quote a else a) args)"

definition ensure_linux_task_support :: "executor \<Rightarrow> goerror + unit" where
  "ensure_linux_task_support ex =
     (if exGoos ex \<noteq> ''linux''
      then Inl (wrap_sentinel ErrUnsupportedExecutionEnvironment (''package tasks require linux, got '' @ exGoos ex))
      else Inr ())"

definition require_binary :: "executor \<Rightarrow> string \<Rightarrow> goerror + string" where
  "require_binary ex name =
     (case exLookPath ex name of
        Inl e \<Rightarrow> Inl (wrap_sentinel ErrUnsupportedExecutionEnvironment
                   (''required binary '' @ quote_text name @ '' is not available''))
      | Inr path \<Rightarrow> Inr path)"

definition wrap_with_sudo :: "executor \<Rightarrow> string \<Rightarrow> string list \<Rightarrow> goerror + string \<times> string list" where
  "wrap_with_sudo ex name args =
     (if exEuid ex = 0 then Inr (name, args)
      else case exLookPath ex ''sudo'' of
        Inl e \<Rightarrow> Inr (name, args)
      | Inr sudo \<Rightarrow> Inr (sudo, [''-n'', name] @ args))"

definition resolve_agent_path :: "executor \<Rightarrow> goerror + string" where
  "resolve_agent_path ex =
     (case exLookPath ex ''noderax-agent'' of
        Inr path \<Rightarrow> Inr path
      | Inl e \<Rightarrow>
          (case exExecutablePath ex of
             Inr path \<Rightarrow> Inr path
           | Inl e \<Rightarrow> Inl (wrap_sentinel ErrUnsupportedExecutionEnvironment
                        ''could not resolve the managed noderax-agent binary'')))"

text \<open>\<open>fmt.Errorf("%w: " + what + ": %v", ErrUnsupportedExecutionEnvironment, err)\<close>.\<close>

definition env_failure :: "string \<Rightarrow> goerror \<Rightarrow> goerror" where
  "env_failure what e = wrap_sentinel ErrUnsupportedExecutionEnvironment (what @ '': '' @ err_text e)"

definition helper_available :: "executor \<Rightarrow> string \<Rightarrow> bool" where
  "helper_available ex helper \<longleftrightarrow> exGoos ex = ''linux'' \<and> exFileExists ex helper"

definition handoff_spec :: "update_payload \<Rightarrow> string \<Rightarrow> string \<Rightarrow> string \<times> string list \<Rightarrow> command_spec" where
  "handoff_spec p version target cmd =
     \<lparr>csName = fst cmd, csArgs = snd cmd, csEnv = [], csDir = [],
      csStartMessage = ''handing off agent update to '' @ version,
      csParse = Some (\<lambda>_. ([], HandoffResult target version (upRollback p)))\<rparr>"

definition agent_update_command :: "executor \<Rightarrow> string \<Rightarrow> command_spec io" where
  "agent_update_command ex payload =
     io_bind (io_lift (ensure_linux_task_support ex)) (\<lambda>_.
     io_bind (io_lift (decode_update_payload ex payload)) (\<lambda>p.
       let version = trim_space (upTargetVersion p); target = trim_space (upTargetID p) in
       if version = [] then io_fail (wrap_sentinel ErrInvalidTaskPayload ''agent.update payload requires targetVersion'')
       else if target = [] then io_fail (wrap_sentinel ErrInvalidTaskPayload ''agent.update payload requires targetId'')
       else io_bind (io_lift (resolve_agent_path ex)) (\<lambda>agent.
         let args = [''update'', ''--target-version'', version, ''--target-id'', target]
               @ (if upRollback p then [''--rollback''] else []) in
         if helper_available ex update_helper_path then
           io_bind (io_check (env_failure ''write privileged update request'')
                      (write_managed_update_request p (exUpdateRequestPath ex))) (\<lambda>_.
           io_bind (io_lift (wrap_with_sudo ex update_helper_path [])) (\<lambda>cmd.
           io_ret (handoff_spec p version target cmd)))
         else
           io_bind (io_lift (wrap_with_sudo ex agent args)) (\<lambda>cmd.
           io_ret (handoff_spec p version target cmd)))))"

definition scope_denied :: "executor \<Rightarrow> string \<Rightarrow> bool" where
  "scope_denied ex scope = (case exRootScopeChecker ex of None \<Rightarrow> False | Some ok \<Rightarrow> \<not> ok scope)"

definition scope_error :: "string \<Rightarrow> goerror" where
  "scope_error scope = wrap_sentinel ErrUnsupportedExecutionEnvironment
     (''current root access profile does not allow '' @ scope @ '' scope'')"

text \<open>The root branch of \<open>logScanCommand\<close>.\<close>

definition log_scan_root :: "executor \<Rightarrow> string \<Rightarrow> log_scan_payload \<Rightarrow> string \<times> string list \<Rightarrow> (string \<times> string list) io" where
  "log_scan_root ex payload p cmd =
     (let s = trim_space (lsRootScope p); scope = (if s = [] \<or> s = ''task'' then ''operational'' else s) in
      if scope \<noteq> ''operational'' then
        io_fail (wrap_sentinel ErrInvalidTaskPayload ''log.scan root execution requires operational scope'')
      else if scope_denied ex scope then io_fail (scope_error scope)
      else if helper_available ex log_scan_helper_path then
        io_bind (io_check (env_failure ''write operational log scan request'')
                   (write_operational_log_scan_request payload (exLogScanRequestPath ex))) (\<lambda>_.
        io_lift (wrap_with_sudo ex log_scan_helper_path []))
      else io_lift (wrap_with_sudo ex (fst cmd) (snd cmd)))"

definition log_scan_command :: "executor \<Rightarrow> string \<Rightarrow> command_spec io" where
  "log_scan_command ex payload =
     io_bind (io_lift (ensure_linux_task_support ex)) (\<lambda>_.
     io_bind (io_lift (decode_log_scan_payload ex payload)) (\<lambda>p.
       if trim_space (lsMode p) = [] then
         io_fail (wrap_sentinel ErrInvalidTaskPayload ''log.scan payload requires mode'')
       else if trim_space (lsSourcePresetID p) = [] then
         io_fail (wrap_sentinel ErrInvalidTaskPayload ''log.scan payload requires sourcePresetId'')
       else io_bind (io_lift (resolve_agent_path ex)) (\<lambda>agent.
         io_bind (\<lambda>w. case write_json_temp_request (exTempDir ex) ''noderax-agent-log-scan-*.json'' payload w of
                    (Inl e, w1) \<Rightarrow> (Inl (env_failure ''write log scan request'' e), w1)
                  | (Inr t, w1) \<Rightarrow> (Inr t, w1)) (\<lambda>request.
         io_bind (if lsRunAsRoot p then log_scan_root ex payload p (agent, [''log-scan'', ''--request'', request])
                  else io_ret (agent, [''log-scan'', ''--request'', request])) (\<lambda>cmd.
         io_ret \<lparr>csName = fst cmd, csArgs = snd cmd, csEnv = [], csDir = [],
                 csStartMessage = ''running log.scan for preset '' @ lsSourcePresetID p @ '' via '' @ fst cmd,
                 csParse = Some (parse_log_scan_result (exParse ex))\<rparr>)))))"

definition build_shell_command :: "shell_payload \<Rightarrow> string \<times> string list" where
  "build_shell_command p =
     (let s0 = spShell p; s1 = (if spRunAsRoot p then ''/bin/sh'' else s0);
          shell = (if s1 = [] then ''/bin/sh'' else s1)
      in (shell, [''-lc'', spCommand p]))"

definition build_operational_root_command :: "executor \<Rightarrow> string \<Rightarrow> (string \<times> string list) io" where
  "build_operational_root_command ex command =
     (let norm = str_join '' '' (str_fields (trim_space command)) in
      if norm = ''reboot'' then
        io_bind (io_lift (require_binary ex ''reboot'')) (\<lambda>path. io_lift (wrap_with_sudo ex path []))
      else if norm = ''systemctl restart noderax-agent'' \<or> norm = ''systemctl restart noderax-agent.service'' then
        io_bind (io_lift (require_binary ex ''systemctl'')) (\<lambda>path.
          io_lift (wrap_with_sudo ex path [''restart'', ''noderax-agent.service'']))
      else if norm = ''apt-get update'' then
        io_bind (io_lift (require_binary ex ''apt-get'')) (\<lambda>path.
          if helper_available ex package_helper_path then
            io_bind (io_check (env_failure ''write package mutation request'')
                       (write_package_mutation_request ''update'' [] (exPackageRequestPath ex))) (\<lambda>_.
            io_lift (wrap_with_sudo ex package_helper_path []))
          else io_lift (wrap_with_sudo ex path [''update'']))
      else io_fail (wrap_sentinel ErrInvalidTaskPayload (''unsupported operational root command '' @ quote_text command)))"

text \<open>The root branch of \<open>shellCommand\<close>.\<close>

definition shell_root :: "executor \<Rightarrow> shell_payload \<Rightarrow> string \<times> string list \<Rightarrow> (string \<times> string list) io" where
  "shell_root ex p cmd =
     (if trim_space (spRootScope p) = [] then
        io_fail (wrap_sentinel ErrInvalidTaskPayload ''shell.exec root execution requires rootScope'')
      else if scope_denied ex (spRootScope p) then io_fail (scope_error (spRootScope p))
      else if spRootScope p = ''operational'' then build_operational_root_command ex (spCommand p)
      else if helper_available ex task_root_helper_path then
        io_bind (io_check (env_failure ''write task root request'')
                   (write_task_root_request (spCommand p) (exTaskRootRequestPath ex))) (\<lambda>_.
        io_lift (wrap_with_sudo ex task_root_helper_path []))
      else io_lift (wrap_with_sudo ex (fst cmd) (snd cmd)))"

definition shell_command :: "executor \<Rightarrow> string \<Rightarrow> command_spec io" where
  "shell_command ex payload =
     io_bind (io_lift (decode_shell_payload ex payload)) (\<lambda>p.
       if trim_space (spCommand p) = [] then
         io_fail (wrap_sentinel ErrInvalidTaskPayload ''shell.exec payload requires a command'')
       else
         io_bind (if spRunAsRoot p then shell_root ex p (build_shell_command p)
                  else io_ret (build_shell_command p)) (\<lambda>cmd.
         io_ret \<lparr>csName = fst cmd, csArgs = snd cmd, csEnv = spEnvironment p, csDir = spWorkingDir p,
                 csStartMessage = ''running shell.exec command via '' @ fst cmd, csParse = None\<rparr>))"

text \<open>The specification of a command that is logged as it is run.\<close>

definition logged_spec :: "string \<Rightarrow> string list \<Rightarrow> (string \<times> string) list \<Rightarrow> result_parser option \<Rightarrow> command_spec" where
  "logged_spec name args env parser =
     \<lparr>csName = name, csArgs = args, csEnv = env, csDir = [],
      csStartMessage = ''running '' @ format_command_for_log name args, csParse = parser\<rparr>"

definition package_list_command :: "executor \<Rightarrow> command_spec io" where
  "package_list_command ex =
     io_bind (io_lift (ensure_linux_task_support ex)) (\<lambda>_.
       case exLookPath ex ''dpkg'' of
         Inr dpkg \<Rightarrow> io_ret (logged_spec dpkg [''-l''] [(''COLUMNS'', ''100000''), (''PAGER'', ''cat'')] (Some parse_package_list))
       | Inl _ \<Rightarrow>
           io_bind (io_lift (require_binary ex ''apt'')) (\<lambda>apt.
           io_ret (logged_spec apt [''list'', ''--installed''] [(''COLUMNS'', ''10000''), (''PAGER'', ''cat'')]
             (Some parse_package_list))))"

definition search_term_error :: "string \<Rightarrow> goerror" where
  "search_term_error t = wrap_sentinel ErrInvalidTaskPayload
     (''packageSearch query term '' @ quote_text t @ '' must not start with '' @ [CHR 0x27] @ ''-'' @ [CHR 0x27])"

definition package_search_command :: "executor \<Rightarrow> string \<Rightarrow> command_spec io" where
  "package_search_command ex payload =
     io_bind (io_lift (ensure_linux_task_support ex)) (\<lambda>_.
     io_bind (io_lift (decode_search_payload ex payload)) (\<lambda>p.
       let q = trim_space (seQuery p); query = (if q = [] then trim_space (seTerm p) else q);
           terms = str_fields query in
       if terms = [] then
         io_fail (wrap_sentinel ErrInvalidTaskPayload ''packageSearch payload requires a non-empty query'')
       else case find (\<lambda>t. has_prefix t ''-'') terms of
         Some t \<Rightarrow> io_fail (search_term_error t)
       | None \<Rightarrow>
           io_bind (io_lift (require_binary ex ''apt'')) (\<lambda>apt.
           io_ret (logged_spec apt (''search'' # terms) [(''COLUMNS'', ''10000''), (''PAGER'', ''cat'')]
             (Some parse_package_search)))))"

text \<open>The loop of \<open>normalizePackageNames\<close>: the first bad name is the error.\<close>

fun clean_names :: "string list \<Rightarrow> goerror + string list" where
  "clean_names [] = Inr []"
| "clean_names (raw # rest) =
     (let name = trim_space raw in
      if name = [] then Inl (wrap_sentinel ErrInvalidTaskPayload ''package names must not be empty'')
      else if has_prefix name ''-'' then Inl (wrap_sentinel ErrInvalidTaskPayload (''invalid package name '' @ quote_text name))
      else rbind (clean_names rest) (\<lambda>ns. Inr (name # ns)))"

definition normalize_package_names :: "mutation_payload \<Rightarrow> goerror + string list" where
  "normalize_package_names p =
     rbind (clean_names ((if muPackage p \<noteq> [] then [muPackage p] else []) @ muPackages p @ muNames p)) (\<lambda>packages.
       if packages = [] then Inl (wrap_sentinel ErrInvalidTaskPayload ''package list must not be empty'')
       else Inr packages)"

definition decode_package_names :: "executor \<Rightarrow> string \<Rightarrow> goerror + string list" where
  "decode_package_names ex payload = rbind (decode_mutation_payload ex ''packageInstall'' payload) normalize_package_names"

definition wrap_package_mutation_command ::
    "executor \<Rightarrow> string \<Rightarrow> string \<Rightarrow> string list \<Rightarrow> string list \<Rightarrow> (string \<times> string list) io" where
  "wrap_package_mutation_command ex operation name args packages =
     (if helper_available ex package_helper_path then
        io_bind (io_check (env_failure ''write package mutation request'')
                   (write_package_mutation_request operation packages (exPackageRequestPath ex))) (\<lambda>_.
        io_lift (wrap_with_sudo ex package_helper_path []))
      else io_lift (wrap_with_sudo ex name args))"

text \<open>The tail the three mutation commands share.\<close>

definition mutation_spec :: "executor \<Rightarrow> string \<Rightarrow> string \<Rightarrow> string list \<Rightarrow> command_spec io" where
  "mutation_spec ex operation aptget packages =
     io_bind (wrap_package_mutation_command ex operation aptget ([operation, ''-y'', ''--''] @ packages) packages) (\<lambda>cmd.
     io_ret (logged_spec (fst cmd) (snd cmd) [(''DEBIAN_FRONTEND'', ''noninteractive'')] None))"

definition package_install_command :: "executor \<Rightarrow> string \<Rightarrow> command_spec io" where
  "package_install_command ex payload =
     io_bind (io_lift (ensure_linux_task_support ex)) (\<lambda>_.
     io_bind (io_lift (require_binary ex ''apt-get'')) (\<lambda>aptget.
     io_bind (io_lift (decode_package_names ex payload)) (\<lambda>packages.
     mutation_spec ex ''install'' aptget packages)))"

definition package_remove_command :: "executor \<Rightarrow> string \<Rightarrow> command_spec io" where
  "package_remove_command ex payload =
     io_bind (io_lift (ensure_linux_task_support ex)) (\<lambda>_.
     io_bind (io_lift (require_binary ex ''apt-get'')) (\<lambda>aptget.
     io_bind (io_lift (decode_mutation_payload ex ''packageRemove'' payload)) (\<lambda>p.
     io_bind (io_lift (normalize_package_names p)) (\<lambda>packages.
     mutation_spec ex (if muPurge p then ''purge'' else ''remove'') aptget packages))))"

definition package_purge_command :: "executor \<Rightarrow> string \<Rightarrow> command_spec io" where
  "package_purge_command ex payload =
     io_bind (io_lift (ensure_linux_task_support ex)) (\<lambda>_.
     io_bind (io_lift (require_binary ex ''apt-get'')) (\<lambda>aptget.
     io_bind (io_lift (decode_mutation_payload ex ''packagePurge'' payload)) (\<lambda>p.
     io_bind (io_lift (normalize_package_names p)) (\<lambda>packages.
     mutation_spec ex ''purge'' aptget packages))))"

definition command_for_task :: "executor \<Rightarrow> task \<Rightarrow> command_spec io" where
  "command_for_task ex t =
     (let ty = taskType t; payload = taskPayload t in
      if ty = ''agent.update'' then agent_update_command ex payload
      else if ty = ''log.scan'' then log_scan_command ex payload
      else if ty = ''shell.exec'' then shell_command ex payload
      else if ty = ''packageList'' then package_list_command ex
      else if ty = ''packageSearch'' then package_search_command ex payload
      else if ty = ''packageInstall'' then package_install_command ex payload
      else if ty = ''packageRemove'' then package_remove_command ex payload
      else if ty = ''packagePurge'' then package_purge_command ex payload
      else io_fail (wrap_sentinel ErrUnsupportedTaskType ty))"

subsection \<open>Execute\<close>

text \<open>
  \<open>mergeEnvironment\<close>: later entries win, overrides last. Go's map iteration order is arbitrary; the
  model lists the keys in insertion order.
\<close>

definition environ_step :: "string \<Rightarrow> (string \<times> string) list \<Rightarrow> (string \<times> string) list" where
  "environ_step entry m = (case cut_char CHR ''='' entry of (k, Some v) \<Rightarrow> AList.update k v m | (k, None) \<Rightarrow> m)"

definition merge_environment :: "string list \<Rightarrow> (string \<times> string) list \<Rightarrow> string list" where
  "merge_environment environ overrides =
     map (\<lambda>(k, v). k @ ''='' @ v) (fold (\<lambda>(k, v) m. AList.update k v m) overrides (fold environ_step environ []))"

text \<open>
  What a command does once made: the pipes and the start may fail; the two pipes deliver bytes up to an
  end or a read error; \<open>prMerge\<close> is the order in which the two readers pass the output lock and
  \<open>prLogMerge\<close> that in which they reach the log; \<open>prCtxErr\<close> is \<open>ctx.Err()\<close> after the wait.
\<close>

record process_run =
  prStdoutPipe :: "goerror option"
  prStderrPipe :: "goerror option"
  prStart :: "goerror option"
  prStdout :: "string \<times> goerror option"
  prStderr :: "string \<times> goerror option"
  prMerge :: "log_line list \<Rightarrow> log_line list \<Rightarrow> log_line list"
  prLogMerge :: "log_line list \<Rightarrow> log_line list \<Rightarrow> log_line list"
  prWait :: "goerror option"
  prCtxErr :: "goerror option"
  prStartedAt :: int
  prCompletedAt :: int

record execution_result =
  xrExitCode :: int
  xrStartedAt :: int
  xrCompletedAt :: int
  xrDuration :: int
  xrOutput :: string
  xrResult :: task_result

definition failed_result :: execution_result where
  "failed_result = \<lparr>xrExitCode = -1, xrStartedAt = 0, xrCompletedAt = 0, xrDuration = 0, xrOutput = [], xrResult = NoResult\<rparr>"

text \<open>\<open>scanOutput\<close>: the lines of one pipe; a long line or a read error ends it with a system line.\<close>

definition scan_limit :: nat where
  "scan_limit = 1024 * 1024"

definition stream_error :: "goerror \<Rightarrow> log_line" where
  "stream_error e = (''system'', ''log stream error: '' @ err_text e)"

definition scan_output :: "string \<Rightarrow> string \<times> goerror option \<Rightarrow> log_line list" where
  "scan_output stream src =
     (case scan_lines scan_limit (fst src) of (ls, err) \<Rightarrow>
        map (\<lambda>l. (stream, l)) ls
        @ (case err of Some e \<Rightarrow> [stream_error e]
           | None \<Rightarrow> (case snd src of Some e \<Rightarrow> [stream_error e] | None \<Rightarrow> [])))"

definition output_limit :: nat where
  "output_limit = 1024 * 1024 * 2"

text \<open>\<open>captureLog\<close> on the output builder.\<close>

definition capture_line :: "string \<Rightarrow> log_line \<Rightarrow> string" where
  "capture_line out l =
     (if length out < output_limit
      then out @ (if fst l = ''stderr'' then ''[stderr] '' else []) @ snd l @ [CHR 0x0A] else out)"

definition capture_all :: "log_line list \<Rightarrow> string" where
  "capture_all ls = foldl capture_line [] ls"

definition exit_code :: "goerror option \<Rightarrow> int" where
  "exit_code err = (case err of None \<Rightarrow> 0 | Some e \<Rightarrow> (case err_as_exit e of Some c \<Rightarrow> c | None \<Rightarrow> -1))"

definition reject :: "goerror \<Rightarrow> execution_result \<times> goerror option \<times> log_line list" where
  "reject e = (failed_result, Some e, [(''system'', err_text e)])"

text \<open>The run of a command that was built: result, error, and the lines given to \<open>onLog\<close> in order.\<close>

definition run_spec :: "command_spec \<Rightarrow> process_run \<Rightarrow> execution_result \<times> goerror option \<times> log_line list" where
  "run_spec spec run =
     (case prStdoutPipe run of
        Some e \<Rightarrow> reject (wrap_prefix ''prepare stdout pipe: '' e)
      | None \<Rightarrow>
        (case prStderrPipe run of
           Some e \<Rightarrow> reject (wrap_prefix ''prepare stderr pipe: '' e)
         | None \<Rightarrow>
           (case prStart run of
              Some e \<Rightarrow>
                (failed_result, Some (wrap_prefix ''start command: '' e),
                 [(''system'', csStartMessage spec), (''system'', err_text (wrap_prefix ''start command: '' e))])
            | None \<Rightarrow>
                (let out = scan_output ''stdout'' (prStdout run); err = scan_output ''stderr'' (prStderr run);
                     raw = capture_all (prMerge run out err);
                     parsed = (case csParse spec of None \<Rightarrow> ([], NoResult) | Some f \<Rightarrow> f raw);
                     result = \<lparr>xrExitCode = exit_code (prWait run), xrStartedAt = prStartedAt run,
                       xrCompletedAt = prCompletedAt run, xrDuration = prCompletedAt run - prStartedAt run,
                       xrOutput = raw, xrResult = snd parsed\<rparr>
                 in (result,
                     (case prWait run of None \<Rightarrow> None
                      | Some e \<Rightarrow> (case prCtxErr run of Some c \<Rightarrow> Some c | None \<Rightarrow> Some e)),
                     [(''system'', csStartMessage spec)] @ prLogMerge run out err @ fst parsed
                     @ [(''system'', ''command finished with exit code '' @ int_text (xrExitCode result))])))))"

type_synonym new_command = "string \<Rightarrow> string list \<Rightarrow> string list \<Rightarrow> string option \<Rightarrow> process_run"

text \<open>\<open>e.newCommand\<close>, \<open>SetEnv\<close> and \<open>SetDir\<close>: the process a specification gives.\<close>

definition spawn :: "executor \<Rightarrow> new_command \<Rightarrow> command_spec \<Rightarrow> process_run" where
  "spawn ex run spec = run (csName spec) (csArgs spec) (merge_environment (exEnviron ex) (csEnv spec))
     (if csDir spec \<noteq> [] then Some (csDir spec) else None)"

definition execute :: "executor \<Rightarrow> new_command \<Rightarrow> task \<Rightarrow> world \<Rightarrow>
    (execution_result \<times> goerror option \<times> log_line list) \<times> world" where
  "execute ex run t w =
     (case command_for_task ex t w of
        (Inl e, w1) \<Rightarrow> (reject e, w1)
      | (Inr spec, w1) \<Rightarrow> (run_spec spec (spawn ex run spec), w1))"

subsection \<open>Errors are classified\<close>

text \<open>The three sentinels a command that cannot be built ends with.\<close>

definition build_error :: "goerror \<Rightarrow> bool" where
  "build_error e \<longleftrightarrow> err_is e ErrInvalidTaskPayload \<or> err_is e ErrUnsupportedExecutionEnvironment"

lemma build_error_wrap [simp]:
  "build_error (wrap_sentinel ErrInvalidTaskPayload t)" "build_error (wrap_sentinel ErrUnsupportedExecutionEnvironment t)"
  "build_error (env_failure what e)" "build_error (scope_error s)" "build_error (search_term_error t)"
  by (simp_all add: build_error_def env_failure_def scope_error_def search_term_error_def)

definition fails_classified :: "'a io \<Rightarrow> bool" where
  "fails_classified m \<longleftrightarrow> (\<forall>w e w'. m w = (Inl e, w') \<longrightarrow> build_error e)"

lemma fails_classified_lift: "(\<And>e. r = Inl e \<Longrightarrow> build_error e) \<Longrightarrow> fails_classified (io_lift r)"
  by (simp add: fails_classified_def)

lemma fails_classified_basic:
  "fails_classified (io_ret x)"
  "build_error e \<Longrightarrow> fails_classified (io_fail e)"
  "fails_classified (io_check (env_failure what) op)"
  "fails_classified m \<Longrightarrow> fails_classified n \<Longrightarrow> fails_classified (if b then m else n)"
  "fails_classified n \<Longrightarrow> (\<And>y. fails_classified (h y)) \<Longrightarrow> fails_classified (case v of None \<Rightarrow> n | Some y \<Rightarrow> h y)"
  "(\<And>y. fails_classified (g y)) \<Longrightarrow> (\<And>y. fails_classified (k y)) \<Longrightarrow> fails_classified (case u of Inl y \<Rightarrow> g y | Inr y \<Rightarrow> k y)"
  by (auto simp: fails_classified_def io_check_iff split: option.splits sum.splits)

lemma fails_classified_bind:
  "fails_classified m \<Longrightarrow> (\<And>x. fails_classified (f x)) \<Longrightarrow> fails_classified (io_bind m f)"
  unfolding fails_classified_def io_bind_Inl by blast

lemma pure_errors:
  "ensure_linux_task_support ex = Inl e \<Longrightarrow> build_error e"
  "require_binary ex n = Inl e \<Longrightarrow> build_error e"
  "wrap_with_sudo ex n a = Inl e \<Longrightarrow> build_error e"
  "resolve_agent_path ex = Inl e \<Longrightarrow> build_error e"
  "decode_payload ex pl tn ty fs z = Inl e \<Longrightarrow> build_error e"
  by (auto simp: ensure_linux_task_support_def require_binary_def wrap_with_sudo_def resolve_agent_path_def
      decode_payload_def split: if_splits sum.splits option.splits prod.splits)

lemma clean_names_error: "clean_names ns = Inl e \<Longrightarrow> build_error e"
  by (induction ns) (auto simp: Let_def rbind_Inl_iff split: if_splits)

lemma names_errors:
  "normalize_package_names p = Inl e \<Longrightarrow> build_error e"
  "decode_package_names ex pl = Inl e2 \<Longrightarrow> build_error e2"
proof -
  have n: "normalize_package_names q = Inl d \<Longrightarrow> build_error d" for q d
    unfolding normalize_package_names_def rbind_Inl_iff by (auto dest: clean_names_error split: if_splits simp del: clean_names.simps)
  then show "normalize_package_names p = Inl e \<Longrightarrow> build_error e" .
  show "decode_package_names ex pl = Inl e2 \<Longrightarrow> build_error e2"
    using n by (auto simp: decode_package_names_def decode_mutation_payload_def rbind_Inl_iff dest: pure_errors)
qed

lemmas decode_defs = decode_shell_payload_def decode_search_payload_def decode_mutation_payload_def
  decode_update_payload_def decode_log_scan_payload_def

lemma lift_classified:
  "fails_classified (io_lift (ensure_linux_task_support ex))"
  "fails_classified (io_lift (require_binary ex n))"
  "fails_classified (io_lift (wrap_with_sudo ex n a))"
  "fails_classified (io_lift (resolve_agent_path ex))"
  "fails_classified (io_lift (decode_payload ex pl tn ty fs z))"
  "fails_classified (io_lift (normalize_package_names p))"
  "fails_classified (io_lift (decode_package_names ex pl))"
  by (rule fails_classified_lift; erule pure_errors names_errors)+

lemma temp_request_classified:
  "fails_classified (\<lambda>w. case m w of (Inl e, w1) \<Rightarrow> (Inl (env_failure what e), w1) | (Inr t, w1) \<Rightarrow> (Inr t, w1))"
  by (auto simp: fails_classified_def split: prod.splits sum.splits)

lemmas classified = lift_classified temp_request_classified fails_classified_basic fails_classified_bind

lemma mutation_spec_classified: "fails_classified (mutation_spec ex op apt ns)"
  unfolding mutation_spec_def wrap_package_mutation_command_def by (intro classified)

lemma operational_classified: "fails_classified (build_operational_root_command ex c)"
  unfolding build_operational_root_command_def Let_def by (intro classified) simp

lemma root_classified: "fails_classified (shell_root ex p cmd)" "fails_classified (log_scan_root ex pl q cmd)"
  unfolding shell_root_def log_scan_root_def Let_def by (intro classified operational_classified; simp)+

lemma package_commands_classified:
  "fails_classified (package_list_command ex)"
  "fails_classified (package_search_command ex pl)"
  "fails_classified (package_install_command ex pl)"
  "fails_classified (package_remove_command ex pl)"
  "fails_classified (package_purge_command ex pl)"
  unfolding package_list_command_def package_search_command_def package_install_command_def
    package_remove_command_def package_purge_command_def Let_def decode_defs
  by (intro classified mutation_spec_classified; simp)+

lemma task_commands_classified:
  "fails_classified (agent_update_command ex pl)"
  "fails_classified (shell_command ex pl)"
  "fails_classified (log_scan_command ex pl)"
  unfolding agent_update_command_def shell_command_def log_scan_command_def Let_def decode_defs
  by (intro classified root_classified; simp)+

definition known_task_types :: "string list" where
  "known_task_types = [''agent.update'', ''log.scan'', ''shell.exec'', ''packageList'', ''packageSearch'',
     ''packageInstall'', ''packageRemove'', ''packagePurge'']"

text \<open>
  A task that cannot be turned into a command ends with exactly one kind of error, whatever the
  host and payload: an unknown type is reported as an unsupported task type, and for a known type the
  error is either an invalid payload or an unsupported environment.
\<close>

theorem command_errors_classified:
  assumes "command_for_task ex t w = (Inl e, w')"
  shows "if taskType t \<in> set known_task_types then build_error e
         else err_is e ErrUnsupportedTaskType \<and> \<not> build_error e \<and> w' = w"
proof (cases "taskType t \<in> set known_task_types")
  case True
  then have "fails_classified (command_for_task ex t)"
    unfolding command_for_task_def Let_def
    by (auto simp: known_task_types_def package_commands_classified task_commands_classified)
  with True assms show ?thesis by (auto simp: fails_classified_def)
next
  case False
  then have "command_for_task ex t = io_fail (wrap_sentinel ErrUnsupportedTaskType (taskType t))"
    by (simp add: known_task_types_def command_for_task_def Let_def)
  with False assms show ?thesis by (simp add: build_error_def)
qed

subsection \<open>Which files a command touches\<close>

definition request_targets :: "executor \<Rightarrow> string set" where
  "request_targets ex = {request_target (exUpdateRequestPath ex), request_target (exPackageRequestPath ex),
     request_target (exLogScanRequestPath ex), request_target (exTaskRootRequestPath ex)}"

definition keeps_files :: "string set \<Rightarrow> 'a io \<Rightarrow> bool" where
  "keeps_files T m \<longleftrightarrow> (\<forall>w r w' p. m w = (r, w') \<longrightarrow> wfiles w p \<noteq> None \<longrightarrow> p \<notin> T \<longrightarrow> wfiles w' p = wfiles w p)"

lemma keeps_files_basic:
  "keeps_files T (io_ret x)" "keeps_files T (io_fail e)" "keeps_files T (io_lift r)"
  "keeps_files T m \<Longrightarrow> keeps_files T n \<Longrightarrow> keeps_files T (if b then m else n)"
  "keeps_files T n \<Longrightarrow> (\<And>y. keeps_files T (h y)) \<Longrightarrow> keeps_files T (case v of None \<Rightarrow> n | Some y \<Rightarrow> h y)"
  "(\<And>y. keeps_files T (k y)) \<Longrightarrow> (\<And>y. keeps_files T (j y)) \<Longrightarrow> keeps_files T (case u of Inl y \<Rightarrow> k y | Inr y \<Rightarrow> j y)"
  by (simp_all add: keeps_files_def io_ret_def io_fail_def split: option.split sum.split)

lemma keeps_files_bind:
  assumes "keeps_files T m" "\<And>x. keeps_files T (f x)"
  shows "keeps_files T (io_bind m f)"
  unfolding keeps_files_def
proof (intro allI impI)
  fix w r w' p
  assume b: "io_bind m f w = (r, w')" and p: "wfiles w p \<noteq> None" "p \<notin> T"
  obtain q w1 where m: "m w = (q, w1)" by (cases "m w")
  have k: "wfiles w1 p = wfiles w p" using assms(1) m p unfolding keeps_files_def by blast
  show "wfiles w' p = wfiles w p"
  proof (cases q)
    case (Inl e)
    with b m k show ?thesis by (simp add: io_bind_def)
  next
    case (Inr x)
    with b m have "f x w1 = (r, w')" by (simp add: io_bind_def)
    with assms(2) [of x] k p show ?thesis unfolding keeps_files_def by metis
  qed
qed

lemma keeps_files_check:
  assumes "\<And>w r w' p. op w = (r, w') \<Longrightarrow> wfiles w p \<noteq> None \<Longrightarrow> p \<notin> T \<Longrightarrow> wfiles w' p = wfiles w p"
  shows "keeps_files T (io_check g op)"
  unfolding keeps_files_def
proof (intro allI impI)
  fix w r w' p
  assume a: "io_check g op w = (r, w')" "wfiles w p \<noteq> None" "p \<notin> T"
  obtain q where "op w = (q, w')" using a(1) by (auto simp: io_check_def split: prod.splits option.splits)
  from assms [OF this a(2,3)] show "wfiles w' p = wfiles w p" .
qed

lemma request_keeps:
  "keeps_files (request_targets ex) (io_check g (write_managed_update_request p (exUpdateRequestPath ex)))"
  "keeps_files (request_targets ex) (io_check g (write_package_mutation_request op ns (exPackageRequestPath ex)))"
  "keeps_files (request_targets ex) (io_check g (write_operational_log_scan_request pl (exLogScanRequestPath ex)))"
  "keeps_files (request_targets ex) (io_check g (write_task_root_request c (exTaskRootRequestPath ex)))"
proof -
  show "keeps_files (request_targets ex) (io_check g (write_managed_update_request p (exUpdateRequestPath ex)))"
    by (rule keeps_files_check) (metis (mono_tags) update_writer.writer_keeps insertCI not_None_eq request_targets_def)
  show "keeps_files (request_targets ex) (io_check g (write_package_mutation_request op ns (exPackageRequestPath ex)))"
  proof (rule keeps_files_check)
    fix w r w' q
    assume a: "write_package_mutation_request op ns (exPackageRequestPath ex) w = (r, w')" "wfiles w q \<noteq> None"
      "q \<notin> request_targets ex"
    then obtain f where "wfiles w q = Some f" by blast
    with a package_writer.writer_keeps [of "(op, ns)" "exPackageRequestPath ex" w r w' q f]
    show "wfiles w' q = wfiles w q" by (simp add: request_targets_def)
  qed
  show "keeps_files (request_targets ex) (io_check g (write_operational_log_scan_request pl (exLogScanRequestPath ex)))"
    by (rule keeps_files_check) (metis (mono_tags) log_scan_writer.writer_keeps insertCI not_None_eq request_targets_def)
  show "keeps_files (request_targets ex) (io_check g (write_task_root_request c (exTaskRootRequestPath ex)))"
    by (rule keeps_files_check) (metis (mono_tags) task_root_writer.writer_keeps insertCI not_None_eq request_targets_def)
qed

lemma temp_request_frame:
  assumes "write_json_temp_request dir pat pl w = (r, w')" "wfiles w p \<noteq> None"
  shows "wfiles w' p = wfiles w p"
proof -
  obtain r1 w1 where c: "os_create_temp dir pat w = (r1, w1)" by (cases "os_create_temp dir pat w")
  show ?thesis
  proof (cases r1)
    case (Inl e)
    with assms c os_create_temp_err [OF c [unfolded Inl]] show ?thesis by (simp add: write_json_temp_request_def)
  next
    case (Inr t)
    note t = os_create_temp_ok [OF c [unfolded Inr]]
    obtain r2 w2 where wc: "write_chunks t [(''write request file: '', pl)] w1 = (r2, w2)"
      by (cases "write_chunks t [(''write request file: '', pl)] w1")
    obtain r3 w3 where se: "seal_temp ''chmod request file: '' ''close request file: '' t w2 = (r3, w3)"
      by (cases "seal_temp ''chmod request file: '' ''close request file: '' t w2")
    have "w' = w2 \<or> w' = w3"
      using assms(1) c Inr wc se by (auto simp: write_json_temp_request_def split: option.splits)
    moreover have "only_changes {t} w1 w2" "only_changes {t} w2 w3"
      using write_chunks_frame [OF wc] seal_temp_frame [OF se] by auto
    moreover have "p \<noteq> t" using t assms(2) by auto
    ultimately show ?thesis using t by (auto simp: only_changes_def)
  qed
qed

lemma temp_request_keeps:
  "keeps_files T (\<lambda>w. case write_json_temp_request dir pat pl w of
      (Inl e, w1) \<Rightarrow> (Inl (g e), w1) | (Inr t, w1) \<Rightarrow> (Inr t, w1))"
  unfolding keeps_files_def
  by (auto dest!: temp_request_frame split: prod.splits sum.splits)

lemmas keeping = keeps_files_basic request_keeps temp_request_keeps keeps_files_bind

lemma mutation_spec_keeps: "keeps_files (request_targets ex) (mutation_spec ex op apt ns)"
  unfolding mutation_spec_def wrap_package_mutation_command_def by (intro keeping)

lemma operational_keeps: "keeps_files (request_targets ex) (build_operational_root_command ex c)"
  unfolding build_operational_root_command_def Let_def by (intro keeping)

lemma root_keeps:
  "keeps_files (request_targets ex) (shell_root ex p cmd)"
  "keeps_files (request_targets ex) (log_scan_root ex pl q cmd)"
  unfolding shell_root_def log_scan_root_def Let_def by (intro keeping operational_keeps)+

lemma package_commands_keep:
  "keeps_files (request_targets ex) (package_list_command ex)"
  "keeps_files (request_targets ex) (package_search_command ex pl)"
  "keeps_files (request_targets ex) (package_install_command ex pl)"
  "keeps_files (request_targets ex) (package_remove_command ex pl)"
  "keeps_files (request_targets ex) (package_purge_command ex pl)"
  unfolding package_list_command_def package_search_command_def package_install_command_def
    package_remove_command_def package_purge_command_def Let_def
  by (intro keeping mutation_spec_keeps)+

lemma task_commands_keep:
  "keeps_files (request_targets ex) (agent_update_command ex pl)"
  "keeps_files (request_targets ex) (shell_command ex pl)"
  "keeps_files (request_targets ex) (log_scan_command ex pl)"
  unfolding agent_update_command_def shell_command_def log_scan_command_def Let_def
  by (intro keeping root_keeps)+

text \<open>
  Building a command, successfully or not, changes no existing file except the four request files of
  the root helpers.
\<close>

theorem command_touches_requests_only:
  assumes "command_for_task ex t w = (r, w')" "wfiles w p = Some f"
    and "p \<notin> {path_clean (trim_space (exUpdateRequestPath ex)), path_clean (trim_space (exPackageRequestPath ex)),
       path_clean (trim_space (exLogScanRequestPath ex)), path_clean (trim_space (exTaskRootRequestPath ex))}"
  shows "wfiles w' p = Some f"
proof -
  have "keeps_files (request_targets ex) (command_for_task ex t)"
    unfolding command_for_task_def Let_def
    by (intro keeping package_commands_keep task_commands_keep)
  with assms show ?thesis unfolding keeps_files_def request_targets_def request_target_def by (metis option.distinct(1))
qed

subsection \<open>Root commands\<close>

text \<open>The commands an \<open>operational\<close> scope may run as root, as found on this host.\<close>

definition operational_commands :: "executor \<Rightarrow> (string \<times> string list) list" where
  "operational_commands ex =
     (case exLookPath ex ''reboot'' of Inl _ \<Rightarrow> [] | Inr p \<Rightarrow> [(p, [])])
     @ (case exLookPath ex ''systemctl'' of Inl _ \<Rightarrow> [] | Inr p \<Rightarrow> [(p, [''restart'', ''noderax-agent.service''])])
     @ (case exLookPath ex ''apt-get'' of Inl _ \<Rightarrow> [] | Inr p \<Rightarrow> [(p, [''update''])])"

definition with_sudo :: "executor \<Rightarrow> string \<times> string list \<Rightarrow> string \<times> string list" where
  "with_sudo ex cmd = (if exEuid ex = 0 then cmd
     else case exLookPath ex ''sudo'' of Inl _ \<Rightarrow> cmd | Inr s \<Rightarrow> (s, ''-n'' # fst cmd # snd cmd))"

lemma wrap_with_sudo_eq: "wrap_with_sudo ex n a = Inr (with_sudo ex (n, a))"
  by (auto simp: wrap_with_sudo_def with_sudo_def split: sum.splits)

lemma operational_root_cases:
  assumes "build_operational_root_command ex c w = (Inr cmd, w')"
  shows "(\<exists>k\<in>set (operational_commands ex). cmd = with_sudo ex k \<and> w' = w)
    \<or> cmd = with_sudo ex (package_helper_path, []) \<and> wfiles w' (request_target (exPackageRequestPath ex)) = Some (''update'' @ [CHR 0x0A], 0x180)"
proof -
  have u: "concat (map snd (package_chunks ''update'' [])) = ''update'' @ [CHR 0x0A]" by code_simp
  have ok: "wfiles w2 (request_target (exPackageRequestPath ex)) = Some (''update'' @ [CHR 0x0A], 0x180)"
    if "write_package_mutation_request ''update'' [] (exPackageRequestPath ex) w1 = (None, w2)" for w1 w2
    using package_writer.writer_ok [of "(''update'', [])"] that by (simp add: u)
  show ?thesis
    using assms
    by (auto simp: build_operational_root_command_def Let_def io_bind_Inr io_check_iff require_binary_def
        wrap_with_sudo_eq operational_commands_def dest!: ok split: if_splits sum.splits)
qed

lemma shell_command_cases:
  assumes "shell_command ex pl w = (Inr spec, w')"
  obtains p cmd where "decode_shell_payload ex pl = Inr p" "trim_space (spCommand p) \<noteq> []"
    "(if spRunAsRoot p then shell_root ex p (build_shell_command p) else io_ret (build_shell_command p)) w = (Inr cmd, w')"
    "csName spec = fst cmd" "csArgs spec = snd cmd" "csEnv spec = spEnvironment p" "csDir spec = spWorkingDir p"
  using assms by (auto simp: shell_command_def io_bind_Inr split: if_split_asm)

lemma command_for_shell: "taskType t = ''shell.exec'' \<Longrightarrow> command_for_task ex t = shell_command ex (taskPayload t)"
  by (simp add: command_for_task_def Let_def)

text \<open>
  C6. A shell task with root scope \<open>operational\<close> can only run a fixed set of commands as root: a reboot,
  a restart of the agent's own service, or a package index update, directly or through the package
  helper with the request \<open>update\<close>; and only when the root access profile allows the scope.
\<close>

theorem operational_scope_allowlist:
  assumes "command_for_task ex t w = (Inr spec, w')" "taskType t = ''shell.exec''"
    and "decode_shell_payload ex (taskPayload t) = Inr p" "spRunAsRoot p" "spRootScope p = ''operational''"
  shows "(\<forall>ok. exRootScopeChecker ex = Some ok \<longrightarrow> ok ''operational'')
    \<and> ((\<exists>k\<in>set (operational_commands ex). (csName spec, csArgs spec) = with_sudo ex k)
       \<or> (csName spec, csArgs spec) = with_sudo ex (package_helper_path, [])
          \<and> wfiles w' (request_target (exPackageRequestPath ex)) = Some (''update'' @ [CHR 0x0A], 0x180))"
proof -
  obtain cmd where cmd: "shell_root ex p (build_shell_command p) w = (Inr cmd, w')"
    and eq: "csName spec = fst cmd" "csArgs spec = snd cmd"
    using assms by (auto simp: command_for_shell elim!: shell_command_cases)
  have "\<not> scope_denied ex ''operational''" "build_operational_root_command ex (spCommand p) w = (Inr cmd, w')"
    using cmd assms(5) by (auto simp: shell_root_def split: if_splits)
  with operational_root_cases [OF this(2)] eq show ?thesis by (auto simp: scope_denied_def)
qed

text \<open>
  C8. Every shell task that runs as root names a scope and that scope was approved by the root access
  checker; a task that does not ask for root runs its own shell with no \<open>sudo\<close> added and touches no file.
\<close>

theorem shell_root_needs_approved_scope:
  assumes "command_for_task ex t w = (Inr spec, w')" "taskType t = ''shell.exec''"
    and "decode_shell_payload ex (taskPayload t) = Inr p"
  shows "if spRunAsRoot p
         then trim_space (spRootScope p) \<noteq> [] \<and> (\<forall>ok. exRootScopeChecker ex = Some ok \<longrightarrow> ok (spRootScope p))
         else csName spec = (if spShell p = [] then ''/bin/sh'' else spShell p)
              \<and> csArgs spec = [''-lc'', spCommand p] \<and> w' = w"
  using assms
  by (auto simp: command_for_shell build_shell_command_def Let_def shell_root_def scope_denied_def
      elim!: shell_command_cases split: if_splits option.splits)

subsection \<open>Package tasks\<close>

definition raw_names :: "mutation_payload \<Rightarrow> string list" where
  "raw_names p = (if muPackage p \<noteq> [] then [muPackage p] else []) @ muPackages p @ muNames p"

lemma clean_names_ok:
  "clean_names rs = Inr ns \<longleftrightarrow> ns = map trim_space rs \<and> (\<forall>n\<in>set ns. n \<noteq> [] \<and> \<not> has_prefix n ''-'')"
proof (induction rs arbitrary: ns)
  case (Cons a rs)
  show ?case
    by (cases "trim_space a = []"; cases "has_prefix (trim_space a) ''-''";
        auto simp: rbind_Inr_iff Cons.IH; metis)
qed auto

lemma normalize_package_names_ok:
  "normalize_package_names p = Inr ns \<longleftrightarrow>
     ns = map trim_space (raw_names p) \<and> ns \<noteq> [] \<and> (\<forall>n\<in>set ns. n \<noteq> [] \<and> \<not> has_prefix n ''-'')"
  unfolding normalize_package_names_def rbind_Inr_iff raw_names_def [symmetric] clean_names_ok
  by (auto; metis)

definition mutation_action :: "string \<Rightarrow> mutation_payload \<Rightarrow> string" where
  "mutation_action ty p = (if ty = ''packageInstall'' then ''install''
     else if ty = ''packagePurge'' \<or> muPurge p then ''purge'' else ''remove'')"

lemma mutation_command_cases:
  assumes "command_for_task ex t w = (Inr spec, w')"
    and "taskType t \<in> {''packageInstall'', ''packageRemove'', ''packagePurge''}"
  obtains p aptget ns where "decode_mutation_payload ex (taskType t) (taskPayload t) = Inr p"
    "exGoos ex = ''linux''" "exLookPath ex ''apt-get'' = Inr aptget" "normalize_package_names p = Inr ns"
    "mutation_spec ex (mutation_action (taskType t) p) aptget ns w = (Inr spec, w')"
  using assms
  by (auto simp: command_for_task_def Let_def package_install_command_def package_remove_command_def
      package_purge_command_def io_bind_Inr decode_package_names_def rbind_Inr_iff ensure_linux_task_support_def
      require_binary_def mutation_action_def split: if_splits sum.splits)

text \<open>
  C10. No package name can act as an option or be dropped: a package task that is accepted runs
  \<open>apt-get <action> -y -- <names>\<close>, or hands the helper the action and the same names one per line, where
  the names are all those of the payload in order, trimmed, none empty and none starting with a dash.
\<close>

theorem package_mutation_arguments:
  assumes "command_for_task ex t w = (Inr spec, w')"
    and "taskType t \<in> {''packageInstall'', ''packageRemove'', ''packagePurge''}"
  shows "\<exists>p aptget ns. decode_mutation_payload ex (taskType t) (taskPayload t) = Inr p
    \<and> exLookPath ex ''apt-get'' = Inr aptget
    \<and> ns = map trim_space (raw_names p) \<and> ns \<noteq> [] \<and> (\<forall>n\<in>set ns. n \<noteq> [] \<and> \<not> has_prefix n ''-'')
    \<and> (if helper_available ex package_helper_path
       then (csName spec, csArgs spec) = with_sudo ex (package_helper_path, [])
         \<and> wfiles w' (request_target (exPackageRequestPath ex)) =
             Some (concat (map (\<lambda>l. l @ [CHR 0x0A]) (mutation_action (taskType t) p # ns)), 0x180)
       else (csName spec, csArgs spec) = with_sudo ex (aptget, [mutation_action (taskType t) p, ''-y'', ''--''] @ ns)
         \<and> w' = w)"
  using assms
proof (cases rule: mutation_command_cases)
  case (1 p aptget ns)
  let ?act = "mutation_action (taskType t) p"
  note ns = 1(4) [unfolded normalize_package_names_ok]
  have "trim_space ''install'' = ''install''" "trim_space ''purge'' = ''purge''" "trim_space ''remove'' = ''remove''"
    by code_simp+
  then have act: "trim_space ?act = ?act" by (simp add: mutation_action_def)
  have "map trim_space ns = ns" "filter (\<lambda>n. n \<noteq> []) ns = ns" using ns by (auto simp: o_def filter_id_conv)
  then have chunks: "concat (map snd (package_chunks ?act ns)) = concat (map (\<lambda>l. l @ [CHR 0x0A]) (?act # ns))"
    by (simp add: package_chunks_def act o_def)
  have ok: "wfiles w2 (request_target (exPackageRequestPath ex)) =
      Some (concat (map (\<lambda>l. l @ [CHR 0x0A]) (?act # ns)), 0x180)"
    if "write_package_mutation_request ?act ns (exPackageRequestPath ex) w1 = (None, w2)" for w1 w2
    using package_writer.writer_ok [of "(?act, ns)"] that by (simp only: prod.case chunks fun_upd_same)
  obtain cmd where "wrap_package_mutation_command ex ?act aptget ([?act, ''-y'', ''--''] @ ns) ns w = (Inr cmd, w')"
    and spec: "csName spec = fst cmd" "csArgs spec = snd cmd"
    using 1(5) by (auto simp: mutation_spec_def io_bind_Inr logged_spec_def)
  note wrapped = this(1)
  have "if helper_available ex package_helper_path
      then cmd = with_sudo ex (package_helper_path, []) \<and> wfiles w' (request_target (exPackageRequestPath ex)) =
             Some (concat (map (\<lambda>l. l @ [CHR 0x0A]) (?act # ns)), 0x180)
      else cmd = with_sudo ex (aptget, [?act, ''-y'', ''--''] @ ns) \<and> w' = w"
  proof (cases "helper_available ex package_helper_path")
    case True
    with wrapped have "write_package_mutation_request ?act ns (exPackageRequestPath ex) w = (None, w')"
      "cmd = with_sudo ex (package_helper_path, [])"
      by (auto simp: wrap_package_mutation_command_def wrap_with_sudo_eq io_bind_Inr io_check_iff)
    with ok [OF this(1)] True show ?thesis by simp
  next
    case False
    with wrapped show ?thesis by (simp add: wrap_package_mutation_command_def wrap_with_sudo_eq)
  qed
  with 1(1,3) ns spec show ?thesis by (intro exI [of _ p] exI [of _ aptget] exI [of _ ns]) auto
qed

text \<open>
  Search terms are passed to \<open>apt search\<close> as words, never as options: an accepted search runs
  \<open>apt search\<close> with the blank-separated words of the query (or of the fallback term), none of them empty
  or starting with a dash, as any user, and touches no file.
\<close>

theorem package_search_arguments:
  assumes "command_for_task ex t w = (Inr spec, w')" "taskType t = ''packageSearch''"
  shows "\<exists>p apt terms. decode_search_payload ex (taskPayload t) = Inr p \<and> exLookPath ex ''apt'' = Inr apt
    \<and> terms = str_fields (if trim_space (seQuery p) = [] then trim_space (seTerm p) else trim_space (seQuery p))
    \<and> terms \<noteq> [] \<and> (\<forall>u\<in>set terms. u \<noteq> [] \<and> \<not> has_prefix u ''-'')
    \<and> csName spec = apt \<and> csArgs spec = ''search'' # terms \<and> w' = w"
proof -
  define terms where "terms p = str_fields (if trim_space (seQuery p) = [] then trim_space (seTerm p) else trim_space (seQuery p))"
    for p :: search_payload
  obtain p where p: "decode_search_payload ex (taskPayload t) = Inr p" and ne: "terms p \<noteq> []"
    and rest: "(case find (\<lambda>t. has_prefix t ''-'') (terms p) of
         Some u \<Rightarrow> io_fail (search_term_error u)
       | None \<Rightarrow> io_bind (io_lift (require_binary ex ''apt'')) (\<lambda>apt.
           io_ret (logged_spec apt (''search'' # terms p) [(''COLUMNS'', ''10000''), (''PAGER'', ''cat'')]
             (Some parse_package_search)))) w = (Inr spec, w')"
    using assms unfolding terms_def
    by (auto simp: command_for_task_def package_search_command_def Let_def io_bind_Inr split: if_split_asm)
  then have none: "find (\<lambda>t. has_prefix t ''-'') (terms p) = None" by (auto split: option.splits)
  then have "\<forall>u\<in>set (terms p). u \<noteq> [] \<and> \<not> has_prefix u ''-''" using str_fields_nonempty unfolding find_None_iff terms_def by blast
  moreover obtain apt where "exLookPath ex ''apt'' = Inr apt" "csName spec = apt" "csArgs spec = ''search'' # terms p" "w' = w"
    using rest none by (auto simp: io_bind_Inr require_binary_def logged_spec_def split: sum.splits)
  ultimately show ?thesis using p ne unfolding terms_def by blast
qed

subsection \<open>Timeouts\<close>

text \<open>
  With a positive default, every task gets a positive timeout that never exceeds what was asked for:
  as long as the seconds fit a duration, the task's own timeout wins, then the payload's seconds, then
  the payload's duration text, then the default.
\<close>

theorem timeout_positive:
  assumes "0 < exDefaultTimeout ex" "taskTimeoutSeconds t \<le> 9223372036"
    and "\<forall>p. decode_shell_payload ex (taskPayload t) = Inr p \<longrightarrow> spTimeoutSeconds p \<le> 9223372036"
  shows "0 < timeout_for ex t
    \<and> (0 < taskTimeoutSeconds t \<longrightarrow> timeout_for ex t = taskTimeoutSeconds t * second)
    \<and> (taskTimeoutSeconds t \<le> 0 \<and> taskType t \<noteq> ''shell.exec'' \<longrightarrow> timeout_for ex t = exDefaultTimeout ex)"
proof -
  have w: "wrap64 (s * second) = s * second" if "0 < s" "s \<le> 9223372036" for s
    using that by (intro wrap64_id) simp_all
  show ?thesis
    using assms by (auto simp: timeout_for_def w split: sum.splits option.splits)
qed

text \<open>
  A timeout too large for a duration wraps around: 9223372037 seconds become a negative timeout, so
  the task's context has expired before the command starts.
\<close>

theorem timeout_overflows:
  "timeout_for ex \<lparr>taskID = i, taskType = ty, taskPayload = pl, taskTimeoutSeconds = 9223372037\<rparr> < 0"
proof -
  have "wrap64 (9223372037 * second) < 0" by code_simp
  then show ?thesis by (simp add: timeout_for_def)
qed

subsection \<open>The run\<close>

lemma take_while_lengths: "l \<in> set (takeWhile (\<lambda>l. length l < n) ls) \<Longrightarrow> length l < n"
  by (auto dest: set_takeWhileD)

lemma scan_lines_short: "l \<in> set (fst (scan_lines n s)) \<Longrightarrow> length l < n"
  by (auto simp: scan_lines_def Let_def drop_cr_def dest!: take_while_lengths)

definition read_error_short :: "string \<times> goerror option \<Rightarrow> bool" where
  "read_error_short src \<longleftrightarrow> (case snd src of None \<Rightarrow> True | Some e \<Rightarrow> length (err_text e) < 1000)"

lemma scan_output_short:
  assumes "read_error_short src" "l \<in> set (scan_output stream src)"
  shows "length (snd l) < scan_limit"
proof -
  obtain ls err where s: "scan_lines scan_limit (fst src) = (ls, err)" by (cases "scan_lines scan_limit (fst src)")
  have e: "err = None \<or> err = Some (Plain ''bufio.Scanner: token too long'')"
    using s by (auto simp: scan_lines_def Let_def split: if_splits)
  have "l \<in> set (map (\<lambda>l. (stream, l)) ls) \<or> (\<exists>e. l = stream_error e \<and> length (err_text e) < 1000)"
    using assms e by (auto simp: scan_output_def s read_error_short_def split: option.splits)
  then show ?thesis
  proof
    assume "l \<in> set (map (\<lambda>l. (stream, l)) ls)"
    then show ?thesis using scan_lines_short [of _ scan_limit "fst src"] s by auto
  qed (auto simp: stream_error_def scan_limit_def)
qed

definition rendered :: "log_line \<Rightarrow> string" where
  "rendered l = (if fst l = ''stderr'' then ''[stderr] '' else []) @ snd l @ [CHR 0x0A]"

lemma capture_line_eq: "capture_line out l = (if length out < output_limit then out @ rendered l else out)"
  by (simp add: capture_line_def rendered_def)

lemma capture_foldl_bound:
  "\<forall>l\<in>set ls. length (rendered l) \<le> n \<Longrightarrow> length out < output_limit + n \<Longrightarrow>
    length (foldl capture_line out ls) < output_limit + n"
  by (induction ls arbitrary: out) (auto simp: capture_line_eq)

lemma capture_foldl_complete:
  "length out + length (concat (map rendered ls)) < output_limit \<Longrightarrow>
    foldl capture_line out ls = out @ concat (map rendered ls)"
  by (induction ls arbitrary: out) (auto simp: capture_line_eq)

text \<open>A process that was started.\<close>

definition started :: "process_run \<Rightarrow> bool" where
  "started pr \<longleftrightarrow> prStdoutPipe pr = None \<and> prStderrPipe pr = None \<and> prStart pr = None"

abbreviation out_lines :: "process_run \<Rightarrow> log_line list" where
  "out_lines pr \<equiv> scan_output ''stdout'' (prStdout pr)"

abbreviation err_lines :: "process_run \<Rightarrow> log_line list" where
  "err_lines pr \<equiv> scan_output ''stderr'' (prStderr pr)"

lemma run_spec_not_started:
  "run_spec spec pr = (r, err, logs) \<Longrightarrow> \<not> started pr \<Longrightarrow> r = failed_result \<and> err \<noteq> None \<and> logs \<noteq> []"
  by (auto simp: run_spec_def reject_def started_def split: option.splits)

lemma run_spec_started:
  assumes "run_spec spec pr = (r, err, logs)" "started pr"
  shows "xrExitCode r = exit_code (prWait pr)"
    "xrOutput r = capture_all (prMerge pr (out_lines pr) (err_lines pr))"
    "err = None \<longleftrightarrow> prWait pr = None"
    "logs \<noteq> []" "last logs = (''system'', ''command finished with exit code '' @ int_text (xrExitCode r))"
proof -
  have *: "run_spec spec pr = (r, err, logs) \<Longrightarrow> started pr \<Longrightarrow> (err = None \<longleftrightarrow> prWait pr = None)"
    by (cases "prWait pr"; cases "prCtxErr pr"; auto simp: run_spec_def started_def Let_def; metis option.distinct(1))
  with assms show "err = None \<longleftrightarrow> prWait pr = None" by blast
qed (use assms in \<open>auto simp: run_spec_def started_def Let_def\<close>)

text \<open>
  C37. The captured output of a task is bounded whatever the process prints and however its two streams
  interleave: it stays below the 2 MiB limit plus one maximal line.
\<close>

theorem task_output_bounded:
  assumes "run_spec spec pr = (r, err, logs)"
    and "read_error_short (prStdout pr)" "read_error_short (prStderr pr)"
    and "prMerge pr (out_lines pr) (err_lines pr) \<in> shuffles (out_lines pr) (err_lines pr)"
  shows "length (xrOutput r) < 1024 * 1024 * 2 + (1024 * 1024 + 9)"
proof (cases "started pr")
  case True
  have "\<forall>l\<in>set (prMerge pr (out_lines pr) (err_lines pr)). length (rendered l) \<le> 1024 * 1024 + 9"
  proof
    fix l assume "l \<in> set (prMerge pr (out_lines pr) (err_lines pr))"
    then have "l \<in> set (out_lines pr) \<union> set (err_lines pr)" using set_shuffles [OF assms(4)] by simp
    then have "length (snd l) < scan_limit" using scan_output_short assms(2,3) by blast
    then show "length (rendered l) \<le> 1024 * 1024 + 9" by (simp add: rendered_def scan_limit_def)
  qed
  from capture_foldl_bound [OF this, of "[]"] run_spec_started(2) [OF assms(1) True] show ?thesis
    by (simp add: capture_all_def output_limit_def)
next
  case False
  from run_spec_not_started [OF assms(1) False] show ?thesis by (simp add: failed_result_def)
qed



subsection \<open>The environment\<close>

definition environ_map :: "string list \<Rightarrow> (string \<rightharpoonup> string)" where
  "environ_map es = foldl (\<lambda>m e. case cut_char CHR ''='' e of (k, Some v) \<Rightarrow> m(k \<mapsto> v) | (k, None) \<Rightarrow> m) Map.empty es"

lemma environ_fold_map_of:
  "map_of (fold environ_step es m) = foldl (\<lambda>m e. case cut_char CHR ''='' e of (k, Some v) \<Rightarrow> m(k \<mapsto> v) | (k, None) \<Rightarrow> m) (map_of m) es"
  by (induction es arbitrary: m) (auto simp: environ_step_def update_conv' split: prod.splits option.splits)

lemma overrides_fold_map_of:
  "map_of (fold (\<lambda>(k, v) m. AList.update k v m) os m) = map_of m ++ map_of (rev os)"
  by (induction os arbitrary: m) (auto simp: update_conv' map_add_upd_left fun_upd_def map_add_def fun_eq_iff split: option.splits)

lemma environ_distinct: "distinct (map fst m) \<Longrightarrow> distinct (map fst (fold environ_step es m))"
  by (induction es arbitrary: m) (auto simp: environ_step_def distinct_update split: prod.splits option.splits)

lemma overrides_distinct: "distinct (map fst m) \<Longrightarrow> distinct (map fst (fold (\<lambda>(k, v) m. AList.update k v m) os m))"
  by (induction os arbitrary: m) (auto simp: distinct_update)

text \<open>
  The environment of a command is the agent's own with the task's variables on top: it holds
  \<open>k=v\<close> exactly for the merged map, one entry per key, and entries of the agent without an equals sign
  are dropped.
\<close>

theorem merged_environment:
  "set (merge_environment environ overrides)
     = {k @ ''='' @ v | k v. (environ_map environ ++ map_of (rev overrides)) k = Some v}
   \<and> length (merge_environment environ overrides) = card (dom (environ_map environ ++ map_of (rev overrides)))"
proof -
  let ?m = "fold (\<lambda>(k, v) m. AList.update k v m) overrides (fold environ_step environ [])"
  have mo: "map_of ?m = environ_map environ ++ map_of (rev overrides)"
    by (simp add: overrides_fold_map_of environ_fold_map_of environ_map_def)
  have d: "distinct (map fst ?m)" by (intro overrides_distinct environ_distinct) simp
  have s: "set ?m = {(k, v). map_of ?m k = Some v}" using d by auto
  have "set (merge_environment environ overrides) = (\<lambda>(k, v). k @ ''='' @ v) ` {(k, v). map_of ?m k = Some v}"
    unfolding merge_environment_def set_map s ..
  also have "\<dots> = {k @ ''='' @ v | k v. map_of ?m k = Some v}" by (rule set_eqI) (simp add: image_iff split_beta, blast)
  finally have sets: "set (merge_environment environ overrides) = {k @ ''='' @ v | k v. map_of ?m k = Some v}" .
  have "length (merge_environment environ overrides) = card (dom (map_of ?m))"
    using distinct_card [OF d] unfolding merge_environment_def
    by (simp add: dom_map_of_conv_image_fst)
  with sets show ?thesis unfolding mo by blast
qed

subsection \<open>Witnesses\<close>

text \<open>An ordinary linux host: every binary and helper is installed and only \<open>operational\<close> is allowed.\<close>

definition sample_executor :: "json \<Rightarrow> executor" where
  "sample_executor j = \<lparr>exDefaultTimeout = 300 * second, exGoos = ''linux'', exLookPath = (\<lambda>n. Inr (''/usr/bin/'' @ n)),
     exExecutablePath = Inr ''/usr/local/bin/noderax-agent'', exFileExists = (\<lambda>_. False),
     exUpdateRequestPath = ''/var/u'', exPackageRequestPath = ''/var/p'', exLogScanRequestPath = ''/var/l'',
     exTaskRootRequestPath = ''/var/t'', exRootScopeChecker = Some (\<lambda>s. trim_space s = ''operational''), exEuid = 1000,
     exTempDir = ''/tmp'', exEnviron = [''PATH=/bin''], exParse = (\<lambda>_. Inr j)\<rparr>"

definition sample_task :: "string \<Rightarrow> task" where
  "sample_task ty = \<lparr>taskID = ''t1'', taskType = ty, taskPayload = ''{}'', taskTimeoutSeconds = 0\<rparr>"

definition sample_run :: process_run where
  "sample_run = \<lparr>prStdoutPipe = None, prStderrPipe = None, prStart = None, prStdout = (''ok'' @ [CHR 0x0A], None),
     prStderr = (''warn'', None), prMerge = (@), prLogMerge = (@), prWait = None, prCtxErr = None,
     prStartedAt = 0, prCompletedAt = 5\<rparr>"

definition reboot_json :: json where
  "reboot_json = JObj [(''command'', JStr '' reboot''), (''runAsRoot'', JBool True), (''rootScope'', JStr ''operational'')]"

definition reboot_payload :: shell_payload where
  "reboot_payload = zero_shell\<lparr>spCommand := '' reboot'', spRunAsRoot := True, spRootScope := ''operational''\<rparr>"

lemmas sample_simps = sample_executor_def sample_task_def sample_run_def

lemma json_names:
  "find_field shell_fields ''command'' = Some (dec_string ''ShellExecPayload.command'' spCommand_update)"
  "find_field shell_fields ''runAsRoot'' = Some (dec_bool ''ShellExecPayload.runAsRoot'' spRunAsRoot_update)"
  "find_field shell_fields ''rootScope'' = Some (dec_string ''ShellExecPayload.rootScope'' spRootScope_update)"
  "find_field mutation_fields ''names'' = Some (dec_string_list ''packageMutationPayload.names'' muNames_update)"
  "find_field search_fields ''term'' = Some (dec_string ''packageSearchPayload.term'' seTerm_update)"
  by (simp_all add: find_field_def shell_fields_def mutation_fields_def search_fields_def)

lemma sample_decode:
  "decode_shell_payload (sample_executor reboot_json) ''{}'' = Inr reboot_payload"
  by (simp add: decode_shell_payload_def decode_payload_def sample_executor_def reboot_json_def decode_struct_def
      json_names dec_string_def dec_bool_def zero_shell_def reboot_payload_def first_error_def)

lemma sample_texts:
  "trim_space '' reboot'' = ''reboot''" "trim_space ''operational'' = ''operational''"
  "str_join '' '' (str_fields ''reboot'') = ''reboot''"
  "trim_space '' curl'' = ''curl''" "trim_space ''curl'' = ''curl''" "trim_space [] = []"
  "str_fields ''curl'' = [''curl'']"
  by code_simp+

lemma sample_reboot:
  "command_for_task (sample_executor reboot_json) (sample_task ''shell.exec'') w
     = (Inr \<lparr>csName = ''/usr/bin/sudo'', csArgs = [''-n'', ''/usr/bin/reboot''], csEnv = [], csDir = [],
          csStartMessage = ''running shell.exec command via /usr/bin/sudo'', csParse = None\<rparr>, w)"
  by (simp add: sample_task_def command_for_shell shell_command_def sample_decode)
     (simp add: reboot_payload_def zero_shell_def sample_texts shell_root_def scope_denied_def sample_executor_def
       build_operational_root_command_def require_binary_def wrap_with_sudo_def io_bind_def io_ret_def io_lift_def)

theorem operational_scope_allowlist_witness:
  "\<exists>k\<in>set (operational_commands (sample_executor reboot_json)).
     (''/usr/bin/sudo'', [''-n'', ''/usr/bin/reboot'']) = with_sudo (sample_executor reboot_json) k"
proof -
  have h: "with_sudo (sample_executor reboot_json) (package_helper_path, []) \<noteq> (''/usr/bin/sudo'', [''-n'', ''/usr/bin/reboot''])"
    by (simp add: with_sudo_def sample_executor_def package_helper_path_def)
  show ?thesis
    using operational_scope_allowlist [OF sample_reboot [of quiet_world], of reboot_payload] h
    by (auto simp: sample_decode sample_task_def) (auto simp: reboot_payload_def)
qed

theorem shell_root_needs_approved_scope_witness: "trim_space ''operational'' \<noteq> []"
  using shell_root_needs_approved_scope [OF sample_reboot [of quiet_world], of reboot_payload]
  by (simp add: sample_decode sample_task_def) (simp add: reboot_payload_def)

theorem command_touches_requests_only_witness:
  "wfiles (snd (command_for_task (sample_executor reboot_json) (sample_task ''shell.exec'')
     (quiet_world\<lparr>wfiles := [''/etc/passwd'' \<mapsto> (''root'', 0)]\<rparr>))) ''/etc/passwd'' = Some (''root'', 0)"
proof -
  have p: "path_clean (trim_space ''/var/u'') = ''/var/u''" "path_clean (trim_space ''/var/p'') = ''/var/p''"
    "path_clean (trim_space ''/var/l'') = ''/var/l''" "path_clean (trim_space ''/var/t'') = ''/var/t''"
    by code_simp+
  show ?thesis
    by (rule command_touches_requests_only [where ex = "sample_executor reboot_json" and t = "sample_task ''shell.exec''"
          and w = "quiet_world\<lparr>wfiles := [''/etc/passwd'' \<mapsto> (''root'', 0)]\<rparr>"], rule prod.collapse [symmetric])
       (simp_all add: sample_executor_def p)
qed

theorem command_errors_classified_witness:
  "err_is (wrap_sentinel ErrUnsupportedTaskType ''nope'') ErrUnsupportedTaskType"
  using command_errors_classified [of "sample_executor JNull" "sample_task ''nope''" quiet_world
      "wrap_sentinel ErrUnsupportedTaskType ''nope''" quiet_world]
  by (simp add: sample_task_def command_for_task_def known_task_types_def)

definition names_json :: json where
  "names_json = JObj [(''names'', JArr [JStr '' curl'']), (''term'', JStr ''curl'')]"

lemma sample_install:
  "command_for_task (sample_executor names_json) (sample_task ''packageInstall'') w
     = (Inr (logged_spec ''/usr/bin/sudo'' [''-n'', ''/usr/bin/apt-get'', ''install'', ''-y'', ''--'', ''curl'']
          [(''DEBIAN_FRONTEND'', ''noninteractive'')] None), w)"
proof -
  have u: "find_field mutation_fields ''term'' = None" by code_simp
  show ?thesis
    by (simp add: sample_simps command_for_task_def package_install_command_def ensure_linux_task_support_def
        require_binary_def decode_package_names_def decode_mutation_payload_def decode_payload_def names_json_def
        decode_struct_def json_names u dec_string_list_def first_error_def normalize_package_names_def sample_texts
        mutation_spec_def wrap_package_mutation_command_def helper_available_def wrap_with_sudo_def io_ret_def)
qed

theorem package_mutation_arguments_witness:
  "\<exists>ns. ns \<noteq> [] \<and> [''-n'', ''/usr/bin/apt-get'', ''install'', ''-y'', ''--'', ''curl'']
     = snd (with_sudo (sample_executor names_json) (''/usr/bin/apt-get'', [''install'', ''-y'', ''--''] @ ns))"
  using package_mutation_arguments [OF sample_install [of quiet_world]]
  by (auto simp: sample_task_def logged_spec_def helper_available_def sample_executor_def mutation_action_def with_sudo_def)

lemma sample_search:
  "command_for_task (sample_executor names_json) (sample_task ''packageSearch'') w
     = (Inr (logged_spec ''/usr/bin/apt'' [''search'', ''curl''] [(''COLUMNS'', ''10000''), (''PAGER'', ''cat'')]
          (Some parse_package_search)), w)"
proof -
  have u: "find_field search_fields ''names'' = None" by code_simp
  show ?thesis
    by (simp add: sample_simps command_for_task_def package_search_command_def ensure_linux_task_support_def
        require_binary_def decode_search_payload_def decode_payload_def names_json_def
        decode_struct_def json_names u dec_string_def first_error_def sample_texts io_ret_def)
qed

theorem package_search_arguments_witness:
  "\<exists>terms. terms \<noteq> [] \<and> [''search'', ''curl''] = ''search'' # terms"
  using package_search_arguments [OF sample_search [of quiet_world]]
  by (auto simp: sample_task_def logged_spec_def)

theorem timeout_positive_witness: "0 < timeout_for (sample_executor reboot_json) (sample_task ''shell.exec'')"
proof -
  have "decode_shell_payload (sample_executor reboot_json) (taskPayload (sample_task ''shell.exec'')) = Inr reboot_payload"
    by (simp add: sample_task_def sample_decode)
  then show ?thesis
    using timeout_positive [of "sample_executor reboot_json" "sample_task ''shell.exec''"]
    by (simp add: sample_task_def sample_executor_def reboot_payload_def zero_shell_def)
qed

lemma sample_lines:
  "scan_output ''stdout'' (prStdout sample_run) = [(''stdout'', ''ok'')]"
  "scan_output ''stderr'' (prStderr sample_run) = [(''stderr'', ''warn'')]"
  by (simp_all add: sample_run_def scan_output_def scan_lines_def scan_limit_def raw_lines_def drop_cr_def)

definition sample_spec :: command_spec where
  "sample_spec = \<lparr>csName = ''/bin/sh'', csArgs = [], csEnv = [], csDir = [], csStartMessage = ''go'', csParse = None\<rparr>"

lemma sample_merge: "prMerge sample_run (out_lines sample_run) (err_lines sample_run)
    \<in> shuffles (out_lines sample_run) (err_lines sample_run)"
  by (simp add: sample_lines) (simp add: sample_run_def)

theorem task_output_bounded_witness:
  "length (xrOutput (fst (run_spec sample_spec sample_run))) < 1024 * 1024 * 2 + (1024 * 1024 + 9)"
  by (rule task_output_bounded [where pr = sample_run and spec = sample_spec
        and err = "fst (snd (run_spec sample_spec sample_run))" and logs = "snd (snd (run_spec sample_spec sample_run))"])
     (simp_all add: sample_merge, simp_all add: sample_run_def read_error_short_def)



end
