(* ===== verification/GoClock.thy ===== *)
theory GoClock
  imports GoTime
begin

text \<open>
  Times are nanoseconds since the Unix epoch, as \<open>int\<close>. \<open>time.Time.UTC().Format\<close> is modelled for the two
  layouts the agent sends, through the proleptic Gregorian calendar; years have four digits up to 9999.
\<close>

text \<open>Year, month and day of a day number counted from 1970-01-01.\<close>

definition civil_from_days :: "int \<Rightarrow> int \<times> int \<times> int" where
  "civil_from_days z0 =
     (let z = z0 + 719468; era = z div 146097; doe = z mod 146097;
          yoe = (doe - doe div 1460 + doe div 36524 - doe div 146096) div 365;
          doy = doe - (365 * yoe + yoe div 4 - yoe div 100);
          mp = (5 * doy + 2) div 153;
          d = doy - (153 * mp + 2) div 5 + 1;
          m = (if mp < 10 then mp + 3 else mp - 9);
          y = yoe + era * 400 + (if m \<le> 2 then 1 else 0)
      in (y, m, d))"

definition pad :: "nat \<Rightarrow> int \<Rightarrow> string" where
  "pad w n = (let t = int_text n in replicate (w - length t) CHR ''0'' @ t)"

definition clock_text :: "int \<Rightarrow> string" where
  "clock_text t =
     (let secs = t div second; day = secs div 86400; tod = secs mod 86400
      in case civil_from_days day of (y, m, d) \<Rightarrow>
        pad 4 y @ ''-'' @ pad 2 m @ ''-'' @ pad 2 d @ ''T''
        @ pad 2 (tod div 3600) @ '':'' @ pad 2 (tod div 60 mod 60) @ '':'' @ pad 2 (tod mod 60))"

text \<open>Layout \<open>2006-01-02T15:04:05.000Z\<close>: the fraction is cut, not rounded.\<close>

definition format_utc_millis :: "int \<Rightarrow> string" where
  "format_utc_millis t = clock_text t @ ''.'' @ pad 3 (t mod second div millisecond) @ ''Z''"

text \<open>Layout \<open>time.RFC3339\<close> in UTC.\<close>

definition format_rfc3339 :: "int \<Rightarrow> string" where
  "format_rfc3339 t = clock_text t @ ''Z''"

text \<open>Layout \<open>time.RFC3339Nano\<close> in UTC: the fraction without trailing zeros, if any.\<close>

definition format_rfc3339nano :: "int \<Rightarrow> string" where
  "format_rfc3339nano t =
     (let f = trim_right ''0'' (pad 9 (t mod second)) in clock_text t @ (if f = [] then [] else ''.'' @ f) @ ''Z'')"

lemma clock_examples:
  "format_utc_millis 0 = ''1970-01-01T00:00:00.000Z''"
  "format_utc_millis (1709210096789 * millisecond) = ''2024-02-29T12:34:56.789Z''"
  "format_rfc3339 (1735689599 * second) = ''2024-12-31T23:59:59Z''"
  by code_simp+

end
