(* ===== verification/TaskEvents.thy ===== *)
theory TaskEvents
  imports Api GoClock
begin

text \<open>
  \<open>internal/tasks/http_events.go\<close>: the lifecycle of a task reported over HTTP. Log lines are cut to a
  fixed number of characters, and a report the control plane refuses because the task is still queued is
  sent again a few times. \<open>send\<close> is a parameter: its outcome on each attempt, with what the context says
  between attempts, is the record \<open>retry_env\<close>.
\<close>

subsection \<open>Log lines\<close>

definition task_log_max_line_chars :: nat where
  "task_log_max_line_chars = 5000"

definition task_log_truncated_suffix :: string where
  "task_log_truncated_suffix = ''...[truncated]''"

definition normalize_task_log_line :: "string \<Rightarrow> string" where
  "normalize_task_log_line line =
     (if rune_count line \<le> task_log_max_line_chars then line
      else (let max_prefix = task_log_max_line_chars - rune_count task_log_truncated_suffix
            in encode_runes (take max_prefix (runes line)) @ task_log_truncated_suffix))"

lemma rune_count_suffix [simp]: "rune_count task_log_truncated_suffix = 14"
  by (simp add: task_log_truncated_suffix_def byte_in_def)

lemma rune_count_normalized:
  assumes "5000 < rune_count line"
  shows "rune_count (normalize_task_log_line line) = 5000"
proof -
  have "set (take 4986 (runes line)) \<subseteq> set (runes line)" by (rule set_take_subset)
  from rune_count_encode_runes_append [OF this, of task_log_truncated_suffix] assms
  show ?thesis using rune_count_suffix
    by (simp add: normalize_task_log_line_def task_log_max_line_chars_def Let_def rune_count_def)
qed

subsection \<open>Retries\<close>

definition is_queued_state_conflict :: "goerror \<Rightarrow> bool" where
  "is_queued_state_conflict e =
     (case err_as_request e of
        None \<Rightarrow> False
      | Some q \<Rightarrow>
          if reqStatusCode q \<noteq> 409 then False
          else str_contains (to_lower (trim_space (reqMessage q @ '' '' @ reqBody q))) ''queued state'')"

record retry_env =
  reSend :: "nat \<Rightarrow> goerror option"
  reCtxNil :: bool
  reCtxErr :: "nat \<Rightarrow> goerror option"
  reSleep :: "nat \<Rightarrow> goerror option"

definition task_lifecycle_retry_attempts :: nat where
  "task_lifecycle_retry_attempts = 4"

text \<open>
  The loop from attempt \<open>n\<close> with \<open>left\<close> more attempts after it: the error returned and the number of
  requests sent. \<open>reSleep n\<close> is \<open>ctx.Err()\<close> when the context ended during the delay after attempt \<open>n\<close>.
\<close>

fun retry_from :: "retry_env \<Rightarrow> nat \<Rightarrow> nat \<Rightarrow> goerror option \<times> nat" where
  "retry_from env left n =
     (case reSend env n of
        None \<Rightarrow> (None, n)
      | Some e \<Rightarrow>
          if \<not> is_queued_state_conflict e then (Some e, n)
          else (case left of
             0 \<Rightarrow> (Some e, n)
           | Suc l \<Rightarrow>
               if reCtxNil env then retry_from env l (Suc n)
               else (case reCtxErr env n of
                  Some c \<Rightarrow> (Some c, n)
                | None \<Rightarrow>
                    (case reSleep env n of
                       Some c \<Rightarrow> (Some c, n)
                     | None \<Rightarrow> retry_from env l (Suc n)))))"

declare retry_from.simps [simp del]

definition with_queued_state_retry :: "retry_env \<Rightarrow> goerror option \<times> nat" where
  "with_queued_state_retry env = retry_from env (task_lifecycle_retry_attempts - 1) 1"

subsection \<open>Reports\<close>

text \<open>The bodies sent; \<open>TaskCompleted\<close> copies the event field by field with its time rendered.\<close>

record task_log_request =
  tlTaskID :: string
  tlStream :: string
  tlLine :: string
  tlTimestamp :: string

record stamp_request =
  stTaskID :: string
  stTimestamp :: string

record completed_request =
  tcTaskID :: string
  tcStatus :: string
  tcResult :: "json option"
  tcOutput :: string
  tcExitCode :: int
  tcError :: string
  tcTimestamp :: string
  tcDurationMS :: int

definition task_accepted :: "(stamp_request \<Rightarrow> retry_env) \<Rightarrow> string \<Rightarrow> int \<Rightarrow> goerror option" where
  "task_accepted client tid t =
     fst (with_queued_state_retry (client \<lparr>stTaskID = tid, stTimestamp = format_utc_millis t\<rparr>))"

definition task_started :: "(stamp_request \<Rightarrow> retry_env) \<Rightarrow> string \<Rightarrow> int \<Rightarrow> goerror option" where
  "task_started client tid t =
     fst (with_queued_state_retry (client \<lparr>stTaskID = tid, stTimestamp = format_utc_millis t\<rparr>))"

definition task_log :: "(task_log_request \<Rightarrow> retry_env) \<Rightarrow> string \<Rightarrow> string \<Rightarrow> string \<Rightarrow> int \<Rightarrow> goerror option" where
  "task_log client tid stream line t =
     fst (with_queued_state_retry (client \<lparr>tlTaskID = tid, tlStream = stream,
       tlLine = normalize_task_log_line line, tlTimestamp = format_utc_millis t\<rparr>))"

definition task_completed :: "(completed_request \<Rightarrow> retry_env) \<Rightarrow> complete_request \<Rightarrow> goerror option" where
  "task_completed client ev =
     fst (with_queued_state_retry (client \<lparr>tcTaskID = crTaskID ev, tcStatus = crStatus ev, tcResult = crResult ev,
       tcOutput = crOutput ev, tcExitCode = crExitCode ev, tcError = crError ev,
       tcTimestamp = format_utc_millis (crCompletedAt ev), tcDurationMS = crDurationMS ev\<rparr>))"

subsection \<open>Properties\<close>

text \<open>A context that stays alive.\<close>

definition alive :: "retry_env \<Rightarrow> bool" where
  "alive env \<longleftrightarrow> reCtxNil env \<or> (\<forall>n. reCtxErr env n = None \<and> reSleep env n = None)"

definition conflict_at :: "retry_env \<Rightarrow> nat \<Rightarrow> bool" where
  "conflict_at env n \<longleftrightarrow> (\<exists>e. reSend env n = Some e \<and> is_queued_state_conflict e)"

lemma retry_from_count:
  "retry_from env left n = (r, k) \<Longrightarrow> n \<le> k \<and> k \<le> n + left \<and> (\<forall>i. n \<le> i \<and> i < k \<longrightarrow> conflict_at env i)"
proof (induction left arbitrary: n)
  case 0
  then show ?case by (auto simp: retry_from.simps split: option.splits if_splits)
next
  case (Suc l)
  show ?case
  proof (cases "retry_from env (Suc l) n = retry_from env l (Suc n) \<and> conflict_at env n")
    case True
    with Suc.prems Suc.IH [of "Suc n"] show ?thesis by (auto simp: le_eq_less_or_eq) (metis Suc_leI nat_less_le)+
  next
    case False
    with Suc.prems have "k = n"
      by (subst (asm) retry_from.simps) (subst (asm) retry_from.simps, auto simp: conflict_at_def split: option.splits if_splits)
    then show ?thesis by auto
  qed
qed

lemma retry_from_alive:
  "alive env \<Longrightarrow> retry_from env left n = (r, k) \<Longrightarrow> r = reSend env k \<and> (conflict_at env k \<longrightarrow> k = n + left)"
proof (induction left arbitrary: n)
  case 0
  then show ?case by (subst (asm) retry_from.simps) (auto simp: conflict_at_def split: option.splits if_splits)
next
  case (Suc l)
  from Suc.prems(2) show ?case
    by (subst (asm) retry_from.simps)
       (use Suc.prems(1) Suc.IH [OF Suc.prems(1), of "Suc n"] in
         \<open>auto simp: conflict_at_def alive_def split: option.splits if_splits\<close>)
qed

text \<open>
  A lifecycle report is sent at most four times and never again after a success or after an error
  other than the queued-state conflict; while the context lives, the outcome is that of the last request
  sent, and a conflict is returned only after all four attempts met one.
\<close>

theorem queued_retry_bounded:
  assumes "with_queued_state_retry env = (r, k)"
  shows "1 \<le> k \<and> k \<le> 4
    \<and> (\<forall>i. 1 \<le> i \<and> i < k \<longrightarrow> conflict_at env i)
    \<and> (alive env \<longrightarrow> r = reSend env k \<and> (conflict_at env k \<longrightarrow> k = 4))"
  using retry_from_count [of env 3 1 r k] retry_from_alive [of env 3 1 r k] assms
  by (auto simp: with_queued_state_retry_def task_lifecycle_retry_attempts_def)

definition sample_retry :: retry_env where
  "sample_retry = \<lparr>reSend = (\<lambda>n. if n < 3 then Some (Request ''x''
       \<lparr>reqMethod = ''post'', reqPath = [], reqStatusCode = 409, reqMessage = ''Task is in QUEUED state'', reqBody = []\<rparr>)
     else None), reCtxNil = True, reCtxErr = (\<lambda>_. None), reSleep = (\<lambda>_. None)\<rparr>"

lemma sample_conflict: "is_queued_state_conflict (Request ''x''
   \<lparr>reqMethod = ''post'', reqPath = [], reqStatusCode = 409, reqMessage = ''Task is in QUEUED state'', reqBody = []\<rparr>)"
  by code_simp

theorem queued_retry_bounded_witness: "snd (with_queued_state_retry sample_retry) = 3 \<and> (3::nat) \<le> 4"
proof -
  have s: "with_queued_state_retry sample_retry = (None, 3)"
    by (simp add: with_queued_state_retry_def task_lifecycle_retry_attempts_def sample_retry_def
        numeral_3_eq_3 retry_from.simps sample_conflict)
  from queued_retry_bounded [OF s] show ?thesis by (simp add: s)
qed

text \<open>
  Every log line sent has at most 5000 characters: shorter lines are sent as they are, a longer one
  is cut to exactly 5000, its last 14 being the truncation mark, and what precedes the mark is the line's
  own beginning. Cutting twice changes nothing.
\<close>

theorem log_line_normalized:
  "rune_count (normalize_task_log_line line) = min (rune_count line) 5000
   \<and> (if rune_count line \<le> 5000 then normalize_task_log_line line = line
      else normalize_task_log_line line = encode_runes (take 4986 (runes line)) @ ''...[truncated]'')
   \<and> normalize_task_log_line (normalize_task_log_line line) = normalize_task_log_line line"
proof (cases "rune_count line \<le> 5000")
  case True
  then show ?thesis by (simp add: normalize_task_log_line_def task_log_max_line_chars_def)
next
  case False
  then have c: "rune_count (normalize_task_log_line line) = 5000" by (intro rune_count_normalized) simp
  moreover from c have "normalize_task_log_line (normalize_task_log_line line) = normalize_task_log_line line"
    by (simp add: normalize_task_log_line_def [of "normalize_task_log_line line"] task_log_max_line_chars_def)
  moreover have "rune_count (''...[truncated]'') = 14" using rune_count_suffix by (simp add: task_log_truncated_suffix_def)
  ultimately show ?thesis using False
    by (simp add: normalize_task_log_line_def [of line] task_log_max_line_chars_def task_log_truncated_suffix_def Let_def)
qed

end
