(* ===== verification/GoContainers.thy ===== *)
theory GoContainers
  imports GoPrelude "HOL-Library.Sublist"
begin

text \<open>
  Two interfaces several components share: a channel with a buffer, written without blocking (the
  \<open>select\<close> with a \<open>default\<close> case), and a registry of keys under a lock (the maps of running tasks and
  of terminal sessions). Their clients' facts are proved once here; each component interprets them.
\<close>

subsection \<open>Buffered channels\<close>

datatype 'x queue_op = Offer 'x | Take

text \<open>A run of sends and receives: the channel after it, the items delivered, accepted and refused.\<close>

fun queue_run :: "('q \<Rightarrow> 'x \<Rightarrow> 'q \<times> bool) \<Rightarrow> ('q \<Rightarrow> ('x \<times> 'q) option) \<Rightarrow> 'x queue_op list \<Rightarrow> 'q \<Rightarrow>
    'q \<times> 'x list \<times> 'x list \<times> 'x list" where
  "queue_run offer take_one [] q = (q, [], [], [])"
| "queue_run offer take_one (Offer x # ops) q =
     (case offer q x of (q1, ok) \<Rightarrow>
        (case queue_run offer take_one ops q1 of (q2, ds, acc, ref) \<Rightarrow>
           if ok then (q2, ds, x # acc, ref) else (q2, ds, acc, x # ref)))"
| "queue_run offer take_one (Take # ops) q =
     (case take_one q of
        None \<Rightarrow> queue_run offer take_one ops q
      | Some (x, q1) \<Rightarrow>
          (case queue_run offer take_one ops q1 of (q2, ds, acc, ref) \<Rightarrow> (q2, x # ds, acc, ref)))"

fun offered :: "'x queue_op list \<Rightarrow> 'x list" where
  "offered [] = []"
| "offered (Offer x # ops) = x # offered ops"
| "offered (Take # ops) = offered ops"

text \<open>What is accepted is offered, in that order, and what is refused makes up the difference.\<close>

lemma queue_run_accepted:
  "queue_run offer take_one ops q = (q', ds, acc, ref) \<Longrightarrow> subseq acc (offered ops) \<and> length acc + length ref = length (offered ops)"
proof (induction ops arbitrary: q q' ds acc ref)
  case (Cons p ops)
  then show ?case by (cases p) (auto split: prod.splits option.splits if_splits)
qed simp

text \<open>A queue that simulates another one operation by operation simulates its runs.\<close>

lemma queue_run_simulates:
  assumes offer: "\<And>q s x s' ok. R q s \<Longrightarrow> offer2 s x = (s', ok) \<Longrightarrow> \<exists>q'. offer1 q x = (q', ok) \<and> R q' s'"
    and none: "\<And>q s. R q s \<Longrightarrow> take2 s = None \<Longrightarrow> take1 q = None"
    and some: "\<And>q s x s'. R q s \<Longrightarrow> take2 s = Some (x, s') \<Longrightarrow> \<exists>q'. take1 q = Some (x, q') \<and> R q' s'"
  shows "R q s \<Longrightarrow> queue_run offer2 take2 ops s = (s', ds, acc, ref) \<Longrightarrow>
    \<exists>q'. queue_run offer1 take1 ops q = (q', ds, acc, ref) \<and> R q' s'"
proof (induction ops arbitrary: q s ds acc ref)
  case (Cons p ops)
  show ?case
  proof (cases p)
    case (Offer x)
    obtain s1 ok where o2: "offer2 s x = (s1, ok)" by (cases "offer2 s x")
    with offer [OF Cons.prems(1)] obtain q1 where q1: "offer1 q x = (q1, ok)" "R q1 s1" by blast
    obtain s2 ds2 acc2 ref2 where r: "queue_run offer2 take2 ops s1 = (s2, ds2, acc2, ref2)"
      by (cases "queue_run offer2 take2 ops s1") auto
    have "s' = s2" using Cons.prems(2) Offer o2 r by (auto split: if_splits)
    with Cons.IH [OF q1(2)] r obtain q2 where "queue_run offer1 take1 ops q1 = (q2, ds2, acc2, ref2)" "R q2 s'" by blast
    with Cons.prems(2) Offer o2 r q1(1) show ?thesis by (auto split: if_splits)
  next
    case Take
    show ?thesis
    proof (cases "take2 s")
      case None
      with Cons Take none show ?thesis by auto
    next
      case (Some xs)
      obtain x s1 where xs: "xs = (x, s1)" by (cases xs)
      with Some some [OF Cons.prems(1)] obtain q1 where q1: "take1 q = Some (x, q1)" "R q1 s1" by blast
      obtain s2 ds2 acc2 ref2 where r: "queue_run offer2 take2 ops s1 = (s2, ds2, acc2, ref2)"
        by (cases "queue_run offer2 take2 ops s1") auto
      have "s' = s2" using Cons.prems(2) Take Some xs r by auto
      with Cons.IH [OF q1(2)] r obtain q2 where "queue_run offer1 take1 ops q1 = (q2, ds2, acc2, ref2)" "R q2 s'" by blast
      with Cons.prems(2) Take Some xs r q1(1) show ?thesis by auto
    qed
  qed
qed auto

locale buffered_channel =
  fixes offer :: "'q \<Rightarrow> 'x \<Rightarrow> 'q \<times> bool"
    and take_one :: "'q \<Rightarrow> ('x \<times> 'q) option"
    and contents :: "'q \<Rightarrow> 'x list"
    and capacity :: nat
  assumes offer_room: "length (contents q) < capacity \<Longrightarrow> snd (offer q x) \<and> contents (fst (offer q x)) = contents q @ [x]"
    and offer_full: "capacity \<le> length (contents q) \<Longrightarrow> \<not> snd (offer q x) \<and> contents (fst (offer q x)) = contents q"
    and take_some: "take_one q = Some (x, q') \<Longrightarrow> contents q = x # contents q'"
    and take_none: "take_one q = None \<Longrightarrow> contents q = []"
begin

text \<open>First in, first out, nothing lost but what was refused.\<close>

lemma run_fifo:
  "queue_run offer take_one ops q = (q', ds, acc, ref) \<Longrightarrow>
    contents q @ acc = ds @ contents q'"
proof (induction ops arbitrary: q q' ds acc ref)
  case (Cons p ops)
  show ?case
  proof (cases p)
    case (Offer x)
    obtain q1 ok where o: "offer q x = (q1, ok)" by (cases "offer q x")
    obtain q2 ds2 acc2 ref2 where r: "queue_run offer take_one ops q1 = (q2, ds2, acc2, ref2)"
      by (cases "queue_run offer take_one ops q1") auto
    note ih = Cons.IH [OF r]
    show ?thesis
    proof (cases "length (contents q) < capacity")
      case True
      with offer_room [OF this, of x] o have "ok" "contents q1 = contents q @ [x]" by auto
      with Cons.prems Offer o r ih show ?thesis by auto
    next
      case False
      with offer_full [of q x] o have "\<not> ok" "contents q1 = contents q" by auto
      with Cons.prems Offer o r ih show ?thesis by auto
    qed
  next
    case Take
    show ?thesis
    proof (cases "take_one q")
      case None
      with Cons Take show ?thesis by auto
    next
      case (Some xq)
      obtain x q1 where xq: "xq = (x, q1)" by (cases xq)
      obtain q2 ds2 acc2 ref2 where r: "queue_run offer take_one ops q1 = (q2, ds2, acc2, ref2)"
        by (cases "queue_run offer take_one ops q1") auto
      from Cons.IH [OF r] Cons.prems Take Some xq r take_some [of q x q1] show ?thesis by auto
    qed
  qed
qed simp

lemma run_bounded:
  "queue_run offer take_one ops q = (q', ds, acc, ref) \<Longrightarrow> length (contents q) \<le> capacity \<Longrightarrow> length (contents q') \<le> capacity"
proof (induction ops arbitrary: q q' ds acc ref)
  case (Cons p ops)
  show ?case
  proof (cases p)
    case (Offer x)
    obtain q1 ok where o: "offer q x = (q1, ok)" by (cases "offer q x")
    obtain q2 ds2 acc2 ref2 where r: "queue_run offer take_one ops q1 = (q2, ds2, acc2, ref2)"
      by (cases "queue_run offer take_one ops q1") auto
    have "length (contents q1) \<le> capacity"
      using offer_room [of q x] offer_full [of q x] o Cons.prems(2) by (cases "length (contents q) < capacity") auto
    with Cons.IH [OF r] Cons.prems(1) Offer o r show ?thesis by (auto split: if_splits)
  next
    case Take
    show ?thesis
    proof (cases "take_one q")
      case None
      with Cons Take show ?thesis by auto
    next
      case (Some xq)
      obtain x q1 where xq: "xq = (x, q1)" by (cases xq)
      obtain q2 ds2 acc2 ref2 where r: "queue_run offer take_one ops q1 = (q2, ds2, acc2, ref2)"
        by (cases "queue_run offer take_one ops q1") auto
      from Cons.IH [OF r] Cons.prems Take Some xq r take_some [of q x q1] show ?thesis by auto
    qed
  qed
qed simp

text \<open>As long as no offer meets a full buffer, every item offered is delivered, in order, once drained.\<close>

lemma run_complete:
  assumes "queue_run offer take_one ops q = (q', ds, acc, [])" "contents q = []" "contents q' = []"
  shows "ds = offered ops"
  using run_fifo [OF assms(1)] queue_run_accepted [OF assms(1)] assms(2,3)
  by (simp add: subseq_same_length)

end

text \<open>A channel as the list of the items in its buffer.\<close>

definition chan_offer :: "nat \<Rightarrow> 'x list \<Rightarrow> 'x \<Rightarrow> 'x list \<times> bool" where
  "chan_offer cap q x = (if length q < cap then (q @ [x], True) else (q, False))"

definition chan_take :: "'x list \<Rightarrow> ('x \<times> 'x list) option" where
  "chan_take q = (case q of [] \<Rightarrow> None | x # r \<Rightarrow> Some (x, r))"

lemma chan_take_simps [simp]: "chan_take [] = None" "chan_take (x # r) = Some (x, r)"
  by (simp_all add: chan_take_def)

interpretation chan: buffered_channel "chan_offer cap" chan_take "\<lambda>q. q" cap for cap
  by unfold_locales (auto simp: chan_offer_def chan_take_def split: list.splits)

subsection \<open>Registries\<close>

text \<open>
  \<open>enter k s\<close> adds a key unless it is there, \<open>leave k s\<close> removes it. Runs of both keep at most one owner
  per key: whoever entered a key and has not left is its only owner.
\<close>

datatype 'k registry_op = Enter 'k | Leave 'k

fun registry_run :: "('k \<Rightarrow> 's \<Rightarrow> 's option) \<Rightarrow> ('k \<Rightarrow> 's \<Rightarrow> 's) \<Rightarrow> 'k registry_op list \<Rightarrow> 's \<Rightarrow> 's \<times> bool list" where
  "registry_run enter leave [] s = (s, [])"
| "registry_run enter leave (Enter k # ops) s =
     (case enter k s of
        None \<Rightarrow> (case registry_run enter leave ops s of (s', bs) \<Rightarrow> (s', False # bs))
      | Some s1 \<Rightarrow> (case registry_run enter leave ops s1 of (s', bs) \<Rightarrow> (s', True # bs)))"
| "registry_run enter leave (Leave k # ops) s =
     (case registry_run enter leave ops (leave k s) of (s', bs) \<Rightarrow> (s', True # bs))"

locale registry =
  fixes enter :: "'k \<Rightarrow> 's \<Rightarrow> 's option"
    and leave :: "'k \<Rightarrow> 's \<Rightarrow> 's"
    and keys :: "'s \<Rightarrow> 'k set"
  assumes enter_none: "enter k s = None \<longleftrightarrow> k \<in> keys s"
    and enter_some: "enter k s = Some s' \<Longrightarrow> keys s' = insert k (keys s)"
    and leave_keys: "keys (leave k s) = keys s - {k}"
begin

lemma enter_twice: "enter k s = Some s1 \<Longrightarrow> enter k s1 = None"
  by (simp add: enter_none enter_some)

lemma leave_enter: "enter k (leave k s) \<noteq> None"
  by (simp add: enter_none leave_keys)

text \<open>Between two successful entries of a key there is a leave of that key.\<close>

lemma entered_stays:
  "k \<in> keys s \<Longrightarrow> Leave k \<notin> set ops \<Longrightarrow> k \<in> keys (fst (registry_run enter leave ops s))"
proof (induction ops arbitrary: s)
  case (Cons p ops)
  show ?case
  proof (cases p)
    case (Enter j)
    show ?thesis
    proof (cases "enter j s")
      case None
      with Cons Enter show ?thesis by (simp add: split_beta)
    next
      case (Some s1)
      with Cons Enter enter_some [OF Some] show ?thesis by (simp add: split_beta)
    qed
  next
    case (Leave j)
    with Cons show ?thesis by (simp add: split_beta leave_keys)
  qed
qed simp

lemma reentry_refused:
  assumes "enter k s = Some s1" "Leave k \<notin> set ops"
  shows "enter k (fst (registry_run enter leave ops s1)) = None"
  using entered_stays [of k s1 ops] enter_some [OF assms(1)] assms(2) by (simp add: enter_none)

end

end
