(* ===== verification/TaskService.thy ===== *)
theory TaskService
  imports TaskExecutor TaskEvents GoContainers RootAccess
begin

text \<open>
  \<open>internal/tasks/service.go\<close>: claiming tasks, running each of them once, and reporting how it ended.
  The root access controller is any state \<open>'r\<close> with the operations of the interface
  \<open>RootAccessController\<close>; \<open>RootAccess\<close> provides them. What the control plane and the context answer in
  one turn of the claim loop is the record \<open>poll_env\<close>.
\<close>

subsection \<open>Errors\<close>

definition is_auth_error :: "goerror \<Rightarrow> bool" where
  "is_auth_error e = (case err_as_request e of None \<Rightarrow> False | Some q \<Rightarrow> reqStatusCode q = 401 \<or> reqStatusCode q = 403)"

definition is_state_conflict :: "goerror \<Rightarrow> bool" where
  "is_state_conflict e = (case err_as_request e of None \<Rightarrow> False | Some q \<Rightarrow> reqStatusCode q = 404 \<or> reqStatusCode q = 409)"

definition is_network_error :: "goerror \<Rightarrow> bool" where
  "is_network_error e \<longleftrightarrow> err_as_request e = None"

definition task_status :: "goerror option \<Rightarrow> string" where
  "task_status err =
     (case err of
        None \<Rightarrow> ''success''
      | Some e \<Rightarrow>
          if err_is e ErrTaskCancelledByControl then ''cancelled''
          else if err_is e CtxDeadlineExceeded then ''timeout''
          else if err_is e CtxCanceled then ''canceled''
          else ''failed'')"

definition min_duration :: "int \<Rightarrow> int \<Rightarrow> int" where
  "min_duration a b = (if a < b then a else b)"

subsection \<open>The set of running tasks\<close>

definition mark_running :: "string \<Rightarrow> string list \<Rightarrow> string list option" where
  "mark_running tid running = (if tid \<in> set running then None else Some (tid # running))"

definition unmark_running :: "string \<Rightarrow> string list \<Rightarrow> string list" where
  "unmark_running tid running = filter (\<lambda>k. k \<noteq> tid) running"

interpretation running: registry mark_running unmark_running set
  by unfold_locales (auto simp: mark_running_def unmark_running_def split: if_splits)

text \<open>\<open>dispatchTask\<close>: the tasks whose handlers are live, newest first, beside the set.\<close>

record dispatch_state =
  dpRunning :: "string list"
  dpHandlers :: "task list"

definition dispatch_task :: "task \<Rightarrow> dispatch_state \<Rightarrow> bool \<times> dispatch_state" where
  "dispatch_task t st =
     (case mark_running (taskID t) (dpRunning st) of
        None \<Rightarrow> (False, st)
      | Some running \<Rightarrow> (True, st\<lparr>dpRunning := running, dpHandlers := t # dpHandlers st\<rparr>))"

text \<open>A handler returns: \<open>unmarkRunning\<close> and \<open>wg.Done\<close>.\<close>

definition handler_done :: "task \<Rightarrow> dispatch_state \<Rightarrow> dispatch_state" where
  "handler_done t st = st\<lparr>dpRunning := unmark_running (taskID t) (dpRunning st), dpHandlers := remove1 t (dpHandlers st)\<rparr>"

subsection \<open>The claim loop\<close>

record 'r controller =
  ctReport :: "'r \<Rightarrow> agent_report"
  ctHandle :: "desired_snapshot option \<Rightarrow> 'r \<Rightarrow> 'r"

record poll_config =
  pgPeriod :: int
  pgRequestTimeout :: int
  pgHasAuthClient :: bool

definition poll_period :: "int \<Rightarrow> int" where
  "poll_period period = (if period \<le> 0 then 15 * second else period)"

definition poll_wait_ms :: "int \<Rightarrow> int" where
  "poll_wait_ms period = (let ms = quot_int period millisecond in if ms \<le> 0 then 15000 else ms)"

record 'r poll_state =
  plBackoff :: int
  plAuth :: client
  plRoot :: "'r option"
  plDispatch :: dispatch_state

text \<open>
  One turn: whether the context is done at its start, the credentials before and after an authentication
  failure, what the server answers to the two possible claims, and whether a sleep completes.
\<close>

record poll_env =
  peCtxDone :: bool
  peCredentials :: "string \<times> string"
  peClaim :: "client \<Rightarrow> claim_request \<Rightarrow> goerror + claim_response"
  peRetry :: "client \<Rightarrow> claim_request \<Rightarrow> goerror + claim_response"
  peSleepDone :: bool

text \<open>How a turn ends: the loop stops, or goes on after a delay.\<close>

datatype poll_next = StopPolling | NextClaim int

definition sleep_then :: "poll_env \<Rightarrow> int \<Rightarrow> poll_next" where
  "sleep_then env d = (if peSleepDone env then NextClaim d else StopPolling)"

definition refresh_auth :: "poll_config \<Rightarrow> poll_env \<Rightarrow> client \<Rightarrow> client" where
  "refresh_auth cfg env c =
     (if pgHasAuthClient cfg
      then set_agent_node_id (fst (peCredentials env)) (set_agent_token (snd (peCredentials env)) c) else c)"

text \<open>The claim with its one retry after an authentication failure; the last component counts requests.\<close>

definition claim_with_retry :: "poll_config \<Rightarrow> poll_env \<Rightarrow> client \<Rightarrow> claim_request \<Rightarrow>
    (goerror + claim_response) \<times> client \<times> nat" where
  "claim_with_retry cfg env c req =
     (case peClaim env c req of
        Inr r \<Rightarrow> (Inr r, c, 1)
      | Inl e \<Rightarrow>
          if is_auth_error e then
            (let c1 = refresh_auth cfg env c in (peRetry env c1 req, c1, 2))
          else (Inl e, c, 1))"

definition poll_failed :: "poll_config \<Rightarrow> poll_env \<Rightarrow> goerror \<Rightarrow> 'r poll_state \<Rightarrow> poll_next \<times> 'r poll_state" where
  "poll_failed cfg env e st =
     (if is_auth_error e then (StopPolling, st)
      else if is_state_conflict e then (NextClaim 0, st)
      else if is_network_error e then
        (case sleep_then env (plBackoff st) of
           StopPolling \<Rightarrow> (StopPolling, st)
         | NextClaim d \<Rightarrow> (NextClaim d, st\<lparr>plBackoff := min_duration (plBackoff st * 2) (15 * second)\<rparr>))
      else (sleep_then env (min_duration (quot_int (poll_period (pgPeriod cfg)) 3) (2 * second)), st))"

definition poll_turn :: "'r controller \<Rightarrow> poll_config \<Rightarrow> poll_env \<Rightarrow> 'r poll_state \<Rightarrow> poll_next \<times> 'r poll_state" where
  "poll_turn ctl cfg env st =
     (if peCtxDone env then (StopPolling, st)
      else
        (let req = \<lparr>clMaxTasks = 1, clWaitMS = poll_wait_ms (poll_period (pgPeriod cfg)),
                    clRootAccess = map_option (ctReport ctl) (plRoot st)\<rparr>
         in case claim_with_retry cfg env (plAuth st) req of
              (Inl e, c, n) \<Rightarrow> poll_failed cfg env e (st\<lparr>plAuth := c\<rparr>)
            | (Inr resp, c, n) \<Rightarrow>
                (let st1 = st\<lparr>plAuth := c, plBackoff := second,
                              plRoot := map_option (ctHandle ctl (rsRootAccess resp)) (plRoot st)\<rparr>
                 in case rsTask resp of
                      None \<Rightarrow> (NextClaim 0, st1)
                    | Some t \<Rightarrow>
                        if taskID t = [] then (NextClaim 0, st1)
                        else (NextClaim 0, st1\<lparr>plDispatch := snd (dispatch_task t (plDispatch st1))\<rparr>))))"

text \<open>The loop over the turns the environment presents; it ends with the first \<open>StopPolling\<close>.\<close>

fun poll_loop :: "'r controller \<Rightarrow> poll_config \<Rightarrow> poll_env list \<Rightarrow> 'r poll_state \<Rightarrow> poll_next \<times> 'r poll_state" where
  "poll_loop ctl cfg [] st = (NextClaim 0, st)"
| "poll_loop ctl cfg (env # envs) st =
     (case poll_turn ctl cfg env st of
        (StopPolling, st1) \<Rightarrow> (StopPolling, st1)
      | (NextClaim d, st1) \<Rightarrow> poll_loop ctl cfg envs st1)"

definition poll_start :: "client \<Rightarrow> 'r option \<Rightarrow> 'r poll_state" where
  "poll_start c access = \<lparr>plBackoff = second, plAuth = c, plRoot = access, plDispatch = \<lparr>dpRunning = [], dpHandlers = []\<rparr>\<rparr>"

subsection \<open>Watching for cancellation\<close>

datatype watch_event = CtxDone | HandlerDone | ControlTick "goerror + control_response"

text \<open>The reason the watcher marks before it cancels, if it does.\<close>

fun watch_task_control :: "watch_event list \<Rightarrow> string option" where
  "watch_task_control [] = None"
| "watch_task_control (CtxDone # es) = None"
| "watch_task_control (HandlerDone # es) = None"
| "watch_task_control (ControlTick (Inl e) # es) = watch_task_control es"
| "watch_task_control (ControlTick (Inr c) # es) =
     (if ctCancelRequested c then Some (trim_space (ctCancelReason c)) else watch_task_control es)"

subsection \<open>The log sink\<close>

text \<open>
  \<open>realtimeTaskLogSink\<close>: entries wait in a channel of 512; the runner sends them one by one until the
  channel is closed and empty, and discards everything once the task's context has ended.
\<close>

definition log_sink_capacity :: nat where
  "log_sink_capacity = 512"

record log_sink =
  skQueue :: "log_entry list"
  skSent :: "log_entry list"
  skDropped :: nat

definition sink_enqueue :: "log_entry \<Rightarrow> log_sink \<Rightarrow> log_sink" where
  "sink_enqueue x s =
     (case chan_offer log_sink_capacity (skQueue s) x of
        (q, True) \<Rightarrow> s\<lparr>skQueue := q\<rparr>
      | (q, False) \<Rightarrow> s\<lparr>skDropped := Suc (skDropped s)\<rparr>)"

text \<open>One receive of the runner: \<open>ctx_before\<close> and \<open>ctx_after\<close> are whether the context has ended before
  and after the send, \<open>send_err\<close> whether the send failed.\<close>

definition sink_receive :: "bool \<Rightarrow> bool \<Rightarrow> bool \<Rightarrow> log_sink \<Rightarrow> log_sink" where
  "sink_receive ctx_before send_err ctx_after s =
     (case chan_take (skQueue s) of
        None \<Rightarrow> s
      | Some (x, q) \<Rightarrow>
          if ctx_before then s\<lparr>skQueue := []\<rparr>
          else if send_err \<and> ctx_after then s\<lparr>skQueue := [], skSent := skSent s @ [x]\<rparr>
          else s\<lparr>skQueue := q, skSent := skSent s @ [x]\<rparr>)"

subsection \<open>Handling one task\<close>

datatype task_event =
    TaskAcceptedEvent string
  | TaskStartedEvent string
  | TaskLogEvent string log_entry
  | TaskCompletedEvent complete_request

record handle_env =
  heRealtime :: bool
  heNodeID :: string
  heAgentToken :: string
  heExecution :: "execution_result \<times> goerror option"
  heCancel :: "string option"
  heLogs :: "log_entry list"
  heLateLogs :: "log_entry list"
  heCompletedAt :: int

text \<open>What the deferred function reports, from the named variables it closes over.\<close>

record outcome =
  ocStatus :: string
  ocError :: string
  ocExitCode :: int
  ocDuration :: int
  ocResult :: task_result
  ocOutput :: string

definition initial_outcome :: outcome where
  "initial_outcome = \<lparr>ocStatus = ''failed'', ocError = [], ocExitCode = -1, ocDuration = 0, ocResult = NoResult, ocOutput = []\<rparr>"

definition final_error :: "string option \<Rightarrow> goerror option \<Rightarrow> goerror option" where
  "final_error cancel err =
     (if cancel \<noteq> None \<and> (case err of None \<Rightarrow> True | Some e \<Rightarrow> err_is e CtxCanceled)
      then Some (Sentinel ErrTaskCancelledByControl) else err)"

definition task_outcome :: "string option \<Rightarrow> execution_result \<Rightarrow> goerror option \<Rightarrow> outcome" where
  "task_outcome cancel r exec_err =
     (let err = final_error cancel exec_err;
          reason = (case cancel of None \<Rightarrow> [] | Some s \<Rightarrow> s);
          by_control = (case err of None \<Rightarrow> False | Some e \<Rightarrow> err_is e ErrTaskCancelledByControl);
          message = (case err of None \<Rightarrow> [] | Some e \<Rightarrow> err_text e)
      in \<lparr>ocStatus = task_status err,
          ocError = (if by_control \<and> reason \<noteq> [] then reason else message),
          ocExitCode = xrExitCode r, ocDuration = xrDuration r, ocResult = xrResult r,
          ocOutput = (if by_control \<and> trim_space (xrOutput r) = []
                      then (if reason \<noteq> [] then ''task cancelled by control request: '' @ reason
                            else ''task cancelled by control request'')
                      else xrOutput r)\<rparr>)"

definition completed_event :: "handle_env \<Rightarrow> task \<Rightarrow> outcome \<Rightarrow> task_event" where
  "completed_event env t oc = TaskCompletedEvent
     \<lparr>crTaskID = taskID t, crStatus = ocStatus oc, crResult = result_json (ocResult oc), crOutput = ocOutput oc,
      crExitCode = ocExitCode oc, crError = ocError oc, crCompletedAt = heCompletedAt env,
      crDurationMS = quot_int (ocDuration oc) millisecond\<rparr>"

definition identity_missing :: outcome where
  "identity_missing = initial_outcome\<lparr>ocError := ''cannot execute task because agent identity is missing''\<rparr>"

text \<open>The calls \<open>handleTask\<close> makes on the realtime events, in order. \<open>heLateLogs\<close> are lines the sink
  still sends after \<open>Close\<close> gave up waiting for it.\<close>

definition handle_task :: "handle_env \<Rightarrow> task \<Rightarrow> task_event list" where
  "handle_task env t =
     (if \<not> heRealtime env then []
      else if heNodeID env = [] \<or> heAgentToken env = []
      then [TaskAcceptedEvent (taskID t), completed_event env t identity_missing]
      else [TaskAcceptedEvent (taskID t), TaskStartedEvent (taskID t)]
        @ map (TaskLogEvent (taskID t)) (heLogs env)
        @ [completed_event env t (task_outcome (heCancel env) (fst (heExecution env)) (snd (heExecution env)))]
        @ map (TaskLogEvent (taskID t)) (heLateLogs env))"

subsection \<open>One handler per task\<close>

text \<open>Dispatches (by the claim loop or by the realtime channel) and returning handlers, in any order.\<close>

inductive service_step :: "dispatch_state \<Rightarrow> dispatch_state \<Rightarrow> bool" where
  dispatched: "service_step st (snd (dispatch_task t st))"
| finished: "t \<in> set (dpHandlers st) \<Longrightarrow> service_step st (handler_done t st)"

inductive_cases service_stepE: "service_step st st'"

definition dispatch_inv :: "dispatch_state \<Rightarrow> bool" where
  "dispatch_inv st \<longleftrightarrow> distinct (map taskID (dpHandlers st)) \<and> set (dpRunning st) = taskID ` set (dpHandlers st)"

lemma dispatch_task_inv [go_inv]: "dispatch_inv st \<Longrightarrow> dispatch_inv (snd (dispatch_task t st))"
  by (auto simp: dispatch_inv_def dispatch_task_def mark_running_def split: if_splits option.splits)

lemma handler_done_inv [go_inv]: "dispatch_inv st \<Longrightarrow> t \<in> set (dpHandlers st) \<Longrightarrow> dispatch_inv (handler_done t st)"
proof -
  assume inv: "dispatch_inv st" and t: "t \<in> set (dpHandlers st)"
  then have d: "distinct (map taskID (dpHandlers st))" and r: "set (dpRunning st) = taskID ` set (dpHandlers st)"
    by (auto simp: dispatch_inv_def)
  have dd: "distinct (dpHandlers st)" using d by (simp add: distinct_map)
  have "inj_on taskID (set (dpHandlers st))" using d by (simp add: distinct_map)
  then have "taskID ` (set (dpHandlers st) - {t}) = taskID ` set (dpHandlers st) - {taskID t}"
    using t by (auto simp: inj_on_def)
  with dd r show ?thesis
    using d by (auto simp: dispatch_inv_def handler_done_def unmark_running_def distinct_map inj_on_def set_remove1_eq)
qed

lemma service_step_inv: "service_step st st' \<Longrightarrow> dispatch_inv st \<Longrightarrow> dispatch_inv st'"
  by (erule service_stepE) (auto intro: go_inv)

definition no_dispatches :: dispatch_state where
  "no_dispatches = \<lparr>dpRunning = [], dpHandlers = []\<rparr>"

lemma reachable_inv: "service_step\<^sup>*\<^sup>* no_dispatches st \<Longrightarrow> dispatch_inv st"
  by (induction rule: rtranclp_induct) (auto simp: dispatch_inv_def no_dispatches_def dest: service_step_inv [unfolded dispatch_inv_def])

text \<open>
  C15. A task never runs twice at the same time, whatever mixes claimed and pushed dispatches with
  finishing handlers: live handlers have different task ids, a duplicate dispatch starts nothing, and as
  soon as the handler has returned the task can be dispatched again.
\<close>

theorem no_duplicate_handlers:
  assumes "service_step\<^sup>*\<^sup>* no_dispatches st"
  shows "distinct (map taskID (dpHandlers st))
    \<and> (fst (dispatch_task t st) \<longleftrightarrow> taskID t \<notin> taskID ` set (dpHandlers st))
    \<and> (\<not> fst (dispatch_task t st) \<longrightarrow> snd (dispatch_task t st) = st)
    \<and> (fst (dispatch_task t st) \<longrightarrow> dpHandlers (snd (dispatch_task t st)) = t # dpHandlers st)
    \<and> (t \<in> set (dpHandlers st) \<longrightarrow> fst (dispatch_task t (handler_done t st)))"
  using reachable_inv [OF assms]
  by (auto simp: dispatch_inv_def dispatch_task_def mark_running_def handler_done_def unmark_running_def split: if_splits)

theorem no_duplicate_handlers_witness:
  "\<not> fst (dispatch_task (sample_task ''a'') (snd (dispatch_task (sample_task ''b'') no_dispatches)))"
proof -
  have "service_step no_dispatches (snd (dispatch_task (sample_task ''b'') no_dispatches))" by (rule dispatched)
  then have "service_step\<^sup>*\<^sup>* no_dispatches (snd (dispatch_task (sample_task ''b'') no_dispatches))" by (rule r_into_rtranclp)
  from no_duplicate_handlers [OF this, of "sample_task ''a''"] show ?thesis
    by (simp add: dispatch_task_def no_dispatches_def mark_running_def sample_task_def)
qed

subsection \<open>How the claim loop behaves\<close>

definition poll_inv :: "'r poll_state \<Rightarrow> bool" where
  "poll_inv st \<longleftrightarrow> second \<le> plBackoff st \<and> plBackoff st \<le> 15 * second \<and> dispatch_inv (plDispatch st)"

lemma poll_failed_inv: "poll_inv st \<Longrightarrow> poll_inv (snd (poll_failed cfg env e st))"
  by (auto simp: poll_failed_def poll_inv_def sleep_then_def min_duration_def split: poll_next.splits)

lemma poll_turn_inv: "poll_inv st \<Longrightarrow> poll_inv (snd (poll_turn ctl cfg env st))"
proof -
  assume inv: "poll_inv st"
  have f: "poll_inv (snd (poll_failed cfg env e (st\<lparr>plAuth := c\<rparr>)))" for e c
    by (rule poll_failed_inv) (use inv in \<open>simp add: poll_inv_def\<close>)
  show ?thesis
    using inv dispatch_task_inv
    by (auto simp: poll_turn_def Let_def f split: sum.splits option.splits prod.splits) (auto simp: poll_inv_def)
qed

lemma poll_loop_inv: "poll_inv st \<Longrightarrow> poll_inv (snd (poll_loop ctl cfg envs st))"
proof (induction envs arbitrary: st)
  case (Cons env envs)
  obtain n st1 where t: "poll_turn ctl cfg env st = (n, st1)" by (cases "poll_turn ctl cfg env st")
  with poll_turn_inv [OF Cons.prems, of ctl cfg env] have "poll_inv st1" by simp
  with Cons.IH t show ?case by (cases n) simp_all
qed simp

definition next_delay :: "poll_next \<Rightarrow> int option" where
  "next_delay n = (case n of StopPolling \<Rightarrow> None | NextClaim d \<Rightarrow> Some d)"

text \<open>
  The claim loop is well behaved against every server: the delay before the next claim never
  exceeds 15 seconds and the network backoff stays between 1 and 15 seconds, doubling while the network
  fails and starting again at 1 second after a success; a turn sends at most two claims.
\<close>

theorem poll_backoff_bounded:
  assumes "st = snd (poll_loop ctl cfg envs (poll_start c access))"
  shows "second \<le> plBackoff st \<and> plBackoff st \<le> 15 * second
    \<and> (case next_delay (fst (poll_turn ctl cfg env st)) of None \<Rightarrow> True | Some d \<Rightarrow> d \<le> 15 * second)
    \<and> (fst (claim_with_retry cfg env (plAuth st) req) = Inl e \<and> is_network_error e \<and> peSleepDone env \<longrightarrow>
        plBackoff (snd (poll_failed cfg env e st)) = min (2 * plBackoff st) (15 * second))
    \<and> snd (snd (claim_with_retry cfg env (plAuth st) req)) \<le> 2"
proof -
  have inv: "poll_inv st" unfolding assms
    by (rule poll_loop_inv) (simp add: poll_start_def poll_inv_def dispatch_inv_def)
  have d: "x \<le> 15 * second" if "fst (poll_failed cfg env e' (st\<lparr>plAuth := c'\<rparr>)) = NextClaim x" for e' c' x
    using inv that by (auto simp: poll_failed_def sleep_then_def poll_inv_def min_duration_def split: if_splits)
  have "x \<le> 15 * second" if "fst (poll_turn ctl cfg env st) = NextClaim x" for x
    using d that by (auto simp: poll_turn_def Let_def split: sum.splits option.splits prod.splits if_splits)
  then have "case next_delay (fst (poll_turn ctl cfg env st)) of None \<Rightarrow> True | Some d \<Rightarrow> d \<le> 15 * second"
    by (auto simp: next_delay_def split: poll_next.splits)
  moreover have "\<not> is_auth_error e \<and> \<not> is_state_conflict e" if "is_network_error e"
    using that by (simp add: is_network_error_def is_auth_error_def is_state_conflict_def)
  ultimately show ?thesis using inv
    by (auto simp: poll_inv_def claim_with_retry_def poll_failed_def sleep_then_def min_duration_def Let_def min_def
        split: sum.splits)
qed

definition sample_poll :: poll_env where
  "sample_poll = \<lparr>peCtxDone = True, peCredentials = (''n'', ''t''), peClaim = (\<lambda>_ _. Inl (Plain ''down'')),
     peRetry = (\<lambda>_ _. Inl (Plain ''down'')), peSleepDone = True\<rparr>"

definition sample_config :: poll_config where
  "sample_config = \<lparr>pgPeriod = second, pgRequestTimeout = second, pgHasAuthClient = True\<rparr>"

definition sample_controller :: "unit controller" where
  "sample_controller = \<lparr>ctReport = (\<lambda>_. \<lparr>arAppliedProfile = [], arLastAppliedAt = [], arLastError = []\<rparr>), ctHandle = (\<lambda>_ r. r)\<rparr>"

definition sample_start :: "unit poll_state" where
  "sample_start = poll_start \<lparr>cAuthToken = [], cNodeIDHeader = []\<rparr> (Some ())"

theorem poll_backoff_bounded_witness:
  "plBackoff (snd (poll_loop sample_controller sample_config [sample_poll] sample_start)) \<le> 15 * second"
  using poll_backoff_bounded [OF refl, of sample_controller sample_config "[sample_poll]"] unfolding sample_start_def by blast

text \<open>
  Polling stops only for a reason: the context ended (at the start of a turn or during a sleep), or
  the server refused the agent's credentials and refused the refreshed ones again.
\<close>

theorem polling_stops_for_a_reason:
  assumes "fst (poll_turn ctl cfg env st) = StopPolling"
  shows "peCtxDone env \<or> \<not> peSleepDone env
    \<or> (\<exists>req e1 e2. peClaim env (plAuth st) req = Inl e1 \<and> is_auth_error e1
        \<and> peRetry env (refresh_auth cfg env (plAuth st)) req = Inl e2 \<and> is_auth_error e2)"
proof -
  have f: "is_auth_error e \<or> \<not> peSleepDone env" if "fst (poll_failed cfg env e s) = StopPolling" for e and s :: "'a poll_state"
    using that by (auto simp: poll_failed_def sleep_then_def split: if_splits)
  show ?thesis
  proof (cases "peCtxDone env")
    case False
    define req where "req = \<lparr>clMaxTasks = 1, clWaitMS = poll_wait_ms (poll_period (pgPeriod cfg)),
                    clRootAccess = map_option (ctReport ctl) (plRoot st)\<rparr>"
    obtain res c n where cr: "claim_with_retry cfg env (plAuth st) req = (res, c, n)"
      by (cases "claim_with_retry cfg env (plAuth st) req") auto
    show ?thesis
    proof (cases res)
      case (Inr r)
      with assms False cr show ?thesis
        by (auto simp: poll_turn_def Let_def req_def [symmetric] split: option.splits if_splits)
    next
      case (Inl e)
      with assms False cr have "fst (poll_failed cfg env e (st\<lparr>plAuth := c\<rparr>)) = StopPolling"
        by (simp add: poll_turn_def Let_def req_def [symmetric])
      from f [OF this] show ?thesis
      proof
        assume "is_auth_error e"
        with cr Inl show ?thesis
          by (auto simp: claim_with_retry_def Let_def split: sum.splits if_splits)
      qed simp
    qed
  qed simp
qed

theorem polling_stops_for_a_reason_witness: "peCtxDone sample_poll"
  using polling_stops_for_a_reason [of sample_controller sample_config sample_poll sample_start]
  by (simp add: poll_turn_def sample_poll_def)

text \<open>
  The root access snapshot that came with a task is handled before the task is dispatched, and
  every snapshot of a successful claim is handled even when it brings no task; a failed claim changes
  neither the root access state nor the running tasks.
\<close>

theorem snapshot_before_task:
  assumes "\<not> peCtxDone env"
    and "claim_with_retry cfg env (plAuth st) \<lparr>clMaxTasks = 1, clWaitMS = poll_wait_ms (poll_period (pgPeriod cfg)),
           clRootAccess = map_option (ctReport ctl) (plRoot st)\<rparr> = (res, c, n)"
  shows "case res of
      Inr resp \<Rightarrow> plRoot (snd (poll_turn ctl cfg env st)) = map_option (ctHandle ctl (rsRootAccess resp)) (plRoot st)
        \<and> plDispatch (snd (poll_turn ctl cfg env st)) =
            (case rsTask resp of None \<Rightarrow> plDispatch st
             | Some t \<Rightarrow> if taskID t = [] then plDispatch st else snd (dispatch_task t (plDispatch st)))
        \<and> plBackoff (snd (poll_turn ctl cfg env st)) = second
    | Inl e \<Rightarrow> plRoot (snd (poll_turn ctl cfg env st)) = plRoot st
        \<and> plDispatch (snd (poll_turn ctl cfg env st)) = plDispatch st"
  using assms
  by (auto simp: poll_turn_def Let_def poll_failed_def sleep_then_def split: sum.splits option.splits poll_next.splits)

definition sample_claim :: poll_env where
  "sample_claim = sample_poll\<lparr>peCtxDone := False,
     peClaim := (\<lambda>_ _. Inr \<lparr>rsTask = Some (sample_task ''x''), rsRootAccess = None\<rparr>)\<rparr>"

theorem snapshot_before_task_witness:
  "plDispatch (snd (poll_turn \<lparr>ctReport = (\<lambda>_. \<lparr>arAppliedProfile = [], arLastAppliedAt = [], arLastError = []\<rparr>),
      ctHandle = (\<lambda>_ r. r)\<rparr> \<lparr>pgPeriod = second, pgRequestTimeout = second, pgHasAuthClient = True\<rparr> sample_claim
      (poll_start \<lparr>cAuthToken = [], cNodeIDHeader = []\<rparr> (Some ())))) =
    \<lparr>dpRunning = [''t1''], dpHandlers = [sample_task ''x'']\<rparr>"
  using snapshot_before_task [of sample_claim "\<lparr>pgPeriod = second, pgRequestTimeout = second, pgHasAuthClient = True\<rparr>"
      "poll_start \<lparr>cAuthToken = [], cNodeIDHeader = []\<rparr> (Some ())"
      "\<lparr>ctReport = (\<lambda>_. \<lparr>arAppliedProfile = [], arLastAppliedAt = [], arLastError = []\<rparr>), ctHandle = (\<lambda>_ r. r)\<rparr>"
      "Inr \<lparr>rsTask = Some (sample_task ''x''), rsRootAccess = None\<rparr>" "\<lparr>cAuthToken = [], cNodeIDHeader = []\<rparr>" 1]
  by (simp add: sample_claim_def sample_poll_def claim_with_retry_def poll_start_def dispatch_task_def mark_running_def sample_task_def)

text \<open>
  A claim refused with 404 or 409 is repeated at once: the turn ends with delay 0 and the same state,
  so a server that keeps answering so is asked without pause.
\<close>

theorem state_conflict_retries_at_once:
  assumes "is_state_conflict e"
  shows "poll_failed cfg env e st = (NextClaim 0, st)"
proof -
  have "\<not> is_auth_error e" using assms by (auto simp: is_auth_error_def is_state_conflict_def split: option.splits)
  with assms show ?thesis by (simp add: poll_failed_def)
qed

theorem state_conflict_retries_at_once_witness:
  "poll_failed sample_config sample_poll
      (Request ''x'' \<lparr>reqMethod = [], reqPath = [], reqStatusCode = 409, reqMessage = [], reqBody = []\<rparr>) sample_start
     = (NextClaim 0, sample_start)"
  by (rule state_conflict_retries_at_once) (simp add: is_state_conflict_def)

subsection \<open>How a task is reported\<close>

definition is_completion :: "task_event \<Rightarrow> bool" where
  "is_completion e = (case e of TaskCompletedEvent _ \<Rightarrow> True | _ \<Rightarrow> False)"



text \<open>
  C20. The reported status is truthful: \<open>success\<close> is reported only when the command was built, started and
  ended cleanly and nobody cancelled it, and then with exit code 0 and no error; a task cancelled by the
  control plane is never reported as a success, and its report is never blank.
\<close>

theorem reported_status_truthful:
  assumes "execute ex run t w = ((r, err, logs), w')"
  shows "(ocStatus (task_outcome cancel r err) = ''success'' \<longleftrightarrow> err = None \<and> cancel = None)
    \<and> (ocStatus (task_outcome cancel r err) = ''success'' \<longrightarrow>
         ocExitCode (task_outcome cancel r err) = 0 \<and> ocError (task_outcome cancel r err) = []
         \<and> (\<exists>spec. command_for_task ex t w = (Inr spec, w') \<and> prWait (spawn ex run spec) = None))
    \<and> (cancel = Some reason \<and> (err = None \<or> err = Some (Sentinel CtxCanceled)) \<longrightarrow>
         ocStatus (task_outcome cancel r err) = ''cancelled'' \<and> ocError (task_outcome cancel r err) \<noteq> []
         \<and> trim_space (ocOutput (task_outcome cancel r err)) \<noteq> [])"
proof -
  have exec: "err = None \<Longrightarrow> xrExitCode r = 0 \<and> (\<exists>spec. command_for_task ex t w = (Inr spec, w') \<and> prWait (spawn ex run spec) = None)"
    using assms by (cases "command_for_task ex t w"; cases "fst (command_for_task ex t w)")
       (auto simp: execute_def reject_def exit_code_def run_spec_def Let_def split: option.splits)
  have t1: "trim_space ''task cancelled by control request'' \<noteq> []" by code_simp
  have t2: "trim_space (''task cancelled by control request: '' @ s) \<noteq> []" for s
    by (rule trim_space_ascii_mem [where c = "CHR ''t''"]) (simp_all add: byte_in_def)
  have t3: "sentinel_text ErrTaskCancelledByControl \<noteq> []" by simp
  show ?thesis
    using exec t1 t2 by (auto simp: task_outcome_def final_error_def task_status_def Let_def split: option.splits if_splits)
qed

theorem reported_status_truthful_witness:
  "ocStatus (task_outcome (Some ''stop'') (fst (fst (execute (sample_executor reboot_json) (\<lambda>_ _ _ _. sample_run) (sample_task ''shell.exec'') quiet_world)))
     (fst (snd (fst (execute (sample_executor reboot_json) (\<lambda>_ _ _ _. sample_run) (sample_task ''shell.exec'') quiet_world))))) \<noteq> ''success''"
  using reported_status_truthful [where ex = "sample_executor reboot_json" and run = "\<lambda>_ _ _ _. sample_run"
      and t = "sample_task ''shell.exec''" and w = quiet_world and cancel = "Some ''stop''"
      and r = "fst (fst (execute (sample_executor reboot_json) (\<lambda>_ _ _ _. sample_run) (sample_task ''shell.exec'') quiet_world))"
      and err = "fst (snd (fst (execute (sample_executor reboot_json) (\<lambda>_ _ _ _. sample_run) (sample_task ''shell.exec'') quiet_world)))"
      and logs = "snd (snd (fst (execute (sample_executor reboot_json) (\<lambda>_ _ _ _. sample_run) (sample_task ''shell.exec'') quiet_world)))"
      and w' = "snd (execute (sample_executor reboot_json) (\<lambda>_ _ _ _. sample_run) (sample_task ''shell.exec'') quiet_world)"]
  by simp

subsection \<open>Logs in order\<close>

datatype sink_op = SinkEnqueue log_entry | SinkReceive

text \<open>A run of the sink while the task's context lives.\<close>

fun sink_run :: "sink_op list \<Rightarrow> log_sink \<Rightarrow> log_sink" where
  "sink_run [] s = s"
| "sink_run (SinkEnqueue x # ops) s = sink_run ops (sink_enqueue x s)"
| "sink_run (SinkReceive # ops) s = sink_run ops (sink_receive False False False s)"

fun as_queue_op :: "sink_op \<Rightarrow> log_entry queue_op" where
  "as_queue_op (SinkEnqueue x) = Offer x"
| "as_queue_op SinkReceive = Take"

lemma sink_run_chan:
  "queue_run (chan_offer log_sink_capacity) chan_take (map as_queue_op ops) (skQueue s) = (q, ds, acc, ref) \<Longrightarrow>
    sink_run ops s = \<lparr>skQueue = q, skSent = skSent s @ ds, skDropped = skDropped s + length ref\<rparr>"
proof (induction ops arbitrary: s q ds acc ref)
  case (Cons p ops)
  show ?case
  proof (cases p)
    case (SinkEnqueue x)
    obtain q1 ok where o: "chan_offer log_sink_capacity (skQueue s) x = (q1, ok)"
      by (cases "chan_offer log_sink_capacity (skQueue s) x")
    have s1: "skQueue (sink_enqueue x s) = q1" "skSent (sink_enqueue x s) = skSent s"
      "skDropped (sink_enqueue x s) = skDropped s + (if ok then 0 else 1)"
      using o by (auto simp: sink_enqueue_def chan_offer_def split: if_splits)
    obtain q2 ds2 acc2 ref2 where
      r: "queue_run (chan_offer log_sink_capacity) chan_take (map as_queue_op ops) q1 = (q2, ds2, acc2, ref2)"
      by (cases "queue_run (chan_offer log_sink_capacity) chan_take (map as_queue_op ops) q1") auto
    from Cons.IH [of "sink_enqueue x s"] r s1 Cons.prems SinkEnqueue o show ?thesis
      by (auto split: if_splits)
  next
    case SinkReceive
    show ?thesis
    proof (cases "skQueue s")
      case Nil
      with Cons SinkReceive show ?thesis by (simp add: sink_receive_def)
    next
      case (Cons x xs)
      obtain q2 ds2 acc2 ref2 where
        r: "queue_run (chan_offer log_sink_capacity) chan_take (map as_queue_op ops) xs = (q2, ds2, acc2, ref2)"
        by (cases "queue_run (chan_offer log_sink_capacity) chan_take (map as_queue_op ops) xs") auto
      from Cons.IH [of "sink_receive False False False s"] r Cons \<open>p = SinkReceive\<close> Cons.prems
      show ?thesis by (simp add: sink_receive_def)
    qed
  qed
qed simp

fun enqueued :: "sink_op list \<Rightarrow> log_entry list" where
  "enqueued [] = []"
| "enqueued (SinkEnqueue x # ops) = x # enqueued ops"
| "enqueued (SinkReceive # ops) = enqueued ops"

lemma offered_enqueued: "offered (map as_queue_op ops) = enqueued ops"
proof (induction ops)
  case (Cons p ops)
  then show ?case by (cases p) simp_all
qed simp

definition empty_sink :: log_sink where
  "empty_sink = \<lparr>skQueue = [], skSent = [], skDropped = 0\<rparr>"

text \<open>
  While a task's context lives its log lines reach the control plane in the order they were written,
  each at most once: what was sent and what still waits is a subsequence of the lines written, missing
  exactly the lines counted as dropped; the buffer never holds more than 512, and if nothing was dropped
  a drained sink has sent every line.
\<close>

theorem task_log_in_order:
  "subseq (skSent (sink_run ops empty_sink) @ skQueue (sink_run ops empty_sink)) (enqueued ops)
   \<and> length (skSent (sink_run ops empty_sink)) + length (skQueue (sink_run ops empty_sink))
       + skDropped (sink_run ops empty_sink) = length (enqueued ops)
   \<and> length (skQueue (sink_run ops empty_sink)) \<le> 512
   \<and> (skDropped (sink_run ops empty_sink) = 0 \<and> skQueue (sink_run ops empty_sink) = []
        \<longrightarrow> skSent (sink_run ops empty_sink) = enqueued ops)"
proof -
  obtain q ds acc ref where
    r: "queue_run (chan_offer log_sink_capacity) chan_take (map as_queue_op ops) [] = (q, ds, acc, ref)"
    by (cases "queue_run (chan_offer log_sink_capacity) chan_take (map as_queue_op ops) []") auto
  have s: "sink_run ops empty_sink = \<lparr>skQueue = q, skSent = ds, skDropped = length ref\<rparr>"
    using sink_run_chan [of ops empty_sink q ds acc ref] r by (simp add: empty_sink_def)
  have fifo: "acc = ds @ q" using chan.run_fifo [OF r] by simp
  have sub: "subseq acc (enqueued ops)" "length acc + length ref = length (enqueued ops)"
    using queue_run_accepted [OF r] by (simp_all add: offered_enqueued)
  have "length q \<le> 512" using chan.run_bounded [OF r] by (simp add: log_sink_capacity_def)
  moreover have "q = [] \<and> ref = [] \<longrightarrow> ds = enqueued ops" using sub fifo by (auto simp: subseq_same_length)
  ultimately show ?thesis using sub fifo s by auto
qed

theorem task_log_in_order_witness:
  "skSent (sink_run [SinkReceive] empty_sink) = enqueued [SinkReceive]"
  using task_log_in_order [of "[SinkReceive]"] by (simp add: sink_receive_def empty_sink_def)

text \<open>
  Once the task's context has ended the sink sends nothing more and empties its buffer.
\<close>

lemma sink_discards:
  "skSent (sink_receive True e a s) = skSent s \<and> skQueue (sink_receive True e a s) = []"
  by (cases "skQueue s") (simp_all add: sink_receive_def)

text \<open>
  A cancellation request is never missed while the task runs: if the watcher sees one before the task
  ends, however many checks failed before it, the trimmed reason of the first request is the one recorded.
\<close>

theorem cancellation_seen:
  assumes "\<forall>e\<in>set before. \<exists>r. e = ControlTick r \<and> (case r of Inl _ \<Rightarrow> True | Inr c \<Rightarrow> \<not> ctCancelRequested c)"
    and "ctCancelRequested c"
  shows "watch_task_control (before @ ControlTick (Inr c) # after) = Some (trim_space (ctCancelReason c))"
  using assms
proof (induction before rule: watch_task_control.induct)
  case (4 e es)
  then show ?case by simp
next
  case (5 d es)
  then show ?case by simp
qed simp_all

theorem cancellation_seen_witness:
  "watch_task_control [ControlTick (Inl (Plain ''x'')), ControlTick (Inr \<lparr>ctStatus = [], ctCancelRequested = True, ctCancelReason = ''stop''\<rparr>), CtxDone]
     = Some (trim_space ''stop'')"
  using cancellation_seen [of "[ControlTick (Inl (Plain ''x''))]" "\<lparr>ctStatus = [], ctCancelRequested = True, ctCancelReason = ''stop''\<rparr>" "[CtxDone]"]
  by simp

end
