(* ===== verification/LogScan.thy ===== *)
theory LogScan
  imports GoIO GoJson GoClock
begin

text \<open>
  \<open>internal/logscan/scanner.go\<close>: reading log sources in bounded pieces. A preview returns the tail of a
  source, a monitor scan what was written since the cursor of the scan before. The file and the journal
  are environments: what \<open>stat\<close>, \<open>open\<close>, \<open>read\<close> and \<open>journalctl\<close> answer. Sizes and offsets are \<open>int\<close>.
\<close>

subsection \<open>Requests and results\<close>

record limits =
  liMaxLines :: int
  liMaxBytes :: int
  liBackfillLines :: int

record cursor =
  cuJournalCursor :: string
  cuFileInode :: string
  cuFileOffset :: int
  cuLastReadAt :: string
  cuResetReason :: string

record scan_request =
  srMode :: string
  srSourcePresetID :: string
  srLimits :: limits
  srCursor :: "cursor option"

record entry =
  enTimestamp :: string
  enMessage :: string
  enUnit :: string
  enIdentifier :: string

datatype source_kind = FileSource | JournalSource

record scan_result =
  scSourcePresetID :: string
  scSourceType :: source_kind
  scEntries :: "entry list"
  scCursor :: cursor
  scTruncated :: bool
  scBytesRead :: int
  scLinesRead :: int
  scWarnings :: "string list"

record preset =
  prID :: string
  prKind :: source_kind
  prPath :: string
  prUnit :: string
  prIdentifier :: string
  prDefaultBackfill :: int

definition file_preset :: "string \<Rightarrow> preset" where
  "file_preset n = \<lparr>prID = n, prKind = FileSource, prPath = ''/var/log/'' @ n, prUnit = [],
     prIdentifier = ''/var/log/'' @ n, prDefaultBackfill = 200\<rparr>"

definition journal_preset :: preset where
  "journal_preset = \<lparr>prID = ''noderax-agent'', prKind = JournalSource, prPath = [],
     prUnit = ''noderax-agent.service'', prIdentifier = ''noderax-agent.service'', prDefaultBackfill = 200\<rparr>"

definition presets_by_id :: "string \<Rightarrow> preset option" where
  "presets_by_id = map_of [(''syslog'', file_preset ''syslog''), (''auth.log'', file_preset ''auth.log''),
     (''kern.log'', file_preset ''kern.log''), (''noderax-agent'', journal_preset)]"

subsection \<open>Limits\<close>

definition clamp :: "int \<Rightarrow> int \<Rightarrow> int \<Rightarrow> int \<Rightarrow> int" where
  "clamp x lo hi dflt =
     (let v = (if x = 0 then dflt else x) in if v < lo then lo else if v > hi then hi else v)"

record normalized_limits =
  nlMaxLines :: int
  nlMaxBytes :: int
  nlBackfillLines :: int

definition normalize_limits :: "limits \<Rightarrow> int \<Rightarrow> normalized_limits" where
  "normalize_limits l default_backfill =
     \<lparr>nlMaxLines = clamp (liMaxLines l) 1 2000 500,
      nlMaxBytes = clamp (liMaxBytes l) 1 262144 65536,
      nlBackfillLines = clamp (liBackfillLines l) 1 500 (if default_backfill \<le> 0 then 200 else default_backfill)\<rparr>"

subsection \<open>The tail of a file\<close>

text \<open>
  What the calls on one log file answer: \<open>feStat\<close> its inode and size, \<open>feOpen\<close> and \<open>feSeek\<close> their errors,
  \<open>feContent\<close> the bytes that can be read and \<open>feReadError\<close> what ends them (\<open>None\<close> is the end of file),
  \<open>feCtx i\<close> the context's error before line \<open>i\<close>.
\<close>

record file_env =
  feStat :: "goerror + string \<times> int"
  feOpen :: "goerror option"
  feSeek :: "int \<Rightarrow> goerror option"
  feContent :: string
  feReadError :: "goerror option"
  feCtx :: "nat \<Rightarrow> goerror option"

text \<open>The ring of the last \<open>n\<close> lines.\<close>

definition push_line :: "nat \<Rightarrow> string list \<Rightarrow> string \<Rightarrow> string list" where
  "push_line n ls l = (if length ls = n then tl ls @ [l] else ls @ [l])"

definition line_size :: "string \<Rightarrow> int" where
  "line_size l = int (length l) + 1"

definition total_size :: "string list \<Rightarrow> int" where
  "total_size ls = sum_list (map line_size ls)"

text \<open>The loop that drops lines from the front until the rest fits.\<close>

fun fit_bytes :: "int \<Rightarrow> string list \<Rightarrow> string list" where
  "fit_bytes max_bytes [] = []"
| "fit_bytes max_bytes (l # ls) = (if total_size (l # ls) \<le> max_bytes then l # ls else fit_bytes max_bytes ls)"

definition file_entry :: "string \<Rightarrow> string \<Rightarrow> entry" where
  "file_entry ident m = \<lparr>enTimestamp = [], enMessage = m, enUnit = [], enIdentifier = ident\<rparr>"

text \<open>The first context error among the scanned lines.\<close>

fun ctx_error :: "(nat \<Rightarrow> goerror option) \<Rightarrow> nat \<Rightarrow> nat \<Rightarrow> goerror option" where
  "ctx_error ctx i 0 = None"
| "ctx_error ctx i (Suc n) = (case ctx i of Some e \<Rightarrow> Some e | None \<Rightarrow> ctx_error ctx (Suc i) n)"

definition tail_file_entries :: "file_env \<Rightarrow> string \<Rightarrow> int \<Rightarrow> int \<Rightarrow> int \<Rightarrow> string \<Rightarrow> goerror + entry list \<times> int \<times> bool" where
  "tail_file_entries fe path backfill max_lines max_bytes ident =
     (case feOpen fe of
        Some e \<Rightarrow> Inl (wrap_prefix (''open '' @ path @ '': '') e)
      | None \<Rightarrow>
          (case scan_lines (1024 * 1024) (feContent fe) of (scanned, err) \<Rightarrow>
             (case ctx_error (feCtx fe) 0 (length scanned) of
                Some e \<Rightarrow> Inl e
              | None \<Rightarrow>
                 (case (case err of Some e \<Rightarrow> Some e | None \<Rightarrow> feReadError fe) of
                    Some e \<Rightarrow> Inl (wrap_prefix (''scan '' @ path @ '': '') e)
                  | None \<Rightarrow>
                      (let ls = foldl (push_line (nat backfill)) [] scanned;
                           start = (if int (length ls) > max_lines then length ls - nat max_lines else 0);
                           sel = fit_bytes max_bytes (drop start ls)
                       in if sel = [] then Inr ([], 0, ls \<noteq> [])
                          else Inr (map (file_entry ident) sel, total_size sel, length sel < length ls))))))"

subsection \<open>Reading on from an offset\<close>

text \<open>\<open>ReadBytes('\n')\<close>: the next chunk, its newline included, and what follows.\<close>

definition next_chunk :: "string \<Rightarrow> string \<times> string" where
  "next_chunk s = (case dropWhile (\<lambda>c. c \<noteq> CHR 0x0A) s of
       [] \<Rightarrow> (s, [])
     | nl # rest \<Rightarrow> (takeWhile (\<lambda>c. c \<noteq> CHR 0x0A) s @ [nl], rest))"

definition chunk_text :: "string \<Rightarrow> string" where
  "chunk_text c = trim_right [CHR 0x0D, CHR 0x0A] c"

lemma next_chunk_split: "fst (next_chunk s) @ snd (next_chunk s) = s"
proof (cases "dropWhile (\<lambda>c. c \<noteq> CHR 0x0A) s")
  case (Cons a list)
  then show ?thesis by (simp add: next_chunk_def) (metis takeWhile_dropWhile_id)
next
  case Nil
  then show ?thesis unfolding next_chunk_def by (simp only: list.case fst_conv snd_conv append_Nil2)
qed

lemma next_chunk_nonempty: "s \<noteq> [] \<Longrightarrow> fst (next_chunk s) \<noteq> []"
  by (auto simp: next_chunk_def split: list.splits)

lemma next_chunk_shorter: "s \<noteq> [] \<Longrightarrow> length (snd (next_chunk s)) < length s"
  by (metis next_chunk_split next_chunk_nonempty length_append length_greater_0_conv less_add_same_cancel2)

record read_state =
  rdChunks :: "string list"
  rdBytes :: int
  rdTruncated :: bool
  rdRest :: string

text \<open>The read loop: the chunks taken so far, the bytes read and the text not yet taken.\<close>

function read_loop :: "file_env \<Rightarrow> string \<Rightarrow> int \<Rightarrow> int \<Rightarrow> read_state \<Rightarrow> goerror + read_state" where
  "read_loop fe path max_lines max_bytes st =
     (if \<not> int (length (rdChunks st)) < max_lines then Inr st
      else case feCtx fe (length (rdChunks st)) of
        Some e \<Rightarrow> Inl e
      | None \<Rightarrow>
          if rdRest st = [] then (case feReadError fe of
              None \<Rightarrow> Inr st | Some e \<Rightarrow> Inl (wrap_prefix (''read '' @ path @ '': '') e))
          else (let chunk = fst (next_chunk (rdRest st)); rest = snd (next_chunk (rdRest st)) in
            if rdBytes st + int (length chunk) > max_bytes then Inr (st\<lparr>rdTruncated := True\<rparr>)
            else (let st1 = st\<lparr>rdChunks := rdChunks st @ [chunk], rdBytes := rdBytes st + int (length chunk), rdRest := rest\<rparr>
                  in if last chunk = CHR 0x0A then read_loop fe path max_lines max_bytes st1
                     else (case feReadError fe of
                       None \<Rightarrow> Inr st1 | Some e \<Rightarrow> Inl (wrap_prefix (''read '' @ path @ '': '') e)))))"
  by pat_completeness auto
termination
  by (relation "measure (\<lambda>(fe, path, ml, mb, st). length (rdRest st))") (auto simp: next_chunk_shorter)

declare read_loop.simps [simp del]

definition read_file_from_offset :: "file_env \<Rightarrow> string \<Rightarrow> int \<Rightarrow> int \<Rightarrow> int \<Rightarrow> string \<Rightarrow>
    goerror + entry list \<times> int \<times> bool \<times> int" where
  "read_file_from_offset fe path offset max_lines max_bytes ident =
     (case feOpen fe of
        Some e \<Rightarrow> Inl (wrap_prefix (''open '' @ path @ '': '') e)
      | None \<Rightarrow>
          (case feSeek fe offset of
             Some e \<Rightarrow> Inl (wrap_prefix (''seek '' @ path @ '': '') e)
           | None \<Rightarrow>
               (case read_loop fe path max_lines max_bytes
                       \<lparr>rdChunks = [], rdBytes = 0, rdTruncated = False, rdRest = drop (nat offset) (feContent fe)\<rparr> of
                  Inl e \<Rightarrow> Inl e
                | Inr st \<Rightarrow>
                    Inr (map (file_entry ident \<circ> chunk_text) (rdChunks st), rdBytes st,
                         rdTruncated st \<or> int (length (rdChunks st)) = max_lines \<and> rdRest st \<noteq> [],
                         offset + rdBytes st))))"

subsection \<open>scanFile\<close>

definition file_result :: "preset \<Rightarrow> string \<Rightarrow> int \<Rightarrow> string \<Rightarrow> scan_result" where
  "file_result p inode sz now =
     \<lparr>scSourcePresetID = prID p, scSourceType = FileSource, scEntries = [],
      scCursor = \<lparr>cuJournalCursor = [], cuFileInode = inode, cuFileOffset = sz, cuLastReadAt = now, cuResetReason = []\<rparr>,
      scTruncated = False, scBytesRead = 0, scLinesRead = 0, scWarnings = []\<rparr>"

definition with_entries :: "entry list \<times> int \<times> bool \<Rightarrow> scan_result \<Rightarrow> scan_result" where
  "with_entries t r = (case t of (es, n, tr) \<Rightarrow>
     r\<lparr>scEntries := es, scBytesRead := n, scLinesRead := int (length es), scTruncated := tr\<rparr>)"

definition reset_reason :: "cursor \<Rightarrow> string \<Rightarrow> int \<Rightarrow> string" where
  "reset_reason c inode sz =
     (if cuFileInode c \<noteq> inode then ''rotated'' else if cuFileOffset c > sz then ''truncated'' else [])"

definition scan_file :: "file_env \<Rightarrow> string \<Rightarrow> preset \<Rightarrow> string \<Rightarrow> normalized_limits \<Rightarrow> cursor option \<Rightarrow> goerror + scan_result" where
  "scan_file fe now p mode l cur =
     (case feStat fe of
        Inl e \<Rightarrow> Inl (wrap_prefix (''stat '' @ prPath p @ '': '') e)
      | Inr (inode, sz) \<Rightarrow>
          (let r = file_result p inode sz now;
               tail = tail_file_entries fe (prPath p) (nlBackfillLines l) (nlMaxLines l) (nlMaxBytes l) (prIdentifier p)
           in if mode = ''preview'' then rbind tail (\<lambda>t. Inr (with_entries t r))
              else (case cur of
                 None \<Rightarrow> rbind tail (\<lambda>t. Inr (with_entries t r))
               | Some c \<Rightarrow>
                   if trim_space (cuFileInode c) = [] then rbind tail (\<lambda>t. Inr (with_entries t r))
                   else (let why = reset_reason c inode sz in
                     if why \<noteq> [] then
                       rbind tail (\<lambda>t. Inr ((with_entries t r)\<lparr>
                         scCursor := (scCursor r)\<lparr>cuResetReason := why\<rparr>,
                         scWarnings := [''file cursor reset after log file '' @ why]\<rparr>))
                     else
                       rbind (read_file_from_offset fe (prPath p) (cuFileOffset c) (nlMaxLines l) (nlMaxBytes l) (prIdentifier p))
                         (\<lambda>(es, n, tr, next). Inr ((with_entries (es, n, tr) r)\<lparr>
                            scCursor := (scCursor r)\<lparr>cuFileOffset := next\<rparr>\<rparr>))))))"

subsection \<open>The journal\<close>

text \<open>A member of a decoded object: the last of its duplicates; only strings count.\<close>

definition member_string :: "(string \<times> json) list \<Rightarrow> string \<Rightarrow> string" where
  "member_string ms k = (case map_of (rev ms) k of Some (JStr s) \<Rightarrow> s | _ \<Rightarrow> [])"

definition parse_journal_timestamp :: "string \<Rightarrow> string" where
  "parse_journal_timestamp raw =
     (if raw = [] then [] else case parse_int64 raw of None \<Rightarrow> [] | Some us \<Rightarrow> format_rfc3339nano (us * 1000))"

definition parse_journal_entry :: "(string \<Rightarrow> goerror + json) \<Rightarrow> string \<Rightarrow> preset \<Rightarrow> goerror + entry \<times> string" where
  "parse_journal_entry parse raw p =
     (case parse raw of
        Inl e \<Rightarrow> Inl (wrap_prefix ''journal entry parse failed: '' e)
      | Inr j \<Rightarrow>
          (case (case j of JObj ms \<Rightarrow> Some ms | JNull \<Rightarrow> Some [] | _ \<Rightarrow> None) of
             None \<Rightarrow> Inl (wrap_prefix ''journal entry parse failed: ''
                (Plain (''json: cannot unmarshal '' @ json_kind j @ '' into Go value of type map[string]interface {}'')))
           | Some ms \<Rightarrow>
               (let message = member_string ms ''MESSAGE''; unit = member_string ms ''_SYSTEMD_UNIT'';
                    ident = member_string ms ''SYSLOG_IDENTIFIER''
                in if trim_space message = [] then Inl (Plain ''journal entry missing MESSAGE'')
                   else Inr (\<lparr>enTimestamp = parse_journal_timestamp (member_string ms ''__REALTIME_TIMESTAMP''),
                         enMessage = message, enUnit = (if unit = [] then prUnit p else unit),
                         enIdentifier = (if ident = [] then prIdentifier p else ident)\<rparr>,
                       member_string ms ''__CURSOR''))))"

record journal_state =
  jsEntries :: "entry list"
  jsWarnings :: "string list"
  jsLastCursor :: string
  jsBytes :: int
  jsTruncated :: bool

fun journal_loop :: "(string \<Rightarrow> goerror + json) \<Rightarrow> preset \<Rightarrow> normalized_limits \<Rightarrow> (nat \<Rightarrow> goerror option) \<Rightarrow> nat \<Rightarrow>
    string list \<Rightarrow> journal_state \<Rightarrow> goerror + journal_state" where
  "journal_loop parse p l ctx i [] st = Inr st"
| "journal_loop parse p l ctx i (raw # raws) st =
     (case ctx i of
        Some e \<Rightarrow> Inl e
      | None \<Rightarrow>
          if nlMaxLines l \<le> int (length (jsEntries st)) \<or> nlMaxBytes l < jsBytes st + line_size raw
          then Inr (st\<lparr>jsTruncated := True\<rparr>)
          else (case parse_journal_entry parse raw p of
              Inl e \<Rightarrow> journal_loop parse p l ctx (Suc i) raws (st\<lparr>jsWarnings := jsWarnings st @ [err_text e]\<rparr>)
            | Inr (e, c) \<Rightarrow> journal_loop parse p l ctx (Suc i) raws
                (st\<lparr>jsEntries := jsEntries st @ [e], jsLastCursor := c, jsBytes := jsBytes st + line_size raw\<rparr>)))"

text \<open>What running \<open>journalctl\<close> with given arguments does.\<close>

record journal_run =
  jrPipe :: "goerror option"
  jrStart :: "goerror option"
  jrOutput :: string
  jrReadError :: "goerror option"
  jrCtx :: "nat \<Rightarrow> goerror option"
  jrWait :: "goerror option"
  jrStderr :: string

record journal_env =
  jeLookPath :: "goerror + string"
  jeRun :: "string list \<Rightarrow> journal_run"
  jeParse :: "string \<Rightarrow> goerror + json"

definition journal_args :: "preset \<Rightarrow> string \<Rightarrow> normalized_limits \<Rightarrow> cursor option \<Rightarrow> string list" where
  "journal_args p mode l cur =
     [''--no-pager'', ''--output=json'', ''--utc'', ''--unit'', prUnit p]
     @ (if mode = ''monitor'' \<and> (case cur of None \<Rightarrow> False | Some c \<Rightarrow> trim_space (cuJournalCursor c) \<noteq> [])
        then [''--after-cursor'', cuJournalCursor (the cur)]
        else [''--lines'', int_text (nlBackfillLines l)])"

definition journal_result :: "preset \<Rightarrow> string \<Rightarrow> journal_state \<Rightarrow> scan_result" where
  "journal_result p now st =
     \<lparr>scSourcePresetID = prID p, scSourceType = JournalSource, scEntries = jsEntries st,
      scCursor = \<lparr>cuJournalCursor = jsLastCursor st, cuFileInode = [], cuFileOffset = 0, cuLastReadAt = now, cuResetReason = []\<rparr>,
      scTruncated = jsTruncated st, scBytesRead = jsBytes st, scLinesRead = int (length (jsEntries st)),
      scWarnings = jsWarnings st\<rparr>"

definition scan_journal :: "journal_env \<Rightarrow> string \<Rightarrow> preset \<Rightarrow> string \<Rightarrow> normalized_limits \<Rightarrow> cursor option \<Rightarrow> goerror + scan_result" where
  "scan_journal je now p mode l cur =
     (case jeLookPath je of
        Inl e \<Rightarrow> Inl (wrap_prefix ''journalctl is required for journal log scanning: '' e)
      | Inr path \<Rightarrow>
          (let run = jeRun je (path # journal_args p mode l cur) in
           case jrPipe run of
             Some e \<Rightarrow> Inl (wrap_prefix ''prepare journalctl stdout: '' e)
           | None \<Rightarrow>
             (case jrStart run of
                Some e \<Rightarrow> Inl (wrap_prefix ''start journalctl: '' e)
              | None \<Rightarrow>
                (case scan_lines (1024 * 1024) (jrOutput run) of (raws, err) \<Rightarrow>
                   (case journal_loop (jeParse je) p l (jrCtx run) 0 raws
                           \<lparr>jsEntries = [], jsWarnings = [], jsLastCursor = [], jsBytes = 0, jsTruncated = False\<rparr> of
                      Inl e \<Rightarrow> Inl e
                    | Inr st \<Rightarrow>
                        (let scan_err = (if jsTruncated st then None
                               else case err of Some e \<Rightarrow> Some e | None \<Rightarrow> jrReadError run)
                         in case scan_err of
                              Some e \<Rightarrow> Inl (wrap_prefix ''scan journalctl output: '' e)
                            | None \<Rightarrow>
                                (case (if jsTruncated st then None else jrWait run) of
                                   Some e \<Rightarrow>
                                     (let text = trim_space (jrStderr run) in
                                      if text \<noteq> [] then Inl (Plain (''journalctl failed: '' @ text))
                                      else Inl (wrap_prefix ''journalctl failed: '' e))
                                 | None \<Rightarrow> Inr (journal_result p now st))))))))"

subsection \<open>Run\<close>

definition run_scan :: "file_env \<Rightarrow> journal_env \<Rightarrow> string \<Rightarrow> scan_request \<Rightarrow> goerror + scan_result" where
  "run_scan fe je now r =
     (case presets_by_id (trim_space (srSourcePresetID r)) of
        None \<Rightarrow> Inl (Plain (''unsupported log source preset '' @ quote_text (srSourcePresetID r)))
      | Some p \<Rightarrow>
          (let mode = (if srMode r = [] then ''preview'' else srMode r) in
           if mode \<noteq> ''preview'' \<and> mode \<noteq> ''monitor''
           then Inl (Plain (''unsupported log scan mode '' @ quote_text (srMode r)))
           else (let l = normalize_limits (srLimits r) (prDefaultBackfill p) in
             case prKind p of
               FileSource \<Rightarrow> scan_file fe now p mode l (srCursor r)
             | JournalSource \<Rightarrow> scan_journal je now p mode l (srCursor r))))"

subsection \<open>Limits hold\<close>

lemma clamp_range: "lo \<le> hi \<Longrightarrow> lo \<le> clamp x lo hi d \<and> clamp x lo hi d \<le> hi"
  by (simp add: clamp_def Let_def)

definition limits_ok :: "normalized_limits \<Rightarrow> bool" where
  "limits_ok l \<longleftrightarrow> 1 \<le> nlMaxLines l \<and> nlMaxLines l \<le> 2000 \<and> 1 \<le> nlMaxBytes l \<and> nlMaxBytes l \<le> 262144
     \<and> 1 \<le> nlBackfillLines l \<and> nlBackfillLines l \<le> 500"

lemma normalize_limits_ok: "limits_ok (normalize_limits l d)"
  using clamp_range [of 1 2000 "liMaxLines l" 500] clamp_range [of 1 262144 "liMaxBytes l" 65536]
    clamp_range [of 1 500 "liBackfillLines l" "if d \<le> 0 then 200 else d"]
  by (simp add: limits_ok_def normalize_limits_def)

lemma fit_bytes_suffix: "\<exists>k. fit_bytes m ls = drop k ls"
proof (induction ls)
  case (Cons l ls)
  then obtain k where "fit_bytes m ls = drop k ls" by blast
  then have "fit_bytes m (l # ls) = drop 0 (l # ls) \<or> fit_bytes m (l # ls) = drop (Suc k) (l # ls)" by simp
  then show ?case by blast
qed simp

lemma fit_bytes_total: "0 \<le> m \<Longrightarrow> total_size (fit_bytes m ls) \<le> m"
  by (induction ls) (auto simp: total_size_def)

lemma fit_bytes_maximal:
  "total_size (drop k ls) \<le> m \<Longrightarrow> k \<le> length ls \<Longrightarrow> length (drop k ls) \<le> length (fit_bytes m ls)"
proof (induction ls arbitrary: k)
  case (Cons l ls)
  show ?case
  proof (cases k)
    case 0
    with Cons.prems show ?thesis by simp
  next
    case (Suc j)
    with Cons show ?thesis by auto
  qed
qed simp

lemma push_line_last: "0 < n \<Longrightarrow> foldl (push_line n) (drop (length xs - n) xs) ys = drop (length (xs @ ys) - n) (xs @ ys)"
proof (induction ys arbitrary: xs)
  case (Cons y ys)
  have "push_line n (drop (length xs - n) xs) y = drop (length (xs @ [y]) - n) (xs @ [y])"
  proof (cases "n \<le> length xs")
    case True
    then have "length (drop (length xs - n) xs) = n" by simp
    then have "push_line n (drop (length xs - n) xs) y = tl (drop (length xs - n) xs) @ [y]" by (simp add: push_line_def)
    also have "tl (drop (length xs - n) xs) = drop (Suc (length xs) - n) xs"
      using True by (metis Suc_diff_le drop_Suc tl_drop)
    finally show ?thesis using True Cons.prems by simp
  next
    case False
    then show ?thesis by (auto simp: push_line_def)
  qed
  with Cons.IH [of "xs @ [y]"] Cons.prems show ?case by simp
qed simp

text \<open>The ring holds the last \<open>n\<close> lines of the file.\<close>

lemma ring_is_tail: "0 < n \<Longrightarrow> foldl (push_line n) [] ls = drop (length ls - n) ls"
  using push_line_last [of n "[]" ls] by simp

definition tail_start :: "int \<Rightarrow> string list \<Rightarrow> nat" where
  "tail_start max_lines ls = (if int (length ls) > max_lines then length ls - nat max_lines else 0)"

lemma tail_cases:
  assumes "tail_file_entries fe path backfill max_lines max_bytes ident = Inr (es, n, tr)"
    and "ls = foldl (push_line (nat backfill)) [] (fst (scan_lines (1024 * 1024) (feContent fe)))"
    and "sel = fit_bytes max_bytes (drop (tail_start max_lines ls) ls)"
  shows "es = map (file_entry ident) sel" "n = total_size sel" "tr \<longleftrightarrow> length sel < length ls"
proof -
  obtain scanned err where sc: "scan_lines (1024 * 1024) (feContent fe) = (scanned, err)"
    by (cases "scan_lines (1024 * 1024) (feContent fe)")
  have ls: "foldl (push_line (nat backfill)) [] scanned = ls" using assms(2) sc by simp
  have sel: "fit_bytes max_bytes (drop (if int (length ls) > max_lines then length ls - nat max_lines else 0) ls) = sel"
    using assms(3) by (simp add: tail_start_def)
  have "(if sel = [] then Inr ([], 0, ls \<noteq> []) else Inr (map (file_entry ident) sel, total_size sel, length sel < length ls))
      = (Inr (es, n, tr) :: goerror + entry list \<times> int \<times> bool)"
    using assms(1) unfolding tail_file_entries_def sc prod.case Let_def ls sel
    by (auto split: option.splits)
  then show "es = map (file_entry ident) sel" "n = total_size sel" "tr \<longleftrightarrow> length sel < length ls"
    by (auto simp: total_size_def split: if_splits)
qed

text \<open>
  A preview is the end of the file: with \<open>ls\<close> the lines of the file, the entries returned are a
  suffix of them, in order; it is the longest one within the backfill, the line limit and the byte limit,
  and the flag says whether lines of the backfill were left out.
\<close>

theorem tail_is_longest_suffix:
  assumes "tail_file_entries fe path backfill max_lines max_bytes ident = Inr (es, n, tr)"
    and "0 < backfill" "0 < max_lines" "0 \<le> max_bytes"
  shows "\<exists>k. map enMessage es = drop k (fst (scan_lines (1024 * 1024) (feContent fe)))
     \<and> n = total_size (map enMessage es) \<and> n \<le> max_bytes \<and> int (length es) \<le> min max_lines backfill
     \<and> (\<forall>j. total_size (drop j (fst (scan_lines (1024 * 1024) (feContent fe)))) \<le> max_bytes
          \<and> int (length (drop j (fst (scan_lines (1024 * 1024) (feContent fe))))) \<le> min max_lines backfill
          \<longrightarrow> length (drop j (fst (scan_lines (1024 * 1024) (feContent fe)))) \<le> length es)
     \<and> (tr \<longleftrightarrow> length es < min (length (fst (scan_lines (1024 * 1024) (feContent fe)))) (nat backfill))"
proof -
  obtain ls err where sc: "scan_lines (1024 * 1024) (feContent fe) = (ls, err)"
    by (cases "scan_lines (1024 * 1024) (feContent fe)")
  define b where "b = nat backfill"
  define m where "m = nat max_lines"
  have bm: "0 < b" "0 < m" "int b = backfill" "int m = max_lines" using assms(2,3) by (simp_all add: b_def m_def)
  define ring where "ring = drop (length ls - b) ls"
  define start where "start = length ring - m"
  define sel where "sel = fit_bytes max_bytes (drop start ring)"
  have start: "tail_start max_lines ring = start"
    using bm by (auto simp: start_def m_def tail_start_def)
  have ring: "ring = foldl (push_line (nat backfill)) [] (fst (scan_lines (1024 * 1024) (feContent fe)))"
    unfolding sc fst_conv ring_def using ring_is_tail [OF bm(1), of ls] by (simp add: b_def)
  note res = tail_cases [OF assms(1) ring sel_def [folded start]]
  have msgs: "map enMessage es = sel" by (simp add: res(1) o_def file_entry_def)
  obtain q where q: "sel = drop q (drop start ring)" unfolding sel_def using fit_bytes_suffix by blast
  have len: "length sel \<le> m" "length sel \<le> b" unfolding q start_def ring_def by simp_all
  have max: "length (drop j ls) \<le> length sel" if "total_size (drop j ls) \<le> max_bytes" "length (drop j ls) \<le> min m b" for j
  proof (cases "j \<le> length ls")
    case True
    have j: "length ls - min m b \<le> j" using that(2) unfolding length_drop by linarith
    have "start + (length ls - b) = length ls - min m b"
      by (cases "b \<le> length ls"; cases "m \<le> b") (simp_all add: start_def ring_def)
    then have st: "drop start ring = drop (length ls - min m b) ls" by (simp add: ring_def)
    define i where "i = j - (length ls - min m b)"
    have dj: "drop i (drop start ring) = drop j ls" unfolding st i_def using j by simp
    have i: "i \<le> length (drop start ring)" unfolding st i_def using True by simp
    from fit_bytes_maximal [of i "drop start ring" max_bytes] that(1) i
    show ?thesis unfolding sel_def dj by simp
  qed simp
  have suffix: "sel = drop (q + start + (length ls - b)) ls" unfolding q ring_def by (simp add: add.assoc)
  have total: "total_size sel \<le> max_bytes" unfolding sel_def by (rule fit_bytes_total [OF assms(4)])
  have "length ring = min (length ls) b" by (simp add: ring_def)
  with res(3) have tr: "tr \<longleftrightarrow> length sel < min (length ls) b" by simp
  have le: "(int k \<le> min max_lines backfill) = (k \<le> min m b)" for k using bm by auto
  have es: "length es = length sel" using msgs by (metis length_map)
  show ?thesis unfolding sc fst_conv msgs es le b_def [symmetric]
  proof (intro exI conjI allI impI)
    show "sel = drop (q + start + (length ls - b)) ls" by (rule suffix)
    show "length sel \<le> min m b" using len by simp
    show "length (drop j ls) \<le> length sel" if "total_size (drop j ls) \<le> max_bytes \<and> length (drop j ls) \<le> min m b" for j
      by (rule max [OF conjunct1 [OF that] conjunct2 [OF that]])
    show "n = total_size sel" by (rule res(2))
    show "n \<le> max_bytes" using total res(2) by simp
    show "tr = (length sel < min (length ls) b)" by (rule tr)
  qed
qed

subsection \<open>Reading on loses and repeats nothing\<close>

text \<open>The chunks of a text: its lines, each with its newline.\<close>

function all_chunks :: "string \<Rightarrow> string list" where
  "all_chunks s = (if s = [] then [] else fst (next_chunk s) # all_chunks (snd (next_chunk s)))"
  by pat_completeness auto
termination by (relation "measure length") (auto simp: next_chunk_shorter)

declare all_chunks.simps [simp del]

lemma all_chunks_Nil [simp]: "all_chunks [] = []"
  by (simp add: all_chunks.simps)

lemma all_chunks_step: "s \<noteq> [] \<Longrightarrow> all_chunks s = fst (next_chunk s) # all_chunks (snd (next_chunk s))"
  by (subst all_chunks.simps) simp

lemma chunks_concat: "concat (all_chunks s) = s"
proof (induction s rule: all_chunks.induct)
  case (1 s)
  then show ?case by (cases "s = []") (simp_all add: all_chunks_step next_chunk_split)
qed

lemma next_chunk_newline: "last (fst (next_chunk s)) \<noteq> CHR 0x0A \<Longrightarrow> snd (next_chunk s) = []"
proof (cases "dropWhile (\<lambda>c. c \<noteq> CHR 0x0A) s")
  case (Cons a r)
  assume "last (fst (next_chunk s)) \<noteq> CHR 0x0A"
  moreover have "a = CHR 0x0A" using Cons by (metis (full_types) dropWhile_eq_Cons_conv)
  ultimately show ?thesis using Cons by (simp add: next_chunk_def)
next
  case Nil
  then show ?thesis unfolding next_chunk_def by (simp only: list.case snd_conv)
qed

definition read_inv :: "string \<Rightarrow> int \<Rightarrow> int \<Rightarrow> read_state \<Rightarrow> bool" where
  "read_inv text max_lines max_bytes st \<longleftrightarrow>
     concat (rdChunks st) @ rdRest st = text
     \<and> all_chunks text = rdChunks st @ all_chunks (rdRest st)
     \<and> rdBytes st = int (length (concat (rdChunks st))) \<and> rdBytes st \<le> max_bytes
     \<and> int (length (rdChunks st)) \<le> max_lines"

text \<open>Where the loop may end: the line limit, the end of the text, or a next line that does not fit.\<close>

definition read_end :: "int \<Rightarrow> int \<Rightarrow> read_state \<Rightarrow> bool" where
  "read_end max_lines max_bytes st \<longleftrightarrow>
     (if rdTruncated st then rdRest st \<noteq> [] \<and> max_bytes < rdBytes st + int (length (fst (next_chunk (rdRest st))))
      else rdRest st = [] \<or> int (length (rdChunks st)) = max_lines)"

lemma read_loop_inv:
  "read_loop fe path max_lines max_bytes st = Inr st' \<Longrightarrow> read_inv text max_lines max_bytes st \<Longrightarrow> \<not> rdTruncated st \<Longrightarrow>
    read_inv text max_lines max_bytes st' \<and> read_end max_lines max_bytes st'"
proof (induction fe path max_lines max_bytes st rule: read_loop.induct)
  case (1 fe path max_lines max_bytes st)
  note inv = "1.prems"(2) [unfolded read_inv_def]
  show ?case
  proof (cases "int (length (rdChunks st)) < max_lines \<and> feCtx fe (length (rdChunks st)) = None \<and> rdRest st \<noteq> []")
    case False
    with "1.prems" have "st' = st" "rdRest st = [] \<or> \<not> int (length (rdChunks st)) < max_lines"
      by (auto simp: read_loop.simps [of fe path max_lines max_bytes st] split: option.splits if_splits)
    with "1.prems"(2,3) inv show ?thesis by (auto simp: read_end_def)
  next
    case True
    define c where "c = fst (next_chunk (rdRest st))"
    define r where "r = snd (next_chunk (rdRest st))"
    define st1 where "st1 = st\<lparr>rdChunks := rdChunks st @ [c], rdBytes := rdBytes st + int (length c), rdRest := r\<rparr>"
    have cr: "c @ r = rdRest st" unfolding c_def r_def by (rule next_chunk_split)
    have chunks: "all_chunks (rdRest st) = c # all_chunks r" unfolding c_def r_def using True all_chunks_step by simp
    show ?thesis
    proof (cases "rdBytes st + int (length c) > max_bytes")
      case too_big: True
      with True "1.prems"(1) have "st' = st\<lparr>rdTruncated := True\<rparr>"
        by (subst (asm) read_loop.simps) (simp add: Let_def c_def)
      with too_big True "1.prems"(2) show ?thesis by (simp add: read_inv_def read_end_def c_def)
    next
      case fits: False
      have inv1: "read_inv text max_lines max_bytes st1"
        using inv cr chunks fits True by (simp add: read_inv_def st1_def)
      have nt: "\<not> rdTruncated st1" using "1.prems"(3) by (simp add: st1_def)
      show ?thesis
      proof (cases "last c = CHR 0x0A")
        case nl: True
        have "read_loop fe path max_lines max_bytes st1 = Inr st'"
          using "1.prems"(1) True fits nl
          by (subst (asm) read_loop.simps) (simp add: Let_def c_def [symmetric] r_def [symmetric] st1_def)
        with "1.IH" [OF _ _ _ refl refl _ refl] True fits nl inv1 nt show ?thesis
          by (auto simp: c_def r_def st1_def)
      next
        case nonl: False
        have "r = []" unfolding r_def by (rule next_chunk_newline) (use nonl in \<open>simp add: c_def\<close>)
        moreover have "st' = st1" using "1.prems"(1) True fits nonl
          by (subst (asm) read_loop.simps)
             (auto simp: Let_def c_def [symmetric] r_def [symmetric] st1_def split: option.splits)
        ultimately show ?thesis using inv1 nt by (simp add: read_end_def st1_def)
      qed
    qed
  qed
qed

lemma read_file_cases:
  assumes "read_file_from_offset fe path offset max_lines max_bytes ident = Inr (es, n, tr, next)" "0 \<le> max_bytes" "0 \<le> max_lines"
  obtains st where "read_inv (drop (nat offset) (feContent fe)) max_lines max_bytes st" "read_end max_lines max_bytes st"
    "es = map (file_entry ident \<circ> chunk_text) (rdChunks st)" "n = rdBytes st" "next = offset + n"
    "tr \<longleftrightarrow> rdTruncated st \<or> int (length (rdChunks st)) = max_lines \<and> rdRest st \<noteq> []"
proof -
  let ?st0 = "\<lparr>rdChunks = [], rdBytes = 0, rdTruncated = False, rdRest = drop (nat offset) (feContent fe)\<rparr>"
  obtain st where st: "read_loop fe path max_lines max_bytes ?st0 = Inr st"
    "es = map (file_entry ident \<circ> chunk_text) (rdChunks st)" "n = rdBytes st" "next = offset + n"
    "tr \<longleftrightarrow> rdTruncated st \<or> int (length (rdChunks st)) = max_lines \<and> rdRest st \<noteq> []"
    using assms(1) by (auto simp: read_file_from_offset_def split: option.splits sum.splits)
  have "read_inv (drop (nat offset) (feContent fe)) max_lines max_bytes ?st0"
    using assms(2,3) by (simp add: read_inv_def)
  from read_loop_inv [OF st(1) this] have "read_inv (drop (nat offset) (feContent fe)) max_lines max_bytes st"
    "read_end max_lines max_bytes st" by simp_all
  from that [OF this st(2-5)] show ?thesis .
qed

lemma read_file_exact:
  assumes "read_file_from_offset fe path offset max_lines max_bytes ident = Inr (es, n, tr, next)"
    and "0 \<le> offset" "offset \<le> int (length (feContent fe))" "0 \<le> max_bytes" "0 \<le> max_lines"
  obtains cs where "all_chunks (drop (nat offset) (feContent fe)) = cs @ all_chunks (drop (nat next) (feContent fe))"
    and "es = map (file_entry ident \<circ> chunk_text) cs" and "next = offset + n"
    and "0 \<le> n" "n \<le> max_bytes" "int (length es) \<le> max_lines" "next \<le> int (length (feContent fe))"
    and "tr \<or> next = int (length (feContent fe))"
  using assms(1,4,5)
proof (cases rule: read_file_cases)
  case (1 st)
  let ?text = "drop (nat offset) (feContent fe)"
  note inv = 1(1) [unfolded read_inv_def]
  have n: "nat next = nat offset + length (concat (rdChunks st))"
    using 1(4,5) inv assms(2) by (simp add: nat_add_distrib)
  have "drop (length (concat (rdChunks st))) ?text = rdRest st"
    using inv by (metis append_eq_conv_conj)
  then have rest: "drop (nat next) (feContent fe) = rdRest st" by (simp add: n add.commute)
  have len: "int (length (feContent fe)) = next + int (length (rdRest st))"
  proof -
    have "length ?text = length (concat (rdChunks st)) + length (rdRest st)" using inv by (metis length_append)
    then show ?thesis using assms(2,3) 1(4,5) inv by simp
  qed
  have tr: "tr \<or> rdRest st = []" using 1(2,6) by (auto simp: read_end_def split: if_splits)
  show thesis
    by (rule that [of "rdChunks st"]) (use rest inv 1(3,4,5) len tr in auto)
qed

text \<open>
  C33. A monitor scan neither loses nor repeats anything: its entries, followed by what scans from the
  offset it returns will read, are exactly the lines after the offset it was given, in order; it never
  reads past the end of the file, and when it reports nothing left out it has reached it.
\<close>

theorem monitor_scan_exact:
  assumes "read_file_from_offset fe path offset max_lines max_bytes ident = Inr (es, n, tr, next)"
    and "0 \<le> offset" "offset \<le> int (length (feContent fe))" "0 \<le> max_bytes" "0 \<le> max_lines"
  shows "map chunk_text (all_chunks (drop (nat offset) (feContent fe)))
        = map enMessage es @ map chunk_text (all_chunks (drop (nat next) (feContent fe)))
    \<and> next = offset + n \<and> 0 \<le> n \<and> n \<le> max_bytes \<and> int (length es) \<le> max_lines
    \<and> next \<le> int (length (feContent fe))
    \<and> (tr \<or> next = int (length (feContent fe)))"
  using assms by (rule read_file_exact) (simp add: file_entry_def o_def)

lemma read_file_progress:
  assumes "read_file_from_offset fe path offset max_lines max_bytes ident = Inr (es, n, tr, next)"
    and "0 < max_lines" "0 \<le> max_bytes" "drop (nat offset) (feContent fe) \<noteq> []"
  shows "offset < next \<longleftrightarrow> int (length (fst (next_chunk (drop (nat offset) (feContent fe))))) \<le> max_bytes"
proof -
  let ?text = "drop (nat offset) (feContent fe)"
  obtain st where st: "read_inv ?text max_lines max_bytes st" "read_end max_lines max_bytes st"
    "n = rdBytes st" "next = offset + n"
    using read_file_cases [OF assms(1,3)] assms(2) by (metis less_imp_le)
  note inv = st(1) [unfolded read_inv_def]
  show ?thesis
  proof (cases "rdChunks st")
    case Nil
    then have "rdRest st = ?text" "rdBytes st = 0" using inv by simp_all
    moreover have "rdTruncated st" using st(2) Nil assms(2,4) calculation by (auto simp: read_end_def split: if_splits)
    ultimately show ?thesis using st(2-4) by (simp add: read_end_def)
  next
    case (Cons c cs)
    with inv all_chunks_step [OF assms(4)] have c: "c = fst (next_chunk ?text)" by simp
    have "c \<noteq> []" unfolding c by (rule next_chunk_nonempty [OF assms(4)])
    then have "0 < int (length c)" by simp
    moreover have le: "int (length c) \<le> rdBytes st" using inv Cons by simp
    ultimately have "offset < next" using st(3,4) by linarith
    moreover have "int (length c) \<le> max_bytes" using inv le by linarith
    ultimately show ?thesis unfolding c [symmetric] by simp
  qed
qed

text \<open>
  A monitor scan makes progress unless the very next line is larger than the byte limit: if
  something is left and the next line fits, the offset moves forward.
\<close>

theorem monitor_scan_progress:
  assumes "read_file_from_offset fe path offset max_lines max_bytes ident = Inr (es, n, tr, next)"
    and "0 < max_lines" "0 \<le> max_bytes" "drop (nat offset) (feContent fe) \<noteq> []"
  shows "offset < next \<longleftrightarrow> int (length (fst (next_chunk (drop (nat offset) (feContent fe))))) \<le> max_bytes"
  using assms by (rule read_file_progress)

text \<open>
  A line longer than the byte limit stops a monitor for good: every scan from its offset returns no
  entry, the flag \<open>truncated\<close> and the same offset again.
\<close>

theorem oversized_line_blocks_monitor:
  assumes "feOpen fe = None" "feSeek fe offset = None" "feCtx fe 0 = None" "0 < max_lines"
    and "drop (nat offset) (feContent fe) \<noteq> []"
    and "max_bytes < int (length (fst (next_chunk (drop (nat offset) (feContent fe)))))"
  shows "read_file_from_offset fe path offset max_lines max_bytes ident = Inr ([], 0, True, offset)"
  using assms by (simp add: read_file_from_offset_def read_loop.simps Let_def)

subsection \<open>Scans in a row\<close>

text \<open>Up to \<open>k\<close> monitor scans of a file that does not change, each from the offset the one before returned.\<close>

fun monitor_run :: "nat \<Rightarrow> file_env \<Rightarrow> string \<Rightarrow> int \<Rightarrow> int \<Rightarrow> string \<Rightarrow> int \<Rightarrow> goerror + string list \<times> int" where
  "monitor_run 0 fe path max_lines max_bytes ident offset = Inr ([], offset)"
| "monitor_run (Suc k) fe path max_lines max_bytes ident offset =
     rbind (read_file_from_offset fe path offset max_lines max_bytes ident) (\<lambda>(es, n, tr, nx).
       rbind (monitor_run k fe path max_lines max_bytes ident nx) (\<lambda>(ms, off). Inr (map enMessage es @ ms, off)))"

definition quiet_file :: "file_env \<Rightarrow> bool" where
  "quiet_file fe \<longleftrightarrow> feOpen fe = None \<and> feSeek fe = (\<lambda>_. None) \<and> feCtx fe = (\<lambda>_. None) \<and> feReadError fe = None"

lemma read_loop_succeeds: "quiet_file fe \<Longrightarrow> \<exists>st'. read_loop fe path max_lines max_bytes st = Inr st'"
proof (induction fe path max_lines max_bytes st rule: read_loop.induct)
  case (1 fe path max_lines max_bytes st)
  then show ?case
    by (subst read_loop.simps) (auto simp: quiet_file_def Let_def split: option.splits)
qed

lemma read_file_succeeds:
  assumes "quiet_file fe"
  obtains es n tr nx where "read_file_from_offset fe path offset max_lines max_bytes ident = Inr (es, n, tr, nx)"
proof -
  obtain st where "read_loop fe path max_lines max_bytes
      \<lparr>rdChunks = [], rdBytes = 0, rdTruncated = False, rdRest = drop (nat offset) (feContent fe)\<rparr> = Inr st"
    using read_loop_succeeds [OF assms] by blast
  then show thesis using assms that by (simp add: read_file_from_offset_def quiet_file_def)
qed

lemma all_chunks_empty [simp]: "all_chunks s = [] \<longleftrightarrow> s = []"
  by (subst all_chunks.simps) simp


subsection \<open>Whole scans\<close>

lemma tail_bounds:
  assumes "tail_file_entries fe path backfill max_lines max_bytes ident = Inr (es, n, tr)" "0 \<le> max_bytes" "0 \<le> max_lines"
  shows "int (length es) \<le> max_lines \<and> 0 \<le> n \<and> n \<le> max_bytes"
proof -
  have suf: "length (fit_bytes m ls) \<le> length ls" for m ls
    using fit_bytes_suffix [of m ls] by auto
  define ls where "ls = foldl (push_line (nat backfill)) [] (fst (scan_lines (1024 * 1024) (feContent fe)))"
  define start where "start = tail_start max_lines ls"
  note res = tail_cases [OF assms(1) ls_def refl, folded start_def]
  have "length (drop start ls) \<le> nat max_lines" using assms(3) by (auto simp: start_def tail_start_def)
  with suf [of max_bytes "drop start ls"] have "length es \<le> nat max_lines" unfolding res(1) by simp
  moreover have "0 \<le> total_size qs" for qs by (induction qs) (simp_all add: total_size_def line_size_def)
  ultimately show ?thesis using fit_bytes_total [OF assms(2)] res(2) assms(3) by simp
qed

lemma journal_loop_bounds:
  "journal_loop parse p l ctx i raws st = Inr st' \<Longrightarrow>
    0 \<le> jsBytes st \<and> jsBytes st \<le> nlMaxBytes l \<and> int (length (jsEntries st)) \<le> nlMaxLines l \<Longrightarrow>
    0 \<le> jsBytes st' \<and> jsBytes st' \<le> nlMaxBytes l \<and> int (length (jsEntries st')) \<le> nlMaxLines l"
proof (induction raws arbitrary: i st)
  case (Cons raw raws)
  have pos: "0 \<le> line_size raw" by (simp add: line_size_def)
  show ?case
  proof (cases "ctx i = None \<and> \<not> (nlMaxLines l \<le> int (length (jsEntries st)) \<or> nlMaxBytes l < jsBytes st + line_size raw)")
    case True
    with Cons pos show ?thesis by (auto split: sum.splits)
  next
    case False
    with Cons.prems show ?thesis by (auto split: option.splits)
  qed
qed simp

lemma scan_journal_bounds:
  assumes "scan_journal je now p mode l cur = Inr res" "limits_ok l"
  shows "int (length (scEntries res)) \<le> nlMaxLines l \<and> 0 \<le> scBytesRead res \<and> scBytesRead res \<le> nlMaxBytes l
    \<and> scLinesRead res = int (length (scEntries res))"
proof -
  obtain path where path: "jeLookPath je = Inr path"
    using assms(1) by (auto simp: scan_journal_def split: sum.splits)
  let ?run = "jeRun je (path # journal_args p mode l cur)"
  obtain raws err where sc: "scan_lines (1024 * 1024) (jrOutput ?run) = (raws, err)"
    by (cases "scan_lines (1024 * 1024) (jrOutput ?run)")
  obtain st where st: "journal_loop (jeParse je) p l (jrCtx ?run) 0 raws
      \<lparr>jsEntries = [], jsWarnings = [], jsLastCursor = [], jsBytes = 0, jsTruncated = False\<rparr> = Inr st"
    and res: "res = journal_result p now st"
    using assms(1) unfolding scan_journal_def path sum.case Let_def sc prod.case
    by (auto split: option.splits sum.splits if_splits)
  from journal_loop_bounds [OF st] assms(2) show ?thesis unfolding res
    by (simp add: journal_result_def limits_ok_def)
qed

lemma read_file_bounds:
  assumes "read_file_from_offset fe path offset max_lines max_bytes ident = Inr (es, n, tr, next)" "0 \<le> max_bytes" "0 \<le> max_lines"
  shows "int (length es) \<le> max_lines \<and> 0 \<le> n \<and> n \<le> max_bytes"
  using assms by (rule read_file_cases) (simp add: read_inv_def)

lemma scan_file_bounds:
  assumes "scan_file fe now p mode l cur = Inr res" "limits_ok l"
  shows "int (length (scEntries res)) \<le> nlMaxLines l \<and> 0 \<le> scBytesRead res \<and> scBytesRead res \<le> nlMaxBytes l
    \<and> scLinesRead res = int (length (scEntries res))"
proof -
  have nn: "0 \<le> nlMaxBytes l" "0 \<le> nlMaxLines l" using assms(2) by (simp_all add: limits_ok_def)
  have "scLinesRead res = int (length (scEntries res)) \<and> (\<exists>tr.
      tail_file_entries fe (prPath p) (nlBackfillLines l) (nlMaxLines l) (nlMaxBytes l) (prIdentifier p)
        = Inr (scEntries res, scBytesRead res, tr)
      \<or> (\<exists>off next. read_file_from_offset fe (prPath p) off (nlMaxLines l) (nlMaxBytes l) (prIdentifier p)
        = Inr (scEntries res, scBytesRead res, tr, next)))"
    using assms(1) unfolding scan_file_def Let_def
    by (auto simp: with_entries_def rbind_def split: sum.splits if_splits option.splits prod.splits) blast
  then show ?thesis using tail_bounds [OF _ nn] read_file_bounds [OF _ nn] by auto
qed

text \<open>
  Whatever limits a request asks for, and whatever the file or the journal contain, a scan returns
  at most 2000 entries and accounts for at most 256 KiB, and its line count is the number of its entries.
\<close>

theorem scan_result_bounded:
  assumes "run_scan fe je now r = Inr res"
  shows "length (scEntries res) \<le> 2000 \<and> 0 \<le> scBytesRead res \<and> scBytesRead res \<le> 262144
    \<and> scLinesRead res = int (length (scEntries res))"
proof -
  obtain p mode where scan: "(case prKind p of
       FileSource \<Rightarrow> scan_file fe now p mode (normalize_limits (srLimits r) (prDefaultBackfill p)) (srCursor r)
     | JournalSource \<Rightarrow> scan_journal je now p mode (normalize_limits (srLimits r) (prDefaultBackfill p)) (srCursor r)) = Inr res"
    using assms by (auto simp: run_scan_def Let_def split: option.splits if_splits)
  let ?l = "normalize_limits (srLimits r) (prDefaultBackfill p)"
  have ok: "limits_ok ?l" by (rule normalize_limits_ok)
  then have "int (length (scEntries res)) \<le> nlMaxLines ?l \<and> 0 \<le> scBytesRead res \<and> scBytesRead res \<le> nlMaxBytes ?l
    \<and> scLinesRead res = int (length (scEntries res))"
    using scan scan_file_bounds [OF _ ok] scan_journal_bounds [OF _ ok] by (cases "prKind p") auto
  with ok show ?thesis unfolding limits_ok_def by linarith
qed

text \<open>
  A monitor never reads from an offset of another file: when the file was replaced or cut since the
  cursor was taken, the scan returns the file's tail instead, says why in the new cursor and in a warning,
  and the new cursor names the present file and its present size; otherwise it reads on from the offset.
\<close>

theorem monitor_cursor_reset:
  assumes "feStat fe = Inr (inode, sz)" "trim_space (cuFileInode c) \<noteq> []"
    and "scan_file fe now p ''monitor'' l (Some c) = Inr res"
  shows "if cuFileInode c \<noteq> inode \<or> sz < cuFileOffset c
    then (\<exists>es n tr. tail_file_entries fe (prPath p) (nlBackfillLines l) (nlMaxLines l) (nlMaxBytes l) (prIdentifier p) = Inr (es, n, tr)
           \<and> scEntries res = es)
         \<and> scCursor res = \<lparr>cuJournalCursor = [], cuFileInode = inode, cuFileOffset = sz, cuLastReadAt = now,
              cuResetReason = (if cuFileInode c \<noteq> inode then ''rotated'' else ''truncated'')\<rparr>
         \<and> scWarnings res \<noteq> []
    else (\<exists>es n tr next. read_file_from_offset fe (prPath p) (cuFileOffset c) (nlMaxLines l) (nlMaxBytes l) (prIdentifier p)
              = Inr (es, n, tr, next)
            \<and> scEntries res = es \<and> cuFileOffset (scCursor res) = next \<and> cuFileInode (scCursor res) = inode
            \<and> cuResetReason (scCursor res) = [])
         \<and> scWarnings res = []"
proof (cases "cuFileInode c \<noteq> inode \<or> sz < cuFileOffset c")
  case True
  then have "reset_reason c inode sz = (if cuFileInode c \<noteq> inode then ''rotated'' else ''truncated'')"
    by (simp add: reset_reason_def)
  with True assms show ?thesis
    by (auto simp: scan_file_def with_entries_def file_result_def rbind_def Let_def split: sum.splits prod.splits)
next
  case False
  then have "reset_reason c inode sz = []" by (simp add: reset_reason_def)
  with False assms show ?thesis
    by (auto simp: scan_file_def with_entries_def file_result_def rbind_def Let_def split: sum.splits prod.splits)
qed

text \<open>
  A monitor scan of the journal that finds nothing new forgets its place: the cursor it returns is
  empty, so the next scan asks \<open>journalctl\<close> for the last lines of the journal instead of what follows the
  cursor, and entries that were already returned are returned again.
\<close>

theorem quiet_journal_loses_cursor:
  assumes "jeLookPath je = Inr path" "run = jeRun je (path # journal_args p ''monitor'' l (Some c))"
    and "jrPipe run = None" "jrStart run = None" "jrOutput run = []" "jrReadError run = None" "jrWait run = None"
  shows "\<exists>res. scan_journal je now p ''monitor'' l (Some c) = Inr res \<and> cuJournalCursor (scCursor res) = []
    \<and> journal_args p ''monitor'' l (Some (scCursor res))
       = [''--no-pager'', ''--output=json'', ''--utc'', ''--unit'', prUnit p, ''--lines'', int_text (nlBackfillLines l)]"
proof -
  have "scan_lines (1024 * 1024) [] = ([], None)" by (simp add: scan_lines_def raw_lines_def)
  then show ?thesis using assms by (simp add: scan_journal_def Let_def journal_result_def journal_args_def trim_space_def)
qed

subsection \<open>Instances\<close>

definition sample_file :: "string \<Rightarrow> file_env" where
  "sample_file s = \<lparr>feStat = Inr (''7'', int (length s)), feOpen = None, feSeek = (\<lambda>_. None), feContent = s,
     feReadError = None, feCtx = (\<lambda>_. None)\<rparr>"

definition sample_text :: string where
  "sample_text = ''ab'' @ [CHR 0x0A] @ ''cde'' @ [CHR 0x0A]"

lemma sample_scan: "scan_lines (1024 * 1024) sample_text = ([''ab'', ''cde''], None)"
proof -
  have "raw_lines sample_text = [''ab'', ''cde'']" by code_simp
  then show ?thesis by (simp add: scan_lines_def drop_cr_def)
qed

lemma sample_tail: "tail_file_entries (sample_file sample_text) ''f'' 200 1 100 ''f'' = Inr ([file_entry ''f'' ''cde''], 4, True)"
proof -
  have "foldl (push_line (nat 200)) [] [''ab'', ''cde''] = [''ab'', ''cde'']" by (simp add: push_line_def)
  moreover have "feContent (sample_file sample_text) = sample_text" by (simp add: sample_file_def)
  moreover have "ctx_error (feCtx (sample_file sample_text)) 0 (length [''ab'', ''cde'']) = None" by (simp add: sample_file_def)
  moreover have "feOpen (sample_file sample_text) = None" "feReadError (sample_file sample_text) = None" by (simp_all add: sample_file_def)
  ultimately show ?thesis
    unfolding tail_file_entries_def by (simp only: sample_scan option.case prod.case) (simp add: total_size_def line_size_def)
qed

theorem tail_is_longest_suffix_witness:
  "\<exists>k. map enMessage [file_entry ''f'' ''cde''] = drop k (fst (scan_lines (1024 * 1024) (feContent (sample_file sample_text))))"
  using tail_is_longest_suffix [OF sample_tail] by auto

lemma sample_read: "read_file_from_offset (sample_file sample_text) path 3 10 100 ident = Inr ([file_entry ident ''cde''], 4, False, 7)"
proof -
  have "next_chunk (drop 3 sample_text) = (''cde'' @ [CHR 0x0A], [])" by (simp add: sample_text_def next_chunk_def)
  moreover have "chunk_text (''cde'' @ [CHR 0x0A]) = ''cde''" by code_simp
  ultimately show ?thesis
    by (simp add: read_file_from_offset_def read_loop.simps sample_file_def sample_text_def)
qed

theorem monitor_scan_exact_witness:
  "map chunk_text (all_chunks (drop 3 sample_text)) = [''cde''] @ map chunk_text (all_chunks (drop 7 sample_text))"
  using monitor_scan_exact [OF sample_read [of "''f''" "''f''"]] by (simp add: sample_file_def sample_text_def file_entry_def)

theorem monitor_scan_progress_witness: "(3::int) < 7 \<and> length (fst (next_chunk (drop 3 sample_text))) \<le> 100"
  using monitor_scan_progress [OF sample_read [of "''f''" "''f''"]] by (simp add: sample_file_def sample_text_def)

theorem oversized_line_blocks_monitor_witness:
  "read_file_from_offset (sample_file sample_text) ''f'' 3 10 2 ''f'' = Inr ([], 0, True, 3)"
  by (rule oversized_line_blocks_monitor) (simp_all add: sample_file_def sample_text_def next_chunk_def)


definition sample_limits :: normalized_limits where
  "sample_limits = \<lparr>nlMaxLines = 10, nlMaxBytes = 100, nlBackfillLines = 20\<rparr>"

definition sample_cursor :: cursor where
  "sample_cursor = \<lparr>cuJournalCursor = ''s=1'', cuFileInode = ''7'', cuFileOffset = 3, cuLastReadAt = [], cuResetReason = []\<rparr>"

lemma sample_monitor: "scan_file (sample_file sample_text) ''t'' (file_preset n) ''monitor'' sample_limits (Some sample_cursor)
    = Inr \<lparr>scSourcePresetID = n, scSourceType = FileSource, scEntries = [file_entry (''/var/log/'' @ n) ''cde''],
      scCursor = \<lparr>cuJournalCursor = [], cuFileInode = ''7'', cuFileOffset = 7, cuLastReadAt = ''t'', cuResetReason = []\<rparr>,
      scTruncated = False, scBytesRead = 4, scLinesRead = 1, scWarnings = []\<rparr>"
proof -
  have "trim_space ''7'' = ''7''" by code_simp
  moreover have "feStat (sample_file sample_text) = Inr (''7'', 7)" by (simp add: sample_file_def sample_text_def)
  ultimately show ?thesis
    by (simp add: scan_file_def sample_cursor_def sample_limits_def reset_reason_def sample_read file_result_def
        with_entries_def file_preset_def)
qed

theorem monitor_cursor_reset_witness:
  "\<exists>es n tr. read_file_from_offset (sample_file sample_text) ''/var/log/f'' 3 10 100 ''/var/log/f'' = Inr (es, n, tr, 7)
     \<and> es = [file_entry ''/var/log/f'' ''cde'']"
proof -
  have "feStat (sample_file sample_text) = Inr (''7'', 7)" by (simp add: sample_file_def sample_text_def)
  moreover have "trim_space (cuFileInode sample_cursor) \<noteq> []" unfolding sample_cursor_def by code_simp
  ultimately show ?thesis using monitor_cursor_reset [OF _ _ sample_monitor [of "''f''"], of "''7''" 7]
    by (simp add: sample_cursor_def sample_limits_def file_preset_def)
qed

definition sample_journal :: "string \<Rightarrow> journal_env" where
  "sample_journal out = \<lparr>jeLookPath = Inr ''/bin/journalctl'',
     jeRun = (\<lambda>_. \<lparr>jrPipe = None, jrStart = None, jrOutput = out, jrReadError = None, jrCtx = (\<lambda>_. None), jrWait = None, jrStderr = []\<rparr>),
     jeParse = (\<lambda>_. Inr (JObj [(''MESSAGE'', JStr ''hello'')]))\<rparr>"

theorem quiet_journal_loses_cursor_witness:
  "\<exists>res. scan_journal (sample_journal []) ''t'' journal_preset ''monitor'' sample_limits (Some sample_cursor) = Inr res
    \<and> cuJournalCursor (scCursor res) = []"
  using quiet_journal_loses_cursor [of "sample_journal []" "''/bin/journalctl''" _ journal_preset sample_limits sample_cursor "''t''"]
  by (auto simp: sample_journal_def)

definition sample_request :: scan_request where
  "sample_request = \<lparr>srMode = ''monitor'', srSourcePresetID = '' syslog'',
     srLimits = \<lparr>liMaxLines = 10, liMaxBytes = 100, liBackfillLines = 20\<rparr>, srCursor = Some sample_cursor\<rparr>"

theorem scan_result_bounded_witness:
  "\<exists>res. run_scan (sample_file sample_text) (sample_journal []) ''t'' sample_request = Inr res
     \<and> length (scEntries res) \<le> 2000"
proof -
  have "trim_space '' syslog'' = ''syslog''" by code_simp
  then have p: "presets_by_id (trim_space '' syslog'') = Some (file_preset ''syslog'')" by (simp add: presets_by_id_def)
  have "normalize_limits \<lparr>liMaxLines = 10, liMaxBytes = 100, liBackfillLines = 20\<rparr> 200 = sample_limits"
    by (simp add: normalize_limits_def clamp_def sample_limits_def)
  moreover have "prKind (file_preset ''syslog'') = FileSource" "prDefaultBackfill (file_preset ''syslog'') = 200"
    by (simp_all add: file_preset_def)
  ultimately obtain res where
    res: "run_scan (sample_file sample_text) (sample_journal []) ''t'' sample_request = Inr res"
    unfolding run_scan_def sample_request_def scan_request.select_convs p option.case by (simp add: sample_monitor)
  with scan_result_bounded [OF res] show ?thesis by blast
qed

end
