(* ===== verification/GoBase64.thy ===== *)
theory GoBase64
  imports GoStrings
begin

text \<open>
  \<open>encoding/base64\<close>, the standard encoding with padding: \<open>EncodeToString\<close> and \<open>DecodeString\<close>, which
  skips line breaks and accepts no other byte outside the alphabet. Used for terminal input and output.
\<close>

definition b64_char :: "nat \<Rightarrow> char" where
  "b64_char v =
     (if v < 26 then char_of (65 + v) else if v < 52 then char_of (97 + (v - 26))
      else if v < 62 then char_of (48 + (v - 52)) else if v = 62 then CHR ''+'' else CHR ''/'')"

definition b64_value :: "char \<Rightarrow> nat option" where
  "b64_value c =
     (let n = of_char c :: nat in
      if 65 \<le> n \<and> n \<le> 90 then Some (n - 65) else if 97 \<le> n \<and> n \<le> 122 then Some (n - 97 + 26)
      else if 48 \<le> n \<and> n \<le> 57 then Some (n - 48 + 52) else if n = 43 then Some 62
      else if n = 47 then Some 63 else None)"

fun b64_groups :: "nat list \<Rightarrow> string" where
  "b64_groups [] = []"
| "b64_groups [a] = [b64_char (a div 4), b64_char (a mod 4 * 16), CHR ''='', CHR ''='']"
| "b64_groups [a, b] = [b64_char (a div 4), b64_char (a mod 4 * 16 + b div 16), b64_char (b mod 16 * 4), CHR ''='']"
| "b64_groups (a # b # c # s) =
     b64_char (a div 4) # b64_char (a mod 4 * 16 + b div 16) # b64_char (b mod 16 * 4 + c div 64) # b64_char (c mod 64)
       # b64_groups s"

definition base64_encode :: "string \<Rightarrow> string" where
  "base64_encode s = b64_groups (map of_char s)"

text \<open>One group of four: the bytes it stands for; padding only in the last group.\<close>

definition b64_group :: "bool \<Rightarrow> char \<Rightarrow> char \<Rightarrow> char \<Rightarrow> char \<Rightarrow> string option" where
  "b64_group final a b c d =
     (case (b64_value a, b64_value b) of
        (Some x, Some y) \<Rightarrow>
          if final \<and> c = CHR ''='' \<and> d = CHR ''='' then Some [char_of (x * 4 + y div 16)]
          else (case b64_value c of
             None \<Rightarrow> None
           | Some z \<Rightarrow>
               if final \<and> d = CHR ''='' then Some [char_of (x * 4 + y div 16), char_of (y mod 16 * 16 + z div 4)]
               else (case b64_value d of
                  None \<Rightarrow> None
                | Some w \<Rightarrow> Some [char_of (x * 4 + y div 16), char_of (y mod 16 * 16 + z div 4), char_of (z mod 4 * 64 + w)]))
      | _ \<Rightarrow> None)"

fun b64_decode_groups :: "string \<Rightarrow> string option" where
  "b64_decode_groups [] = Some []"
| "b64_decode_groups (a # b # c # d # s) =
     (case b64_group (s = []) a b c d of
        None \<Rightarrow> None
      | Some x \<Rightarrow> (case b64_decode_groups s of None \<Rightarrow> None | Some y \<Rightarrow> Some (x @ y)))"
| "b64_decode_groups s = None"

definition base64_decode :: "string \<Rightarrow> string option" where
  "base64_decode s = b64_decode_groups (filter (\<lambda>c. c \<noteq> CHR 0x0A \<and> c \<noteq> CHR 0x0D) s)"

subsection \<open>Round trip\<close>

lemma b64_char_simps:
  assumes "v < 64"
  shows "b64_value (b64_char v) = Some v" "b64_char v \<noteq> CHR ''=''" "b64_char v \<noteq> CHR 0x0A" "b64_char v \<noteq> CHR 0x0D"
  using assms by (auto simp: b64_char_def b64_value_def Let_def char_of_small)

lemma b64_small:
  fixes a b c :: nat
  assumes "a < 256" "b < 256" "c < 256"
  shows "a div 4 < 64" "a mod 4 * 16 < 64" "a mod 4 * 16 + b div 16 < 64" "b mod 16 * 4 < 64"
    "b mod 16 * 4 + c div 64 < 64" "c mod 64 < 64"
proof -
  have m: "a mod 4 < 4" "b mod 16 < 16" "c mod 64 < 64" by simp_all
  have d: "a div 4 < 64" "b div 16 < 16" "c div 64 < 4"
    using assms by (simp_all add: less_mult_imp_div_less)
  show "a div 4 < 64" "a mod 4 * 16 < 64" "a mod 4 * 16 + b div 16 < 64" "b mod 16 * 4 < 64"
    "b mod 16 * 4 + c div 64 < 64" "c mod 64 < 64" using m d by linarith+
qed

lemma b64_split:
  fixes a b c :: nat
  assumes "b < 256" "c < 256"
  shows "a div 4 * 4 + (a mod 4 * 16 + b div 16) div 16 = a"
    and "(a mod 4 * 16 + b div 16) mod 16 * 16 + (b mod 16 * 4 + c div 64) div 4 = b"
    and "(b mod 16 * 4 + c div 64) mod 4 * 64 + c mod 64 = c"
proof -
  have d: "b div 16 < 16" "c div 64 < 4" using assms by (simp_all add: less_mult_imp_div_less)
  then have "(a mod 4 * 16 + b div 16) div 16 = a mod 4" "(a mod 4 * 16 + b div 16) mod 16 = b div 16"
    "(b mod 16 * 4 + c div 64) div 4 = b mod 16" "(b mod 16 * 4 + c div 64) mod 4 = c div 64" by simp_all
  then show "a div 4 * 4 + (a mod 4 * 16 + b div 16) div 16 = a"
    "(a mod 4 * 16 + b div 16) mod 16 * 16 + (b mod 16 * 4 + c div 64) div 4 = b"
    "(b mod 16 * 4 + c div 64) mod 4 * 64 + c mod 64 = c" by simp_all
qed

lemma b64_group_bytes:
  fixes a b c :: nat
  assumes "a < 256" "b < 256" "c < 256"
  shows "b64_group True (b64_char (a div 4)) (b64_char (a mod 4 * 16)) (CHR ''='') (CHR ''='') = Some [char_of a]"
    and "b64_group True (b64_char (a div 4)) (b64_char (a mod 4 * 16 + b div 16)) (b64_char (b mod 16 * 4)) (CHR ''='')
       = Some [char_of a, char_of b]"
    and "b64_group f (b64_char (a div 4)) (b64_char (a mod 4 * 16 + b div 16)) (b64_char (b mod 16 * 4 + c div 64)) (b64_char (c mod 64))
       = Some [char_of a, char_of b, char_of c]"
proof -
  note lt = b64_small [OF assms]
  note ch = lt [THEN b64_char_simps(1)] lt [THEN b64_char_simps(2)]
  have 1: "a div 4 * 4 + a mod 4 * 16 div 16 = a" using b64_split(1) [of 0 0 a] by simp
  have 2: "(a mod 4 * 16 + b div 16) mod 16 * 16 + b mod 16 * 4 div 4 = b" using b64_split(2) [OF assms(2), of 0 a] by simp
  show "b64_group True (b64_char (a div 4)) (b64_char (a mod 4 * 16)) (CHR ''='') (CHR ''='') = Some [char_of a]"
    unfolding b64_group_def by (simp only: ch option.case prod.case simp_thms if_True 1)
  show "b64_group True (b64_char (a div 4)) (b64_char (a mod 4 * 16 + b div 16)) (b64_char (b mod 16 * 4)) (CHR ''='')
       = Some [char_of a, char_of b]"
    unfolding b64_group_def
    by (simp only: ch option.case prod.case simp_thms if_True if_False b64_split(1) [OF assms(2,3)] 2)
  show "b64_group f (b64_char (a div 4)) (b64_char (a mod 4 * 16 + b div 16)) (b64_char (b mod 16 * 4 + c div 64)) (b64_char (c mod 64))
       = Some [char_of a, char_of b, char_of c]"
    unfolding b64_group_def
    by (simp only: ch option.case prod.case simp_thms if_False b64_split [OF assms(2,3)])
qed

lemma b64_groups_clean: "list_all (\<lambda>n. n < 256) ns \<Longrightarrow> CHR 0x0A \<notin> set (b64_groups ns) \<and> CHR 0x0D \<notin> set (b64_groups ns)"
proof (induction ns rule: b64_groups.induct)
  case (2 a)
  then show ?case using b64_small [of a 0 0, THEN b64_char_simps(3)] b64_small [of a 0 0, THEN b64_char_simps(4)] by auto
next
  case (3 a b)
  then show ?case using b64_small [of a b 0, THEN b64_char_simps(3)] b64_small [of a b 0, THEN b64_char_simps(4)] by auto
next
  case (4 a b c s)
  then show ?case using b64_small [of a b c, THEN b64_char_simps(3)] b64_small [of a b c, THEN b64_char_simps(4)] by auto
qed simp

lemma b64_groups_decode: "list_all (\<lambda>n. n < 256) ns \<Longrightarrow> b64_decode_groups (b64_groups ns) = Some (map char_of ns)"
proof (induction ns rule: b64_groups.induct)
  case (2 a)
  then show ?case using b64_group_bytes(1) [of a 0 0] by simp
next
  case (3 a b)
  then show ?case using b64_group_bytes(2) [of a b 0] by simp
next
  case (4 a b c s)
  then show ?case by (simp add: b64_group_bytes(3))
qed simp

lemma base64_round_trip: "base64_decode (base64_encode s) = Some s"
proof -
  have b: "list_all (\<lambda>n. n < 256) (map of_char s :: nat list)" by (simp add: list_all_iff)
  have "filter (\<lambda>c. c \<noteq> CHR 0x0A \<and> c \<noteq> CHR 0x0D) (base64_encode s) = base64_encode s"
    unfolding base64_encode_def using b64_groups_clean [OF b] by (auto intro!: filter_True)
  then show ?thesis unfolding base64_decode_def by (simp add: base64_encode_def b64_groups_decode [OF b] comp_def)
qed

end
