(* ===== verification/Terminal.thy ===== *)
theory Terminal
  imports TaskExecutor GoContainers GoBase64
begin

text \<open>
  \<open>internal/terminal\<close>: interactive shells on pseudo terminals. A session is registered under its id while
  its process runs; its output is collected in pieces and its end is reported. Processes are numbered in
  the order they start; what looking up shells and starting processes answer is the record \<open>shell_env\<close>.
\<close>

subsection \<open>Size and shells\<close>

definition default_cols :: int where "default_cols = 120"
definition default_rows :: int where "default_rows = 34"

definition normalize_size :: "int \<Rightarrow> int \<Rightarrow> goerror + int \<times> int" where
  "normalize_size cols rows =
     (let c = (if cols = 0 then default_cols else cols); r = (if rows = 0 then default_rows else rows)
      in if c < 20 \<or> r < 10 then Inl (Sentinel ErrInvalidTerminalSize) else Inr (c, r))"

definition supported_root_shell_paths :: "string list" where
  "supported_root_shell_paths = [''/bin/bash'', ''/usr/bin/bash'', ''/bin/zsh'', ''/usr/bin/zsh'', ''/bin/sh'', ''/usr/bin/sh'']"

definition supported_root_shell_names :: "string list" where
  "supported_root_shell_names = [''bash'', ''zsh'', ''sh'']"

record winsize =
  wsCols :: "16 word"
  wsRows :: "16 word"

text \<open>The command a terminal runs: name, arguments, environment and directory.\<close>

record terminal_command =
  tcName :: string
  tcArgs :: "string list"
  tcEnv :: "string list"
  tcDir :: string

datatype start_mode = ControllingTTY | NoControllingTTY | MinimalPTY

record shell_env =
  shLookPath :: "string \<Rightarrow> string option"
  shIsFile :: "string \<Rightarrow> bool"
  shShell :: string
  shHome :: "string option"
  shWorkingDir :: "string option"
  shEnviron :: "string list"
  shStart :: "terminal_command \<Rightarrow> winsize \<Rightarrow> start_mode \<Rightarrow> goerror option"

fun dedupe_from :: "shell_env \<Rightarrow> string list \<Rightarrow> string list \<Rightarrow> string list" where
  "dedupe_from env [] found = found"
| "dedupe_from env (c # cs) found =
     (if c = [] then dedupe_from env cs found
      else if \<not> has_prefix c ''/'' then
        (case shLookPath env c of
           Some p \<Rightarrow> dedupe_from env cs (if p \<in> set found then found else found @ [p])
         | None \<Rightarrow> dedupe_from env cs found)
      else if shIsFile env c then dedupe_from env cs (if c \<in> set found then found else found @ [c])
      else dedupe_from env cs found)"

definition dedupe_shell_candidates :: "shell_env \<Rightarrow> string list \<Rightarrow> string list" where
  "dedupe_shell_candidates env cs = dedupe_from env cs []"

definition select_root_shell_candidates :: "shell_env \<Rightarrow> string list" where
  "select_root_shell_candidates env =
     dedupe_shell_candidates env (List.map_filter (shLookPath env) supported_root_shell_names @ supported_root_shell_paths)"

definition select_shell_candidates :: "shell_env \<Rightarrow> string list" where
  "select_shell_candidates env =
     dedupe_shell_candidates env ([trim_space (shShell env)] @ select_root_shell_candidates env)"

definition select_shell :: "shell_env \<Rightarrow> goerror + string" where
  "select_shell env = (case select_shell_candidates env of
       [] \<Rightarrow> Inl (Plain ''unable to resolve an interactive shell'') | c # cs \<Rightarrow> Inr c)"

definition resolve_working_dir :: "shell_env \<Rightarrow> string" where
  "resolve_working_dir env =
     (case shHome env of
        Some h \<Rightarrow> if trim_space h \<noteq> [] then h
          else (case shWorkingDir env of Some d \<Rightarrow> if trim_space d \<noteq> [] then path_clean d else ''/'' | None \<Rightarrow> ''/'')
      | None \<Rightarrow> (case shWorkingDir env of Some d \<Rightarrow> if trim_space d \<noteq> [] then path_clean d else ''/'' | None \<Rightarrow> ''/''))"

definition new_terminal_command :: "shell_env \<Rightarrow> string \<Rightarrow> bool \<Rightarrow> terminal_command" where
  "new_terminal_command env shell as_root =
     \<lparr>tcName = (if as_root then ''sudo'' else shell),
      tcArgs = (if as_root then [''-n'', ''-H'', shell, ''-i''] else [''-i'']),
      tcEnv = merge_environment (shEnviron env) [(''TERM'', ''xterm-256color''), (''PAGER'', ''cat'')],
      tcDir = resolve_working_dir env\<rparr>"

subsection \<open>Starting a process\<close>

definition mode_text :: "start_mode \<Rightarrow> string" where
  "mode_text m = (case m of ControllingTTY \<Rightarrow> ''pty+ctty'' | NoControllingTTY \<Rightarrow> ''pty-no-ctty'' | MinimalPTY \<Rightarrow> ''pty-minimal'')"

definition kills_group :: "start_mode \<Rightarrow> bool" where
  "kills_group m \<longleftrightarrow> m \<noteq> MinimalPTY"

definition terminal_winsize :: "int \<Rightarrow> int \<Rightarrow> winsize" where
  "terminal_winsize cols rows = \<lparr>wsCols = word_of_int cols, wsRows = word_of_int rows\<rparr>"

fun try_modes :: "shell_env \<Rightarrow> terminal_command \<Rightarrow> winsize \<Rightarrow> start_mode list \<Rightarrow> string list \<Rightarrow> goerror + start_mode" where
  "try_modes env cmd sz [] errs = Inl (Plain (str_join ''; '' errs))"
| "try_modes env cmd sz (m # ms) errs =
     (case shStart env cmd sz m of
        None \<Rightarrow> Inr m
      | Some e \<Rightarrow> try_modes env cmd sz ms (errs @ [mode_text m @ '': '' @ err_text e]))"

definition start_terminal_command :: "shell_env \<Rightarrow> string \<Rightarrow> int \<Rightarrow> int \<Rightarrow> bool \<Rightarrow> goerror + start_mode" where
  "start_terminal_command env shell cols rows as_root =
     try_modes env (new_terminal_command env shell as_root) (terminal_winsize cols rows)
       [ControllingTTY, NoControllingTTY, MinimalPTY] []"

text \<open>The loop over the candidates: the first that starts, with its mode.\<close>

fun start_first :: "shell_env \<Rightarrow> int \<Rightarrow> int \<Rightarrow> bool \<Rightarrow> string list \<Rightarrow> string list \<Rightarrow> goerror + string \<times> start_mode" where
  "start_first env cols rows as_root [] errs = Inl (Plain (''start PTY shell: '' @ str_join ''; '' errs))"
| "start_first env cols rows as_root (shell # shells) errs =
     (case start_terminal_command env shell cols rows as_root of
        Inr m \<Rightarrow> Inr (shell, m)
      | Inl e \<Rightarrow> start_first env cols rows as_root shells (errs @ [shell @ '': '' @ err_text e]))"

subsection \<open>Sessions\<close>

record session =
  seCols :: int
  seRows :: int
  seKillGroup :: bool
  seStopReason :: string
  seProc :: nat

datatype terminal_event =
    TerminalOpened string int int
  | TerminalOutput string string
  | TerminalExited string int string
  | TerminalError string string

text \<open>
  The manager with what it did to the world: \<open>tmUnreaped\<close> are the processes started and not yet waited
  for, \<open>tmSignals\<close> the kills sent (process, whole group), \<open>tmOpening\<close> the sessions whose opening is still
  to be reported.
\<close>

record term_manager =
  tmHasEvents :: bool
  tmRootChecker :: bool
  tmSessions :: "string \<Rightarrow> session option"
  tmNextProc :: nat
  tmUnreaped :: "nat list"
  tmSignals :: "(nat \<times> bool) list"
  tmOpening :: "(string \<times> int \<times> int) list"
  tmEvents :: "terminal_event list"

definition initial_terminal :: "bool \<Rightarrow> term_manager" where
  "initial_terminal events = \<lparr>tmHasEvents = events, tmRootChecker = False, tmSessions = (\<lambda>_. None), tmNextProc = 0,
     tmUnreaped = [], tmSignals = [], tmOpening = [], tmEvents = []\<rparr>"

text \<open>Whether a checker is set; what it answers is an argument of \<open>start_session\<close>.\<close>

definition set_root_terminal_checker :: "bool \<Rightarrow> term_manager \<Rightarrow> term_manager" where
  "set_root_terminal_checker present m = m\<lparr>tmRootChecker := present\<rparr>"

definition emit_event :: "terminal_event \<Rightarrow> term_manager \<Rightarrow> term_manager" where
  "emit_event e m = (if tmHasEvents m then m\<lparr>tmEvents := tmEvents m @ [e]\<rparr> else m)"

definition register_session :: "session \<Rightarrow> string \<Rightarrow> (string \<Rightarrow> session option) \<Rightarrow> (string \<Rightarrow> session option) option" where
  "register_session s sid m = (case m sid of Some _ \<Rightarrow> None | None \<Rightarrow> Some (m(sid \<mapsto> s)))"

definition remove_session :: "string \<Rightarrow> (string \<Rightarrow> session option) \<Rightarrow> (string \<Rightarrow> session option)" where
  "remove_session sid m = m(sid := None)"

interpretation sessions: registry "register_session s" remove_session dom for s
  by unfold_locales (auto simp: register_session_def remove_session_def split: option.splits if_splits)

text \<open>A process starts.\<close>

definition spawn_process :: "term_manager \<Rightarrow> nat \<times> term_manager" where
  "spawn_process m = (tmNextProc m, m\<lparr>tmNextProc := Suc (tmNextProc m), tmUnreaped := tmNextProc m # tmUnreaped m\<rparr>)"

text \<open>What \<open>StartSession\<close> checks before it starts anything: the size and the shell to run.\<close>

definition plan_session :: "shell_env \<Rightarrow> string \<Rightarrow> int \<Rightarrow> int \<Rightarrow> bool \<Rightarrow> bool option \<Rightarrow>
    goerror + int \<times> int \<times> string \<times> start_mode" where
  "plan_session env sid cols rows as_root checker =
     (if trim_space sid = [] then Inl (Plain ''session ID is required'')
      else rbind (normalize_size cols rows) (\<lambda>(c, r).
        let shells = (if as_root then select_root_shell_candidates env else select_shell_candidates env) in
        if shells = [] then Inl (Plain ''unable to resolve an interactive shell'')
        else if as_root \<and> checker = Some False
        then Inl (Plain ''current root access profile does not allow root terminals'')
        else rbind (start_first env c r as_root shells []) (\<lambda>(shell, mode). Inr (c, r, shell, mode))))"

text \<open>\<open>StartSession\<close> up to the report of the opening; a duplicate id kills the new process again.\<close>

definition start_session :: "shell_env \<Rightarrow> bool \<Rightarrow> string \<Rightarrow> int \<Rightarrow> int \<Rightarrow> bool \<Rightarrow> term_manager \<Rightarrow> goerror option \<times> term_manager" where
  "start_session env allowed sid cols rows as_root m =
     (case plan_session env sid cols rows as_root (if tmRootChecker m then Some allowed else None) of
        Inl e \<Rightarrow> (Some e, m)
      | Inr (c, r, shell, mode) \<Rightarrow>
          (case spawn_process m of (p, m1) \<Rightarrow>
             (case register_session \<lparr>seCols = c, seRows = r, seKillGroup = kills_group mode, seStopReason = [], seProc = p\<rparr>
                     sid (tmSessions m1) of
                None \<Rightarrow> (Some (Sentinel ErrSessionExists), m1\<lparr>tmSignals := tmSignals m1 @ [(p, False)]\<rparr>)
              | Some ss \<Rightarrow> (None, m1\<lparr>tmSessions := ss, tmOpening := (sid, c, r) # tmOpening m1\<rparr>))))"

definition report_opened :: "string \<times> int \<times> int \<Rightarrow> term_manager \<Rightarrow> term_manager" where
  "report_opened o3 m = emit_event (TerminalOpened (fst o3) (fst (snd o3)) (snd (snd o3))) (m\<lparr>tmOpening := remove1 o3 (tmOpening m)\<rparr>)"

definition get_session :: "term_manager \<Rightarrow> string \<Rightarrow> goerror + session" where
  "get_session m sid = (case tmSessions m sid of None \<Rightarrow> Inl (Sentinel ErrSessionNotFound) | Some s \<Rightarrow> Inr s)"

text \<open>
  \<open>WriteInput\<close>: the error returned and the bytes handed to the terminal of which process. \<open>bad\<close> is the
  text of the decoder's error, \<open>wr\<close> the error of the write.
\<close>

definition write_input :: "term_manager \<Rightarrow> string \<Rightarrow> string \<Rightarrow> (string \<Rightarrow> string) \<Rightarrow> goerror option \<Rightarrow>
    goerror option \<times> (nat \<times> string) option" where
  "write_input m sid payload bad wr =
     (case get_session m sid of
        Inl e \<Rightarrow> (Some e, None)
      | Inr s \<Rightarrow>
          (case base64_decode payload of
             None \<Rightarrow> (Some (wrap_prefix ''decode terminal input payload: '' (Plain (bad payload))), None)
           | Some data \<Rightarrow>
               if data = [] then (None, None)
               else (map_option (wrap_prefix ''write terminal input: '') wr, Some (seProc s, data))))"

definition resize_session :: "(nat \<Rightarrow> winsize \<Rightarrow> goerror option) \<Rightarrow> string \<Rightarrow> int \<Rightarrow> int \<Rightarrow> term_manager \<Rightarrow> goerror option \<times> term_manager" where
  "resize_session setsize sid cols rows m =
     (case get_session m sid of
        Inl e \<Rightarrow> (Some e, m)
      | Inr s \<Rightarrow>
          (case normalize_size cols rows of
             Inl e \<Rightarrow> (Some e, m)
           | Inr (c, r) \<Rightarrow>
               (case setsize (seProc s) (terminal_winsize c r) of
                  Some e \<Rightarrow> (Some (wrap_prefix ''resize PTY: '' e), m)
                | None \<Rightarrow> (None, m\<lparr>tmSessions := (tmSessions m)(sid \<mapsto> s\<lparr>seCols := c, seRows := r\<rparr>)\<rparr>))))"

definition stop_session :: "goerror option \<Rightarrow> string \<Rightarrow> string \<Rightarrow> term_manager \<Rightarrow> goerror option \<times> term_manager" where
  "stop_session kill sid reason m =
     (case get_session m sid of
        Inl e \<Rightarrow> (Some e, m)
      | Inr s \<Rightarrow>
          (map_option (wrap_prefix ''stop terminal session: '') kill,
           m\<lparr>tmSessions := (tmSessions m)(sid \<mapsto> s\<lparr>seStopReason := trim_space reason\<rparr>),
             tmSignals := tmSignals m @ [(seProc s, seKillGroup s)]\<rparr>))"

text \<open>The end of \<open>runSession\<close>: the process was waited for and its output has ended.\<close>

definition exit_reason :: "session \<Rightarrow> goerror option \<Rightarrow> string" where
  "exit_reason s err =
     (if trim_space (seStopReason s) \<noteq> [] then trim_space (seStopReason s)
      else case err of Some e \<Rightarrow> err_text e | None \<Rightarrow> ''terminal session exited'')"

definition session_ended :: "string \<Rightarrow> session \<Rightarrow> goerror option \<Rightarrow> term_manager \<Rightarrow> term_manager" where
  "session_ended sid s err m =
     emit_event (TerminalExited sid (exit_code err) (exit_reason s err))
       (m\<lparr>tmSessions := remove_session sid (tmSessions m), tmUnreaped := removeAll (seProc s) (tmUnreaped m)\<rparr>)"

subsection \<open>Output\<close>

text \<open>
  \<open>streamPTYOutput\<close>: ticks and reads in the order the \<open>select\<close> takes them. Output waits in \<open>pending\<close> until
  a tick or until 1024 bytes wait; the last read brings the error that ends the stream.
\<close>

datatype stream_event = FlushTick | ReadData string "goerror option"

definition output_flush_threshold :: nat where
  "output_flush_threshold = 1024"

definition flush_pending :: "string \<Rightarrow> string \<Rightarrow> terminal_event list" where
  "flush_pending sid pending = (if pending = [] then [] else [TerminalOutput sid (base64_encode pending)])"

definition silent_end :: "goerror \<Rightarrow> bool" where
  "silent_end e \<longleftrightarrow> err_is e OsErrClosed \<or> str_contains (to_lower (err_text e)) ''input/output error'' \<or> err_is e CtxCanceled"

fun stream_output :: "string \<Rightarrow> stream_event list \<Rightarrow> string \<Rightarrow> terminal_event list" where
  "stream_output sid [] pending = []"
| "stream_output sid (FlushTick # es) pending = flush_pending sid pending @ stream_output sid es []"
| "stream_output sid (ReadData d None # es) pending =
     (if d \<noteq> [] \<and> output_flush_threshold \<le> length (pending @ d)
      then flush_pending sid (pending @ d) @ stream_output sid es []
      else stream_output sid es (pending @ d))"
| "stream_output sid (ReadData d (Some e) # es) pending =
     (if d \<noteq> [] \<and> output_flush_threshold \<le> length (pending @ d) then flush_pending sid (pending @ d) @ flush_pending sid [] else flush_pending sid (pending @ d))
       @ (if silent_end e then [] else [TerminalError sid (err_text e)])"

text \<open>What the stream read, up to the error that ends it.\<close>

fun stream_data :: "stream_event list \<Rightarrow> string" where
  "stream_data [] = []"
| "stream_data (FlushTick # es) = stream_data es"
| "stream_data (ReadData d None # es) = d @ stream_data es"
| "stream_data (ReadData d (Some e) # es) = d"

fun stream_ends :: "stream_event list \<Rightarrow> bool" where
  "stream_ends [] = False"
| "stream_ends (ReadData d (Some e) # es) = True"
| "stream_ends (x # es) = stream_ends es"

fun read_sizes_ok :: "stream_event list \<Rightarrow> bool" where
  "read_sizes_ok [] = True"
| "read_sizes_ok (ReadData d e # es) = (length d \<le> 4096 \<and> read_sizes_ok es)"
| "read_sizes_ok (FlushTick # es) = read_sizes_ok es"

text \<open>The pieces the control plane gets, decoded.\<close>

fun output_pieces :: "terminal_event list \<Rightarrow> string list" where
  "output_pieces [] = []"
| "output_pieces (TerminalOutput sid p # es) = (case base64_decode p of Some d \<Rightarrow> d | None \<Rightarrow> []) # output_pieces es"
| "output_pieces (e # es) = output_pieces es"

lemma output_pieces_append: "output_pieces (xs @ ys) = output_pieces xs @ output_pieces ys"
  by (induction xs rule: output_pieces.induct) simp_all

lemma output_pieces_flush: "concat (output_pieces (flush_pending sid p)) = p"
  by (simp add: flush_pending_def base64_round_trip)

lemma flush_piece: "x \<in> set (output_pieces (flush_pending sid p)) \<Longrightarrow> x = p \<and> p \<noteq> []"
  by (simp add: flush_pending_def base64_round_trip split: if_splits)

lemma stream_complete_gen:
  "stream_ends es \<Longrightarrow> concat (output_pieces (stream_output sid es pending)) = pending @ stream_data es"
  by (induction es arbitrary: pending rule: stream_ends.induct)
     (simp_all add: output_pieces_append output_pieces_flush)

lemma stream_pieces_gen:
  "read_sizes_ok es \<Longrightarrow> length pending < 1024 \<Longrightarrow> x \<in> set (output_pieces (stream_output sid es pending)) \<Longrightarrow>
    x \<noteq> [] \<and> length x < 1024 + 4096"
proof (induction es arbitrary: pending rule: read_sizes_ok.induct)
  case (2 d e es)
  show ?case
  proof (cases e)
    case None
    show ?thesis
    proof (cases "d \<noteq> [] \<and> output_flush_threshold \<le> length (pending @ d)")
      case True
      with 2 None have "x \<in> set (output_pieces (flush_pending sid (pending @ d))) \<or> x \<in> set (output_pieces (stream_output sid es []))"
        by (simp add: output_pieces_append)
      then show ?thesis
      proof
        assume "x \<in> set (output_pieces (flush_pending sid (pending @ d)))"
        with flush_piece 2(2,3) show ?thesis by fastforce
      next
        assume "x \<in> set (output_pieces (stream_output sid es []))"
        with 2(1) [of "[]"] 2(2) show ?thesis by simp
      qed
    next
      case False
      then have "length (pending @ d) < 1024" using 2(3) by (cases "d = []") (auto simp: output_flush_threshold_def)
      moreover have "stream_output sid (ReadData d e # es) pending = stream_output sid es (pending @ d)"
        using None False by auto
      ultimately show ?thesis using 2(1) [of "pending @ d"] 2(2,4) by simp
    qed
  next
    case (Some e')
    with 2 have "x \<in> set (output_pieces (flush_pending sid (pending @ d)))"
      by (auto simp: output_pieces_append flush_pending_def [of sid "[]"] split: if_splits)
    with flush_piece 2(2,3) show ?thesis by fastforce
  qed
next
  case (3 es)
  then have "x \<in> set (output_pieces (flush_pending sid pending)) \<or> x \<in> set (output_pieces (stream_output sid es []))"
    by (simp add: output_pieces_append)
  then show ?case
  proof
    assume "x \<in> set (output_pieces (flush_pending sid pending))"
    with flush_piece 3 show ?thesis by fastforce
  next
    assume "x \<in> set (output_pieces (stream_output sid es []))"
    with 3(1) [of "[]"] 3(2) show ?thesis by simp
  qed
qed simp

text \<open>
  C35. Terminal output arrives complete and in order: however reads and flush ticks fall, the decoded
  payloads of a stream that has ended, put together, are exactly the bytes read from the terminal; no
  payload is empty and none carries 5120 bytes or more; an error is reported once, at the end, unless it
  is one of those that closing the terminal causes.
\<close>

theorem terminal_output_complete:
  assumes "stream_ends es" "read_sizes_ok es"
  shows "concat (output_pieces (stream_output sid es [])) = stream_data es
    \<and> (\<forall>x\<in>set (output_pieces (stream_output sid es [])). x \<noteq> [] \<and> length x < 5120)"
  using stream_complete_gen [OF assms(1), of sid "[]"] stream_pieces_gen [OF assms(2), of "[]" _ sid] by simp

theorem terminal_output_complete_witness:
  "concat (output_pieces (stream_output ''s'' [ReadData ''ab'' None, FlushTick, ReadData ''c'' (Some (Plain ''x''))] [])) = ''abc''"
  using terminal_output_complete [of "[ReadData ''ab'' None, FlushTick, ReadData ''c'' (Some (Plain ''x''))]" "''s''"] by simp

text \<open>
  What a user types reaches the terminal unchanged: input encoded by the control plane is decoded to
  the same bytes and written to the process of that session and no other; input for an unknown session or
  that is not valid base64 writes nothing.
\<close>

theorem terminal_input_faithful:
  "write_input m sid (base64_encode bytes) bad wr =
     (case tmSessions m sid of
        None \<Rightarrow> (Some (Sentinel ErrSessionNotFound), None)
      | Some s \<Rightarrow> if bytes = [] then (None, None)
          else (map_option (wrap_prefix ''write terminal input: '') wr, Some (seProc s, bytes)))
   \<and> (snd (write_input m sid payload bad wr) = None
        \<or> (\<exists>s d. tmSessions m sid = Some s \<and> base64_decode payload = Some d \<and> snd (write_input m sid payload bad wr) = Some (seProc s, d)))"
  by (auto simp: write_input_def get_session_def base64_round_trip split: option.splits)

subsection \<open>Who may start what\<close>

lemma dedupe_from_sources:
  "x \<in> set (dedupe_from env cs found) \<Longrightarrow> x \<in> set found
    \<or> (\<exists>c\<in>set cs. has_prefix c ''/'' \<and> x = c \<and> shIsFile env c \<or> \<not> has_prefix c ''/'' \<and> shLookPath env c = Some x)"
proof (induction cs arbitrary: found)
  case (Cons c cs)
  let ?src = "\<lambda>c. has_prefix c ''/'' \<and> x = c \<and> shIsFile env c \<or> \<not> has_prefix c ''/'' \<and> shLookPath env c = Some x"
  have "\<exists>f. x \<in> set (dedupe_from env cs f) \<and> (x \<in> set f \<longrightarrow> x \<in> set found \<or> ?src c)"
    using Cons.prems by (auto split: if_splits option.splits)
  then obtain f where f: "x \<in> set (dedupe_from env cs f)" "x \<in> set f \<longrightarrow> x \<in> set found \<or> ?src c" by blast
  from Cons.IH [OF f(1)] f(2) show ?case unfolding list.set(2) bex_simps by blast
qed simp

lemma dedupe_from_distinct: "distinct found \<Longrightarrow> distinct (dedupe_from env cs found)"
  by (induction cs arbitrary: found) (auto split: option.splits)

lemma root_shell_sources:
  assumes "x \<in> set (select_root_shell_candidates env)"
  shows "x \<in> set supported_root_shell_paths
    \<or> (\<exists>n\<in>set supported_root_shell_names. shLookPath env n = Some x \<or> (\<exists>p. shLookPath env n = Some p \<and> shLookPath env p = Some x))"
proof -
  have abs: "c \<in> set supported_root_shell_paths \<Longrightarrow> has_prefix c ''/''" for c
    by (auto simp: supported_root_shell_paths_def)
  let ?cs = "List.map_filter (shLookPath env) supported_root_shell_names @ supported_root_shell_paths"
  from dedupe_from_sources [of x env ?cs "[]"] assms
  obtain c where c: "c \<in> set ?cs" "has_prefix c ''/'' \<and> x = c \<or> shLookPath env c = Some x \<and> \<not> has_prefix c ''/''"
    unfolding select_root_shell_candidates_def dedupe_shell_candidates_def by auto
  have mf: "c \<in> set (List.map_filter f xs) \<Longrightarrow> \<exists>n\<in>set xs. f n = Some c" for f and xs :: "string list"
    by (induction xs) (auto simp: List.map_filter_simps split: option.splits)
  show ?thesis
  proof (cases "c \<in> set supported_root_shell_paths")
    case True
    with abs c(2) show ?thesis by blast
  next
    case False
    with c(1) mf obtain n where "n \<in> set supported_root_shell_names" "shLookPath env n = Some c" by fastforce
    with c(2) show ?thesis by blast
  qed
qed

lemma try_modes_source: "try_modes env cmd sz ms errs = Inr m \<Longrightarrow> shStart env cmd sz m = None"
  by (induction ms arbitrary: errs) (auto split: option.splits)

lemma start_first_source: "start_first env c r as_root shells errs = Inr (shell, mode) \<Longrightarrow>
    shell \<in> set shells \<and> shStart env (new_terminal_command env shell as_root) (terminal_winsize c r) mode = None"
proof (induction shells arbitrary: errs)
  case (Cons s shells)
  show ?case
  proof (cases "start_terminal_command env s c r as_root")
    case (Inl e)
    with Cons show ?thesis by auto
  next
    case (Inr m)
    with Cons.prems have "m = mode" "s = shell" by simp_all
    with Inr try_modes_source show ?thesis unfolding start_terminal_command_def by fastforce
  qed
qed simp

lemma plan_session_ok:
  assumes "plan_session env sid cols rows as_root checker = Inr (c, r, shell, mode)"
  shows "trim_space sid \<noteq> []" "normalize_size cols rows = Inr (c, r)" "20 \<le> c" "10 \<le> r"
    "as_root \<Longrightarrow> checker \<noteq> Some False \<and> shell \<in> set (select_root_shell_candidates env)"
    "\<not> as_root \<Longrightarrow> shell \<in> set (select_shell_candidates env)"
    "shStart env (new_terminal_command env shell as_root) (terminal_winsize c r) mode = None"
proof -
  have plan: "trim_space sid \<noteq> []" "normalize_size cols rows = Inr (c, r)" "as_root \<Longrightarrow> checker \<noteq> Some False"
    "start_first env c r as_root (if as_root then select_root_shell_candidates env else select_shell_candidates env) [] = Inr (shell, mode)"
    using assms by (auto simp: plan_session_def Let_def rbind_Inr_iff split: if_splits)
  show "trim_space sid \<noteq> []" "normalize_size cols rows = Inr (c, r)" by (rule plan)+
  show "20 \<le> c" "10 \<le> r" using plan(2) by (auto simp: normalize_size_def Let_def split: if_splits)
  show "as_root \<Longrightarrow> checker \<noteq> Some False \<and> shell \<in> set (select_root_shell_candidates env)"
    "\<not> as_root \<Longrightarrow> shell \<in> set (select_shell_candidates env)"
    "shStart env (new_terminal_command env shell as_root) (terminal_winsize c r) mode = None"
    using plan(3) start_first_source [OF plan(4)] by auto
qed

lemma root_start_guarded:
  assumes "start_session env allowed sid cols rows True m = (None, m')"
  shows "(\<not> tmRootChecker m \<or> allowed)
    \<and> (\<exists>shell mode c r. normalize_size cols rows = Inr (c, r)
        \<and> shStart env (new_terminal_command env shell True) (terminal_winsize c r) mode = None
        \<and> tcName (new_terminal_command env shell True) = ''sudo''
        \<and> tcArgs (new_terminal_command env shell True) = [''-n'', ''-H'', shell, ''-i'']
        \<and> (shell \<in> set supported_root_shell_paths
            \<or> (\<exists>n\<in>set supported_root_shell_names. shLookPath env n = Some shell
                \<or> (\<exists>p. shLookPath env n = Some p \<and> shLookPath env p = Some shell))))"
proof -
  obtain c r shell mode where
    p: "plan_session env sid cols rows True (if tmRootChecker m then Some allowed else None) = Inr (c, r, shell, mode)"
    using assms by (auto simp: start_session_def split: sum.splits prod.splits option.splits)
  note ok = plan_session_ok [OF p]
  have "\<not> tmRootChecker m \<or> allowed" using ok(5) by (auto split: if_splits)
  moreover have "tcName (new_terminal_command env shell True) = ''sudo''"
    "tcArgs (new_terminal_command env shell True) = [''-n'', ''-H'', shell, ''-i'']" by (simp_all add: new_terminal_command_def)
  ultimately show ?thesis using ok(2,5,7) root_shell_sources [of shell env] by blast
qed

text \<open>
  A session that starts as root was allowed: the checker, once set, has just agreed, and what runs is
  \<open>sudo -n -H\<close> with one of the fixed shells or what the search path gives for their names; the shell the
  environment variable names is never run as root. A refused start starts no process.
\<close>

theorem root_terminal_guarded:
  assumes "start_session env allowed sid cols rows True m = (None, m')"
  shows "(\<not> tmRootChecker m \<or> allowed)
    \<and> (\<exists>shell mode c r. normalize_size cols rows = Inr (c, r)
        \<and> shStart env (new_terminal_command env shell True) (terminal_winsize c r) mode = None
        \<and> tcName (new_terminal_command env shell True) = ''sudo''
        \<and> tcArgs (new_terminal_command env shell True) = [''-n'', ''-H'', shell, ''-i'']
        \<and> (shell \<in> set supported_root_shell_paths
            \<or> (\<exists>n\<in>set supported_root_shell_names. shLookPath env n = Some shell
                \<or> (\<exists>p. shLookPath env n = Some p \<and> shLookPath env p = Some shell))))"
  by (rule root_start_guarded [OF assms])

text \<open>
  A terminal's size reaches the pseudo terminal modulo 65536: a size is checked from below only, so
  65536 columns are accepted, recorded as the session's size and set as 0 columns.
\<close>

theorem terminal_size_wraps:
  "normalize_size 65536 10 = Inr (65536, 10) \<and> terminal_winsize 65536 10 = \<lparr>wsCols = 0, wsRows = 10\<rparr>
   \<and> (case normalize_size cols rows of
        Inr (c, r) \<Rightarrow> 20 \<le> c \<and> 10 \<le> r \<and> (c < 65536 \<and> r < 65536 \<longleftrightarrow>
            uint (wsCols (terminal_winsize c r)) = c \<and> uint (wsRows (terminal_winsize c r)) = r)
      | Inl e \<Rightarrow> cols < 20 \<or> rows < 10)"
proof -
  have w: "x < 65536 \<longleftrightarrow> uint (word_of_int x :: 16 word) = x" if "0 \<le> x" for x :: int
  proof
    assume "x < 65536"
    with that show "uint (word_of_int x :: 16 word) = x" by (simp add: uint_word_of_int)
  next
    assume "uint (word_of_int x :: 16 word) = x"
    then show "x < 65536" using uint_lt2p [of "word_of_int x :: 16 word"] by simp
  qed
  have "uint (word_of_int 65536 :: 16 word) = 0" by (simp add: uint_word_of_int)
  then have z: "(word_of_int 65536 :: 16 word) = 0" by (metis uint_0_iff)
  show ?thesis
    using z w by (auto simp: normalize_size_def Let_def default_cols_def default_rows_def terminal_winsize_def split: if_splits)
qed

subsection \<open>Every session ends once\<close>

text \<open>The steps of the manager, in any order: calls of the control plane, reports, and processes that end.\<close>

inductive terminal_step :: "term_manager \<Rightarrow> term_manager \<Rightarrow> bool" where
  checked: "terminal_step m (set_root_terminal_checker b m)"
| started: "terminal_step m (snd (start_session env allowed sid cols rows as_root m))"
| opened: "o3 \<in> set (tmOpening m) \<Longrightarrow> terminal_step m (report_opened o3 m)"
| resized: "terminal_step m (snd (resize_session setsize sid cols rows m))"
| stopped: "terminal_step m (snd (stop_session kill sid reason m))"
| wrote: "tmSessions m sid = Some s \<Longrightarrow> terminal_step m (emit_event (TerminalOutput sid p) m)"
| failed: "tmSessions m sid = Some s \<Longrightarrow> terminal_step m (emit_event (TerminalError sid e) m)"
| ended: "tmSessions m sid = Some s \<Longrightarrow> terminal_step m (session_ended sid s err m)"

inductive_cases terminal_stepE: "terminal_step m m'"

definition opened_count :: "string \<Rightarrow> term_manager \<Rightarrow> nat" where
  "opened_count sid m = length (filter (\<lambda>e. case e of TerminalOpened i c r \<Rightarrow> i = sid | _ \<Rightarrow> False) (tmEvents m))
     + length (filter (\<lambda>o3. fst o3 = sid) (tmOpening m))"

definition exited_count :: "string \<Rightarrow> term_manager \<Rightarrow> nat" where
  "exited_count sid m = length (filter (\<lambda>e. case e of TerminalExited i c r \<Rightarrow> i = sid | _ \<Rightarrow> False) (tmEvents m))"

definition live_count :: "string \<Rightarrow> term_manager \<Rightarrow> nat" where
  "live_count sid m = (if tmSessions m sid = None then 0 else 1)"

definition term_inv :: "term_manager \<Rightarrow> bool" where
  "term_inv m \<longleftrightarrow> tmHasEvents m \<and> distinct (tmUnreaped m) \<and> (\<forall>p\<in>set (tmUnreaped m). p < tmNextProc m)
     \<and> (\<forall>sid s. tmSessions m sid = Some s \<longrightarrow> seProc s \<in> set (tmUnreaped m))
     \<and> (\<forall>a b s t. tmSessions m a = Some s \<and> tmSessions m b = Some t \<and> seProc s = seProc t \<longrightarrow> a = b)
     \<and> (\<forall>sid. opened_count sid m = exited_count sid m + live_count sid m)"

lemma term_invI:
  assumes "tmHasEvents m" "distinct (tmUnreaped m)" "\<And>p. p \<in> set (tmUnreaped m) \<Longrightarrow> p < tmNextProc m"
    and "\<And>a u. tmSessions m a = Some u \<Longrightarrow> seProc u \<in> set (tmUnreaped m)"
    and "\<And>a b u v. tmSessions m a = Some u \<Longrightarrow> tmSessions m b = Some v \<Longrightarrow> seProc u = seProc v \<Longrightarrow> a = b"
    and "\<And>a. opened_count a m = exited_count a m + live_count a m"
  shows "term_inv m"
  unfolding term_inv_def using assms by blast

lemma term_invD:
  assumes "term_inv m"
  shows "tmHasEvents m" "distinct (tmUnreaped m)" "p \<in> set (tmUnreaped m) \<Longrightarrow> p < tmNextProc m"
    "tmSessions m a = Some u \<Longrightarrow> seProc u \<in> set (tmUnreaped m)"
    "tmSessions m a = Some u \<Longrightarrow> tmSessions m b = Some v \<Longrightarrow> seProc u = seProc v \<Longrightarrow> a = b"
    "opened_count a m = exited_count a m + live_count a m"
  using assms unfolding term_inv_def by blast+

lemma start_session_cases:
  obtains (refused) e where "start_session env allowed sid cols rows as_root m = (Some e, m)"
  | (duplicate) s where "tmSessions m sid = Some s"
      "start_session env allowed sid cols rows as_root m = (Some (Sentinel ErrSessionExists),
        (snd (spawn_process m))\<lparr>tmSignals := tmSignals m @ [(tmNextProc m, False)]\<rparr>)"
  | (new) s c r where "tmSessions m sid = None" "seProc s = tmNextProc m"
      "start_session env allowed sid cols rows as_root m = (None,
        (snd (spawn_process m))\<lparr>tmSessions := (tmSessions m)(sid \<mapsto> s), tmOpening := (sid, c, r) # tmOpening m\<rparr>)"
proof (cases "plan_session env sid cols rows as_root (if tmRootChecker m then Some allowed else None)")
  case (Inl e)
  then show ?thesis using refused by (simp add: start_session_def)
next
  case (Inr q)
  obtain c r shell mode where q: "q = (c, r, shell, mode)" by (cases q)
  show ?thesis
  proof (cases "tmSessions m sid")
    case None
    show ?thesis
      by (rule new [OF None, of "\<lparr>seCols = c, seRows = r, seKillGroup = kills_group mode, seStopReason = [], seProc = tmNextProc m\<rparr>" c r])
        (simp_all add: start_session_def Inr q None spawn_process_def register_session_def)
  next
    case (Some s)
    show ?thesis
      by (rule duplicate [OF Some]) (simp add: start_session_def Inr q Some spawn_process_def register_session_def)
  qed
qed

lemma emit_fields [simp]:
  "tmSessions (emit_event e m) = tmSessions m" "tmUnreaped (emit_event e m) = tmUnreaped m"
  "tmNextProc (emit_event e m) = tmNextProc m" "tmOpening (emit_event e m) = tmOpening m"
  "tmHasEvents (emit_event e m) = tmHasEvents m" "tmSignals (emit_event e m) = tmSignals m"
  by (simp_all add: emit_event_def)

text \<open>Steps that keep the counts and the processes keep the invariant.\<close>

lemma term_inv_update:
  assumes "term_inv m" "tmHasEvents m' = tmHasEvents m" "tmUnreaped m' = tmUnreaped m" "tmNextProc m' = tmNextProc m"
    and "\<And>sid. map_option seProc (tmSessions m' sid) = map_option seProc (tmSessions m sid)"
    and "\<And>sid. opened_count sid m' = opened_count sid m" "\<And>sid. exited_count sid m' = exited_count sid m"
  shows "term_inv m'"
proof -
  have n: "tmSessions m' sid = None \<longleftrightarrow> tmSessions m sid = None" for sid using assms(5) [of sid] by (metis map_option_is_None)
  have s: "\<exists>t. tmSessions m sid = Some t \<and> seProc t = seProc s" if "tmSessions m' sid = Some s" for sid s
    using assms(5) [of sid] that by (cases "tmSessions m sid") auto
  have l: "live_count sid m' = live_count sid m" for sid by (simp add: live_count_def n)
  have 1: "\<forall>sid s. tmSessions m' sid = Some s \<longrightarrow> seProc s \<in> set (tmUnreaped m')"
    using assms(1,3) s unfolding term_inv_def by metis
  have 2: "\<forall>a b s t. tmSessions m' a = Some s \<and> tmSessions m' b = Some t \<and> seProc s = seProc t \<longrightarrow> a = b"
    using assms(1) s unfolding term_inv_def by metis
  show ?thesis using assms(1,2,3,4,6,7) 1 2 l unfolding term_inv_def by simp
qed

lemma length_filter_remove1:
  "x \<in> set xs \<Longrightarrow> length (filter P xs) = length (filter P (remove1 x xs)) + (if P x then 1 else 0)"
  by (induction xs) auto

lemma report_opened_inv: "term_inv m \<Longrightarrow> o3 \<in> set (tmOpening m) \<Longrightarrow> term_inv (report_opened o3 m)"
proof -
  assume inv: "term_inv m" and o3: "o3 \<in> set (tmOpening m)"
  note r = length_filter_remove1 [OF o3]
  have h: "tmHasEvents m" using inv by (simp add: term_inv_def)
  show ?thesis
  proof (rule term_inv_update [OF inv])
    fix sid
    show "opened_count sid (report_opened o3 m) = opened_count sid m"
      using r [of "\<lambda>o3. fst o3 = sid"] h by (simp add: opened_count_def report_opened_def emit_event_def)
    show "exited_count sid (report_opened o3 m) = exited_count sid m"
      using h by (simp add: exited_count_def report_opened_def emit_event_def)
  qed (simp_all add: report_opened_def)
qed

lemma start_session_inv: "term_inv m \<Longrightarrow> term_inv (snd (start_session env allowed sid cols rows as_root m))"
proof (cases rule: start_session_cases [of env allowed sid cols rows as_root m])
  case (refused e)
  assume "term_inv m"
  with refused show ?thesis by simp
next
  case (duplicate s)
  assume inv: "term_inv m"
  have fresh: "tmNextProc m \<notin> set (tmUnreaped m)" using term_invD(3) [OF inv] by blast
  let ?m = "snd (start_session env allowed sid cols rows as_root m)"
  have m': "tmHasEvents ?m = tmHasEvents m" "tmUnreaped ?m = tmNextProc m # tmUnreaped m" "tmNextProc ?m = Suc (tmNextProc m)"
    "tmSessions ?m = tmSessions m" "tmEvents ?m = tmEvents m" "tmOpening ?m = tmOpening m"
    unfolding duplicate(2) by (simp_all add: spawn_process_def)
  show ?thesis
  proof (rule term_invI)
    show "opened_count a ?m = exited_count a ?m + live_count a ?m" for a
      using term_invD(6) [OF inv, of a] by (simp add: opened_count_def exited_count_def live_count_def m')
    show "p \<in> set (tmUnreaped ?m) \<Longrightarrow> p < tmNextProc ?m" for p
      using term_invD(3) [OF inv, of p] by (auto simp: m')
    show "tmSessions ?m a = Some u \<Longrightarrow> seProc u \<in> set (tmUnreaped ?m)" for a u
      using term_invD(4) [OF inv, of a u] by (simp add: m')
    show "tmSessions ?m a = Some u \<Longrightarrow> tmSessions ?m b = Some v \<Longrightarrow> seProc u = seProc v \<Longrightarrow> a = b" for a b u v
      using term_invD(5) [OF inv, of a u b v] by (simp add: m')
  qed (use term_invD(1,2) [OF inv] fresh in \<open>simp_all add: m'\<close>)
next
  case (new s c r)
  assume inv: "term_inv m"
  have fresh: "tmNextProc m \<notin> set (tmUnreaped m)" using term_invD(3) [OF inv] by blast
  let ?m = "snd (start_session env allowed sid cols rows as_root m)"
  have m': "tmHasEvents ?m = tmHasEvents m" "tmUnreaped ?m = tmNextProc m # tmUnreaped m" "tmNextProc ?m = Suc (tmNextProc m)"
    "tmSessions ?m = (tmSessions m)(sid \<mapsto> s)" unfolding new(3) by (simp_all add: spawn_process_def)
  have other: "seProc t \<noteq> seProc s" if "tmSessions m a = Some t" for a t
    using term_invD(4) [OF inv that] fresh new(2) by auto
  show ?thesis
  proof (rule term_invI)
    fix i
    have "opened_count i ?m = opened_count i m + (if sid = i then 1 else 0)" "exited_count i ?m = exited_count i m"
      unfolding new(3) by (simp_all add: spawn_process_def opened_count_def exited_count_def)
    moreover have "live_count i ?m = live_count i m + (if sid = i then 1 else 0)"
      using new(1) m'(4) by (simp add: live_count_def)
    ultimately show "opened_count i ?m = exited_count i ?m + live_count i ?m" using term_invD(6) [OF inv, of i] by simp
  next
    show "p \<in> set (tmUnreaped ?m) \<Longrightarrow> p < tmNextProc ?m" for p
      using term_invD(3) [OF inv, of p] by (auto simp: m')
    show "tmSessions ?m a = Some u \<Longrightarrow> seProc u \<in> set (tmUnreaped ?m)" for a u
      using term_invD(4) [OF inv, of a u] new(2) by (auto simp: m' split: if_splits)
    show "tmSessions ?m a = Some u \<Longrightarrow> tmSessions ?m b = Some v \<Longrightarrow> seProc u = seProc v \<Longrightarrow> a = b" for a b u v
      using term_invD(5) [OF inv, of a u b v] other [of a u] other [of b v] by (auto simp: m' split: if_splits)
  qed (use term_invD(1,2) [OF inv] fresh in \<open>simp_all add: m'\<close>)
qed

lemma session_ended_inv: "term_inv m \<Longrightarrow> tmSessions m sid = Some s \<Longrightarrow> term_inv (session_ended sid s err m)"
proof -
  assume inv: "term_inv m" and s: "tmSessions m sid = Some s"
  have h: "tmHasEvents m" using inv by (simp add: term_inv_def)
  let ?m = "session_ended sid s err m"
  have m': "tmHasEvents ?m = tmHasEvents m" "tmUnreaped ?m = removeAll (seProc s) (tmUnreaped m)" "tmNextProc ?m = tmNextProc m"
    "tmSessions ?m = (tmSessions m)(sid := None)" by (simp_all add: session_ended_def remove_session_def)
  have cnt: "opened_count i ?m = exited_count i ?m + live_count i ?m" for i
  proof -
    have "opened_count i m = exited_count i m + live_count i m" using inv by (simp add: term_inv_def)
    then show ?thesis using h s
      by (simp add: session_ended_def emit_event_def opened_count_def exited_count_def live_count_def remove_session_def)
  qed
  have 1: "\<forall>a b u v. tmSessions ?m a = Some u \<and> tmSessions ?m b = Some v \<and> seProc u = seProc v \<longrightarrow> a = b"
    using inv unfolding m' term_inv_def by (auto split: if_splits)
  have 2: "\<forall>a u. tmSessions ?m a = Some u \<longrightarrow> seProc u \<in> set (tmUnreaped ?m)"
    using inv s unfolding m' term_inv_def by (auto split: if_splits)
  show ?thesis using inv 1 2 cnt unfolding term_inv_def by (simp add: m' distinct_removeAll)
qed

lemma terminal_step_inv: "terminal_step m m' \<Longrightarrow> term_inv m \<Longrightarrow> term_inv m'"
proof (induction rule: terminal_step.induct)
  case (checked m b)
  then show ?case
    by (intro term_inv_update [OF checked])
       (simp_all add: set_root_terminal_checker_def opened_count_def exited_count_def)
next
  case (resized m setsize sid cols rows)
  then show ?case
    by (intro term_inv_update [OF resized])
       (auto simp: resize_session_def get_session_def opened_count_def exited_count_def split: option.splits sum.splits prod.splits)
next
  case (stopped m kill sid reason)
  then show ?case
    by (intro term_inv_update [OF stopped])
       (auto simp: stop_session_def get_session_def opened_count_def exited_count_def split: option.splits sum.splits)
next
  case (wrote m sid s p)
  then show ?case
    by (intro term_inv_update [OF wrote(2)]) (auto simp: opened_count_def exited_count_def emit_event_def)
next
  case (failed m sid s e)
  then show ?case
    by (intro term_inv_update [OF failed(2)]) (auto simp: opened_count_def exited_count_def emit_event_def)
qed (auto intro: report_opened_inv start_session_inv session_ended_inv)

lemma term_reachable_inv: "terminal_step\<^sup>*\<^sup>* (initial_terminal True) m \<Longrightarrow> term_inv m"
proof (induction rule: rtranclp_induct)
  case base
  show ?case by (simp add: term_inv_def initial_terminal_def opened_count_def exited_count_def live_count_def)
next
  case (step y z)
  then show ?case by (blast intro: terminal_step_inv)
qed


text \<open>A process the manager will never wait for.\<close>

definition leaked :: "nat \<Rightarrow> term_manager \<Rightarrow> bool" where
  "leaked p m \<longleftrightarrow> p \<in> set (tmUnreaped m) \<and> p < tmNextProc m \<and> (\<forall>sid s. tmSessions m sid = Some s \<longrightarrow> seProc s \<noteq> p)"

lemma leaked_step: "terminal_step m m' \<Longrightarrow> leaked p m \<Longrightarrow> leaked p m'"
proof (induction rule: terminal_step.induct)
  case (started m env allowed sid cols rows as_root)
  show ?case
    by (cases rule: start_session_cases [of env allowed sid cols rows as_root m])
      (use started in \<open>auto simp: leaked_def spawn_process_def\<close>)
next
  case (resized m setsize sid cols rows)
  then show ?case
    by (auto simp: leaked_def resize_session_def get_session_def split: option.splits sum.splits)
next
  case (stopped m kill sid reason)
  then show ?case by (auto simp: leaked_def stop_session_def get_session_def split: option.splits sum.splits)
qed (auto simp: leaked_def set_root_terminal_checker_def report_opened_def session_ended_def remove_session_def split: if_splits)

text \<open>
  A start under an id that is taken is refused and leaves the running session as it is; but the shell
  it had started before looking is only killed, without its group, and never waited for: whatever happens
  afterwards, the process stays unreaped.
\<close>

theorem duplicate_start_leaks_process:
  assumes "terminal_step\<^sup>*\<^sup>* (initial_terminal True) m" "tmSessions m sid = Some s"
    and "plan_session env sid cols rows as_root (if tmRootChecker m then Some allowed else None) = Inr q"
    and "terminal_step\<^sup>*\<^sup>* (snd (start_session env allowed sid cols rows as_root m)) m'"
  shows "fst (start_session env allowed sid cols rows as_root m) = Some (Sentinel ErrSessionExists)
    \<and> tmSessions (snd (start_session env allowed sid cols rows as_root m)) = tmSessions m
    \<and> (tmNextProc m, False) \<in> set (tmSignals (snd (start_session env allowed sid cols rows as_root m)))
    \<and> tmNextProc m \<in> set (tmUnreaped m')"
proof -
  note inv = term_reachable_inv [OF assms(1)]
  have st: "start_session env allowed sid cols rows as_root m = (Some (Sentinel ErrSessionExists),
        (snd (spawn_process m))\<lparr>tmSignals := tmSignals m @ [(tmNextProc m, False)]\<rparr>)"
    using assms(2,3) by (cases q) (simp add: start_session_def register_session_def spawn_process_def)
  have "seProc u \<noteq> tmNextProc m" if "tmSessions m a = Some u" for a u
    using term_invD(3) [OF inv term_invD(4) [OF inv that]] by simp
  then have "leaked (tmNextProc m) (snd (start_session env allowed sid cols rows as_root m))"
    unfolding st by (simp add: leaked_def spawn_process_def)
  with assms(4) have "leaked (tmNextProc m) m'"
    by (induction rule: rtranclp_induct) (auto intro: leaked_step)
  then show ?thesis unfolding st by (simp add: leaked_def spawn_process_def)
qed

subsection \<open>Refinement of the life cycle of sessions\<close>

text \<open>What a manager of sessions promises: ids come and go, and each departure is announced once.\<close>

inductive life_step :: "string set \<times> string list \<Rightarrow> string set \<times> string list \<Rightarrow> bool" where
  comes: "sid \<notin> live \<Longrightarrow> life_step (live, gone) (insert sid live, gone)"
| goes: "sid \<in> live \<Longrightarrow> life_step (live, gone) (live - {sid}, gone @ [sid])"
| stays: "life_step (live, gone) (live, gone)"

definition exits :: "terminal_event list \<Rightarrow> string list" where
  "exits es = List.map_filter (\<lambda>e. case e of TerminalExited i c r \<Rightarrow> Some i | _ \<Rightarrow> None) es"

lemma exits_snoc [simp]: "exits (es @ [e]) = exits es @ (case e of TerminalExited i c r \<Rightarrow> [i] | _ \<Rightarrow> [])"
  by (auto simp: exits_def List.map_filter_def split: terminal_event.splits)

definition lifecycle :: "term_manager \<Rightarrow> string set \<times> string list" where
  "lifecycle m = (dom (tmSessions m), exits (tmEvents m))"

lemma terminal_step_refines: "terminal_step m m' \<Longrightarrow> tmHasEvents m \<Longrightarrow> life_step (lifecycle m) (lifecycle m')"
proof (induction rule: terminal_step.induct)
  case (started m env allowed sid cols rows as_root)
  show ?case
  proof (cases rule: start_session_cases [of env allowed sid cols rows as_root m])
    case (new s c r)
    then have "lifecycle (snd (start_session env allowed sid cols rows as_root m)) = (insert sid (dom (tmSessions m)), exits (tmEvents m))"
      by (simp add: lifecycle_def spawn_process_def)
    with new(1) comes [of sid "dom (tmSessions m)" "exits (tmEvents m)"] show ?thesis by (auto simp: lifecycle_def [of m])
  qed (simp_all add: lifecycle_def spawn_process_def life_step.stays)
next
  case (ended m sid s err)
  then have "lifecycle (session_ended sid s err m) = (dom (tmSessions m) - {sid}, exits (tmEvents m) @ [sid])"
    by (auto simp: lifecycle_def session_ended_def emit_event_def remove_session_def)
  with ended goes [of sid "dom (tmSessions m)" "exits (tmEvents m)"] show ?case by (auto simp: lifecycle_def [of m])
next
  case (resized m setsize sid cols rows)
  have "lifecycle (snd (resize_session setsize sid cols rows m)) = lifecycle m"
    by (auto simp: lifecycle_def resize_session_def get_session_def split: option.splits sum.splits)
  then show ?case by (cases "lifecycle m") (simp add: life_step.stays)
next
  case (stopped m kill sid reason)
  have "lifecycle (snd (stop_session kill sid reason m)) = lifecycle m"
    by (auto simp: lifecycle_def stop_session_def get_session_def split: option.splits sum.splits)
  then show ?case by (cases "lifecycle m") (simp add: life_step.stays)
qed (simp_all add: lifecycle_def set_root_terminal_checker_def report_opened_def emit_event_def life_step.stays)


subsection \<open>Instances\<close>

definition sample_shells :: shell_env where
  "sample_shells = \<lparr>shLookPath = (\<lambda>_. None), shIsFile = (\<lambda>p. p = ''/bin/sh''), shShell = [], shHome = Some ''/root'',
     shWorkingDir = None, shEnviron = [], shStart = (\<lambda>_ _ _. None)\<rparr>"

lemma sample_root_shells: "select_root_shell_candidates sample_shells = [''/bin/sh'']"
  by (simp add: select_root_shell_candidates_def dedupe_shell_candidates_def supported_root_shell_names_def
      supported_root_shell_paths_def sample_shells_def List.map_filter_def)

lemma sample_plan: "plan_session sample_shells ''s'' 0 0 True (Some True) = Inr (120, 34, ''/bin/sh'', ControllingTTY)"
proof -
  have "trim_space ''s'' = ''s''" by code_simp
  then show ?thesis
    by (simp add: plan_session_def sample_root_shells normalize_size_def default_cols_def default_rows_def
        start_terminal_command_def) (simp add: sample_shells_def)
qed

definition idle_manager :: term_manager where
  "idle_manager = (initial_terminal True)\<lparr>tmRootChecker := True\<rparr>"

lemma root_started: "start_session sample_shells True ''s'' 0 0 True idle_manager
    = (None, idle_manager\<lparr>tmNextProc := 1, tmUnreaped := [0],
        tmSessions := [''s'' \<mapsto> \<lparr>seCols = 120, seRows = 34, seKillGroup = True, seStopReason = [], seProc = 0\<rparr>],
        tmOpening := [(''s'', 120, 34)]\<rparr>)"
  by (simp add: start_session_def sample_plan idle_manager_def initial_terminal_def spawn_process_def
      register_session_def kills_group_def)

theorem root_terminal_guarded_witness:
  "\<exists>shell mode c r. normalize_size 0 0 = Inr (c, r)
     \<and> shStart sample_shells (new_terminal_command sample_shells shell True) (terminal_winsize c r) mode = None
     \<and> tcArgs (new_terminal_command sample_shells shell True) = [''-n'', ''-H'', shell, ''-i'']"
  using root_terminal_guarded [OF root_started] by blast

text \<open>A manager without a checker, for runs from the initial state.\<close>

lemma sample_plan_free: "plan_session sample_shells ''s'' 0 0 True None = Inr (120, 34, ''/bin/sh'', ControllingTTY)"
proof -
  have "trim_space ''s'' = ''s''" by code_simp
  then show ?thesis
    by (simp add: plan_session_def sample_root_shells normalize_size_def default_cols_def default_rows_def
        start_terminal_command_def) (simp add: sample_shells_def)
qed

definition sample_running :: term_manager where
  "sample_running = (initial_terminal True)\<lparr>tmNextProc := 1, tmUnreaped := [0],
        tmSessions := [''s'' \<mapsto> \<lparr>seCols = 120, seRows = 34, seKillGroup = True, seStopReason = [], seProc = 0\<rparr>],
        tmOpening := [(''s'', 120, 34)]\<rparr>"

lemma sample_running_reached: "terminal_step\<^sup>*\<^sup>* (initial_terminal True) sample_running"
proof -
  have "start_session sample_shells True ''s'' 0 0 True (initial_terminal True) = (None, sample_running)"
    by (simp add: start_session_def sample_plan_free initial_terminal_def spawn_process_def sample_running_def
        register_session_def kills_group_def)
  then show ?thesis by (metis started snd_conv r_into_rtranclp)
qed



theorem duplicate_start_leaks_process_witness:
  "1 \<in> set (tmUnreaped (snd (start_session sample_shells True ''s'' 0 0 True sample_running)))"
proof -
  have s: "tmSessions sample_running ''s'' = Some \<lparr>seCols = 120, seRows = 34, seKillGroup = True, seStopReason = [], seProc = 0\<rparr>"
    and n: "tmNextProc sample_running = 1"
    and p: "plan_session sample_shells ''s'' 0 0 True (if tmRootChecker sample_running then Some True else None)
      = Inr (120, 34, ''/bin/sh'', ControllingTTY)"
    by (simp_all add: sample_running_def initial_terminal_def sample_plan_free)
  from duplicate_start_leaks_process [OF sample_running_reached s p rtranclp.rtrancl_refl] n show ?thesis by simp
qed

text \<open>The exit of a session can be reported before its opening: the opening is sent after the session runs.\<close>

lemma exit_before_open:
  "\<exists>m. terminal_step\<^sup>*\<^sup>* (initial_terminal True) m
    \<and> tmEvents m = [TerminalExited ''s'' 0 ''terminal session exited'', TerminalOpened ''s'' 120 34]"
proof -
  let ?s = "\<lparr>seCols = 120, seRows = 34, seKillGroup = True, seStopReason = [], seProc = 0\<rparr>"
  let ?m1 = "session_ended ''s'' ?s None sample_running"
  let ?m2 = "report_opened (''s'', 120, 34) ?m1"
  have "terminal_step sample_running ?m1" by (rule terminal_step.ended) (simp add: sample_running_def)
  moreover have "terminal_step ?m1 ?m2"
    by (rule terminal_step.opened) (simp add: session_ended_def sample_running_def)
  ultimately have "terminal_step\<^sup>*\<^sup>* (initial_terminal True) ?m2" using sample_running_reached by (meson rtranclp.rtrancl_into_rtrancl)
  moreover have "tmEvents ?m2 = [TerminalExited ''s'' 0 ''terminal session exited'', TerminalOpened ''s'' 120 34]"
    by (simp add: report_opened_def session_ended_def emit_event_def sample_running_def initial_terminal_def exit_reason_def exit_code_def)
  ultimately show ?thesis by blast
qed

end
