(* ===== verification/Realtime.thy ===== *)
theory Realtime
  imports Api GoClock GoContainers
begin

text \<open>
  \<open>internal/realtime/client.go\<close>: the outbound half of the realtime channel. Events are queued in a
  channel of fixed size, lifecycle events numbered, output cut, measurements cleaned, and one writer
  emits them under their own type. Times, random bytes and the host's numbers are arguments.
\<close>

subsection \<open>Numbers, delays and identifiers\<close>

definition sanitize_usage :: "go_float \<Rightarrow> go_float option" where
  "sanitize_usage x =
     (case x of NaN \<Rightarrow> None | Infinite s \<Rightarrow> None
      | Num q \<Rightarrow> (let q1 = (if q < 0 then 0 else q); q2 = (if q1 > 100 then 100 else q1) in Some (Num q2)))"

definition sanitize_usage_or_zero :: "go_float \<Rightarrow> go_float" where
  "sanitize_usage_or_zero x = (case sanitize_usage x of None \<Rightarrow> Num 0 | Some v \<Rightarrow> v)"

definition max_task_output_chars :: int where
  "max_task_output_chars = 4000"

definition truncation_marker :: "int \<Rightarrow> string" where
  "truncation_marker removed = CHR 0x0A # ''...[truncated '' @ int_text removed @ '' chars]...'' @ [CHR 0x0A]"

definition truncate_task_output :: "string \<Rightarrow> int \<Rightarrow> string \<times> bool" where
  "truncate_task_output out max_chars =
     (let rs = runes out in
      if max_chars \<le> 0 \<or> int (length rs) \<le> max_chars then (out, False)
      else
        (let marker = truncation_marker (int (length rs) - max_chars);
             mlen = int (rune_count marker) in
         if max_chars \<le> mlen then (encode_runes (take (nat max_chars) rs), True)
         else
           (let remaining = max_chars - mlen; head = quot_int remaining 2; tail = remaining - head in
            (encode_runes (take (nat head) rs) @ marker @ encode_runes (drop (length rs - nat tail) rs), True))))"

text \<open>
  \<open>backoffDelay\<close> with \<open>applyJitter\<close>: \<open>jitter base\<close> is \<open>int64(float64(base) * ratio)\<close> for a positive ratio,
  \<open>rnd n\<close> what \<open>rand.Int63n(n)\<close> draws.
\<close>

definition apply_jitter :: "int \<Rightarrow> bool \<Rightarrow> (int \<Rightarrow> int) \<Rightarrow> (int \<Rightarrow> int) \<Rightarrow> int" where
  "apply_jitter base ratio_positive jitter rnd =
     (if base \<le> 0 \<or> \<not> ratio_positive then base
      else if jitter base \<le> 0 then base
      else (let j = base + (rnd (jitter base * 2 + 1) - jitter base) in if j < millisecond then millisecond else j))"

definition backoff_delay :: "int \<Rightarrow> bool \<Rightarrow> (int \<Rightarrow> int) \<Rightarrow> (int \<Rightarrow> int) \<Rightarrow> int" where
  "backoff_delay attempt ratio_positive jitter rnd =
     (let a = (if attempt < 0 then 0 else attempt);
          base = second * 2 ^ nat (if a < 5 then a else 5)
      in apply_jitter (if base > 30 * second then 30 * second else base) ratio_positive jitter rnd)"

text \<open>\<open>newUUIDv4\<close> from sixteen random bytes, or from the clock when there are none.\<close>

definition hex_byte :: "8 word \<Rightarrow> string" where
  "hex_byte b = [hex_digit (unat b div 16), hex_digit (unat b mod 16)]"

definition hex_bytes :: "8 word list \<Rightarrow> string" where
  "hex_bytes bs = concat (map hex_byte bs)"

definition uuid_bytes :: "8 word list \<Rightarrow> 8 word list" where
  "uuid_bytes bs = (let b1 = bs[6 := or (and (bs ! 6) 0x0f) 0x40] in b1[8 := or (and (b1 ! 8) 0x3f) 0x80])"

definition uuid_text :: "8 word list \<Rightarrow> string" where
  "uuid_text bs = hex_bytes (take 4 bs) @ ''-'' @ hex_bytes (take 2 (drop 4 bs)) @ ''-'' @ hex_bytes (take 2 (drop 6 bs)) @ ''-''
     @ hex_bytes (take 2 (drop 8 bs)) @ ''-'' @ hex_bytes (take 6 (drop 10 bs))"

definition hex12 :: "int \<Rightarrow> string" where
  "hex12 n = map (\<lambda>i. hex_digit (nat (n div 16 ^ (11 - i) mod 16))) [0..<12]"

definition new_uuid_v4 :: "8 word list option \<Rightarrow> int \<Rightarrow> string" where
  "new_uuid_v4 random now =
     (case random of
        None \<Rightarrow> ''00000000-0000-4000-8000-'' @ hex12 (now mod 2 ^ 48)
      | Some bs \<Rightarrow> uuid_text (uuid_bytes bs))"

definition classify_dial_error :: "goerror option \<Rightarrow> goerror option" where
  "classify_dial_error err =
     map_option (\<lambda>e. let msg = to_lower (err_text e) in
       if str_contains msg ''invalid input'' \<or> str_contains msg ''invalid url'' then wrap_prefix ''invalid URL input: '' e
       else if str_contains msg ''tls'' \<or> str_contains msg ''certificate'' \<or> str_contains msg ''x509''
         then wrap_prefix ''tls/proxy handshake failure: '' e
       else if str_contains msg ''connect error'' \<or> str_contains msg ''namespace'' then wrap_prefix ''namespace connect failure: '' e
       else wrap_prefix ''transport dial failure: '' e) err"

subsection \<open>Where to connect\<close>

record realtime_target =
  tgDialURL :: string
  tgHealthURL :: string
  tgNamespace :: string
  tgPath :: string

definition default_realtime_namespace :: string where
  "default_realtime_namespace = ''/agent-realtime''"

definition default_realtime_path :: string where
  "default_realtime_path = ''/socket.io/''"

definition lead_slash :: "string \<Rightarrow> string" where
  "lead_slash s = (if has_prefix s ''/'' then s else ''/'' @ s)"

definition normalize_realtime_target :: "url_lib \<Rightarrow> string \<Rightarrow> string \<Rightarrow> string \<Rightarrow> goerror + realtime_target" where
  "normalize_realtime_target lib api_url namespace path =
     (let t0 = trim_space api_url in
      if t0 = [] then Inl (Plain ''API_URL is required'')
      else
        (let t = (if str_contains t0 ''://'' then t0 else ''https://'' @ t0) in
         case ulParse lib t of
           Inl e \<Rightarrow> Inl (wrap_prefix ''invalid URL input: '' e)
         | Inr u \<Rightarrow>
             if urScheme u \<noteq> ''http'' \<and> urScheme u \<noteq> ''https''
             then Inl (Plain (''invalid URL input: unsupported scheme '' @ quote_text (urScheme u)))
             else if urHost u = [] then Inl (Plain ''invalid URL input: missing host'')
             else
               (let ns = lead_slash (if trim_space namespace = [] then default_realtime_namespace else namespace);
                    p0 = lead_slash (if trim_space path = [] then default_realtime_path else path);
                    p = (if has_suffix p0 ''/'' then p0 else p0 @ ''/'')
                in Inr \<lparr>tgDialURL = ulText lib (urScheme u) (urHost u) p [],
                     tgHealthURL = ulText lib (urScheme u) (urHost u) p ''EIO=4&transport=polling'',
                     tgNamespace = ns, tgPath = p\<rparr>)))"

text \<open>
  \<open>preflightCheck\<close>: what building the request and sending it gave, a status with a body. At most 1024
  bytes of the body are looked at.
\<close>

definition preflight_check :: "goerror option \<Rightarrow> goerror + int \<times> string \<Rightarrow> goerror option" where
  "preflight_check request answer =
     (case request of
        Some e \<Rightarrow> Some (wrap_prefix ''build self-check request: '' e)
      | None \<Rightarrow>
          (case answer of
             Inl e \<Rightarrow> map_option (wrap_prefix ''self-check request failed: '') (classify_dial_error (Some e))
           | Inr (status, body) \<Rightarrow>
               (let t = take 1024 body in
                if status \<noteq> 200 \<or> \<not> str_contains t ([CHR 0x22] @ ''sid'' @ [CHR 0x22])
                then Some (Plain (''self-check failed: status='' @ int_text status @ '' body='' @ quote_text t
                       @ '' (expected Socket.IO handshake with sid)''))
                else None)))"

subsection \<open>Events\<close>

datatype outbound =
    EvTaskAccepted string string string int
  | EvTaskStarted string string string int
  | EvTaskLog string string string string string int
  | EvTaskCompleted complete_request string string int
  | EvTerminalOpened string int int string
  | EvTerminalOutput string string string string
  | EvTerminalExited string int string string
  | EvTerminalError string string string
  | EvMetrics string string string string go_float go_float go_float go_float "json list"
  | EvAuth string string string string string "agent_report option" "node_location option"

definition event_type :: "outbound \<Rightarrow> string" where
  "event_type m = (case m of
      EvTaskAccepted _ _ _ _ \<Rightarrow> ''task.accepted'' | EvTaskStarted _ _ _ _ \<Rightarrow> ''task.started''
    | EvTaskLog _ _ _ _ _ _ \<Rightarrow> ''task.log'' | EvTaskCompleted _ _ _ _ \<Rightarrow> ''task.completed''
    | EvTerminalOpened _ _ _ _ \<Rightarrow> ''terminal.opened'' | EvTerminalOutput _ _ _ _ \<Rightarrow> ''terminal.output''
    | EvTerminalExited _ _ _ _ \<Rightarrow> ''terminal.exited'' | EvTerminalError _ _ _ \<Rightarrow> ''terminal.error''
    | EvMetrics _ _ _ _ _ _ _ _ _ \<Rightarrow> ''agent.metrics'' | EvAuth _ _ _ _ _ _ _ \<Rightarrow> ''agent.auth'')"

definition report_json :: "agent_report \<Rightarrow> json" where
  "report_json r = JObj (omit_empty ''appliedProfile'' (arAppliedProfile r)
     @ omit_empty ''lastAppliedAt'' (arLastAppliedAt r) @ omit_empty ''lastError'' (arLastError r))"

text \<open>\<open>json.Marshal\<close> of the event structs.\<close>

definition location_json :: "(rat \<Rightarrow> string) \<Rightarrow> node_location \<Rightarrow> goerror + json" where
  "location_json num_text l =
     rbind (optional_float num_text ''latitude'' (locLatitude l)) (\<lambda>lat.
     rbind (optional_float num_text ''longitude'' (locLongitude l)) (\<lambda>long.
       Inr (JObj ([(''provider'', JStr (locProvider l)), (''source'', JStr (locSource l)), (''region'', JStr (locRegion l))]
         @ omit_empty ''zone'' (locZone l) @ lat @ long))))"

definition event_members :: "(rat \<Rightarrow> string) \<Rightarrow> outbound \<Rightarrow> goerror + (string \<times> json) list" where
  "event_members num_text m = (case m of
      EvTaskAccepted tid ts eid q \<Rightarrow> Inr ([(''taskId'', JStr tid), (''timestamp'', JStr ts)] @ omit_empty ''eventId'' eid @ omit_zero ''eventSeq'' q)
    | EvTaskStarted tid ts eid q \<Rightarrow> Inr ([(''taskId'', JStr tid), (''timestamp'', JStr ts)] @ omit_empty ''eventId'' eid @ omit_zero ''eventSeq'' q)
    | EvTaskLog tid stream line ts eid q \<Rightarrow>
        Inr ([(''taskId'', JStr tid), (''stream'', JStr stream), (''line'', JStr line), (''timestamp'', JStr ts)]
          @ omit_empty ''eventId'' eid @ omit_zero ''eventSeq'' q)
    | EvTaskCompleted c ts eid q \<Rightarrow>
        Inr ([(''taskId'', JStr (crTaskID c)), (''status'', JStr (crStatus c))]
          @ (case crResult c of None \<Rightarrow> [] | Some j \<Rightarrow> [(''result'', j)]) @ omit_empty ''output'' (crOutput c)
          @ [(''exitCode'', JNum (int_text (crExitCode c)))] @ omit_empty ''error'' (crError c)
          @ [(''durationMs'', JNum (int_text (crDurationMS c))), (''timestamp'', JStr ts)]
          @ omit_empty ''eventId'' eid @ omit_zero ''eventSeq'' q)
    | EvTerminalOpened sid c r ts \<Rightarrow> Inr ([(''sessionId'', JStr sid)] @ omit_zero ''cols'' c @ omit_zero ''rows'' r @ [(''timestamp'', JStr ts)])
    | EvTerminalOutput sid d p ts \<Rightarrow>
        Inr [(''sessionId'', JStr sid), (''direction'', JStr d), (''payload'', JStr p), (''timestamp'', JStr ts)]
    | EvTerminalExited sid code reason ts \<Rightarrow>
        Inr ([(''sessionId'', JStr sid)] @ omit_zero ''exitCode'' code @ omit_empty ''reason'' reason @ [(''timestamp'', JStr ts)])
    | EvTerminalError sid msg ts \<Rightarrow> Inr [(''sessionId'', JStr sid), (''message'', JStr msg), (''timestamp'', JStr ts)]
    | EvMetrics node tok ver ts cpu mem disk temp nets \<Rightarrow>
        rbind (marshal_float num_text cpu) (\<lambda>c. rbind (marshal_float num_text mem) (\<lambda>me.
        rbind (marshal_float num_text disk) (\<lambda>d. rbind (marshal_float num_text temp) (\<lambda>t.
          Inr ([(''nodeId'', JStr node), (''agentToken'', JStr tok)] @ omit_empty ''agentVersion'' ver
            @ [(''timestamp'', JStr ts), (''cpuUsage'', c), (''memoryUsage'', me), (''diskUsage'', d), (''temperature'', t),
               (''networkStats'', JArr nets)]
            @ (if nets = [] then [] else [(''networks'', JArr nets)]))))))
    | EvAuth node tok av pv kv report loc \<Rightarrow>
        rbind (case loc of None \<Rightarrow> Inr [] | Some l \<Rightarrow> rbind (location_json num_text l) (\<lambda>j. Inr [(''location'', j)])) (\<lambda>ls.
          Inr ([(''nodeId'', JStr node), (''agentToken'', JStr tok)] @ omit_empty ''agentVersion'' av
            @ omit_empty ''platformVersion'' pv @ omit_empty ''kernelVersion'' kv
            @ (case report of None \<Rightarrow> [] | Some r \<Rightarrow> [(''rootAccess'', report_json r)]) @ ls)))"

definition marshal_event :: "(rat \<Rightarrow> string) \<Rightarrow> outbound \<Rightarrow> goerror + (string \<times> json) list" where
  "marshal_event num_text m = rbind (event_members num_text m) (\<lambda>ms. Inr ((''type'', JStr (event_type m)) # ms))"

text \<open>
  Encoding and decoding a value again: strings become valid UTF-8. Numbers are kept (those sent are far
  below 2^53 or floats already).
\<close>

fun reread :: "json \<Rightarrow> json" where
  "reread (JStr s) = JStr (encode_runes (runes s))"
| "reread (JArr xs) = JArr (map reread xs)"
| "reread (JObj ms) = JObj (map (\<lambda>(k, v). (encode_runes (runes k), reread v)) ms)"
| "reread JNull = JNull"
| "reread (JBool b) = JBool b"
| "reread (JNum n) = JNum n"

text \<open>\<open>eventForEmit\<close>: the decoded object as a map from member names.\<close>

definition event_for_emit :: "(rat \<Rightarrow> string) \<Rightarrow> outbound \<Rightarrow> goerror + string \<times> (string \<Rightarrow> json option)" where
  "event_for_emit num_text m =
     (case marshal_event num_text m of
        Inl e \<Rightarrow> Inl (wrap_prefix ''marshal outbound event: '' e)
      | Inr ms \<Rightarrow>
          (let payload = map_of (rev (map (\<lambda>(k, v). (k, reread v)) ms)) in
           case payload ''type'' of
             None \<Rightarrow> Inl (Plain ''outbound event missing type'')
           | Some (JStr name) \<Rightarrow>
               if trim_space name = [] then Inl (Plain ''outbound event type is invalid'')
               else Inr (name, (payload(''type'' := None))(''type'' \<mapsto> JStr name))
           | Some _ \<Rightarrow> Inl (Plain ''outbound event type is invalid'')))"

subsection \<open>The service\<close>

text \<open>
  \<open>rtUncounted\<close> are sends whose counter update is still to come, \<open>rtUntaken\<close> receives of which the writer
  has not yet counted: the channel and the counters are not changed in one step.
\<close>

record realtime =
  rtQueueSize :: nat
  rtOutbound :: "outbound list"
  rtUncounted :: nat
  rtUntaken :: nat
  rtQueueDepth :: int
  rtMaxQueueDepth :: int
  rtReconnects :: int
  rtPingsSent :: int
  rtMetricsSent :: int
  rtLifecycleSent :: int
  rtLifecycleSeq :: int
  rtQueueDrops :: int
  rtLogDrops :: int
  rtDispatchHandled :: int
  rtSelfChecked :: bool
  rtSessionActive :: bool
  rtAgentVersion :: string
  rtPlatformVersion :: string
  rtKernelVersion :: string
  rtLocation :: "node_location option"

definition new_service :: "int \<Rightarrow> realtime" where
  "new_service queue_size =
     \<lparr>rtQueueSize = (if queue_size \<le> 0 then 1024 else nat queue_size), rtOutbound = [], rtUncounted = 0, rtUntaken = 0,
      rtQueueDepth = 0, rtMaxQueueDepth = 0, rtReconnects = 0, rtPingsSent = 0, rtMetricsSent = 0, rtLifecycleSent = 0,
      rtLifecycleSeq = 0, rtQueueDrops = 0, rtLogDrops = 0, rtDispatchHandled = 0, rtSelfChecked = False,
      rtSessionActive = False, rtAgentVersion = [], rtPlatformVersion = [], rtKernelVersion = [], rtLocation = None\<rparr>"

text \<open>The ratio of the jitter is kept between 0 and 1.\<close>

definition clamp_jitter :: "rat \<Rightarrow> rat" where
  "clamp_jitter q = (let q1 = (if q < 0 then 0 else q) in if q1 > 1 then 1 else q1)"

text \<open>\<open>NewService\<close>: where to connect, the ratio in force and the initial state.\<close>

definition build_service :: "url_lib \<Rightarrow> string \<Rightarrow> string \<Rightarrow> string \<Rightarrow> int \<Rightarrow> rat \<Rightarrow> goerror + realtime_target \<times> rat \<times> realtime" where
  "build_service lib api_url namespace path queue_size jitter =
     rbind (normalize_realtime_target lib api_url namespace path) (\<lambda>t.
       Inr (t, clamp_jitter jitter, new_service queue_size))"

definition update_queue_depth :: "int \<Rightarrow> realtime \<Rightarrow> realtime" where
  "update_queue_depth delta s =
     (let depth = rtQueueDepth s + delta in
      s\<lparr>rtQueueDepth := depth, rtMaxQueueDepth := (if depth \<le> rtMaxQueueDepth s then rtMaxQueueDepth s else depth)\<rparr>)"

text \<open>The send and its count as two steps, then as the sequence a single sender makes of them.\<close>

definition send_outbound :: "outbound \<Rightarrow> realtime \<Rightarrow> realtime option" where
  "send_outbound m s =
     (case chan_offer (rtQueueSize s) (rtOutbound s) m of
        (q, True) \<Rightarrow> Some (s\<lparr>rtOutbound := q, rtUncounted := Suc (rtUncounted s)\<rparr>)
      | (q, False) \<Rightarrow> None)"

definition count_sent :: "realtime \<Rightarrow> realtime" where
  "count_sent s = update_queue_depth 1 (s\<lparr>rtUncounted := rtUncounted s - 1\<rparr>)"

text \<open>
  \<open>enqueueCritical\<close> waits for room or for the context (\<open>None\<close>: still waiting). When both are ready the
  \<open>select\<close> takes either, \<open>pick_ctx\<close> says which.
\<close>

definition enqueue_critical :: "goerror option \<Rightarrow> bool \<Rightarrow> outbound \<Rightarrow> realtime \<Rightarrow> (goerror option \<times> realtime) option" where
  "enqueue_critical ctx_err pick_ctx m s =
     (case (ctx_err, send_outbound m s) of
        (None, None) \<Rightarrow> None
      | (None, Some s1) \<Rightarrow> Some (None, count_sent s1)
      | (Some e, None) \<Rightarrow> Some (Some e, s)
      | (Some e, Some s1) \<Rightarrow> if pick_ctx then Some (Some e, s) else Some (None, count_sent s1))"

definition enqueue_best_effort :: "outbound \<Rightarrow> realtime \<Rightarrow> goerror option \<times> realtime" where
  "enqueue_best_effort m s =
     (case send_outbound m s of
        Some s1 \<Rightarrow> (None, count_sent s1)
      | None \<Rightarrow> (Some (Plain ''realtime outbound queue is full''), s\<lparr>rtQueueDrops := rtQueueDrops s + 1\<rparr>))"

definition next_lifecycle_event :: "string \<Rightarrow> realtime \<Rightarrow> (string \<times> int) \<times> realtime" where
  "next_lifecycle_event uuid s = ((uuid, rtLifecycleSeq s + 1), s\<lparr>rtLifecycleSeq := rtLifecycleSeq s + 1\<rparr>)"

definition count_lifecycle :: "goerror option \<Rightarrow> realtime \<Rightarrow> realtime" where
  "count_lifecycle err s = (case err of None \<Rightarrow> s\<lparr>rtLifecycleSent := rtLifecycleSent s + 1\<rparr> | Some _ \<Rightarrow> s)"

definition send_lifecycle :: "goerror option \<Rightarrow> bool \<Rightarrow> string \<Rightarrow> (string \<Rightarrow> int \<Rightarrow> outbound) \<Rightarrow> realtime \<Rightarrow>
    (goerror option \<times> realtime) option" where
  "send_lifecycle ctx_err pick_ctx uuid mk s =
     (case next_lifecycle_event uuid s of ((eid, q), s1) \<Rightarrow>
        map_option (\<lambda>(err, s2). (err, count_lifecycle err s2)) (enqueue_critical ctx_err pick_ctx (mk eid q) s1))"

definition rt_task_accepted :: "goerror option \<Rightarrow> bool \<Rightarrow> string \<Rightarrow> string \<Rightarrow> int \<Rightarrow> realtime \<Rightarrow> (goerror option \<times> realtime) option" where
  "rt_task_accepted ctx_err pick uuid tid t s = send_lifecycle ctx_err pick uuid (EvTaskAccepted tid (format_utc_millis t)) s"

definition rt_task_started :: "goerror option \<Rightarrow> bool \<Rightarrow> string \<Rightarrow> string \<Rightarrow> int \<Rightarrow> realtime \<Rightarrow> (goerror option \<times> realtime) option" where
  "rt_task_started ctx_err pick uuid tid t s = send_lifecycle ctx_err pick uuid (EvTaskStarted tid (format_utc_millis t)) s"

definition rt_task_log :: "string \<Rightarrow> string \<Rightarrow> string \<Rightarrow> string \<Rightarrow> int \<Rightarrow> realtime \<Rightarrow> goerror option \<times> realtime" where
  "rt_task_log uuid tid stream line t s =
     (case next_lifecycle_event uuid s of ((eid, q), s1) \<Rightarrow>
        (case enqueue_best_effort (EvTaskLog tid stream line (format_utc_millis t) eid q) s1 of
           (err, s2) \<Rightarrow> (err, count_lifecycle err s2)))"

definition rt_task_completed :: "goerror option \<Rightarrow> bool \<Rightarrow> string \<Rightarrow> complete_request \<Rightarrow> realtime \<Rightarrow> (goerror option \<times> realtime) option" where
  "rt_task_completed ctx_err pick uuid c s =
     send_lifecycle ctx_err pick uuid
       (EvTaskCompleted (c\<lparr>crOutput := fst (truncate_task_output (crOutput c) max_task_output_chars)\<rparr>) (format_utc_millis (crCompletedAt c))) s"

definition rt_terminal_opened where
  "rt_terminal_opened ctx_err pick sid cols rows t s = enqueue_critical ctx_err pick (EvTerminalOpened sid cols rows (format_utc_millis t)) s"

definition rt_terminal_output where
  "rt_terminal_output ctx_err pick sid dir payload t s = enqueue_critical ctx_err pick (EvTerminalOutput sid dir payload (format_utc_millis t)) s"

definition rt_terminal_exited where
  "rt_terminal_exited ctx_err pick sid code reason t s = enqueue_critical ctx_err pick (EvTerminalExited sid code reason (format_utc_millis t)) s"

definition rt_terminal_error where
  "rt_terminal_error ctx_err pick sid msg t s = enqueue_critical ctx_err pick (EvTerminalError sid msg (format_utc_millis t)) s"

record metrics_request =
  mqNodeID :: string
  mqAgentToken :: string
  mqCollectedAt :: int
  mqCPU :: go_float
  mqMemory :: go_float
  mqDisk :: go_float
  mqTemperature :: go_float
  mqNetworks :: "json list"

definition send_metrics :: "goerror option \<Rightarrow> bool \<Rightarrow> metrics_request \<Rightarrow> realtime \<Rightarrow> (goerror option \<times> realtime) option" where
  "send_metrics ctx_err pick ev s =
     (if \<not> rtSessionActive s then Some (Some (Sentinel ErrSessionNotActive), s)
      else map_option (\<lambda>(err, s1). (err, if err = None then s1\<lparr>rtMetricsSent := rtMetricsSent s1 + 1\<rparr> else s1))
        (enqueue_critical ctx_err pick
           (EvMetrics (mqNodeID ev) (mqAgentToken ev) (rtAgentVersion s) (format_utc_millis (mqCollectedAt ev))
              (sanitize_usage_or_zero (mqCPU ev)) (sanitize_usage_or_zero (mqMemory ev)) (sanitize_usage_or_zero (mqDisk ev))
              (mqTemperature ev) (mqNetworks ev)) s))"

definition report_log_drop :: "realtime \<Rightarrow> realtime" where
  "report_log_drop s = s\<lparr>rtLogDrops := rtLogDrops s + 1\<rparr>"

definition report_dispatch_handled :: "realtime \<Rightarrow> realtime" where
  "report_dispatch_handled s = s\<lparr>rtDispatchHandled := rtDispatchHandled s + 1\<rparr>"

definition set_runtime_agent_version :: "string \<Rightarrow> realtime \<Rightarrow> realtime" where
  "set_runtime_agent_version v s = s\<lparr>rtAgentVersion := trim_space v\<rparr>"

definition set_runtime_platform_version :: "string \<Rightarrow> realtime \<Rightarrow> realtime" where
  "set_runtime_platform_version v s = s\<lparr>rtPlatformVersion := trim_space v\<rparr>"

definition set_runtime_kernel_version :: "string \<Rightarrow> realtime \<Rightarrow> realtime" where
  "set_runtime_kernel_version v s = s\<lparr>rtKernelVersion := trim_space v\<rparr>"

definition set_runtime_location :: "node_location option \<Rightarrow> realtime \<Rightarrow> realtime" where
  "set_runtime_location l s = s\<lparr>rtLocation := l\<rparr>"

definition auth_payload :: "agent_report option \<Rightarrow> string \<Rightarrow> string \<Rightarrow> realtime \<Rightarrow> outbound" where
  "auth_payload report node token s =
     EvAuth node token (rtAgentVersion s) (rtPlatformVersion s) (rtKernelVersion s) report (rtLocation s)"

definition refresh_auth_event :: "goerror option \<Rightarrow> bool \<Rightarrow> string \<times> string \<Rightarrow> agent_report option \<Rightarrow> realtime \<Rightarrow> (goerror option \<times> realtime) option" where
  "refresh_auth_event ctx_err pick creds report s =
     (if \<not> rtSessionActive s then Some (Some (Sentinel ErrSessionNotActive), s)
      else if trim_space (fst creds) = [] \<or> trim_space (snd creds) = []
      then Some (Some (Plain ''agent credentials are missing''), s)
      else enqueue_critical ctx_err pick (auth_payload report (fst creds) (snd creds) s) s)"

record realtime_stats =
  ssReconnects :: int
  ssPingsSent :: int
  ssMetricsSent :: int
  ssLifecycleSent :: int
  ssQueueDrops :: int
  ssLogDrops :: int
  ssQueueDepth :: int
  ssMaxQueueDepth :: int
  ssDispatchHandled :: int

definition snapshot_stats :: "realtime \<Rightarrow> realtime_stats" where
  "snapshot_stats s = \<lparr>ssReconnects = rtReconnects s, ssPingsSent = rtPingsSent s, ssMetricsSent = rtMetricsSent s,
     ssLifecycleSent = rtLifecycleSent s, ssQueueDrops = rtQueueDrops s, ssLogDrops = rtLogDrops s,
     ssQueueDepth = rtQueueDepth s, ssMaxQueueDepth = rtMaxQueueDepth s, ssDispatchHandled = rtDispatchHandled s\<rparr>"

subsection \<open>The writer\<close>

text \<open>One turn of \<open>writeLoop\<close>: the context ends it, a message is emitted, or a ping is.\<close>

datatype write_event = WriteCtxDone | WriteMessage | WritePing int

datatype emitted = Emit string "string \<Rightarrow> json option"

datatype write_end = WriterStopped | WriterFailed goerror | WriterContinues

definition take_outbound :: "realtime \<Rightarrow> (outbound \<times> realtime) option" where
  "take_outbound s = (case chan_take (rtOutbound s) of
       None \<Rightarrow> None | Some (m, q) \<Rightarrow> Some (m, s\<lparr>rtOutbound := q, rtUntaken := Suc (rtUntaken s)\<rparr>))"

definition count_taken :: "realtime \<Rightarrow> realtime" where
  "count_taken s = update_queue_depth (-1) (s\<lparr>rtUntaken := rtUntaken s - 1\<rparr>)"

definition write_turn :: "(rat \<Rightarrow> string) \<Rightarrow> write_event \<Rightarrow> realtime \<Rightarrow> write_end \<times> emitted list \<times> realtime" where
  "write_turn num_text ev s =
     (case ev of
        WriteCtxDone \<Rightarrow> (WriterStopped, [], s)
      | WriteMessage \<Rightarrow>
          (case take_outbound s of
             None \<Rightarrow> (WriterContinues, [], s)
           | Some (m, s1) \<Rightarrow>
               (case event_for_emit num_text m of
                  Inl e \<Rightarrow> (WriterFailed e, [], count_taken s1)
                | Inr (name, payload) \<Rightarrow> (WriterContinues, [Emit name payload], count_taken s1)))
      | WritePing t \<Rightarrow>
          (WriterContinues,
           [Emit ''agent.ping'' [''type'' \<mapsto> JStr ''agent.ping'', ''timestamp'' \<mapsto> JStr (format_utc_millis t)]],
           s\<lparr>rtPingsSent := rtPingsSent s + 1\<rparr>))"

fun write_loop :: "(rat \<Rightarrow> string) \<Rightarrow> write_event list \<Rightarrow> realtime \<Rightarrow> write_end \<times> emitted list \<times> realtime" where
  "write_loop num_text [] s = (WriterContinues, [], s)"
| "write_loop num_text (ev # evs) s =
     (case write_turn num_text ev s of
        (WriterContinues, es, s1) \<Rightarrow> (case write_loop num_text evs s1 of (r, es2, s2) \<Rightarrow> (r, es @ es2, s2))
      | (r, es, s1) \<Rightarrow> (r, es, s1))"

subsection \<open>Output and delays stay in bounds\<close>

lemma is_ascii_marker: "is_ascii (truncation_marker n)"
  by (auto simp: truncation_marker_def int_text_def byte_in_def)

lemma truncate_cut:
  assumes "0 < n" "n < int (rune_count out)"
  shows "snd (truncate_task_output out n) \<and> int (rune_count (fst (truncate_task_output out n))) = n"
proof -
  let ?rs = "runes out"
  let ?m = "truncation_marker (int (length ?rs) - n)"
  have len: "n < int (length ?rs)" using assms(2) by (simp add: rune_count_def)
  have mk: "rune_count (?m @ s) = rune_count ?m + rune_count s" for s
    using is_ascii_marker by (simp add: rune_count_ascii_append)
  have end0: "rune_count (encode_runes xs) = length xs" if "set xs \<subseteq> set ?rs" for xs
    using rune_count_encode_runes_append [OF that, of "[]"] by (simp add: rune_count_def)
  show ?thesis
  proof (cases "n \<le> int (rune_count ?m)")
    case True
    then show ?thesis using assms len end0 [of "take (nat n) ?rs"]
      by (simp add: truncate_task_output_def Let_def set_take_subset)
  next
    case False
    define rem where "rem = n - int (rune_count ?m)"
    define h where "h = quot_int rem 2"
    have h: "0 \<le> h" "h \<le> rem" "h = rem div 2" unfolding h_def using False by (simp_all add: quot_int_nonneg rem_def)
    have sub: "set (take (nat h) ?rs) \<subseteq> set ?rs" "set (drop (length ?rs - nat (rem - h)) ?rs) \<subseteq> set ?rs"
      by (simp_all add: set_take_subset set_drop_subset)
    have bounds: "h \<le> int (length ?rs)" "rem - h \<le> int (length ?rs)" using h len by (simp_all add: rem_def)
    have "fst (truncate_task_output out n) = encode_runes (take (nat h) ?rs) @ ?m @ encode_runes (drop (length ?rs - nat (rem - h)) ?rs)"
      "snd (truncate_task_output out n)"
      using False len assms by (simp_all add: truncate_task_output_def Let_def h_def rem_def)
    moreover have "int (rune_count (encode_runes (take (nat h) ?rs) @ ?m @ encode_runes (drop (length ?rs - nat (rem - h)) ?rs)))
        = h + int (rune_count ?m) + (rem - h)"
      using h(1,2) bounds by (simp add: rune_count_encode_runes_append [OF sub(1)] mk end0 [OF sub(2)])
    ultimately show ?thesis by (simp add: rem_def)
  qed
qed

text \<open>
  A completed task's output reaches the control plane with at most 4000 characters: a short output as
  it is, a longer one cut to exactly 4000, keeping its beginning and its end around the mark that says how
  many were left out.
\<close>

theorem task_output_truncated:
  "int (rune_count (fst (truncate_task_output out max_task_output_chars))) = min (int (rune_count out)) 4000
   \<and> (snd (truncate_task_output out max_task_output_chars) \<longleftrightarrow> 4000 < int (rune_count out))
   \<and> (if 4000 < int (rune_count out) then
        (\<exists>h t. fst (truncate_task_output out max_task_output_chars)
            = encode_runes (take h (runes out)) @ truncation_marker (int (rune_count out) - 4000)
              @ encode_runes (drop (length (runes out) - t) (runes out))
          \<and> int h + int t + int (rune_count (truncation_marker (int (rune_count out) - 4000))) = 4000)
        \<or> 4000 \<le> int (rune_count (truncation_marker (int (rune_count out) - 4000)))
      else fst (truncate_task_output out max_task_output_chars) = out)"
proof (cases "4000 < int (rune_count out)")
  case False
  then show ?thesis by (simp add: truncate_task_output_def max_task_output_chars_def rune_count_def Let_def)
next
  case True
  let ?m = "truncation_marker (int (rune_count out) - 4000)"
  have "(\<exists>h t. fst (truncate_task_output out 4000) = encode_runes (take h (runes out)) @ ?m @ encode_runes (drop (length (runes out) - t) (runes out))
          \<and> int h + int t + int (rune_count ?m) = 4000) \<or> 4000 \<le> int (rune_count ?m)"
  proof (cases "4000 \<le> int (rune_count ?m)")
    case False
    define h where "h = quot_int (4000 - int (rune_count ?m)) 2"
    have h: "0 \<le> h" "h \<le> 4000 - int (rune_count ?m)" unfolding h_def using False by (simp_all add: quot_int_nonneg)
    have "fst (truncate_task_output out 4000) = encode_runes (take (nat h) (runes out)) @ ?m
        @ encode_runes (drop (length (runes out) - nat (4000 - int (rune_count ?m) - h)) (runes out))"
      using False True by (simp add: truncate_task_output_def Let_def h_def rune_count_def)
    moreover have "int (nat h) + int (nat (4000 - int (rune_count ?m) - h)) + int (rune_count ?m) = 4000" using h by simp
    ultimately show ?thesis by blast
  qed simp
  then show ?thesis using True truncate_cut [of 4000 out] by (simp add: max_task_output_chars_def)
qed

text \<open>
  The delay before a reconnection lies between a millisecond and a minute, for every attempt number
  and every jitter the ratio between 0 and 1 allows; it grows from one second and is at most 30 seconds
  without jitter.
\<close>

theorem reconnect_delay_bounded:
  assumes "\<And>b. 0 \<le> b \<Longrightarrow> 0 \<le> jitter b \<and> jitter b \<le> b" "\<And>n. 0 < n \<Longrightarrow> 0 \<le> rnd n \<and> rnd n < n"
  shows "millisecond \<le> backoff_delay attempt ratio jitter rnd \<and> backoff_delay attempt ratio jitter rnd \<le> minute
    \<and> second \<le> backoff_delay attempt False jitter rnd \<and> backoff_delay attempt False jitter rnd \<le> 30 * second"
proof -
  let ?a = "if attempt < 0 then 0 else attempt"
  let ?p = "second * 2 ^ nat (if ?a < 5 then ?a else 5)"
  let ?base = "if ?p > 30 * second then 30 * second else ?p"
  have "(1::int) \<le> 2 ^ nat (if ?a < 5 then ?a else 5)" by simp
  then have p: "second \<le> ?p" by simp
  have base: "second \<le> ?base" "?base \<le> 30 * second" using p by (simp_all split: if_splits)
  have j: "0 \<le> jitter ?base" "jitter ?base \<le> ?base" using assms(1) [of ?base] base by simp_all
  have r: "0 \<le> rnd (jitter ?base * 2 + 1)" "rnd (jitter ?base * 2 + 1) < jitter ?base * 2 + 1"
    using assms(2) [of "jitter ?base * 2 + 1"] j by simp_all
  have b: "backoff_delay attempt x jitter rnd = apply_jitter ?base x jitter rnd" for x
    unfolding backoff_delay_def Let_def by simp
  have "millisecond \<le> apply_jitter ?base ratio jitter rnd \<and> apply_jitter ?base ratio jitter rnd \<le> minute"
    unfolding apply_jitter_def Let_def using base j r by auto
  moreover have "apply_jitter ?base False jitter rnd = ?base" by (simp add: apply_jitter_def)
  ultimately show ?thesis unfolding b using base by simp
qed

theorem reconnect_delay_bounded_witness:
  "backoff_delay 40 True (\<lambda>b. b) (\<lambda>n. n - 1) \<le> minute"
  using reconnect_delay_bounded [of "\<lambda>b. b" "\<lambda>n. n - 1" 40 True] by simp

subsection \<open>Events are emitted as they are\<close>

definition finite_event :: "outbound \<Rightarrow> bool" where
  "finite_event m \<longleftrightarrow> (case m of
      EvMetrics _ _ _ _ c me d t _ \<Rightarrow> finite_float c \<and> finite_float me \<and> finite_float d \<and> finite_float t
    | EvAuth _ _ _ _ _ _ (Some l) \<Rightarrow> pred_option finite_float (locLatitude l) \<and> pred_option finite_float (locLongitude l)
    | _ \<Rightarrow> True)"

lemma marshal_float_ok: "(\<exists>j. marshal_float nt x = Inr j) \<longleftrightarrow> finite_float x"
  by (cases x) (simp_all add: marshal_float_def finite_float_def)

lemma optional_float_ok: "(\<exists>j. optional_float nt k x = Inr j) \<longleftrightarrow> pred_option finite_float x"
  using marshal_float_ok [of nt "the x"] by (cases x) (auto simp: optional_float_def rbind_Inr_iff)

lemma location_json_ok: "(\<exists>j. location_json nt l = Inr j)
    \<longleftrightarrow> pred_option finite_float (locLatitude l) \<and> pred_option finite_float (locLongitude l)"
proof -
  have "pred_option finite_float (locLatitude l) = (\<exists>j. optional_float nt ''latitude'' (locLatitude l) = Inr j)"
    "pred_option finite_float (locLongitude l) = (\<exists>j. optional_float nt ''longitude'' (locLongitude l) = Inr j)"
    by (simp_all only: optional_float_ok)
  then show ?thesis by (auto simp: location_json_def rbind_Inr_iff)
qed

lemma event_members_ok: "(\<exists>ms. event_members nt m = Inr ms) \<longleftrightarrow> finite_event m"
proof (cases m)
  case (EvMetrics a b c d e f g h k)
  have ok: "(\<exists>j. marshal_float nt x = Inr j) = finite_float x" for x by (rule marshal_float_ok)
  show ?thesis unfolding EvMetrics event_members_def finite_event_def outbound.case
    by (auto simp: rbind_Inr_iff ok [symmetric])
next
  case (EvAuth a b c d e f g)
  then show ?thesis
    by (cases g) (auto simp: event_members_def finite_event_def rbind_Inr_iff location_json_ok [of nt, symmetric])
qed (simp_all add: event_members_def finite_event_def)

lemma omit_keys [simp]: "fst ` set (omit_empty k s) \<subseteq> {k}" "fst ` set (omit_zero k n) \<subseteq> {k}"
  by (auto simp: omit_empty_def omit_zero_def)

lemma omit_mem: "(a, b) \<in> set (omit_empty k s) \<Longrightarrow> a = k" "(a, b) \<in> set (omit_zero k n) \<Longrightarrow> a = k"
  by (auto simp: omit_empty_def omit_zero_def split: if_splits)

lemma event_members_no_type: "event_members nt m = Inr ms \<Longrightarrow> (''type'', v) \<notin> set ms"
  by (cases m) (auto simp: event_members_def rbind_Inr_iff dest!: omit_mem split: option.splits if_splits)

lemma event_type_props: "trim_space (event_type m) \<noteq> []" "encode_runes (runes (event_type m)) = event_type m"
proof -
  have a: "CHR ''a'' \<in> set (event_type m)" by (cases m) (simp_all add: event_type_def)
  have "is_ascii (event_type m)" by (cases m) (simp_all add: event_type_def byte_in_def)
  then show "encode_runes (runes (event_type m)) = event_type m" by (simp add: runes_ascii)
  show "trim_space (event_type m) \<noteq> []" using a by (rule trim_space_ascii_mem) (simp add: byte_in_def)
qed

text \<open>
  An event is emitted under its own type with all its members: it fails only for a float that is not
  finite, and otherwise its name is the event's type, its payload says so, and every other member of the
  payload is the last one of that name in the event.
\<close>

theorem event_emitted_faithfully:
  "(case event_for_emit nt m of
      Inl e \<Rightarrow> \<not> finite_event m
    | Inr (name, payload) \<Rightarrow> finite_event m \<and> name = event_type m \<and> payload ''type'' = Some (JStr (event_type m))
        \<and> (\<exists>ms. event_members nt m = Inr ms
            \<and> payload = (map_of (rev (map (\<lambda>(k, v). (k, reread v)) ms)))(''type'' \<mapsto> JStr (event_type m))))"
proof (cases "event_members nt m")
  case (Inl e)
  then have "\<not> finite_event m" using event_members_ok [of nt m] by auto
  then show ?thesis by (simp add: event_for_emit_def marshal_event_def Inl)
next
  case (Inr ms)
  let ?rest = "map (\<lambda>(k, v). (k, reread v)) ms"
  have fin: "finite_event m" using event_members_ok [of nt m] Inr by auto
  have no: "map_of (rev ?rest) ''type'' = None"
    using event_members_no_type [OF Inr] by (auto simp: map_of_eq_None_iff)
  then have ty: "map_of (rev (map (\<lambda>(k, v). (k, reread v)) ((''type'', JStr (event_type m)) # ms))) ''type'' = Some (JStr (event_type m))"
    by (simp add: map_add_def event_type_props)
  have "(map_of (rev ?rest @ [(''type'', JStr (event_type m))])) (''type'' \<mapsto> JStr (event_type m))
      = (map_of (rev ?rest))(''type'' \<mapsto> JStr (event_type m))"
    by (rule ext) (simp add: map_add_def split: option.splits)
  then show ?thesis using fin ty
    by (simp add: event_for_emit_def marshal_event_def Inr event_type_props)
qed

subsection \<open>Identifiers\<close>

definition is_hex :: "char \<Rightarrow> bool" where
  "is_hex c \<longleftrightarrow> is_digit c \<or> c \<in> set ''abcdef''"

text \<open>An RFC 4122 identifier of version 4.\<close>

definition is_uuid_v4 :: "string \<Rightarrow> bool" where
  "is_uuid_v4 u \<longleftrightarrow> length u = 36 \<and> u ! 14 = CHR ''4'' \<and> u ! 19 \<in> set ''89ab''
     \<and> list_all (\<lambda>(i, c). if i \<in> {8, 13, 18, 23} then c = CHR ''-'' else is_hex c) (zip [0..<36] u)"

lemma hex_digit_hex: "d < 16 \<Longrightarrow> is_hex (hex_digit d)"
proof (cases "d < 10")
  case True
  then show ?thesis by (simp add: hex_digit_def is_hex_def is_digit_def byte_in_def)
next
  case False
  assume "d < 16"
  with False have "d = 10 \<or> d = 11 \<or> d = 12 \<or> d = 13 \<or> d = 14 \<or> d = 15" by linarith
  then have "d \<in> set [10, 11, 12, 13, 14, 15]" by auto
  moreover have "list_all (\<lambda>d. is_hex (hex_digit d)) [10, 11, 12, 13, 14, 15]"
    by (simp add: is_hex_def hex_digit_def char_of_small)
  ultimately show ?thesis unfolding list_all_iff by blast
qed

lemma nibble: "unat (drop_bit 4 b) = unat b div 16" for b :: "8 word"
  by (subst unat_drop_bit_eq) (simp add: drop_bit_eq_div)

lemma hex_byte_hex: "is_hex (hex_digit (unat b div 16))" "is_hex (hex_digit (unat b mod 16))" for b :: "8 word"
proof -
  have "unat b < 256" using unsigned_less [of b, where ?'a = nat] by simp
  then have "unat b div 16 < 16" by (simp add: less_mult_imp_div_less)
  then show "is_hex (hex_digit (unat b div 16))" by (rule hex_digit_hex)
  show "is_hex (hex_digit (unat b mod 16))" by (rule hex_digit_hex) simp
qed

lemma version_nibble: "unat (or (and b 0x0f) 0x40 :: 8 word) div 16 = 4"
proof -
  have "drop_bit 4 (or (and b 0x0f) 0x40 :: 8 word) = 4" by (simp add: drop_bit_or drop_bit_and)
  then show ?thesis unfolding nibble [symmetric] by simp
qed

lemma variant_nibble: "hex_digit (unat (or (and b 0x3f) 0x80 :: 8 word) div 16) \<in> set ''89ab''"
proof -
  have d: "drop_bit 4 (or (and b 0x3f) 0x80 :: 8 word) = or (and (drop_bit 4 b) 3) 8" by (simp add: drop_bit_or drop_bit_and)
  let ?y = "and (drop_bit 4 b) 3 :: 8 word"
  have "?y \<le> 3" by (rule word_and_le1)
  then have "unat ?y \<le> 3" by (simp add: word_le_nat_alt)
  then have "unat ?y = unat (0 :: 8 word) \<or> unat ?y = unat (1 :: 8 word) \<or> unat ?y = unat (2 :: 8 word) \<or> unat ?y = unat (3 :: 8 word)"
    by auto
  then have "?y = 0 \<or> ?y = 1 \<or> ?y = 2 \<or> ?y = 3" unfolding word_unat_eq_iff [symmetric] .
  then have "unat (or ?y 8) \<in> {8, 9, 10, 11}" by auto
  then have "unat (or (and b 0x3f) 0x80 :: 8 word) div 16 \<in> {8, 9, 10, 11}" unfolding nibble [symmetric] d .
  then have "unat (or (and b 0x3f) 0x80 :: 8 word) div 16 \<in> set [8, 9, 10, 11]" by simp
  moreover have "list_all (\<lambda>d. hex_digit d \<in> set ''89ab'') [8, 9, 10, 11]" by code_simp
  ultimately show ?thesis unfolding list_all_iff by blast
qed

text \<open>
  Every event id is a well-formed UUID of version 4, from whatever random bytes, and from the clock
  when there are none.
\<close>

theorem event_id_well_formed:
  assumes "case random of None \<Rightarrow> True | Some bs \<Rightarrow> length bs = 16"
  shows "is_uuid_v4 (new_uuid_v4 random now)"
proof (cases random)
  case None
  let ?n = "now mod 2 ^ 48"
  have h: "is_hex (hex_digit (nat (n div 16 ^ k mod 16)))" for n :: int and k
    by (rule hex_digit_hex) (simp add: nat_less_iff)
  then have hex: "list_all is_hex (hex12 ?n)" by (simp add: hex12_def list_all_iff)
  have "length (hex12 ?n) = 12" by (simp add: hex12_def)
  then obtain c0 c1 c2 c3 c4 c5 c6 c7 c8 c9 c10 c11 where
    cs: "hex12 ?n = [c0, c1, c2, c3, c4, c5, c6, c7, c8, c9, c10, c11]"
    by (auto simp: length_Suc_conv eval_nat_numeral)
  have z: "is_hex CHR ''0''" "is_hex CHR ''4''" "is_hex CHR ''8''" by (simp_all add: is_hex_def is_digit_def byte_in_def)
  have "new_uuid_v4 None now = ''00000000-0000-4000-8000-'' @ [c0, c1, c2, c3, c4, c5, c6, c7, c8, c9, c10, c11]"
    unfolding new_uuid_v4_def option.case cs ..
  with hex show ?thesis unfolding None cs by (simp add: is_uuid_v4_def upt_rec z)
next
  case (Some bs)
  with assms have "length bs = 16" by simp
  then obtain b0 b1 b2 b3 b4 b5 b6 b7 b8 b9 b10 b11 b12 b13 b14 b15 where
    bs: "bs = [b0, b1, b2, b3, b4, b5, b6, b7, b8, b9, b10, b11, b12, b13, b14, b15]"
    by (auto simp: length_Suc_conv eval_nat_numeral)
  have v: "hex_digit (unat (or (and b6 0x0f) 0x40 :: 8 word) div 16) = CHR ''4''" unfolding version_nibble by code_simp
  have f: "is_hex CHR ''4''" by (simp add: is_hex_def is_digit_def byte_in_def)
  show ?thesis unfolding Some bs
    using f variant_nibble [of b8]
    by (simp add: new_uuid_v4_def uuid_bytes_def uuid_text_def hex_bytes_def hex_byte_def is_uuid_v4_def upt_rec
        hex_byte_hex v Let_def)
qed

theorem event_id_well_formed_witness: "is_uuid_v4 (new_uuid_v4 (Some (replicate 16 0)) 0)"
  by (rule event_id_well_formed) simp

subsection \<open>The outbound queue\<close>

text \<open>Sends and receives with their counts, as operations of a channel.\<close>

definition offer_outbound :: "realtime \<Rightarrow> outbound \<Rightarrow> realtime \<times> bool" where
  "offer_outbound s m = (case enqueue_best_effort m s of (None, s1) \<Rightarrow> (s1, True) | (Some e, s1) \<Rightarrow> (s1, False))"

definition receive_outbound :: "realtime \<Rightarrow> (outbound \<times> realtime) option" where
  "receive_outbound s = map_option (\<lambda>(m, s1). (m, count_taken s1)) (take_outbound s)"

definition queue_view :: "nat \<Rightarrow> outbound list \<Rightarrow> realtime \<Rightarrow> bool" where
  "queue_view n q s \<longleftrightarrow> rtQueueSize s = n \<and> rtOutbound s = q"

lemma update_depth_fields [simp]:
  "rtQueueSize (update_queue_depth d s) = rtQueueSize s" "rtOutbound (update_queue_depth d s) = rtOutbound s"
  "rtUncounted (update_queue_depth d s) = rtUncounted s" "rtUntaken (update_queue_depth d s) = rtUntaken s"
  "rtQueueDepth (update_queue_depth d s) = rtQueueDepth s + d"
  "rtMaxQueueDepth (update_queue_depth d s) = max (rtMaxQueueDepth s) (rtQueueDepth s + d)"
  by (simp_all add: update_queue_depth_def Let_def max_def)

lemma outbound_simulates:
  assumes "queue_run offer_outbound receive_outbound ops s = (s', ds, acc, ref)" "queue_view n q s"
  obtains q' where "queue_run (chan_offer n) chan_take ops q = (q', ds, acc, ref)" "queue_view n q' s'"
proof -
  have "\<exists>q'. queue_run (chan_offer n) chan_take ops q = (q', ds, acc, ref) \<and> queue_view n q' s'"
    by (rule queue_run_simulates [where R = "queue_view n", OF _ _ _ assms(2,1)])
       (auto simp: queue_view_def offer_outbound_def enqueue_best_effort_def send_outbound_def count_sent_def chan_offer_def
          receive_outbound_def take_outbound_def count_taken_def split: if_splits option.splits)
  then show thesis using that by blast
qed


text \<open>The counters, with sends and receives of different goroutines between the steps of each other.\<close>

inductive depth_step :: "realtime \<Rightarrow> realtime \<Rightarrow> bool" where
  sent: "send_outbound m s = Some s' \<Longrightarrow> depth_step s s'"
| counted: "0 < rtUncounted s \<Longrightarrow> depth_step s (count_sent s)"
| taken: "rtUntaken s = 0 \<Longrightarrow> take_outbound s = Some (m, s') \<Longrightarrow> depth_step s s'"
| uncounted: "0 < rtUntaken s \<Longrightarrow> depth_step s (count_taken s)"

definition depth_inv :: "nat \<Rightarrow> realtime \<Rightarrow> bool" where
  "depth_inv n s \<longleftrightarrow> rtQueueSize s = n \<and> length (rtOutbound s) \<le> n \<and> rtUntaken s \<le> 1
     \<and> rtQueueDepth s = int (length (rtOutbound s)) - int (rtUncounted s) + int (rtUntaken s)
     \<and> rtQueueDepth s \<le> rtMaxQueueDepth s \<and> 0 \<le> rtMaxQueueDepth s \<and> rtMaxQueueDepth s \<le> int n + 1"

lemma depth_step_inv: "depth_step s s' \<Longrightarrow> depth_inv n s \<Longrightarrow> depth_inv n s'"
proof (induction rule: depth_step.induct)
  case (sent m s s')
  then show ?case by (auto simp: depth_inv_def send_outbound_def chan_offer_def split: if_splits)
next
  case (counted s)
  then show ?case by (auto simp: depth_inv_def count_sent_def)
next
  case (taken s m s')
  then show ?case by (cases "rtOutbound s") (auto simp: depth_inv_def take_outbound_def)
next
  case (uncounted s)
  then show ?case by (auto simp: depth_inv_def count_taken_def)
qed

text \<open>
  The depth counter is the length of the queue whenever no send or receive is between its two steps;
  in every interleaving it differs by the sends not yet counted and the receive not yet counted (so it can
  be negative for a moment), and the recorded maximum is at most one above the queue's size.
\<close>

theorem queue_depth_accurate:
  assumes "depth_step\<^sup>*\<^sup>* (new_service sz) s"
  shows "rtQueueDepth s = int (length (rtOutbound s)) - int (rtUncounted s) + int (rtUntaken s)
    \<and> rtQueueDepth s \<le> rtMaxQueueDepth s \<and> rtMaxQueueDepth s \<le> int (rtQueueSize (new_service sz)) + 1"
proof -
  have "depth_inv (rtQueueSize (new_service sz)) s"
    using assms
  proof (induction rule: rtranclp_induct)
    case base
    show ?case by (simp add: depth_inv_def new_service_def)
  next
    case (step y z)
    then show ?case by (blast intro: depth_step_inv)
  qed
  then show ?thesis unfolding depth_inv_def by blast
qed

subsection \<open>Measurements\<close>

definition percent :: "go_float \<Rightarrow> bool" where
  "percent x \<longleftrightarrow> (case x of Num q \<Rightarrow> 0 \<le> q \<and> q \<le> 100 | _ \<Rightarrow> False)"

text \<open>
  Measurements are sent only in an authenticated session, and then with usages between 0 and 100
  whatever was measured: a value that is no number becomes 0, one outside the range the nearest bound.
  Without a session nothing is queued and the caller is told.
\<close>

theorem metrics_sanitized:
  assumes "send_metrics ctx_err pick ev s = Some (err, s')"
  shows "if rtSessionActive s then
      (err = None \<longrightarrow> (\<exists>cpu me d. rtOutbound s' = rtOutbound s
            @ [EvMetrics (mqNodeID ev) (mqAgentToken ev) (rtAgentVersion s) (format_utc_millis (mqCollectedAt ev)) cpu me d
                (mqTemperature ev) (mqNetworks ev)]
          \<and> percent cpu \<and> percent me \<and> percent d
          \<and> (percent (mqCPU ev) \<longrightarrow> cpu = mqCPU ev)) \<and> rtMetricsSent s' = rtMetricsSent s + 1)
      \<and> (err \<noteq> None \<longrightarrow> s' = s)
    else err = Some (Sentinel ErrSessionNotActive) \<and> s' = s"
proof -
  have p: "percent (sanitize_usage_or_zero x)" for x
    by (cases x) (auto simp: sanitize_usage_or_zero_def sanitize_usage_def percent_def Let_def)
  have i: "percent x \<Longrightarrow> sanitize_usage_or_zero x = x" for x
    by (cases x) (auto simp: sanitize_usage_or_zero_def sanitize_usage_def percent_def Let_def)
  show ?thesis
  proof (cases "rtSessionActive s")
    case True
    show ?thesis
    proof (cases err)
      case None
      with assms True have "rtOutbound s' = rtOutbound s @ [EvMetrics (mqNodeID ev) (mqAgentToken ev) (rtAgentVersion s)
            (format_utc_millis (mqCollectedAt ev)) (sanitize_usage_or_zero (mqCPU ev)) (sanitize_usage_or_zero (mqMemory ev))
            (sanitize_usage_or_zero (mqDisk ev)) (mqTemperature ev) (mqNetworks ev)]"
        "rtMetricsSent s' = rtMetricsSent s + 1"
        by (auto simp: send_metrics_def enqueue_critical_def send_outbound_def count_sent_def chan_offer_def update_queue_depth_def
            Let_def split: option.splits if_splits)
      with True None show ?thesis using p i [of "mqCPU ev"] by auto
    next
      case (Some e)
      with assms True have "s' = s"
        by (auto simp: send_metrics_def enqueue_critical_def split: option.splits if_splits)
      with True Some show ?thesis by simp
    qed
  next
    case False
    with assms show ?thesis by (simp add: send_metrics_def)
  qed
qed

definition sample_metrics :: metrics_request where
  "sample_metrics = \<lparr>mqNodeID = ''n'', mqAgentToken = ''t'', mqCollectedAt = 0, mqCPU = NaN, mqMemory = Num 50, mqDisk = Num 101,
     mqTemperature = Num 40, mqNetworks = []\<rparr>"

theorem metrics_sanitized_witness:
  "send_metrics None False sample_metrics (new_service 8) = Some (Some (Sentinel ErrSessionNotActive), new_service 8)
   \<and> (\<exists>s'. send_metrics None False sample_metrics ((new_service 8)\<lparr>rtSessionActive := True\<rparr>) = Some (None, s')
        \<and> rtMetricsSent s' = 1)"
proof -
  obtain s' where s: "send_metrics None False sample_metrics ((new_service 8)\<lparr>rtSessionActive := True\<rparr>) = Some (None, s')"
    by (simp add: send_metrics_def enqueue_critical_def send_outbound_def chan_offer_def new_service_def)
  from metrics_sanitized [OF s] have "rtMetricsSent s' = 1" by (simp add: new_service_def)
  moreover have "send_metrics None False sample_metrics (new_service 8) = Some (Some (Sentinel ErrSessionNotActive), new_service 8)"
    by (simp add: send_metrics_def new_service_def)
  ultimately show ?thesis using s by blast
qed


theorem queue_depth_accurate_witness:
  "\<exists>s. depth_step\<^sup>*\<^sup>* (new_service 4) s \<and> rtOutbound s = [] \<and> rtQueueDepth s = -1"
proof -
  let ?m = "EvTerminalError ''s'' ''e'' ''t''"
  obtain s1 where s1: "send_outbound ?m (new_service 4) = Some s1" "rtOutbound s1 = [?m]" "rtUncounted s1 = 1" "rtUntaken s1 = 0"
    by (simp add: send_outbound_def chan_offer_def new_service_def)
  obtain s2 where s2: "take_outbound s1 = Some (?m, s2)" "rtOutbound s2 = []" "rtUncounted s2 = 1" "rtUntaken s2 = 1"
    using s1 by (simp add: take_outbound_def)
  have "depth_step\<^sup>*\<^sup>* (new_service 4) (count_taken s2)"
    using depth_step.sent [OF s1(1)] depth_step.taken [OF s1(4) s2(1)] depth_step.uncounted [of s2] s2(4)
    by (auto intro: rtranclp.rtrancl_into_rtrancl)
  moreover from queue_depth_accurate [OF this] have "rtQueueDepth (count_taken s2) = -1"
    using s2 by (simp add: count_taken_def)
  ultimately show ?thesis using s2(2) by (auto simp: count_taken_def)
qed

subsection \<open>The target\<close>

text \<open>
  A target has a namespace that starts with a slash and a path between slashes, both the defaults when
  blank, and an \<open>http\<close> or \<open>https\<close> scheme with a host; every other address is refused.
\<close>

theorem realtime_target_normalized:
  assumes "normalize_realtime_target lib api_url namespace path = Inr t"
  shows "has_prefix (tgNamespace t) ''/'' \<and> has_prefix (tgPath t) ''/'' \<and> has_suffix (tgPath t) ''/''
    \<and> (trim_space namespace = [] \<longrightarrow> tgNamespace t = ''/agent-realtime'')
    \<and> (trim_space path = [] \<longrightarrow> tgPath t = ''/socket.io/'')
    \<and> (\<exists>u. (ulParse lib (trim_space api_url) = Inr u \<or> ulParse lib (''https://'' @ trim_space api_url) = Inr u)
        \<and> (urScheme u = ''http'' \<or> urScheme u = ''https'') \<and> urHost u \<noteq> []
        \<and> tgDialURL t = ulText lib (urScheme u) (urHost u) (tgPath t) [])"
proof -
  have pre: "has_prefix (lead_slash s) ''/''" for s by (auto simp: lead_slash_def)
  have pre2: "has_prefix (lead_slash s @ x) ''/''" for s x using pre [of s] by (auto simp: has_prefix_iff)
  have suf: "has_suffix (s @ ''/'') ''/''" for s by (simp add: has_suffix_def has_prefix_def)
  have d: "lead_slash default_realtime_namespace = ''/agent-realtime''" "lead_slash default_realtime_path = ''/socket.io/''"
    "has_suffix ''/socket.io/'' ''/''"
    by (simp_all add: lead_slash_def default_realtime_namespace_def default_realtime_path_def has_suffix_def has_prefix_def)
  show ?thesis using assms
    by (auto simp: normalize_realtime_target_def Let_def pre pre2 suf d split: if_splits sum.splits)
qed

definition sample_urls :: url_lib where
  "sample_urls = \<lparr>ulParse = (\<lambda>s. Inr \<lparr>urScheme = ''https'', urHost = ''h''\<rparr>), ulText = (\<lambda>a b c d. a @ ''://'' @ b @ c @ d)\<rparr>"

theorem realtime_target_normalized_witness:
  "\<exists>t. normalize_realtime_target sample_urls ''h'' [] [] = Inr t \<and> tgPath t = ''/socket.io/''"
proof -
  have "trim_space ''h'' = ''h''" by code_simp
  then obtain t where t: "normalize_realtime_target sample_urls ''h'' [] [] = Inr t"
    by (simp add: normalize_realtime_target_def sample_urls_def Let_def)
  with realtime_target_normalized [OF t] show ?thesis by simp
qed

end
