(* ===== verification/RealtimeConnection.thy ===== *)
theory RealtimeConnection
  imports Realtime Terminal TaskService "HOL-Library.List_Lexorder" "HOL-Library.Char_ord"
begin

text \<open>
  The inbound half of the realtime channel: \<open>internal/realtime/handlers.go\<close>, the connection in
  \<open>internal/realtime/client.go\<close> (\<open>connect\<close>, \<open>runConnection\<close>, \<open>Run\<close>) and the command handler of
  \<open>internal/agent/service.go\<close>. The socket library delivers events in some order; payloads are decoded
  JSON. Marshalling a value and reading it again sorts the members of objects; \<open>jlMarshal\<close> is the text
  \<open>json.Marshal\<close> gives and \<open>jlTrunc\<close> the integer a number truncates to.
\<close>

record json_lib =
  jlMarshal :: "json \<Rightarrow> string"
  jlTrunc :: "string \<Rightarrow> int"

subsection \<open>Inbound messages\<close>

text \<open>
  A decoded value marshalled and read again: the members of every object in the order of their names, which
  are distinct. Numbers are in the form \<open>json.Marshal\<close> writes them.
\<close>

definition sort_members :: "(string \<times> json) list \<Rightarrow> (string \<times> json) list" where
  "sort_members ms = sort_key fst ms"

fun remarshal :: "json \<Rightarrow> json" where
  "remarshal (JArr xs) = JArr (map remarshal xs)"
| "remarshal (JObj ms) = JObj (sort_members (map (\<lambda>(k, v). (k, remarshal v)) ms))"
| "remarshal JNull = JNull"
| "remarshal (JBool b) = JBool b"
| "remarshal (JNum n) = JNum n"
| "remarshal (JStr s) = JStr s"

definition task_fields :: "json_lib \<Rightarrow> task field list" where
  "task_fields lib =
     [(''id'', dec_string ''Task.id'' taskID_update), (''type'', dec_string ''Task.type'' taskType_update),
      (''payload'', \<lambda>j t. (None, t\<lparr>taskPayload := jlMarshal lib j\<rparr>)),
      (''timeoutSeconds'', dec_int ''Task.timeoutSeconds'' taskTimeoutSeconds_update)]"

definition zero_task :: task where
  "zero_task = \<lparr>taskID = [], taskType = [], taskPayload = [], taskTimeoutSeconds = 0\<rparr>"

definition decode_task :: "json_lib \<Rightarrow> json \<Rightarrow> goerror option \<times> task" where
  "decode_task lib j = decode_struct ''api.Task'' (task_fields lib) j zero_task"

record envelope =
  enType :: string
  enTask :: "task option"

text \<open>A field of pointer type: \<open>null\<close> clears it, anything else is decoded into a new value.\<close>

definition envelope_fields :: "json_lib \<Rightarrow> envelope field list" where
  "envelope_fields lib =
     [(''type'', dec_string ''inboundEnvelope.type'' enType_update),
      (''task'', \<lambda>j e. if j = JNull then (None, e\<lparr>enTask := None\<rparr>)
         else (case decode_task lib j of (err, t) \<Rightarrow> (err, e\<lparr>enTask := Some t\<rparr>)))]"

definition decode_envelope :: "json_lib \<Rightarrow> json \<Rightarrow> goerror option \<times> envelope" where
  "decode_envelope lib j = decode_struct ''realtime.inboundEnvelope'' (envelope_fields lib) j \<lparr>enType = [], enTask = None\<rparr>"

text \<open>A nil \<open>json.RawMessage\<close> is marshalled as \<open>null\<close>.\<close>

definition resend_task :: "task \<Rightarrow> task" where
  "resend_task t = (if taskPayload t = [] then t\<lparr>taskPayload := ''null''\<rparr> else t)"

text \<open>The alternative names of a task's fields.\<close>

definition rename_members :: "json_lib \<Rightarrow> (string \<times> json) list \<Rightarrow> (string \<times> json) list" where
  "rename_members lib ms0 =
     (let ms1 = (case map_of ms0 ''taskId'' of Some (JStr s) \<Rightarrow> if s \<noteq> [] then AList.update ''id'' (JStr s) ms0 else ms0 | _ \<Rightarrow> ms0);
          ms2 = (case map_of ms1 ''action'' of Some (JStr s) \<Rightarrow> if s \<noteq> [] then AList.update ''type'' (JStr s) ms1 else ms1 | _ \<Rightarrow> ms1);
          ms3 = (case map_of ms2 ''data'' of Some d \<Rightarrow> AList.update ''payload'' d ms2 | None \<Rightarrow> ms2)
      in case map_of ms3 ''timeout'' of
           Some (JNum n) \<Rightarrow> AList.update ''timeoutSeconds'' (JNum (int_text (jlTrunc lib n))) ms3 | _ \<Rightarrow> ms3)"

text \<open>\<open>dispatchEvent\<close> up to the envelope it hands on; \<open>None\<close>: the payload is ignored.\<close>

definition wrapped_task :: "json_lib \<Rightarrow> json \<Rightarrow> envelope option" where
  "wrapped_task lib j =
     (case decode_envelope lib j of
        (None, e) \<Rightarrow> (case enTask e of Some t \<Rightarrow> if taskID t \<noteq> [] \<or> taskType t \<noteq> [] then Some e else None | None \<Rightarrow> None)
      | (Some err, e) \<Rightarrow> None)"

definition direct_task :: "json_lib \<Rightarrow> json \<Rightarrow> envelope option" where
  "direct_task lib j =
     (case decode_task lib (case j of JObj ms \<Rightarrow> JObj (sort_members (rename_members lib ms)) | _ \<Rightarrow> j) of
        (None, t) \<Rightarrow> if taskID t = [] then None else Some \<lparr>enType = ''task.dispatch'', enTask = Some t\<rparr>
      | (Some err, t) \<Rightarrow> None)"

definition dispatch_envelope :: "json_lib \<Rightarrow> json \<Rightarrow> envelope option" where
  "dispatch_envelope lib j =
     (if j = JNull then None
      else map_option (\<lambda>e. e\<lparr>enTask := map_option resend_task (enTask e)\<rparr>)
        (case wrapped_task lib (remarshal j) of Some e \<Rightarrow> Some e | None \<Rightarrow> direct_task lib (remarshal j)))"

text \<open>The first of the extra arguments that looks like a task, or else the payload.\<close>

fun pick_argument :: "json \<Rightarrow> json list \<Rightarrow> json" where
  "pick_argument payload [] = payload"
| "pick_argument payload (a # as) =
     (case a of
        JObj ms \<Rightarrow> if map_of ms ''id'' \<noteq> None \<or> map_of ms ''taskId'' \<noteq> None \<or> map_of ms ''task'' \<noteq> None then a
                   else pick_argument payload as
      | _ \<Rightarrow> pick_argument payload as)"

subsection \<open>The command handler\<close>

text \<open>
  \<open>realtimeCommandHandler\<close>: the task service and the terminal manager, either of which may be absent, and
  what the world answers to the terminal operations.
\<close>

record command_handler =
  hdTasks :: "dispatch_state option"
  hdTerminal :: "term_manager option"
  hdInput :: "(nat \<times> string) list"

record handler_env =
  hnShells :: shell_env
  hnRootAllowed :: bool
  hnSetsize :: "nat \<Rightarrow> winsize \<Rightarrow> goerror option"
  hnKill :: "goerror option"
  hnBadInput :: "string \<Rightarrow> string"
  hnWrite :: "goerror option"

datatype inbound =
    InTask "task option"
  | InTerminalStart string int int bool
  | InTerminalInput string string
  | InTerminalResize string int int
  | InTerminalStop string string
  | InOther string

definition no_terminal :: goerror where
  "no_terminal = Plain ''terminal manager is not configured''"

definition dispatch_realtime_task :: "task \<Rightarrow> command_handler \<Rightarrow> bool \<times> command_handler" where
  "dispatch_realtime_task t h =
     (case hdTasks h of
        None \<Rightarrow> (False, h)
      | Some d \<Rightarrow> (case dispatch_task t d of (ok, d1) \<Rightarrow> (ok, h\<lparr>hdTasks := Some d1\<rparr>)))"

definition on_terminal :: "(term_manager \<Rightarrow> goerror option \<times> term_manager) \<Rightarrow> command_handler \<Rightarrow> goerror option \<times> command_handler" where
  "on_terminal f h =
     (case hdTerminal h of
        None \<Rightarrow> (Some no_terminal, h)
      | Some m \<Rightarrow> (case f m of (err, m1) \<Rightarrow> (err, h\<lparr>hdTerminal := Some m1\<rparr>)))"

definition write_terminal_input :: "handler_env \<Rightarrow> string \<Rightarrow> string \<Rightarrow> command_handler \<Rightarrow> goerror option \<times> command_handler" where
  "write_terminal_input env sid payload h =
     (case hdTerminal h of
        None \<Rightarrow> (Some no_terminal, h)
      | Some m \<Rightarrow> (case write_input m sid payload (hnBadInput env) (hnWrite env) of
           (err, None) \<Rightarrow> (err, h) | (err, Some w) \<Rightarrow> (err, h\<lparr>hdInput := hdInput h @ [w]\<rparr>)))"

text \<open>\<open>handleMessage\<close> on a decoded message.\<close>

definition handle_message :: "handler_env \<Rightarrow> inbound \<Rightarrow> command_handler \<Rightarrow> goerror option \<times> command_handler" where
  "handle_message env m h =
     (case m of
        InTask None \<Rightarrow> (Some (Plain ''task.dispatch is missing task payload''), h)
      | InTask (Some t) \<Rightarrow> (None, snd (dispatch_realtime_task t h))
      | InTerminalStart sid cols rows as_root \<Rightarrow>
          on_terminal (start_session (hnShells env) (hnRootAllowed env) sid cols rows as_root) h
      | InTerminalInput sid payload \<Rightarrow> write_terminal_input env sid payload h
      | InTerminalResize sid cols rows \<Rightarrow> on_terminal (resize_session (hnSetsize env) sid cols rows) h
      | InTerminalStop sid reason \<Rightarrow> on_terminal (stop_session (hnKill env) sid reason) h
      | InOther ty \<Rightarrow> (None, h))"

text \<open>The message an envelope from \<open>dispatchEvent\<close> is: its type decides, and a task alone has no session.\<close>

definition envelope_message :: "envelope \<Rightarrow> inbound" where
  "envelope_message e =
     (if enType e = ''task.dispatch'' then InTask (enTask e)
      else if enType e = ''terminal.start'' then InTerminalStart [] 0 0 False
      else if enType e = ''terminal.input'' then InTerminalInput [] []
      else if enType e = ''terminal.resize'' then InTerminalResize [] 0 0
      else if enType e = ''terminal.stop'' then InTerminalStop [] []
      else InOther (enType e))"

definition dispatch_event :: "json_lib \<Rightarrow> handler_env \<Rightarrow> json \<Rightarrow> command_handler \<Rightarrow> command_handler" where
  "dispatch_event lib env j h =
     (case dispatch_envelope lib j of None \<Rightarrow> h | Some e \<Rightarrow> snd (handle_message env (envelope_message e) h))"

text \<open>\<open>dispatchTerminalEvent\<close>: an error of the handler is reported for the session, unless its id is blank.\<close>

definition session_of :: "inbound \<Rightarrow> string" where
  "session_of m = (case m of InTerminalStart s _ _ _ \<Rightarrow> s | InTerminalInput s _ \<Rightarrow> s | InTerminalResize s _ _ \<Rightarrow> s
     | InTerminalStop s _ \<Rightarrow> s | _ \<Rightarrow> [])"

definition dispatch_terminal_event :: "handler_env \<Rightarrow> int \<Rightarrow> inbound \<Rightarrow> command_handler \<Rightarrow> realtime \<Rightarrow>
    (command_handler \<times> realtime) option" where
  "dispatch_terminal_event env now m h s =
     (case handle_message env m h of
        (None, h1) \<Rightarrow> Some (h1, s)
      | (Some e, h1) \<Rightarrow>
          if trim_space (session_of m) = [] then Some (h1, s)
          else map_option (\<lambda>(err, s1). (h1, s1)) (rt_terminal_error None False (session_of m) (err_text e) now s))"

subsection \<open>The connection\<close>

text \<open>
  The callbacks \<open>connect\<close> registers. \<open>cnNodeID\<close> and \<open>cnToken\<close> are the credentials it read when it began;
  the three channels hold at most one value; \<open>cnCredentials\<close> is what \<open>s.credentials()\<close> gives now.
\<close>

record connection =
  cnNodeID :: string
  cnToken :: string
  cnCredentials :: "string \<times> string"
  cnAuthOK :: bool
  cnConnectErr :: "goerror option"
  cnDisconnect :: "goerror option"
  cnEmitted :: "outbound list"
  cnAcks :: "desired_snapshot option list"

definition offer_once :: "goerror \<Rightarrow> goerror option \<Rightarrow> goerror option" where
  "offer_once e c = (case c of None \<Rightarrow> Some e | Some x \<Rightarrow> Some x)"

record auth_ack =
  akAuthenticated :: bool
  akRootAccess :: "desired_snapshot option"

record token_rotate =
  trAgentToken :: string
  trExpiresAt :: string

text \<open>Decoded payloads: the ack, the snapshot of an update, the two texts of an error, the new token.\<close>

datatype sock_event =
    SockConnect
  | SockAuthAck auth_ack
  | SockRootAccess "desired_snapshot option"
  | SockAuthError string string
  | SockAgentError
  | SockTokenRotate token_rotate
  | SockConnectError string
  | SockDisconnect string
  | SockManagerError goerror

text \<open>
  What the agent's handler of a rotated token does (\<open>NewService\<close> in \<open>internal/agent/service.go\<close>): the
  token is trimmed, the identity must be complete, persisting it may fail.
\<close>

definition rotate_token :: "(string \<times> string \<Rightarrow> goerror option) \<Rightarrow> token_rotate \<Rightarrow> connection \<Rightarrow> goerror option \<times> connection" where
  "rotate_token persist ev c =
     (let node = fst (cnCredentials c); token = trim_space (trAgentToken ev) in
      if node = [] \<or> token = [] then (Some (Plain ''rotated agent token payload is incomplete''), c)
      else (case persist (node, token) of
         Some e \<Rightarrow> (Some e, c)
       | None \<Rightarrow> (None, c\<lparr>cnCredentials := (node, token)\<rparr>)))"

definition emit_auth :: "agent_report option \<Rightarrow> string \<Rightarrow> string \<Rightarrow> realtime \<Rightarrow> connection \<Rightarrow> connection" where
  "emit_auth report node token s c = c\<lparr>cnEmitted := cnEmitted c @ [auth_payload report node token s]\<rparr>"

definition auth_error_text :: "string \<Rightarrow> string \<Rightarrow> string" where
  "auth_error_text message err =
     (let m1 = trim_space message; m2 = (if m1 = [] then trim_space err else m1)
      in if m2 = [] then ''unknown auth error'' else m2)"

record sock_env =
  snReport :: "agent_report option"
  snHasRotate :: bool
  snPersist :: "string \<times> string \<Rightarrow> goerror option"

definition on_event :: "sock_env \<Rightarrow> sock_event \<Rightarrow> connection \<times> realtime \<Rightarrow> connection \<times> realtime" where
  "on_event env ev cs =
     (case cs of (c, s) \<Rightarrow>
        case ev of
          SockConnect \<Rightarrow> (emit_auth (snReport env) (cnNodeID c) (cnToken c) s c, s)
        | SockAuthAck ack \<Rightarrow>
            if \<not> akAuthenticated ack
            then (c\<lparr>cnConnectErr := offer_once (Plain ''auth error: server returned authenticated=false'') (cnConnectErr c)\<rparr>, s)
            else (c\<lparr>cnAcks := cnAcks c @ [akRootAccess ack], cnAuthOK := True\<rparr>, s\<lparr>rtSessionActive := True\<rparr>)
        | SockRootAccess snap \<Rightarrow>
            (case snap of
               None \<Rightarrow> (c, s)
             | Some d \<Rightarrow> (emit_auth (snReport env) (cnNodeID c) (cnToken c) s (c\<lparr>cnAcks := cnAcks c @ [Some d]\<rparr>), s))
        | SockAuthError message err \<Rightarrow>
            (c\<lparr>cnConnectErr := offer_once (Plain (''auth error: '' @ auth_error_text message err)) (cnConnectErr c)\<rparr>,
             s\<lparr>rtSessionActive := False\<rparr>)
        | SockAgentError \<Rightarrow> (c, s)
        | SockTokenRotate tr \<Rightarrow>
            if trim_space (trAgentToken tr) = [] \<or> \<not> snHasRotate env then (c, s)
            else (case rotate_token (snPersist env) tr c of
                (Some e, c1) \<Rightarrow> (c1, s)
              | (None, c1) \<Rightarrow> (emit_auth (snReport env) (fst (cnCredentials c1)) (snd (cnCredentials c1)) s c1, s))
        | SockConnectError text \<Rightarrow>
            (c\<lparr>cnConnectErr := offer_once (Plain (''namespace connect failure: '' @ text)) (cnConnectErr c)\<rparr>, s)
        | SockDisconnect reason \<Rightarrow>
            (c\<lparr>cnDisconnect := offer_once (Plain (''socket.io disconnected: '' @ reason)) (cnDisconnect c)\<rparr>,
             s\<lparr>rtSessionActive := False\<rparr>)
        | SockManagerError e \<Rightarrow>
            (c\<lparr>cnConnectErr := offer_once (the (classify_dial_error (Some e))) (cnConnectErr c)\<rparr>, s\<lparr>rtSessionActive := False\<rparr>))"

definition on_events :: "sock_env \<Rightarrow> sock_event list \<Rightarrow> connection \<times> realtime \<Rightarrow> connection \<times> realtime" where
  "on_events env evs cs = fold (on_event env) evs cs"

definition new_connection :: "string \<times> string \<Rightarrow> connection" where
  "new_connection creds = \<lparr>cnNodeID = fst creds, cnToken = snd creds, cnCredentials = creds, cnAuthOK = False,
     cnConnectErr = None, cnDisconnect = None, cnEmitted = [], cnAcks = []\<rparr>"

text \<open>
  The \<open>select\<close> of \<open>connect\<close> after the events so far: which ready case it takes. \<open>None\<close>: it still waits,
  or the chosen case is not ready.
\<close>

datatype connect_choice = ChooseCtxDone | ChooseTimeout | ChooseConnectErr | ChooseAuthOK

definition connect_timeout :: "int \<Rightarrow> int" where
  "connect_timeout request_timeout = (if request_timeout \<le> 0 then 10 * second else request_timeout)"

definition connect_select :: "goerror option \<Rightarrow> bool \<Rightarrow> string \<Rightarrow> connect_choice \<Rightarrow> connection \<Rightarrow> (goerror + connection) option" where
  "connect_select ctx_err timed_out timeout_text ch c =
     (case ch of
        ChooseCtxDone \<Rightarrow> map_option Inl ctx_err
      | ChooseTimeout \<Rightarrow> if timed_out then Some (Inl (Plain (''dial socket.io failed: namespace auth timeout after '' @ timeout_text))) else None
      | ChooseConnectErr \<Rightarrow> map_option (\<lambda>e. Inl (wrap_prefix ''dial socket.io failed: '' e)) (cnConnectErr c)
      | ChooseAuthOK \<Rightarrow> if cnAuthOK c then Some (Inr (c\<lparr>cnAuthOK := False\<rparr>)) else None)"

text \<open>\<open>connect\<close> as a whole: the credentials are checked, the events come, the \<open>select\<close> takes a case.\<close>

definition connect :: "sock_env \<Rightarrow> string \<times> string \<Rightarrow> sock_event list \<Rightarrow> goerror option \<Rightarrow> bool \<Rightarrow> string \<Rightarrow> connect_choice \<Rightarrow>
    realtime \<Rightarrow> ((goerror + connection) \<times> realtime) option" where
  "connect env creds evs ctx_err timed_out timeout_text ch s =
     (if trim_space (fst creds) = [] \<or> trim_space (snd creds) = []
      then Some (Inl (Plain ''agent credentials are missing''), s)
      else (case on_events env evs (new_connection creds, s) of (c, s1) \<Rightarrow>
         map_option (\<lambda>r. (r, s1)) (connect_select ctx_err timed_out timeout_text ch c)))"

text \<open>The \<open>select\<close> of \<open>runConnection\<close>: it reads the disconnect and the writer's channel, nothing else.\<close>

datatype run_choice = RunCtxDone | RunDisconnected | RunWriterFailed

definition run_connection :: "bool \<Rightarrow> goerror option \<Rightarrow> run_choice \<Rightarrow> connection \<Rightarrow> goerror option option" where
  "run_connection ctx_done writer_err ch c =
     (case ch of
        RunCtxDone \<Rightarrow> if ctx_done then Some None else None
      | RunDisconnected \<Rightarrow> map_option Some (cnDisconnect c)
      | RunWriterFailed \<Rightarrow> map_option Some writer_err)"

subsection \<open>The loop\<close>

text \<open>
  One turn of \<open>Run\<close>: whether the context is done, what the self-check, \<open>connect\<close> and then the connection
  gave, and whether the sleep completed. The result says whether the loop goes on and after which delay.
\<close>

record run_env =
  rnCtxDone :: bool
  rnConnect :: "goerror option"
  rnConnection :: "goerror option"
  rnSleepDone :: bool
  rnJitter :: "int \<Rightarrow> int"
  rnRandom :: "int \<Rightarrow> int"

record run_state =
  rlAttempt :: int
  rlService :: realtime

datatype run_next = RunReturns | RunAgain int

definition after_failure :: "bool \<Rightarrow> run_env \<Rightarrow> int \<Rightarrow> realtime \<Rightarrow> run_next \<times> run_state" where
  "after_failure ratio_positive env attempt s =
     (let s1 = s\<lparr>rtReconnects := rtReconnects s + 1\<rparr>;
          delay = backoff_delay attempt ratio_positive (rnJitter env) (rnRandom env)
      in if rnSleepDone env then (RunAgain delay, \<lparr>rlAttempt = attempt + 1, rlService = s1\<rparr>)
         else (RunReturns, \<lparr>rlAttempt = attempt, rlService = s1\<rparr>))"

definition run_turn :: "bool \<Rightarrow> run_env \<Rightarrow> run_state \<Rightarrow> run_next \<times> run_state" where
  "run_turn ratio_positive env r =
     (if rnCtxDone env then (RunReturns, r)
      else
        (let s = (rlService r)\<lparr>rtSelfChecked := True\<rparr> in
         case rnConnect env of
           Some e \<Rightarrow> after_failure ratio_positive env (rlAttempt r) s
         | None \<Rightarrow>
             (case rnConnection env of
                None \<Rightarrow> (RunReturns, \<lparr>rlAttempt = 0, rlService = s\<rparr>)
              | Some e \<Rightarrow> if err_is e CtxCanceled then (RunReturns, \<lparr>rlAttempt = 0, rlService = s\<rparr>)
                  else after_failure ratio_positive env 0 s)))"

fun run_service :: "bool \<Rightarrow> run_env list \<Rightarrow> run_state \<Rightarrow> int list \<times> run_next \<times> run_state" where
  "run_service ratio_positive [] r = ([], RunAgain 0, r)"
| "run_service ratio_positive (env # envs) r =
     (case run_turn ratio_positive env r of
        (RunReturns, r1) \<Rightarrow> ([], RunReturns, r1)
      | (RunAgain d, r1) \<Rightarrow> (case run_service ratio_positive envs r1 of (ds, n, r2) \<Rightarrow> (d # ds, n, r2)))"

subsection \<open>Sessions follow acknowledgements\<close>

definition opens_session :: "sock_event \<Rightarrow> bool" where
  "opens_session ev = (case ev of SockAuthAck a \<Rightarrow> akAuthenticated a | _ \<Rightarrow> False)"

definition ends_session :: "sock_event \<Rightarrow> bool" where
  "ends_session ev = (case ev of SockAuthError _ _ \<Rightarrow> True | SockDisconnect _ \<Rightarrow> True | SockManagerError _ \<Rightarrow> True | _ \<Rightarrow> False)"

lemma on_event_session: "rtSessionActive (snd (on_event env ev cs))
    = (if opens_session ev then True else if ends_session ev then False else rtSessionActive (snd cs))"
  by (cases cs; cases ev)
     (auto simp: on_event_def opens_session_def ends_session_def rotate_token_def emit_auth_def Let_def split: option.splits)

lemma on_event_auth: "cnAuthOK (fst (on_event env ev cs)) = (opens_session ev \<or> cnAuthOK (fst cs))"
  by (cases cs; cases ev)
     (auto simp: on_event_def opens_session_def rotate_token_def emit_auth_def Let_def split: option.splits)

lemma on_events_auth: "cnAuthOK (fst (on_events env evs cs)) = (list_ex opens_session evs \<or> cnAuthOK (fst cs))"
  by (induction evs arbitrary: cs) (auto simp: on_events_def on_event_auth)

lemma on_events_snoc: "on_events env (evs @ [ev]) cs = on_event env ev (on_events env evs cs)"
  by (simp add: on_events_def)

lemma session_active_iff:
  assumes "\<not> rtSessionActive s"
  shows "rtSessionActive (snd (on_events env evs (c, s)))
      \<longleftrightarrow> (\<exists>before ack after. evs = before @ ack # after \<and> opens_session ack \<and> \<not> list_ex ends_session after)"
proof (induction evs rule: rev_induct)
  case Nil
  then show ?case using assms by (simp add: on_events_def)
next
  case (snoc ev evs)
  show ?case
  proof (cases "opens_session ev")
    case True
    then have "evs @ [ev] = evs @ ev # [] \<and> opens_session ev \<and> \<not> list_ex ends_session []" by simp
    moreover have "rtSessionActive (snd (on_events env (evs @ [ev]) (c, s)))" using True by (simp add: on_events_snoc on_event_session)
    ultimately show ?thesis by blast
  next
    case False
    have "(\<exists>before ack after. evs @ [ev] = before @ ack # after \<and> opens_session ack \<and> \<not> list_ex ends_session after)
      \<longleftrightarrow> \<not> ends_session ev \<and> (\<exists>before ack after. evs = before @ ack # after \<and> opens_session ack \<and> \<not> list_ex ends_session after)"
      (is "?l = (_ \<and> ?r)")
    proof
      assume ?l
      then obtain b a r where r: "evs @ [ev] = b @ a # r" "opens_session a" "\<not> list_ex ends_session r" by blast
      from r(1,2) False have "r \<noteq> []" by auto
      then obtain r' x where r': "r = r' @ [x]" by (cases r rule: rev_cases) auto
      with r(1) have "evs = b @ a # r'" "x = ev" by auto
      with r(3) r' have "\<not> ends_session ev" "\<not> list_ex ends_session r'" by simp_all
      note this \<open>evs = b @ a # r'\<close>
      with r(2) show "\<not> ends_session ev \<and> ?r" by blast
    next
      assume "\<not> ends_session ev \<and> ?r"
      then obtain b a r where "evs = b @ a # r" "opens_session a" "\<not> list_ex ends_session r" "\<not> ends_session ev" by blast
      then have "evs @ [ev] = b @ a # (r @ [ev])" "\<not> list_ex ends_session (r @ [ev])" by simp_all
      with \<open>opens_session a\<close> show ?l by blast
    qed
    with snoc False show ?thesis by (simp add: on_events_snoc on_event_session)
  qed
qed

lemma connect_needs_ack:
  "connect env creds evs ctx_err timed_out tt ch s = Some (Inr c', s') \<Longrightarrow>
      list_ex opens_session evs \<and> trim_space (fst creds) \<noteq> [] \<and> trim_space (snd creds) \<noteq> []"
  using on_events_auth [of env evs "(new_connection creds, s)"]
  by (auto simp: connect_def connect_select_def new_connection_def split: if_splits prod.splits connect_choice.splits)

text \<open>
  C32. The session counts as authenticated exactly when the server acknowledged it and nothing ended it
  since: the last of the events that open or end a session is an acknowledgement. \<open>connect\<close> succeeds only
  after one, with credentials that are not blank.
\<close>

theorem session_follows_acknowledgement:
  assumes "\<not> rtSessionActive s"
  shows "(rtSessionActive (snd (on_events env evs (c, s)))
      \<longleftrightarrow> (\<exists>before ack after. evs = before @ ack # after \<and> opens_session ack \<and> \<not> list_ex ends_session after))
    \<and> (connect env creds evs ctx_err timed_out tt ch s = Some (Inr c', s') \<longrightarrow>
      list_ex opens_session evs \<and> trim_space (fst creds) \<noteq> [] \<and> trim_space (snd creds) \<noteq> [])"
  using session_active_iff [OF assms, of env evs c] connect_needs_ack [of env creds evs ctx_err timed_out tt ch s c' s'] by blast

definition sample_sock :: sock_env where
  "sample_sock = \<lparr>snReport = None, snHasRotate = True, snPersist = (\<lambda>_. None)\<rparr>"

definition sample_ack :: sock_event where
  "sample_ack = SockAuthAck \<lparr>akAuthenticated = True, akRootAccess = None\<rparr>"

theorem session_follows_acknowledgement_witness:
  "rtSessionActive (snd (on_events sample_sock [SockConnect, sample_ack] (new_connection (''n'', ''t''), new_service 8)))"
proof -
  have "\<not> rtSessionActive (new_service 8)" by (simp add: new_service_def)
  moreover have "[SockConnect, sample_ack] = [SockConnect] @ sample_ack # [] \<and> opens_session sample_ack \<and> \<not> list_ex ends_session []"
    by (simp add: opens_session_def sample_ack_def)
  ultimately show ?thesis
    using session_follows_acknowledgement [of "new_service 8" sample_sock "[SockConnect, sample_ack]"] by blast
qed

text \<open>
  An authentication error that comes after \<open>connect\<close> has returned ends the session but not the
  connection: the only channels \<open>runConnection\<close> reads stay empty, so it goes on waiting, measurements are
  refused, and nothing connects again until the server closes the socket or the agent stops.
\<close>

theorem auth_error_strands_connection:
  assumes "cnDisconnect c = None"
  shows "case on_event env (SockAuthError message err) (c, s) of (c1, s1) \<Rightarrow>
      \<not> rtSessionActive s1 \<and> run_connection False None ch c1 = None
      \<and> send_metrics ctx_err pick ev s1 = Some (Some (Sentinel ErrSessionNotActive), s1)"
  using assms by (cases ch) (simp_all add: on_event_def run_connection_def send_metrics_def)

theorem auth_error_strands_connection_witness:
  "run_connection False None RunDisconnected
     (fst (on_event sample_sock (SockAuthError ''expired'' []) (new_connection (''n'', ''t''), new_service 8))) = None"
proof -
  have "cnDisconnect (new_connection (''n'', ''t'')) = None" by (simp add: new_connection_def)
  from auth_error_strands_connection [OF this, where env=sample_sock and message="''expired''"
      and err="[]" and s="new_service 8" and ch=RunDisconnected]
  show ?thesis by (simp add: split_beta)
qed

text \<open>
  After a token rotation the connection authenticates once with the new token, but an update of the
  root access makes it authenticate again with the token it was opened with.
\<close>

theorem stale_token_after_rotation:
  assumes "snHasRotate env" "snPersist env (fst (cnCredentials c), trim_space (trAgentToken tr)) = None"
    and "trim_space (trAgentToken tr) \<noteq> []" "fst (cnCredentials c) \<noteq> []"
  shows "cnEmitted (fst (on_events env [SockTokenRotate tr, SockRootAccess (Some d)] (c, s)))
    = cnEmitted c @ [auth_payload (snReport env) (fst (cnCredentials c)) (trim_space (trAgentToken tr)) s,
        auth_payload (snReport env) (cnNodeID c) (cnToken c) s]"
  using assms by (simp add: on_events_def on_event_def rotate_token_def emit_auth_def Let_def)

theorem stale_token_after_rotation_witness:
  "cnEmitted (fst (on_events sample_sock [SockTokenRotate \<lparr>trAgentToken = ''new'', trExpiresAt = []\<rparr>, SockRootAccess (Some \<lparr>dsProfile = ''off'', dsUpdatedAt = []\<rparr>)]
       (new_connection (''n'', ''old''), new_service 8)))
     = [EvAuth ''n'' ''new'' [] [] [] None None, EvAuth ''n'' ''old'' [] [] [] None None]"
proof -
  have "trim_space ''new'' = ''new''" by code_simp
  then show ?thesis
    using stale_token_after_rotation [of sample_sock "new_connection (''n'', ''old'')" "\<lparr>trAgentToken = ''new'', trExpiresAt = []\<rparr>"
        "\<lparr>dsProfile = ''off'', dsUpdatedAt = []\<rparr>" "new_service 8"]
    by (simp add: sample_sock_def new_connection_def auth_payload_def new_service_def)
qed

subsection \<open>Dispatched payloads\<close>

lemma task_field_lookup:
  "find_field (task_fields lib) ''action'' = None" "find_field (task_fields lib) ''data'' = None"
  "find_field (task_fields lib) ''taskId'' = None" "find_field (task_fields lib) ''timeout'' = None"
  "find_field (task_fields lib) ''id'' = Some (dec_string ''Task.id'' taskID_update)"
  "find_field (task_fields lib) ''type'' = Some (dec_string ''Task.type'' taskType_update)"
  "find_field (task_fields lib) ''payload'' = Some (\<lambda>j t. (None, t\<lparr>taskPayload := jlMarshal lib j\<rparr>))"
  "find_field (task_fields lib) ''timeoutSeconds'' = Some (dec_int ''Task.timeoutSeconds'' taskTimeoutSeconds_update)"
  by (simp_all add: find_field_def task_fields_def fold_name_def runes_ascii ascii_lower_def byte_in_def)

lemma envelope_field_lookup:
  "find_field (envelope_fields lib) ''action'' = None" "find_field (envelope_fields lib) ''data'' = None"
  "find_field (envelope_fields lib) ''taskId'' = None" "find_field (envelope_fields lib) ''timeout'' = None"
  by (simp_all add: find_field_def envelope_fields_def fold_name_def runes_ascii ascii_lower_def byte_in_def)

lemma alias_members_sorted:
  "sort_members [(''action'', a), (''data'', d), (''taskId'', i), (''timeout'', n), (''id'', i), (''type'', a), (''payload'', d), (''timeoutSeconds'', m)]
   = [(''action'', a), (''data'', d), (''id'', i), (''payload'', d), (''taskId'', i), (''timeout'', n), (''timeoutSeconds'', m), (''type'', a)]"
  by (simp add: sort_members_def less_char_def less_eq_char_def)


definition alias_payload :: "string \<Rightarrow> string \<Rightarrow> json \<Rightarrow> string \<Rightarrow> json" where
  "alias_payload i a d n = JObj [(''taskId'', JStr i), (''action'', JStr a), (''data'', d), (''timeout'', JNum n)]"

lemma remarshal_alias: "remarshal (alias_payload i a d n)
    = JObj [(''action'', JStr a), (''data'', remarshal d), (''taskId'', JStr i), (''timeout'', JNum n)]"
  by (simp add: alias_payload_def sort_members_def less_char_def less_eq_char_def)

lemma alias_not_null: "alias_payload i a d n \<noteq> JNull"
  by (simp add: alias_payload_def)

lemma wrapped_alias: "wrapped_task lib (remarshal (alias_payload i a d n)) = None"
  by (simp add: remarshal_alias wrapped_task_def decode_envelope_def decode_struct_def envelope_field_lookup)

text \<open>
  A dispatch that names the fields of its task \<open>taskId\<close>, \<open>action\<close>, \<open>data\<close> and \<open>timeout\<close> is
  understood as the same task as one that names them \<open>id\<close>, \<open>type\<close>, \<open>payload\<close> and \<open>timeoutSeconds\<close>, the
  timeout truncated to an integer.
\<close>

theorem alternative_names_dispatch:
  assumes "i \<noteq> []" "a \<noteq> []" "jlMarshal lib (remarshal d) \<noteq> []"
    and "- (2 ^ 63) \<le> jlTrunc lib n" "jlTrunc lib n < 2 ^ 63"
  shows "dispatch_event lib env (alias_payload i a d n) h
    = snd (dispatch_realtime_task \<lparr>taskID = i, taskType = a, taskPayload = jlMarshal lib (remarshal d), taskTimeoutSeconds = jlTrunc lib n\<rparr> h)"
proof -
  have "direct_task lib (remarshal (alias_payload i a d n))
      = Some \<lparr>enType = ''task.dispatch'', enTask = Some \<lparr>taskID = i, taskType = a, taskPayload = jlMarshal lib (remarshal d), taskTimeoutSeconds = jlTrunc lib n\<rparr>\<rparr>"
    using assms(1-3) parse_int64_int_text [OF assms(4,5)]
    by (simp add: remarshal_alias direct_task_def rename_members_def alias_members_sorted decode_task_def decode_struct_def
        task_field_lookup dec_string_def dec_int_def first_error_def zero_task_def)
  with assms(3) show ?thesis
    by (simp add: dispatch_event_def dispatch_envelope_def wrapped_alias resend_task_def envelope_message_def handle_message_def
        alias_not_null)
qed

definition sample_json :: json_lib where
  "sample_json = \<lparr>jlMarshal = json_text, jlTrunc = (\<lambda>_. 30)\<rparr>"

definition sample_handler_env :: handler_env where
  "sample_handler_env = \<lparr>hnShells = sample_shells, hnRootAllowed = False, hnSetsize = (\<lambda>_ _. None), hnKill = None,
     hnBadInput = (\<lambda>_. ''illegal base64 data''), hnWrite = None\<rparr>"

definition bare_handler :: command_handler where
  "bare_handler = \<lparr>hdTasks = Some \<lparr>dpRunning = [], dpHandlers = []\<rparr>, hdTerminal = None, hdInput = []\<rparr>"

theorem alternative_names_dispatch_witness:
  "map_option dpRunning (hdTasks (dispatch_event sample_json sample_handler_env (alias_payload ''t1'' ''agent.ping'' (JBool True) ''30.5'') bare_handler))
   = Some [''t1'']"
  using alternative_names_dispatch [of "''t1''" "''agent.ping''" sample_json "JBool True" "''30.5''" sample_handler_env bare_handler]
  by (simp add: sample_json_def bare_handler_def dispatch_realtime_task_def dispatch_task_def mark_running_def)

text \<open>
  A dispatch that wraps its task in a member \<open>task\<close> is executed when its type says \<open>task.dispatch\<close>.
  Without a type it is dropped, though the decoder's default envelope has that type: the decoded envelope
  replaces the default.
\<close>

theorem wrapped_task_without_type_dropped:
  assumes "decode_task lib (remarshal tj) = (None, t)" "taskID t \<noteq> []" "tj \<noteq> JNull"
  shows "dispatch_event lib env (JObj [(''task'', tj)]) h = h
    \<and> dispatch_event lib env (JObj [(''task'', tj), (''type'', JStr ''task.dispatch'')]) h
        = snd (dispatch_realtime_task (resend_task t) h)"
proof -
  have f: "find_field (envelope_fields lib) ''type'' = Some (dec_string ''inboundEnvelope.type'' enType_update)"
    "find_field (envelope_fields lib) ''task'' = Some (\<lambda>j e. if j = JNull then (None, e\<lparr>enTask := None\<rparr>)
         else (case decode_task lib j of (err, t) \<Rightarrow> (err, e\<lparr>enTask := Some t\<rparr>)))"
    by (simp_all add: find_field_def envelope_fields_def)
  have n: "remarshal tj \<noteq> JNull" using assms(3) by (cases tj) auto
  have r: "remarshal (JObj [(''task'', tj)]) = JObj [(''task'', remarshal tj)]"
    "remarshal (JObj [(''task'', tj), (''type'', JStr ''task.dispatch'')])
      = JObj [(''task'', remarshal tj), (''type'', JStr ''task.dispatch'')]"
    by (simp_all add: sort_members_def less_char_def less_eq_char_def)
  have w: "wrapped_task lib (JObj [(''task'', remarshal tj)]) = Some \<lparr>enType = [], enTask = Some t\<rparr>"
    "wrapped_task lib (JObj [(''task'', remarshal tj), (''type'', JStr ''task.dispatch'')])
      = Some \<lparr>enType = ''task.dispatch'', enTask = Some t\<rparr>"
    using assms(1,2) n by (simp_all add: wrapped_task_def decode_envelope_def decode_struct_def f first_error_def dec_string_def)
  show ?thesis
    unfolding dispatch_event_def dispatch_envelope_def r w
    by (simp add: envelope_message_def handle_message_def)
qed

theorem wrapped_task_without_type_dropped_witness:
  "dispatch_event sample_json sample_handler_env (JObj [(''task'', JObj [(''id'', JStr ''t1'')])]) bare_handler = bare_handler"
proof -
  have "decode_task sample_json (remarshal (JObj [(''id'', JStr ''t1'')])) = (None, zero_task\<lparr>taskID := ''t1''\<rparr>)"
    by (simp add: sort_members_def decode_task_def decode_struct_def task_field_lookup dec_string_def first_error_def)
  then show ?thesis
    by (rule wrapped_task_without_type_dropped [THEN conjunct1]) simp_all
qed

subsection \<open>Reconnecting\<close>

text \<open>Only these turns end the loop.\<close>

definition stops_turn :: "run_env \<Rightarrow> bool" where
  "stops_turn env \<longleftrightarrow> rnCtxDone env \<or> (rnConnect env = None \<and> (rnConnection env = None \<or>
     (\<exists>e. rnConnection env = Some e \<and> err_is e CtxCanceled))) \<or> \<not> rnSleepDone env"

lemma run_turn_again:
  assumes "run_turn ratio env r = (n, r1)"
  shows "n = RunReturns \<longleftrightarrow> stops_turn env"
    and "n = RunAgain d \<Longrightarrow> rtReconnects (rlService r1) = rtReconnects (rlService r) + 1
      \<and> (\<exists>a. d = backoff_delay a ratio (rnJitter env) (rnRandom env)
          \<and> a = (if rnConnect env = None then 0 else rlAttempt r) \<and> rlAttempt r1 = a + 1)"
  using assms
  by (auto simp: run_turn_def after_failure_def stops_turn_def Let_def split: if_splits option.splits)


definition connect_failed :: "run_env \<Rightarrow> bool" where
  "connect_failed env \<longleftrightarrow> rnConnect env \<noteq> None"

text \<open>How many of the turns up to turn \<open>i\<close> failed to connect since the last one that did.\<close>

definition failed_since :: "run_env list \<Rightarrow> nat \<Rightarrow> nat" where
  "failed_since envs i = length (takeWhile connect_failed (rev (take (Suc i) envs)))"

lemma failed_since_le: "failed_since envs i \<le> Suc i"
  using length_takeWhile_le [of connect_failed "rev (take (Suc i) envs)"] by (simp add: failed_since_def)

lemma failed_since_Cons: "i < length es \<Longrightarrow> failed_since (e # es) (Suc i)
    = (if failed_since es i = Suc i \<and> connect_failed e then Suc (Suc i) else failed_since es i)"
proof -
  assume "i < length es"
  then have l: "length (rev (take (Suc i) es)) = Suc i" by simp
  let ?p = "rev (take (Suc i) es)"
  have "(\<forall>x\<in>set ?p. connect_failed x) \<longleftrightarrow> length (takeWhile connect_failed ?p) = length ?p"
    by (metis takeWhile_eq_all_conv takeWhile_eq_take take_all_iff order_refl)
  with l show ?thesis
    unfolding failed_since_def by (simp only: take_Suc_Cons rev.simps) (auto simp: takeWhile_append)
qed

lemma run_service_shape:
  "run_service ratio envs r = (ds, n, r') \<Longrightarrow>
    (n = RunReturns \<longleftrightarrow> list_ex stops_turn envs)
    \<and> length ds = length (takeWhile (\<lambda>e. \<not> stops_turn e) envs)
    \<and> (\<forall>i < length ds. ds ! i = backoff_delay (if failed_since envs i = Suc i then rlAttempt r + int i else int (failed_since envs i))
          ratio (rnJitter (envs ! i)) (rnRandom (envs ! i)))"
proof (induction envs arbitrary: r ds n r')
  case Nil
  then show ?case by auto
next
  case (Cons e es)
  obtain n1 r1 where t: "run_turn ratio e r = (n1, r1)" by (cases "run_turn ratio e r")
  show ?case
  proof (cases n1)
    case RunReturns
    with Cons.prems t run_turn_again(1) [OF t] show ?thesis by auto
  next
    case (RunAgain d)
    obtain ds1 m r2 where rest: "run_service ratio es r1 = (ds1, m, r2)" by (cases "run_service ratio es r1")
    have eq: "ds = d # ds1" "n = m" using Cons.prems t RunAgain rest by auto
    have go: "\<not> stops_turn e" using run_turn_again(1) [OF t] RunAgain by simp
    obtain a where a: "d = backoff_delay a ratio (rnJitter e) (rnRandom e)"
      "a = (if rnConnect e = None then 0 else rlAttempt r)" "rlAttempt r1 = a + 1"
      using run_turn_again(2) [OF t RunAgain] by blast
    note ih = Cons.IH [OF rest]
    have "ds ! i = backoff_delay (if failed_since (e # es) i = Suc i then rlAttempt r + int i else int (failed_since (e # es) i))
          ratio (rnJitter ((e # es) ! i)) (rnRandom ((e # es) ! i))" if i: "i < length ds" for i
    proof (cases i)
      case 0
      then show ?thesis using a eq by (simp add: failed_since_def connect_failed_def)
    next
      case (Suc k)
      with i eq have k: "k < length ds1" by simp
      then have "k < length es" using ih length_takeWhile_le [of "\<lambda>e. \<not> stops_turn e" es] by linarith
      then have "(if failed_since es k = Suc k then rlAttempt r1 + int k else int (failed_since es k))
          = (if failed_since (e # es) i = Suc i then rlAttempt r + int i else int (failed_since (e # es) i))"
        using Suc a failed_since_Cons [of k es e] failed_since_le [of es k] by (auto simp: connect_failed_def)
      moreover have "ds ! i = ds1 ! k" "(e # es) ! i = es ! k" using Suc eq by simp_all
      ultimately show ?thesis using ih k by presburger
    qed
    with ih eq go show ?thesis by simp
  qed
qed

text \<open>
  C39. The realtime loop returns exactly at the first turn that finds the agent stopping, ends without an
  error, is cancelled, or has its sleep cut short; every turn before it waits, and the wait's exponent is
  the number of failed attempts since the last connection, so it starts over after one.
\<close>

theorem reconnect_until_stopped:
  assumes "run_service ratio envs r = (ds, n, r')" "rlAttempt r = 0"
  shows "(n = RunReturns \<longleftrightarrow> list_ex stops_turn envs)
    \<and> length ds = length (takeWhile (\<lambda>e. \<not> stops_turn e) envs)
    \<and> (\<forall>i < length ds. ds ! i = backoff_delay (int (min i (failed_since envs i))) ratio (rnJitter (envs ! i)) (rnRandom (envs ! i)))"
proof -
  have "(if failed_since envs i = Suc i then 0 + int i else int (failed_since envs i)) = int (min i (failed_since envs i))" for i
    using failed_since_le [of envs i] by auto
  with run_service_shape [OF assms(1)] show ?thesis unfolding assms(2) by presburger
qed

definition sample_turn :: "goerror option \<Rightarrow> goerror option \<Rightarrow> run_env" where
  "sample_turn c d = \<lparr>rnCtxDone = False, rnConnect = c, rnConnection = d, rnSleepDone = True, rnJitter = (\<lambda>_. 0), rnRandom = (\<lambda>_. 0)\<rparr>"

theorem reconnect_until_stopped_witness:
  "fst (run_service False [sample_turn (Some (Plain ''refused'')) None, sample_turn None (Some (Plain ''lost'')), sample_turn None None]
      \<lparr>rlAttempt = 0, rlService = new_service 8\<rparr>)
    = [second, second]"
proof -
  let ?envs = "[sample_turn (Some (Plain ''refused'')) None, sample_turn None (Some (Plain ''lost'')), sample_turn None None]"
  obtain ds n r' where r: "run_service False ?envs \<lparr>rlAttempt = 0, rlService = new_service 8\<rparr> = (ds, n, r')"
    by (cases "run_service False ?envs \<lparr>rlAttempt = 0, rlService = new_service 8\<rparr>")
  have e: "\<not> err_is (Plain ''lost'') CtxCanceled" by simp
  note p = reconnect_until_stopped [OF r, simplified]
  from p e have l: "length ds = 2" by (simp add: stops_turn_def sample_turn_def)
  then have "ds = [ds ! 0, ds ! 1]" by (metis One_nat_def Suc_1 length_0_conv length_Suc_conv nth_Cons_0 nth_Cons_Suc)
  moreover have "ds ! 0 = second" "ds ! 1 = second"
    using p l by (simp_all add: failed_since_def connect_failed_def sample_turn_def backoff_delay_def apply_jitter_def)
  ultimately show ?thesis using r by simp
qed

end
