(* ===== verification/GoDuration.thy ===== *)
theory GoDuration
  imports GoClock
begin

text \<open>
  \<open>time.Duration.String\<close>, as the configuration file stores durations, and its round trip through
  \<open>time.ParseDuration\<close>.
\<close>

text \<open>\<open>fmtFrac\<close>: the digits after the point without trailing zeros; nothing for zero.\<close>

definition frac_text :: "nat \<Rightarrow> int \<Rightarrow> string" where
  "frac_text prec f = (let t = trim_right ''0'' (pad prec f) in if t = [] then [] else CHR ''.'' # t)"

definition micro_unit :: string where
  "micro_unit = [CHR 0xC2, CHR 0xB5, CHR ''s'']"

definition seconds_text :: "int \<Rightarrow> string" where
  "seconds_text u = int_text (u div second mod 60) @ frac_text 9 (u mod second) @ ''s''"

definition unsigned_text :: "int \<Rightarrow> string" where
  "unsigned_text u =
     (if u = 0 then ''0s''
      else if u < 1000 then int_text u @ ''ns''
      else if u < millisecond then int_text (u div 1000) @ frac_text 3 (u mod 1000) @ micro_unit
      else if u < second then int_text (u div millisecond) @ frac_text 6 (u mod millisecond) @ ''ms''
      else (let m = u div second div 60; h = m div 60 in
        if m = 0 then seconds_text u
        else if h = 0 then int_text (m mod 60) @ ''m'' @ seconds_text u
        else int_text h @ ''h'' @ int_text (m mod 60) @ ''m'' @ seconds_text u))"

definition duration_text :: "int \<Rightarrow> string" where
  "duration_text d = (if d < 0 then CHR ''-'' # unsigned_text (- d) else unsigned_text d)"

subsection \<open>Round trip\<close>

lemma digits_value_split: "digits_value 0 (s @ t) = digits_value (digits_value 0 s) t"
proof -
  have "digits_value a (s @ t) = digits_value (digits_value a s) t" for a
    by (induction s arbitrary: a) auto
  then show ?thesis .
qed

lemma digits_value_zeros: "digits_value a (replicate n CHR ''0'') = a * 10 ^ n"
  by (induction n arbitrary: a) auto

lemma digits_value_bound: "list_all is_digit s \<Longrightarrow> digits_value a s < (a + 1) * 10 ^ length s"
proof (induction s arbitrary: a)
  case (Cons c s)
  then have "(of_char c :: nat) \<le> 57" by (simp add: is_digit_def byte_in_def)
  then have "10 * a + (of_char c - 48) + 1 \<le> (a + 1) * 10" by simp
  then have "(10 * a + (of_char c - 48) + 1) * 10 ^ length s \<le> (a + 1) * 10 * 10 ^ length s" by (rule mult_le_mono1)
  with Cons.IH [of "10 * a + (of_char c - 48)"] Cons.prems show ?case by (simp add: algebra_simps)
qed simp

lemma nat_text_length: "n < 10 ^ w \<Longrightarrow> 0 < w \<Longrightarrow> length (nat_text n) \<le> w"
proof (induction n arbitrary: w rule: nat_text.induct)
  case (1 n)
  show ?case
  proof (cases "n < 10")
    case True
    with 1(3) show ?thesis by (subst nat_text.simps) simp
  next
    case False
    then obtain v where w: "w = Suc v" "0 < v" using 1(2,3) by (cases w; cases "w - 1") auto
    with 1(2) have "n div 10 < 10 ^ v" by (auto simp: less_mult_imp_div_less mult.commute)
    with 1(1) False w have "length (nat_text (n div 10)) \<le> v" by blast
    with False w show ?thesis by (subst nat_text.simps) simp
  qed
qed

lemma pad_facts:
  assumes "0 \<le> f" "f < 10 ^ w" "0 < w"
  shows "length (pad w f) = w" "list_all is_digit (pad w f)" "int (digits_value 0 (pad w f)) = f"
proof -
  have "nat f < 10 ^ w" using assms by (simp add: nat_less_iff)
  with assms have "length (nat_text (nat f)) \<le> w" by (intro nat_text_length)
  with assms(1) show "length (pad w f) = w" by (simp add: pad_def int_text_def Let_def)
  have "is_digit CHR ''0''" by (simp add: is_digit_def byte_in_def)
  with assms(1) nat_text_digits show "list_all is_digit (pad w f)"
    by (auto simp: pad_def int_text_def Let_def list_all_iff)
  show "int (digits_value 0 (pad w f)) = f"
    using assms(1) by (simp add: pad_def int_text_def Let_def digits_value_split digits_value_zeros digits_value_nat_text)
qed

lemma fraction_digits_exact:
  assumes "list_all is_digit s" "digits_value a s < 10 ^ 9"
  shows "fraction_digits (int a) k s = (int (digits_value a s), k * 10 ^ length s)"
  using assms
proof (induction s arbitrary: a k)
  case (Cons c s)
  have grow: "b \<le> digits_value b s" for b
  proof (induction s arbitrary: b)
    case (Cons d s)
    have "b \<le> 10 * b + (of_char d - 48)" by simp
    also have "\<dots> \<le> digits_value (10 * b + (of_char d - 48)) s" by (rule Cons)
    finally show ?case by simp
  qed simp
  let ?b = "10 * a + (of_char c - 48)"
  have ge: "48 \<le> (of_char c :: nat)" using Cons.prems(1) by (simp add: is_digit_def byte_in_def)
  have y: "int a * 10 + (of_char c - 48) = int ?b"
    using ge by (simp add: of_nat_diff of_nat_of_char [where 'a=int, symmetric] del: of_nat_of_char)
  have "?b < 10 ^ 9" using grow [of ?b] Cons.prems(2) by simp
  then have b: "int ?b < 10 ^ 9" by (metis of_nat_less_iff of_nat_numeral of_nat_power)
  then have "int a < 10 ^ 9" by simp
  with b have "\<not> (int a > (2 ^ 63 - 1) div 10 \<or> int ?b > 2 ^ 63)" by simp
  moreover have "fraction_digits (int ?b) (k * 10) s = (int (digits_value ?b s), k * 10 * 10 ^ length s)"
    using Cons.IH [of ?b "k * 10"] Cons.prems by simp
  ultimately show ?case by (simp add: y Let_def del: of_nat_add of_nat_mult of_nat_diff)
qed simp


lemma frac_text_value:
  assumes "0 \<le> f" "f < 10 ^ w" "0 < w" "w \<le> 9"
  obtains t where "frac_text w f = (if t = [] then [] else CHR ''.'' # t)" "list_all is_digit t"
    "t = [] \<longleftrightarrow> f = 0" "fraction_digits 0 1 t = (int (digits_value 0 t), 10 ^ length t)"
    "int (digits_value 0 t) * 10 ^ w div 10 ^ length t = f"
proof -
  define t where "t = trim_right ''0'' (pad w f)"
  note p = pad_facts [OF assms(1-3)]
  obtain z where z: "pad w f = t @ z" "set z \<subseteq> {CHR ''0''}"
    using trim_right_split [of "pad w f" "''0''"] unfolding t_def by auto
  define n where "n = length z"
  have "z = replicate n CHR ''0''" using z(2) unfolding n_def by (induction z) auto
  with z have n: "pad w f = t @ replicate n CHR ''0''" by simp
  have d: "list_all is_digit t" using p(2) n by simp
  have len: "w = length t + n" using p(1) n by simp
  have f: "f = int (digits_value 0 t) * 10 ^ n" using p(3) n by (simp add: digits_value_split digits_value_zeros)
  have b: "digits_value 0 t < 10 ^ 9"
  proof -
    have "digits_value 0 t < 10 ^ length t" using digits_value_bound [OF d, of 0] by simp
    also have "(10::nat) ^ length t \<le> 10 ^ 9" by (rule power_increasing) (use len assms(4) in simp_all)
    finally show ?thesis .
  qed
  have nil: "t = []" if "f = 0"
  proof (rule ccontr)
    assume ne: "t \<noteq> []"
    then obtain s c where sc: "t = s @ [c]" by (metis append_butlast_last_id)
    have "c \<noteq> CHR ''0''" using trim_right_last [of "''0''" "pad w f"] ne sc unfolding t_def [symmetric] by simp
    moreover have "is_digit c" using d sc by simp
    moreover have "10 * digits_value 0 s + (of_char c - 48) = 0" using f that sc by (simp add: digits_value_append)
    ultimately have "of_char c = (48::nat)" by (simp add: is_digit_def byte_in_def)
    then have "c = char_of (48::nat)" by (metis char_of_char)
    also have "\<dots> = CHR ''0''" by code_simp
    finally have "c = CHR ''0''" .
    with \<open>c \<noteq> CHR ''0''\<close> show False by simp
  qed
  have q: "int (digits_value 0 t) * 10 ^ w div 10 ^ length t = f"
  proof -
    have "int (digits_value 0 t) * 10 ^ w = f * 10 ^ length t" using f len by (simp add: power_add)
    then show ?thesis by simp
  qed
  have e: "frac_text w f = (if t = [] then [] else CHR ''.'' # t)" by (simp add: frac_text_def t_def Let_def)
  have nf: "t = [] \<longleftrightarrow> f = 0" using nil f by auto
  have fd: "fraction_digits 0 1 t = (int (digits_value 0 t), 10 ^ length t)"
    using fraction_digits_exact [OF d b, of 1] by simp
  show thesis by (rule that [OF e d nf fd q])
qed

lemma take_digits: "list_all is_digit s \<Longrightarrow> r = [] \<or> \<not> is_digit (hd r) \<Longrightarrow>
    takeWhile is_digit (s @ r) = s \<and> dropWhile is_digit (s @ r) = r"
  by (cases r) (auto simp: takeWhile_append dropWhile_append list_all_iff)

lemma take_unit: "list_all not_numeric u \<Longrightarrow> r = [] \<or> is_digit (hd r) \<Longrightarrow>
    takeWhile not_numeric (u @ r) = u \<and> dropWhile not_numeric (u @ r) = r"
  by (cases r) (auto simp: takeWhile_append dropWhile_append list_all_iff not_numeric_def)

lemma int_text_head: "0 \<le> v \<Longrightarrow> int_text v \<noteq> [] \<and> is_digit (hd (int_text v)) \<and> list_all is_digit (int_text v)
    \<and> int (digits_value 0 (int_text v)) = v"
proof -
  assume "0 \<le> v"
  moreover from nat_text_digits [of "nat v"] have "is_digit (hd (nat_text (nat v)))" by (cases "nat_text (nat v)") simp_all
  ultimately show ?thesis using nat_text_digits [of "nat v"] by (simp add: int_text_def digits_value_nat_text)
qed

text \<open>One group of the text is read back as its value: for any fraction \<open>t\<close>, then for the two kinds printed.\<close>

lemma duration_group_core:
  assumes v: "0 \<le> v" "v * k + f \<le> 2 ^ 63" "0 \<le> f"
    and t: "list_all is_digit t" "fraction_digits 0 1 t = (int (digits_value 0 t), 10 ^ length t)"
      "int (digits_value 0 t) * k div 10 ^ length t = f"
    and u: "u \<noteq> []" "list_all not_numeric u" "unit_of u = Some k" and r: "r = [] \<or> is_digit (hd r)"
  shows "duration_group (int_text v @ (if t = [] then [] else CHR ''.'' # t) @ u @ r) = Some (v * k + f, r)"
proof -
  let ?f = "if t = [] then [] else CHR ''.'' # t"
  let ?s = "int_text v @ ?f @ u @ r"
  note iv = int_text_head [OF v(1)]
  have hu: "\<not> is_digit (hd (u @ r))" "hd (u @ r) \<noteq> CHR ''.''" using u by (cases u; auto simp: not_numeric_def)+
  have dot: "\<not> is_digit CHR ''.''" by (simp add: is_digit_def byte_in_def)
  have lead: "takeWhile is_digit ?s = int_text v \<and> dropWhile is_digit ?s = ?f @ u @ r"
    using take_digits [of "int_text v" "?f @ u @ r"] iv hu dot by auto
  have k: "0 < k" by (rule unit_of_pos [OF u(3)])
  have vk: "v * k \<le> 2 ^ 63" using v by simp
  have "v * 1 \<le> v * k" using v(1) k by (intro mult_left_mono) simp_all
  with vk have vle: "v \<le> 2 ^ 63" by simp
  have li: "leading_int ?s = Some (v, ?f @ u @ r)" using lead iv vle by (simp add: leading_int_def Let_def)
  have tu: "takeWhile is_digit (t @ u @ r) = t \<and> dropWhile is_digit (t @ u @ r) = u @ r"
    using take_digits [OF t(1), of "u @ r"] hu by simp
  have gn: "group_number ?s = Some (v, (int (digits_value 0 t), 10 ^ length t), u @ r)"
  proof (cases "t = []")
    case True
    then show ?thesis using li iv hu by (simp add: group_number_def Let_def)
  next
    case False
    then show ?thesis using li t(2) iv tu by (simp add: group_number_def leading_fraction_def Let_def)
  qed
  have tk: "takeWhile not_numeric (u @ r) = u \<and> dropWhile not_numeric (u @ r) = r" by (rule take_unit [OF u(2) r])
  have "v = v * k div k" using k by simp
  also have "\<dots> \<le> 2 ^ 63 div k" using vk k by (rule zdiv_mono1)
  finally have gv: "group_value v (int (digits_value 0 t)) (10 ^ length t) k = Some (v * k + f)"
    using t(3) v(2) by (simp add: group_value_def Let_def)
  have "?s \<noteq> []" "\<not> not_numeric (hd ?s)" using iv by (auto simp: not_numeric_def)
  then show ?thesis using gn tk u gv by (simp add: duration_group_def)
qed

lemma duration_group_frac:
  assumes "0 \<le> v" "v * 10 ^ w + f \<le> 2 ^ 63" "0 \<le> f" "f < 10 ^ w" "0 < w" "w \<le> 9"
    and "u \<noteq> []" "list_all not_numeric u" "unit_of u = Some (10 ^ w)" "r = [] \<or> is_digit (hd r)"
  shows "duration_group (int_text v @ frac_text w f @ u @ r) = Some (v * 10 ^ w + f, r)"
proof -
  obtain t where t: "frac_text w f = (if t = [] then [] else CHR ''.'' # t)" "list_all is_digit t"
    "t = [] \<longleftrightarrow> f = 0" "fraction_digits 0 1 t = (int (digits_value 0 t), 10 ^ length t)"
    "int (digits_value 0 t) * 10 ^ w div 10 ^ length t = f"
    by (rule frac_text_value [OF assms(3-6)])
  show ?thesis unfolding t(1) by (rule duration_group_core [OF assms(1,2,3) t(2,4,5) assms(7-10)])
qed

lemma duration_group_int:
  assumes "0 \<le> v" "v * k \<le> 2 ^ 63" "u \<noteq> []" "list_all not_numeric u" "unit_of u = Some k" "r = [] \<or> is_digit (hd r)"
  shows "duration_group (int_text v @ u @ r) = Some (v * k, r)"
  using duration_group_core [of v k 0 "[]" u r] assms by simp

text \<open>The units printed.\<close>

lemma printed_units:
  "unit_of ''ns'' = Some 1" "unit_of micro_unit = Some (10 ^ 3)" "unit_of ''ms'' = Some (10 ^ 6)"
  "unit_of ''s'' = Some (10 ^ 9)" "unit_of ''m'' = Some minute" "unit_of ''h'' = Some (60 * minute)"
  "list_all not_numeric ''ns''" "list_all not_numeric micro_unit" "list_all not_numeric ''ms''"
  "list_all not_numeric ''s''" "list_all not_numeric ''m''" "list_all not_numeric ''h''" "micro_unit \<noteq> []"
  by (simp_all add: unit_of_def micro_unit_def not_numeric_def is_digit_def byte_in_def)

lemma groups_last: "duration_group s = Some (v, []) \<Longrightarrow> 0 \<le> d \<Longrightarrow> d + v \<le> 2 ^ 63 \<Longrightarrow> duration_groups s d = Some (d + v)"
  by (cases "s = []") (simp_all add: duration_groups.simps [of s] duration_groups.simps [of "[]"] duration_group_def)

lemma groups_step: "duration_group s = Some (v, t) \<Longrightarrow> d + v \<le> 2 ^ 63 \<Longrightarrow> duration_groups s d = duration_groups t (d + v)"
  by (cases "s = []") (simp_all add: duration_groups.simps [of s] duration_group_def)

lemma seconds_read:
  assumes "0 \<le> u" "0 \<le> d" "d + u mod minute \<le> 2 ^ 63"
  shows "duration_groups (seconds_text u) d = Some (d + u mod minute)"
proof -
  have e: "u div second mod 60 * 10 ^ 9 + u mod second = u mod minute"
    using zmod_zmult2_eq [of 60 u second] by simp
  have "0 \<le> u mod minute" by simp
  then have b: "u mod minute \<le> 2 ^ 63" using assms(2,3) by linarith
  have "duration_group (seconds_text u) = Some (u mod minute, [])"
    using duration_group_frac [of "u div second mod 60" 9 "u mod second" "''s''" "[]"] b
    by (simp add: seconds_text_def e [simplified] printed_units [simplified])
  then show ?thesis using assms by (intro groups_last)
qed

lemma seconds_digit: "0 \<le> u \<Longrightarrow> is_digit (hd (seconds_text u))"
proof -
  assume "0 \<le> u"
  then have "0 \<le> u div second mod 60" by simp
  from int_text_head [OF this] show ?thesis by (simp add: seconds_text_def)
qed

lemma sub_second_read:
  assumes "0 < u" "u < second"
  shows "duration_groups (unsigned_text u) 0 = Some u"
proof -
  consider "u < 1000" | "1000 \<le> u" "u < millisecond" | "millisecond \<le> u" by linarith
  then show ?thesis
  proof cases
    case 1
    have "duration_group (int_text u @ ''ns'' @ []) = Some (u * 1, [])"
      by (rule duration_group_int) (use 1 assms in \<open>simp_all only: printed_units not_Cons_self2 list.distinct simp_thms\<close>, simp_all)
    then have "duration_group (unsigned_text u) = Some (u, [])" using 1 assms by (simp add: unsigned_text_def)
    then show ?thesis using groups_last [of _ u 0] 1 by simp
  next
    case 2
    have "u div 1000 * 10 ^ 3 + u mod 1000 = u" by simp
    with 2 have "duration_group (unsigned_text u) = Some (u, [])"
      using duration_group_frac [of "u div 1000" 3 "u mod 1000" micro_unit "[]"] assms
      by (simp add: unsigned_text_def printed_units [simplified])
    then show ?thesis using groups_last [of _ u 0] 2 by simp
  next
    case 3
    have "u div millisecond * 10 ^ 6 + u mod millisecond = u" by simp
    with 3 have "duration_group (unsigned_text u) = Some (u, [])"
      using duration_group_frac [of "u div millisecond" 6 "u mod millisecond" "''ms''" "[]"] assms
      by (simp add: unsigned_text_def printed_units [simplified])
    then show ?thesis using groups_last [of _ u 0] assms by simp
  qed
qed

lemma minutes_read:
  assumes "0 \<le> u" "0 \<le> d" "d + u mod (60 * minute) \<le> 2 ^ 63"
  shows "duration_groups (int_text (u div minute mod 60) @ ''m'' @ seconds_text u) d = Some (d + u mod (60 * minute))"
proof -
  have e: "u div minute mod 60 * minute + u mod minute = u mod (60 * minute)"
    using zmod_zmult2_eq [of 60 u minute] by (simp add: mult.commute)
  have nn: "0 \<le> u div minute mod 60" "0 \<le> u mod minute" by simp_all
  have "duration_group (int_text (u div minute mod 60) @ ''m'' @ seconds_text u) = Some (u div minute mod 60 * minute, seconds_text u)"
  proof (rule duration_group_int)
    show "u div minute mod 60 * minute \<le> 2 ^ 63" using nn e assms by linarith
    show "seconds_text u = [] \<or> is_digit (hd (seconds_text u))" using seconds_digit [OF assms(1)] by simp
  qed (use nn in \<open>simp_all only: printed_units list.distinct simp_thms not_False_eq_True\<close>)
  moreover have "d + u div minute mod 60 * minute + u mod minute \<le> 2 ^ 63" using e assms by linarith
  moreover have "0 \<le> d + u div minute mod 60 * minute" using nn assms by simp
  ultimately have "duration_groups (int_text (u div minute mod 60) @ ''m'' @ seconds_text u) d
      = Some (d + u div minute mod 60 * minute + u mod minute)"
    using nn assms(1) seconds_read [of u "d + u div minute mod 60 * minute"] by (simp add: groups_step)
  then show ?thesis using e by simp
qed

lemma unsigned_read:
  assumes "0 < u" "u \<le> 2 ^ 63"
  shows "duration_groups (unsigned_text u) 0 = Some u"
proof (cases "u < second")
  case True
  with assms show ?thesis by (simp add: sub_second_read)
next
  case False
  have m: "u div second div 60 = u div minute" by (simp add: zdiv_zmult2_eq [symmetric])
  have h: "u div minute div 60 = u div (60 * minute)" using zdiv_zmult2_eq [of 60 u minute] by simp
  have shape: "unsigned_text u = (if u div minute = 0 then seconds_text u
      else if u div (60 * minute) = 0 then int_text (u div minute mod 60) @ ''m'' @ seconds_text u
      else int_text (u div (60 * minute)) @ ''h'' @ int_text (u div minute mod 60) @ ''m'' @ seconds_text u)"
    using False by (simp add: unsigned_text_def Let_def m h)
  consider "u div minute = 0" | "u div minute \<noteq> 0" "u div (60 * minute) = 0" | "u div minute \<noteq> 0" "u div (60 * minute) \<noteq> 0" by blast
  then show ?thesis
  proof cases
    case 1
    then have "u mod minute = u" using mod_div_mult_eq [of u minute] by simp
    then show ?thesis using 1 assms shape seconds_read(1) [of u 0] by simp
  next
    case 2
    then have "u mod (60 * minute) = u" using mod_div_mult_eq [of u "60 * minute"] by simp
    then show ?thesis using 2 assms shape minutes_read [of u 0] by simp
  next
    case 3
    let ?h = "u div (60 * minute) * (60 * minute)"
    have e: "?h + u mod (60 * minute) = u" by simp
    have nn: "0 \<le> u div (60 * minute)" "0 \<le> u mod (60 * minute)" using assms by simp_all
    then have hb: "0 \<le> ?h" "?h \<le> 2 ^ 63" using e assms by linarith+
    have hd: "is_digit (hd (int_text (u div minute mod 60) @ ''m'' @ seconds_text u))"
      using int_text_head [of "u div minute mod 60"] by simp
    have "duration_group (int_text (u div (60 * minute)) @ ''h'' @ int_text (u div minute mod 60) @ ''m'' @ seconds_text u)
        = Some (?h, int_text (u div minute mod 60) @ ''m'' @ seconds_text u)"
      by (rule duration_group_int [OF nn(1) hb(2)])
         (use hd in \<open>simp_all only: printed_units list.distinct simp_thms not_False_eq_True\<close>)
    then have "duration_group (unsigned_text u) = Some (?h, int_text (u div minute mod 60) @ ''m'' @ seconds_text u)"
      using 3 shape by simp
    then have "duration_groups (unsigned_text u) 0 = duration_groups (int_text (u div minute mod 60) @ ''m'' @ seconds_text u) (0 + ?h)"
      using hb by (intro groups_step) simp_all
    also have "\<dots> = Some (0 + ?h + u mod (60 * minute))" using hb e assms by (intro minutes_read) linarith+
    finally show ?thesis using e by simp
  qed
qed

lemma unsigned_shape:
  assumes "0 \<le> u"
  obtains v y where "0 \<le> v" "y \<noteq> []" "unsigned_text u = int_text v @ y"
proof -
  have sec: "seconds_text u = int_text (u div second mod 60) @ frac_text 9 (u mod second) @ ''s''" by (simp add: seconds_text_def)
  have z: "''0s'' = int_text 0 @ ''s''" by code_simp
  consider "u = 0" | "u \<noteq> 0" "u < 1000" | "\<not> u < 1000" "u < millisecond" | "\<not> u < millisecond" "u < second"
    | "\<not> u < second" "u div second div 60 = 0" | "\<not> u < second" "u div second div 60 \<noteq> 0" "u div second div 60 div 60 = 0"
    | "\<not> u < second" "u div second div 60 \<noteq> 0" "u div second div 60 div 60 \<noteq> 0" by linarith
  then show thesis
  proof cases
    case 1
    then show thesis using that [of 0 "''s''"] z by (simp add: unsigned_text_def)
  next
    case 2
    then show thesis using that [of u "''ns''"] assms by (simp add: unsigned_text_def)
  next
    case 3
    then show thesis using that [of "u div 1000" "frac_text 3 (u mod 1000) @ micro_unit"] assms
      by (simp add: unsigned_text_def printed_units(13))
  next
    case 4
    then show thesis using that [of "u div millisecond" "frac_text 6 (u mod millisecond) @ ''ms''"] assms
      by (simp add: unsigned_text_def)
  next
    case 5
    then show thesis using that [of "u div second mod 60" "frac_text 9 (u mod second) @ ''s''"]
      by (simp add: unsigned_text_def Let_def sec)
  next
    case 6
    then show thesis using that [of "u div second div 60 mod 60" "''m'' @ seconds_text u"]
      by (simp add: unsigned_text_def Let_def)
  next
    case 7
    have "unsigned_text u = int_text (u div second div 60 div 60) @ (''h'' @ int_text (u div second div 60 mod 60) @ ''m'' @ seconds_text u)"
      unfolding unsigned_text_def Let_def using 7 by (simp only: if_False) simp
    moreover have "0 \<le> u div second div 60 div 60" using assms by (simp add: pos_imp_zdiv_nonneg_iff)
    ultimately show thesis by (intro that) simp_all
  qed
qed

lemma unsigned_head:
  assumes "0 \<le> u"
  shows "unsigned_text u \<noteq> []" "is_digit (hd (unsigned_text u))" "unsigned_text u \<noteq> ''0''"
proof -
  obtain v y where v: "0 \<le> v" "y \<noteq> []" "unsigned_text u = int_text v @ y" by (rule unsigned_shape [OF assms])
  note i = int_text_head [OF v(1)]
  then show "unsigned_text u \<noteq> []" "is_digit (hd (unsigned_text u))" using v(3) by simp_all
  have "length (unsigned_text u) \<noteq> 1" using i v by (cases "int_text v"; cases y) simp_all
  then show "unsigned_text u \<noteq> ''0''" by (metis One_nat_def length_Cons list.size(3))
qed

text \<open>What \<open>String\<close> prints, \<open>ParseDuration\<close> reads back, for every duration.\<close>

lemma duration_round_trip:
  assumes "- (2 ^ 63) \<le> d" "d < 2 ^ 63"
  shows "parse_duration (duration_text d) = Some d"
proof (cases "d = 0")
  case True
  have "duration_group (int_text 0 @ ''s'' @ []) = Some (0 * 10 ^ 9, [])"
    by (rule duration_group_int) (simp_all only: printed_units list.distinct simp_thms not_False_eq_True mult_zero_left order_refl zero_le_power zero_le_numeral)
  moreover have "int_text 0 = ''0''" by code_simp
  ultimately have "duration_groups ''0s'' 0 = Some 0" using groups_last [of "''0s''" 0 0] by simp
  moreover have "duration_text 0 = ''0s''" by (simp add: duration_text_def unsigned_text_def)
  moreover have "\<not> has_prefix ''0s'' ''-''" "\<not> has_prefix ''0s'' ''+''" by (simp_all add: has_prefix_def)
  ultimately show ?thesis unfolding True by (simp add: parse_duration_def Let_def)
next
  case False
  define u where "u = \<bar>d\<bar>"
  then have u: "0 < u" "u \<le> 2 ^ 63" using False assms by auto
  note r = unsigned_read [OF u]
  have "0 \<le> u" using u by simp
  note h = unsigned_head [OF this]
  have "\<not> is_digit CHR ''-''" "\<not> is_digit CHR ''+''" by (simp_all add: is_digit_def byte_in_def)
  with h(2) have nh: "hd (unsigned_text u) \<noteq> CHR ''-''" "hd (unsigned_text u) \<noteq> CHR ''+''" by metis+
  have pre: "has_prefix s [c] \<Longrightarrow> hd s = c" for s c by (cases s) (simp_all add: has_prefix_def)
  have np: "\<not> has_prefix (unsigned_text u) ''-''" "\<not> has_prefix (unsigned_text u) ''+''" using pre nh by blast+
  show ?thesis
  proof (cases "d < 0")
    case True
    then have "duration_text d = CHR ''-'' # unsigned_text u" by (simp add: duration_text_def u_def)
    moreover have "has_prefix (CHR ''-'' # unsigned_text u) ''-''" by (simp add: has_prefix_def)
    ultimately have "parse_duration (duration_text d) = Some (- u)" using r h by (simp add: parse_duration_def Let_def)
    with True show ?thesis by (simp add: u_def)
  next
    case False
    then have "d = u" by (simp add: u_def)
    with False have "duration_text d = unsigned_text u" by (simp add: duration_text_def)
    with r h np assms \<open>d = u\<close> show ?thesis by (simp add: parse_duration_def Let_def)
  qed
qed

text \<open>The text has no white space around it.\<close>

lemma is_ascii_int_text [simp]: "is_ascii (int_text n)"
  by (simp add: int_text_def byte_in_def)

lemma is_ascii_frac_text [simp]: "is_ascii (frac_text w f)"
proof -
  have "is_ascii (replicate n CHR ''0'')" for n by (induction n) (simp_all add: byte_in_def)
  then have p: "is_ascii (pad w f)" by (simp add: pad_def Let_def)
  obtain t where "pad w f = trim_right ''0'' (pad w f) @ t" using trim_right_split by blast
  with p have "is_ascii (trim_right ''0'' (pad w f))" by (metis is_ascii_simps(3))
  then show ?thesis by (simp add: frac_text_def Let_def byte_in_def)
qed

lemma unsigned_text_tail:
  obtains a t where "unsigned_text u = a @ t" "is_ascii a" "t = ''s'' \<or> t = micro_unit"
proof -
  have z: "''0s'' = ''0'' @ ''s''" "''ns'' = ''n'' @ ''s''" "''ms'' = ''m'' @ ''s''" by simp_all
  have a: "is_ascii ''0''" "is_ascii ''n''" "is_ascii ''m''" "is_ascii ''h''" by (simp_all add: byte_in_def)
  have sec: "seconds_text u = (int_text (u div second mod 60) @ frac_text 9 (u mod second)) @ ''s''" by (simp add: seconds_text_def)
  consider "u = 0" | "u \<noteq> 0" "u < 1000" | "u \<noteq> 0" "\<not> u < 1000" "u < millisecond"
    | "u \<noteq> 0" "\<not> u < 1000" "\<not> u < millisecond" "u < second"
    | b where "unsigned_text u = b @ seconds_text u" "is_ascii b"
  proof -
    assume c: "u = 0 \<Longrightarrow> thesis" "u \<noteq> 0 \<Longrightarrow> u < 1000 \<Longrightarrow> thesis" "u \<noteq> 0 \<Longrightarrow> \<not> u < 1000 \<Longrightarrow> u < millisecond \<Longrightarrow> thesis"
      "u \<noteq> 0 \<Longrightarrow> \<not> u < 1000 \<Longrightarrow> \<not> u < millisecond \<Longrightarrow> u < second \<Longrightarrow> thesis"
      "\<And>b. unsigned_text u = b @ seconds_text u \<Longrightarrow> is_ascii b \<Longrightarrow> thesis"
    have "\<exists>b. unsigned_text u = b @ seconds_text u \<and> is_ascii b" if "u \<noteq> 0" "\<not> u < 1000" "\<not> u < millisecond" "\<not> u < second"
    proof -
      let ?m = "u div second div 60"
      have "unsigned_text u = (if ?m = 0 then [] @ seconds_text u else if ?m div 60 = 0 then (int_text (?m mod 60) @ ''m'') @ seconds_text u
          else (int_text (?m div 60) @ ''h'' @ int_text (?m mod 60) @ ''m'') @ seconds_text u)"
        unfolding unsigned_text_def Let_def using that by (simp only: if_False append_assoc append_Nil)
      moreover have "is_ascii []" "is_ascii (int_text (?m mod 60) @ ''m'')" "is_ascii (int_text (?m div 60) @ ''h'' @ int_text (?m mod 60) @ ''m'')"
        using a by simp_all
      ultimately show ?thesis by metis
    qed
    with c show thesis by blast
  qed
  then show thesis
  proof cases
    case 1
    then show thesis using that [of "''0''" "''s''"] a by (simp add: unsigned_text_def)
  next
    case 2
    then show thesis using that [of "int_text u @ ''n''" "''s''"] a by (simp add: unsigned_text_def)
  next
    case 3
    then show thesis using that [of "int_text (u div 1000) @ frac_text 3 (u mod 1000)" micro_unit] by (simp add: unsigned_text_def)
  next
    case 4
    then show thesis using that [of "int_text (u div millisecond) @ frac_text 6 (u mod millisecond) @ ''m''" "''s''"] a
      by (simp add: unsigned_text_def)
  next
    case 5
    then show thesis using that [of "b @ int_text (u div second mod 60) @ frac_text 9 (u mod second)" "''s''"] sec by simp
  qed
qed

lemma trim_space_duration_text [simp]: "trim_space (duration_text d) = duration_text d" "duration_text d \<noteq> []"
proof -
  define s where "s = duration_text d"
  obtain a t where u: "unsigned_text \<bar>d\<bar> = a @ t" "is_ascii a" "t = ''s'' \<or> t = micro_unit" by (rule unsigned_text_tail)
  define b where "b = (if d < 0 then CHR ''-'' # a else a)"
  have s: "s = b @ t" "is_ascii b" using u by (auto simp: s_def b_def duration_text_def byte_in_def)
  have m: "runes micro_unit = [[CHR 0xC2, CHR 0xB5], ''s'']" "runes ''s'' = [''s'']" by code_simp+
  have r: "runes s = map (\<lambda>c. [c]) b @ runes t" using s by (simp add: runes_ascii_append)
  have sp: "\<not> is_space ''s''" by code_simp
  obtain y where "runes t = y @ [''s'']"
  proof (cases "t = ''s''")
    case True
    with m(2) that [of "[]"] show thesis by simp
  next
    case False
    with u(3) m(1) that [of "[[CHR 0xC2, CHR 0xB5]]"] show thesis by simp
  qed
  then have l: "last (runes s) = ''s''" "runes s \<noteq> []" using r by simp_all
  have uh: "is_digit (hd (unsigned_text \<bar>d\<bar>))" "unsigned_text \<bar>d\<bar> \<noteq> []" using unsigned_head [of "\<bar>d\<bar>"] by simp_all
  have h: "\<not> is_space (hd (runes s))"
  proof -
    have dig: "is_digit c \<Longrightarrow> \<not> is_space [c]" for c by (auto simp: is_digit_def ascii_space_def byte_in_def)
    have minus: "\<not> is_space [CHR ''-'']" by code_simp
    obtain c x where c: "s = c # x" "is_digit c \<or> c = CHR ''-''"
    proof (cases "d < 0")
      case True
      then show thesis by (intro that [of "CHR ''-''" "unsigned_text (- d)"]) (simp_all add: s_def duration_text_def)
    next
      case False
      then have "s = unsigned_text \<bar>d\<bar>" by (simp add: s_def duration_text_def)
      with uh show thesis by (cases "unsigned_text \<bar>d\<bar>") (auto intro: that)
    qed
    then have "byte_in 0 127 c" by (auto simp: is_digit_def byte_in_def)
    with c have "hd (runes s) = [c]" by (simp add: runes_ascii_Cons)
    with c dig minus show ?thesis by auto
  qed
  have "dropWhile is_space (runes s) = runes s" using h l(2) by (cases "runes s") auto
  moreover have "dropWhile is_space (rev (runes s)) = rev (runes s)"
    using l sp by (cases "runes s" rule: rev_cases) auto
  ultimately have "trim_space s = s" by (simp add: trim_space_def)
  then show "trim_space (duration_text d) = duration_text d" by (simp add: s_def)
  show "duration_text d \<noteq> []" using l by (auto simp: s_def [symmetric])
qed

lemma duration_stored:
  "- (2 ^ 63) \<le> d \<Longrightarrow> d < 2 ^ 63 \<Longrightarrow> parse_duration (trim_space (duration_text d)) = Some d"
  by (simp add: duration_round_trip)

end
