(* ===== verification/Config.thy ===== *)
theory Config
  imports Api GoIO GoDuration
begin

text \<open>
  \<open>internal/config/config.go\<close>: the configuration, its defaults, the JSON file it is read from and written
  to, the environment variables that override it, and its validation. The record \<open>config_lib\<close> holds what
  the standard library is asked for: the environment, the JSON parser, number parsing and rendering, URL
  parsing and \<open>os.Stat\<close>.
\<close>

record config_lib =
  clGetenv :: "string \<Rightarrow> string"
  clParse :: "string \<Rightarrow> goerror + json"
  clParseFloat :: "string \<Rightarrow> goerror + go_float"
  clNumText :: "rat \<Rightarrow> string"
  clURL :: url_lib
  clStat :: "string \<Rightarrow> goerror option"

record config =
  cfAPIURL :: string
  cfAPITLSCAFile :: string
  cfEnrollmentToken :: string
  cfNodeID :: string
  cfAgentToken :: string
  cfHeartbeatInterval :: int
  cfMetricsInterval :: int
  cfTaskPollInterval :: int
  cfRequestTimeout :: int
  cfTaskTimeout :: int
  cfShutdownTimeout :: int
  cfRealtimeEnabled :: bool
  cfRealtimePingInterval :: int
  cfRealtimeQueueSize :: int
  cfRealtimeBackoffJitter :: go_float
  cfRealtimeNamespace :: string
  cfRealtimePath :: string
  cfManualRegion :: string
  cfManualZone :: string
  cfManualLatitude :: "go_float option"
  cfManualLongitude :: "go_float option"
  cfPublicIPEnabled :: bool
  cfIPInfoToken :: string
  cfStateFile :: string
  cfConfigFile :: string
  cfLogLevel :: string

record file_config =
  fcAPIURL :: string
  fcAPITLSCAFile :: string
  fcEnrollmentToken :: string
  fcNodeID :: string
  fcAgentToken :: string
  fcHeartbeatInterval :: string
  fcMetricsInterval :: string
  fcTaskPollInterval :: string
  fcRequestTimeout :: string
  fcTaskTimeout :: string
  fcShutdownTimeout :: string
  fcRealtimeEnabled :: "bool option"
  fcRealtimePingInterval :: string
  fcRealtimeQueueSize :: "int option"
  fcRealtimeBackoffJitter :: "go_float option"
  fcRealtimeNamespace :: string
  fcRealtimePath :: string
  fcManualRegion :: string
  fcManualZone :: string
  fcManualLatitude :: "go_float option"
  fcManualLongitude :: "go_float option"
  fcPublicIPEnabled :: "bool option"
  fcIPInfoToken :: string
  fcStateFile :: string
  fcLogLevel :: string

definition default_config :: config where
  "default_config = \<lparr>cfAPIURL = [], cfAPITLSCAFile = [], cfEnrollmentToken = [], cfNodeID = [], cfAgentToken = [],
     cfHeartbeatInterval = 30 * second, cfMetricsInterval = 2 * second, cfTaskPollInterval = 15 * second,
     cfRequestTimeout = 30 * second, cfTaskTimeout = 10 * minute, cfShutdownTimeout = 20 * second,
     cfRealtimeEnabled = True, cfRealtimePingInterval = 2 * second, cfRealtimeQueueSize = 1024,
     cfRealtimeBackoffJitter = Num (1 / 5), cfRealtimeNamespace = ''/agent-realtime'', cfRealtimePath = ''/socket.io/'',
     cfManualRegion = [], cfManualZone = [], cfManualLatitude = None, cfManualLongitude = None,
     cfPublicIPEnabled = False, cfIPInfoToken = [], cfStateFile = ''./data/agent_identity.json'', cfConfigFile = [],
     cfLogLevel = ''info''\<rparr>"

definition zero_file_config :: file_config where
  "zero_file_config = \<lparr>fcAPIURL = [], fcAPITLSCAFile = [], fcEnrollmentToken = [], fcNodeID = [], fcAgentToken = [],
     fcHeartbeatInterval = [], fcMetricsInterval = [], fcTaskPollInterval = [], fcRequestTimeout = [], fcTaskTimeout = [],
     fcShutdownTimeout = [], fcRealtimeEnabled = None, fcRealtimePingInterval = [], fcRealtimeQueueSize = None,
     fcRealtimeBackoffJitter = None, fcRealtimeNamespace = [], fcRealtimePath = [], fcManualRegion = [], fcManualZone = [],
     fcManualLatitude = None, fcManualLongitude = None, fcPublicIPEnabled = None, fcIPInfoToken = [], fcStateFile = [],
     fcLogLevel = []\<rparr>"

subsection \<open>Reading the file\<close>

text \<open>Fields of pointer type: \<open>null\<close> clears them.\<close>

definition dec_pointer :: "(json \<Rightarrow> goerror + 'a) \<Rightarrow> (('a option \<Rightarrow> 'a option) \<Rightarrow> 's \<Rightarrow> 's) \<Rightarrow> json \<Rightarrow> 's \<Rightarrow> goerror option \<times> 's" where
  "dec_pointer get upd j s =
     (if j = JNull then (None, upd (\<lambda>_. None) s)
      else case get j of Inl e \<Rightarrow> (Some e, s) | Inr x \<Rightarrow> (None, upd (\<lambda>_. Some x) s))"

definition json_bool :: "string \<Rightarrow> json \<Rightarrow> goerror + bool" where
  "json_bool path j = (case j of JBool b \<Rightarrow> Inr b | _ \<Rightarrow> Inl (type_error (json_kind j) path ''bool''))"

definition json_int :: "string \<Rightarrow> json \<Rightarrow> goerror + int" where
  "json_int path j =
     (case j of JNum t \<Rightarrow> (case parse_int64 t of Some x \<Rightarrow> Inr x | None \<Rightarrow> Inl (type_error (''number '' @ t) path ''int''))
      | _ \<Rightarrow> Inl (type_error (json_kind j) path ''int''))"

definition json_float :: "config_lib \<Rightarrow> string \<Rightarrow> json \<Rightarrow> goerror + go_float" where
  "json_float lib path j =
     (case j of JNum t \<Rightarrow> (case clParseFloat lib t of Inr x \<Rightarrow> Inr x | Inl e \<Rightarrow> Inl (type_error (''number '' @ t) path ''float64''))
      | _ \<Rightarrow> Inl (type_error (json_kind j) path ''float64''))"

definition file_config_fields :: "config_lib \<Rightarrow> file_config field list" where
  "file_config_fields lib =
     [(''api_url'', dec_string ''fileConfig.api_url'' fcAPIURL_update),
      (''api_tls_ca_file'', dec_string ''fileConfig.api_tls_ca_file'' fcAPITLSCAFile_update),
      (''enrollment_token'', dec_string ''fileConfig.enrollment_token'' fcEnrollmentToken_update),
      (''node_id'', dec_string ''fileConfig.node_id'' fcNodeID_update),
      (''agent_token'', dec_string ''fileConfig.agent_token'' fcAgentToken_update),
      (''heartbeat_interval'', dec_string ''fileConfig.heartbeat_interval'' fcHeartbeatInterval_update),
      (''metrics_interval'', dec_string ''fileConfig.metrics_interval'' fcMetricsInterval_update),
      (''task_poll_interval'', dec_string ''fileConfig.task_poll_interval'' fcTaskPollInterval_update),
      (''request_timeout'', dec_string ''fileConfig.request_timeout'' fcRequestTimeout_update),
      (''task_timeout'', dec_string ''fileConfig.task_timeout'' fcTaskTimeout_update),
      (''shutdown_timeout'', dec_string ''fileConfig.shutdown_timeout'' fcShutdownTimeout_update),
      (''realtime_enabled'', dec_pointer (json_bool ''fileConfig.realtime_enabled'') fcRealtimeEnabled_update),
      (''realtime_ping_interval'', dec_string ''fileConfig.realtime_ping_interval'' fcRealtimePingInterval_update),
      (''realtime_queue_size'', dec_pointer (json_int ''fileConfig.realtime_queue_size'') fcRealtimeQueueSize_update),
      (''realtime_backoff_jitter'', dec_pointer (json_float lib ''fileConfig.realtime_backoff_jitter'') fcRealtimeBackoffJitter_update),
      (''realtime_namespace'', dec_string ''fileConfig.realtime_namespace'' fcRealtimeNamespace_update),
      (''realtime_path'', dec_string ''fileConfig.realtime_path'' fcRealtimePath_update),
      (''location_manual_region'', dec_string ''fileConfig.location_manual_region'' fcManualRegion_update),
      (''location_manual_zone'', dec_string ''fileConfig.location_manual_zone'' fcManualZone_update),
      (''location_manual_latitude'', dec_pointer (json_float lib ''fileConfig.location_manual_latitude'') fcManualLatitude_update),
      (''location_manual_longitude'', dec_pointer (json_float lib ''fileConfig.location_manual_longitude'') fcManualLongitude_update),
      (''location_public_ip_enabled'', dec_pointer (json_bool ''fileConfig.location_public_ip_enabled'') fcPublicIPEnabled_update),
      (''ipinfo_token'', dec_string ''fileConfig.ipinfo_token'' fcIPInfoToken_update),
      (''state_file'', dec_string ''fileConfig.state_file'' fcStateFile_update),
      (''log_level'', dec_string ''fileConfig.log_level'' fcLogLevel_update)]"

definition decode_file_config :: "config_lib \<Rightarrow> json \<Rightarrow> goerror option \<times> file_config" where
  "decode_file_config lib j = decode_struct ''config.fileConfig'' (file_config_fields lib) j zero_file_config"

definition unmarshal_file_config :: "config_lib \<Rightarrow> string \<Rightarrow> string \<Rightarrow> goerror + file_config" where
  "unmarshal_file_config lib path text =
     (case (case clParse lib text of Inl e \<Rightarrow> (Some e, zero_file_config) | Inr j \<Rightarrow> decode_file_config lib j) of
        (Some e, raw) \<Rightarrow> Inl (wrap_prefix (''decode config file '' @ path @ '': '') e)
      | (None, raw) \<Rightarrow> Inr raw)"

text \<open>\<open>applyDuration\<close>; the library's several texts for a bad duration are one here.\<close>

definition invalid_duration :: "string \<Rightarrow> goerror" where
  "invalid_duration v = Plain (''time: invalid duration '' @ quote_text v)"

definition apply_duration :: "string \<Rightarrow> string \<Rightarrow> int \<Rightarrow> goerror + int" where
  "apply_duration name v old =
     (if trim_space v = [] then Inr old
      else case parse_duration (trim_space v) of
        None \<Rightarrow> Inl (wrap_prefix (''parse '' @ name @ '': '') (invalid_duration (trim_space v)))
      | Some d \<Rightarrow> Inr d)"

definition if_set :: "string \<Rightarrow> string \<Rightarrow> string" where
  "if_set new old = (if new \<noteq> [] then new else old)"

definition if_given :: "'a option \<Rightarrow> 'a \<Rightarrow> 'a" where
  "if_given new old = (case new of None \<Rightarrow> old | Some x \<Rightarrow> x)"

definition merge_values :: "file_config \<Rightarrow> config \<Rightarrow> config" where
  "merge_values raw c = c\<lparr>
     cfAPIURL := (if fcAPIURL raw \<noteq> [] then trim_space (fcAPIURL raw) else cfAPIURL c),
     cfAPITLSCAFile := (if fcAPITLSCAFile raw \<noteq> [] then path_clean (trim_space (fcAPITLSCAFile raw)) else cfAPITLSCAFile c),
     cfEnrollmentToken := if_set (fcEnrollmentToken raw) (cfEnrollmentToken c),
     cfNodeID := if_set (fcNodeID raw) (cfNodeID c),
     cfAgentToken := if_set (fcAgentToken raw) (cfAgentToken c),
     cfStateFile := if_set (fcStateFile raw) (cfStateFile c),
     cfLogLevel := if_set (fcLogLevel raw) (cfLogLevel c),
     cfRealtimeEnabled := if_given (fcRealtimeEnabled raw) (cfRealtimeEnabled c),
     cfRealtimeQueueSize := if_given (fcRealtimeQueueSize raw) (cfRealtimeQueueSize c),
     cfRealtimeBackoffJitter := if_given (fcRealtimeBackoffJitter raw) (cfRealtimeBackoffJitter c),
     cfRealtimeNamespace := if_set (fcRealtimeNamespace raw) (cfRealtimeNamespace c),
     cfRealtimePath := if_set (fcRealtimePath raw) (cfRealtimePath c),
     cfManualRegion := if_set (fcManualRegion raw) (cfManualRegion c),
     cfManualZone := if_set (fcManualZone raw) (cfManualZone c),
     cfManualLatitude := (if fcManualLatitude raw \<noteq> None then fcManualLatitude raw else cfManualLatitude c),
     cfManualLongitude := (if fcManualLongitude raw \<noteq> None then fcManualLongitude raw else cfManualLongitude c),
     cfPublicIPEnabled := if_given (fcPublicIPEnabled raw) (cfPublicIPEnabled c),
     cfIPInfoToken := (if fcIPInfoToken raw \<noteq> [] then trim_space (fcIPInfoToken raw) else cfIPInfoToken c)\<rparr>"

definition merge_durations :: "file_config \<Rightarrow> config \<Rightarrow> goerror + config" where
  "merge_durations raw c =
     rbind (apply_duration ''heartbeat_interval'' (fcHeartbeatInterval raw) (cfHeartbeatInterval c)) (\<lambda>d1.
     rbind (apply_duration ''metrics_interval'' (fcMetricsInterval raw) (cfMetricsInterval c)) (\<lambda>d2.
     rbind (apply_duration ''task_poll_interval'' (fcTaskPollInterval raw) (cfTaskPollInterval c)) (\<lambda>d3.
     rbind (apply_duration ''request_timeout'' (fcRequestTimeout raw) (cfRequestTimeout c)) (\<lambda>d4.
     rbind (apply_duration ''task_timeout'' (fcTaskTimeout raw) (cfTaskTimeout c)) (\<lambda>d5.
     rbind (apply_duration ''shutdown_timeout'' (fcShutdownTimeout raw) (cfShutdownTimeout c)) (\<lambda>d6.
     rbind (apply_duration ''realtime_ping_interval'' (fcRealtimePingInterval raw) (cfRealtimePingInterval c)) (\<lambda>d7.
       Inr (c\<lparr>cfHeartbeatInterval := d1, cfMetricsInterval := d2, cfTaskPollInterval := d3, cfRequestTimeout := d4,
              cfTaskTimeout := d5, cfShutdownTimeout := d6, cfRealtimePingInterval := d7\<rparr>))))))))"

definition merge_config_text :: "config_lib \<Rightarrow> string \<Rightarrow> string \<Rightarrow> config \<Rightarrow> goerror + config" where
  "merge_config_text lib path text c =
     rbind (unmarshal_file_config lib path text) (\<lambda>raw. merge_durations raw (merge_values raw c))"

definition merge_config_file :: "config_lib \<Rightarrow> config \<Rightarrow> string \<Rightarrow> config io" where
  "merge_config_file lib c path w =
     (case os_read_file path w of
        (Inl e, w1) \<Rightarrow> (Inl (wrap_prefix (''read config file '' @ path @ '': '') e), w1)
      | (Inr text, w1) \<Rightarrow> (merge_config_text lib path text c, w1))"

subsection \<open>The environment\<close>

text \<open>The first of the keys whose value is not blank, with the trimmed value.\<close>

definition env_value :: "config_lib \<Rightarrow> string list \<Rightarrow> (string \<times> string) option" where
  "env_value lib ks = map_option (\<lambda>k. (k, trim_space (clGetenv lib k))) (find (\<lambda>k. trim_space (clGetenv lib k) \<noteq> []) ks)"

definition override_string :: "config_lib \<Rightarrow> string list \<Rightarrow> string \<Rightarrow> string" where
  "override_string lib ks old = (case env_value lib ks of None \<Rightarrow> old | Some (k, v) \<Rightarrow> v)"

definition override_parsed :: "(string \<Rightarrow> goerror + 'a) \<Rightarrow> config_lib \<Rightarrow> string list \<Rightarrow> 'a \<Rightarrow> goerror + 'a" where
  "override_parsed parse lib ks old =
     (case env_value lib ks of
        None \<Rightarrow> Inr old
      | Some (k, v) \<Rightarrow> (case parse v of Inl e \<Rightarrow> Inl (wrap_prefix (''parse '' @ k @ '': '') e) | Inr x \<Rightarrow> Inr x))"

text \<open>\<open>strconv.ParseBool\<close> and \<open>strconv.Atoi\<close>.\<close>

definition num_error :: "string \<Rightarrow> string \<Rightarrow> string \<Rightarrow> goerror" where
  "num_error fn v why = Plain (''strconv.'' @ fn @ '': parsing '' @ quote_text v @ '': '' @ why)"

definition parse_bool :: "string \<Rightarrow> goerror + bool" where
  "parse_bool v =
     (if v \<in> set [''1'', ''t'', ''T'', ''TRUE'', ''true'', ''True''] then Inr True
      else if v \<in> set [''0'', ''f'', ''F'', ''FALSE'', ''false'', ''False''] then Inr False
      else Inl (num_error ''ParseBool'' v ''invalid syntax''))"

definition atoi :: "string \<Rightarrow> goerror + int" where
  "atoi v =
     (case parse_int64 v of
        Some x \<Rightarrow> Inr x
      | None \<Rightarrow>
          (let body = (if has_prefix v ''-'' \<or> has_prefix v ''+'' then drop 1 v else v) in
           Inl (num_error ''Atoi'' v (if body \<noteq> [] \<and> list_all is_digit body then ''value out of range'' else ''invalid syntax''))))"

definition override_duration :: "config_lib \<Rightarrow> string list \<Rightarrow> int \<Rightarrow> goerror + int" where
  "override_duration lib ks old =
     (case env_value lib ks of None \<Rightarrow> Inr old | Some (k, v) \<Rightarrow> apply_duration k v old)"

definition merge_env_strings :: "config_lib \<Rightarrow> config \<Rightarrow> config" where
  "merge_env_strings lib c = c\<lparr>
     cfAPIURL := override_string lib [''NODERAX_API_URL'', ''API_URL''] (cfAPIURL c),
     cfAPITLSCAFile := override_string lib [''NODERAX_API_TLS_CA_FILE'', ''API_TLS_CA_FILE''] (cfAPITLSCAFile c),
     cfEnrollmentToken := override_string lib [''ENROLLMENT_TOKEN''] (cfEnrollmentToken c),
     cfNodeID := override_string lib [''NODE_ID''] (cfNodeID c),
     cfAgentToken := override_string lib [''AGENT_TOKEN''] (cfAgentToken c),
     cfStateFile := override_string lib [''STATE_FILE''] (cfStateFile c),
     cfLogLevel := override_string lib [''LOG_LEVEL''] (cfLogLevel c),
     cfRealtimeNamespace := override_string lib [''NODERAX_REALTIME_NAMESPACE'', ''REALTIME_NAMESPACE''] (cfRealtimeNamespace c),
     cfRealtimePath := override_string lib [''NODERAX_REALTIME_PATH'', ''REALTIME_PATH''] (cfRealtimePath c),
     cfManualRegion := override_string lib [''NODERAX_LOCATION_MANUAL_REGION'', ''LOCATION_MANUAL_REGION''] (cfManualRegion c),
     cfManualZone := override_string lib [''NODERAX_LOCATION_MANUAL_ZONE'', ''LOCATION_MANUAL_ZONE''] (cfManualZone c),
     cfIPInfoToken := override_string lib [''NODERAX_IPINFO_TOKEN'', ''IPINFO_TOKEN''] (cfIPInfoToken c)\<rparr>"

text \<open>A pointer is set to what was parsed.\<close>

definition override_float_ptr :: "config_lib \<Rightarrow> string list \<Rightarrow> go_float option \<Rightarrow> goerror + go_float option" where
  "override_float_ptr lib ks old = override_parsed (\<lambda>v. rbind (clParseFloat lib v) (\<lambda>x. Inr (Some x))) lib ks old"

definition merge_env_flags :: "config_lib \<Rightarrow> config \<Rightarrow> goerror + config" where
  "merge_env_flags lib c =
     rbind (override_parsed parse_bool lib [''REALTIME_ENABLED''] (cfRealtimeEnabled c)) (\<lambda>b1.
     rbind (override_parsed parse_bool lib [''NODERAX_LOCATION_PUBLIC_IP_ENABLED'', ''LOCATION_PUBLIC_IP_ENABLED''] (cfPublicIPEnabled c)) (\<lambda>b2.
     rbind (override_float_ptr lib [''NODERAX_LOCATION_MANUAL_LATITUDE'', ''LOCATION_MANUAL_LATITUDE''] (cfManualLatitude c)) (\<lambda>f1.
     rbind (override_float_ptr lib [''NODERAX_LOCATION_MANUAL_LONGITUDE'', ''LOCATION_MANUAL_LONGITUDE''] (cfManualLongitude c)) (\<lambda>f2.
       Inr (c\<lparr>cfRealtimeEnabled := b1, cfPublicIPEnabled := b2, cfManualLatitude := f1, cfManualLongitude := f2\<rparr>)))))"

definition merge_env_numbers :: "config_lib \<Rightarrow> config \<Rightarrow> goerror + config" where
  "merge_env_numbers lib c =
     rbind (override_duration lib [''HEARTBEAT_INTERVAL''] (cfHeartbeatInterval c)) (\<lambda>d1.
     rbind (override_duration lib [''NODERAX_REALTIME_METRICS_INTERVAL'', ''METRICS_INTERVAL''] (cfMetricsInterval c)) (\<lambda>d2.
     rbind (override_duration lib [''TASK_POLL_INTERVAL''] (cfTaskPollInterval c)) (\<lambda>d3.
     rbind (override_duration lib [''REQUEST_TIMEOUT''] (cfRequestTimeout c)) (\<lambda>d4.
     rbind (override_duration lib [''TASK_TIMEOUT''] (cfTaskTimeout c)) (\<lambda>d5.
     rbind (override_duration lib [''SHUTDOWN_TIMEOUT''] (cfShutdownTimeout c)) (\<lambda>d6.
     rbind (override_duration lib [''NODERAX_REALTIME_PING_INTERVAL'', ''REALTIME_PING_INTERVAL''] (cfRealtimePingInterval c)) (\<lambda>d7.
     rbind (override_parsed atoi lib [''REALTIME_QUEUE_SIZE''] (cfRealtimeQueueSize c)) (\<lambda>n.
     rbind (override_parsed (clParseFloat lib) lib [''REALTIME_BACKOFF_JITTER''] (cfRealtimeBackoffJitter c)) (\<lambda>j.
       Inr (c\<lparr>cfHeartbeatInterval := d1, cfMetricsInterval := d2, cfTaskPollInterval := d3, cfRequestTimeout := d4,
              cfTaskTimeout := d5, cfShutdownTimeout := d6, cfRealtimePingInterval := d7, cfRealtimeQueueSize := n,
              cfRealtimeBackoffJitter := j\<rparr>))))))))))"

text \<open>The paths and the realtime address are tidied after the environment, and only there.\<close>

definition tidy_paths :: "config \<Rightarrow> config" where
  "tidy_paths c =
     (let lead = (\<lambda>s. if has_prefix s ''/'' then s else ''/'' @ s);
          trail = (\<lambda>s. if has_suffix s ''/'' then s else s @ ''/'')
      in c\<lparr>cfStateFile := (if cfStateFile c \<noteq> [] then path_clean (cfStateFile c) else []),
           cfAPITLSCAFile := (if cfAPITLSCAFile c \<noteq> [] then path_clean (cfAPITLSCAFile c) else []),
           cfRealtimeNamespace := (if cfRealtimeNamespace c \<noteq> [] then lead (cfRealtimeNamespace c) else []),
           cfRealtimePath := (if cfRealtimePath c \<noteq> [] then trail (lead (cfRealtimePath c)) else [])\<rparr>)"

definition merge_env :: "config_lib \<Rightarrow> config \<Rightarrow> goerror + config" where
  "merge_env lib c =
     rbind (merge_env_flags lib (merge_env_strings lib c)) (\<lambda>c1.
     rbind (merge_env_numbers lib c1) (\<lambda>c2. Inr (tidy_paths c2)))"

subsection \<open>Normalisation and validation\<close>

definition normalize_api_url :: "string \<Rightarrow> string" where
  "normalize_api_url raw =
     (let v = trim_space raw in
      if v = [] then []
      else if str_contains v ''://'' then trim_right ''/'' v
      else trim_right ''/'' (''https://'' @ v))"

definition normalize_config :: "config \<Rightarrow> config" where
  "normalize_config c = c\<lparr>
     cfAPIURL := normalize_api_url (cfAPIURL c),
     cfManualRegion := trim_space (cfManualRegion c),
     cfManualZone := trim_space (cfManualZone c),
     cfIPInfoToken := trim_space (cfIPInfoToken c),
     cfRequestTimeout := (if cfTaskPollInterval c > 0 \<and> cfRequestTimeout c \<le> cfTaskPollInterval c
        then wrap64 (cfTaskPollInterval c + 10 * second) else cfRequestTimeout c)\<rparr>"

text \<open>Comparisons of \<open>float64\<close> values with a constant; every one with NaN is false.\<close>

definition float_less :: "go_float \<Rightarrow> rat \<Rightarrow> bool" where
  "float_less x q = (case x of NaN \<Rightarrow> False | Infinite neg \<Rightarrow> neg | Num p \<Rightarrow> p < q)"

definition float_greater :: "go_float \<Rightarrow> rat \<Rightarrow> bool" where
  "float_greater x q = (case x of NaN \<Rightarrow> False | Infinite neg \<Rightarrow> \<not> neg | Num p \<Rightarrow> p > q)"

definition valid_latitude :: "go_float \<Rightarrow> bool" where
  "valid_latitude x = (case x of Num q \<Rightarrow> - 90 \<le> q \<and> q \<le> 90 | _ \<Rightarrow> False)"

definition valid_longitude :: "go_float \<Rightarrow> bool" where
  "valid_longitude x = (case x of Num q \<Rightarrow> - 180 \<le> q \<and> q \<le> 180 | _ \<Rightarrow> False)"

definition validate_manual_location :: "config \<Rightarrow> goerror option" where
  "validate_manual_location c =
     (if trim_space (cfManualRegion c) = [] \<and> trim_space (cfManualZone c) = [] \<and> cfManualLatitude c = None \<and> cfManualLongitude c = None
      then None
      else if trim_space (cfManualRegion c) = []
      then Some (Plain ''LOCATION_MANUAL_REGION is required when manual location is configured'')
      else case (cfManualLatitude c, cfManualLongitude c) of
        (Some lat, Some long) \<Rightarrow>
          if \<not> valid_latitude lat then Some (Plain ''LOCATION_MANUAL_LATITUDE must be between -90 and 90'')
          else if \<not> valid_longitude long then Some (Plain ''LOCATION_MANUAL_LONGITUDE must be between -180 and 180'')
          else None
      | _ \<Rightarrow> Some (Plain ''LOCATION_MANUAL_LATITUDE and LOCATION_MANUAL_LONGITUDE are required when manual location is configured''))"

text \<open>The checks of \<open>Validate\<close> in order; the first that fails is the error.\<close>

definition validate_url :: "config_lib \<Rightarrow> config \<Rightarrow> goerror option" where
  "validate_url lib c =
     (if trim_space (cfAPIURL c) = [] then Some (Plain (''API_URL is required; set API_URL or provide NODERAX_CONFIG_FILE, ./config.local.json, ''
           @ ''./config.json, ./config/config.json, or /etc/noderax-agent/config.json''))
      else case ulParse (clURL lib) (cfAPIURL c) of
        Inl e \<Rightarrow> Some (wrap_prefix ''API_URL is invalid: '' e)
      | Inr u \<Rightarrow>
          if urScheme u \<noteq> ''http'' \<and> urScheme u \<noteq> ''https''
          then Some (Plain (''API_URL must use http or https, got '' @ quote_text (urScheme u)))
          else if urHost u = [] then Some (Plain (''API_URL must include a host, got '' @ quote_text (cfAPIURL c)))
          else if trim_space (cfAPITLSCAFile c) \<noteq> []
          then map_option (wrap_prefix ''API_TLS_CA_FILE is invalid: '') (clStat lib (cfAPITLSCAFile c))
          else None)"

definition numeric_checks :: "config \<Rightarrow> (bool \<times> string) list" where
  "numeric_checks c =
     [(cfHeartbeatInterval c \<le> 0, ''HEARTBEAT_INTERVAL must be greater than zero''),
      (cfMetricsInterval c \<le> 0, ''METRICS_INTERVAL must be greater than zero''),
      (cfTaskPollInterval c \<le> 0, ''TASK_POLL_INTERVAL must be greater than zero''),
      (cfRequestTimeout c \<le> 0, ''REQUEST_TIMEOUT must be greater than zero''),
      (cfTaskTimeout c \<le> 0, ''TASK_TIMEOUT must be greater than zero''),
      (cfShutdownTimeout c \<le> 0, ''SHUTDOWN_TIMEOUT must be greater than zero''),
      (cfRealtimePingInterval c \<le> 0, ''REALTIME_PING_INTERVAL must be greater than zero''),
      (cfRealtimeQueueSize c \<le> 0, ''REALTIME_QUEUE_SIZE must be greater than zero''),
      (float_less (cfRealtimeBackoffJitter c) 0 \<or> float_greater (cfRealtimeBackoffJitter c) 1,
       ''REALTIME_BACKOFF_JITTER must be between 0 and 1'')]"

definition text_checks :: "config \<Rightarrow> (bool \<times> string) list" where
  "text_checks c =
     [(trim_space (cfRealtimeNamespace c) = [], ''REALTIME_NAMESPACE must not be empty''),
      (\<not> has_prefix (cfRealtimeNamespace c) ''/'', ''REALTIME_NAMESPACE must start with '' @ [CHR 0x27] @ ''/'' @ [CHR 0x27] @ '', got '' @ quote_text (cfRealtimeNamespace c)),
      (trim_space (cfRealtimePath c) = [], ''REALTIME_PATH must not be empty''),
      (\<not> has_prefix (cfRealtimePath c) ''/'', ''REALTIME_PATH must start with '' @ [CHR 0x27] @ ''/'' @ [CHR 0x27] @ '', got '' @ quote_text (cfRealtimePath c)),
      (trim_space (cfStateFile c) = [], ''STATE_FILE must not be empty'')]"

definition first_failure :: "(bool \<times> string) list \<Rightarrow> goerror option" where
  "first_failure cs = map_option (\<lambda>p. Plain (snd p)) (find fst cs)"

definition validate_config :: "config_lib \<Rightarrow> config \<Rightarrow> goerror option" where
  "validate_config lib c =
     first_error (validate_url lib c)
       (first_error (first_failure (numeric_checks c @ text_checks c)) (validate_manual_location c))"

definition finish_config :: "config_lib \<Rightarrow> config \<Rightarrow> goerror + config" where
  "finish_config lib c =
     (let c1 = normalize_config c in case validate_config lib c1 of Some e \<Rightarrow> Inl e | None \<Rightarrow> Inr c1)"

subsection \<open>Loading and saving\<close>

definition config_candidates :: "string list" where
  "config_candidates = [''./config.local.json'', ''./config.json'', ''./config/config.json'',
     ''/usr/local/etc/noderax-agent/config.json'', ''/etc/noderax-agent/config.json'']"

definition detect_config_file :: "config_lib \<Rightarrow> string" where
  "detect_config_file lib =
     (if trim_space (clGetenv lib ''NODERAX_CONFIG_FILE'') \<noteq> [] then trim_space (clGetenv lib ''NODERAX_CONFIG_FILE'')
      else case find (\<lambda>p. clStat lib p = None) config_candidates of None \<Rightarrow> [] | Some p \<Rightarrow> p)"

definition load_config :: "config_lib \<Rightarrow> config io" where
  "load_config lib =
     (let file = detect_config_file lib in
      io_bind (if file \<noteq> [] then io_bind (merge_config_file lib default_config file) (\<lambda>c. io_ret (c\<lparr>cfConfigFile := file\<rparr>))
               else io_ret default_config) (\<lambda>c.
      io_lift (rbind (merge_env lib c) (finish_config lib))))"

definition load_config_file :: "config_lib \<Rightarrow> string \<Rightarrow> config io" where
  "load_config_file lib path =
     io_bind (merge_config_file lib default_config path) (\<lambda>c. io_lift (finish_config lib (c\<lparr>cfConfigFile := path\<rparr>)))"

definition file_config_of :: "config \<Rightarrow> file_config" where
  "file_config_of c =
     \<lparr>fcAPIURL = cfAPIURL c, fcAPITLSCAFile = cfAPITLSCAFile c, fcEnrollmentToken = cfEnrollmentToken c,
      fcNodeID = cfNodeID c, fcAgentToken = cfAgentToken c,
      fcHeartbeatInterval = duration_text (cfHeartbeatInterval c), fcMetricsInterval = duration_text (cfMetricsInterval c),
      fcTaskPollInterval = duration_text (cfTaskPollInterval c), fcRequestTimeout = duration_text (cfRequestTimeout c),
      fcTaskTimeout = duration_text (cfTaskTimeout c), fcShutdownTimeout = duration_text (cfShutdownTimeout c),
      fcRealtimeEnabled = Some (cfRealtimeEnabled c), fcRealtimePingInterval = duration_text (cfRealtimePingInterval c),
      fcRealtimeQueueSize = Some (cfRealtimeQueueSize c), fcRealtimeBackoffJitter = Some (cfRealtimeBackoffJitter c),
      fcRealtimeNamespace = cfRealtimeNamespace c, fcRealtimePath = cfRealtimePath c,
      fcManualRegion = cfManualRegion c, fcManualZone = cfManualZone c,
      fcManualLatitude = cfManualLatitude c, fcManualLongitude = cfManualLongitude c,
      fcPublicIPEnabled = (if cfPublicIPEnabled c then Some True else None), fcIPInfoToken = cfIPInfoToken c,
      fcStateFile = cfStateFile c, fcLogLevel = cfLogLevel c\<rparr>"

definition bool_member :: "string \<Rightarrow> bool option \<Rightarrow> (string \<times> json) list" where
  "bool_member k b = (case b of None \<Rightarrow> [] | Some x \<Rightarrow> [(k, JBool x)])"

definition int_member :: "string \<Rightarrow> int option \<Rightarrow> (string \<times> json) list" where
  "int_member k n = (case n of None \<Rightarrow> [] | Some x \<Rightarrow> [(k, JNum (int_text x))])"

definition text_member :: "string \<Rightarrow> string \<Rightarrow> (string \<times> json) list" where
  "text_member k s = [(k, JStr s)]"

definition file_config_members :: "config_lib \<Rightarrow> file_config \<Rightarrow> goerror + (string \<times> json) list" where
  "file_config_members lib r =
     rbind (optional_float (clNumText lib) ''realtime_backoff_jitter'' (fcRealtimeBackoffJitter r)) (\<lambda>jitter.
     rbind (optional_float (clNumText lib) ''location_manual_latitude'' (fcManualLatitude r)) (\<lambda>lat.
     rbind (optional_float (clNumText lib) ''location_manual_longitude'' (fcManualLongitude r)) (\<lambda>long.
       Inr (text_member ''api_url'' (fcAPIURL r) @ omit_empty ''api_tls_ca_file'' (fcAPITLSCAFile r)
         @ text_member ''enrollment_token'' (fcEnrollmentToken r) @ text_member ''node_id'' (fcNodeID r)
         @ text_member ''agent_token'' (fcAgentToken r) @ text_member ''heartbeat_interval'' (fcHeartbeatInterval r)
         @ text_member ''metrics_interval'' (fcMetricsInterval r) @ text_member ''task_poll_interval'' (fcTaskPollInterval r)
         @ text_member ''request_timeout'' (fcRequestTimeout r) @ text_member ''task_timeout'' (fcTaskTimeout r)
         @ text_member ''shutdown_timeout'' (fcShutdownTimeout r) @ bool_member ''realtime_enabled'' (fcRealtimeEnabled r)
         @ omit_empty ''realtime_ping_interval'' (fcRealtimePingInterval r) @ int_member ''realtime_queue_size'' (fcRealtimeQueueSize r)
         @ jitter @ omit_empty ''realtime_namespace'' (fcRealtimeNamespace r) @ omit_empty ''realtime_path'' (fcRealtimePath r)
         @ omit_empty ''location_manual_region'' (fcManualRegion r) @ omit_empty ''location_manual_zone'' (fcManualZone r)
         @ lat @ long @ bool_member ''location_public_ip_enabled'' (fcPublicIPEnabled r)
         @ omit_empty ''ipinfo_token'' (fcIPInfoToken r) @ text_member ''state_file'' (fcStateFile r)
         @ text_member ''log_level'' (fcLogLevel r)))))"

definition write_config_file :: "string \<Rightarrow> string \<Rightarrow> unit io" where
  "write_config_file path data =
     io_bind (io_check (wrap_prefix (''create config directory for '' @ path @ '': '')) (os_mkdir_all (path_dir path))) (\<lambda>_.
     io_check (wrap_prefix (''write config file '' @ path @ '': '')) (os_write_file path data 0x180))"

definition mirror_path :: "config_lib \<Rightarrow> string \<Rightarrow> string option" where
  "mirror_path lib path =
     (let m = trim_space (clGetenv lib ''NODERAX_CONFIG_MIRROR_FILE'') in
      if m = [] \<or> path_clean m = path_clean path then None else Some (path_clean m))"

definition config_text :: "config_lib \<Rightarrow> config \<Rightarrow> goerror + string" where
  "config_text lib c = rbind (file_config_members lib (file_config_of c)) (\<lambda>ms. Inr (json_indent 0 (JObj ms)))"

definition save_config_file :: "config_lib \<Rightarrow> string \<Rightarrow> config \<Rightarrow> unit io" where
  "save_config_file lib path c =
     (if trim_space path = [] then io_fail (Plain ''config path must not be empty'')
      else
        io_bind (io_check (wrap_prefix (''create config directory for '' @ path @ '': '')) (os_mkdir_all (path_dir path))) (\<lambda>_.
        io_bind (io_lift (case config_text lib c of Inl e \<Rightarrow> Inl (wrap_prefix (''encode config file '' @ path @ '': '') e) | Inr t \<Rightarrow> Inr t)) (\<lambda>data.
        io_bind (write_config_file path data) (\<lambda>_.
          case mirror_path lib path of None \<Rightarrow> io_ret () | Some m \<Rightarrow> write_config_file m data))))"

subsection \<open>The file holds the configuration\<close>

lemma file_config_lookup:
  "find_field (file_config_fields lib) ''api_url'' = Some (dec_string ''fileConfig.api_url'' fcAPIURL_update)"
  "find_field (file_config_fields lib) ''api_tls_ca_file'' = Some (dec_string ''fileConfig.api_tls_ca_file'' fcAPITLSCAFile_update)"
  "find_field (file_config_fields lib) ''enrollment_token'' = Some (dec_string ''fileConfig.enrollment_token'' fcEnrollmentToken_update)"
  "find_field (file_config_fields lib) ''node_id'' = Some (dec_string ''fileConfig.node_id'' fcNodeID_update)"
  "find_field (file_config_fields lib) ''agent_token'' = Some (dec_string ''fileConfig.agent_token'' fcAgentToken_update)"
  "find_field (file_config_fields lib) ''heartbeat_interval'' = Some (dec_string ''fileConfig.heartbeat_interval'' fcHeartbeatInterval_update)"
  "find_field (file_config_fields lib) ''metrics_interval'' = Some (dec_string ''fileConfig.metrics_interval'' fcMetricsInterval_update)"
  "find_field (file_config_fields lib) ''task_poll_interval'' = Some (dec_string ''fileConfig.task_poll_interval'' fcTaskPollInterval_update)"
  "find_field (file_config_fields lib) ''request_timeout'' = Some (dec_string ''fileConfig.request_timeout'' fcRequestTimeout_update)"
  "find_field (file_config_fields lib) ''task_timeout'' = Some (dec_string ''fileConfig.task_timeout'' fcTaskTimeout_update)"
  "find_field (file_config_fields lib) ''shutdown_timeout'' = Some (dec_string ''fileConfig.shutdown_timeout'' fcShutdownTimeout_update)"
  "find_field (file_config_fields lib) ''realtime_enabled'' = Some (dec_pointer (json_bool ''fileConfig.realtime_enabled'') fcRealtimeEnabled_update)"
  "find_field (file_config_fields lib) ''realtime_ping_interval'' = Some (dec_string ''fileConfig.realtime_ping_interval'' fcRealtimePingInterval_update)"
  "find_field (file_config_fields lib) ''realtime_queue_size'' = Some (dec_pointer (json_int ''fileConfig.realtime_queue_size'') fcRealtimeQueueSize_update)"
  "find_field (file_config_fields lib) ''realtime_backoff_jitter''
     = Some (dec_pointer (json_float lib ''fileConfig.realtime_backoff_jitter'') fcRealtimeBackoffJitter_update)"
  "find_field (file_config_fields lib) ''realtime_namespace'' = Some (dec_string ''fileConfig.realtime_namespace'' fcRealtimeNamespace_update)"
  "find_field (file_config_fields lib) ''realtime_path'' = Some (dec_string ''fileConfig.realtime_path'' fcRealtimePath_update)"
  "find_field (file_config_fields lib) ''location_manual_region'' = Some (dec_string ''fileConfig.location_manual_region'' fcManualRegion_update)"
  "find_field (file_config_fields lib) ''location_manual_zone'' = Some (dec_string ''fileConfig.location_manual_zone'' fcManualZone_update)"
  "find_field (file_config_fields lib) ''location_manual_latitude''
     = Some (dec_pointer (json_float lib ''fileConfig.location_manual_latitude'') fcManualLatitude_update)"
  "find_field (file_config_fields lib) ''location_manual_longitude''
     = Some (dec_pointer (json_float lib ''fileConfig.location_manual_longitude'') fcManualLongitude_update)"
  "find_field (file_config_fields lib) ''location_public_ip_enabled''
     = Some (dec_pointer (json_bool ''fileConfig.location_public_ip_enabled'') fcPublicIPEnabled_update)"
  "find_field (file_config_fields lib) ''ipinfo_token'' = Some (dec_string ''fileConfig.ipinfo_token'' fcIPInfoToken_update)"
  "find_field (file_config_fields lib) ''state_file'' = Some (dec_string ''fileConfig.state_file'' fcStateFile_update)"
  "find_field (file_config_fields lib) ''log_level'' = Some (dec_string ''fileConfig.log_level'' fcLogLevel_update)"
  by (simp_all add: find_field_def file_config_fields_def)

text \<open>Reading one written member, whatever follows it.\<close>

lemma read_text_member:
  "find_field fs k = Some (dec_string p upd) \<Longrightarrow>
    decode_members fs (text_member k s @ ys) st = decode_members fs ys (upd (\<lambda>_. s) st)"
  by (simp add: text_member_def dec_string_def first_error_def split_beta)

lemma read_omitted_text:
  "find_field fs k = Some (dec_string p upd) \<Longrightarrow> upd (\<lambda>_. []) st = st \<Longrightarrow>
    decode_members fs (omit_empty k s @ ys) st = decode_members fs ys (upd (\<lambda>_. s) st)"
  by (simp add: omit_empty_def dec_string_def first_error_def split_beta)

lemma read_bool_member:
  "find_field fs k = Some (dec_pointer (json_bool p) upd) \<Longrightarrow> upd (\<lambda>_. None) st = st \<Longrightarrow>
    decode_members fs (bool_member k b @ ys) st = decode_members fs ys (upd (\<lambda>_. b) st)"
  by (cases b) (simp_all add: bool_member_def dec_pointer_def json_bool_def first_error_def split_beta)

lemma read_int_member:
  "find_field fs k = Some (dec_pointer (json_int p) upd) \<Longrightarrow> upd (\<lambda>_. None) st = st \<Longrightarrow>
    (\<forall>x. n = Some x \<longrightarrow> - (2 ^ 63) \<le> x \<and> x < 2 ^ 63) \<Longrightarrow>
    decode_members fs (int_member k n @ ys) st = decode_members fs ys (upd (\<lambda>_. n) st)"
  by (cases n) (simp_all add: int_member_def dec_pointer_def json_int_def first_error_def split_beta parse_int64_int_text)

lemma read_float_member:
  assumes "find_field fs k = Some (dec_pointer (json_float lib p) upd)" "upd (\<lambda>_. None) st = st"
    and "optional_float (clNumText lib) k x = Inr ms" "\<And>q. x = Some (Num q) \<Longrightarrow> clParseFloat lib (clNumText lib q) = Inr (Num q)"
  shows "decode_members fs (ms @ ys) st = decode_members fs ys (upd (\<lambda>_. x) st)"
proof (cases x)
  case None
  with assms show ?thesis by (simp add: optional_float_def)
next
  case (Some f)
  with assms(3) obtain q where "f = Num q" "ms = [(k, JNum (clNumText lib q))]"
    by (cases f) (auto simp: optional_float_def marshal_float_def)
  with assms Some show ?thesis by (simp add: dec_pointer_def json_float_def first_error_def split_beta)
qed

definition written_floats :: "file_config \<Rightarrow> go_float option list" where
  "written_floats r = [fcRealtimeBackoffJitter r, fcManualLatitude r, fcManualLongitude r]"

lemma decode_written_config:
  assumes "file_config_members lib r = Inr ms"
    and f: "\<And>q. Some (Num q) \<in> set (written_floats r) \<Longrightarrow> clParseFloat lib (clNumText lib q) = Inr (Num q)"
    and "\<forall>x. fcRealtimeQueueSize r = Some x \<longrightarrow> - (2 ^ 63) \<le> x \<and> x < 2 ^ 63"
  shows "decode_file_config lib (JObj ms) = (None, r)"
proof -
  obtain j1 j2 j3 where j: "optional_float (clNumText lib) ''realtime_backoff_jitter'' (fcRealtimeBackoffJitter r) = Inr j1"
    "optional_float (clNumText lib) ''location_manual_latitude'' (fcManualLatitude r) = Inr j2"
    "optional_float (clNumText lib) ''location_manual_longitude'' (fcManualLongitude r) = Inr j3"
    using assms(1) by (auto simp: file_config_members_def rbind_Inr_iff)
  let ?fs = "file_config_fields lib"
  note texts = file_config_lookup(1,3-11,24,25) [THEN read_text_member]
  note omits = file_config_lookup(2,13,16-19,23) [THEN read_omitted_text]
  note bools = file_config_lookup(12,22) [THEN read_bool_member]
  have f3: "fcRealtimeBackoffJitter r = Some (Num q) \<Longrightarrow> clParseFloat lib (clNumText lib q) = Inr (Num q)"
    "fcManualLatitude r = Some (Num q) \<Longrightarrow> clParseFloat lib (clNumText lib q) = Inr (Num q)"
    "fcManualLongitude r = Some (Num q) \<Longrightarrow> clParseFloat lib (clNumText lib q) = Inr (Num q)" for q
    using f [of q] by (simp_all add: written_floats_def)
  note floats = file_config_lookup(15) [THEN read_float_member, OF _ j(1) f3(1)]
    file_config_lookup(20) [THEN read_float_member, OF _ j(2) f3(2)]
    file_config_lookup(21) [THEN read_float_member, OF _ j(3) f3(3)]
  have last: "decode_members ?fs (text_member ''log_level'' s) st = (None, st\<lparr>fcLogLevel := s\<rparr>)" for s st
    using read_text_member [OF file_config_lookup(25), of lib s "[]"] by simp
  have "decode_members ?fs ms zero_file_config = (None, r)"
    using assms(1) unfolding file_config_members_def j rbind_simps zero_file_config_def
    by (auto simp: texts omits bools floats read_int_member [OF file_config_lookup(14) _ assms(3)] last intro!: file_config.equality)
  then show ?thesis by (simp add: decode_file_config_def decode_struct_def)
qed

text \<open>
  What the file cannot express: an empty log level (it means the default), untidied values and numbers
  beyond 64 bits, none of which the agent has in use.
\<close>

definition int64_range :: "int \<Rightarrow> bool" where
  "int64_range d \<longleftrightarrow> - (2 ^ 63) \<le> d \<and> d < 2 ^ 63"

definition storable :: "config \<Rightarrow> bool" where
  "storable c \<longleftrightarrow> normalize_config c = c \<and> cfLogLevel c \<noteq> []
     \<and> (cfAPITLSCAFile c \<noteq> [] \<longrightarrow> path_clean (trim_space (cfAPITLSCAFile c)) = cfAPITLSCAFile c)
     \<and> list_all int64_range [cfHeartbeatInterval c, cfMetricsInterval c, cfTaskPollInterval c, cfRequestTimeout c, cfTaskTimeout c,
          cfShutdownTimeout c, cfRealtimePingInterval c, cfRealtimeQueueSize c]"

lemma first_error_None: "first_error a b = None \<longleftrightarrow> a = None \<and> b = None"
  by (auto simp: first_error_def split: option.splits)

lemma validate_config_None: "validate_config lib c = None \<longleftrightarrow>
    validate_url lib c = None \<and> list_all (\<lambda>p. \<not> fst p) (numeric_checks c) \<and> list_all (\<lambda>p. \<not> fst p) (text_checks c)
    \<and> validate_manual_location c = None"
  by (auto simp: validate_config_def first_error_None first_failure_def find_None_iff list_all_iff)

lemma normalized_parts:
  assumes "normalize_config c = c"
  shows "normalize_api_url (cfAPIURL c) = cfAPIURL c" "trim_space (cfManualRegion c) = cfManualRegion c"
    "trim_space (cfManualZone c) = cfManualZone c" "trim_space (cfIPInfoToken c) = cfIPInfoToken c"
  using arg_cong [OF assms, of cfAPIURL] arg_cong [OF assms, of cfManualRegion] arg_cong [OF assms, of cfManualZone]
    arg_cong [OF assms, of cfIPInfoToken]
  by (simp_all add: normalize_config_def)

lemma normalize_api_url_trim: "normalize_api_url (trim_space u) = normalize_api_url u"
  by (simp add: normalize_api_url_def)

lemma apply_stored_duration: "int64_range d \<Longrightarrow> apply_duration n (duration_text d) old = Inr d"
  by (simp add: apply_duration_def duration_round_trip int64_range_def)

lemma normalize_merged:
  assumes "storable c" "validate_config lib c = None"
  shows "rbind (merge_durations (file_config_of c) (merge_values (file_config_of c) default_config))
      (\<lambda>m. finish_config lib (m\<lparr>cfConfigFile := path\<rparr>)) = finish_config lib (c\<lparr>cfConfigFile := path\<rparr>)"
proof -
  from assms have n: "normalize_config c = c" by (simp add: storable_def)
  note p = normalized_parts [OF n]
  have t: "cfRealtimeNamespace c \<noteq> []" "cfRealtimePath c \<noteq> []" "cfStateFile c \<noteq> []"
    using assms(2) unfolding validate_config_None by (auto simp: text_checks_def)
  define m where "m = c\<lparr>cfConfigFile := [], cfAPIURL := trim_space (cfAPIURL c)\<rparr>"
  have "merge_durations (file_config_of c) (merge_values (file_config_of c) default_config) = Inr m"
    using assms(1) t p
    by (auto simp: merge_durations_def merge_values_def file_config_of_def apply_stored_duration storable_def if_set_def if_given_def
        default_config_def m_def intro!: config.equality)
  moreover have "normalize_config (m\<lparr>cfConfigFile := path\<rparr>) = normalize_config (c\<lparr>cfConfigFile := path\<rparr>)"
    by (rule config.equality) (simp_all add: m_def normalize_config_def normalize_api_url_trim)
  ultimately show ?thesis by (simp add: finish_config_def)
qed

lemma finish_stored:
  assumes "normalize_config c = c" "validate_config lib c = None"
  shows "finish_config lib (c\<lparr>cfConfigFile := path\<rparr>) = Inr (c\<lparr>cfConfigFile := path\<rparr>)"
proof -
  have n: "normalize_config (c\<lparr>cfConfigFile := path\<rparr>) = c\<lparr>cfConfigFile := path\<rparr>"
    using normalized_parts [OF assms(1)] arg_cong [OF assms(1), of cfRequestTimeout]
    by (intro config.equality) (auto simp: normalize_config_def split: if_splits)
  have "validate_url lib (c\<lparr>cfConfigFile := path\<rparr>) = validate_url lib c" "numeric_checks (c\<lparr>cfConfigFile := path\<rparr>) = numeric_checks c"
    "text_checks (c\<lparr>cfConfigFile := path\<rparr>) = text_checks c" "validate_manual_location (c\<lparr>cfConfigFile := path\<rparr>) = validate_manual_location c"
    by (simp_all add: validate_url_def numeric_checks_def text_checks_def validate_manual_location_def cong: if_cong sum.case_cong option.case_cong)
  then have "validate_config lib (c\<lparr>cfConfigFile := path\<rparr>) = validate_config lib c" by (simp only: validate_config_def)
  with n assms(2) show ?thesis by (simp add: finish_config_def)
qed

lemma write_config_file_ok:
  "write_config_file p d w = (Inr u, w') \<Longrightarrow> wfiles w' = (wfiles w)(p \<mapsto> (d, mode_of w p 0x180))"
  by (auto simp: write_config_file_def io_bind_Inr io_check_iff mode_of_def
      dest!: os_mkdir_all_files os_write_file_ok split: option.splits)

lemma save_config_file_ok:
  assumes "save_config_file lib path c w = (Inr u, w')" "mirror_path lib path \<noteq> Some path"
  obtains ms m where "file_config_members lib (file_config_of c) = Inr ms" "wfiles w' path = Some (json_indent 0 (JObj ms), m)"
proof -
  from assms(1) obtain data w1 w2 where c: "config_text lib c = Inr data" "write_config_file path data w1 = (Inr (), w2)"
    and rest: "(case mirror_path lib path of None \<Rightarrow> io_ret () | Some m \<Rightarrow> write_config_file m data) w2 = (Inr u, w')"
    by (auto simp: save_config_file_def io_bind_Inr split: if_splits sum.splits)
  from c(1) obtain ms where ms: "file_config_members lib (file_config_of c) = Inr ms" "data = json_indent 0 (JObj ms)"
    by (auto simp: config_text_def rbind_Inr_iff)
  have "wfiles w2 path = Some (data, mode_of w1 path 0x180)" using write_config_file_ok [OF c(2)] by simp
  moreover have "wfiles w' path = wfiles w2 path"
    using rest assms(2) by (cases "mirror_path lib path") (auto dest!: write_config_file_ok)
  ultimately show thesis using that ms by simp
qed

text \<open>A configuration in use is loaded from a file that holds its rendering.\<close>

lemma stored_config_loaded:
  assumes "file_config_members lib (file_config_of c) = Inr ms" "wfiles w path = Some (json_indent 0 (JObj ms), m)"
    and "storable c" "validate_config lib c = None" "wfault w (wtick w) (OpReadFile path) = None"
    and "clParse lib (json_indent 0 (JObj ms)) = Inr (JObj ms)"
    and "\<And>q. Some (Num q) \<in> set (written_floats (file_config_of c)) \<Longrightarrow> clParseFloat lib (clNumText lib q) = Inr (Num q)"
  shows "fst (load_config_file lib path w) = Inr (c\<lparr>cfConfigFile := path\<rparr>)"
proof -
  have q: "int64_range (cfRealtimeQueueSize c)" using assms(3) by (simp add: storable_def)
  have "decode_file_config lib (JObj ms) = (None, file_config_of c)"
    by (rule decode_written_config [OF assms(1,7)]) (use q in \<open>simp_all add: file_config_of_def int64_range_def\<close>)
  then have u: "unmarshal_file_config lib path (json_indent 0 (JObj ms)) = Inr (file_config_of c)"
    using assms(6) by (simp add: unmarshal_file_config_def)
  obtain w2 where r: "os_read_file path w = (Inr (json_indent 0 (JObj ms)), w2)"
    using assms(2,5) by (simp add: os_read_file_def)
  have "fst (load_config_file lib path w)
      = rbind (merge_config_text lib path (json_indent 0 (JObj ms)) default_config) (\<lambda>m. finish_config lib (m\<lparr>cfConfigFile := path\<rparr>))"
    unfolding load_config_file_def merge_config_file_def io_bind_def r
    by (simp add: io_lift_def split: sum.splits)
  also have "\<dots> = rbind (merge_durations (file_config_of c) (merge_values (file_config_of c) default_config))
      (\<lambda>m. finish_config lib (m\<lparr>cfConfigFile := path\<rparr>))"
    by (simp only: merge_config_text_def u rbind_simps)
  also have "\<dots> = Inr (c\<lparr>cfConfigFile := path\<rparr>)"
    using assms(3,4) by (simp only: normalize_merged) (simp add: finish_stored storable_def)
  finally show ?thesis .
qed

lemma saved_config_loaded:
  assumes "save_config_file lib path c w = (Inr u, w')" "storable c" "validate_config lib c = None"
    and "mirror_path lib path \<noteq> Some path" "wfault w' (wtick w') (OpReadFile path) = None"
    and "\<And>ms. file_config_members lib (file_config_of c) = Inr ms \<Longrightarrow> clParse lib (json_indent 0 (JObj ms)) = Inr (JObj ms)"
    and "\<And>q. Some (Num q) \<in> set (written_floats (file_config_of c)) \<Longrightarrow> clParseFloat lib (clNumText lib q) = Inr (Num q)"
  shows "fst (load_config_file lib path w') = Inr (c\<lparr>cfConfigFile := path\<rparr>)"
proof -
  obtain ms m where ms: "file_config_members lib (file_config_of c) = Inr ms" "wfiles w' path = Some (json_indent 0 (JObj ms), m)"
    by (rule save_config_file_ok [OF assms(1,4)])
  show ?thesis by (rule stored_config_loaded [OF ms assms(2,3,5) assms(6) [OF ms(1)] assms(7)])
qed

text \<open>
  C28. What is saved is what is loaded: a configuration in use, written by \<open>SaveFile\<close> without an error, is
  read back by \<open>LoadFile\<close> unchanged but for the path it came from. The JSON parser inverts the rendering
  of this document and the float parser the rendering of floats.
\<close>

theorem config_file_round_trip:
  assumes "save_config_file lib path c w = (Inr u, w')" "storable c" "validate_config lib c = None"
    and "mirror_path lib path \<noteq> Some path" "wfault w' (wtick w') (OpReadFile path) = None"
    and "\<And>ms. file_config_members lib (file_config_of c) = Inr ms \<Longrightarrow> clParse lib (json_indent 0 (JObj ms)) = Inr (JObj ms)"
    and "\<And>q. Some (Num q) \<in> set (written_floats (file_config_of c)) \<Longrightarrow> clParseFloat lib (clNumText lib q) = Inr (Num q)"
  shows "fst (load_config_file lib path w') = Inr (c\<lparr>cfConfigFile := path\<rparr>)"
  by (rule saved_config_loaded [OF assms])

subsection \<open>What is loaded is valid\<close>

lemma finish_config_valid:
  assumes "finish_config lib c0 = Inr c"
  shows "c = normalize_config c0" "validate_config lib c = None"
  using assms by (auto simp: finish_config_def Let_def split: option.splits)

lemma request_beyond_poll: "c = normalize_config c0 \<Longrightarrow> 0 < cfTaskPollInterval c \<Longrightarrow> 0 < cfRequestTimeout c \<Longrightarrow>
    cfTaskPollInterval c < 2 ^ 63 \<Longrightarrow> cfTaskPollInterval c < cfRequestTimeout c"
proof -
  assume c: "c = normalize_config c0" "0 < cfTaskPollInterval c" "0 < cfRequestTimeout c" "cfTaskPollInterval c < 2 ^ 63"
  let ?p = "cfTaskPollInterval c0"
  have p: "cfTaskPollInterval c = ?p" using c(1) by (simp add: normalize_config_def)
  show ?thesis
  proof (cases "cfRequestTimeout c0 \<le> ?p")
    case True
    have r: "cfRequestTimeout c = wrap64 (?p + 10 * second)" using True c(1,2) p by (simp add: normalize_config_def)
    show ?thesis
    proof (cases "?p + 10 * second < 2 ^ 63")
      case True
      with c(2) p r show ?thesis by (simp add: wrap64_id)
    next
      case False
      have "wrap64 (?p + 10 * second) = wrap64 (?p + 10 * second - 2 ^ 64)"
      proof -
        have "(x - 2 ^ 64) mod 2 ^ 64 = x mod 2 ^ 64" for x :: int by simp
        then have "word_of_int (x - 2 ^ 64) = (word_of_int x :: 64 word)" for x
          by (simp only: word_of_int_eq_iff take_bit_eq_mod len_num0 len_bit0 len_bit1 len_num1) simp
        then show ?thesis by (simp only: wrap64_def)
      qed
      also have "\<dots> = ?p + 10 * second - 2 ^ 64" using False c(4) p by (intro wrap64_id) simp_all
      finally have "cfRequestTimeout c < 0" using r c(4) p by simp
      with c(3) show ?thesis by simp
    qed
  next
    case False
    with c(1) p show ?thesis by (simp add: normalize_config_def)
  qed
qed

definition loaded :: "config_lib \<Rightarrow> world \<Rightarrow> config \<Rightarrow> bool" where
  "loaded lib w c \<longleftrightarrow> (\<exists>w'. load_config lib w = (Inr c, w')) \<or> (\<exists>path w'. load_config_file lib path w = (Inr c, w'))"

lemma loaded_finish: "loaded lib w c \<Longrightarrow> \<exists>c0. finish_config lib c0 = Inr c"
  by (auto simp: loaded_def load_config_def load_config_file_def Let_def io_bind_Inr rbind_Inr_iff split: if_splits)

text \<open>
  C34. Every configuration the agent gets to use is sound: \<open>http\<close> or \<open>https\<close> with a host, positive
  intervals, a request timeout beyond the polling interval (a sum that overflows is refused, not used), a
  queue with room, rooted realtime paths, and a manual location that is complete and on the globe.
\<close>

theorem loaded_config_sound:
  assumes "loaded lib w c" "cfTaskPollInterval c < 2 ^ 63"
  shows "(\<exists>u. ulParse (clURL lib) (cfAPIURL c) = Inr u \<and> (urScheme u = ''http'' \<or> urScheme u = ''https'') \<and> urHost u \<noteq> [])
    \<and> 0 < cfHeartbeatInterval c \<and> 0 < cfMetricsInterval c \<and> 0 < cfTaskPollInterval c \<and> 0 < cfTaskTimeout c
    \<and> 0 < cfShutdownTimeout c \<and> 0 < cfRealtimePingInterval c \<and> 0 < cfRealtimeQueueSize c
    \<and> cfTaskPollInterval c < cfRequestTimeout c
    \<and> has_prefix (cfRealtimeNamespace c) ''/'' \<and> has_prefix (cfRealtimePath c) ''/''
    \<and> (cfManualLatitude c \<noteq> None \<or> cfManualLongitude c \<noteq> None \<longrightarrow>
        trim_space (cfManualRegion c) \<noteq> [] \<and> pred_option valid_latitude (cfManualLatitude c)
        \<and> pred_option valid_longitude (cfManualLongitude c) \<and> cfManualLatitude c \<noteq> None \<and> cfManualLongitude c \<noteq> None)"
proof -
  obtain c0 where c0: "finish_config lib c0 = Inr c" using loaded_finish [OF assms(1)] by blast
  note v = finish_config_valid [OF c0]
  from v(2) have url: "validate_url lib c = None" and num: "list_all (\<lambda>p. \<not> fst p) (numeric_checks c)"
    and tx: "list_all (\<lambda>p. \<not> fst p) (text_checks c)" and man: "validate_manual_location c = None"
    by (simp_all add: validate_config_None)
  have "\<exists>u. ulParse (clURL lib) (cfAPIURL c) = Inr u \<and> (urScheme u = ''http'' \<or> urScheme u = ''https'') \<and> urHost u \<noteq> []"
    using url by (auto simp: validate_url_def split: if_splits sum.splits)
  moreover have n: "0 < cfHeartbeatInterval c \<and> 0 < cfMetricsInterval c \<and> 0 < cfTaskPollInterval c \<and> 0 < cfTaskTimeout c
    \<and> 0 < cfShutdownTimeout c \<and> 0 < cfRealtimePingInterval c \<and> 0 < cfRealtimeQueueSize c \<and> 0 < cfRequestTimeout c"
    using num by (auto simp: numeric_checks_def)
  moreover have "cfTaskPollInterval c < cfRequestTimeout c" using request_beyond_poll [OF v(1)] n assms(2) by blast
  moreover have "has_prefix (cfRealtimeNamespace c) ''/'' \<and> has_prefix (cfRealtimePath c) ''/''" using tx by (simp add: text_checks_def)
  moreover have "cfManualLatitude c \<noteq> None \<or> cfManualLongitude c \<noteq> None \<longrightarrow>
        trim_space (cfManualRegion c) \<noteq> [] \<and> pred_option valid_latitude (cfManualLatitude c)
        \<and> pred_option valid_longitude (cfManualLongitude c) \<and> cfManualLatitude c \<noteq> None \<and> cfManualLongitude c \<noteq> None"
    using man by (auto simp: validate_manual_location_def split: if_splits option.splits)
  ultimately show ?thesis by blast
qed

text \<open>
  The environment wins: a variable that is not blank decides the setting whatever the file says, so an
  agent started with \<open>AGENT_TOKEN\<close> or \<open>NODE_ID\<close> set uses these even after its stored identity changed.
\<close>

theorem environment_wins:
  assumes "load_config lib w = (Inr c, w')"
  shows "(trim_space (clGetenv lib ''AGENT_TOKEN'') \<noteq> [] \<longrightarrow> cfAgentToken c = trim_space (clGetenv lib ''AGENT_TOKEN''))
    \<and> (trim_space (clGetenv lib ''NODE_ID'') \<noteq> [] \<longrightarrow> cfNodeID c = trim_space (clGetenv lib ''NODE_ID''))
    \<and> (trim_space (clGetenv lib ''NODERAX_API_URL'') \<noteq> [] \<longrightarrow> cfAPIURL c = normalize_api_url (clGetenv lib ''NODERAX_API_URL''))
    \<and> (trim_space (clGetenv lib ''LOG_LEVEL'') \<noteq> [] \<longrightarrow> cfLogLevel c = trim_space (clGetenv lib ''LOG_LEVEL''))"
proof -
  obtain c0 c1 where c1: "merge_env lib c0 = Inr c1" and fin: "finish_config lib c1 = Inr c"
    using assms by (auto simp: load_config_def Let_def io_bind_Inr rbind_Inr_iff split: if_splits)
  obtain c2 c3 where e: "merge_env_flags lib (merge_env_strings lib c0) = Inr c2" "merge_env_numbers lib c2 = Inr c3" "c1 = tidy_paths c3"
    using c1 by (auto simp: merge_env_def rbind_Inr_iff)
  have f: "cfAgentToken c2 = cfAgentToken (merge_env_strings lib c0)" "cfNodeID c2 = cfNodeID (merge_env_strings lib c0)"
    "cfAPIURL c2 = cfAPIURL (merge_env_strings lib c0)" "cfLogLevel c2 = cfLogLevel (merge_env_strings lib c0)"
    using e(1) by (auto simp: merge_env_flags_def rbind_Inr_iff)
  have n: "cfAgentToken c3 = cfAgentToken c2" "cfNodeID c3 = cfNodeID c2" "cfAPIURL c3 = cfAPIURL c2" "cfLogLevel c3 = cfLogLevel c2"
    using e(2) by (auto simp: merge_env_numbers_def rbind_Inr_iff)
  have t: "cfAgentToken c = cfAgentToken c3" "cfNodeID c = cfNodeID c3" "cfAPIURL c = normalize_api_url (cfAPIURL c3)" "cfLogLevel c = cfLogLevel c3"
    using finish_config_valid(1) [OF fin] e(3) by (simp_all add: normalize_config_def tidy_paths_def Let_def)
  show ?thesis
    by (simp add: t n f merge_env_strings_def override_string_def env_value_def normalize_api_url_trim)
qed

text \<open>
  A jitter that is no number passes the validation of its range, as every comparison with it fails,
  and can then never be saved.
\<close>

theorem jitter_nan_accepted:
  "validate_config lib (c\<lparr>cfRealtimeBackoffJitter := NaN\<rparr>) = validate_config lib (c\<lparr>cfRealtimeBackoffJitter := Num 0\<rparr>)
   \<and> fst (save_config_file lib path (c\<lparr>cfRealtimeBackoffJitter := NaN\<rparr>) w) \<noteq> Inr ()"
proof -
  have "\<not> (\<exists>t. config_text lib (c\<lparr>cfRealtimeBackoffJitter := NaN\<rparr>) = Inr t)"
    by (simp add: config_text_def file_config_members_def file_config_of_def optional_float_def marshal_float_def)
  then have "\<not> (\<exists>w'. save_config_file lib path (c\<lparr>cfRealtimeBackoffJitter := NaN\<rparr>) w = (Inr (), w'))"
    by (auto simp: save_config_file_def io_bind_Inr split: sum.splits)
  then have "fst (save_config_file lib path (c\<lparr>cfRealtimeBackoffJitter := NaN\<rparr>) w) \<noteq> Inr ()"
    by (cases "save_config_file lib path (c\<lparr>cfRealtimeBackoffJitter := NaN\<rparr>) w") auto
  moreover have "validate_url lib (c\<lparr>cfRealtimeBackoffJitter := x\<rparr>) = validate_url lib c"
    "text_checks (c\<lparr>cfRealtimeBackoffJitter := x\<rparr>) = text_checks c"
    "validate_manual_location (c\<lparr>cfRealtimeBackoffJitter := x\<rparr>) = validate_manual_location c" for x
    by (simp_all add: validate_url_def text_checks_def validate_manual_location_def cong: if_cong sum.case_cong option.case_cong)
  moreover have "numeric_checks (c\<lparr>cfRealtimeBackoffJitter := NaN\<rparr>) = numeric_checks (c\<lparr>cfRealtimeBackoffJitter := Num 0\<rparr>)"
    by (simp add: numeric_checks_def float_less_def float_greater_def)
  ultimately show ?thesis by (simp only: validate_config_def simp_thms)
qed

text \<open>
  A file whose realtime path lacks the leading slash is refused by \<open>LoadFile\<close>, though \<open>Load\<close> adds the
  slash: only \<open>mergeEnv\<close> tidies it.
\<close>

theorem load_file_stricter:
  assumes "os_read_file path w = (Inr text, w1)" "unmarshal_file_config lib path text = Inr raw"
    and "fcRealtimePath raw \<noteq> []" "\<not> has_prefix (fcRealtimePath raw) ''/''"
  shows "\<not> res_ok (fst (load_config_file lib path w))
    \<and> (\<forall>c. has_prefix (cfRealtimePath (tidy_paths (c\<lparr>cfRealtimePath := fcRealtimePath raw\<rparr>))) ''/'')"
proof -
  have "\<not> (\<exists>c w'. load_config_file lib path w = (Inr c, w'))"
  proof
    assume "\<exists>c w'. load_config_file lib path w = (Inr c, w')"
    then obtain c w' where l: "load_config_file lib path w = (Inr c, w')" by blast
    then obtain m where m: "merge_durations raw (merge_values raw default_config) = Inr m" "finish_config lib (m\<lparr>cfConfigFile := path\<rparr>) = Inr c"
      using assms(1,2) by (auto simp: load_config_file_def merge_config_file_def io_bind_Inr merge_config_text_def)
    have "cfRealtimePath m = fcRealtimePath raw"
      using m(1) assms(3) by (auto simp: merge_durations_def rbind_Inr_iff merge_values_def if_set_def)
    moreover have "has_prefix (cfRealtimePath c) ''/''"
      using finish_config_valid(2) [OF m(2)] by (simp add: validate_config_None text_checks_def)
    ultimately show False using finish_config_valid(1) [OF m(2)] assms(4) by (simp add: normalize_config_def)
  qed
  then have "\<not> res_ok (fst (load_config_file lib path w))"
    by (cases "load_config_file lib path w"; cases "fst (load_config_file lib path w)") auto
  moreover have "has_prefix (cfRealtimePath (tidy_paths (c\<lparr>cfRealtimePath := fcRealtimePath raw\<rparr>))) ''/''" for c
    using assms(3,4) by (auto simp: tidy_paths_def Let_def has_prefix_def)
  ultimately show ?thesis by blast
qed

subsection \<open>Instances\<close>

definition plain_config :: config where
  "plain_config = default_config\<lparr>cfAPIURL := ''https://h''\<rparr>"

definition bare_lib :: config_lib where
  "bare_lib = \<lparr>clGetenv = (\<lambda>_. []), clParse = (\<lambda>_. Inl (Plain ''unexpected end of JSON input'')), clParseFloat = (\<lambda>_. Inr (Num (1 / 5))),
     clNumText = (\<lambda>_. ''0.2''), clURL = \<lparr>ulParse = (\<lambda>_. Inr \<lparr>urScheme = ''https'', urHost = ''h''\<rparr>), ulText = (\<lambda>a b c d. a @ b @ c @ d)\<rparr>,
     clStat = (\<lambda>_. Some (Plain ''no such file or directory''))\<rparr>"

definition sample_members :: "(string \<times> json) list" where
  "sample_members = (case file_config_members bare_lib (file_config_of plain_config) of Inr ms \<Rightarrow> ms | Inl e \<Rightarrow> [])"

definition sample_lib :: config_lib where
  "sample_lib = bare_lib\<lparr>clParse := \<lambda>_. Inr (JObj sample_members)\<rparr>"

lemma sample_url: "normalize_api_url ''https://h'' = ''https://h''"
  by code_simp

lemma sample_trims: "trim_space ''https://h'' = ''https://h''" "trim_space ''/agent-realtime'' = ''/agent-realtime''"
  "trim_space ''/socket.io/'' = ''/socket.io/''" "trim_space ''./data/agent_identity.json'' = ''./data/agent_identity.json''"
  "trim_space ''c.json'' = ''c.json''"
  by code_simp+

lemma sample_normal: "normalize_config plain_config = plain_config"
  by (simp add: normalize_config_def plain_config_def default_config_def sample_url)

lemma sample_storable: "storable plain_config"
  unfolding storable_def by (simp add: sample_normal) (simp add: plain_config_def default_config_def int64_range_def)

lemma sample_valid: "validate_config sample_lib plain_config = None"
  unfolding validate_config_None
  by (simp add: validate_url_def numeric_checks_def text_checks_def validate_manual_location_def plain_config_def default_config_def
      sample_lib_def bare_lib_def sample_trims float_less_def float_greater_def has_prefix_def)

lemma plain_members: "file_config_members sample_lib (file_config_of plain_config) = Inr sample_members"
  by (simp add: sample_members_def file_config_members_def sample_lib_def bare_lib_def file_config_of_def optional_float_def
      marshal_float_def plain_config_def default_config_def)

lemma sample_saved:
  obtains w' where "save_config_file sample_lib ''c.json'' plain_config quiet_world = (Inr (), w')" "wfault w' = (\<lambda>_ _. None)"
proof -
  have "config_text sample_lib plain_config = Inr (json_indent 0 (JObj sample_members))" by (simp add: config_text_def plain_members)
  moreover have "mirror_path sample_lib ''c.json'' = None" by (simp add: mirror_path_def sample_lib_def bare_lib_def)
  ultimately show thesis
    using that by (simp add: save_config_file_def sample_trims io_bind_def io_check_def io_lift_def write_config_file_def
        os_mkdir_all_def os_write_file_def io_ret_def del: json_indent.simps)
qed

theorem config_file_round_trip_witness:
  "\<exists>w'. save_config_file sample_lib ''c.json'' plain_config quiet_world = (Inr (), w')
    \<and> fst (load_config_file sample_lib ''c.json'' w') = Inr (plain_config\<lparr>cfConfigFile := ''c.json''\<rparr>)"
proof -
  obtain w' where w: "save_config_file sample_lib ''c.json'' plain_config quiet_world = (Inr (), w')" "wfault w' = (\<lambda>_ _. None)"
    by (rule sample_saved)
  have m: "mirror_path sample_lib ''c.json'' \<noteq> Some ''c.json''" by (simp add: mirror_path_def sample_lib_def bare_lib_def)
  have f: "Some (Num q) \<in> set (written_floats (file_config_of plain_config)) \<Longrightarrow> clParseFloat sample_lib (clNumText sample_lib q) = Inr (Num q)" for q
    by (auto simp: written_floats_def file_config_of_def plain_config_def default_config_def sample_lib_def bare_lib_def)
  have "clParse sample_lib t = Inr (JObj sample_members)" for t by (simp add: sample_lib_def)
  then have "fst (load_config_file sample_lib ''c.json'' w') = Inr (plain_config\<lparr>cfConfigFile := ''c.json''\<rparr>)"
    using w(2) f by (intro config_file_round_trip [OF w(1) sample_storable sample_valid m]) (simp_all add: plain_members)
  with w(1) show ?thesis by blast
qed

text \<open>An agent configured by its environment alone.\<close>

definition env_lib :: config_lib where
  "env_lib = bare_lib\<lparr>clGetenv := (\<lambda>k. if k = ''NODERAX_API_URL'' then ''https://h'' else if k = ''AGENT_TOKEN'' then ''t'' else [])\<rparr>"

lemma env_loaded: "\<exists>c. load_config env_lib quiet_world = (Inr c, quiet_world) \<and> cfTaskPollInterval c = 15 * second"
proof -
  have t: "trim_space ''t'' = ''t''" by code_simp
  define c1 where "c1 = default_config\<lparr>cfAPIURL := ''https://h'', cfAgentToken := ''t''\<rparr>"
  have s: "merge_env_strings env_lib default_config = c1"
    by (rule config.equality) (simp_all add: merge_env_strings_def override_string_def env_value_def env_lib_def sample_trims t c1_def default_config_def)
  have f: "merge_env_flags env_lib c1 = Inr c1"
    by (simp add: merge_env_flags_def override_parsed_def override_float_ptr_def env_value_def env_lib_def)
  have n: "merge_env_numbers env_lib c1 = Inr c1"
    by (simp add: merge_env_numbers_def override_parsed_def override_duration_def env_value_def env_lib_def)
  have p: "path_clean ''./data/agent_identity.json'' = ''data/agent_identity.json''" by code_simp
  define c2 where "c2 = c1\<lparr>cfStateFile := ''data/agent_identity.json''\<rparr>"
  have "tidy_paths c1 = c2"
    by (rule config.equality)
       (simp_all add: tidy_paths_def c1_def c2_def default_config_def p has_prefix_def has_suffix_def)
  with s f n have e: "merge_env env_lib default_config = Inr c2" by (simp add: merge_env_def)
  have nc: "normalize_config c2 = c2"
    by (rule config.equality) (simp_all add: normalize_config_def c2_def c1_def default_config_def sample_url)
  have ts: "trim_space ''data/agent_identity.json'' = ''data/agent_identity.json''" by code_simp
  have "validate_config env_lib c2 = None"
    unfolding validate_config_None
    by (simp add: validate_url_def numeric_checks_def text_checks_def validate_manual_location_def c2_def c1_def default_config_def
        env_lib_def bare_lib_def sample_trims ts float_less_def float_greater_def has_prefix_def)
  with nc have "finish_config env_lib c2 = Inr c2" by (simp add: finish_config_def)
  moreover have "detect_config_file env_lib = []"
    by (simp add: detect_config_file_def env_lib_def bare_lib_def config_candidates_def)
  ultimately have "load_config env_lib quiet_world = (Inr c2, quiet_world)" by (simp add: load_config_def e)
  then show ?thesis by (auto simp: c2_def c1_def default_config_def)
qed

theorem loaded_config_sound_witness:
  "\<exists>c. load_config env_lib quiet_world = (Inr c, quiet_world) \<and> cfTaskPollInterval c < cfRequestTimeout c"
proof -
  obtain c where c: "load_config env_lib quiet_world = (Inr c, quiet_world)" "cfTaskPollInterval c = 15 * second" using env_loaded by blast
  then have "loaded env_lib quiet_world c" by (auto simp: loaded_def)
  from loaded_config_sound [OF this] c show ?thesis by simp
qed

theorem environment_wins_witness:
  "\<exists>c. load_config env_lib quiet_world = (Inr c, quiet_world) \<and> cfAgentToken c = ''t''"
proof -
  obtain c where c: "load_config env_lib quiet_world = (Inr c, quiet_world)" using env_loaded by blast
  have "trim_space ''t'' = ''t''" by code_simp
  with environment_wins [OF c] c show ?thesis by (simp add: env_lib_def)
qed

theorem load_file_stricter_witness:
  "\<not> res_ok (fst (load_config_file (bare_lib\<lparr>clParse := \<lambda>_. Inr (JObj [(''realtime_path'', JStr ''socket.io'')])\<rparr>) ''c.json''
      (quiet_world\<lparr>wfiles := [''c.json'' \<mapsto> (''{}'', 0x180)]\<rparr>)))"
proof -
  let ?lib = "bare_lib\<lparr>clParse := \<lambda>_. Inr (JObj [(''realtime_path'', JStr ''socket.io'')])\<rparr>"
  let ?w = "quiet_world\<lparr>wfiles := [''c.json'' \<mapsto> (''{}'', 0x180)]\<rparr>"
  obtain w1 where r: "os_read_file ''c.json'' ?w = (Inr ''{}'', w1)" by (simp add: os_read_file_def)
  have u: "unmarshal_file_config ?lib ''c.json'' ''{}'' = Inr (zero_file_config\<lparr>fcRealtimePath := ''socket.io''\<rparr>)"
    by (simp add: unmarshal_file_config_def decode_file_config_def decode_struct_def file_config_lookup dec_string_def first_error_def)
  show ?thesis using load_file_stricter [OF r u] by (simp add: has_prefix_def)
qed

end
