(* ===== verification/Agent.thy ===== *)
theory Agent
  imports Config RealtimeConnection
begin

text \<open>
  Package \<open>internal/agent\<close>: the stored identity (\<open>identity.go\<close>), enrollment (\<open>enrollment.go\<close>) and the
  parts of \<open>service.go\<close> that decide which identity the agent uses, rotate its token and look for its
  location. What is printed or logged is left out. Times are nanoseconds since the epoch.
\<close>

subsection \<open>The identity and its file\<close>

record identity =
  idNodeID :: string
  idAgentToken :: string
  idRegisteredAt :: int

text \<open>The zero \<open>time.Time\<close>, the start of year 1.\<close>

definition zero_time :: int where
  "zero_time = - 62135596800 * second"

definition zero_identity :: identity where
  "zero_identity = \<lparr>idNodeID = [], idAgentToken = [], idRegisteredAt = zero_time\<rparr>"

definition identity_ready :: "identity \<Rightarrow> bool" where
  "identity_ready i \<longleftrightarrow> idNodeID i \<noteq> [] \<and> idAgentToken i \<noteq> []"

text \<open>The library: configuration, and the parser of RFC 3339 times.\<close>

record agent_lib =
  alConfig :: config_lib
  alParseTime :: "string \<Rightarrow> goerror + int"

definition dec_time :: "agent_lib \<Rightarrow> ((int \<Rightarrow> int) \<Rightarrow> 's \<Rightarrow> 's) \<Rightarrow> json \<Rightarrow> 's \<Rightarrow> goerror option \<times> 's" where
  "dec_time lib upd j s =
     (case j of
        JNull \<Rightarrow> (None, s)
      | JStr t \<Rightarrow> (case alParseTime lib t of Inl e \<Rightarrow> (Some e, s) | Inr x \<Rightarrow> (None, upd (\<lambda>_. x) s))
      | _ \<Rightarrow> (Some (Plain ''Time.UnmarshalJSON: input is not a JSON string''), s))"

definition identity_fields :: "agent_lib \<Rightarrow> identity field list" where
  "identity_fields lib =
     [(''node_id'', dec_string ''Identity.node_id'' idNodeID_update), (''agent_token'', dec_string ''Identity.agent_token'' idAgentToken_update),
      (''registered_at'', dec_time lib idRegisteredAt_update)]"

definition decode_identity :: "agent_lib \<Rightarrow> string \<Rightarrow> goerror + identity" where
  "decode_identity lib text =
     (case clParse (alConfig lib) text of
        Inl e \<Rightarrow> Inl e
      | Inr j \<Rightarrow> (case decode_struct ''agent.Identity'' (identity_fields lib) j zero_identity of
          (Some e, i) \<Rightarrow> Inl e | (None, i) \<Rightarrow> Inr i))"

text \<open>\<open>omitempty\<close> never drops a struct, so the time is always written.\<close>

definition identity_json :: "identity \<Rightarrow> json" where
  "identity_json i = JObj [(''node_id'', JStr (idNodeID i)), (''agent_token'', JStr (idAgentToken i)),
     (''registered_at'', JStr (format_rfc3339nano (idRegisteredAt i)))]"

definition identity_text :: "identity \<Rightarrow> string" where
  "identity_text i = json_indent 0 (identity_json i)"

definition load_identity :: "agent_lib \<Rightarrow> string \<Rightarrow> identity io" where
  "load_identity lib path w =
     (case os_read_file path w of
        (Inl e, w1) \<Rightarrow> (Inl (if err_is e OsErrNotExist then Sentinel ErrIdentityNotFound
                            else wrap_prefix (''read identity state '' @ path @ '': '') e), w1)
      | (Inr text, w1) \<Rightarrow>
          (case decode_identity lib text of
             Inl e \<Rightarrow> (Inl (wrap_prefix (''decode identity state '' @ path @ '': '') e), w1)
           | Inr i \<Rightarrow> (Inr i, w1)))"

definition save_identity :: "string \<Rightarrow> identity \<Rightarrow> unit io" where
  "save_identity path i =
     io_bind (io_check (wrap_prefix (''create state directory for '' @ path @ '': '')) (os_mkdir_all (path_dir path))) (\<lambda>_.
     io_check (wrap_prefix (''write identity state '' @ path @ '': '')) (os_write_file path (identity_text i) 0x180))"

text \<open>\<open>persistIdentity\<close>: an error of the configuration file is only logged.\<close>

definition identity_config :: "config \<Rightarrow> identity \<Rightarrow> config" where
  "identity_config cfg i = cfg\<lparr>cfEnrollmentToken := [], cfNodeID := idNodeID i, cfAgentToken := idAgentToken i\<rparr>"

definition persist_identity :: "agent_lib \<Rightarrow> config \<Rightarrow> identity \<Rightarrow> unit io" where
  "persist_identity lib cfg i w =
     (case save_identity (cfStateFile cfg) i w of
        (Inl e, w1) \<Rightarrow> (Inl (wrap_prefix ''persist identity: '' e), w1)
      | (Inr u, w1) \<Rightarrow>
          if trim_space (cfConfigFile cfg) = [] then (Inr (), w1)
          else (Inr (), snd (save_config_file (alConfig lib) (cfConfigFile cfg) (identity_config cfg i) w1)))"

subsection \<open>Enrollment\<close>

definition enrollment_message :: string where
  "enrollment_message = ''no details provided''"

text \<open>\<open>identityFromEnrollmentStatus\<close>: not decided yet is \<open>Inr None\<close>.\<close>

definition identity_from_status :: "int \<Rightarrow> enrollment_status \<Rightarrow> goerror + identity option" where
  "identity_from_status now st =
     (let state = to_lower (trim_space (esStatus st)) in
      if state = ''approved'' then
        (if trim_space (esNodeID st) = [] \<or> trim_space (esAgentToken st) = []
         then Inl (Plain ''enrollment approved without node credentials'')
         else Inr (Some \<lparr>idNodeID = esNodeID st, idAgentToken = esAgentToken st, idRegisteredAt = now\<rparr>))
      else if state = [] \<or> state = ''pending'' then Inr None
      else if state = ''revoked'' then Inl (Plain ''enrollment revoked'')
      else if state = ''rejected'' \<or> state = ''denied'' then Inl (Plain (''enrollment rejected: '' @ enrollment_message))
      else if state = ''expired'' then Inl (Plain ''enrollment token expired'')
      else (let m = enrollment_message in Inl (Plain (''unexpected enrollment status: '' @ (if m = [] then esStatus st else m)))))"

text \<open>
  One poll: how long the request took, what it gave, and, for a \<open>select\<close> with both channels ready, whether
  it took the tick. A context is over from a time on; a request under a context that is over fails at once.
\<close>

record poll =
  plDuration :: int
  plAnswer :: "goerror + enrollment_status"
  plTickFirst :: bool

definition ctx_over :: "int option \<Rightarrow> int \<Rightarrow> bool" where
  "ctx_over over t \<longleftrightarrow> (case over of None \<Rightarrow> False | Some d \<Rightarrow> d \<le> t)"

text \<open>
  The \<open>select\<close> after a poll that decided nothing, at \<open>now\<close> with the next tick at \<open>tick\<close>: the time the next
  poll begins, or \<open>None\<close> when the context's case is taken.
\<close>

definition await_tick :: "int option \<Rightarrow> bool \<Rightarrow> int \<Rightarrow> int \<Rightarrow> int option" where
  "await_tick over tick_first now tick =
     (let wake = max now tick in
      case over of
        None \<Rightarrow> Some wake
      | Some d \<Rightarrow> if d > wake then Some wake
          else if tick \<le> max now d \<and> tick_first then Some wake else None)"

text \<open>A ticker drops the ticks nobody waited for.\<close>

definition next_tick :: "int \<Rightarrow> int \<Rightarrow> int \<Rightarrow> int" where
  "next_tick P tick wake = tick + P * ((wake - tick) div P + 1)"

fun wait_loop :: "goerror \<Rightarrow> int option \<Rightarrow> int \<Rightarrow> int \<Rightarrow> int \<Rightarrow> poll list \<Rightarrow> (goerror + identity) option" where
  "wait_loop ctx_err over P now tick [] = None"
| "wait_loop ctx_err over P now tick (p # ps) =
     (let gone = ctx_over over now;
          now1 = (if gone then now else now + plDuration p);
          again = (case await_tick over (plTickFirst p) now1 tick of
             None \<Rightarrow> Some (Inl ctx_err) | Some wake \<Rightarrow> wait_loop ctx_err over P wake (next_tick P tick wake) ps)
      in case (if gone then Inl ctx_err else plAnswer p) of
           Inl e \<Rightarrow> if ctx_over over now1 then Some (Inl ctx_err) else again
         | Inr st \<Rightarrow> (case identity_from_status now1 st of
              Inl e \<Rightarrow> Some (Inl e) | Inr (Some i) \<Rightarrow> Some (Inr i) | Inr None \<Rightarrow> again))"

definition default_poll_interval :: int where
  "default_poll_interval = 5 * second"

definition default_wait_timeout :: int where
  "default_wait_timeout = 10 * minute"

definition wait_for_approval :: "goerror \<Rightarrow> int option \<Rightarrow> int \<Rightarrow> string \<Rightarrow> int \<Rightarrow> poll list \<Rightarrow> (goerror + identity) option" where
  "wait_for_approval ctx_err over start token poll_interval ps =
     (if trim_space token = [] then Some (Inl (Plain ''enrollment token is required''))
      else (let P = (if poll_interval \<le> 0 then default_poll_interval else poll_interval) in
        wait_loop ctx_err over P start (start + P) ps))"

text \<open>\<open>context.WithTimeout\<close>: the parent's end or the timeout, whichever comes first.\<close>

definition with_timeout :: "int option \<Rightarrow> int \<Rightarrow> int \<Rightarrow> int option" where
  "with_timeout parent start t =
     (if t > 0 then Some (case parent of None \<Rightarrow> start + t | Some d \<Rightarrow> min d (start + t)) else parent)"

text \<open>What waiting for the approval meets: when the context is over and with which error, the start, the polls.\<close>

record wait_env =
  weCtxErr :: goerror
  weParentOver :: "int option"
  weStart :: int
  wePolls :: "poll list"

definition complete_enrollment :: "agent_lib \<Rightarrow> config \<Rightarrow> wait_env \<Rightarrow> string \<Rightarrow> int \<Rightarrow> int \<Rightarrow> world \<Rightarrow> ((goerror + identity) \<times> world) option" where
  "complete_enrollment lib cfg env token poll_interval wait_timeout w =
     (case wait_for_approval (weCtxErr env) (with_timeout (weParentOver env) (weStart env) wait_timeout) (weStart env) token poll_interval (wePolls env) of
        None \<Rightarrow> None
      | Some (Inl e) \<Rightarrow> Some (Inl e, w)
      | Some (Inr i) \<Rightarrow> (case persist_identity lib cfg i w of
           (Inl e, w1) \<Rightarrow> Some (Inl e, w1) | (Inr u, w1) \<Rightarrow> Some (Inr i, w1)))"

subsection \<open>Requests\<close>

record host_details =
  hdHostname :: string
  hdOS :: string
  hdPlatform :: string
  hdPlatformVersion :: string
  hdKernelVersion :: string
  hdArchitecture :: string

definition operating_system :: "host_details \<Rightarrow> string" where
  "operating_system h = (if trim_space (hdPlatform h) = [] then hdOS h else hdPlatform h)"

definition additional_info_json :: "agent_lib \<Rightarrow> host_details \<Rightarrow> string \<Rightarrow> node_location option \<Rightarrow> goerror + json" where
  "additional_info_json lib h version loc =
     rbind (case loc of None \<Rightarrow> Inr []
            | Some l \<Rightarrow> rbind (location_json (clNumText (alConfig lib)) l) (\<lambda>j. Inr [(''location'', j)])) (\<lambda>ls.
       Inr (JObj (omit_empty ''os'' (operating_system h) @ omit_empty ''arch'' (hdArchitecture h) @ omit_empty ''agentVersion'' version
         @ omit_empty ''platformVersion'' (hdPlatformVersion h) @ omit_empty ''kernelVersion'' (hdKernelVersion h) @ ls)))"

text \<open>\<open>ConsumeNodeInstallRequest\<close> and \<open>InitiateEnrollmentRequest\<close>: they differ in the name of their first member.\<close>

definition enrollment_request :: "agent_lib \<Rightarrow> string \<Rightarrow> string \<Rightarrow> host_details \<Rightarrow> string \<Rightarrow> node_location option \<Rightarrow> goerror + json" where
  "enrollment_request lib k v h version loc =
     rbind (additional_info_json lib h version loc) (\<lambda>info.
       Inr (JObj [(k, JStr v), (''hostname'', JStr (hdHostname h)), (''additionalInfo'', info)]))"

text \<open>The answers; the HTTP library decodes a successful body as JSON.\<close>

record credentials_answer =
  caNodeID :: string
  caAgentToken :: string

definition decode_credentials :: "agent_lib \<Rightarrow> string \<Rightarrow> goerror + string \<times> string" where
  "decode_credentials lib body =
     rbind (clParse (alConfig lib) body) (\<lambda>j.
       case decode_struct ''api.ConsumeNodeInstallResponse''
           [(''nodeId'', dec_string ''ConsumeNodeInstallResponse.nodeId'' caNodeID_update),
            (''agentToken'', dec_string ''ConsumeNodeInstallResponse.agentToken'' caAgentToken_update)] j \<lparr>caNodeID = [], caAgentToken = []\<rparr> of
         (Some e, a) \<Rightarrow> Inl e | (None, a) \<Rightarrow> Inr (caNodeID a, caAgentToken a))"

record token_answer =
  taToken :: string
  taExpiresAt :: int

definition decode_token :: "agent_lib \<Rightarrow> string \<Rightarrow> goerror + string" where
  "decode_token lib body =
     rbind (clParse (alConfig lib) body) (\<lambda>j.
       case decode_struct ''api.InitiateEnrollmentResponse''
           [(''token'', dec_string ''InitiateEnrollmentResponse.token'' taToken_update), (''expiresAt'', dec_time lib taExpiresAt_update)]
           j \<lparr>taToken = [], taExpiresAt = zero_time\<rparr> of
         (Some e, a) \<Rightarrow> Inl e | (None, a) \<Rightarrow> Inr (taToken a))"

definition consume_node_install :: "agent_lib \<Rightarrow> http_lib \<Rightarrow> client \<Rightarrow> goerror + json \<Rightarrow> goerror + string \<times> string" where
  "consume_node_install lib http c body =
     rbind body (\<lambda>b. rbind (client_post http c (api_path ''/node-installs/consume'') b) (\<lambda>r. decode_credentials lib (hrBody r)))"

definition initiate_enrollment :: "agent_lib \<Rightarrow> http_lib \<Rightarrow> client \<Rightarrow> goerror + json \<Rightarrow> goerror + string" where
  "initiate_enrollment lib http c body =
     rbind body (\<lambda>b. rbind (client_post http c (api_path ''/enrollments/initiate'') b) (\<lambda>r. decode_token lib (hrBody r)))"

subsection \<open>Enrolling\<close>

text \<open>What the stored identity says at the start of an enrollment: usable, absent, or an error.\<close>

definition stored_identity :: "agent_lib \<Rightarrow> config \<Rightarrow> identity option io" where
  "stored_identity lib cfg w =
     (case load_identity lib (cfStateFile cfg) w of
        (Inr i, w1) \<Rightarrow> (Inr (if identity_ready i then Some i else None), w1)
      | (Inl e, w1) \<Rightarrow> if err_is e ErrIdentityNotFound then (Inr None, w1) else (Inl e, w1))"

definition run_bootstrap_enrollment :: "agent_lib \<Rightarrow> config \<Rightarrow> http_lib \<Rightarrow> client \<Rightarrow> host_details \<Rightarrow> string \<Rightarrow> node_location option \<Rightarrow>
    int \<Rightarrow> string \<Rightarrow> identity io" where
  "run_bootstrap_enrollment lib cfg http c h version loc now token =
     io_bind (stored_identity lib cfg) (\<lambda>stored.
       case stored of
         Some i \<Rightarrow> io_ret i
       | None \<Rightarrow>
           (case consume_node_install lib http c (enrollment_request lib ''token'' (trim_space token) h version loc) of
              Inl e \<Rightarrow> io_fail (wrap_prefix ''consume bootstrap install: '' e)
            | Inr (node, tok) \<Rightarrow>
                if trim_space node = [] \<or> trim_space tok = []
                then io_fail (Plain ''consume bootstrap install: API returned incomplete node credentials'')
                else (let i = \<lparr>idNodeID = node, idAgentToken = tok, idRegisteredAt = now\<rparr> in
                  io_bind (persist_identity lib cfg i) (\<lambda>_. io_ret i))))"

text \<open>\<open>bufio.Reader.ReadString\<close>: up to and with the newline, or the rest at the end of the input.\<close>

definition read_line :: "string \<Rightarrow> string \<times> string \<times> bool" where
  "read_line s =
     (let l = takeWhile (\<lambda>c. c \<noteq> CHR 0x0A) s; r = dropWhile (\<lambda>c. c \<noteq> CHR 0x0A) s
      in if r = [] then (l, [], True) else (l @ [CHR 0x0A], tl r, False))"

lemma read_line_shorter: "read_line s = (l, r, False) \<Longrightarrow> length r < length s"
proof -
  assume "read_line s = (l, r, False)"
  then have r: "dropWhile (\<lambda>c. c \<noteq> CHR 0x0A) s \<noteq> []" "r = tl (dropWhile (\<lambda>c. c \<noteq> CHR 0x0A) s)"
    by (auto simp: read_line_def Let_def split: if_splits)
  have "length (dropWhile (\<lambda>c. c \<noteq> CHR 0x0A) s) \<le> length s" by (rule length_dropWhile_le)
  with r show ?thesis by (cases "dropWhile (\<lambda>c. c \<noteq> CHR 0x0A) s") auto
qed

text \<open>\<open>promptValue\<close>: asks until a line is not blank; the end of the input is an error if a value is required.\<close>

function prompt_value :: "string \<Rightarrow> bool \<Rightarrow> string \<Rightarrow> goerror + string \<times> string" where
  "prompt_value label required s =
     (case read_line s of (line, rest, eof) \<Rightarrow>
        if trim_space line \<noteq> [] \<or> \<not> required then Inr (trim_space line, rest)
        else if eof then Inl (Plain (to_lower label @ '' is required''))
        else prompt_value label required rest)"
  by pat_completeness auto
termination
  by (relation "measure (\<lambda>(l, q, s). length s)") (auto dest!: read_line_shorter [OF sym])

declare prompt_value.simps [simp del]

definition config_path_for_write :: "config \<Rightarrow> string" where
  "config_path_for_write cfg = (if trim_space (cfConfigFile cfg) \<noteq> [] then cfConfigFile cfg else ''./config.json'')"

text \<open>\<open>RunInteractiveEnrollment\<close> with an input to read from. The result is an error or nothing.\<close>

definition run_interactive_enrollment :: "agent_lib \<Rightarrow> config \<Rightarrow> http_lib \<Rightarrow> client \<Rightarrow> host_details \<Rightarrow> string \<Rightarrow> node_location option \<Rightarrow>
    wait_env \<Rightarrow> string \<Rightarrow> world \<Rightarrow> (goerror option \<times> world) option" where
  "run_interactive_enrollment lib cfg http c h version loc env input w =
     (case stored_identity lib cfg w of
        (Inl e, w1) \<Rightarrow> Some (Some e, w1)
      | (Inr (Some i), w1) \<Rightarrow> Some (None, w1)
      | (Inr None, w1) \<Rightarrow>
          (case prompt_value ''Email address'' True input of
             Inl e \<Rightarrow> Some (Some e, w1)
           | Inr (email, rest) \<Rightarrow>
               (case initiate_enrollment lib http c (enrollment_request lib ''email'' email h version loc) of
                  Inl e \<Rightarrow> Some (Some (wrap_prefix ''initiate enrollment: '' e), w1)
                | Inr token \<Rightarrow>
                    if trim_space token = [] then Some (Some (Plain ''initiate enrollment: API returned an empty token''), w1)
                    else
                      (let cfg1 = cfg\<lparr>cfConfigFile := config_path_for_write cfg, cfEnrollmentToken := token\<rparr> in
                       case save_config_file (alConfig lib) (cfConfigFile cfg1) cfg1 w1 of
                         (Inl e, w2) \<Rightarrow> Some (Some (wrap_prefix ''persist pending enrollment token: '' e), w2)
                       | (Inr u, w2) \<Rightarrow>
                           map_option (\<lambda>(r, w3). (case r of Inl e \<Rightarrow> Some e | Inr i \<Rightarrow> None, w3))
                             (complete_enrollment lib cfg1 env token default_poll_interval default_wait_timeout w2)))))"

subsection \<open>The service\<close>

text \<open>The identity in use (\<open>IdentityManager\<close>) and the client that sends it.\<close>

record agent =
  agIdentity :: identity
  agClient :: client

definition new_agent :: "config \<Rightarrow> client \<Rightarrow> agent" where
  "new_agent cfg c = \<lparr>agIdentity = \<lparr>idNodeID = cfNodeID cfg, idAgentToken = cfAgentToken cfg, idRegisteredAt = zero_time\<rparr>, agClient = c\<rparr>"

definition use_identity :: "identity \<Rightarrow> agent \<Rightarrow> agent" where
  "use_identity i a = a\<lparr>agIdentity := i, agClient := set_agent_node_id (idNodeID i) (set_agent_token (idAgentToken i) (agClient a))\<rparr>"

definition credentials :: "agent \<Rightarrow> string \<times> string" where
  "credentials a = (idNodeID (agIdentity a), idAgentToken (agIdentity a))"

definition bootstrap_identity :: "agent_lib \<Rightarrow> config \<Rightarrow> wait_env \<Rightarrow> agent \<Rightarrow> world \<Rightarrow> (goerror option \<times> agent \<times> world) option" where
  "bootstrap_identity lib cfg env a w =
     (if identity_ready (agIdentity a) then Some (None, use_identity (agIdentity a) a, w)
      else case stored_identity lib cfg w of
        (Inr (Some i), w1) \<Rightarrow> Some (None, use_identity i a, w1)
      | (Inl e, w1) \<Rightarrow> Some (Some e, a, w1)
      | (Inr None, w1) \<Rightarrow>
          if trim_space (cfEnrollmentToken cfg) = []
          then Some (Some (Plain (''agent identity is missing; run `noderax-agent enroll` to create an enrollment token'')), a, w1)
          else (case complete_enrollment lib cfg env (cfEnrollmentToken cfg) default_poll_interval default_wait_timeout w1 of
            None \<Rightarrow> None
          | Some (Inl e, w2) \<Rightarrow> Some (Some (wrap_prefix ''complete enrollment: '' e), a, w2)
          | Some (Inr i, w2) \<Rightarrow> Some (None, use_identity i a, w2)))"

text \<open>The handler of \<open>agent.token.rotate\<close>: stored first, used after.\<close>

definition rotate_agent_token :: "agent_lib \<Rightarrow> config \<Rightarrow> token_rotate \<Rightarrow> agent \<Rightarrow> world \<Rightarrow> goerror option \<times> agent \<times> world" where
  "rotate_agent_token lib cfg ev a w =
     (let i = (agIdentity a)\<lparr>idAgentToken := trim_space (trAgentToken ev)\<rparr> in
      if \<not> identity_ready i then (Some (Plain ''rotated agent token payload is incomplete''), a, w)
      else (case persist_identity lib cfg i w of
         (Inl e, w1) \<Rightarrow> (Some e, a, w1)
       | (Inr u, w1) \<Rightarrow> (None, use_identity i a, w1)))"

text \<open>
  \<open>runNodeLocationSync\<close>: the delays, and per delay whether the context ended it and whether a location was
  found. The result: the number of attempts made and whether one succeeded.
\<close>

definition location_delays :: "int list" where
  "location_delays = [5 * second, 30 * second, 2 * minute, 5 * minute, 15 * minute]"

fun node_location_sync :: "int list \<Rightarrow> (bool \<times> bool) list \<Rightarrow> nat \<times> bool" where
  "node_location_sync [] rs = (0, False)"
| "node_location_sync (d # ds) [] = (0, False)"
| "node_location_sync (d # ds) ((ended, found) # rs) =
     (if ended then (0, False) else if found then (1, True)
      else (case node_location_sync ds rs of (n, ok) \<Rightarrow> (Suc n, ok)))"

definition run_node_location_sync :: "bool \<Rightarrow> (bool \<times> bool) list \<Rightarrow> nat \<times> bool" where
  "run_node_location_sync known rs = (if known then (0, False) else node_location_sync location_delays rs)"

subsection \<open>The stored identity\<close>

lemma decode_identity_text:
  assumes "clParse (alConfig lib) (identity_text i) = Inr (identity_json i)"
    and "alParseTime lib (format_rfc3339nano (idRegisteredAt i)) = Inr (idRegisteredAt i)"
  shows "decode_identity lib (identity_text i) = Inr i"
proof -
  have f: "find_field (identity_fields lib) ''node_id'' = Some (dec_string ''Identity.node_id'' idNodeID_update)"
    "find_field (identity_fields lib) ''agent_token'' = Some (dec_string ''Identity.agent_token'' idAgentToken_update)"
    "find_field (identity_fields lib) ''registered_at'' = Some (dec_time lib idRegisteredAt_update)"
    by (simp_all add: find_field_def identity_fields_def)
  show ?thesis using assms
    by (simp add: decode_identity_def decode_struct_def identity_json_def f dec_string_def dec_time_def first_error_def zero_identity_def)
qed

lemma save_identity_ok:
  "save_identity path i w = (Inr u, w') \<Longrightarrow> \<exists>m. wfiles w' = (wfiles w)(path \<mapsto> (identity_text i, m))"
  by (auto simp: save_identity_def io_bind_Inr io_check_iff mode_of_def dest!: os_mkdir_all_files os_write_file_ok split: option.splits)

lemma load_identity_content:
  assumes "wfiles w path = Some (text, m)" "wfault w (wtick w) (OpReadFile path) = None"
  shows "fst (load_identity lib path w)
    = (case decode_identity lib text of Inl e \<Rightarrow> Inl (wrap_prefix (''decode identity state '' @ path @ '': '') e) | Inr i \<Rightarrow> Inr i)"
  using assms by (simp add: load_identity_def os_read_file_def split: sum.splits)

text \<open>
  An identity that was saved is the identity loaded: node, token and time of registration. The JSON
  parser inverts the rendering of this document and the time parser the RFC 3339 text of this time.
\<close>

theorem identity_round_trip:
  assumes "save_identity path i w = (Inr u, w')" "wfault w' (wtick w') (OpReadFile path) = None"
    and "clParse (alConfig lib) (identity_text i) = Inr (identity_json i)"
    and "alParseTime lib (format_rfc3339nano (idRegisteredAt i)) = Inr (idRegisteredAt i)"
  shows "fst (load_identity lib path w') = Inr i"
proof -
  obtain m where "wfiles w' path = Some (identity_text i, m)" using save_identity_ok [OF assms(1)] by auto
  from load_identity_content [OF this assms(2), of lib] decode_identity_text [OF assms(3,4)] show ?thesis by simp
qed

text \<open>
  The identity file is written in place: a write that fails half way leaves a file that cannot be
  decoded, and from then on the agent does not start, whatever enrollment token it is given.
\<close>

theorem torn_identity_blocks_start:
  assumes "wfault w (wtick w) (OpMkdirAll (path_dir path)) = None"
    and "wfault w (Suc (wtick w)) (OpWriteFile path (identity_text i) 0x180) = Some e"
    and "wpartial w (Suc (wtick w)) = Some k" "clParse (alConfig lib) (take k (identity_text i)) = Inl (Plain msg)"
    and "\<And>t. wfault w t (OpReadFile path) = None"
  shows "\<exists>w'. save_identity path i w = (Inl (wrap_prefix (''write identity state '' @ path @ '': '') e), w')
    \<and> (\<forall>cfg env a. cfStateFile cfg = path \<longrightarrow> \<not> identity_ready (agIdentity a) \<longrightarrow>
        (\<exists>w2. bootstrap_identity lib cfg env a w' = Some (Some (wrap_prefix (''decode identity state '' @ path @ '': '') (Plain msg)), a, w2)))"
proof -
  obtain w' where w': "save_identity path i w = (Inl (wrap_prefix (''write identity state '' @ path @ '': '') e), w')"
    "wfiles w' path = Some (take k (identity_text i), mode_of w path 0x180)" "wfault w' = wfault w"
    using assms(1-3)
    by (simp add: save_identity_def io_bind_def io_check_def os_mkdir_all_def os_write_file_def mode_of_def)
  have "fst (load_identity lib path w') = Inl (wrap_prefix (''decode identity state '' @ path @ '': '') (Plain msg))"
    using load_identity_content [OF w'(2)] assms(4,5) w'(3) by (simp add: decode_identity_def)
  then obtain w2 where l: "load_identity lib path w' = (Inl (wrap_prefix (''decode identity state '' @ path @ '': '') (Plain msg)), w2)"
    by (cases "load_identity lib path w'") simp
  then have "stored_identity lib cfg w' = (Inl (wrap_prefix (''decode identity state '' @ path @ '': '') (Plain msg)), w2)"
    if "cfStateFile cfg = path" for cfg using that by (simp add: stored_identity_def)
  with w'(1) show ?thesis by (auto simp: bootstrap_identity_def)
qed

subsection \<open>Waiting for the approval\<close>

definition undecided :: "poll \<Rightarrow> bool" where
  "undecided p \<longleftrightarrow> (case plAnswer p of Inl e \<Rightarrow> True | Inr st \<Rightarrow> to_lower (trim_space (esStatus st)) \<in> {[], ''pending''})"

definition approves :: "poll \<Rightarrow> identity \<Rightarrow> bool" where
  "approves p i \<longleftrightarrow> (case plAnswer p of Inl e \<Rightarrow> False
     | Inr st \<Rightarrow> to_lower (trim_space (esStatus st)) = ''approved'' \<and> idNodeID i = esNodeID st \<and> idAgentToken i = esAgentToken st
         \<and> trim_space (esNodeID st) \<noteq> [] \<and> trim_space (esAgentToken st) \<noteq> [])"

lemma identity_from_status_cases:
  "identity_from_status now st = Inr None \<longleftrightarrow> to_lower (trim_space (esStatus st)) \<in> {[], ''pending''}"
  "identity_from_status now st = Inr (Some i) \<longleftrightarrow> to_lower (trim_space (esStatus st)) = ''approved''
     \<and> trim_space (esNodeID st) \<noteq> [] \<and> trim_space (esAgentToken st) \<noteq> []
     \<and> i = \<lparr>idNodeID = esNodeID st, idAgentToken = esAgentToken st, idRegisteredAt = now\<rparr>"
  by (auto simp: identity_from_status_def Let_def)

lemma wait_loop_approved:
  "wait_loop ctx_err over P now tick ps = Some (Inr i) \<Longrightarrow>
    \<exists>before p after. ps = before @ p # after \<and> list_all undecided before \<and> approves p i"
proof (induction ctx_err over P now tick ps rule: wait_loop.induct)
  case (2 ctx_err over P now tick p ps)
  let ?now1 = "if ctx_over over now then now else now + plDuration p"
  have rec: "\<exists>before q after. p # ps = before @ q # after \<and> list_all undecided before \<and> approves q i"
    if u: "undecided p" and w: "await_tick over (plTickFirst p) ?now1 tick = Some wake"
      and r: "wait_loop ctx_err over P wake (next_tick P tick wake) ps = Some (Inr i)" for wake
  proof -
    from "2.IH" [OF refl refl w r] obtain b q a where "ps = b @ q # a" "list_all undecided b" "approves q i" by blast
    with u show ?thesis by (intro exI [of _ "p # b"]) auto
  qed
  show ?case
  proof (cases "ctx_over over now")
    case True
    with "2.prems" show ?thesis by (simp add: Let_def)
  next
    case False
    show ?thesis
    proof (cases "plAnswer p")
      case (Inl e)
      then have "undecided p" by (simp add: undecided_def)
      with "2.prems" False Inl rec show ?thesis
        by (auto simp: Let_def split: if_splits option.splits)
    next
      case (Inr st)
      show ?thesis
      proof (cases "identity_from_status ?now1 st")
        case (Inl e)
        with "2.prems" False Inr show ?thesis by (simp add: Let_def)
      next
        case (Inr d)
        show ?thesis
        proof (cases d)
          case None
          with Inr have "identity_from_status ?now1 st = Inr None" by simp
          then have "undecided p" using \<open>plAnswer p = Inr st\<close> by (simp add: undecided_def identity_from_status_cases(1))
          with "2.prems" False Inr None \<open>plAnswer p = Inr st\<close> rec show ?thesis
            by (auto simp: Let_def split: option.splits)
        next
          case (Some j)
          with "2.prems" False Inr \<open>plAnswer p = Inr st\<close> have "j = i" by (simp add: Let_def)
          with Inr Some have "identity_from_status ?now1 st = Inr (Some i)" by simp
          then have "approves p i" using \<open>plAnswer p = Inr st\<close> by (auto simp: approves_def identity_from_status_cases(2))
          then show ?thesis by (intro exI [of _ "[]"]) auto
        qed
      qed
    qed
  qed
qed simp

text \<open>Waiting ends once the polls outnumber the ticks before the deadline.\<close>

lemma await_tick_later: "await_tick over f now tick = Some wake \<Longrightarrow> tick \<le> wake"
  by (auto simp: await_tick_def Let_def split: option.splits if_splits)

lemma next_tick_step: "0 < P \<Longrightarrow> tick \<le> wake \<Longrightarrow> tick + P \<le> next_tick P tick wake"
  by (simp add: next_tick_def pos_imp_zdiv_nonneg_iff distrib_left)

lemma wait_loop_gone: "ctx_over (Some d) now \<Longrightarrow> ps \<noteq> [] \<Longrightarrow> wait_loop ctx_err (Some d) P now tick ps = Some (Inl ctx_err)"
  by (cases ps) (simp_all add: Let_def)

lemma wait_loop_ends:
  assumes "0 < P" "d \<le> tick + int n * P" "n + 2 \<le> length ps"
  shows "wait_loop ctx_err (Some d) P now tick ps \<noteq> None"
  using assms(2,3)
proof (induction n arbitrary: now tick ps)
  case 0
  then obtain p q qs where ps: "ps = p # q # qs" by (cases ps; cases "tl ps") auto
  have "wait_loop ctx_err (Some d) P wake t (q # qs) = Some (Inl ctx_err)"
    if "await_tick (Some d) f n1 tick = Some wake" for wake f n1 t
    using await_tick_later [OF that] 0 by (intro wait_loop_gone) (simp_all add: ctx_over_def)
  then show ?case unfolding ps by (auto simp: Let_def simp del: wait_loop.simps(2) simp: wait_loop.simps(2) [of _ _ _ now]
      split: sum.splits option.splits if_splits)
next
  case (Suc n)
  then obtain p qs where ps: "ps = p # qs" by (cases ps) auto
  have "wait_loop ctx_err (Some d) P wake (next_tick P tick wake) qs \<noteq> None"
    if "await_tick (Some d) f n1 tick = Some wake" for wake f n1
    using next_tick_step [OF assms(1) await_tick_later [OF that]] Suc.prems ps
    by (intro Suc.IH) (auto simp: algebra_simps)
  then show ?case unfolding ps by (auto simp: Let_def split: sum.splits option.splits if_splits)
qed

text \<open>
  C27. The agent takes an identity only from an answer that approves it with credentials that are not
  blank, after nothing but failed requests and pending answers.
\<close>

theorem enrollment_needs_approval:
  assumes "wait_for_approval ctx_err over start token P ps = Some (Inr i)"
  shows "identity_ready i \<and> (\<exists>before p after. ps = before @ p # after \<and> list_all undecided before \<and> approves p i)"
proof -
  from assms obtain tick Q where "wait_loop ctx_err over Q start tick ps = Some (Inr i)"
    by (auto simp: wait_for_approval_def Let_def split: if_splits)
  from wait_loop_approved [OF this] obtain b p a where p: "ps = b @ p # a" "list_all undecided b" "approves p i" by blast
  then have "identity_ready i" by (cases "plAnswer p") (auto simp: approves_def identity_ready_def)
  with p show ?thesis by blast
qed

text \<open>
  Waiting for an enrollment ends: with a deadline, at most two polls more than poll intervals fit
  before it are made, however long requests take and whatever they answer.
\<close>

theorem enrollment_wait_ends:
  assumes "nat ((d - start) div (if P \<le> 0 then default_poll_interval else P)) + 2 \<le> length ps"
  shows "wait_for_approval ctx_err (Some d) start token P ps \<noteq> None"
proof (cases "trim_space token = []")
  case True
  then show ?thesis by (simp add: wait_for_approval_def)
next
  case False
  define Q where "Q = (if P \<le> 0 then default_poll_interval else P)"
  have Q: "0 < Q" by (simp add: Q_def default_poll_interval_def)
  let ?n = "nat ((d - start) div Q)"
  have "d - start = (d - start) div Q * Q + (d - start) mod Q" by simp
  moreover have "(d - start) mod Q < Q" using Q by simp
  moreover have "(d - start) div Q * Q \<le> int ?n * Q" using Q by (intro mult_right_mono) simp_all
  ultimately have "d \<le> start + Q + int ?n * Q" by linarith
  from wait_loop_ends [OF Q this] assms have "wait_loop ctx_err (Some d) Q start (start + Q) ps \<noteq> None" by (simp add: Q_def)
  with False show ?thesis by (simp add: wait_for_approval_def Q_def Let_def)
qed

text \<open>
  A status the agent does not know is never shown: the message is the same constant for all of them.
\<close>

theorem unexpected_status_hidden:
  assumes "to_lower (trim_space (esStatus st)) \<notin> {[], ''approved'', ''pending'', ''revoked'', ''rejected'', ''denied'', ''expired''}"
  shows "identity_from_status now st = Inl (Plain ''unexpected enrollment status: no details provided'')"
  using assms by (simp add: identity_from_status_def enrollment_message_def Let_def)

subsection \<open>Which identity is used\<close>


lemma load_config_file_content:
  assumes "wfiles w path = wfiles w' path" "wfault w (wtick w) (OpReadFile path) = None" "wfault w' (wtick w') (OpReadFile path) = None"
  shows "fst (load_config_file lib path w) = fst (load_config_file lib path w')"
proof -
  have eq: "fst (os_read_file path w) = fst (os_read_file path w')" using assms by (simp add: os_read_file_def split: option.splits)
  obtain r w1 w2 where r: "os_read_file path w = (r, w1)" "os_read_file path w' = (r, w2)"
    using eq by (cases "os_read_file path w"; cases "os_read_file path w'") auto
  show ?thesis
  proof (cases r)
    case (Inl e)
    with r show ?thesis by (simp add: load_config_file_def merge_config_file_def io_bind_def)
  next
    case (Inr s)
    with r show ?thesis
      by (cases "merge_config_text lib path s default_config") (simp_all add: load_config_file_def merge_config_file_def io_bind_def io_lift_def)
  qed
qed

definition rotated :: "token_rotate \<Rightarrow> agent \<Rightarrow> identity" where
  "rotated ev a = (agIdentity a)\<lparr>idAgentToken := trim_space (trAgentToken ev)\<rparr>"

text \<open>
  C22. A rotated token is stored before it is used: if the handler succeeds, the identity file holds the
  new identity and the agent and its client use it; if it fails, both keep the old one.
\<close>

theorem rotation_stored_first:
  assumes "rotate_agent_token lib cfg ev a w = (r, a', w')"
  shows "(r = None \<longrightarrow> agIdentity a' = rotated ev a \<and> identity_ready (rotated ev a)
        \<and> cAuthToken (agClient a') = trim_space (trAgentToken ev)
        \<and> (\<exists>w1 m. save_identity (cfStateFile cfg) (rotated ev a) w = (Inr (), w1)
              \<and> wfiles w1 (cfStateFile cfg) = Some (identity_text (rotated ev a), m)))
    \<and> (r \<noteq> None \<longrightarrow> a' = a)"
proof (cases "identity_ready (rotated ev a)")
  case False
  with assms show ?thesis by (auto simp: rotate_agent_token_def rotated_def Let_def)
next
  case True
  obtain s w1 where s: "save_identity (cfStateFile cfg) (rotated ev a) w = (s, w1)" by (cases "save_identity (cfStateFile cfg) (rotated ev a) w")
  have tok: "trim_space (idAgentToken (rotated ev a)) \<noteq> []" "idAgentToken (rotated ev a) = trim_space (trAgentToken ev)"
    using True by (simp_all add: rotated_def identity_ready_def)
  show ?thesis
  proof (cases s)
    case (Inl e)
    with assms s True show ?thesis by (auto simp: rotate_agent_token_def rotated_def [symmetric] Let_def persist_identity_def)
  next
    case (Inr u)
    then have s1: "save_identity (cfStateFile cfg) (rotated ev a) w = (Inr (), w1)" using s by simp
    with assms True have "r = None" "a' = use_identity (rotated ev a) a"
      by (auto simp: rotate_agent_token_def rotated_def [symmetric] Let_def persist_identity_def split: if_splits)
    moreover obtain m where "wfiles w1 (cfStateFile cfg) = Some (identity_text (rotated ev a), m)" using save_identity_ok [OF s1] by auto
    ultimately show ?thesis using s1 True tok by (auto simp: use_identity_def set_agent_token_def set_agent_node_id_def)
  qed
qed

text \<open>
  A rotation is reported as done although the configuration file could not be written; as that file
  then still names the old token, the next start uses the old token and never looks at the identity file,
  which holds the new one.
\<close>

theorem rotation_lost_on_restart:
  assumes "identity_ready (rotated ev a)" "save_identity (cfStateFile cfg) (rotated ev a) w = (Inr (), w1)"
    and "trim_space (cfConfigFile cfg) \<noteq> []" "cfConfigFile cfg \<noteq> cfStateFile cfg"
    and "save_config_file (alConfig lib) (cfConfigFile cfg) (identity_config cfg (rotated ev a)) w1 = (Inl e, w2)" "wfiles w2 = wfiles w1"
    and "fst (load_config_file (alConfig lib) (cfConfigFile cfg) w) = Inr old" "cfNodeID old \<noteq> []" "cfAgentToken old \<noteq> []"
    and "wfault w (wtick w) (OpReadFile (cfConfigFile cfg)) = None" "wfault w2 (wtick w2) (OpReadFile (cfConfigFile cfg)) = None"
  shows "(\<exists>a'. rotate_agent_token lib cfg ev a w = (None, a', w2) \<and> snd (credentials a') = trim_space (trAgentToken ev))
    \<and> fst (load_config_file (alConfig lib) (cfConfigFile cfg) w2) = Inr old
    \<and> (\<exists>a'. bootstrap_identity lib old env (new_agent old c) w3 = Some (None, a', w3) \<and> credentials a' = (cfNodeID old, cfAgentToken old))"
proof -
  have "rotate_agent_token lib cfg ev a w = (None, use_identity (rotated ev a) a, w2)"
    using assms(1,2,3,5) by (simp add: rotate_agent_token_def rotated_def [symmetric] Let_def persist_identity_def)
  moreover have "snd (credentials (use_identity (rotated ev a) a)) = trim_space (trAgentToken ev)"
    by (simp add: credentials_def use_identity_def rotated_def)
  moreover have "wfiles w (cfConfigFile cfg) = wfiles w2 (cfConfigFile cfg)"
    using save_identity_ok [OF assms(2)] assms(4,6) by auto
  then have "fst (load_config_file (alConfig lib) (cfConfigFile cfg) w2) = Inr old"
    using load_config_file_content [OF _ assms(10,11), of "alConfig lib"] assms(7) by simp
  moreover have "bootstrap_identity lib old env (new_agent old c) w3 = Some (None, use_identity (agIdentity (new_agent old c)) (new_agent old c), w3)"
    using assms(8,9) by (simp add: bootstrap_identity_def new_agent_def identity_ready_def)
  moreover have "credentials (use_identity (agIdentity (new_agent old c)) (new_agent old c)) = (cfNodeID old, cfAgentToken old)"
    by (simp add: credentials_def use_identity_def new_agent_def)
  ultimately show ?thesis by blast
qed

subsection \<open>Instances\<close>

definition sample_identity :: identity where
  "sample_identity = \<lparr>idNodeID = ''n'', idAgentToken = ''new'', idRegisteredAt = 0\<rparr>"

text \<open>A parser that knows one identity and one configuration file.\<close>

definition sample_agent_lib :: agent_lib where
  "sample_agent_lib = \<lparr>alConfig = bare_lib\<lparr>clParse := \<lambda>t. if t = identity_text sample_identity then Inr (identity_json sample_identity)
       else if t = ''cfg'' then Inr (JObj [(''api_url'', JStr ''https://h''), (''node_id'', JStr ''n''), (''agent_token'', JStr ''old'')])
       else Inl (Plain ''unexpected end of JSON input'')\<rparr>, alParseTime = (\<lambda>_. Inr 0)\<rparr>"

lemma identity_text_start: "identity_text i \<noteq> []" "identity_text i \<noteq> ''cfg''"
  by (simp_all add: identity_text_def identity_json_def)

lemma sample_parses:
  "clParse (alConfig sample_agent_lib) (identity_text sample_identity) = Inr (identity_json sample_identity)"
  "clParse (alConfig sample_agent_lib) ''cfg'' = Inr (JObj [(''api_url'', JStr ''https://h''), (''node_id'', JStr ''n''), (''agent_token'', JStr ''old'')])"
  "clParse (alConfig sample_agent_lib) [] = Inl (Plain ''unexpected end of JSON input'')"
  using identity_text_start [of sample_identity] by (auto simp: sample_agent_lib_def)

lemma sample_identity_saved:
  obtains w' where "save_identity ''id.json'' sample_identity quiet_world = (Inr (), w')" "wfault w' = (\<lambda>_ _. None)"
  by (simp add: save_identity_def io_bind_def io_check_def os_mkdir_all_def os_write_file_def)

theorem identity_round_trip_witness:
  "\<exists>w'. save_identity ''id.json'' sample_identity quiet_world = (Inr (), w')
     \<and> fst (load_identity sample_agent_lib ''id.json'' w') = Inr sample_identity"
proof -
  obtain w' where w: "save_identity ''id.json'' sample_identity quiet_world = (Inr (), w')" "wfault w' = (\<lambda>_ _. None)"
    by (rule sample_identity_saved)
  have "fst (load_identity sample_agent_lib ''id.json'' w') = Inr sample_identity"
    by (rule identity_round_trip [OF w(1)]) (simp_all add: w(2) sample_parses, simp_all add: sample_agent_lib_def sample_identity_def)
  with w(1) show ?thesis by blast
qed

definition full_disk :: world where
  "full_disk = quiet_world\<lparr>wfault := (\<lambda>t op. case op of OpWriteFile p d m \<Rightarrow> Some (Plain ''no space left on device'') | _ \<Rightarrow> None),
     wpartial := (\<lambda>_. Some 0)\<rparr>"

definition sample_wait :: "poll list \<Rightarrow> wait_env" where
  "sample_wait ps = \<lparr>weCtxErr = Sentinel CtxDeadlineExceeded, weParentOver = None, weStart = 0, wePolls = ps\<rparr>"

theorem torn_identity_blocks_start_witness:
  "\<exists>w' w2 e. fst (save_identity ''id.json'' sample_identity full_disk) \<noteq> Inr ()
     \<and> bootstrap_identity sample_agent_lib (default_config\<lparr>cfStateFile := ''id.json'', cfEnrollmentToken := ''t''\<rparr>) (sample_wait [])
          \<lparr>agIdentity = zero_identity, agClient = \<lparr>cAuthToken = [], cNodeIDHeader = []\<rparr>\<rparr> w'
        = Some (Some e, \<lparr>agIdentity = zero_identity, agClient = \<lparr>cAuthToken = [], cNodeIDHeader = []\<rparr>\<rparr>, w2)"
proof -
  let ?cfg = "default_config\<lparr>cfStateFile := ''id.json'', cfEnrollmentToken := ''t''\<rparr>"
  let ?a = "\<lparr>agIdentity = zero_identity, agClient = \<lparr>cAuthToken = [], cNodeIDHeader = []\<rparr>\<rparr>"
  have p: "clParse (alConfig sample_agent_lib) (take 0 (identity_text sample_identity)) = Inl (Plain ''unexpected end of JSON input'')"
    by (simp add: sample_parses)
  have f: "wfault full_disk (wtick full_disk) (OpMkdirAll (path_dir ''id.json'')) = None"
    "wfault full_disk (Suc (wtick full_disk)) (OpWriteFile ''id.json'' (identity_text sample_identity) 0x180) = Some (Plain ''no space left on device'')"
    "wpartial full_disk (Suc (wtick full_disk)) = Some 0" "wfault full_disk t (OpReadFile ''id.json'') = None" for t
    by (simp_all add: full_disk_def)
  obtain w' where s: "save_identity ''id.json'' sample_identity full_disk
      = (Inl (wrap_prefix (''write identity state '' @ ''id.json'' @ '': '') (Plain ''no space left on device'')), w')"
    and b: "\<forall>cfg env a. cfStateFile cfg = ''id.json'' \<longrightarrow> \<not> identity_ready (agIdentity a) \<longrightarrow>
        (\<exists>w2. bootstrap_identity sample_agent_lib cfg env a w'
          = Some (Some (wrap_prefix (''decode identity state '' @ ''id.json'' @ '': '') (Plain ''unexpected end of JSON input'')), a, w2))"
    using torn_identity_blocks_start [OF f(1-3) p f(4)] by blast
  have "cfStateFile ?cfg = ''id.json''" "\<not> identity_ready (agIdentity ?a)" by (simp_all add: identity_ready_def zero_identity_def)
  with b s show ?thesis by (metis (no_types, lifting) fst_conv sum.distinct(1))
qed

definition approved_poll :: poll where
  "approved_poll = \<lparr>plDuration = second, plAnswer = Inr \<lparr>esStatus = '' Approved '', esNodeID = ''n'', esAgentToken = ''new''\<rparr>, plTickFirst = True\<rparr>"

definition pending_poll :: poll where
  "pending_poll = \<lparr>plDuration = second, plAnswer = Inr \<lparr>esStatus = ''pending'', esNodeID = [], esAgentToken = []\<rparr>, plTickFirst = True\<rparr>"

lemma sample_status:
  "to_lower (trim_space '' Approved '') = ''approved''" "to_lower (trim_space ''pending'') = ''pending''"
  "trim_space ''t'' = ''t''" "trim_space ''n'' = ''n''" "trim_space ''new'' = ''new''" "to_lower (trim_space ''paused'') = ''paused''"
  by code_simp+

lemma sample_approval: "wait_for_approval (Sentinel CtxDeadlineExceeded) (Some (10 * minute)) 0 ''t'' 0 [pending_poll, approved_poll]
    = Some (Inr \<lparr>idNodeID = ''n'', idAgentToken = ''new'', idRegisteredAt = 6 * second\<rparr>)"
  by (simp add: wait_for_approval_def default_poll_interval_def pending_poll_def approved_poll_def sample_status Let_def
      ctx_over_def identity_from_status_def await_tick_def next_tick_def)

theorem enrollment_needs_approval_witness:
  "identity_ready \<lparr>idNodeID = ''n'', idAgentToken = ''new'', idRegisteredAt = 6 * second\<rparr>
   \<and> wait_for_approval (Sentinel CtxDeadlineExceeded) (Some (10 * minute)) 0 ''t'' 0 [pending_poll, approved_poll]
      = Some (Inr \<lparr>idNodeID = ''n'', idAgentToken = ''new'', idRegisteredAt = 6 * second\<rparr>)"
  using enrollment_needs_approval [OF sample_approval] sample_approval by blast

theorem enrollment_wait_ends_witness:
  "wait_for_approval (Sentinel CtxDeadlineExceeded) (Some default_wait_timeout) 0 ''t'' 0 (replicate 122 pending_poll) \<noteq> None"
  by (rule enrollment_wait_ends) (simp add: default_wait_timeout_def default_poll_interval_def)

theorem unexpected_status_hidden_witness:
  "identity_from_status 0 \<lparr>esStatus = ''paused'', esNodeID = [], esAgentToken = []\<rparr>
     = Inl (Plain ''unexpected enrollment status: no details provided'')"
  by (rule unexpected_status_hidden) (simp add: sample_status)


definition sample_agent :: agent where
  "sample_agent = \<lparr>agIdentity = \<lparr>idNodeID = ''n'', idAgentToken = ''old'', idRegisteredAt = 0\<rparr>, agClient = \<lparr>cAuthToken = ''old'', cNodeIDHeader = ''n''\<rparr>\<rparr>"

definition sample_rotate :: token_rotate where
  "sample_rotate = \<lparr>trAgentToken = ''new'', trExpiresAt = []\<rparr>"

lemma sample_rotated: "rotated sample_rotate sample_agent = sample_identity" "identity_ready sample_identity"
  by (simp_all add: rotated_def sample_rotate_def sample_agent_def sample_identity_def sample_status identity_ready_def)

text \<open>A disk on which the configuration file alone cannot be written.\<close>

definition readonly_config :: world where
  "readonly_config = quiet_world\<lparr>wfiles := [''c.json'' \<mapsto> (''cfg'', 0x180)],
     wfault := (\<lambda>t op. case op of OpWriteFile p d m \<Rightarrow> if p = ''c.json'' then Some (Plain ''read-only file system'') else None | _ \<Rightarrow> None)\<rparr>"

definition running_config :: config where
  "running_config = plain_config\<lparr>cfStateFile := ''id.json'', cfConfigFile := ''c.json''\<rparr>"

definition old_config :: config where
  "old_config = plain_config\<lparr>cfNodeID := ''n'', cfAgentToken := ''old'', cfConfigFile := ''c.json''\<rparr>"

lemma old_loaded: "fst (load_config_file (alConfig sample_agent_lib) ''c.json'' readonly_config) = Inr old_config"
proof -
  let ?lib = "alConfig sample_agent_lib"
  obtain w1 where r: "os_read_file ''c.json'' readonly_config = (Inr ''cfg'', w1)" by (simp add: os_read_file_def readonly_config_def)
  have u: "unmarshal_file_config ?lib ''c.json'' ''cfg''
      = Inr (zero_file_config\<lparr>fcAPIURL := ''https://h'', fcNodeID := ''n'', fcAgentToken := ''old''\<rparr>)"
    by (simp add: unmarshal_file_config_def sample_parses decode_file_config_def decode_struct_def file_config_lookup dec_string_def first_error_def)
  have m: "merge_config_text ?lib ''c.json'' ''cfg'' default_config = Inr (old_config\<lparr>cfConfigFile := []\<rparr>)"
    by (simp add: merge_config_text_def u merge_durations_def merge_values_def zero_file_config_def apply_duration_def if_set_def if_given_def
        old_config_def plain_config_def default_config_def sample_trims)
  have n: "normalize_config old_config = old_config"
    by (simp add: old_config_def normalize_config_def plain_config_def default_config_def sample_url)
  have "validate_config ?lib old_config = None"
    unfolding validate_config_None
    by (simp add: validate_url_def numeric_checks_def text_checks_def validate_manual_location_def old_config_def plain_config_def default_config_def
        sample_agent_lib_def bare_lib_def sample_trims float_less_def float_greater_def has_prefix_def)
  with n have f: "finish_config ?lib old_config = Inr old_config" by (simp add: finish_config_def)
  have "old_config\<lparr>cfConfigFile := [], cfConfigFile := ''c.json''\<rparr> = old_config" by (simp add: old_config_def)
  with f show ?thesis
    by (simp add: load_config_file_def merge_config_file_def io_bind_def r m io_lift_def)
qed

lemma sample_rotation_saved:
  obtains w1 e w2 where "save_identity (cfStateFile running_config) sample_identity readonly_config = (Inr (), w1)"
    "save_config_file (alConfig sample_agent_lib) (cfConfigFile running_config) (identity_config running_config sample_identity) w1 = (Inl e, w2)"
    "wfiles w2 = wfiles w1" "wfault w2 = wfault readonly_config"
proof -
  let ?c = "identity_config running_config sample_identity"
  obtain ms where "file_config_members (alConfig sample_agent_lib) (file_config_of ?c) = Inr ms"
    by (simp add: file_config_members_def file_config_of_def optional_float_def marshal_float_def identity_config_def running_config_def
        plain_config_def default_config_def)
  then have t: "config_text (alConfig sample_agent_lib) ?c = Inr (json_indent 0 (JObj ms))" by (simp add: config_text_def)
  have c: "cfConfigFile running_config = ''c.json''" "cfStateFile running_config = ''id.json''" by (simp_all add: running_config_def)
  show thesis
    unfolding c using that t
    by (simp add: save_identity_def save_config_file_def write_config_file_def io_bind_def io_check_def io_lift_def os_mkdir_all_def
        os_write_file_def readonly_config_def sample_trims c del: json_indent.simps)
qed

theorem rotation_stored_first_witness:
  "\<exists>a' w'. rotate_agent_token sample_agent_lib running_config sample_rotate sample_agent readonly_config = (None, a', w')
     \<and> cAuthToken (agClient a') = ''new''"
proof -
  obtain w1 e w2 where s: "save_identity (cfStateFile running_config) sample_identity readonly_config = (Inr (), w1)"
    "save_config_file (alConfig sample_agent_lib) (cfConfigFile running_config) (identity_config running_config sample_identity) w1 = (Inl e, w2)"
    by (rule sample_rotation_saved)
  have r: "rotate_agent_token sample_agent_lib running_config sample_rotate sample_agent readonly_config = (None, use_identity sample_identity sample_agent, w2)"
    using s sample_rotated by (simp add: rotate_agent_token_def rotated_def [symmetric] Let_def persist_identity_def running_config_def sample_trims)
  from rotation_stored_first [OF r] have "cAuthToken (agClient (use_identity sample_identity sample_agent)) = ''new''"
    by (simp add: sample_rotate_def sample_status)
  with r show ?thesis by blast
qed

theorem rotation_lost_on_restart_witness:
  "\<exists>a'. bootstrap_identity sample_agent_lib old_config (sample_wait []) (new_agent old_config \<lparr>cAuthToken = [], cNodeIDHeader = []\<rparr>) quiet_world
     = Some (None, a', quiet_world) \<and> credentials a' = (''n'', ''old'')"
proof -
  obtain w1 e w2 where s: "save_identity (cfStateFile running_config) sample_identity readonly_config = (Inr (), w1)"
    "save_config_file (alConfig sample_agent_lib) (cfConfigFile running_config) (identity_config running_config sample_identity) w1 = (Inl e, w2)"
    "wfiles w2 = wfiles w1" "wfault w2 = wfault readonly_config"
    by (rule sample_rotation_saved)
  have c: "cfConfigFile running_config = ''c.json''" "cfStateFile running_config = ''id.json''" by (simp_all add: running_config_def)
  have o: "cfNodeID old_config = ''n''" "cfAgentToken old_config = ''old''" by (simp_all add: old_config_def)
  have f: "wfault readonly_config t (OpReadFile p) = None" for t p by (simp add: readonly_config_def)
  have l: "fst (load_config_file (alConfig sample_agent_lib) (cfConfigFile running_config) readonly_config) = Inr old_config"
    using old_loaded c by simp
  have g: "identity_ready (rotated sample_rotate sample_agent)" "trim_space (cfConfigFile running_config) \<noteq> []"
    "cfConfigFile running_config \<noteq> cfStateFile running_config" "cfNodeID old_config \<noteq> []" "cfAgentToken old_config \<noteq> []"
    using sample_rotated o by (simp_all add: c sample_trims)
  from rotation_lost_on_restart [OF g(1) s(1) [folded sample_rotated(1)] g(2,3) s(2) [folded sample_rotated(1)] s(3) l g(4,5) f]
  show ?thesis unfolding s(4) using f o by simp
qed

end
