(* ===== verification/GoFlag.thy ===== *)
theory GoFlag
  imports Config
begin

text \<open>
  The standard library's \<open>flag\<close> package as the command line uses it: \<open>FlagSet.Parse\<close> with string and
  boolean flags. A flag writes its value into the options, a record of the caller; the first argument
  that is no flag, or the one after \<open>--\<close>, ends the flags and the rest is \<open>Args()\<close>.
\<close>

datatype 's flag_setter = StringFlag "string \<Rightarrow> 's \<Rightarrow> 's" | BoolFlag "bool \<Rightarrow> 's \<Rightarrow> 's"

definition is_flag :: "string \<Rightarrow> bool" where
  "is_flag a \<longleftrightarrow> 2 \<le> length a \<and> has_prefix a ''-''"

definition flag_name :: "string \<Rightarrow> string" where
  "flag_name a = (if has_prefix a ''--'' then drop 2 a else drop 1 a)"

text \<open>The name up to the first \<open>=\<close> after its first byte, and the value after it.\<close>

definition flag_parts :: "string \<Rightarrow> string \<times> string option" where
  "flag_parts n = (case cut_char CHR ''='' (tl n) of (k, v) \<Rightarrow> (hd n # k, v))"

definition undefined_flag :: "string \<Rightarrow> goerror" where
  "undefined_flag n = (if n = ''help'' \<or> n = ''h'' then Plain ''flag: help requested''
     else Plain (''flag provided but not defined: -'' @ n))"

definition set_bool_flag :: "string \<Rightarrow> (bool \<Rightarrow> 's \<Rightarrow> 's) \<Rightarrow> string option \<Rightarrow> 's \<Rightarrow> goerror + 's" where
  "set_bool_flag n f v s =
     (case v of
        None \<Rightarrow> Inr (f True s)
      | Some t \<Rightarrow>
          (case parse_bool t of
             Inr b \<Rightarrow> Inr (f b s)
           | Inl e \<Rightarrow> Inl (Plain (''invalid boolean value '' @ quote_text t @ '' for -'' @ n @ '': parse error''))))"

fun parse_flags :: "(string \<times> 's flag_setter) list \<Rightarrow> string list \<Rightarrow> 's \<Rightarrow> goerror + 's \<times> string list" where
  "parse_flags fs [] s = Inr (s, [])"
| "parse_flags fs (a # rest) s =
     (if \<not> is_flag a then Inr (s, a # rest)
      else if a = ''--'' then Inr (s, rest)
      else if flag_name a = [] \<or> hd (flag_name a) = CHR ''-'' \<or> hd (flag_name a) = CHR ''=''
      then Inl (Plain (''bad flag syntax: '' @ a))
      else case flag_parts (flag_name a) of (n, v) \<Rightarrow>
        (case map_of fs n of
           None \<Rightarrow> Inl (undefined_flag n)
         | Some (BoolFlag f) \<Rightarrow>
             (case set_bool_flag n f v s of Inl e \<Rightarrow> Inl e | Inr s1 \<Rightarrow> parse_flags fs rest s1)
         | Some (StringFlag f) \<Rightarrow>
             (case v of
                Some t \<Rightarrow> parse_flags fs rest (f t s)
              | None \<Rightarrow>
                  (case rest of
                     [] \<Rightarrow> Inl (Plain (''flag needs an argument: -'' @ n))
                   | t # rest1 \<Rightarrow> parse_flags fs rest1 (f t s)))))"

text \<open>A command: parse the flags, refuse what is left over.\<close>

definition parse_command :: "string \<Rightarrow> (string \<times> 's flag_setter) list \<Rightarrow> string list \<Rightarrow> 's \<Rightarrow> goerror + 's" where
  "parse_command cmd fs args s =
     (case parse_flags fs args s of
        Inl e \<Rightarrow> Inl (wrap_prefix (''parse '' @ cmd @ '' flags: '') e)
      | Inr (s1, []) \<Rightarrow> Inr s1
      | Inr (s1, rest) \<Rightarrow> Inl (Plain (''unexpected '' @ cmd @ '' arguments: '' @ str_join '' '' rest)))"

subsection \<open>Reading what was written\<close>

declare parse_flags.simps(2) [simp del]

text \<open>A name that \<open>--name value\<close> passes unchanged.\<close>

definition plain_name :: "string \<Rightarrow> bool" where
  "plain_name n \<longleftrightarrow> n \<noteq> [] \<and> CHR ''='' \<notin> set n \<and> hd n \<noteq> CHR ''-''"

lemma flag_parts_plain: "plain_name n \<Longrightarrow> flag_parts n = (n, None)"
proof -
  assume "plain_name n"
  then have n: "n = hd n # tl n" "\<forall>x\<in>set (tl n). x \<noteq> CHR ''=''"
    by (auto simp: plain_name_def dest: list.set_sel(2))
  from n(2) have "takeWhile (\<lambda>x. x \<noteq> CHR ''='') (tl n) = tl n" "dropWhile (\<lambda>x. x \<noteq> CHR ''='') (tl n) = []"
    by (auto simp: takeWhile_eq_all_conv dropWhile_eq_Nil_conv)
  then show ?thesis using n(1) [symmetric] by (simp only: flag_parts_def cut_char_def prod.case list.case)
qed

lemma parse_flag_string:
  assumes "plain_name n" "map_of fs n = Some (StringFlag f)"
  shows "parse_flags fs ((''--'' @ n) # t # rest) s = parse_flags fs rest (f t s)"
proof -
  have "n \<noteq> []" "hd n \<noteq> CHR ''-''" "hd n \<noteq> CHR ''=''" using assms(1) by (auto simp: plain_name_def dest: list.set_sel(1))
  moreover from this have "2 \<le> length (''--'' @ n)" by (cases n) auto
  ultimately show ?thesis
    by (simp add: parse_flags.simps(2) is_flag_def flag_name_def flag_parts_plain [OF assms(1)] assms(2))
qed

lemma parse_flag_bool:
  assumes "plain_name n" "map_of fs n = Some (BoolFlag f)"
  shows "parse_flags fs ((''--'' @ n) # rest) s = parse_flags fs rest (f True s)"
proof -
  have "n \<noteq> []" "hd n \<noteq> CHR ''-''" "hd n \<noteq> CHR ''=''" using assms(1) by (auto simp: plain_name_def dest: list.set_sel(1))
  moreover from this have "2 \<le> length (''--'' @ n)" by (cases n) auto
  ultimately show ?thesis
    by (simp add: parse_flags.simps(2) is_flag_def flag_name_def flag_parts_plain [OF assms(1)] assms(2) set_bool_flag_def)
qed

end
