(* ===== verification/Platform.thy ===== *)
theory Platform
  imports GoFlag
begin

text \<open>
  The pure parts of \<open>internal/agentctl/commands.go\<close>: the layout of an installation on each platform, the
  options of the commands, \<open>config set\<close>, the service definitions and the reading back of the configuration
  path from them, the texts of the root helpers and of the base sudoers file, and the summaries printed.
  What \<open>os.Getenv\<close> answers comes with \<open>config_lib\<close>.
\<close>

subsection \<open>The layout of an installation\<close>

record platform_spec =
  psManager :: string
  psInstallDir :: string
  psBinaryPath :: string
  psSymlinkPath :: string
  psPrivilegedUpdateHelperPath :: string
  psRootProfileHelperPath :: string
  psPackageMutationHelperPath :: string
  psOperationalLogScanHelperPath :: string
  psTaskRootHelperPath :: string
  psBaseSudoersPath :: string
  psRootAccessSudoersPath :: string
  psConfigPath :: string
  psStatePath :: string
  psServiceUnit :: string
  psServiceName :: string
  psWorkingDir :: string
  psRequiresRoot :: bool
  psServiceDomain :: string
  psLogStdoutPath :: string
  psLogStderrPath :: string
  psServiceUser :: string
  psServiceGroup :: string
  psServiceHome :: string

definition linux_spec :: platform_spec where
  "linux_spec =
     \<lparr>psManager = ''systemd'',
      psInstallDir = ''/opt/noderax-agent'',
      psBinaryPath = ''/opt/noderax-agent/noderax-agent'',
      psSymlinkPath = ''/usr/local/bin/noderax-agent'',
      psPrivilegedUpdateHelperPath = ''/usr/local/libexec/noderax-agent-self-update'',
      psRootProfileHelperPath = ''/usr/local/libexec/noderax-agent-root-profile'',
      psPackageMutationHelperPath = ''/usr/local/libexec/noderax-agent-package-mutation'',
      psOperationalLogScanHelperPath = ''/usr/local/libexec/noderax-agent-operational-log-scan'',
      psTaskRootHelperPath = ''/usr/local/libexec/noderax-agent-task-root'',
      psBaseSudoersPath = ''/etc/sudoers.d/noderax-agent'',
      psRootAccessSudoersPath = ''/etc/sudoers.d/noderax-agent-root-access'',
      psConfigPath = ''/etc/noderax-agent/config.json'',
      psStatePath = ''/var/lib/noderax-agent/agent_identity.json'',
      psServiceUnit = ''/etc/systemd/system/noderax-agent.service'',
      psServiceName = ''noderax-agent.service'',
      psWorkingDir = ''/opt/noderax-agent'',
      psRequiresRoot = True,
      psServiceDomain = ''system'',
      psLogStdoutPath = [],
      psLogStderrPath = [],
      psServiceUser = ''noderax'',
      psServiceGroup = ''noderax'',
      psServiceHome = ''/var/lib/noderax-agent''\<rparr>"

definition macos_spec :: platform_spec where
  "macos_spec =
     \<lparr>psManager = ''launchd'',
      psInstallDir = ''/usr/local/lib/noderax-agent'',
      psBinaryPath = ''/usr/local/lib/noderax-agent/noderax-agent'',
      psSymlinkPath = ''/usr/local/bin/noderax-agent'',
      psPrivilegedUpdateHelperPath = [],
      psRootProfileHelperPath = [],
      psPackageMutationHelperPath = [],
      psOperationalLogScanHelperPath = [],
      psTaskRootHelperPath = [],
      psBaseSudoersPath = [],
      psRootAccessSudoersPath = [],
      psConfigPath = ''/usr/local/etc/noderax-agent/config.json'',
      psStatePath = ''/usr/local/var/lib/noderax-agent/agent_identity.json'',
      psServiceUnit = ''/Library/LaunchDaemons/com.noderax.agent.plist'',
      psServiceName = ''com.noderax.agent'',
      psWorkingDir = ''/usr/local/lib/noderax-agent'',
      psRequiresRoot = True,
      psServiceDomain = ''system'',
      psLogStdoutPath = ''/var/log/noderax-agent.log'',
      psLogStderrPath = ''/var/log/noderax-agent.error.log'',
      psServiceUser = [],
      psServiceGroup = [],
      psServiceHome = []\<rparr>"

definition current_platform_spec :: "string \<Rightarrow> goerror + platform_spec" where
  "current_platform_spec goos =
     (if goos = ''linux'' then Inr linux_spec
      else if goos = ''darwin'' then Inr macos_spec
      else Inl (Plain (''unsupported platform '' @ goos)))"

definition linux_update_request_path :: string where
  "linux_update_request_path = ''/var/lib/noderax-agent/update-request.json''"

definition linux_package_request_path :: string where
  "linux_package_request_path = ''/var/lib/noderax-agent/package-mutation-request.txt''"

definition linux_log_scan_request_path :: string where
  "linux_log_scan_request_path = ''/var/lib/noderax-agent/operational-log-scan-request.json''"

definition linux_task_root_request_path :: string where
  "linux_task_root_request_path = ''/var/lib/noderax-agent/task-root-request.txt''"

definition ensure_service_manager :: "(string \<Rightarrow> bool) \<Rightarrow> platform_spec \<Rightarrow> goerror option" where
  "ensure_service_manager exists spec =
     (if psManager spec = ''systemd'' then
        if exists ''systemctl'' then None else Some (Plain ''systemctl is required for install'')
      else if psManager spec = ''launchd'' then
        if exists ''launchctl'' then None else Some (Plain ''launchctl is required for install'')
      else Some (Plain (''unsupported service manager '' @ quote_text (psManager spec))))"

definition service_action_requires_root :: "platform_spec \<Rightarrow> string \<Rightarrow> bool" where
  "service_action_requires_root spec action \<longleftrightarrow>
     psRequiresRoot spec \<and> \<not> (psManager spec = ''systemd'' \<and> action = ''status'')"

definition launchd_target :: "platform_spec \<Rightarrow> string" where
  "launchd_target spec = psServiceDomain spec @ ''/'' @ psServiceName spec"

definition require_root :: "int \<Rightarrow> goerror option" where
  "require_root euid = (if euid \<noteq> 0 then Some (Plain ''this command must be run as root; try again with sudo'') else None)"

subsection \<open>Options\<close>

record install_options =
  ioAPIURL :: string
  ioBootstrapToken :: string
  ioLogLevel :: string
  ioNonInteractive :: bool

record bootstrap_options =
  boAPIURL :: string
  boBootstrapToken :: string
  boConfigFile :: string
  boStateFile :: string
  boLogLevel :: string
  boNonInteractive :: bool

definition install_flags :: "(string \<times> install_options flag_setter) list" where
  "install_flags =
     [(''api-url'', StringFlag (\<lambda>v. ioAPIURL_update (\<lambda>_. v))),
      (''bootstrap-token'', StringFlag (\<lambda>v. ioBootstrapToken_update (\<lambda>_. v))),
      (''log-level'', StringFlag (\<lambda>v. ioLogLevel_update (\<lambda>_. v))),
      (''non-interactive'', BoolFlag (\<lambda>v. ioNonInteractive_update (\<lambda>_. v)))]"

definition bootstrap_flags :: "(string \<times> bootstrap_options flag_setter) list" where
  "bootstrap_flags =
     [(''api-url'', StringFlag (\<lambda>v. boAPIURL_update (\<lambda>_. v))),
      (''bootstrap-token'', StringFlag (\<lambda>v. boBootstrapToken_update (\<lambda>_. v))),
      (''config-file'', StringFlag (\<lambda>v. boConfigFile_update (\<lambda>_. v))),
      (''state-file'', StringFlag (\<lambda>v. boStateFile_update (\<lambda>_. v))),
      (''log-level'', StringFlag (\<lambda>v. boLogLevel_update (\<lambda>_. v))),
      (''non-interactive'', BoolFlag (\<lambda>v. boNonInteractive_update (\<lambda>_. v)))]"

definition parse_install_options :: "string list \<Rightarrow> goerror + install_options" where
  "parse_install_options args = parse_command ''install'' install_flags args
     \<lparr>ioAPIURL = [], ioBootstrapToken = [], ioLogLevel = [], ioNonInteractive = False\<rparr>"

definition parse_bootstrap_options :: "string list \<Rightarrow> goerror + bootstrap_options" where
  "parse_bootstrap_options args = parse_command ''bootstrap'' bootstrap_flags args
     \<lparr>boAPIURL = [], boBootstrapToken = [], boConfigFile = [], boStateFile = [], boLogLevel = [], boNonInteractive = False\<rparr>"

fun first_non_empty :: "string list \<Rightarrow> string" where
  "first_non_empty [] = []"
| "first_non_empty (v # vs) = (if trim_space v \<noteq> [] then trim_space v else first_non_empty vs)"

text \<open>The arguments \<open>bootstrapManagedInstall\<close> gives \<open>sudo\<close>.\<close>

definition bootstrap_args :: "platform_spec \<Rightarrow> config \<Rightarrow> string list" where
  "bootstrap_args spec c =
     [''-u'', psServiceUser spec, ''-H'', psBinaryPath spec, ''bootstrap'', ''--non-interactive'',
      ''--api-url'', cfAPIURL c, ''--bootstrap-token'', cfEnrollmentToken c, ''--config-file'', cfConfigFile c,
      ''--state-file'', cfStateFile c, ''--log-level'', cfLogLevel c]"

subsection \<open>\<open>config set\<close>\<close>

definition parse_config_duration :: "string \<Rightarrow> goerror + int" where
  "parse_config_duration v =
     (case parse_duration (trim_space v) of
        None \<Rightarrow> Inl (wrap_prefix (''parse duration '' @ quote_text v @ '': '') (invalid_duration (trim_space v)))
      | Some d \<Rightarrow> Inr d)"

definition parse_config_float :: "config_lib \<Rightarrow> string \<Rightarrow> goerror + go_float option" where
  "parse_config_float lib v =
     (if trim_space v = [] then Inr None
      else case clParseFloat lib (trim_space v) of
        Inl e \<Rightarrow> Inl (wrap_prefix (''parse float '' @ quote_text (trim_space v) @ '': '') e)
      | Inr x \<Rightarrow> Inr (Some x))"

definition parse_config_bool :: "string \<Rightarrow> goerror + bool" where
  "parse_config_bool v =
     (case parse_bool (trim_space v) of
        Inl e \<Rightarrow> Inl (wrap_prefix (''parse bool '' @ quote_text v @ '': '') e) | Inr b \<Rightarrow> Inr b)"

definition apply_config_value :: "config_lib \<Rightarrow> string \<Rightarrow> string \<Rightarrow> config \<Rightarrow> goerror + config" where
  "apply_config_value lib key v c =
     (if key = ''api_url'' then Inr (c\<lparr>cfAPIURL := v\<rparr>)
      else if key = ''enrollment_token'' then Inr (c\<lparr>cfEnrollmentToken := v\<rparr>)
      else if key = ''node_id'' then Inr (c\<lparr>cfNodeID := v\<rparr>)
      else if key = ''agent_token'' then Inr (c\<lparr>cfAgentToken := v\<rparr>)
      else if key = ''metrics_interval'' then rbind (parse_config_duration v) (\<lambda>d. Inr (c\<lparr>cfMetricsInterval := d\<rparr>))
      else if key = ''request_timeout'' then rbind (parse_config_duration v) (\<lambda>d. Inr (c\<lparr>cfRequestTimeout := d\<rparr>))
      else if key = ''task_timeout'' then rbind (parse_config_duration v) (\<lambda>d. Inr (c\<lparr>cfTaskTimeout := d\<rparr>))
      else if key = ''shutdown_timeout'' then rbind (parse_config_duration v) (\<lambda>d. Inr (c\<lparr>cfShutdownTimeout := d\<rparr>))
      else if key = ''state_file'' then Inr (c\<lparr>cfStateFile := v\<rparr>)
      else if key = ''log_level'' then Inr (c\<lparr>cfLogLevel := v\<rparr>)
      else if key = ''location_manual_region'' then Inr (c\<lparr>cfManualRegion := v\<rparr>)
      else if key = ''location_manual_zone'' then Inr (c\<lparr>cfManualZone := v\<rparr>)
      else if key = ''location_manual_latitude'' then rbind (parse_config_float lib v) (\<lambda>x. Inr (c\<lparr>cfManualLatitude := x\<rparr>))
      else if key = ''location_manual_longitude'' then rbind (parse_config_float lib v) (\<lambda>x. Inr (c\<lparr>cfManualLongitude := x\<rparr>))
      else if key = ''location_public_ip_enabled'' then rbind (parse_config_bool v) (\<lambda>b. Inr (c\<lparr>cfPublicIPEnabled := b\<rparr>))
      else if key = ''ipinfo_token'' then Inr (c\<lparr>cfIPInfoToken := v\<rparr>)
      else Inl (Plain (''unsupported config key '' @ quote_text key)))"

definition managed_config_path :: "config_lib \<Rightarrow> platform_spec \<Rightarrow> string" where
  "managed_config_path lib spec =
     (let v = trim_space (clGetenv lib ''NODERAX_CONFIG_FILE'') in if v \<noteq> [] then v else psConfigPath spec)"

definition load_managed_config :: "config_lib \<Rightarrow> platform_spec \<Rightarrow> config io" where
  "load_managed_config lib spec = load_config_file lib (managed_config_path lib spec)"

subsection \<open>Service definitions\<close>

definition text_lines :: "string list \<Rightarrow> string" where
  "text_lines ls = concat (map (\<lambda>l. l @ [CHR 0x0A]) ls)"

definition user_section :: "platform_spec \<Rightarrow> string list" where
  "user_section spec =
     (if trim_space (psServiceUser spec) \<noteq> [] then [''User='' @ psServiceUser spec] else [])
     @ (if trim_space (psServiceGroup spec) \<noteq> [] then [''Group='' @ psServiceGroup spec] else [])
     @ (if trim_space (psServiceHome spec) \<noteq> [] then [''Environment=HOME='' @ psServiceHome spec] else [])"

definition render_service_unit :: "platform_spec \<Rightarrow> string \<Rightarrow> string" where
  "render_service_unit spec config_path = text_lines
     ([''[Unit]'', ''Description=Noderax Agent'', ''After=network-online.target'', ''Wants=network-online.target'', [],
       ''[Service]'', ''Type=simple'', ''WorkingDirectory='' @ psWorkingDir spec]
      @ user_section spec
      @ [''Environment=NODERAX_CONFIG_FILE='' @ config_path, ''ExecStart='' @ psBinaryPath spec,
         ''Restart=always'', ''RestartSec=5'', [], ''[Install]'', ''WantedBy=multi-user.target''])"

definition render_launchd_plist :: "platform_spec \<Rightarrow> string \<Rightarrow> string" where
  "render_launchd_plist spec config_path = text_lines
     [''<?xml version=\"1.0\" encoding=\"UTF-8\"?>'',
      ''<!DOCTYPE plist PUBLIC \"-//Apple//DTD PLIST 1.0//EN\" \"http://www.apple.com/DTDs/PropertyList-1.0.dtd\">'',
      ''<plist version=\"1.0\">'',
      ''  <dict>'',
      ''    <key>Label</key>'',
      ''    <string>'' @ psServiceName spec @ ''</string>'',
      ''    <key>ProgramArguments</key>'',
      ''    <array>'',
      ''      <string>'' @ psBinaryPath spec @ ''</string>'',
      ''    </array>'',
      ''    <key>EnvironmentVariables</key>'',
      ''    <dict>'',
      ''      <key>NODERAX_CONFIG_FILE</key>'',
      ''      <string>'' @ config_path @ ''</string>'',
      ''    </dict>'',
      ''    <key>WorkingDirectory</key>'',
      ''    <string>'' @ psWorkingDir spec @ ''</string>'',
      ''    <key>RunAtLoad</key>'',
      ''    <true/>'',
      ''    <key>KeepAlive</key>'',
      ''    <true/>'',
      ''    <key>StandardOutPath</key>'',
      ''    <string>'' @ psLogStdoutPath spec @ ''</string>'',
      ''    <key>StandardErrorPath</key>'',
      ''    <string>'' @ psLogStderrPath spec @ ''</string>'',
      ''  </dict>'',
      ''</plist>'']"

text \<open>What follows the first occurrence: the second part of \<open>strings.SplitN(s, p, 2)\<close>.\<close>

definition after_first :: "string \<Rightarrow> string \<Rightarrow> string option" where
  "after_first s p = map_option (\<lambda>i. drop (i + length p) s) (str_index s p)"

fun config_line :: "string list \<Rightarrow> string option" where
  "config_line [] = None"
| "config_line (l # ls) =
     (case after_first (trim_space l) ''NODERAX_CONFIG_FILE='' of
        None \<Rightarrow> config_line ls
      | Some p \<Rightarrow> Some (path_clean (trim_space p)))"

definition plist_config :: "string \<Rightarrow> string" where
  "plist_config content =
     (case str_index content ''<key>NODERAX_CONFIG_FILE</key>'' of
        None \<Rightarrow> []
      | Some k \<Rightarrow>
          (let fragment = drop k content in
           case (str_index fragment ''<string>'', str_index fragment ''</string>'') of
             (Some start, Some stop) \<Rightarrow>
               if stop \<le> start + 8 then [] else path_clean (trim_space (drop (start + 8) (take stop fragment)))
           | _ \<Rightarrow> []))"

definition config_path_of_definition :: "string \<Rightarrow> string" where
  "config_path_of_definition content =
     (case config_line (split_char CHR 0x0A content) of Some p \<Rightarrow> p | None \<Rightarrow> plist_config content)"

definition config_path_from_service_definition :: "string \<Rightarrow> world \<Rightarrow> string \<times> world" where
  "config_path_from_service_definition path w =
     (case os_read_file path w of
        (Inl e, w1) \<Rightarrow> ([], w1)
      | (Inr content, w1) \<Rightarrow> (config_path_of_definition content, w1))"

definition installed_config_path :: "config_lib \<Rightarrow> platform_spec \<Rightarrow> world \<Rightarrow> string \<times> world" where
  "installed_config_path lib spec w =
     (case config_path_from_service_definition (psServiceUnit spec) w of
        (p, w1) \<Rightarrow>
          (let v = trim_space (clGetenv lib ''NODERAX_CONFIG_FILE'') in
           (if p \<noteq> [] then p else if v \<noteq> [] then path_clean v else psConfigPath spec, w1)))"

definition state_file_fields :: "string field list" where
  "state_file_fields = [(''state_file'', dec_string [] (\<lambda>f s. f s))]"

definition installed_state_path :: "config_lib \<Rightarrow> string \<Rightarrow> string \<Rightarrow> world \<Rightarrow> string \<times> world" where
  "installed_state_path lib config_path fallback w =
     (if trim_space config_path = [] then (fallback, w)
      else case os_read_file (trim_space config_path) w of
        (Inl e, w1) \<Rightarrow> (fallback, w1)
      | (Inr data, w1) \<Rightarrow>
          (case clParse lib data of
             Inl e \<Rightarrow> (fallback, w1)
           | Inr j \<Rightarrow>
               (case decode_struct [] state_file_fields j [] of
                  (Some e, s) \<Rightarrow> (fallback, w1)
                | (None, s) \<Rightarrow> (if trim_space s = [] then fallback else path_clean s, w1))))"

subsection \<open>The root helpers and the base sudoers file\<close>

definition render_privileged_update_helper :: "platform_spec \<Rightarrow> string" where
  "render_privileged_update_helper spec = text_lines
     [''#!/bin/sh'',
      ''set -eu'',
      [],
      ''if [ \"$#\" -ne 0 ]; then'',
      ''  echo \"usage: '' @ psPrivilegedUpdateHelperPath spec @ ''\" >&2'',
      ''  exit 64'',
      ''fi'',
      [],
      ''exec '' @ quote_text (psBinaryPath spec) @ '' update --request-file '' @ quote_text (linux_update_request_path)]"

definition render_package_mutation_helper :: "platform_spec \<Rightarrow> string" where
  "render_package_mutation_helper spec = text_lines
     [''#!/bin/sh'',
      ''set -eu'',
      [],
      ''HELPER_PATH='' @ quote_text (psPackageMutationHelperPath spec),
      ''REQUEST_FILE='' @ quote_text (linux_package_request_path),
      [],
      ''if [ \"$#\" -ne 0 ]; then'',
      [CHR 0x09] @ ''echo \"usage: ${HELPER_PATH}\" >&2'',
      [CHR 0x09] @ ''exit 64'',
      ''fi'',
      [],
      ''if [ ! -f \"${REQUEST_FILE}\" ]; then'',
      [CHR 0x09] @ ''echo \"package mutation request file is missing\" >&2'',
      [CHR 0x09] @ ''exit 1'',
      ''fi'',
      [],
      ''OPERATION=\"\"'',
      ''set --'',
      ''LINE_NO=0'',
      ''while IFS= read -r line || [ -n \"${line}\" ]; do'',
      [CHR 0x09] @ ''LINE_NO=$((LINE_NO + 1))'',
      [CHR 0x09] @ ''if [ \"${LINE_NO}\" -eq 1 ]; then'',
      [CHR 0x09, CHR 0x09] @ ''OPERATION=\"${line}\"'',
      [CHR 0x09, CHR 0x09] @ ''continue'',
      [CHR 0x09] @ ''fi'',
      [],
      [CHR 0x09] @ ''pkg=\"$(printf '' @ [CHR 0x27] @ ''%s'' @ [CHR 0x27] @ '' \"${line}\" | tr -d '' @ [CHR 0x27] @ ''[:space:]'' @ [CHR 0x27] @ '')\"'',
      [CHR 0x09] @ ''if [ -z \"${pkg}\" ]; then'',
      [CHR 0x09, CHR 0x09] @ ''continue'',
      [CHR 0x09] @ ''fi'',
      [],
      [CHR 0x09] @ ''if ! printf '' @ [CHR 0x27] @ ''%s'' @ [CHR 0x5C] @ ''n'' @ [CHR 0x27] @ '' \"${pkg}\" | grep -Eq '' @ [CHR 0x27] @ ''^[a-z0-9][a-z0-9.+:-]*$'' @ [CHR 0x27] @ ''; then'',
      [CHR 0x09, CHR 0x09] @ ''echo \"invalid package name in request: ${pkg}\" >&2'',
      [CHR 0x09, CHR 0x09] @ ''rm -f \"${REQUEST_FILE}\"'',
      [CHR 0x09, CHR 0x09] @ ''exit 64'',
      [CHR 0x09] @ ''fi'',
      [],
      [CHR 0x09] @ ''set -- \"$@\" \"${pkg}\"'',
      ''done < \"${REQUEST_FILE}\"'',
      [],
      ''rm -f \"${REQUEST_FILE}\"'',
      [],
      ''APT_GET_PATH=\"$(command -v apt-get || true)\"'',
      ''if [ -z \"${APT_GET_PATH}\" ]; then'',
      [CHR 0x09] @ ''echo \"apt-get is required for package mutation helper\" >&2'',
      [CHR 0x09] @ ''exit 1'',
      ''fi'',
      [],
      ''case \"${OPERATION}\" in'',
      [CHR 0x09] @ ''update)'',
      [CHR 0x09, CHR 0x09] @ ''exec \"${APT_GET_PATH}\" update'',
      [CHR 0x09, CHR 0x09] @ '';;'',
      [CHR 0x09] @ ''install|remove|purge)'',
      [CHR 0x09, CHR 0x09] @ ''if [ \"$#\" -eq 0 ]; then'',
      [CHR 0x09, CHR 0x09, CHR 0x09] @ ''echo \"package mutation request must include package names for ${OPERATION}\" >&2'',
      [CHR 0x09, CHR 0x09, CHR 0x09] @ ''exit 64'',
      [CHR 0x09, CHR 0x09] @ ''fi'',
      [CHR 0x09, CHR 0x09] @ ''exec \"${APT_GET_PATH}\" \"${OPERATION}\" -y -- \"$@\"'',
      [CHR 0x09, CHR 0x09] @ '';;'',
      [CHR 0x09] @ ''*)'',
      [CHR 0x09, CHR 0x09] @ ''echo \"unsupported package mutation operation: ${OPERATION}\" >&2'',
      [CHR 0x09, CHR 0x09] @ ''exit 64'',
      [CHR 0x09, CHR 0x09] @ '';;'',
      ''esac'']"

definition render_operational_log_scan_helper :: "platform_spec \<Rightarrow> string" where
  "render_operational_log_scan_helper spec = text_lines
     [''#!/bin/sh'',
      ''set -eu'',
      [],
      ''HELPER_PATH='' @ quote_text (psOperationalLogScanHelperPath spec),
      ''REQUEST_FILE='' @ quote_text (linux_log_scan_request_path),
      ''AGENT_BINARY='' @ quote_text (psBinaryPath spec),
      [],
      ''if [ \"$#\" -ne 0 ]; then'',
      [CHR 0x09] @ ''echo \"usage: ${HELPER_PATH}\" >&2'',
      [CHR 0x09] @ ''exit 64'',
      ''fi'',
      [],
      ''if [ ! -f \"${REQUEST_FILE}\" ]; then'',
      [CHR 0x09] @ ''echo \"operational log scan request file is missing\" >&2'',
      [CHR 0x09] @ ''exit 1'',
      ''fi'',
      [],
      ''exec \"${AGENT_BINARY}\" log-scan --request \"${REQUEST_FILE}\"'']"

definition render_task_root_helper :: "platform_spec \<Rightarrow> string" where
  "render_task_root_helper spec = text_lines
     [''#!/bin/sh'',
      ''set -eu'',
      [],
      ''HELPER_PATH='' @ quote_text (psTaskRootHelperPath spec),
      ''REQUEST_FILE='' @ quote_text (linux_task_root_request_path),
      [],
      ''if [ \"$#\" -ne 0 ]; then'',
      [CHR 0x09] @ ''echo \"usage: ${HELPER_PATH}\" >&2'',
      [CHR 0x09] @ ''exit 64'',
      ''fi'',
      [],
      ''if [ ! -f \"${REQUEST_FILE}\" ]; then'',
      [CHR 0x09] @ ''echo \"task root request file is missing\" >&2'',
      [CHR 0x09] @ ''exit 1'',
      ''fi'',
      [],
      ''COMMAND=\"$(cat \"${REQUEST_FILE}\")\"'',
      ''rm -f \"${REQUEST_FILE}\"'',
      [],
      ''if [ -z \"$(printf '' @ [CHR 0x27] @ ''%s'' @ [CHR 0x27] @ '' \"${COMMAND}\" | tr -d '' @ [CHR 0x27] @ ''[:space:]'' @ [CHR 0x27] @ '')\" ]; then'',
      [CHR 0x09] @ ''echo \"task root request is empty\" >&2'',
      [CHR 0x09] @ ''exit 64'',
      ''fi'',
      [],
      ''exec /bin/sh -lc \"${COMMAND}\"'']"

definition root_profile_commands :: "platform_spec \<Rightarrow> string list" where
  "root_profile_commands spec =
     map (\<lambda>p. psRootProfileHelperPath spec @ '' apply '' @ p)
       [''off'', ''operational'', ''task'', ''terminal'', ''operational_task'', ''operational_terminal'', ''task_terminal'', ''all'']"

definition render_base_sudoers :: "platform_spec \<Rightarrow> string" where
  "render_base_sudoers spec = text_lines
     [''# Managed by the Noderax agent installer.'',
      ''Cmnd_Alias NODERAX_AGENT_SELF_UPDATE = '' @ psPrivilegedUpdateHelperPath spec,
      ''Cmnd_Alias NODERAX_AGENT_ROOT_PROFILE = '' @ str_join '', '' (root_profile_commands spec),
      psServiceUser spec @ '' ALL=(root) NOPASSWD: ''
        @ str_join '', '' (psPrivilegedUpdateHelperPath spec # root_profile_commands spec)]"

definition render_root_profile_helper :: "platform_spec \<Rightarrow> string" where
  "render_root_profile_helper spec = text_lines
     [''#!/bin/sh'',
      ''set -eu'',
      [],
      ''HELPER_PATH='' @ quote_text (psRootProfileHelperPath spec),
      ''SERVICE_USER='' @ quote_text (psServiceUser spec),
      ''SERVICE_NAME='' @ quote_text (psServiceName spec),
      ''SUDOERS_FILE='' @ quote_text (psRootAccessSudoersPath spec),
      ''PACKAGE_MUTATION_HELPER='' @ quote_text (psPackageMutationHelperPath spec),
      ''OPERATIONAL_LOG_SCAN_HELPER='' @ quote_text (psOperationalLogScanHelperPath spec),
      ''TASK_ROOT_HELPER='' @ quote_text (psTaskRootHelperPath spec),
      [],
      ''if [ \"$#\" -ne 2 ] || [ \"$1\" != \"apply\" ]; then'',
      [CHR 0x09] @ ''echo \"usage: ${HELPER_PATH} apply <off|operational|task|terminal|operational_task|operational_terminal|task_terminal|all>\" >&2'',
      ''  exit 64'',
      ''fi'',
      [],
      ''PROFILE=\"$2\"'',
      ''mkdir -p \"$(dirname \"${SUDOERS_FILE}\")\"'',
      [],
      ''if [ \"${PROFILE}\" = \"off\" ]; then'',
      ''  rm -f \"${SUDOERS_FILE}\"'',
      ''  exit 0'',
      ''fi'',
      [],
      ''TMP_FILE=\"$(mktemp \"${SUDOERS_FILE}.XXXXXX\")\"'',
      ''cleanup() {'',
      ''  rm -f \"${TMP_FILE}\"'',
      ''}'',
      ''trap cleanup EXIT INT TERM'',
      [],
      ''append_line() {'',
      ''  printf '' @ [CHR 0x27] @ ''%s'' @ [CHR 0x5C] @ ''n'' @ [CHR 0x27] @ '' \"$1\" >> \"${TMP_FILE}\"'',
      ''}'',
      [],
      ''append_alias() {'',
      ''  if [ -z \"${ALIAS_LIST}\" ]; then'',
      ''    ALIAS_LIST=\"$1\"'',
      ''  else'',
      ''    ALIAS_LIST=\"${ALIAS_LIST}, $1\"'',
      ''  fi'',
      ''}'',
      [],
      ''append_line \"# Managed by the Noderax agent root profile helper.\"'',
      ''ALIAS_LIST=\"\"'',
      [],
      ''append_operational_profile() {'',
      ''  APT_GET_PATH=\"$(command -v apt-get || true)\"'',
      ''  SYSTEMCTL_PATH=\"$(command -v systemctl || true)\"'',
      ''  REBOOT_PATH=\"$(command -v reboot || true)\"'',
      [],
      ''  if [ -n \"${APT_GET_PATH}\" ]; then'',
      [CHR 0x09, CHR 0x09] @ ''append_line \"Cmnd_Alias NODERAX_AGENT_PACKAGE_MUTATIONS = ${PACKAGE_MUTATION_HELPER}\"'',
      ''    append_alias \"NODERAX_AGENT_PACKAGE_MUTATIONS\"'',
      ''  fi'',
      [],
      [CHR 0x09] @ ''if [ -x \"${OPERATIONAL_LOG_SCAN_HELPER}\" ]; then'',
      [CHR 0x09, CHR 0x09] @ ''append_line \"Cmnd_Alias NODERAX_AGENT_OPERATIONAL_LOG_SCAN = ${OPERATIONAL_LOG_SCAN_HELPER}\"'',
      [CHR 0x09, CHR 0x09] @ ''append_alias \"NODERAX_AGENT_OPERATIONAL_LOG_SCAN\"'',
      [CHR 0x09] @ ''fi'',
      [],
      ''  if [ -n \"${SYSTEMCTL_PATH}\" ]; then'',
      ''    append_line \"Cmnd_Alias NODERAX_AGENT_SERVICE_CONTROL = ${SYSTEMCTL_PATH} restart ${SERVICE_NAME}, ${SYSTEMCTL_PATH} restart ${SERVICE_NAME%.service}\"'',
      ''    append_alias \"NODERAX_AGENT_SERVICE_CONTROL\"'',
      ''  fi'',
      [],
      ''  if [ -n \"${REBOOT_PATH}\" ]; then'',
      ''    append_line \"Cmnd_Alias NODERAX_AGENT_REBOOT = ${REBOOT_PATH}\"'',
      ''    append_alias \"NODERAX_AGENT_REBOOT\"'',
      ''  fi'',
      ''}'',
      [],
      ''append_task_profile() {'',
      [CHR 0x09] @ ''append_line \"Cmnd_Alias NODERAX_AGENT_TASK_ROOT = ${TASK_ROOT_HELPER}\"'',
      ''  append_alias \"NODERAX_AGENT_TASK_ROOT\"'',
      ''}'',
      [],
      ''append_terminal_profile() {'',
      ''  TERMINAL_COMMANDS=\"\"'',
      ''  append_terminal_command() {'',
      ''    shell_path=\"$1\"'',
      [],
      ''    if [ -z \"${shell_path}\" ] || [ ! -x \"${shell_path}\" ]; then'',
      ''      return'',
      ''    fi'',
      [],
      ''    case \",${TERMINAL_COMMANDS},\" in'',
      ''      *\",${shell_path} -i,\"*)'',
      ''        return'',
      ''        ;;'',
      ''    esac'',
      [],
      ''    if [ -n \"${TERMINAL_COMMANDS}\" ]; then'',
      ''      TERMINAL_COMMANDS=\"${TERMINAL_COMMANDS}, \"'',
      ''    fi'',
      ''    TERMINAL_COMMANDS=\"${TERMINAL_COMMANDS}${shell_path} -i\"'',
      ''  }'',
      [],
      ''  for shell_name in bash zsh sh; do'',
      ''    append_terminal_command \"$(command -v \"${shell_name}\" || true)\"'',
      ''  done'',
      [],
      ''  for shell_path in /bin/bash /usr/bin/bash /bin/zsh /usr/bin/zsh /bin/sh /usr/bin/sh; do'',
      ''    append_terminal_command \"${shell_path}\"'',
      ''  done'',
      [],
      ''  if [ -z \"${TERMINAL_COMMANDS}\" ]; then'',
      ''    TERMINAL_COMMANDS=\"/bin/sh -i\"'',
      ''  fi'',
      [],
      ''  append_line \"Cmnd_Alias NODERAX_AGENT_TERMINAL_ROOT = ${TERMINAL_COMMANDS}\"'',
      ''  append_alias \"NODERAX_AGENT_TERMINAL_ROOT\"'',
      ''}'',
      [],
      ''case \"${PROFILE}\" in'',
      ''  operational)'',
      ''    append_operational_profile'',
      ''    ;;'',
      ''  task)'',
      ''    append_task_profile'',
      ''    ;;'',
      ''  terminal)'',
      ''    append_terminal_profile'',
      ''    ;;'',
      [CHR 0x09] @ ''operational_task)'',
      [CHR 0x09, CHR 0x09] @ ''append_operational_profile'',
      [CHR 0x09, CHR 0x09] @ ''append_task_profile'',
      [CHR 0x09, CHR 0x09] @ '';;'',
      [CHR 0x09] @ ''operational_terminal)'',
      [CHR 0x09, CHR 0x09] @ ''append_operational_profile'',
      [CHR 0x09, CHR 0x09] @ ''append_terminal_profile'',
      [CHR 0x09, CHR 0x09] @ '';;'',
      [CHR 0x09] @ ''task_terminal)'',
      [CHR 0x09, CHR 0x09] @ ''append_task_profile'',
      [CHR 0x09, CHR 0x09] @ ''append_terminal_profile'',
      [CHR 0x09, CHR 0x09] @ '';;'',
      ''  all)'',
      ''    append_operational_profile'',
      ''    append_task_profile'',
      ''    append_terminal_profile'',
      ''    ;;'',
      ''  *)'',
      ''    echo \"unsupported root profile: ${PROFILE}\" >&2'',
      ''    exit 64'',
      ''    ;;'',
      ''esac'',
      [],
      ''if [ -z \"${ALIAS_LIST}\" ]; then'',
      ''  echo \"root profile ${PROFILE} did not produce any sudo rules\" >&2'',
      ''  exit 1'',
      ''fi'',
      [],
      ''append_line \"${SERVICE_USER} ALL=(root) NOPASSWD: ${ALIAS_LIST}\"'',
      ''chmod 0440 \"${TMP_FILE}\"'',
      [],
      ''if command -v visudo >/dev/null 2>&1; then'',
      ''  visudo -cf \"${TMP_FILE}\" >/dev/null'',
      ''fi'',
      [],
      ''install -o root -g root -m 0440 \"${TMP_FILE}\" \"${SUDOERS_FILE}\"'']"

text \<open>The five writers of a helper: nothing for an empty path, else the directory, then the file.\<close>

definition write_helper :: "(platform_spec \<Rightarrow> string) \<Rightarrow> (platform_spec \<Rightarrow> string) \<Rightarrow> platform_spec \<Rightarrow> unit io" where
  "write_helper path_of render spec =
     (let path = trim_space (path_of spec) in
      if path = [] then io_ret ()
      else io_bind (io_check (wrap_prefix (''create helper directory for '' @ path @ '': '')) (os_mkdir_all (path_dir path))) (\<lambda>_.
        io_check (wrap_prefix (''write helper '' @ path @ '': '')) (os_write_file path (render spec) 0x1ED)))"

definition write_privileged_update_helper :: "platform_spec \<Rightarrow> unit io" where
  "write_privileged_update_helper = write_helper psPrivilegedUpdateHelperPath render_privileged_update_helper"

definition write_root_profile_helper :: "platform_spec \<Rightarrow> unit io" where
  "write_root_profile_helper = write_helper psRootProfileHelperPath render_root_profile_helper"

definition write_package_mutation_helper :: "platform_spec \<Rightarrow> unit io" where
  "write_package_mutation_helper = write_helper psPackageMutationHelperPath render_package_mutation_helper"

definition write_operational_log_scan_helper :: "platform_spec \<Rightarrow> unit io" where
  "write_operational_log_scan_helper = write_helper psOperationalLogScanHelperPath render_operational_log_scan_helper"

definition write_task_root_helper :: "platform_spec \<Rightarrow> unit io" where
  "write_task_root_helper = write_helper psTaskRootHelperPath render_task_root_helper"

definition write_service_unit :: "string \<Rightarrow> string \<Rightarrow> unit io" where
  "write_service_unit path content =
     io_bind (io_check (wrap_prefix (''create service directory for '' @ path @ '': '')) (os_mkdir_all (path_dir path))) (\<lambda>_.
     io_check (wrap_prefix (''write service definition '' @ path @ '': '')) (os_write_file path content 0x1A4))"

subsection \<open>Summaries\<close>

definition mirrored_config_path :: "config_lib \<Rightarrow> string \<Rightarrow> string" where
  "mirrored_config_path lib managed =
     (let m = trim_space (clGetenv lib ''NODERAX_CONFIG_MIRROR_FILE'') in
      if m = [] \<or> path_clean m = path_clean managed then [] else path_clean m)"

definition service_command_for_summary :: "string \<Rightarrow> string" where
  "service_command_for_summary action = ''sudo noderax-agent '' @ trim_space action"

definition log_hint_for_summary :: "platform_spec \<Rightarrow> string" where
  "log_hint_for_summary spec =
     (if psManager spec = ''systemd'' then ''sudo journalctl -u '' @ psServiceName spec @ '' -f''
      else if psManager spec = ''launchd'' then
        if trim_space (psLogStdoutPath spec) \<noteq> [] then ''sudo tail -f '' @ psLogStdoutPath spec
        else ''sudo launchctl print '' @ launchd_target spec
      else ''noderax-agent status'')"

definition render_install_summary :: "string \<Rightarrow> platform_spec \<Rightarrow> config \<Rightarrow> string \<Rightarrow> string \<Rightarrow> string" where
  "render_install_summary goos spec c version local_path = text_lines
     ([[], ''========================================'', '' Noderax Agent Ready'', ''========================================'',
       ''Status       : running in the background'', ''Platform     : '' @ goos @ '' ('' @ psManager spec @ '')'']
      @ (if trim_space version \<noteq> [] then [''Version      : '' @ trim_space version] else [])
      @ [''Service      : '' @ psServiceName spec, ''API URL      : '' @ cfAPIURL c,
         ''Binary       : '' @ psBinaryPath spec, ''Config       : '' @ cfConfigFile c]
      @ (if trim_space local_path \<noteq> [] then [''Local config : '' @ local_path] else [])
      @ [''State        : '' @ cfStateFile c, ''Logs         : '' @ log_hint_for_summary spec, [], ''Commands'']
      @ map (\<lambda>(label, cmd). label @ cmd)
          [(''  start   '', service_command_for_summary ''start''), (''  stop    '', service_command_for_summary ''stop''),
           (''  restart '', service_command_for_summary ''restart''), (''  status  '', service_command_for_summary ''status''),
           (''  version '', ''noderax-agent version''), (''  config-show '', ''sudo noderax-agent config show''),
           (''  config-set  '', ''sudo noderax-agent config set api_url https://api.example.com''),
           (''  update      '', ''sudo noderax-agent update --target-version 1.2.3 --target-id <rollout-target-id>''),
           (''  remove  '', ''sudo noderax-agent uninstall'')]
      @ [[], ''Notes'', ''  The service was started automatically during install.'',
         ''  Use the commands above whenever you want to manage it again.''])"

definition render_version_summary :: "string \<Rightarrow> string \<Rightarrow> string \<Rightarrow> string" where
  "render_version_summary version commit build_date = text_lines
     [''Noderax Agent'', ''Version    : '' @ first_non_empty [trim_space version, ''unknown''],
      ''Commit     : '' @ first_non_empty [trim_space commit, ''unknown''],
      ''Build date : '' @ first_non_empty [trim_space build_date, ''unknown'']]"

definition render_uninstall_summary :: "string \<Rightarrow> platform_spec \<Rightarrow> string list \<Rightarrow> string list \<Rightarrow> string" where
  "render_uninstall_summary goos spec removed missing = text_lines
     ([[], ''========================================'', '' Noderax Agent Removed'', ''========================================'',
       ''Platform     : '' @ goos @ '' ('' @ psManager spec @ '')'', ''Service      : '' @ psServiceName spec, [], ''Removed'']
      @ map (\<lambda>i. ''  '' @ i) removed
      @ (if removed = [] then [''  No installed artifacts were found.''] else [])
      @ (if missing \<noteq> [] then [[], ''Already absent''] @ map (\<lambda>i. ''  '' @ i) missing else [])
      @ [[], ''Next'', ''  Reinstall anytime with sudo ./scripts/install.sh''])"

definition record_removal_result :: "string \<Rightarrow> string \<Rightarrow> bool \<Rightarrow> string list \<times> string list \<Rightarrow> string list \<times> string list" where
  "record_removal_result kind path did_remove rm =
     (if trim_space path = [] then rm
      else if did_remove then (fst rm @ [kind @ '': '' @ path], snd rm)
      else (fst rm, snd rm @ [kind @ '': '' @ path]))"

subsection \<open>The configuration path survives the service definition\<close>

lemma str_index_None: "str_index s p = None \<longleftrightarrow> \<not> str_contains s p"
  by (induction s) auto

lemma dropWhile_long: "length xs \<le> length (dropWhile P xs) \<Longrightarrow> dropWhile P xs = xs"
proof -
  assume "length xs \<le> length (dropWhile P xs)"
  moreover have "length xs = length (takeWhile P xs) + length (dropWhile P xs)"
    by (metis length_append takeWhile_dropWhile_id)
  ultimately have "takeWhile P xs = []" by simp
  then show ?thesis by (metis append_Nil takeWhile_dropWhile_id)
qed

lemma trim_space_fixed: "trim_space p = p \<longleftrightarrow> p = [] \<or> \<not> is_space (hd (runes p)) \<and> \<not> is_space (last (runes p))"
proof (cases "p = []")
  case False
  then have ne: "runes p \<noteq> []" by simp
  have "trim_space p = p \<longleftrightarrow> runes (trim_space p) = runes p" by (metis concat_runes)
  also have "\<dots> \<longleftrightarrow> rev (dropWhile is_space (rev (dropWhile is_space (runes p)))) = runes p"
    by (simp only: runes_trim_space)
  also have "\<dots> \<longleftrightarrow> \<not> is_space (hd (runes p)) \<and> \<not> is_space (last (runes p))"
  proof
    assume eq: "rev (dropWhile is_space (rev (dropWhile is_space (runes p)))) = runes p"
    let ?ys = "dropWhile is_space (runes p)"
    have "length (runes p) \<le> length ?ys" by (metis eq length_dropWhile_le length_rev)
    then have ys: "?ys = runes p" by (rule dropWhile_long)
    with ne have h: "\<not> is_space (hd (runes p))" by (metis hd_dropWhile)
    from eq ys have "dropWhile is_space (rev (runes p)) = rev (runes p)" by (metis rev_rev_ident)
    with ne have "\<not> is_space (hd (rev (runes p)))" by (metis hd_dropWhile rev_is_Nil_conv)
    with h ne show "\<not> is_space (hd (runes p)) \<and> \<not> is_space (last (runes p))" by (simp add: hd_rev)
  next
    assume a: "\<not> is_space (hd (runes p)) \<and> \<not> is_space (last (runes p))"
    with ne have "dropWhile is_space (runes p) = runes p" by (cases "runes p") auto
    moreover from a ne have "dropWhile is_space (rev (runes p)) = rev (runes p)"
      by (cases "rev (runes p)") (auto simp: hd_rev [symmetric])
    ultimately show "rev (dropWhile is_space (rev (dropWhile is_space (runes p)))) = runes p" by simp
  qed
  finally show ?thesis using False by simp
qed simp

lemma trim_space_prefix:
  assumes "is_ascii a" "a \<noteq> []" "\<not> ascii_space (hd a)" "trim_space p = p" "p \<noteq> []"
  shows "trim_space (a @ p) = a @ p"
proof -
  have r: "runes (a @ p) = map (\<lambda>c. [c]) a @ runes p" by (rule runes_ascii_append [OF assms(1)])
  have "hd (runes (a @ p)) = [hd a]" "last (runes (a @ p)) = last (runes p)"
    using assms(2,5) by (simp_all add: r hd_append hd_map)
  with assms(3-5) show ?thesis unfolding trim_space_fixed by simp
qed

lemma split_text_lines: "\<forall>l\<in>set ls. CHR 0x0A \<notin> set l \<Longrightarrow> split_char CHR 0x0A (text_lines ls @ s) = ls @ split_char CHR 0x0A s"
  by (induction ls) (simp_all add: text_lines_def split_char_append_sep)

lemma config_line_skip: "\<forall>l\<in>set ls. \<not> str_contains (trim_space l) ''NODERAX_CONFIG_FILE='' \<Longrightarrow> config_line (ls @ ms) = config_line ms"
  by (induction ls) (simp_all add: after_first_def str_index_None [symmetric])

lemma config_line_found:
  assumes "trim_space p = p" "p \<noteq> []"
  shows "config_line ((''Environment=NODERAX_CONFIG_FILE='' @ p) # ls) = Some (path_clean p)"
proof -
  have "trim_space (''Environment=NODERAX_CONFIG_FILE='' @ p) = ''Environment=NODERAX_CONFIG_FILE='' @ p"
    by (rule trim_space_prefix) (use assms in \<open>auto simp: byte_in_def ascii_space_def\<close>)
  moreover have "after_first (''Environment=NODERAX_CONFIG_FILE='' @ p) ''NODERAX_CONFIG_FILE='' = Some p"
    by (simp add: after_first_def)
  ultimately show ?thesis using assms(1) by (simp only: config_line.simps option.case)
qed

text \<open>The unit file of a linux host, up to the line that names the configuration.\<close>

definition unit_head :: "string list" where
  "unit_head = [''[Unit]'', ''Description=Noderax Agent'', ''After=network-online.target'', ''Wants=network-online.target'', [],
     ''[Service]'', ''Type=simple'', ''WorkingDirectory=/opt/noderax-agent'', ''User=noderax'', ''Group=noderax'',
     ''Environment=HOME=/var/lib/noderax-agent'']"

lemma unit_head_lines: "list_all (\<lambda>l. \<not> str_contains (trim_space l) ''NODERAX_CONFIG_FILE='' \<and> CHR 0x0A \<notin> set l) unit_head"
  by code_simp

lemma user_section_linux: "user_section linux_spec = [''User=noderax'', ''Group=noderax'', ''Environment=HOME=/var/lib/noderax-agent'']"
  by code_simp

lemma linux_unit_split: "render_service_unit linux_spec p = text_lines (unit_head @ [''Environment=NODERAX_CONFIG_FILE='' @ p])
    @ text_lines [''ExecStart=/opt/noderax-agent/noderax-agent'', ''Restart=always'', ''RestartSec=5'', [], ''[Install]'', ''WantedBy=multi-user.target'']"
  unfolding render_service_unit_def user_section_linux unit_head_def by (simp add: text_lines_def linux_spec_def)

text \<open>
  What \<open>uninstall\<close> reads back from the unit file \<open>install\<close> wrote is the configuration path that was
  put there, tidied, whatever the path is as long as it fits on a line and is trimmed.
\<close>

theorem service_unit_names_config:
  assumes "trim_space p = p" "p \<noteq> []" "CHR 0x0A \<notin> set p"
  shows "config_path_of_definition (render_service_unit linux_spec p) = path_clean p"
proof -
  have nl: "\<forall>l\<in>set (unit_head @ [''Environment=NODERAX_CONFIG_FILE='' @ p]). CHR 0x0A \<notin> set l"
    using unit_head_lines assms(3) by (auto simp: list_all_iff)
  have skip: "\<forall>l\<in>set unit_head. \<not> str_contains (trim_space l) ''NODERAX_CONFIG_FILE=''"
    using unit_head_lines by (simp only: list_all_iff) blast
  obtain rest where "split_char CHR 0x0A (render_service_unit linux_spec p)
      = (unit_head @ [''Environment=NODERAX_CONFIG_FILE='' @ p]) @ rest"
    using linux_unit_split [of p] split_text_lines [OF nl] by simp
  then have "config_line (split_char CHR 0x0A (render_service_unit linux_spec p))
      = config_line ((''Environment=NODERAX_CONFIG_FILE='' @ p) # rest)"
    using config_line_skip [OF skip] by simp
  with config_line_found [OF assms(1,2)] have "config_line (split_char CHR 0x0A (render_service_unit linux_spec p)) = Some (path_clean p)"
    by simp
  then show ?thesis by (simp add: config_path_of_definition_def)
qed

theorem service_unit_names_config_witness:
  "config_path_of_definition (render_service_unit linux_spec ''/srv/a b/c.json'') = ''/srv/a b/c.json''"
proof -
  have "trim_space ''/srv/a b/c.json'' = ''/srv/a b/c.json''" "path_clean ''/srv/a b/c.json'' = ''/srv/a b/c.json''" by code_simp+
  with service_unit_names_config [of "''/srv/a b/c.json''"] show ?thesis by simp
qed

subsection \<open>The options survive the command line\<close>

lemmas flag_names = plain_name_def

text \<open>
  The second process of a managed installation, started as the service user, reads from its arguments
  exactly what the first one put there, whatever the values contain: no value can be taken for a flag.
\<close>

theorem bootstrap_arguments_round_trip:
  "parse_bootstrap_options (drop 5 (bootstrap_args spec c)) =
     Inr \<lparr>boAPIURL = cfAPIURL c, boBootstrapToken = cfEnrollmentToken c, boConfigFile = cfConfigFile c,
          boStateFile = cfStateFile c, boLogLevel = cfLogLevel c, boNonInteractive = True\<rparr>"
proof -
  have b: "parse_flags bootstrap_flags (''--non-interactive'' # rest) s
      = parse_flags bootstrap_flags rest (boNonInteractive_update (\<lambda>_. True) s)" for rest s
    using parse_flag_bool [where n = "''non-interactive''" and fs = bootstrap_flags and rest = rest and s = s]
    by (simp add: plain_name_def bootstrap_flags_def)
  have st: "parse_flags bootstrap_flags (''--api-url'' # v # rest) s = parse_flags bootstrap_flags rest (boAPIURL_update (\<lambda>_. v) s)"
    "parse_flags bootstrap_flags (''--bootstrap-token'' # v # rest) s = parse_flags bootstrap_flags rest (boBootstrapToken_update (\<lambda>_. v) s)"
    "parse_flags bootstrap_flags (''--config-file'' # v # rest) s = parse_flags bootstrap_flags rest (boConfigFile_update (\<lambda>_. v) s)"
    "parse_flags bootstrap_flags (''--state-file'' # v # rest) s = parse_flags bootstrap_flags rest (boStateFile_update (\<lambda>_. v) s)"
    "parse_flags bootstrap_flags (''--log-level'' # v # rest) s = parse_flags bootstrap_flags rest (boLogLevel_update (\<lambda>_. v) s)" for v rest s
    using parse_flag_string [where n = "''api-url''" and fs = bootstrap_flags and t = v and rest = rest and s = s]
      parse_flag_string [where n = "''bootstrap-token''" and fs = bootstrap_flags and t = v and rest = rest and s = s]
      parse_flag_string [where n = "''config-file''" and fs = bootstrap_flags and t = v and rest = rest and s = s]
      parse_flag_string [where n = "''state-file''" and fs = bootstrap_flags and t = v and rest = rest and s = s]
      parse_flag_string [where n = "''log-level''" and fs = bootstrap_flags and t = v and rest = rest and s = s]
    by (simp_all add: plain_name_def bootstrap_flags_def)
  show ?thesis
    by (simp add: parse_bootstrap_options_def bootstrap_args_def parse_command_def b st)
qed

subsection \<open>\<open>config set\<close>\<close>

text \<open>
  \<open>config set\<close> accepts an address without a scheme nowhere, although the file and the environment do:
  the value is validated as it was typed and normalised only when it is read back.
\<close>

theorem config_set_needs_scheme:
  assumes "ulParse (clURL lib) host = Inr \<lparr>urScheme = [], urHost = []\<rparr>" "trim_space host \<noteq> []"
    and "apply_config_value lib ''api_url'' host c = Inr c'"
  shows "\<exists>e. validate_config lib c' = Some e"
  using assms by (auto simp: apply_config_value_def validate_config_def validate_url_def first_error_def)

end
