(* ===== verification/RootHelpers.thy ===== *)
theory RootHelpers
  imports Platform RootAccess TaskExecutor Terminal
begin

text \<open>
  What the root helpers do: the shell scripts \<open>internal/agentctl/commands.go\<close> installs under
  \<open>/usr/local/libexec\<close>, translated command by command, and the \<open>sudo\<close> rules one of them writes. A script
  that ends with \<open>exec\<close> is \<open>Runs\<close> with the arguments of the new program, one that exits is \<open>Exits\<close> with
  its status. Scripts run in the C locale; request files hold no NUL byte. The theorems compose the
  helpers with the writers of \<open>RequestFiles\<close>, the profiles of \<open>RootAccess\<close> and the commands of
  \<open>TaskExecutor\<close> and \<open>Terminal\<close>.
\<close>

datatype helper_outcome = Exits nat | Runs "string list"

text \<open>\<open>[ -f path ]\<close> and \<open>rm -f path\<close>; a failing command ends the script (\<open>set -e\<close>).\<close>

definition rm_force :: "string \<Rightarrow> world \<Rightarrow> bool \<times> world" where
  "rm_force path w =
     (if wfiles w path = None then (True, w)
      else case os_remove path w of (r, w1) \<Rightarrow> (r = None, w1))"

definition remove_then :: "string \<Rightarrow> helper_outcome \<Rightarrow> world \<Rightarrow> helper_outcome \<times> world" where
  "remove_then path after w = (case rm_force path w of (ok, w1) \<Rightarrow> (if ok then after else Exits 1, w1))"

subsection \<open>Task commands\<close>

text \<open>\<open>$(cat file)\<close> drops trailing newlines.\<close>

definition command_text :: "string \<Rightarrow> string" where
  "command_text s = trim_right [CHR 0x0A] s"

definition task_root_helper :: "string \<Rightarrow> nat \<Rightarrow> world \<Rightarrow> helper_outcome \<times> world" where
  "task_root_helper request argc w =
     (if argc \<noteq> 0 then (Exits 64, w)
      else if wfiles w request = None then (Exits 1, w)
      else case os_read_file request w of
        (Inl e, w1) \<Rightarrow> (Exits 1, w1)
      | (Inr s, w1) \<Rightarrow>
          remove_then request (if list_all ascii_space (command_text s) then Exits 64 else Runs [''/bin/sh'', ''-lc'', command_text s]) w1)"

subsection \<open>Package mutations\<close>

definition lower_or_digit :: "char \<Rightarrow> bool" where
  "lower_or_digit c \<longleftrightarrow> byte_in 97 122 c \<or> byte_in 48 57 c"

text \<open>The pattern \<open>^[a-z0-9][a-z0-9.+:-]*$\<close>.\<close>

definition package_name_ok :: "string \<Rightarrow> bool" where
  "package_name_ok n \<longleftrightarrow> n \<noteq> [] \<and> lower_or_digit (hd n) \<and> list_all (\<lambda>c. lower_or_digit c \<or> c \<in> set ''.+:-'') (tl n)"

definition strip_spaces :: "string \<Rightarrow> string" where
  "strip_spaces l = filter (\<lambda>c. \<not> ascii_space c) l"

text \<open>The loop over the lines after the first: \<open>None\<close> when a name is refused.\<close>

fun request_packages :: "string list \<Rightarrow> string list option" where
  "request_packages [] = Some []"
| "request_packages (l # ls) =
     (let pkg = strip_spaces l in
      if pkg = [] then request_packages ls
      else if \<not> package_name_ok pkg then None
      else map_option (Cons pkg) (request_packages ls))"

definition package_command :: "string option \<Rightarrow> string \<Rightarrow> string list \<Rightarrow> helper_outcome" where
  "package_command apt_get operation packages =
     (case apt_get of
        None \<Rightarrow> Exits 1
      | Some apt \<Rightarrow>
          if operation = ''update'' then Runs [apt, ''update'']
          else if operation \<in> set [''install'', ''remove'', ''purge''] then
            if packages = [] then Exits 64 else Runs ([apt, operation, ''-y'', ''--''] @ packages)
          else Exits 64)"

definition package_mutation_helper :: "string option \<Rightarrow> string \<Rightarrow> nat \<Rightarrow> world \<Rightarrow> helper_outcome \<times> world" where
  "package_mutation_helper apt_get request argc w =
     (if argc \<noteq> 0 then (Exits 64, w)
      else if wfiles w request = None then (Exits 1, w)
      else case os_read_file request w of
        (Inl e, w1) \<Rightarrow> (Exits 1, w1)
      | (Inr s, w1) \<Rightarrow>
          (let ls = raw_lines s; operation = (if ls = [] then [] else hd ls) in
           case request_packages (tl ls) of
             None \<Rightarrow> remove_then request (Exits 64) w1
           | Some packages \<Rightarrow> remove_then request (package_command apt_get operation packages) w1))"

subsection \<open>The two helpers that start the agent\<close>

definition privileged_update_helper :: "platform_spec \<Rightarrow> nat \<Rightarrow> helper_outcome" where
  "privileged_update_helper spec argc =
     (if argc \<noteq> 0 then Exits 64 else Runs [psBinaryPath spec, ''update'', ''--request-file'', linux_update_request_path])"

definition operational_log_scan_helper :: "platform_spec \<Rightarrow> nat \<Rightarrow> world \<Rightarrow> helper_outcome" where
  "operational_log_scan_helper spec argc w =
     (if argc \<noteq> 0 then Exits 64
      else if wfiles w linux_log_scan_request_path = None then Exits 1
      else Runs [psBinaryPath spec, ''log-scan'', ''--request'', linux_log_scan_request_path])"

subsection \<open>The root profile helper\<close>

text \<open>
  What the host answers: \<open>command -v\<close> (empty when there is none), \<open>[ -x path ]\<close>, and whether \<open>visudo\<close>
  accepts a file or is missing. The script builds a file of lines and a list of aliases.
\<close>

record helper_host =
  hhWhich :: "string \<Rightarrow> string"
  hhExecutable :: "string \<Rightarrow> bool"
  hhVisudo :: "string \<Rightarrow> bool"

record sudoers_draft =
  sdLines :: "string list"
  sdAliases :: string

definition append_line :: "string \<Rightarrow> sudoers_draft \<Rightarrow> sudoers_draft" where
  "append_line l d = d\<lparr>sdLines := sdLines d @ [l]\<rparr>"

definition append_alias :: "string \<Rightarrow> sudoers_draft \<Rightarrow> sudoers_draft" where
  "append_alias a d = d\<lparr>sdAliases := (if sdAliases d = [] then a else sdAliases d @ '', '' @ a)\<rparr>"

definition append_rule :: "string \<Rightarrow> string \<Rightarrow> sudoers_draft \<Rightarrow> sudoers_draft" where
  "append_rule name commands d = append_alias name (append_line (''Cmnd_Alias '' @ name @ '' = '' @ commands) d)"

definition trim_suffix :: "string \<Rightarrow> string \<Rightarrow> string" where
  "trim_suffix s p = (if has_suffix s p then take (length s - length p) s else s)"

definition append_operational_profile :: "platform_spec \<Rightarrow> helper_host \<Rightarrow> sudoers_draft \<Rightarrow> sudoers_draft" where
  "append_operational_profile spec host d0 =
     (let apt = hhWhich host ''apt-get''; systemctl = hhWhich host ''systemctl''; reboot = hhWhich host ''reboot'';
          service = psServiceName spec;
          d1 = (if apt \<noteq> [] then append_rule ''NODERAX_AGENT_PACKAGE_MUTATIONS'' (psPackageMutationHelperPath spec) d0 else d0);
          d2 = (if hhExecutable host (psOperationalLogScanHelperPath spec)
                then append_rule ''NODERAX_AGENT_OPERATIONAL_LOG_SCAN'' (psOperationalLogScanHelperPath spec) d1 else d1);
          d3 = (if systemctl \<noteq> [] then append_rule ''NODERAX_AGENT_SERVICE_CONTROL''
                  (systemctl @ '' restart '' @ service @ '', '' @ systemctl @ '' restart '' @ trim_suffix service ''.service'') d2 else d2)
      in if reboot \<noteq> [] then append_rule ''NODERAX_AGENT_REBOOT'' reboot d3 else d3)"

definition append_task_profile :: "platform_spec \<Rightarrow> sudoers_draft \<Rightarrow> sudoers_draft" where
  "append_task_profile spec d = append_rule ''NODERAX_AGENT_TASK_ROOT'' (psTaskRootHelperPath spec) d"

definition append_terminal_command :: "helper_host \<Rightarrow> string \<Rightarrow> string \<Rightarrow> string" where
  "append_terminal_command host shell_path cmds =
     (if shell_path = [] \<or> \<not> hhExecutable host shell_path then cmds
      else if str_contains ('','' @ cmds @ '','') ('','' @ shell_path @ '' -i,'') then cmds
      else (if cmds \<noteq> [] then cmds @ '', '' else cmds) @ shell_path @ '' -i'')"

definition terminal_commands :: "helper_host \<Rightarrow> string" where
  "terminal_commands host =
     (let named = fold (append_terminal_command host) (map (hhWhich host) [''bash'', ''zsh'', ''sh'']) [];
          cmds = fold (append_terminal_command host)
            [''/bin/bash'', ''/usr/bin/bash'', ''/bin/zsh'', ''/usr/bin/zsh'', ''/bin/sh'', ''/usr/bin/sh''] named
      in if cmds = [] then ''/bin/sh -i'' else cmds)"

definition append_terminal_profile :: "helper_host \<Rightarrow> sudoers_draft \<Rightarrow> sudoers_draft" where
  "append_terminal_profile host d = append_rule ''NODERAX_AGENT_TERMINAL_ROOT'' (terminal_commands host) d"

definition empty_draft :: sudoers_draft where
  "empty_draft = append_line ''# Managed by the Noderax agent root profile helper.'' \<lparr>sdLines = [], sdAliases = []\<rparr>"

definition profile_draft :: "platform_spec \<Rightarrow> helper_host \<Rightarrow> string \<Rightarrow> sudoers_draft option" where
  "profile_draft spec host p =
     (let op = append_operational_profile spec host; task = append_task_profile spec; term = append_terminal_profile host in
      if p = ''operational'' then Some (op empty_draft)
      else if p = ''task'' then Some (task empty_draft)
      else if p = ''terminal'' then Some (term empty_draft)
      else if p = ''operational_task'' then Some (task (op empty_draft))
      else if p = ''operational_terminal'' then Some (term (op empty_draft))
      else if p = ''task_terminal'' then Some (term (task empty_draft))
      else if p = ''all'' then Some (term (task (op empty_draft)))
      else None)"

text \<open>The file written at the end: the lines and the rule that gives the aliases to the service user.\<close>

definition draft_text :: "platform_spec \<Rightarrow> sudoers_draft \<Rightarrow> string" where
  "draft_text spec d = text_lines (sdLines d @ [psServiceUser spec @ '' ALL=(root) NOPASSWD: '' @ sdAliases d])"

text \<open>\<open>install -o root -g root -m 0440 tmp target\<close>: the content, then the mode.\<close>

definition install_file :: "string \<Rightarrow> string \<Rightarrow> world \<Rightarrow> bool \<times> world" where
  "install_file target content w =
     (case os_write_file target content 0x120 w of
        (Some e, w1) \<Rightarrow> (False, w1)
      | (None, w1) \<Rightarrow> (case os_chmod target 0x120 w1 of (r, w2) \<Rightarrow> (r = None, w2)))"

text \<open>The part after \<open>mktemp\<close>, whose result the exit trap removes.\<close>

definition write_profile :: "platform_spec \<Rightarrow> helper_host \<Rightarrow> string \<Rightarrow> string \<Rightarrow> world \<Rightarrow> nat \<times> world" where
  "write_profile spec host p tmp w =
     (case profile_draft spec host p of
        None \<Rightarrow> (64, w)
      | Some d \<Rightarrow>
          if sdAliases d = [] then (1, w)
          else case os_write tmp (draft_text spec d) w of
            (Some e, w1) \<Rightarrow> (1, w1)
          | (None, w1) \<Rightarrow>
              (case os_chmod tmp 0x120 w1 of
                 (Some e, w2) \<Rightarrow> (1, w2)
               | (None, w2) \<Rightarrow>
                   if \<not> hhVisudo host (draft_text spec d) then (1, w2)
                   else case install_file (psRootAccessSudoersPath spec) (draft_text spec d) w2 of
                     (ok, w3) \<Rightarrow> (if ok then 0 else 1, w3)))"

definition root_profile_helper :: "platform_spec \<Rightarrow> helper_host \<Rightarrow> string list \<Rightarrow> world \<Rightarrow> nat \<times> world" where
  "root_profile_helper spec host args w =
     (let target = psRootAccessSudoersPath spec in
      if length args \<noteq> 2 \<or> hd args \<noteq> ''apply'' then (64, w)
      else case os_mkdir_all (path_dir target) w of
        (Some e, w1) \<Rightarrow> (1, w1)
      | (None, w1) \<Rightarrow>
          if args ! 1 = ''off'' then (case rm_force target w1 of (ok, w2) \<Rightarrow> (if ok then 0 else 1, w2))
          else case os_create_temp (path_dir target) (drop (Suc (length (path_dir target))) target @ ''.'') w1 of
            (Inl e, w2) \<Rightarrow> (1, w2)
          | (Inr tmp, w2) \<Rightarrow>
              (case write_profile spec host (args ! 1) tmp w2 of (code, w3) \<Rightarrow> (code, snd (rm_force tmp w3))))"

subsection \<open>The rules of a profile\<close>

text \<open>
  What the helper is for, apart from its text: each alias with the commands it permits, a command with the
  exact arguments it must have (\<open>None\<close>: any).
\<close>

type_synonym sudo_command = "string \<times> string list option"
type_synonym sudo_rule = "string \<times> sudo_command list"

definition command_spelling :: "sudo_command \<Rightarrow> string" where
  "command_spelling c = (case c of (p, None) \<Rightarrow> p | (p, Some args) \<Rightarrow> str_join '' '' (p # args))"

definition rule_line :: "sudo_rule \<Rightarrow> string" where
  "rule_line r = ''Cmnd_Alias '' @ fst r @ '' = '' @ str_join '', '' (map command_spelling (snd r))"

definition sudoers_text :: "platform_spec \<Rightarrow> sudo_rule list \<Rightarrow> string" where
  "sudoers_text spec rs = text_lines (''# Managed by the Noderax agent root profile helper.'' # map rule_line rs
     @ [psServiceUser spec @ '' ALL=(root) NOPASSWD: '' @ str_join '', '' (map fst rs)])"

definition operational_rules :: "platform_spec \<Rightarrow> helper_host \<Rightarrow> sudo_rule list" where
  "operational_rules spec host =
     (if hhWhich host ''apt-get'' \<noteq> [] then [(''NODERAX_AGENT_PACKAGE_MUTATIONS'', [(psPackageMutationHelperPath spec, None)])] else [])
     @ (if hhExecutable host (psOperationalLogScanHelperPath spec)
        then [(''NODERAX_AGENT_OPERATIONAL_LOG_SCAN'', [(psOperationalLogScanHelperPath spec, None)])] else [])
     @ (if hhWhich host ''systemctl'' \<noteq> [] then [(''NODERAX_AGENT_SERVICE_CONTROL'',
          [(hhWhich host ''systemctl'', Some [''restart'', psServiceName spec]),
           (hhWhich host ''systemctl'', Some [''restart'', trim_suffix (psServiceName spec) ''.service''])])] else [])
     @ (if hhWhich host ''reboot'' \<noteq> [] then [(''NODERAX_AGENT_REBOOT'', [(hhWhich host ''reboot'', None)])] else [])"

definition task_rules :: "platform_spec \<Rightarrow> sudo_rule list" where
  "task_rules spec = [(''NODERAX_AGENT_TASK_ROOT'', [(psTaskRootHelperPath spec, None)])]"

definition shells_text :: "string list \<Rightarrow> string" where
  "shells_text ss = str_join '', '' (map (\<lambda>s. s @ '' -i'') ss)"

definition add_shell :: "helper_host \<Rightarrow> string \<Rightarrow> string list \<Rightarrow> string list" where
  "add_shell host p ss =
     (if p = [] \<or> \<not> hhExecutable host p \<or> str_contains ('','' @ shells_text ss @ '','') ('','' @ p @ '' -i,'') then ss else ss @ [p])"

definition shell_candidates :: "helper_host \<Rightarrow> string list" where
  "shell_candidates host = map (hhWhich host) supported_root_shell_names @ supported_root_shell_paths"

definition root_shells :: "helper_host \<Rightarrow> string list" where
  "root_shells host = (let ss = fold (add_shell host) (shell_candidates host) [] in if ss = [] then [''/bin/sh''] else ss)"

definition terminal_rules :: "helper_host \<Rightarrow> sudo_rule list" where
  "terminal_rules host = [(''NODERAX_AGENT_TERMINAL_ROOT'', map (\<lambda>s. (s, Some [''-i''])) (root_shells host))]"

definition profile_rules :: "platform_spec \<Rightarrow> helper_host \<Rightarrow> root_profile \<Rightarrow> sudo_rule list" where
  "profile_rules spec host p =
     (if profile_allows_operational p then operational_rules spec host else [])
     @ (if profile_allows_task p then task_rules spec else [])
     @ (if profile_allows_terminal p then terminal_rules host else [])"

definition permits :: "sudo_rule list \<Rightarrow> string list \<Rightarrow> bool" where
  "permits rs argv \<longleftrightarrow> argv \<noteq> [] \<and> (\<exists>r\<in>set rs. \<exists>(p, a)\<in>set (snd r). p = hd argv \<and> (a = None \<or> a = Some (tl argv)))"

lemma permits_append: "permits (rs @ qs) argv \<longleftrightarrow> permits rs argv \<or> permits qs argv"
  by (auto simp: permits_def)

subsection \<open>The script writes the rules\<close>

lemma str_join_snoc: "str_join sep (ws @ [w]) = (if ws = [] then w else str_join sep ws @ sep @ w)"
  by (induction sep ws rule: str_join.induct) auto

lemma str_join_Nil_iff: "str_join sep ws = [] \<longleftrightarrow> ws = [] \<or> ws = [[]] \<or> (sep = [] \<and> (\<forall>w\<in>set ws. w = []))"
  by (induction sep ws rule: str_join.induct) auto

lemma shells_text_Nil: "shells_text ss = [] \<longleftrightarrow> ss = []"
  by (auto simp: shells_text_def str_join_Nil_iff)

lemma append_terminal_command_shells: "append_terminal_command host p (shells_text ss) = shells_text (add_shell host p ss)"
  by (auto simp: append_terminal_command_def add_shell_def shells_text_Nil) (auto simp: shells_text_def str_join_snoc)

lemma fold_terminal_commands: "fold (append_terminal_command host) ps (shells_text ss) = shells_text (fold (add_shell host) ps ss)"
  by (induction ps arbitrary: ss) (simp_all add: append_terminal_command_shells)

lemma terminal_commands_shells: "terminal_commands host = shells_text (root_shells host)"
proof -
  have e: "[] = shells_text []" by (simp add: shells_text_def)
  have "fold (append_terminal_command host) (shell_candidates host) [] = shells_text (fold (add_shell host) (shell_candidates host) [])"
    by (subst e) (rule fold_terminal_commands)
  then have "terminal_commands host = (let cmds = shells_text (fold (add_shell host) (shell_candidates host) []) in
      if cmds = [] then ''/bin/sh -i'' else cmds)"
    by (simp add: terminal_commands_def shell_candidates_def supported_root_shell_names_def supported_root_shell_paths_def Let_def)
  then show ?thesis by (simp add: root_shells_def Let_def shells_text_Nil) (simp add: shells_text_def)
qed

text \<open>A draft holds rules: the lines and aliases are theirs.\<close>

definition draft_holds :: "sudo_rule list \<Rightarrow> sudoers_draft \<Rightarrow> bool" where
  "draft_holds rs d \<longleftrightarrow> (\<forall>r\<in>set rs. fst r \<noteq> [])
     \<and> sdLines d = ''# Managed by the Noderax agent root profile helper.'' # map rule_line rs
     \<and> sdAliases d = str_join '', '' (map fst rs)"

lemma draft_holds_empty: "draft_holds [] empty_draft"
  by (simp add: draft_holds_def empty_draft_def append_line_def)

lemma append_rule_holds:
  assumes "draft_holds rs d" "name \<noteq> []" "commands = str_join '', '' (map command_spelling cs)"
  shows "draft_holds (rs @ [(name, cs)]) (append_rule name commands d)"
proof -
  have "str_join '', '' (map fst rs) = [] \<longleftrightarrow> rs = []"
    using assms(1) by (auto simp: str_join_Nil_iff draft_holds_def)
  with assms show ?thesis
    by (auto simp: draft_holds_def append_rule_def append_alias_def append_line_def rule_line_def str_join_snoc)
qed

lemma operational_holds:
  assumes "draft_holds rs d"
  shows "draft_holds (rs @ operational_rules spec host) (append_operational_profile spec host d)"
proof -
  have opt: "draft_holds (rs @ (if b then [(n, cs)] else [])) (if b then append_rule n c d else d)"
    if "draft_holds rs d" "n \<noteq> []" "c = str_join '', '' (map command_spelling cs)" for b rs d n c cs
    using append_rule_holds [OF that] that(1) by simp
  note s1 = opt [OF assms, of "''NODERAX_AGENT_PACKAGE_MUTATIONS''" "psPackageMutationHelperPath spec" "[(psPackageMutationHelperPath spec, None)]"
      "hhWhich host ''apt-get'' \<noteq> []"]
  note s2 = opt [OF s1, of "''NODERAX_AGENT_OPERATIONAL_LOG_SCAN''" "psOperationalLogScanHelperPath spec"
      "[(psOperationalLogScanHelperPath spec, None)]" "hhExecutable host (psOperationalLogScanHelperPath spec)"]
  note s3 = opt [OF s2, of "''NODERAX_AGENT_SERVICE_CONTROL''"
      "hhWhich host ''systemctl'' @ '' restart '' @ psServiceName spec @ '', '' @ hhWhich host ''systemctl'' @ '' restart '' @ trim_suffix (psServiceName spec) ''.service''"
      "[(hhWhich host ''systemctl'', Some [''restart'', psServiceName spec]),
        (hhWhich host ''systemctl'', Some [''restart'', trim_suffix (psServiceName spec) ''.service''])]" "hhWhich host ''systemctl'' \<noteq> []"]
  note s4 = opt [OF s3, of "''NODERAX_AGENT_REBOOT''" "hhWhich host ''reboot''" "[(hhWhich host ''reboot'', None)]" "hhWhich host ''reboot'' \<noteq> []"]
  show ?thesis
    using s4 by (simp add: append_operational_profile_def operational_rules_def Let_def command_spelling_def)
qed

lemma task_holds: "draft_holds rs d \<Longrightarrow> draft_holds (rs @ task_rules spec) (append_task_profile spec d)"
  by (simp add: append_task_profile_def task_rules_def append_rule_holds command_spelling_def)

lemma terminal_holds: "draft_holds rs d \<Longrightarrow> draft_holds (rs @ terminal_rules host) (append_terminal_profile host d)"
  unfolding append_terminal_profile_def terminal_rules_def terminal_commands_shells
  by (rule append_rule_holds) (simp_all add: shells_text_def command_spelling_def o_def)

lemma profile_draft_holds:
  assumes "profile_draft spec host p = Some d"
  shows "draft_holds (profile_rules spec host p) d"
proof -
  note E = draft_holds_empty
  note A = operational_holds [OF E, of spec host] task_holds [OF E, of spec] terminal_holds [OF E, of host]
  note B = task_holds [OF A(1), of spec] terminal_holds [OF A(1), of host] terminal_holds [OF A(2), of host]
  note C = terminal_holds [OF B(1), of host]
  note D = profile_rules_def profile_allows_operational_def profile_allows_task_def profile_allows_terminal_def
  from assms show ?thesis
    using A B C by (auto simp: profile_draft_def Let_def D split: if_splits)
qed

lemma profile_draft_declared: "profile_draft spec host p = Some d \<Longrightarrow> p \<in> set declared_profiles \<and> p \<noteq> ''off''"
  by (auto simp: profile_draft_def Let_def declared_profiles_def split: if_splits)

lemma sudoers_draft_text: "draft_holds rs d \<Longrightarrow> draft_text spec d = sudoers_text spec rs"
  by (simp add: draft_holds_def draft_text_def sudoers_text_def)

lemma install_file_ok: "install_file t c w = (True, w') \<Longrightarrow> wfiles w' t = Some (c, 0x120)"
  unfolding install_file_def
  by (auto split: prod.splits option.splits dest!: os_write_file_ok dest: os_chmod_ok [where d = c])

lemma rm_force_frame: "rm_force p w = (ok, w') \<Longrightarrow> only_changes {p} w w'"
  by (auto simp: rm_force_def dest: os_remove_frame split: prod.splits if_splits)

lemma rm_force_ok: "rm_force p w = (True, w') \<Longrightarrow> wfiles w' p = None"
  by (auto simp: rm_force_def os_remove_def split: prod.splits if_splits option.splits)

lemma write_profile_ok:
  assumes "write_profile spec host p tmp w = (0, w')"
  shows "p \<in> set declared_profiles \<and> p \<noteq> ''off'' \<and> hhVisudo host (sudoers_text spec (profile_rules spec host p))
    \<and> wfiles w' (psRootAccessSudoersPath spec) = Some (sudoers_text spec (profile_rules spec host p), 0x120)"
proof -
  from assms obtain d where d: "profile_draft spec host p = Some d" by (auto simp: write_profile_def split: option.splits)
  note t = sudoers_draft_text [OF profile_draft_holds [OF d], of spec]
  from assms d obtain w2 where "hhVisudo host (draft_text spec d)" "install_file (psRootAccessSudoersPath spec) (draft_text spec d) w2 = (True, w')"
    by (auto simp: write_profile_def split: option.splits if_splits prod.splits)
  with t profile_draft_declared [OF d] show ?thesis by (simp add: install_file_ok)
qed

lemma sudoers_temp_name:
  "temp_name (path_dir (psRootAccessSudoersPath linux_spec))
     (drop (Suc (length (path_dir (psRootAccessSudoersPath linux_spec)))) (psRootAccessSudoersPath linux_spec) @ ''.'') rnd
   = psRootAccessSudoersPath linux_spec @ ''.'' @ rnd"
proof -
  have p: "psRootAccessSudoersPath linux_spec = ''/etc/sudoers.d/noderax-agent-root-access''" by (simp add: linux_spec_def)
  have d: "path_dir ''/etc/sudoers.d/noderax-agent-root-access'' = ''/etc/sudoers.d''" by code_simp
  show ?thesis unfolding p d by (simp add: temp_name_def has_suffix_def)
qed


subsection \<open>Rules and checks agree\<close>

lemma alias_if: "a \<in> fst ` set (if b then rs else []) \<longleftrightarrow> b \<and> a \<in> fst ` set rs"
  "a \<in> fst ` set (rs @ qs) \<longleftrightarrow> a \<in> fst ` set rs \<or> a \<in> fst ` set qs"
  "a \<in> fst ` set [(n, cs)] \<longleftrightarrow> a = n"
  by auto

text \<open>
  The rules the helper installs for a profile and the checks the agent makes before it asks for root are
  two readings of the same profile: the alias of root tasks, of terminals and of each operational command
  is granted exactly for the profiles the agent's own predicates allow.
\<close>

theorem sudo_rules_match_profile:
  "(''NODERAX_AGENT_TASK_ROOT'' \<in> fst ` set (profile_rules spec host p) \<longleftrightarrow> profile_allows_task p)
   \<and> (''NODERAX_AGENT_TERMINAL_ROOT'' \<in> fst ` set (profile_rules spec host p) \<longleftrightarrow> profile_allows_terminal p)
   \<and> (''NODERAX_AGENT_PACKAGE_MUTATIONS'' \<in> fst ` set (profile_rules spec host p)
     \<longleftrightarrow> profile_allows_operational p \<and> hhWhich host ''apt-get'' \<noteq> [])
   \<and> (''NODERAX_AGENT_SERVICE_CONTROL'' \<in> fst ` set (profile_rules spec host p)
     \<longleftrightarrow> profile_allows_operational p \<and> hhWhich host ''systemctl'' \<noteq> [])
   \<and> (''NODERAX_AGENT_REBOOT'' \<in> fst ` set (profile_rules spec host p)
     \<longleftrightarrow> profile_allows_operational p \<and> hhWhich host ''reboot'' \<noteq> [])"
  unfolding profile_rules_def operational_rules_def task_rules_def terminal_rules_def alias_if by simp_all

text \<open>Splitting the list of terminal commands at its commas.\<close>

lemma split_char_append: "split_char c (u @ c # t) = split_char c u @ split_char c t"
proof (induction u)
  case (Cons x u)
  obtain v vs where "split_char c u = v # vs" by (cases "split_char c u") auto
  with Cons show ?case by auto
qed simp

lemma contains_segment:
  assumes "str_contains s (c # x @ [c])" "c \<notin> set x"
  shows "x \<in> set (split_char c s)"
proof -
  obtain u v where "s = u @ c # x @ c # v" using assms(1) unfolding str_contains_iff by auto
  then show ?thesis by (simp add: split_char_append split_char_single [OF assms(2)])
qed

lemma shells_segments:
  assumes "\<forall>s\<in>set ss. CHR '','' \<notin> set s"
  shows "set (split_char CHR '','' (shells_text ss)) \<subseteq> {[]} \<union> (\<lambda>s. s @ '' -i'') ` set ss \<union> (\<lambda>s. '' '' @ s @ '' -i'') ` set ss"
  using assms
proof (induction ss rule: rev_induct)
  case (snoc s ss)
  have s: "CHR '','' \<notin> set (s @ '' -i'')" "CHR '','' \<notin> set ('' '' @ s @ '' -i'')" using snoc.prems by auto
  show ?case
  proof (cases "ss = []")
    case True
    with split_char_single [OF s(1)] show ?thesis by (simp add: shells_text_def)
  next
    case False
    then have "shells_text (ss @ [s]) = shells_text ss @ CHR '','' # ('' '' @ s @ '' -i'')"
      by (simp add: shells_text_def str_join_snoc)
    with snoc split_char_single [OF s(2)] show ?thesis by (auto simp: split_char_append)
  qed
qed (simp add: shells_text_def)

definition usable_shell :: "helper_host \<Rightarrow> string \<Rightarrow> bool" where
  "usable_shell host p \<longleftrightarrow> has_prefix p ''/'' \<and> CHR '','' \<notin> set p \<and> hhExecutable host p"

lemma add_shell_keeps: "x \<in> set ss \<Longrightarrow> x \<in> set (add_shell host p ss)"
  by (auto simp: add_shell_def)

lemma add_shell_source: "x \<in> set (add_shell host p ss) \<Longrightarrow> x \<in> set ss \<or> x = p \<and> hhExecutable host p"
  by (auto simp: add_shell_def split: if_splits)

lemma add_shell_adds:
  assumes "usable_shell host p" "\<forall>s\<in>set ss. CHR '','' \<notin> set s"
  shows "p \<in> set (add_shell host p ss)"
proof (cases "str_contains ('','' @ shells_text ss @ '','') ('','' @ p @ '' -i,'')")
  case True
  have c: "str_contains ('','' @ shells_text ss @ '','') (CHR '','' # (p @ '' -i'') @ [CHR '',''])" using True by simp
  have "CHR '','' \<notin> set (p @ '' -i'')" using assms(1) by (auto simp: usable_shell_def)
  from contains_segment [OF c this] have "p @ '' -i'' \<in> {[]} \<union> set (split_char CHR '','' (shells_text ss))"
    by (auto simp: split_char_append)
  with shells_segments [OF assms(2)]
  have "p @ '' -i'' \<in> (\<lambda>s. s @ '' -i'') ` set ss \<union> (\<lambda>s. '' '' @ s @ '' -i'') ` set ss" by auto
  moreover have "p @ '' -i'' \<noteq> '' '' @ s @ '' -i''" for s
    using assms(1) by (auto simp: usable_shell_def has_prefix_iff)
  ultimately have "p \<in> set ss" by auto
  then show ?thesis by (rule add_shell_keeps)
next
  case False
  with assms(1) show ?thesis by (auto simp: add_shell_def usable_shell_def)
qed

lemma fold_add_shell_keeps: "x \<in> set ss \<Longrightarrow> x \<in> set (fold (add_shell host) ps ss)"
  by (induction ps arbitrary: ss) (simp_all add: add_shell_keeps)

lemma fold_add_shell_adds:
  "p \<in> set ps \<Longrightarrow> usable_shell host p \<Longrightarrow> \<forall>q\<in>set ps \<union> set ss. CHR '','' \<notin> set q
    \<Longrightarrow> p \<in> set (fold (add_shell host) ps ss)"
proof (induction ps arbitrary: ss)
  case (Cons q ps)
  let ?ss = "add_shell host q ss"
  have c: "\<forall>q\<in>set ps \<union> set ?ss. CHR '','' \<notin> set q" using Cons.prems(3) by (auto dest!: add_shell_source)
  show ?case
  proof (cases "p = q")
    case True
    with Cons.prems have "p \<in> set ?ss" by (simp add: add_shell_adds)
    then show ?thesis by (simp add: fold_add_shell_keeps)
  next
    case False
    with Cons.prems Cons.IH [OF _ _ c] show ?thesis by simp
  qed
qed simp

lemma root_shells_complete:
  assumes "p \<in> set (shell_candidates host)" "usable_shell host p" "\<forall>q\<in>set (shell_candidates host). CHR '','' \<notin> set q"
  shows "p \<in> set (root_shells host)"
  using fold_add_shell_adds [OF assms(1,2), of "[]"] assms(3) by (auto simp: root_shells_def Let_def)

subsection \<open>What the agent runs as root is permitted\<close>

text \<open>
  The hosts of the agent and of the helper are one: both find the same programs, a file the agent takes for a
  shell can be executed, and paths are absolute and hold no comma.
\<close>

definition same_programs :: "helper_host \<Rightarrow> (string \<Rightarrow> string option) \<Rightarrow> bool" where
  "same_programs host look \<longleftrightarrow> (\<forall>n p. look n = Some p \<longrightarrow> hhWhich host n = p \<and> p \<noteq> [])"

definition same_shells :: "helper_host \<Rightarrow> shell_env \<Rightarrow> bool" where
  "same_shells host env \<longleftrightarrow> same_programs host (shLookPath env)
     \<and> (\<forall>n p. shLookPath env n = Some p \<longrightarrow> has_prefix p ''/'' \<and> hhExecutable host p)
     \<and> (\<forall>p. shIsFile env p \<longrightarrow> hhExecutable host p)
     \<and> (\<forall>n. CHR '','' \<notin> set (hhWhich host n))"

text \<open>
  The rules installed for a profile that allows root terminals permit the command of every root terminal
  the agent can start: whichever shell it picks, \<open>sudo\<close> accepts it with exactly the arguments it is given.
\<close>

theorem root_terminal_permitted:
  assumes "same_shells host env" "profile_allows_terminal p" "shell \<in> set (select_root_shell_candidates env)"
  shows "tcArgs (new_terminal_command env shell True) = [''-n'', ''-H'', shell, ''-i''] \<and> permits (profile_rules spec host p) [shell, ''-i'']"
proof -
  have paths: "c \<in> set supported_root_shell_paths \<Longrightarrow> has_prefix c ''/'' \<and> CHR '','' \<notin> set c" for c
    by (auto simp: supported_root_shell_paths_def)
  have nocomma: "\<forall>q\<in>set (shell_candidates host). CHR '','' \<notin> set q"
    using paths assms(1) by (auto simp: shell_candidates_def same_shells_def)
  let ?cs = "List.map_filter (shLookPath env) supported_root_shell_names @ supported_root_shell_paths"
  have mf: "c \<in> set (List.map_filter f xs) \<Longrightarrow> \<exists>n\<in>set xs. f n = Some c" for c f and xs :: "string list"
    by (induction xs) (auto simp: List.map_filter_simps split: option.splits)
  from dedupe_from_sources [of shell env ?cs "[]"] assms(3)
  obtain c where c: "c \<in> set ?cs" "has_prefix c ''/'' \<and> shell = c \<and> shIsFile env c \<or> \<not> has_prefix c ''/'' \<and> shLookPath env c = Some shell"
    unfolding select_root_shell_candidates_def dedupe_shell_candidates_def by auto
  have rooted: "has_prefix c ''/'' \<and> c \<in> set (shell_candidates host)"
  proof (cases "c \<in> set supported_root_shell_paths")
    case True
    then show ?thesis using paths by (simp add: shell_candidates_def)
  next
    case False
    with c(1) mf obtain n where n: "n \<in> set supported_root_shell_names" "shLookPath env n = Some c" by fastforce
    with assms(1) have "has_prefix c ''/''" "hhWhich host n = c" by (simp_all add: same_shells_def same_programs_def)
    with n(1) show ?thesis by (auto simp: shell_candidates_def)
  qed
  with c(2) have sh: "shell = c" "shIsFile env c" by simp_all
  from sh(2) assms(1) have x: "hhExecutable host shell" by (simp add: same_shells_def sh(1))
  from rooted have cand: "shell \<in> set (shell_candidates host)" by (simp add: sh(1))
  with nocomma rooted x have "usable_shell host shell" by (simp add: usable_shell_def sh(1))
  from root_shells_complete [OF cand this nocomma]
  have "permits (terminal_rules host) [shell, ''-i'']" by (auto simp: permits_def terminal_rules_def)
  with assms(2) show ?thesis by (simp add: profile_rules_def permits_append new_terminal_command_def)
qed

text \<open>The commands \<open>shell_root\<close> puts behind \<open>sudo\<close>.\<close>

definition root_program :: "executor \<Rightarrow> shell_payload \<Rightarrow> string list \<Rightarrow> bool" where
  "root_program ex p argv \<longleftrightarrow>
     argv = [task_root_helper_path] \<and> spRootScope p \<noteq> ''operational''
     \<or> argv = [package_helper_path] \<and> (\<exists>apt. exLookPath ex ''apt-get'' = Inr apt)
     \<or> (\<exists>path. argv = [path] \<and> exLookPath ex ''reboot'' = Inr path)
     \<or> (\<exists>path. argv = [path, ''restart'', ''noderax-agent.service''] \<and> exLookPath ex ''systemctl'' = Inr path)"

lemma shell_root_programs:
  assumes "shell_root ex p cmd w = (Inr c, w')" "exEuid ex \<noteq> 0" "exLookPath ex ''sudo'' = Inr sudo"
    and "helper_available ex task_root_helper_path" "helper_available ex package_helper_path"
  shows "\<exists>argv. c = (sudo, ''-n'' # argv) \<and> root_program ex p argv"
proof (cases "spRootScope p = ''operational''")
  case True
  with assms have "build_operational_root_command ex (spCommand p) w = (Inr c, w')"
    by (auto simp: shell_root_def split: if_splits)
  with assms show ?thesis
    by (auto simp: build_operational_root_command_def Let_def io_bind_Inr require_binary_def wrap_with_sudo_def
        root_program_def split: if_splits sum.splits)
next
  case False
  with assms have "c = (sudo, [''-n'', task_root_helper_path])"
    by (auto simp: shell_root_def io_bind_Inr wrap_with_sudo_def split: if_splits)
  with False show ?thesis by (simp add: root_program_def)
qed


subsection \<open>From the request to the command\<close>

lemma remove_then_runs: "remove_then path after w = (Runs argv, w') \<Longrightarrow> after = Runs argv \<and> wfiles w' path = None"
  by (auto simp: remove_then_def dest: rm_force_ok split: prod.splits if_splits)

lemma remove_then_quiet:
  assumes "\<forall>n x. wfault w n x = None" "remove_then path after w = (out, w')"
  shows "out = after"
  using assms by (auto simp: remove_then_def rm_force_def os_remove_def split: prod.splits if_splits)

lemma task_root_helper_content:
  assumes "wfiles w request = Some (c, m)" "task_root_helper request 0 w = (out, w')"
  shows "out = Runs argv \<Longrightarrow> argv = [''/bin/sh'', ''-lc'', command_text c] \<and> \<not> list_all ascii_space (command_text c) \<and> wfiles w' request = None"
    and "\<forall>n x. wfault w n x = None \<Longrightarrow> \<not> list_all ascii_space (command_text c) \<Longrightarrow> out = Runs [''/bin/sh'', ''-lc'', command_text c]"
proof -
  have eq: "task_root_helper request 0 w = (case os_read_file request w of
        (Inl e, w1) \<Rightarrow> (Exits 1, w1)
      | (Inr s, w1) \<Rightarrow>
          remove_then request (if list_all ascii_space (command_text s) then Exits 64 else Runs [''/bin/sh'', ''-lc'', command_text s]) w1)"
    using assms(1) by (simp add: task_root_helper_def)
  have rd: "os_read_file request w = (r, w1) \<Longrightarrow> (r = Inr c \<or> (\<exists>e. r = Inl e \<and> wfault w (wtick w) (OpReadFile request) = Some e)) \<and> wfault w1 = wfault w" for r w1
    using assms(1) by (auto simp: os_read_file_def split: option.splits)
  obtain r w1 where r: "os_read_file request w = (r, w1)" by (cases "os_read_file request w")
  note R = rd [OF r]
  show "out = Runs argv \<Longrightarrow> argv = [''/bin/sh'', ''-lc'', command_text c] \<and> \<not> list_all ascii_space (command_text c) \<and> wfiles w' request = None"
    using assms(2) R unfolding eq r by (auto dest!: remove_then_runs split: if_splits)
  assume q: "\<forall>n x. wfault w n x = None" and b: "\<not> list_all ascii_space (command_text c)"
  with R have "r = Inr c" "\<forall>n x. wfault w1 n x = None" by auto
  with assms(2) b remove_then_quiet show "out = Runs [''/bin/sh'', ''-lc'', command_text c]" unfolding eq r by force
qed

text \<open>
  C12. What the task root helper runs after a command was handed over is that command and nothing else, but for
  newlines at its end, and the request is gone before it runs, so it runs at most once; without I/O faults a
  command that is not blank does run.
\<close>

theorem task_root_command_runs:
  assumes "write_task_root_request c path w = (None, w1)" "task_root_helper (request_target path) 0 w1 = (out, w2)"
  shows "(\<forall>argv. out = Runs argv \<longrightarrow> argv = [''/bin/sh'', ''-lc'', command_text c]
        \<and> task_root_helper (request_target path) 0 w2 = (Exits 1, w2))
    \<and> ((\<forall>n x. wfault w1 n x = None) \<and> \<not> list_all ascii_space (command_text c)
        \<longrightarrow> out = Runs [''/bin/sh'', ''-lc'', command_text c])"
proof -
  have f: "wfiles w1 (request_target path) = Some (c, 0x180)"
    using task_root_writer.writer_ok [OF assms(1)] by simp
  note H = task_root_helper_content [OF f assms(2)]
  have "out = Runs argv \<Longrightarrow> task_root_helper (request_target path) 0 w2 = (Exits 1, w2)" for argv
    using H(1) by (simp add: task_root_helper_def)
  with H show ?thesis by blast
qed


subsection \<open>Package requests\<close>

lemma request_packages_ok: "request_packages ls = Some ns \<Longrightarrow> \<forall>n\<in>set ns. package_name_ok n"
  by (induction ls arbitrary: ns) (auto simp: Let_def split: if_splits)

lemma package_command_runs:
  "package_command apt_get op ns = Runs argv \<Longrightarrow> \<exists>apt. apt_get = Some apt
    \<and> (argv = [apt, ''update''] \<and> op = ''update'' \<or> op \<in> {''install'', ''remove'', ''purge''} \<and> ns \<noteq> [] \<and> argv = [apt, op, ''-y'', ''--''] @ ns)"
  by (auto simp: package_command_def split: option.splits if_splits)

lemma package_helper_runs:
  assumes "package_mutation_helper apt_get request 0 w = (Runs argv, w')"
  obtains s m ns where "wfiles w request = Some (s, m)" "request_packages (tl (raw_lines s)) = Some ns"
    "package_command apt_get (if raw_lines s = [] then [] else hd (raw_lines s)) ns = Runs argv" "wfiles w' request = None"
proof -
  from assms obtain s w1 where rd: "os_read_file request w = (Inr s, w1)"
    and rest: "(case request_packages (tl (raw_lines s)) of None \<Rightarrow> remove_then request (Exits 64) w1
      | Some packages \<Rightarrow> remove_then request (package_command apt_get (if raw_lines s = [] then [] else hd (raw_lines s)) packages) w1) = (Runs argv, w')"
    by (auto simp: package_mutation_helper_def Let_def split: if_splits prod.splits sum.splits)
  from rd obtain m where f: "wfiles w request = Some (s, m)" by (auto simp: os_read_file_def split: option.splits)
  from rest obtain ns where ns: "request_packages (tl (raw_lines s)) = Some ns"
    by (auto split: option.splits dest: remove_then_runs)
  with rest f that show ?thesis by (auto dest!: remove_then_runs)
qed

text \<open>
  C11. Whatever the service user puts into the request file, the package helper runs \<open>apt-get\<close> only to update the
  index or to install, remove or purge packages whose names match its pattern, behind a \<open>--\<close>: no name can be
  read as an option and no other program can be run.
\<close>

theorem package_helper_confined:
  assumes "package_mutation_helper apt_get request argc w = (Runs argv, w')"
  shows "\<exists>apt. apt_get = Some apt \<and> (argv = [apt, ''update'']
    \<or> (\<exists>op ns. op \<in> {''install'', ''remove'', ''purge''} \<and> ns \<noteq> [] \<and> argv = [apt, op, ''-y'', ''--''] @ ns
        \<and> (\<forall>n\<in>set ns. package_name_ok n \<and> \<not> has_prefix n ''-'')))"
proof -
  have argc: "argc = 0" using assms by (auto simp: package_mutation_helper_def split: if_splits)
  have dash: "package_name_ok n \<Longrightarrow> \<not> has_prefix n ''-''" for n
    by (cases n) (auto simp: package_name_ok_def lower_or_digit_def byte_in_def)
  obtain s m ns where ns: "request_packages (tl (raw_lines s)) = Some ns"
    "package_command apt_get (if raw_lines s = [] then [] else hd (raw_lines s)) ns = Runs argv"
    using package_helper_runs assms argc by metis
  from package_command_runs [OF ns(2)] request_packages_ok [OF ns(1)] dash show ?thesis by fastforce
qed

lemma raw_lines_text: "\<forall>l\<in>set ls. CHR 0x0A \<notin> set l \<Longrightarrow> raw_lines (text_lines ls) = ls"
  using split_text_lines [of ls "[]"] by (simp add: raw_lines_def Let_def)

lemma request_packages_lines:
  "request_packages ls = Some ns \<Longrightarrow> ns = filter (\<lambda>n. n \<noteq> []) (map strip_spaces ls)"
  by (induction ls arbitrary: ns) (auto simp: Let_def split: if_splits)

lemma trim_no_newline: "CHR 0x0A \<notin> set s \<Longrightarrow> CHR 0x0A \<notin> set (trim_space s)"
  by (auto simp: trim_space_def dest!: set_dropWhileD) (metis UN_I concat_runes set_concat)

lemma strip_ok: "package_name_ok n \<Longrightarrow> strip_spaces n = n"
proof -
  assume n: "package_name_ok n"
  have sp: "lower_or_digit c \<or> c \<in> set ''.+:-'' \<Longrightarrow> \<not> ascii_space c" for c
    by (auto simp: lower_or_digit_def ascii_space_def byte_in_def)
  from n have "\<forall>c\<in>set n. \<not> ascii_space c"
    using sp by (cases n) (auto simp: package_name_ok_def list_all_iff)
  then show ?thesis by (simp add: strip_spaces_def)
qed

text \<open>
  A package task, from the names the agent checked to the command run as root: \<open>apt-get\<close> gets the operation
  and the names in their order, each without the white space inside it. Names that match the helper's
  pattern arrive unchanged; a name with a space in it becomes another name.
\<close>

theorem package_task_runs:
  assumes "write_package_mutation_request op names path w = (None, w1)"
    and "op \<in> {''install'', ''remove'', ''purge''}" "\<forall>n\<in>set names. CHR 0x0A \<notin> set n"
    and "package_mutation_helper (Some apt) (request_target path) 0 w1 = (Runs argv, w2)"
  shows "argv = [apt, op, ''-y'', ''--''] @ filter (\<lambda>n. n \<noteq> []) (map (\<lambda>n. strip_spaces (trim_space n)) names)
    \<and> (\<forall>n\<in>set names. package_name_ok (trim_space n) \<longrightarrow> strip_spaces (trim_space n) = trim_space n)"
proof -
  let ?lines = "trim_space op # filter (\<lambda>n. n \<noteq> []) (map trim_space names)"
  have op: "trim_space op = op" "CHR 0x0A \<notin> set op" "op \<noteq> ''update''"
  proof -
    have "trim_space ''install'' = ''install''" "trim_space ''remove'' = ''remove''" "trim_space ''purge'' = ''purge''" by code_simp+
    with assms(2) show "trim_space op = op" by auto
    show "CHR 0x0A \<notin> set op" "op \<noteq> ''update''" using assms(2) by auto
  qed
  have "concat (map snd (package_chunks op names)) = text_lines ?lines"
    by (simp add: package_chunks_def text_lines_def o_def)
  then have f: "wfiles w1 (request_target path) = Some (text_lines ?lines, 0x180)"
    using package_writer.writer_ok [of "(op, names)" path w w1] assms(1) by simp
  have nl: "\<forall>l\<in>set ?lines. CHR 0x0A \<notin> set l" using op(1,2) assms(3) trim_no_newline by auto
  note raw = raw_lines_text [OF nl]
  obtain s m ns where H: "wfiles w1 (request_target path) = Some (s, m)" "request_packages (tl (raw_lines s)) = Some ns"
    "package_command (Some apt) (if raw_lines s = [] then [] else hd (raw_lines s)) ns = Runs argv"
    using package_helper_runs [OF assms(4)] by metis
  from H(1) f have "s = text_lines ?lines" by simp
  with H raw op(1) have ns: "request_packages (filter (\<lambda>n. n \<noteq> []) (map trim_space names)) = Some ns" "package_command (Some apt) op ns = Runs argv" by simp_all
  have "filter (\<lambda>n. n \<noteq> []) (map strip_spaces (filter (\<lambda>n. n \<noteq> []) xs)) = filter (\<lambda>n. n \<noteq> []) (map strip_spaces xs)" for xs
    by (induction xs) (auto simp: strip_spaces_def)
  with request_packages_lines [OF ns(1)] have "ns = filter (\<lambda>n. n \<noteq> []) (map strip_spaces (map trim_space names))" by simp
  with package_command_runs [OF ns(2)] op(3) strip_ok show ?thesis by (auto simp: o_def)
qed

text \<open>The files and helpers the agent uses are those that are installed.\<close>

lemma installed_paths_agree:
  "psPrivilegedUpdateHelperPath linux_spec = update_helper_path" "psPackageMutationHelperPath linux_spec = package_helper_path"
  "psOperationalLogScanHelperPath linux_spec = log_scan_helper_path" "psTaskRootHelperPath linux_spec = task_root_helper_path"
  "psRootProfileHelperPath linux_spec = helper_path"
  by (simp_all add: linux_spec_def update_helper_path_def package_helper_path_def log_scan_helper_path_def
      task_root_helper_path_def helper_path_def)

text \<open>
  The base rules let the agent install every profile it can be asked for, and nothing else: the commands that
  \<open>sudo\<close> accepts from them are the update helper and the calls the profile manager makes for the declared
  profiles.
\<close>

theorem base_rules_allow_profiles:
  assumes "aeEuid env \<noteq> 0"
  shows "str_join '' '' (drop 2 (helper_argv env p)) \<in> set (root_profile_commands linux_spec) \<longleftrightarrow> p \<in> set declared_profiles"
proof -
  have c: "path_clean helper_path = helper_path" by code_simp
  have "str_join '' '' (drop 2 (helper_argv env p)) = helper_path @ '' apply '' @ p"
    using assms by (simp add: helper_argv_def c)
  then show ?thesis
    by (auto simp: root_profile_commands_def installed_paths_agree declared_profiles_def)
qed

subsection \<open>Instances\<close>

definition sample_helper_host :: helper_host where
  "sample_helper_host = \<lparr>hhWhich = (\<lambda>n. if n = ''apt-get'' then ''/usr/bin/apt-get'' else []), hhExecutable = (\<lambda>_. True), hhVisudo = (\<lambda>_. True)\<rparr>"

text \<open>Without faults a request is written; the temporary name must be free.\<close>

lemma write_task_root_quiet:
  assumes "\<forall>n x. wfault w n x = None" "request_target path = ''/r''" "\<forall>q. q \<noteq> ''/r'' \<longrightarrow> wfiles w q = None"
  shows "\<exists>w'. write_task_root_request c path w = (None, w') \<and> wfault w' = wfault w \<and> wfiles w' = [''/r'' \<mapsto> (c, 0x180)]"
proof -
  let ?t = "temp_name ''/'' ''.noderax-agent-task-root-*.txt'' (wtemp w (Suc (wtick w)))"
  have d: "path_dir ''/r'' = ''/''" by code_simp
  have t: "?t = ''/.noderax-agent-task-root-'' @ wtemp w (Suc (wtick w)) @ ''.txt''"
    by (simp add: temp_name_def has_suffix_def)
  have fresh: "wfiles w ?t = None" "?t \<noteq> ''/r''" using assms(3) by (auto simp: t)
  have p: "path_clean (trim_space path) = ''/r''" using assms(2) by (simp add: request_target_def)
  have "\<exists>w'. write_task_root_request c path w = (None, w') \<and> wfault w' = wfault w"
    using assms(1) fresh
    by (simp add: write_task_root_request_def replace_request_def p d os_defs set_files_def append_file_def
        commit_request_def seal_temp_def Let_def)
  then obtain w' where w': "write_task_root_request c path w = (None, w')" "wfault w' = wfault w" by blast
  from task_root_writer.writer_ok [OF w'(1)] assms(2) have "wfiles w' = (wfiles w)(''/r'' \<mapsto> (c, 0x180))" by simp
  moreover have "(wfiles w)(''/r'' \<mapsto> (c, 0x180)) = [''/r'' \<mapsto> (c, 0x180)]" using assms(3) by (auto simp: fun_eq_iff)
  ultimately show ?thesis using w' by auto
qed

lemma sample_request_target: "request_target ''/r'' = ''/r''" by code_simp

lemma sample_command_text: "command_text ''id'' = ''id''" "command_text ''ls'' = ''ls''" by code_simp+

theorem task_root_command_runs_witness:
  "\<exists>w1 w2. write_task_root_request ''id'' ''/r'' quiet_world = (None, w1)
    \<and> task_root_helper ''/r'' 0 w1 = (Runs [''/bin/sh'', ''-lc'', ''id''], w2)"
proof -
  from write_task_root_quiet [of quiet_world "''/r''" "''id''"] sample_request_target
  obtain w1 where w1: "write_task_root_request ''id'' ''/r'' quiet_world = (None, w1)" "wfault w1 = wfault quiet_world" by auto
  obtain out w2 where h: "task_root_helper (request_target ''/r'') 0 w1 = (out, w2)"
    by (cases "task_root_helper (request_target ''/r'') 0 w1")
  have "\<not> list_all ascii_space (command_text ''id'')" by (simp add: sample_command_text ascii_space_def byte_in_def)
  moreover have "\<forall>n x. wfault w1 n x = None" using w1(2) by simp
  ultimately have "out = Runs [''/bin/sh'', ''-lc'', command_text ''id'']"
    using task_root_command_runs [OF w1(1) h] by blast
  with w1(1) h show ?thesis unfolding sample_request_target sample_command_text by blast
qed


definition package_world :: world where
  "package_world = quiet_world\<lparr>wfiles := [''/p'' \<mapsto> (text_lines [''install'', ''vim nano''], 0x180)]\<rparr>"

lemma package_world_runs: "\<exists>w'. package_mutation_helper (Some ''/usr/bin/apt-get'') ''/p'' 0 package_world
    = (Runs [''/usr/bin/apt-get'', ''install'', ''-y'', ''--'', ''vimnano''], w')"
proof -
  have r: "raw_lines (text_lines [''install'', ''vim nano'']) = [''install'', ''vim nano'']" by code_simp
  have n: "request_packages [''vim nano''] = Some [''vimnano'']" by code_simp
  show ?thesis
    by (simp only: package_mutation_helper_def Let_def) (simp add: package_world_def os_read_file_def r n [simplified] remove_then_def rm_force_def
        os_remove_def package_command_def)
qed

theorem package_helper_confined_witness:
  "\<exists>argv w'. package_mutation_helper (Some ''/usr/bin/apt-get'') ''/p'' 0 package_world = (Runs argv, w')
    \<and> (\<exists>apt op ns. argv = [apt, op, ''-y'', ''--''] @ ns \<or> argv = [apt, ''update''])"
proof -
  obtain w' where w': "package_mutation_helper (Some ''/usr/bin/apt-get'') ''/p'' 0 package_world
    = (Runs [''/usr/bin/apt-get'', ''install'', ''-y'', ''--'', ''vimnano''], w')" using package_world_runs by blast
  from package_helper_confined [OF w'] w' show ?thesis by blast
qed


theorem root_terminal_permitted_witness:
  "permits (profile_rules linux_spec sample_helper_host ''terminal'') [''/bin/sh'', ''-i'']"
proof -
  have s: "same_shells sample_helper_host sample_shells"
    by (auto simp: same_shells_def same_programs_def sample_helper_host_def sample_shells_def)
  show ?thesis
    using root_terminal_permitted [OF s, of "''terminal''" "''/bin/sh''" linux_spec]
    by (simp add: sample_root_shells profile_allows_terminal_def)
qed

definition installed_executor :: executor where
  "installed_executor = (sample_executor JNull)\<lparr>exFileExists := (\<lambda>_. True),
     exLookPath := (\<lambda>n. if n = ''sudo'' then Inr ''/usr/bin/sudo'' else if n = ''reboot'' then Inr ''/sbin/reboot'' else Inl (Plain ''not found'')),
     exRootScopeChecker := Some (can_use_root_scope (initial_manager []\<lparr>mgState := (mgState (initial_manager []))\<lparr>rsAppliedProfile := ''operational''\<rparr>\<rparr>))\<rparr>"

definition reboot_host :: helper_host where
  "reboot_host = sample_helper_host\<lparr>hhWhich := (\<lambda>n. if n = ''sudo'' then ''/usr/bin/sudo'' else if n = ''reboot'' then ''/sbin/reboot'' else [])\<rparr>"


theorem base_rules_allow_profiles_witness:
  "str_join '' '' (drop 2 (helper_argv \<lparr>aeGoos = ''linux'', aeHelperStat = None, aeEuid = 1000, aeRun = (\<lambda>_. ([], None)), aeNow = []\<rparr> ''all''))
     \<in> set (root_profile_commands linux_spec)"
  by (subst base_rules_allow_profiles) (simp_all add: declared_profiles_def)

theorem package_task_runs_witness:
  "\<exists>w1 w2. write_package_mutation_request ''install'' [''vim nano''] ''/p'' quiet_world = (None, w1)
     \<and> package_mutation_helper (Some ''/usr/bin/apt-get'') ''/p'' 0 w1
         = (Runs [''/usr/bin/apt-get'', ''install'', ''-y'', ''--'', ''vimnano''], w2)"
proof -
  have d: "path_dir ''/p'' = ''/''" "path_clean (trim_space ''/p'') = ''/p''" "request_target ''/p'' = ''/p''" by code_simp+
  have tn: "temp_name ''/'' ''.noderax-agent-package-mutation-*.txt'' r = ''/.noderax-agent-package-mutation-'' @ r @ ''.txt''" for r
    by (simp add: temp_name_def has_suffix_def)
  have "\<exists>w1. write_package_mutation_request ''install'' [''vim nano''] ''/p'' quiet_world = (None, w1) \<and> wfault w1 = (\<lambda>_ _. None)"
    by (simp add: write_package_mutation_request_def replace_request_def d tn os_defs set_files_def append_file_def
        commit_request_def seal_temp_def Let_def package_chunks_def)
  then obtain w1 where w1: "write_package_mutation_request ''install'' [''vim nano''] ''/p'' quiet_world = (None, w1)" "wfault w1 = (\<lambda>_ _. None)" by blast
  have c: "concat (map snd (package_chunks ''install'' [''vim nano''])) = text_lines [''install'', ''vim nano'']" by code_simp
  have f: "wfiles w1 ''/p'' = Some (text_lines [''install'', ''vim nano''], 0x180)"
    using package_writer.writer_ok [of "(''install'', [''vim nano''])" "''/p''" quiet_world w1] w1(1) c by (simp add: d(3))
  have r: "raw_lines (text_lines [''install'', ''vim nano'']) = [''install'', ''vim nano'']"
    "request_packages [''vim nano''] = Some [''vimnano'']" by code_simp+
  have "\<exists>w2. package_mutation_helper (Some ''/usr/bin/apt-get'') ''/p'' 0 w1
      = (Runs [''/usr/bin/apt-get'', ''install'', ''-y'', ''--'', ''vimnano''], w2)"
    by (simp only: package_mutation_helper_def Let_def)
       (simp add: f w1(2) os_read_file_def r(1) r(2) [simplified] remove_then_def rm_force_def os_remove_def package_command_def)
  then obtain w2 where w2: "package_mutation_helper (Some ''/usr/bin/apt-get'') (request_target ''/p'') 0 w1
      = (Runs [''/usr/bin/apt-get'', ''install'', ''-y'', ''--'', ''vimnano''], w2)" unfolding d(3) by blast
  have "(''install'' :: string) \<in> {''install'', ''remove'', ''purge''}" "\<forall>n\<in>set [''vim nano'']. CHR 0x0A \<notin> set n" by simp_all
  from package_task_runs [OF w1(1) this w2] w1(1) w2 show ?thesis unfolding d(3) by blast
qed

end
