(* ===== verification/CtlHost.thy ===== *)
theory CtlHost
  imports RootHelpers
begin

text \<open>
  The host the commands of \<open>internal/agentctl\<close> work on: the files, symbolic links, the requests posted to the
  control plane and the progress of an update. Programs that are run may answer anything and change any
  file; \<open>ceRun\<close> says how. Operations are functions of the host with a result or an error, composed with
  \<open>cbind\<close>. What comes after are the steps \<open>install\<close>, \<open>uninstall\<close>, \<open>config\<close> and \<open>update\<close> share.
\<close>

record ctl_env =
  ceGoos :: string
  ceArch :: string
  ceEuid :: int
  ceLib :: config_lib
  ceExists :: "string \<Rightarrow> bool"
  ceRun :: "string list \<Rightarrow> world \<Rightarrow> (string \<times> goerror option) \<times> world"
  ceLinkFault :: "nat \<Rightarrow> string \<Rightarrow> string \<Rightarrow> goerror option"
  ceNewClient :: "string \<Rightarrow> string \<Rightarrow> goerror option"
  ceHTTP :: http_lib

record update_progress =
  pgStatus :: string
  pgPercent :: int
  pgMessage :: string

record ctl_host =
  hoWorld :: world
  hoLinks :: "string \<Rightarrow> string option"
  hoPosts :: "(string \<times> string \<times> string \<times> json) list"
  hoReports :: "update_progress list"
  hoProgress :: int
  hoRan :: "string list list"

type_synonym 'a ctl = "ctl_host \<Rightarrow> (goerror + 'a) \<times> ctl_host"

definition cret :: "'a \<Rightarrow> 'a ctl" where
  "cret x h = (Inr x, h)"

definition cfail :: "goerror \<Rightarrow> 'a ctl" where
  "cfail e h = (Inl e, h)"

definition clift :: "goerror + 'a \<Rightarrow> 'a ctl" where
  "clift r h = (r, h)"

definition cbind :: "'a ctl \<Rightarrow> ('a \<Rightarrow> 'b ctl) \<Rightarrow> 'b ctl" where
  "cbind m f h = (case m h of (Inl e, h1) \<Rightarrow> (Inl e, h1) | (Inr x, h1) \<Rightarrow> f x h1)"

definition cguard :: "goerror option \<Rightarrow> unit ctl" where
  "cguard r h = (case r of None \<Rightarrow> (Inr (), h) | Some e \<Rightarrow> (Inl e, h))"

text \<open>\<open>if err := m; err != nil { return f(err) }\<close>.\<close>

definition cwrap :: "(goerror \<Rightarrow> goerror) \<Rightarrow> 'a ctl \<Rightarrow> 'a ctl" where
  "cwrap f m h = (case m h of (Inl e, h1) \<Rightarrow> (Inl (f e), h1) | (Inr x, h1) \<Rightarrow> (Inr x, h1))"

definition cfiles :: "(world \<Rightarrow> 'r \<times> world) \<Rightarrow> ctl_host \<Rightarrow> 'r \<times> ctl_host" where
  "cfiles op h = (case op (hoWorld h) of (r, w) \<Rightarrow> (r, h\<lparr>hoWorld := w\<rparr>))"

definition cio :: "'a io \<Rightarrow> 'a ctl" where
  "cio m = cfiles m"

definition ccheck :: "(goerror \<Rightarrow> goerror) \<Rightarrow> (world \<Rightarrow> goerror option \<times> world) \<Rightarrow> unit ctl" where
  "ccheck f op = cio (io_check f op)"

lemma cbind_simps [simp]:
  "cbind (cret x) f = f x"
  "cbind (cfail e) f = cfail e"
  "cbind (clift (Inl e)) f = cfail e"
  "cbind (clift (Inr x)) f = f x"
  by (simp_all add: cbind_def cret_def cfail_def clift_def fun_eq_iff)

lemma cbind_Inr: "cbind m f h = (Inr y, h') \<longleftrightarrow> (\<exists>x h1. m h = (Inr x, h1) \<and> f x h1 = (Inr y, h'))"
  by (auto simp: cbind_def split: prod.splits sum.splits)

lemma cguard_Inr [simp]: "cguard r h = (Inr u, h') \<longleftrightarrow> r = None \<and> h' = h"
  by (auto simp: cguard_def split: option.splits)

lemma cret_iff [simp]: "cret x h = (Inr y, h') \<longleftrightarrow> y = x \<and> h' = h" "cret x h = (Inl e, h') \<longleftrightarrow> False"
  by (auto simp: cret_def)

lemma cfail_iff [simp]: "cfail e' h = (Inl e, h') \<longleftrightarrow> e = e' \<and> h' = h" "cfail e' h = (Inr y, h') \<longleftrightarrow> False"
  by (auto simp: cfail_def)

lemma clift_iff [simp]: "clift r h = (q, h') \<longleftrightarrow> q = r \<and> h' = h"
  by (auto simp: clift_def)

lemma cwrap_Inr [simp]: "cwrap f m h = (Inr x, h') \<longleftrightarrow> m h = (Inr x, h')"
  by (auto simp: cwrap_def split: prod.splits sum.splits)

subsection \<open>Invariants of an operation\<close>

text \<open>A relation every step keeps is kept by what is composed of them; the relation must be a preorder.\<close>

definition ckeeps :: "(ctl_host \<Rightarrow> ctl_host \<Rightarrow> bool) \<Rightarrow> 'a ctl \<Rightarrow> bool" where
  "ckeeps R m \<longleftrightarrow> (\<forall>h r h'. m h = (r, h') \<longrightarrow> R h h')"

locale host_frame =
  fixes R :: "ctl_host \<Rightarrow> ctl_host \<Rightarrow> bool"
  assumes frame_refl: "R h h"
    and frame_trans: "R h1 h2 \<Longrightarrow> R h2 h3 \<Longrightarrow> R h1 h3"
begin

lemma keeps_cret: "ckeeps R (cret x)"
  by (simp add: ckeeps_def cret_def frame_refl)

lemma keeps_cfail: "ckeeps R (cfail e)"
  by (simp add: ckeeps_def cfail_def frame_refl)

lemma keeps_clift: "ckeeps R (clift r)"
  by (simp add: ckeeps_def clift_def frame_refl)

lemma keeps_cguard: "ckeeps R (cguard r)"
  by (simp add: ckeeps_def cguard_def frame_refl split: option.splits)

lemma keeps_cbind:
  assumes "ckeeps R m" "\<And>x. ckeeps R (f x)"
  shows "ckeeps R (cbind m f)"
  unfolding ckeeps_def
proof (intro allI impI)
  fix h r h' assume b: "cbind m f h = (r, h')"
  obtain q h1 where q: "m h = (q, h1)" by (cases "m h")
  from q assms(1) have 1: "R h h1" by (simp add: ckeeps_def)
  show "R h h'"
  proof (cases q)
    case (Inl e)
    with b q 1 show ?thesis by (simp add: cbind_def)
  next
    case (Inr x)
    with b q assms(2) [of x] have "R h1 h'" by (simp add: cbind_def ckeeps_def)
    with 1 show ?thesis by (rule frame_trans)
  qed
qed

lemma keeps_cwrap: "ckeeps R m \<Longrightarrow> ckeeps R (cwrap f m)"
  unfolding ckeeps_def cwrap_def by (auto split: prod.splits sum.splits)

lemma keeps_if: "ckeeps R m \<Longrightarrow> ckeeps R n \<Longrightarrow> ckeeps R (if b then m else n)"
  by simp

lemmas keeps_control = keeps_cret keeps_cfail keeps_clift keeps_cguard keeps_cbind keeps_cwrap keeps_if

end

text \<open>Two hosts have the same file at a path.\<close>

definition same_at :: "string set \<Rightarrow> ctl_host \<Rightarrow> ctl_host \<Rightarrow> bool" where
  "same_at P h h' \<longleftrightarrow> (\<forall>p\<in>P. wfiles (hoWorld h') p = wfiles (hoWorld h) p)"

interpretation file_frame: host_frame "same_at P" for P
  by unfold_locales (simp_all add: same_at_def)

lemma keeps_cio:
  assumes "\<And>w r w'. m w = (r, w') \<Longrightarrow> only_changes T w w'" "T \<inter> P = {}"
  shows "ckeeps (same_at P) (cio m)"
proof -
  have "wfiles (snd (m w)) p = wfiles w p" if "p \<in> P" for w p
    using assms(1) [of w "fst (m w)" "snd (m w)"] assms(2) that by (auto simp: only_changes_def)
  then show ?thesis by (auto simp: ckeeps_def same_at_def cio_def cfiles_def split: prod.splits) (metis snd_conv)
qed

lemma io_check_frame: "(\<And>r w'. op w = (r, w') \<Longrightarrow> only_changes T w w') \<Longrightarrow> io_check f op w = (r, w') \<Longrightarrow> only_changes T w w'"
  by (auto simp: io_check_def split: prod.splits option.splits)

lemma io_bind_frame:
  assumes "\<And>w r w'. m w = (r, w') \<Longrightarrow> only_changes T w w'" "\<And>x w r w'. f x w = (r, w') \<Longrightarrow> only_changes T w w'"
    and "io_bind m f w = (r, w')"
  shows "only_changes T w w'"
proof -
  obtain q w1 where q: "m w = (q, w1)" by (cases "m w")
  note 1 = assms(1) [OF q]
  show ?thesis
  proof (cases q)
    case (Inl e)
    with assms(3) q 1 show ?thesis by (simp add: io_bind_def)
  next
    case (Inr x)
    with assms(3) q have "f x w1 = (r, w')" by (simp add: io_bind_def)
    from only_changes_trans [OF 1 assms(2) [OF this]] show ?thesis .
  qed
qed

lemma mkdir_frame: "os_mkdir_all p w = (r, w') \<Longrightarrow> only_changes T w w'"
  by (auto simp: only_changes_def dest: os_mkdir_all_files)

lemma read_frame: "os_read_file p w = (r, w') \<Longrightarrow> only_changes T w w'"
  by (auto simp: only_changes_def dest: os_read_file_files)

subsection \<open>Symbolic links and paths\<close>

definition os_readlink :: "ctl_env \<Rightarrow> string \<Rightarrow> ctl_host \<Rightarrow> goerror + string" where
  "os_readlink env p h =
     (case ceLinkFault env (wtick (hoWorld h)) ''readlink'' p of
        Some e \<Rightarrow> Inl e
      | None \<Rightarrow>
          (case hoLinks h p of
             Some t \<Rightarrow> Inr t
           | None \<Rightarrow> Inl (if wfiles (hoWorld h) p = None then not_exist ''readlink'' p
                        else Plain (''readlink '' @ p @ '': invalid argument''))))"

definition os_symlink :: "ctl_env \<Rightarrow> string \<Rightarrow> string \<Rightarrow> ctl_host \<Rightarrow> goerror option \<times> ctl_host" where
  "os_symlink env target link h =
     (case ceLinkFault env (wtick (hoWorld h)) ''symlink'' link of
        Some e \<Rightarrow> (Some e, h)
      | None \<Rightarrow>
          if hoLinks h link \<noteq> None \<or> wfiles (hoWorld h) link \<noteq> None
          then (Some (Plain (''symlink '' @ target @ '' '' @ link @ '': file exists'')), h)
          else (None, h\<lparr>hoLinks := (hoLinks h)(link \<mapsto> target)\<rparr>))"

text \<open>\<open>os.Remove\<close> of a link removes the link, of anything else the file.\<close>

definition os_unlink :: "ctl_env \<Rightarrow> string \<Rightarrow> ctl_host \<Rightarrow> goerror option \<times> ctl_host" where
  "os_unlink env p h =
     (if hoLinks h p \<noteq> None then
        (case ceLinkFault env (wtick (hoWorld h)) ''remove'' p of
           Some e \<Rightarrow> (Some e, h)
         | None \<Rightarrow> (None, h\<lparr>hoLinks := (hoLinks h)(p := None)\<rparr>))
      else cfiles (os_remove p) h)"

definition cerror :: "(goerror \<Rightarrow> goerror) \<Rightarrow> (ctl_host \<Rightarrow> goerror option \<times> ctl_host) \<Rightarrow> unit ctl" where
  "cerror f op h = (case op h of (Some e, h1) \<Rightarrow> (Inl (f e), h1) | (None, h1) \<Rightarrow> (Inr (), h1))"

definition make_symlink :: "ctl_env \<Rightarrow> string \<Rightarrow> string \<Rightarrow> unit ctl" where
  "make_symlink env target link = cerror (wrap_prefix (''create symlink '' @ link @ '' -> '' @ target @ '': '')) (os_symlink env target link)"

definition replace_link :: "ctl_env \<Rightarrow> string \<Rightarrow> string \<Rightarrow> unit ctl" where
  "replace_link env target link h =
     (case os_readlink env link h of
        Inr t \<Rightarrow>
          if t = target then (Inr (), h)
          else cbind (cerror (wrap_prefix (''remove existing symlink '' @ link @ '': '')) (os_unlink env link)) (\<lambda>_. make_symlink env target link) h
      | Inl e \<Rightarrow>
          if err_is e OsErrNotExist then make_symlink env target link h
          else cbind (cerror (wrap_prefix (''remove existing path '' @ link @ '': '')) (os_unlink env link)) (\<lambda>_. make_symlink env target link) h)"

definition ensure_symlink :: "ctl_env \<Rightarrow> string \<Rightarrow> string \<Rightarrow> unit ctl" where
  "ensure_symlink env target link =
     cbind (ccheck (wrap_prefix (''create symlink directory for '' @ link @ '': '')) (os_mkdir_all (path_dir link)))
       (\<lambda>_. replace_link env target link)"

lemma os_readlink_link: "os_readlink env p h = Inr t \<Longrightarrow> hoLinks h p = Some t"
  by (auto simp: os_readlink_def split: option.splits if_splits)

lemma os_symlink_ok: "os_symlink env t l h = (None, h') \<Longrightarrow> hoLinks h' l = Some t"
  by (auto simp: os_symlink_def split: option.splits if_splits)

lemma cerror_Inr: "cerror f op h = (Inr u, h') \<longleftrightarrow> op h = (None, h')"
  by (auto simp: cerror_def split: prod.splits option.splits)

text \<open>However the path looked before, success leaves a link to the target.\<close>

lemma ensure_symlink_ok:
  assumes "ensure_symlink env target link h = (Inr u, h')"
  shows "hoLinks h' link = Some target"
proof -
  have make: "make_symlink env target link h1 = (Inr v, h') \<Longrightarrow> hoLinks h' link = Some target" for h1 v
    by (simp add: make_symlink_def cerror_Inr os_symlink_ok)
  obtain h1 where r: "replace_link env target link h1 = (Inr u, h')"
    using assms unfolding ensure_symlink_def cbind_Inr by blast
  show ?thesis
  proof (cases "os_readlink env link h1")
    case (Inl e)
    with r show ?thesis unfolding replace_link_def by (auto simp: cbind_Inr dest: make split: if_splits)
  next
    case (Inr t)
    with r os_readlink_link [OF Inr] show ?thesis unfolding replace_link_def by (auto simp: cbind_Inr dest: make split: if_splits)
  qed
qed

subsection \<open>Programs, sudoers, profiles\<close>

definition crun :: "ctl_env \<Rightarrow> string list \<Rightarrow> ctl_host \<Rightarrow> (string \<times> goerror option) \<times> ctl_host" where
  "crun env argv h = (case ceRun env argv (hoWorld h) of (r, w) \<Rightarrow> (r, h\<lparr>hoWorld := w, hoRan := hoRan h @ [argv]\<rparr>))"

definition run_systemctl :: "ctl_env \<Rightarrow> string list \<Rightarrow> unit ctl" where
  "run_systemctl env args h =
     (case crun env (''systemctl'' # args) h of
        ((out, Some e), h1) \<Rightarrow> (Inl (wrap_prefix (''systemctl '' @ str_join '' '' args @ '': '') e), h1)
      | ((out, None), h1) \<Rightarrow> (Inr (), h1))"

definition run_launchctl :: "ctl_env \<Rightarrow> string list \<Rightarrow> unit ctl" where
  "run_launchctl env args h =
     (case crun env (''launchctl'' # args) h of
        ((out, Some e), h1) \<Rightarrow> (Inl (wrap_prefix (''launchctl '' @ str_join '' '' args @ '': '') e), h1)
      | ((out, None), h1) \<Rightarrow> (Inr (), h1))"

text \<open>\<open>fmt.Errorf(p + "%w: %s", err, strings.TrimSpace(output))\<close>.\<close>

definition output_error :: "string \<Rightarrow> string \<Rightarrow> goerror \<Rightarrow> goerror" where
  "output_error p out e = Wrapped (p @ err_text e @ '': '' @ trim_space out) e"

definition write_base_sudoers :: "ctl_env \<Rightarrow> platform_spec \<Rightarrow> unit ctl" where
  "write_base_sudoers env spec =
     (let path = trim_space (psBaseSudoersPath spec) in
      if path = [] then cret ()
      else cbind (ccheck (wrap_prefix (''create sudoers directory for '' @ path @ '': '')) (os_mkdir_all (path_dir path))) (\<lambda>_.
        cbind (ccheck (wrap_prefix (''write sudoers file '' @ path @ '': '')) (os_write_file path (render_base_sudoers spec) 0x120)) (\<lambda>_.
        if ceExists env ''visudo'' then
          (\<lambda>h. case crun env [''visudo'', ''-cf'', path] h of
             ((out, Some e), h1) \<Rightarrow> (Inl (output_error (''validate sudoers file '' @ path @ '': '') out e), h1)
           | ((out, None), h1) \<Rightarrow> (Inr (), h1))
        else cret ())))"

definition apply_root_access_profile :: "ctl_env \<Rightarrow> platform_spec \<Rightarrow> string \<Rightarrow> unit ctl" where
  "apply_root_access_profile env spec profile =
     (let helper = trim_space (psRootProfileHelperPath spec) in
      if helper = [] then cret ()
      else (\<lambda>h. case crun env [helper, ''apply'', trim_space profile] h of
          ((out, Some e), h1) \<Rightarrow> (Inl (output_error ''run root profile helper: '' out e), h1)
        | ((out, None), h1) \<Rightarrow> (Inr (), h1)))"

text \<open>\<open>loadPersistedRootAccessProfile\<close>: the profile in the manager's state file, if there is one.\<close>

definition profile_fields :: "string field list" where
  "profile_fields = [(''appliedProfile'', dec_string [] (\<lambda>f s. f s))]"

definition load_persisted_profile :: "ctl_env \<Rightarrow> string \<Rightarrow> string option io" where
  "load_persisted_profile env state_path w =
     (let clean = path_clean (trim_space state_path) in
      if clean = ''.'' \<or> clean = [] then (Inr None, w)
      else
        (let path = path_join [path_dir clean, ''root_access_state.json''] in
         case os_read_file path w of
           (Inl e, w1) \<Rightarrow>
             (if err_is e OsErrNotExist then Inr None else Inl (wrap_prefix (''read root access state '' @ path @ '': '') e), w1)
         | (Inr content, w1) \<Rightarrow>
             (case (case clParse (ceLib env) content of Inl e \<Rightarrow> (Some e, []) | Inr j \<Rightarrow> decode_struct [] profile_fields j []) of
                (Some e, p) \<Rightarrow> (Inl (wrap_prefix (''decode root access state '' @ path @ '': '') e), w1)
              | (None, p) \<Rightarrow> (Inr (if trim_space p = [] then None else Some (trim_space p)), w1))))"

definition reconcile_root_access_profile :: "ctl_env \<Rightarrow> platform_spec \<Rightarrow> unit ctl" where
  "reconcile_root_access_profile env spec =
     cbind (cio (load_persisted_profile env (psStatePath spec))) (\<lambda>p.
       case p of None \<Rightarrow> cret () | Some profile \<Rightarrow> apply_root_access_profile env spec profile)"

text \<open>The six files an installation and an update refresh, in order, each with its error prefix.\<close>

definition refresh_helpers :: "ctl_env \<Rightarrow> string \<Rightarrow> platform_spec \<Rightarrow> unit ctl" where
  "refresh_helpers env verb spec =
     cbind (cwrap (wrap_prefix (verb @ '' privileged update helper: '')) (cio (write_privileged_update_helper spec))) (\<lambda>_.
     cbind (cwrap (wrap_prefix (verb @ '' root profile helper: '')) (cio (write_root_profile_helper spec))) (\<lambda>_.
     cbind (cwrap (wrap_prefix (verb @ '' package mutation helper: '')) (cio (write_package_mutation_helper spec))) (\<lambda>_.
     cbind (cwrap (wrap_prefix (verb @ '' operational log scan helper: '')) (cio (write_operational_log_scan_helper spec))) (\<lambda>_.
     cbind (cwrap (wrap_prefix (verb @ '' task root helper: '')) (cio (write_task_root_helper spec))) (\<lambda>_.
     cwrap (wrap_prefix (verb @ '' base sudoers: '')) (write_base_sudoers env spec))))))"

subsection \<open>The profile an update restores is the one in force\<close>

lemma profile_field_lookup:
  "find_field profile_fields ''appliedProfile'' = Some (dec_string [] (\<lambda>f s. f s))"
  "find_field profile_fields ''lastAppliedAt'' = None" "find_field profile_fields ''lastError'' = None" "find_field profile_fields ''revision'' = None"
  by (simp_all add: profile_fields_def find_field_def fold_name_def) code_simp+

text \<open>
  The profile an update hands to the root helper again is the one the agent's manager holds: what the manager
  last wrote is read back from the same file, whatever the rest of the state says.
\<close>

theorem update_restores_profile:
  assumes "wfiles w (mgStatePath m) = Some (state_file_text (mgState m), mode)" "mgStatePath m = build_state_path state_path"
    and "path_clean (trim_space state_path) \<noteq> ''.''" "manager_ok m"
    and "clParse (ceLib env) (state_file_text (mgState m)) = Inr (state_json (mgState m))"
    and "wfault w (wtick w) (OpReadFile (mgStatePath m)) = None"
  shows "fst (load_persisted_profile env state_path w) = Inr (Some (trim_space (rsAppliedProfile (mgState m))))"
proof -
  have path: "path_join [path_dir (path_clean (trim_space state_path)), ''root_access_state.json''] = mgStatePath m"
    using assms(2,3) by (simp add: build_state_path_def Let_def)
  have rd: "os_read_file (mgStatePath m) w = (Inr (state_file_text (mgState m)), set_files (wfiles w) w)"
    using assms(1,6) by (simp add: os_read_file_def)
  have dec: "decode_struct [] profile_fields (state_json s) [] = (None, rsAppliedProfile s)" for s
    by (simp add: state_json_def decode_struct_def profile_field_lookup dec_string_def omit_empty_def omit_zero_def first_error_def)
  from assms(4) have "trim_space (rsAppliedProfile (mgState m)) \<noteq> []" by (simp add: manager_ok_def)
  with assms(3,5) show ?thesis
    by (simp add: load_persisted_profile_def Let_def path rd dec)
qed

theorem update_restores_profile_witness:
  "\<exists>w env. fst (load_persisted_profile env ''/var/lib/noderax-agent/agent_identity.json'' w) = Inr (Some ''off'')"
proof -
  let ?p = "''/var/lib/noderax-agent/agent_identity.json''" and ?m = "initial_manager ''/var/lib/noderax-agent/agent_identity.json''"
  let ?w = "quiet_world\<lparr>wfiles := [mgStatePath ?m \<mapsto> (state_file_text (mgState ?m), 0x180)]\<rparr>"
  let ?env = "\<lparr>ceGoos = ''linux'', ceArch = ''amd64'', ceEuid = 0,
     ceLib = \<lparr>clGetenv = (\<lambda>_. []), clParse = (\<lambda>_. Inr (state_json (mgState ?m))), clParseFloat = (\<lambda>_. Inl (Plain [])), clNumText = (\<lambda>_. []),
       clURL = \<lparr>ulParse = (\<lambda>_. Inl (Plain [])), ulText = (\<lambda>_ _ _ _. [])\<rparr>, clStat = (\<lambda>_. None)\<rparr>,
     ceExists = (\<lambda>_. True), ceRun = (\<lambda>_ w. (([], None), w)), ceLinkFault = (\<lambda>_ _ _. None), ceNewClient = (\<lambda>_ _. None), ceHTTP = (\<lambda>_. Inl (Plain []))\<rparr>"
  have c: "path_clean (trim_space ?p) \<noteq> ''.''" by code_simp
  have "fst (load_persisted_profile ?env ?p ?w) = Inr (Some (trim_space (rsAppliedProfile (mgState ?m))))"
    by (rule update_restores_profile [OF _ _ c initial_manager_ok])
       (simp_all add: initial_manager_def)
  then show ?thesis by (auto simp: initial_manager_def)
qed

end
