(* ===== verification/GoSha256.thy ===== *)
theory GoSha256
  imports GoStrings
begin

text \<open>
  \<open>crypto/sha256\<close> and \<open>encoding/hex\<close>: the digest of a string of bytes as lower-case hexadecimal, after FIPS
  180-4, on 32-bit words. The message schedule is built by extending the 16 words of a block to 64.
\<close>

unbundle bit_operations_syntax

type_synonym word32 = "32 word"

definition round_constants :: "word32 list" where
  "round_constants =
     [0x428A2F98, 0x71374491, 0xB5C0FBCF, 0xE9B5DBA5, 0x3956C25B, 0x59F111F1, 0x923F82A4, 0xAB1C5ED5,
      0xD807AA98, 0x12835B01, 0x243185BE, 0x550C7DC3, 0x72BE5D74, 0x80DEB1FE, 0x9BDC06A7, 0xC19BF174,
      0xE49B69C1, 0xEFBE4786, 0x0FC19DC6, 0x240CA1CC, 0x2DE92C6F, 0x4A7484AA, 0x5CB0A9DC, 0x76F988DA,
      0x983E5152, 0xA831C66D, 0xB00327C8, 0xBF597FC7, 0xC6E00BF3, 0xD5A79147, 0x06CA6351, 0x14292967,
      0x27B70A85, 0x2E1B2138, 0x4D2C6DFC, 0x53380D13, 0x650A7354, 0x766A0ABB, 0x81C2C92E, 0x92722C85,
      0xA2BFE8A1, 0xA81A664B, 0xC24B8B70, 0xC76C51A3, 0xD192E819, 0xD6990624, 0xF40E3585, 0x106AA070,
      0x19A4C116, 0x1E376C08, 0x2748774C, 0x34B0BCB5, 0x391C0CB3, 0x4ED8AA4A, 0x5B9CCA4F, 0x682E6FF3,
      0x748F82EE, 0x78A5636F, 0x84C87814, 0x8CC70208, 0x90BEFFFA, 0xA4506CEB, 0xBEF9A3F7, 0xC67178F2]"

definition initial_hash :: "word32 list" where
  "initial_hash = [0x6A09E667, 0xBB67AE85, 0x3C6EF372, 0xA54FF53A, 0x510E527F, 0x9B05688C, 0x1F83D9AB, 0x5BE0CD19]"

definition rotr :: "nat \<Rightarrow> word32 \<Rightarrow> word32" where
  "rotr n x = drop_bit n x OR push_bit (32 - n) x"

subsection \<open>Padding\<close>

fun big_endian :: "nat \<Rightarrow> int \<Rightarrow> string" where
  "big_endian 0 n = []"
| "big_endian (Suc k) n = big_endian k (n div 256) @ [char_of (n mod 256)]"

text \<open>A one bit, zeros up to 56 bytes modulo 64, the length in bits as 8 bytes.\<close>

definition sha_pad :: "string \<Rightarrow> string" where
  "sha_pad s = s @ [CHR 0x80] @ replicate ((119 - length s mod 64) mod 64) CHR 0x00 @ big_endian 8 (8 * int (length s))"

fun words_of :: "string \<Rightarrow> word32 list" where
  "words_of (a # b # c # d # s) =
     word_of_int (((of_char a * 256 + of_char b) * 256 + of_char c) * 256 + of_char d) # words_of s"
| "words_of _ = []"

subsection \<open>One block\<close>

text \<open>The next word of the schedule, from the words so far, the latest first.\<close>

definition next_word :: "word32 list \<Rightarrow> word32" where
  "next_word ws =
     (let a = ws ! 14; b = ws ! 1;
          s0 = rotr 7 a XOR rotr 18 a XOR drop_bit 3 a;
          s1 = rotr 17 b XOR rotr 19 b XOR drop_bit 10 b
      in ws ! 15 + s0 + ws ! 6 + s1)"

definition schedule :: "word32 list \<Rightarrow> word32 list" where
  "schedule block = rev (((\<lambda>ws. next_word ws # ws) ^^ 48) (rev block))"

fun sha_round :: "word32 \<times> word32 \<Rightarrow> word32 list \<Rightarrow> word32 list" where
  "sha_round (k, w) [a, b, c, d, e, f, g, h] =
     (let s1 = rotr 6 e XOR rotr 11 e XOR rotr 25 e;
          ch = (e AND f) XOR (NOT e AND g);
          t1 = h + s1 + ch + k + w;
          s0 = rotr 2 a XOR rotr 13 a XOR rotr 22 a;
          maj = (a AND b) XOR (a AND c) XOR (b AND c)
      in [t1 + s0 + maj, a, b, c, d + t1, e, f, g])"
| "sha_round _ hs = hs"

definition sha_block :: "word32 list \<Rightarrow> word32 list \<Rightarrow> word32 list" where
  "sha_block hs block = map2 (+) hs (fold sha_round (zip round_constants (schedule block)) hs)"

function sha_blocks :: "word32 list \<Rightarrow> word32 list \<Rightarrow> word32 list" where
  "sha_blocks hs ws = (if ws = [] then hs else sha_blocks (sha_block hs (take 16 ws)) (drop 16 ws))"
  by pat_completeness auto
termination by (relation "measure (\<lambda>(hs, ws). length ws)") auto

declare sha_blocks.simps [simp del]

subsection \<open>The digest\<close>

definition word_bytes :: "word32 \<Rightarrow> string" where
  "word_bytes w = big_endian 4 (uint w)"

definition hex_text :: "string \<Rightarrow> string" where
  "hex_text s = concat (map (\<lambda>c. [hex_digit (of_char c div 16), hex_digit (of_char c mod 16)]) s)"

definition sha256_hex :: "string \<Rightarrow> string" where
  "sha256_hex s = hex_text (concat (map word_bytes (sha_blocks initial_hash (words_of (sha_pad s)))))"

lemma length_big_endian [simp]: "length (big_endian k n) = k"
  by (induction k arbitrary: n) simp_all

lemma length_sha_round [simp]: "length (sha_round kw hs) = length hs"
  by (induction kw hs rule: sha_round.induct) (simp_all add: Let_def)

lemma length_sha_block [simp]: "length (sha_block hs b) = length hs"
proof -
  have "length (fold sha_round kws hs) = length hs" for kws by (induction kws arbitrary: hs) simp_all
  then show ?thesis by (simp add: sha_block_def)
qed

lemma length_sha_blocks: "length (sha_blocks hs ws) = length hs"
proof (induction hs ws rule: sha_blocks.induct)
  case (1 hs ws)
  then show ?case by (cases "ws = []") (simp_all add: sha_blocks.simps)
qed

text \<open>A digest is 64 hexadecimal digits in lower case.\<close>

lemma sha256_hex_shape: "length (sha256_hex s) = 64" "list_all (\<lambda>c. byte_in 48 57 c \<or> byte_in 97 102 c) (sha256_hex s)"
proof -
  have len: "length (hex_text s) = 2 * length s" for s by (induction s) (simp_all add: hex_text_def)
  have wb: "length (concat (map word_bytes ws)) = 4 * length ws" for ws by (induction ws) (simp_all add: word_bytes_def)
  show "length (sha256_hex s) = 64" by (simp add: sha256_hex_def len wb length_sha_blocks initial_hash_def)
  have d: "d < 16 \<Longrightarrow> byte_in 48 57 (hex_digit d) \<or> byte_in 97 102 (hex_digit d)" for d
    by (auto simp: hex_digit_def byte_in_def)
  have lt: "of_char c div 16 < (16::nat)" for c :: char
    by (metis less_mult_imp_div_less of_char_mod_256 mod_less_divisor zero_less_numeral mult_numeral_1_right numeral_times_numeral semiring_norm(11) semiring_norm(12) semiring_norm(13))
  show "list_all (\<lambda>c. byte_in 48 57 c \<or> byte_in 97 102 c) (sha256_hex s)"
    unfolding sha256_hex_def hex_text_def using d lt by (auto simp: list_all_iff)
qed

end
