(* ===== verification/SelfUpdate.thy ===== *)
theory SelfUpdate
  imports CtlHost GoSha256
begin

text \<open>
  \<open>internal/agentctl/update.go\<close>: the self-update. A request, from a file or from the command line, becomes the
  options of a detached updater; the updater fetches the manifest of a release, downloads the binary,
  checks its SHA-256, replaces the installed binary by renaming, refreshes helpers and rules and restarts
  the service, reporting its progress. The HTTP client, the JSON decoder of a response and the journal are
  the record \<open>update_net\<close>; what waiting for the service meets is a list of checks.
\<close>

subsection \<open>Options\<close>

record update_options =
  uoTargetVersion :: string
  uoTargetID :: string
  uoRequestFile :: string
  uoRollback :: bool
  uoApplyNow :: bool

definition zero_options :: update_options where
  "zero_options = \<lparr>uoTargetVersion = [], uoTargetID = [], uoRequestFile = [], uoRollback = False, uoApplyNow = False\<rparr>"

definition update_flags :: "(string \<times> update_options flag_setter) list" where
  "update_flags =
     [(''target-version'', StringFlag (\<lambda>v. uoTargetVersion_update (\<lambda>_. v))),
      (''target-id'', StringFlag (\<lambda>v. uoTargetID_update (\<lambda>_. v))),
      (''request-file'', StringFlag (\<lambda>v. uoRequestFile_update (\<lambda>_. v))),
      (''rollback'', BoolFlag (\<lambda>v. uoRollback_update (\<lambda>_. v))),
      (''apply-now'', BoolFlag (\<lambda>v. uoApplyNow_update (\<lambda>_. v)))]"

text \<open>The struct has no tags: members are matched with the field names, ignoring case.\<close>

definition options_fields :: "update_options field list" where
  "options_fields =
     [(''TargetVersion'', dec_string ''updateOptions.TargetVersion'' uoTargetVersion_update),
      (''TargetID'', dec_string ''updateOptions.TargetID'' uoTargetID_update),
      (''RequestFile'', dec_string ''updateOptions.RequestFile'' uoRequestFile_update),
      (''Rollback'', dec_bool ''updateOptions.Rollback'' uoRollback_update),
      (''ApplyNow'', dec_bool ''updateOptions.ApplyNow'' uoApplyNow_update)]"

definition decode_options :: "(string \<Rightarrow> goerror + json) \<Rightarrow> string \<Rightarrow> goerror option \<times> update_options" where
  "decode_options parse data =
     (case parse data of
        Inl e \<Rightarrow> (Some e, zero_options)
      | Inr j \<Rightarrow> decode_struct ''agentctl.updateOptions'' options_fields j zero_options)"

definition trimmed_options :: "update_options \<Rightarrow> update_options" where
  "trimmed_options o1 = o1\<lparr>uoTargetVersion := trim_space (uoTargetVersion o1), uoTargetID := trim_space (uoTargetID o1)\<rparr>"

definition check_request :: "string \<Rightarrow> update_options \<Rightarrow> goerror + update_options" where
  "check_request path o1 =
     (let o2 = (trimmed_options o1)\<lparr>uoRequestFile := [], uoApplyNow := False\<rparr> in
      if uoTargetVersion o2 = [] then Inl (Plain (''update request file '' @ path @ '' is missing targetVersion''))
      else if uoTargetID o2 = [] then Inl (Plain (''update request file '' @ path @ '' is missing targetId''))
      else Inr o2)"

definition decode_request :: "(string \<Rightarrow> goerror + json) \<Rightarrow> string \<Rightarrow> string \<Rightarrow> goerror + update_options" where
  "decode_request parse path data =
     (case decode_options parse data of
        (Some e, o1) \<Rightarrow> Inl (wrap_prefix (''decode update request file '' @ path @ '': '') e)
      | (None, o1) \<Rightarrow> check_request path o1)"

definition consume_managed_update_request :: "(string \<Rightarrow> goerror + json) \<Rightarrow> string \<Rightarrow> update_options io" where
  "consume_managed_update_request parse path w =
     (case os_read_file path w of
        (Inl e, w1) \<Rightarrow> (Inl (wrap_prefix (''read update request file '' @ path @ '': '') e), w1)
      | (Inr data, w1) \<Rightarrow>
          (case os_remove path w1 of
             (None, w2) \<Rightarrow> (decode_request parse path data, w2)
           | (Some e, w2) \<Rightarrow>
               if err_is e OsErrNotExist then (decode_request parse path data, w2)
               else (Inl (wrap_prefix (''remove update request file '' @ path @ '': '') e), w2)))"

definition parse_update_options :: "(string \<Rightarrow> goerror + json) \<Rightarrow> string list \<Rightarrow> update_options io" where
  "parse_update_options parse args =
     io_bind (io_lift (parse_command ''update'' update_flags args zero_options)) (\<lambda>o0.
       let o1 = (trimmed_options o0)\<lparr>uoRequestFile := trim_space (uoRequestFile o0)\<rparr> in
       if uoRequestFile o1 \<noteq> [] then
         if uoTargetVersion o1 \<noteq> [] \<or> uoTargetID o1 \<noteq> [] \<or> uoRollback o1
         then io_fail (Plain ''update request-file cannot be combined with --target-version, --target-id, or --rollback'')
         else io_bind (consume_managed_update_request parse (uoRequestFile o1)) (\<lambda>o2. io_ret (o2\<lparr>uoApplyNow := uoApplyNow o1\<rparr>))
       else if uoTargetVersion o1 = [] then io_fail (Plain ''update requires --target-version'')
       else if uoTargetID o1 = [] then io_fail (Plain ''update requires --target-id'')
       else io_ret o1)"

subsection \<open>The detached updater\<close>

definition unit_char :: "string \<Rightarrow> char" where
  "unit_char r = (case r of [c] \<Rightarrow> if byte_in 97 122 c \<or> byte_in 48 57 c then c else CHR ''-'' | _ \<Rightarrow> CHR ''-'')"

definition sanitize_systemd_unit_component :: "string \<Rightarrow> string" where
  "sanitize_systemd_unit_component v =
     (let s = trim_space (to_lower v) in
      if s = [] then ''unknown''
      else (let cleaned = replace_all ''--'' ''-'' (trim_cutset ''-'' (map unit_char (runes s))) in
        if cleaned = [] then ''unknown'' else take 48 cleaned))"

definition detached_args :: "platform_spec \<Rightarrow> update_options \<Rightarrow> string list" where
  "detached_args spec o1 =
     [''--unit'', ''noderax-agent-updater-'' @ sanitize_systemd_unit_component (uoTargetID o1), ''--collect'',
      ''--property=Type=exec'', psBinaryPath spec, ''update'', ''--target-version'', uoTargetVersion o1,
      ''--target-id'', uoTargetID o1, ''--apply-now'']
     @ (if uoRollback o1 then [''--rollback''] else [])"

definition launch_detached_update :: "ctl_env \<Rightarrow> platform_spec \<Rightarrow> update_options \<Rightarrow> unit ctl" where
  "launch_detached_update env spec o1 =
     (if \<not> ceExists env ''systemd-run'' then cfail (Plain ''systemd-run is required to launch the detached updater'')
      else (\<lambda>h. case crun env (''systemd-run'' # detached_args spec o1) h of
          ((out, Some e), h1) \<Rightarrow>
            (Inl (if trim_space out = [] then wrap_prefix ''launch detached updater: '' e
                  else output_error ''launch detached updater: '' out e), h1)
        | ((out, None), h1) \<Rightarrow> (Inr (), h1)))"

subsection \<open>The manifest of a release\<close>

record release_artifact =
  raBinaryURL :: string
  raSHA256 :: string

record release_manifest =
  rmVersion :: string
  rmPublishedAt :: string
  rmCommit :: string
  rmChannel :: string
  rmAMD64 :: "release_artifact option"
  rmARM64 :: "release_artifact option"

record github_asset =
  gaName :: string
  gaURL :: string

record web_response =
  wrStatus :: int
  wrBody :: string
  wrReadErr :: "goerror option"

record update_net =
  unNewRequest :: "string \<Rightarrow> goerror option"
  unGet :: "(string \<times> string) list \<Rightarrow> string \<Rightarrow> goerror + web_response"
  unDecode :: "string \<Rightarrow> goerror + json"
  unJournal :: "string \<times> goerror option"
  unParse :: "string \<Rightarrow> goerror + json"

definition artifact_fields :: "release_artifact field list" where
  "artifact_fields = [(''binaryUrl'', dec_string ''releaseManifestArtifact.binaryUrl'' raBinaryURL_update),
     (''sha256'', dec_string ''releaseManifestArtifact.sha256'' raSHA256_update)]"

text \<open>A pointer to a struct: \<open>null\<close> clears it, an object is decoded into the struct it points to or a new one.\<close>

definition dec_struct_pointer ::
    "string \<Rightarrow> 'a field list \<Rightarrow> 'a \<Rightarrow> (('a option \<Rightarrow> 'a option) \<Rightarrow> 's \<Rightarrow> 's) \<Rightarrow> ('s \<Rightarrow> 'a option) \<Rightarrow> json \<Rightarrow> 's \<Rightarrow> goerror option \<times> 's" where
  "dec_struct_pointer tname fs zero upd get j s =
     (if j = JNull then (None, upd (\<lambda>_. None) s)
      else case decode_struct tname fs j (case get s of None \<Rightarrow> zero | Some x \<Rightarrow> x) of (e, x) \<Rightarrow> (e, upd (\<lambda>_. Some x) s))"

definition zero_artifact :: release_artifact where
  "zero_artifact = \<lparr>raBinaryURL = [], raSHA256 = []\<rparr>"

definition artifacts_fields :: "release_manifest field list" where
  "artifacts_fields =
     [(''amd64'', dec_struct_pointer ''agentctl.releaseManifestArtifact'' artifact_fields zero_artifact rmAMD64_update rmAMD64),
      (''arm64'', dec_struct_pointer ''agentctl.releaseManifestArtifact'' artifact_fields zero_artifact rmARM64_update rmARM64)]"

text \<open>The nested struct \<open>artifacts\<close> is kept in the same record.\<close>

definition manifest_fields :: "release_manifest field list" where
  "manifest_fields =
     [(''version'', dec_string ''releaseManifest.version'' rmVersion_update),
      (''publishedAt'', dec_string ''releaseManifest.publishedAt'' rmPublishedAt_update),
      (''commit'', dec_string ''releaseManifest.commit'' rmCommit_update),
      (''channel'', dec_string ''releaseManifest.channel'' rmChannel_update),
      (''artifacts'', decode_struct ''agentctl.releaseManifestArtifacts'' artifacts_fields)]"

definition zero_manifest :: release_manifest where
  "zero_manifest = \<lparr>rmVersion = [], rmPublishedAt = [], rmCommit = [], rmChannel = [], rmAMD64 = None, rmARM64 = None\<rparr>"

definition good_status :: "int \<Rightarrow> bool" where
  "good_status s \<longleftrightarrow> 200 \<le> s \<and> s < 300"

text \<open>\<open>json.NewDecoder(response.Body).Decode\<close>: what was read, then the read error, reaches the decoder.\<close>

definition decode_body :: "update_net \<Rightarrow> web_response \<Rightarrow> goerror + json" where
  "decode_body net r = (case unDecode net (wrBody r) of
     Inr j \<Rightarrow> Inr j | Inl e \<Rightarrow> Inl (case wrReadErr r of Some re \<Rightarrow> re | None \<Rightarrow> e))"

definition check_manifest :: "string \<Rightarrow> release_manifest \<Rightarrow> goerror + release_manifest" where
  "check_manifest url m =
     (if trim_space (rmVersion m) = [] \<or> rmChannel m \<noteq> ''tag''
      then Inl (Plain (''release manifest '' @ url @ '' is invalid'')) else Inr m)"

definition fetch_manifest_from_url :: "update_net \<Rightarrow> string \<Rightarrow> (string \<times> string) list \<Rightarrow> goerror + release_manifest" where
  "fetch_manifest_from_url net url headers =
     (case unNewRequest net url of
        Some e \<Rightarrow> Inl e
      | None \<Rightarrow>
          (case unGet net headers url of
             Inl e \<Rightarrow> Inl (wrap_prefix (''fetch release manifest '' @ url @ '': '') e)
           | Inr r \<Rightarrow>
               if \<not> good_status (wrStatus r)
               then Inl (Plain (''fetch release manifest '' @ url @ '': status='' @ int_text (wrStatus r)))
               else (case (case decode_body net r of Inl e \<Rightarrow> (Some e, zero_manifest)
                       | Inr j \<Rightarrow> decode_struct ''agentctl.releaseManifest'' manifest_fields j zero_manifest) of
                   (Some e, m) \<Rightarrow> Inl (wrap_prefix (''decode release manifest '' @ url @ '': '') e)
                 | (None, m) \<Rightarrow> check_manifest url m)))"

definition cdn_manifest_url :: "string \<Rightarrow> string" where
  "cdn_manifest_url version = ''https://cdn.noderax.net/noderax-agent/releases/'' @ version @ ''/release-manifest.json''"

definition github_release_url :: "string \<Rightarrow> string" where
  "github_release_url version = ''https://api.github.com/repos/noderax/noderax-agent/releases/tags/agent-v'' @ version"

definition asset_fields :: "github_asset field list" where
  "asset_fields = [(''name'', dec_string ''githubReleaseAsset.name'' gaName_update),
     (''browser_download_url'', dec_string ''githubReleaseAsset.browser_download_url'' gaURL_update)]"

fun dec_assets :: "json list \<Rightarrow> goerror option \<times> github_asset list" where
  "dec_assets [] = (None, [])"
| "dec_assets (j # js) =
     (case decode_struct ''agentctl.githubReleaseAsset'' asset_fields j \<lparr>gaName = [], gaURL = []\<rparr> of
        (e, a) \<Rightarrow> (case dec_assets js of (e1, rest) \<Rightarrow> (first_error e e1, a # rest)))"

definition release_fields :: "github_asset list field list" where
  "release_fields = [(''assets'', \<lambda>j s. case j of
       JArr js \<Rightarrow> dec_assets js
     | JNull \<Rightarrow> (None, [])
     | _ \<Rightarrow> (Some (type_error (json_kind j) ''githubReleaseResponse.assets'' ''[]agentctl.githubReleaseAsset''), s))]"

definition manifest_asset :: "github_asset \<Rightarrow> bool" where
  "manifest_asset a \<longleftrightarrow> gaName a = ''release-manifest.json'' \<and> trim_space (gaURL a) \<noteq> []"

definition fetch_from_github :: "update_net \<Rightarrow> string \<Rightarrow> goerror \<Rightarrow> goerror + release_manifest" where
  "fetch_from_github net version err =
     (let url = github_release_url version in
      case unNewRequest net url of
        Some e \<Rightarrow> Inl e
      | None \<Rightarrow>
          (case unGet net [(''Accept'', ''application/vnd.github+json''), (''User-Agent'', ''noderax-agent'')] url of
             Inl e \<Rightarrow> Inl (wrap_prefix ''fetch release manifest from CDN and GitHub: '' err)
           | Inr r \<Rightarrow>
               if \<not> good_status (wrStatus r)
               then Inl (Wrapped (''fetch release manifest from CDN and GitHub: '' @ err_text err @ ''; github status='' @ int_text (wrStatus r)) err)
               else (case (case decode_body net r of Inl e \<Rightarrow> (Some e, [])
                       | Inr j \<Rightarrow> decode_struct ''agentctl.githubReleaseResponse'' release_fields j []) of
                   (Some e, as) \<Rightarrow> Inl (wrap_prefix ''decode GitHub release metadata: '' e)
                 | (None, as) \<Rightarrow>
                     (case find manifest_asset as of
                        Some a \<Rightarrow> fetch_manifest_from_url net (gaURL a) [(''Accept'', ''application/json''), (''User-Agent'', ''noderax-agent'')]
                      | None \<Rightarrow> Inl (Plain (''release manifest asset was not found for agent '' @ version))))))"

definition fetch_release_manifest :: "update_net \<Rightarrow> string \<Rightarrow> goerror + release_manifest" where
  "fetch_release_manifest net version =
     (case fetch_manifest_from_url net (cdn_manifest_url version) [] of
        Inr m \<Rightarrow> Inr m | Inl err \<Rightarrow> fetch_from_github net version err)"

definition select_release_artifact :: "release_manifest \<Rightarrow> string \<Rightarrow> goerror + release_artifact" where
  "select_release_artifact m arch =
     (if arch = ''amd64'' then
        (case rmAMD64 m of Some a \<Rightarrow> Inr a
         | None \<Rightarrow> Inl (Plain (''official release '' @ rmVersion m @ '' does not include an amd64 artifact'')))
      else if arch = ''arm64'' then
        (case rmARM64 m of Some a \<Rightarrow> Inr a
         | None \<Rightarrow> Inl (Plain (''official release '' @ rmVersion m @ '' does not include an arm64 artifact'')))
      else Inl (Plain (''agent self-update does not support architecture '' @ arch)))"

subsection \<open>Download, check, replace\<close>

definition copy_body :: "string \<Rightarrow> web_response \<Rightarrow> world \<Rightarrow> goerror option \<times> world" where
  "copy_body t r w = (case os_write t (wrBody r) w of (Some e, w1) \<Rightarrow> (Some e, w1) | (None, w1) \<Rightarrow> (wrReadErr r, w1))"

definition fetch_into :: "update_net \<Rightarrow> string \<Rightarrow> string \<Rightarrow> string io" where
  "fetch_into net url t =
     (case unNewRequest net url of
        Some e \<Rightarrow> io_fail e
      | None \<Rightarrow>
          (case unGet net [(''Accept'', ''application/octet-stream''), (''User-Agent'', ''noderax-agent'')] url of
             Inl e \<Rightarrow> io_fail (wrap_prefix ''download official agent artifact: '' e)
           | Inr r \<Rightarrow>
               if \<not> good_status (wrStatus r)
               then io_fail (Plain (''download official agent artifact failed with status '' @ int_text (wrStatus r)))
               else io_bind (io_check (wrap_prefix ''write downloaded artifact: '') (copy_body t r)) (\<lambda>_.
                    io_bind (io_check (wrap_prefix ''chmod downloaded artifact: '') (os_chmod t 0x1ED)) (\<lambda>_. io_ret t))))"

text \<open>\<open>defer file.Close()\<close>, its error ignored.\<close>

definition closing :: "string \<Rightarrow> 'a io \<Rightarrow> 'a io" where
  "closing t m w = (case m w of (r, w1) \<Rightarrow> (r, snd (os_close t w1)))"

definition download_pattern :: "string \<Rightarrow> string" where
  "download_pattern version = ''.noderax-agent-'' @ sanitize_systemd_unit_component version @ ''-*.tmp''"

definition create_download :: "string \<Rightarrow> string \<Rightarrow> string io" where
  "create_download dir version w =
     (case os_create_temp dir (download_pattern version) w of
        (Inl e, w1) \<Rightarrow> (Inl (wrap_prefix ''create temporary download file: '' e), w1)
      | (Inr t, w1) \<Rightarrow> (Inr t, w1))"

definition download_release_artifact :: "update_net \<Rightarrow> string \<Rightarrow> string \<Rightarrow> string \<Rightarrow> string io" where
  "download_release_artifact net url dir version =
     io_bind (io_check (wrap_prefix (''create install directory '' @ dir @ '': '')) (os_mkdir_all dir)) (\<lambda>_.
     io_bind (create_download dir version) (\<lambda>t. closing t (fetch_into net url t)))"

text \<open>\<open>strings.EqualFold\<close> with a digest: only ASCII letters fold to its digits.\<close>

definition equal_fold_ascii :: "string \<Rightarrow> string \<Rightarrow> bool" where
  "equal_fold_ascii s t \<longleftrightarrow> map ascii_lower s = map ascii_lower t"

definition checksum_matches :: "string \<Rightarrow> string \<Rightarrow> bool" where
  "checksum_matches expected content \<longleftrightarrow> equal_fold_ascii (trim_space expected) (sha256_hex content)"

definition verify_artifact_checksum :: "string \<Rightarrow> string \<Rightarrow> unit io" where
  "verify_artifact_checksum path expected w =
     (case os_read_file path w of
        (Inl e, w1) \<Rightarrow> (Inl (wrap_prefix ''open downloaded artifact: '' e), w1)
      | (Inr content, w1) \<Rightarrow>
          (if checksum_matches expected content then Inr ()
           else Inl (Plain (''downloaded artifact checksum mismatch: expected '' @ expected @ '', got '' @ sha256_hex content)), w1))"

definition install_release_artifact :: "string \<Rightarrow> string \<Rightarrow> unit io" where
  "install_release_artifact download binary w =
     (let staged = binary @ ''.next'' in
      io_bind (io_check (wrap_prefix ''stage updated binary: '') (os_rename download staged)) (\<lambda>_.
      io_bind (io_check (wrap_prefix ''chmod staged binary: '') (os_chmod staged 0x1ED)) (\<lambda>_.
      io_check (wrap_prefix ''replace managed binary: '') (os_rename staged binary))) (snd (os_remove staged w)))"

subsection \<open>Waiting for the service\<close>

definition read_service_failure_detail :: "string \<times> goerror option \<Rightarrow> string" where
  "read_service_failure_detail j =
     (case j of
        (out, Some e) \<Rightarrow>
          (let m = trim_space out in
           if m = [] then ''unable to read journal: '' @ err_text e else ''unable to read journal: '' @ err_text e @ '': '' @ m)
      | (out, None) \<Rightarrow>
          (let ls = split_char CHR 0x0A (trim_space out) in
           if ls = [] \<or> trim_space (last ls) = [] then ''journal did not return any recent entries''
           else str_join '' | '' (drop (length ls - 5) ls)))"

text \<open>One turn: the error of the context, whether the service is active, the time when it is compared.\<close>

record service_check =
  scCtxErr :: "goerror option"
  scActive :: bool
  scNow :: int

fun wait_loop_service :: "string \<Rightarrow> string \<times> goerror option \<Rightarrow> int \<Rightarrow> service_check list \<Rightarrow> goerror option option" where
  "wait_loop_service name journal deadline [] = None"
| "wait_loop_service name journal deadline (c # cs) =
     (case scCtxErr c of
        Some e \<Rightarrow> Some (Some e)
      | None \<Rightarrow>
          if scActive c then Some None
          else if scNow c > deadline
          then Some (Some (Plain (''service '' @ name @ '' did not become active after restart: '' @ read_service_failure_detail journal)))
          else wait_loop_service name journal deadline cs)"

definition wait_for_restarted_service :: "string \<Rightarrow> string \<times> goerror option \<Rightarrow> int \<Rightarrow> service_check list \<Rightarrow> goerror option option" where
  "wait_for_restarted_service name journal start checks = wait_loop_service name journal (start + 30 * second) checks"

subsection \<open>Applying an update\<close>

definition progress_json :: "update_progress \<Rightarrow> json" where
  "progress_json p = JObj ([(''status'', JStr (pgStatus p)), (''progressPercent'', JNum (int_text (pgPercent p)))]
     @ omit_empty ''message'' (pgMessage p))"

definition no_identity :: "config \<Rightarrow> bool" where
  "no_identity c \<longleftrightarrow> trim_space (cfNodeID c) = [] \<or> trim_space (cfAgentToken c) = []"

definition update_client :: "config \<Rightarrow> client" where
  "update_client c = set_agent_token (cfAgentToken c) (set_agent_node_id (cfNodeID c) \<lparr>cAuthToken = [], cNodeIDHeader = []\<rparr>)"

text \<open>\<open>client.ReportAgentUpdateProgress\<close>: the path, credentials and body posted.\<close>

definition post_progress :: "ctl_env \<Rightarrow> client \<Rightarrow> string \<Rightarrow> update_progress \<Rightarrow> unit ctl" where
  "post_progress env c target p h =
     (let path = update_progress_path target in
      (case client_post (ceHTTP env) c path (progress_json p) of Inl e \<Rightarrow> Inl e | Inr r \<Rightarrow> Inr (),
       h\<lparr>hoPosts := hoPosts h @ [(path, cAuthToken c, cNodeIDHeader c, progress_json p)]\<rparr>))"

definition report_managed_update_progress :: "ctl_env \<Rightarrow> platform_spec \<Rightarrow> update_options \<Rightarrow> update_progress \<Rightarrow> unit ctl" where
  "report_managed_update_progress env spec o1 p =
     cbind (cio (load_managed_config (ceLib env) spec)) (\<lambda>c.
       if no_identity c then cfail (Plain ''managed agent identity is missing'')
       else cbind (cwrap (wrap_prefix ''configure API client: '') (cguard (ceNewClient env (cfAPIURL c) (cfAPITLSCAFile c)))) (\<lambda>_.
         post_progress env (update_client c) (uoTargetID o1) p))"

text \<open>The closure \<open>report\<close>: it remembers the progress, tries to report it and ignores a failure.\<close>

definition report :: "ctl_env \<Rightarrow> platform_spec \<Rightarrow> update_options \<Rightarrow> string \<Rightarrow> int \<Rightarrow> string \<Rightarrow> unit ctl" where
  "report env spec o1 status percent message h =
     (let p = \<lparr>pgStatus = status, pgPercent = percent, pgMessage = message\<rparr> in
      case report_managed_update_progress env spec o1 p (h\<lparr>hoProgress := percent, hoReports := hoReports h @ [p]\<rparr>) of
        (r, h1) \<Rightarrow> (Inr (), h1))"

text \<open>\<open>defer os.Remove(downloadPath)\<close>.\<close>

definition removing :: "string \<Rightarrow> 'a ctl \<Rightarrow> 'a ctl" where
  "removing path m h = (case m h of (r, h1) \<Rightarrow> (r, snd (cfiles (os_remove path) h1)))"

definition restart_service :: "ctl_env \<Rightarrow> platform_spec \<Rightarrow> unit ctl" where
  "restart_service env spec h =
     (case crun env [''systemctl'', ''restart'', psServiceName spec] h of
        ((out, Some e), h1) \<Rightarrow>
          (Inl (if trim_space out = [] then wrap_prefix (''restart service '' @ psServiceName spec @ '': '') e
                else output_error (''restart service '' @ psServiceName spec @ '': '') out e), h1)
      | ((out, None), h1) \<Rightarrow> (Inr (), h1))"

text \<open>From the replaced binary to the end; \<open>waited\<close> is the result of waiting for the service.\<close>

definition activate_stages :: "ctl_env \<Rightarrow> goerror option \<Rightarrow> platform_spec \<Rightarrow> update_options \<Rightarrow> unit ctl" where
  "activate_stages env waited spec o1 =
     cbind (if psSymlinkPath spec \<noteq> [] then ensure_symlink env (psBinaryPath spec) (psSymlinkPath spec) else cret ()) (\<lambda>_.
     cbind (refresh_helpers env ''refresh'' spec) (\<lambda>_.
     cbind (cwrap (wrap_prefix ''refresh applied root access profile: '') (reconcile_root_access_profile env spec)) (\<lambda>_.
     cbind (report env spec o1 ''restarting'' 90 (''Restarting '' @ psServiceName spec @ ''.'')) (\<lambda>_.
     cbind (restart_service env spec) (\<lambda>_.
     cbind (cguard waited) (\<lambda>_.
     report env spec o1 ''waiting_for_reconnect'' 95
       (''Restart requested. Waiting for the '' @ psServiceName spec @ '' heartbeat to confirm agent '' @ uoTargetVersion o1 @ ''.'')))))))"

definition install_stages :: "ctl_env \<Rightarrow> goerror option \<Rightarrow> platform_spec \<Rightarrow> update_options \<Rightarrow> string \<Rightarrow> release_artifact \<Rightarrow> unit ctl" where
  "install_stages env waited spec o1 download a =
     cbind (report env spec o1 ''verifying'' 45 (''Verifying the official '' @ ceArch env @ '' binary checksum.'')) (\<lambda>_.
     cbind (cio (verify_artifact_checksum download (raSHA256 a))) (\<lambda>_.
     cbind (report env spec o1 ''installing'' 70 ''Replacing the managed noderax-agent binary.'') (\<lambda>_.
     cbind (cio (install_release_artifact download (psBinaryPath spec))) (\<lambda>_.
     activate_stages env waited spec o1))))"

definition update_body :: "ctl_env \<Rightarrow> update_net \<Rightarrow> goerror option \<Rightarrow> platform_spec \<Rightarrow> update_options \<Rightarrow> unit ctl" where
  "update_body env net waited spec o1 =
     cbind (report env spec o1 ''downloading'' 20 (''Fetching the official agent '' @ uoTargetVersion o1 @ '' release manifest.'')) (\<lambda>_.
     cbind (clift (fetch_release_manifest net (uoTargetVersion o1))) (\<lambda>m.
     cbind (clift (select_release_artifact m (ceArch env))) (\<lambda>a.
     cbind (cio (download_release_artifact net (raBinaryURL a) (psInstallDir spec) (uoTargetVersion o1))) (\<lambda>download.
     removing download (install_stages env waited spec o1 download a)))))"

definition run_update :: "ctl_env \<Rightarrow> update_net \<Rightarrow> goerror option \<Rightarrow> platform_spec \<Rightarrow> update_options \<Rightarrow> unit ctl" where
  "run_update env net waited spec o1 =
     cbind (cwrap (wrap_prefix ''load managed config: '') (cio (load_managed_config (ceLib env) spec))) (\<lambda>c.
       if no_identity c
       then cfail (Plain ''managed agent identity is missing; self-update requires a registered node id and agent token'')
       else cbind (cwrap (wrap_prefix ''configure API client: '') (cguard (ceNewClient env (cfAPIURL c) (cfAPITLSCAFile c)))) (\<lambda>_ h.
         (case update_body env net waited spec o1 (h\<lparr>hoProgress := 0\<rparr>) of
            (Inl e, h1) \<Rightarrow> (Inl e, snd (report env spec o1 ''failed'' (hoProgress h1) (err_text e) h1))
          | (Inr u, h1) \<Rightarrow> (Inr u, h1))))"

text \<open>\<open>applyManagedUpdate\<close>: no result while the checks of the service go on.\<close>

definition apply_managed_update :: "ctl_env \<Rightarrow> update_net \<Rightarrow> int \<Rightarrow> service_check list \<Rightarrow> platform_spec \<Rightarrow> update_options \<Rightarrow> ctl_host
    \<Rightarrow> ((goerror + unit) \<times> ctl_host) option" where
  "apply_managed_update env net start checks spec o1 h =
     map_option (\<lambda>waited. run_update env net waited spec o1 h)
       (wait_for_restarted_service (psServiceName spec) (unJournal net) start checks)"

text \<open>\<open>CLI.Update\<close>.\<close>

definition update_command :: "ctl_env \<Rightarrow> update_net \<Rightarrow> int \<Rightarrow> service_check list \<Rightarrow> string list \<Rightarrow> ctl_host
    \<Rightarrow> ((goerror + unit) \<times> ctl_host) option" where
  "update_command env net start checks args h =
     (case current_platform_spec (ceGoos env) of
        Inl e \<Rightarrow> Some (Inl e, h)
      | Inr spec \<Rightarrow>
          (case (if psRequiresRoot spec then require_root (ceEuid env) else None) of
             Some e \<Rightarrow> Some (Inl e, h)
           | None \<Rightarrow>
               if ceGoos env \<noteq> ''linux'' \<or> psManager spec \<noteq> ''systemd''
               then Some (Inl (Plain ''agent self-update currently supports Linux hosts managed by systemd only''), h)
               else (case cio (parse_update_options (unParse net) args) h of
                   (Inl e, h1) \<Rightarrow> Some (Inl e, h1)
                 | (Inr o1, h1) \<Rightarrow>
                     if uoApplyNow o1 then apply_managed_update env net start checks spec o1 h1
                     else (case launch_detached_update env spec o1 h1 of
                         (Inr u, h2) \<Rightarrow> Some (Inr u, h2)
                       | (Inl e, h2) \<Rightarrow>
                           Some (Inl e, snd (report_managed_update_progress env spec o1
                             \<lparr>pgStatus = ''failed'', pgPercent = 0, pgMessage = err_text e\<rparr> h2))))))"

subsection \<open>Requests and options\<close>

lemma option_field_lookup:
  "find_field options_fields ''targetVersion'' = Some (dec_string ''updateOptions.TargetVersion'' uoTargetVersion_update)"
  "find_field options_fields ''targetId'' = Some (dec_string ''updateOptions.TargetID'' uoTargetID_update)"
  "find_field options_fields ''rollback'' = Some (dec_bool ''updateOptions.Rollback'' uoRollback_update)"
proof -
  have "fold_name ''targetVersion'' = ''targetversion''" "fold_name ''TargetVersion'' = ''targetversion''"
    "fold_name ''targetId'' = ''targetid''" "fold_name ''TargetID'' = ''targetid''" "fold_name ''rollback'' = ''rollback''"
    "fold_name ''Rollback'' = ''rollback''" "fold_name ''RequestFile'' = ''requestfile''" "fold_name ''ApplyNow'' = ''applynow''"
    by code_simp+
  then show
    "find_field options_fields ''targetVersion'' = Some (dec_string ''updateOptions.TargetVersion'' uoTargetVersion_update)"
    "find_field options_fields ''targetId'' = Some (dec_string ''updateOptions.TargetID'' uoTargetID_update)"
    "find_field options_fields ''rollback'' = Some (dec_bool ''updateOptions.Rollback'' uoRollback_update)"
    by (simp_all add: options_fields_def find_field_def)
qed

lemma decode_options_payload:
  assumes "parse (json_text (update_payload_json p) @ [CHR 0x0A]) = Inr (update_payload_json p)"
  shows "decode_options parse (json_text (update_payload_json p) @ [CHR 0x0A])
    = (None, zero_options\<lparr>uoTargetVersion := upTargetVersion p, uoTargetID := upTargetID p, uoRollback := upRollback p\<rparr>)"
  using assms
  by (cases "upRollback p") (simp_all add: decode_options_def update_payload_json_def decode_struct_def option_field_lookup dec_string_def
      dec_bool_def omit_false_def first_error_def zero_options_def)

text \<open>
  An update request survives the hand-over to root: what the helper's updater reads from the file the agent
  wrote is the requested version and target, trimmed, and the roll-back flag, and the request is gone
  afterwards, so that it is acted on at most once.
\<close>

theorem update_request_round_trip:
  assumes "write_managed_update_request p path w = (None, w1)" "request_target path = path"
    and "parse (json_text (update_payload_json p) @ [CHR 0x0A]) = Inr (update_payload_json p)"
    and "consume_managed_update_request parse path w1 = (Inr o1, w2)" "\<forall>e. wfault w1 (Suc (wtick w1)) (OpRemove path) = Some e \<longrightarrow> \<not> err_is e OsErrNotExist"
  shows "o1 = \<lparr>uoTargetVersion = trim_space (upTargetVersion p), uoTargetID = trim_space (upTargetID p), uoRequestFile = [],
      uoRollback = upRollback p, uoApplyNow = False\<rparr> \<and> uoTargetVersion o1 \<noteq> [] \<and> uoTargetID o1 \<noteq> [] \<and> wfiles w2 path = None
    \<and> fst (consume_managed_update_request parse path w2) \<noteq> Inr o2"
proof -
  let ?data = "json_text (update_payload_json p) @ [CHR 0x0A]"
  have f: "wfiles w1 path = Some (?data, 0x180)" using update_writer.writer_ok [OF assms(1)] assms(2) by simp
  from assms(4) f have rd: "os_read_file path w1 = (Inr ?data, set_files (wfiles w1) w1)"
    by (auto simp: consume_managed_update_request_def os_read_file_def split: option.splits)
  let ?w = "set_files (wfiles w1) w1"
  obtain rm where rm: "os_remove path ?w = (rm, w2)" "decode_request parse path ?data = Inr o1"
    "rm = None \<or> (\<exists>e. rm = Some e \<and> err_is e OsErrNotExist)"
    using assms(4) rd by (auto simp: consume_managed_update_request_def split: prod.splits option.splits if_splits)
  have gone: "wfiles w2 path = None"
    using rm(1,3) f assms(5) by (auto simp: os_remove_def split: option.splits if_splits)
  have o1: "check_request path (zero_options\<lparr>uoTargetVersion := upTargetVersion p, uoTargetID := upTargetID p, uoRollback := upRollback p\<rparr>) = Inr o1"
    using rm(2) decode_options_payload [where p = p and parse = parse] assms(3) by (simp add: decode_request_def)
  have "fst (consume_managed_update_request parse path w2) \<noteq> Inr o2"
    by (simp add: consume_managed_update_request_def os_read_file_def gone split: option.splits)
  with o1 gone show ?thesis
    by (auto simp: check_request_def trimmed_options_def zero_options_def Let_def split: if_splits)
qed

lemma update_flag_steps:
  "parse_flags update_flags (''--target-version'' # v # rest) s = parse_flags update_flags rest (s\<lparr>uoTargetVersion := v\<rparr>)"
  "parse_flags update_flags (''--target-id'' # v # rest) s = parse_flags update_flags rest (s\<lparr>uoTargetID := v\<rparr>)"
  "parse_flags update_flags (''--apply-now'' # rest) s = parse_flags update_flags rest (s\<lparr>uoApplyNow := True\<rparr>)"
  "parse_flags update_flags (''--rollback'' # rest) s = parse_flags update_flags rest (s\<lparr>uoRollback := True\<rparr>)"
  using parse_flag_string [where n = "''target-version''" and fs = update_flags and t = v and rest = rest and s = s]
    parse_flag_string [where n = "''target-id''" and fs = update_flags and t = v and rest = rest and s = s]
    parse_flag_bool [where n = "''apply-now''" and fs = update_flags and rest = rest and s = s]
    parse_flag_bool [where n = "''rollback''" and fs = update_flags and rest = rest and s = s]
  by (simp_all add: plain_name_def update_flags_def)

text \<open>
  The detached updater gets the options it was launched with: from the arguments that follow \<open>update\<close> it
  reads the same version, target and roll-back flag, with \<open>--apply-now\<close> set, touching no file, whatever the
  version and target are made of.
\<close>

theorem detached_arguments_round_trip:
  assumes "uoTargetVersion o1 \<noteq> []" "uoTargetID o1 \<noteq> []" "trimmed_options o1 = o1"
  shows "parse_update_options parse (drop 6 (detached_args spec o1)) w
    = (Inr (o1\<lparr>uoRequestFile := [], uoApplyNow := True\<rparr>), w)"
proof -
  have "trim_space (uoTargetVersion o1) = uoTargetVersion o1" "trim_space (uoTargetID o1) = uoTargetID o1"
    using assms(3) by (metis trimmed_options_def update_options.select_convs(1,2) update_options.surjective update_options.update_convs(1,2))+
  moreover have "parse_command ''update'' update_flags (drop 6 (detached_args spec o1)) zero_options
      = Inr \<lparr>uoTargetVersion = uoTargetVersion o1, uoTargetID = uoTargetID o1, uoRequestFile = [], uoRollback = uoRollback o1, uoApplyNow = True\<rparr>"
    by (cases "uoRollback o1") (simp_all add: detached_args_def parse_command_def update_flag_steps zero_options_def)
  ultimately show ?thesis
    using assms(1,2) by (simp add: parse_update_options_def trimmed_options_def io_ret_def)
qed

subsection \<open>Unit names\<close>

definition unit_name_char :: "char \<Rightarrow> bool" where
  "unit_name_char c \<longleftrightarrow> byte_in 97 122 c \<or> byte_in 48 57 c \<or> c = CHR ''-''"

lemma replace_all_set: "set (replace_all old new s) \<subseteq> set new \<union> set s"
proof (induction old new s rule: replace_all.induct)
  case (2 old new c s)
  show ?case
  proof (cases "old \<noteq> [] \<and> has_prefix (c # s) old")
    case True
    with 2(1) have "set (replace_all old new (drop (length old) (c # s))) \<subseteq> set new \<union> set (drop (length old) (c # s))" by blast
    with True show ?thesis by (subst replace_all.simps(2)) (use set_drop_subset [of "length old" "c # s"] in auto)
  next
    case False
    with 2(2) have "set (replace_all old new s) \<subseteq> set new \<union> set s" by blast
    with False show ?thesis by (subst replace_all.simps(2)) auto
  qed
qed simp

lemma replace_all_Nil_iff: "new \<noteq> [] \<Longrightarrow> replace_all old new s = [] \<longleftrightarrow> s = []"
  by (cases s) (simp_all add: replace_all.simps(2))

lemma trim_cutset_set: "set (trim_cutset cs s) \<subseteq> set s"
  by (auto simp: trim_cutset_def trim_right_def trim_left_def dest!: set_dropWhileD)

text \<open>
  Every target id gives a usable unit name: 1 to 48 characters, lower-case letters, digits and dashes only,
  the first of which is no dash.
\<close>

theorem unit_name_well_formed:
  "sanitize_systemd_unit_component v \<noteq> [] \<and> length (sanitize_systemd_unit_component v) \<le> 48
    \<and> (\<forall>c\<in>set (sanitize_systemd_unit_component v). unit_name_char c) \<and> hd (sanitize_systemd_unit_component v) \<noteq> CHR ''-''"
proof -
  let ?raw = "trim_cutset ''-'' (map unit_char (runes (trim_space (to_lower v))))"
  let ?cleaned = "replace_all ''--'' ''-'' ?raw"
  have raw: "\<forall>c\<in>set ?raw. unit_name_char c"
  proof
    fix c assume "c \<in> set ?raw"
    with trim_cutset_set [of "''-''"] have "c \<in> set (map unit_char (runes (trim_space (to_lower v))))" by blast
    then obtain r where "c = unit_char r" by auto
    then show "unit_name_char c" by (auto simp: unit_char_def unit_name_char_def split: list.splits)
  qed
  have chars: "\<forall>c\<in>set ?cleaned. unit_name_char c"
  proof
    fix c assume "c \<in> set ?cleaned"
    with replace_all_set [of "''--''" "''-''" ?raw] have "c = CHR ''-'' \<or> c \<in> set ?raw" by auto
    with raw show "unit_name_char c" by (auto simp: unit_name_char_def)
  qed
  have first: "?cleaned \<noteq> [] \<Longrightarrow> hd ?cleaned \<noteq> CHR ''-''"
  proof -
    assume "?cleaned \<noteq> []"
    then have ne: "?raw \<noteq> []" by (simp add: replace_all_Nil_iff)
    then obtain x xs where x: "?raw = x # xs" by (cases ?raw) auto
    obtain t where "trim_left ''-'' (map unit_char (runes (trim_space (to_lower v)))) = ?raw @ t"
      using trim_right_split unfolding trim_cutset_def by metis
    then have "x = hd (dropWhile (\<lambda>c. c \<in> set ''-'') (map unit_char (runes (trim_space (to_lower v)))))"
      "dropWhile (\<lambda>c. c \<in> set ''-'') (map unit_char (runes (trim_space (to_lower v)))) \<noteq> []"
      using x by (auto simp: trim_left_def)
    then have "x \<notin> set ''-''" by (metis hd_dropWhile)
    then have "x \<noteq> CHR ''-''" by simp
    then show ?thesis unfolding x by (simp add: replace_all.simps(2))
  qed
  have unk: "''unknown'' \<noteq> []" "\<forall>c\<in>set ''unknown''. unit_name_char c" "hd ''unknown'' \<noteq> CHR ''-''"
    by (simp_all add: unit_name_char_def byte_in_def)
  show ?thesis
  proof (cases "trim_space (to_lower v) = [] \<or> ?cleaned = []")
    case True
    then have "sanitize_systemd_unit_component v = ''unknown''" by (auto simp: sanitize_systemd_unit_component_def Let_def)
    with unk show ?thesis by simp
  next
    case False
    then have s: "sanitize_systemd_unit_component v = take 48 ?cleaned" by (auto simp: sanitize_systemd_unit_component_def Let_def)
    from False have ne: "?cleaned \<noteq> []" by blast
    then have "take 48 ?cleaned \<noteq> []" "hd (take 48 ?cleaned) = hd ?cleaned" by simp_all
    moreover have "\<forall>c\<in>set (take 48 ?cleaned). unit_name_char c" using chars set_take_subset by fast
    ultimately show ?thesis using first [OF ne] unfolding s by simp
  qed
qed

subsection \<open>Waiting ends\<close>

text \<open>The turns of a wait: each compares a time at least a second after the one before.\<close>

fun second_apart :: "int \<Rightarrow> service_check list \<Rightarrow> bool" where
  "second_apart t [] \<longleftrightarrow> True"
| "second_apart t (c # cs) \<longleftrightarrow> t + second \<le> scNow c \<and> second_apart (scNow c) cs"

lemma wait_loop_service_ends:
  "second_apart t cs \<Longrightarrow> deadline < t + int (length cs) * second \<Longrightarrow> wait_loop_service name journal deadline cs = None \<Longrightarrow> deadline < t"
proof (induction cs arbitrary: t)
  case (Cons c cs)
  from Cons.prems have step: "t + second \<le> scNow c" "second_apart (scNow c) cs" by auto
  from Cons.prems(3) have rest: "wait_loop_service name journal deadline cs = None" "scNow c \<le> deadline"
    by (auto split: option.splits if_splits)
  have "deadline < scNow c + int (length cs) * second" using Cons.prems(2) step(1) by simp
  from Cons.IH [OF step(2) this rest(1)] rest(2) show ?case by simp
qed simp

text \<open>
  Waiting for the restarted service ends: with a sleep of a second between the checks it is decided after at
  most 32 of them, and an update as a whole has a result.
\<close>

theorem service_wait_ends:
  assumes "second_apart (start - second) checks" "32 \<le> length checks"
  shows "\<exists>r. apply_managed_update env net start checks spec o1 h = Some r"
proof -
  have "wait_loop_service (psServiceName spec) (unJournal net) (start + 30 * second) checks \<noteq> None"
  proof
    assume n: "wait_loop_service (psServiceName spec) (unJournal net) (start + 30 * second) checks = None"
    have "start + 30 * second < start - second + int (length checks) * second" using assms(2) by simp
    from wait_loop_service_ends [OF assms(1) this n] show False by simp
  qed
  then show ?thesis by (auto simp: apply_managed_update_def wait_for_restarted_service_def)
qed

subsection \<open>What the steps leave alone\<close>

definition stage_of :: "update_progress \<Rightarrow> string \<times> int" where
  "stage_of p = (pgStatus p, pgPercent p)"

definition same_reports :: "ctl_host \<Rightarrow> ctl_host \<Rightarrow> bool" where
  "same_reports h h' \<longleftrightarrow> hoReports h' = hoReports h \<and> hoProgress h' = hoProgress h"

interpretation report_frame: host_frame same_reports
  by unfold_locales (simp_all add: same_reports_def)

text \<open>The programs run leave the paths alone.\<close>

definition programs_keep :: "ctl_env \<Rightarrow> string set \<Rightarrow> bool" where
  "programs_keep env P \<longleftrightarrow> (\<forall>argv w. \<forall>p\<in>P. wfiles (snd (ceRun env argv w)) p = wfiles w p)"

lemma cio_reports: "ckeeps same_reports (cio m)"
  by (auto simp: ckeeps_def same_reports_def cio_def cfiles_def split: prod.splits)

lemma cerror_keeps:
  assumes "\<And>h r h'. op h = (r, h') \<Longrightarrow> R h h'"
  shows "ckeeps R (cerror f op)"
  using assms by (auto simp: ckeeps_def cerror_def split: prod.splits option.splits)

lemma crun_reports: "crun env argv h = (r, h') \<Longrightarrow> same_reports h h'"
  by (auto simp: crun_def same_reports_def split: prod.splits)

lemma crun_same_at: "programs_keep env P \<Longrightarrow> crun env argv h = (r, h') \<Longrightarrow> same_at P h h'"
  by (cases "ceRun env argv (hoWorld h)") (auto simp: crun_def same_at_def programs_keep_def dest!: spec [of _ argv] spec [of _ "hoWorld h"])

text \<open>A step that runs a program and turns a failure into an error.\<close>

lemma program_step_keeps:
  assumes "\<And>h r h'. crun env argv h = (r, h') \<Longrightarrow> R h h'"
  shows "ckeeps R (\<lambda>h. case crun env argv h of ((out, Some e), h1) \<Rightarrow> (Inl (f out e), h1) | ((out, None), h1) \<Rightarrow> (Inr (), h1))"
  unfolding ckeeps_def using assms by (auto split: prod.splits option.splits)

lemma unlink_reports: "os_unlink env p h = (r, h') \<Longrightarrow> same_reports h h'"
  by (auto simp: os_unlink_def same_reports_def cfiles_def split: option.splits if_splits prod.splits)

lemma symlink_reports: "os_symlink env t l h = (r, h') \<Longrightarrow> same_reports h h'"
  by (auto simp: os_symlink_def same_reports_def split: option.splits if_splits)

lemma unlink_same_at: "os_unlink env p h = (r, h') \<Longrightarrow> p \<notin> P \<Longrightarrow> same_at P h h'"
  by (auto simp: os_unlink_def same_at_def cfiles_def only_changes_def split: option.splits if_splits prod.splits
      dest!: os_remove_frame)

lemma symlink_same_at: "os_symlink env t l h = (r, h') \<Longrightarrow> same_at P h h'"
  by (auto simp: os_symlink_def same_at_def split: option.splits if_splits)

lemma ensure_symlink_reports: "ckeeps same_reports (ensure_symlink env t l)"
proof -
  have mk: "ckeeps same_reports (make_symlink env t l)"
    unfolding make_symlink_def by (rule cerror_keeps) (rule symlink_reports)
  have un: "ckeeps same_reports (cerror g (os_unlink env l))" for g by (rule cerror_keeps) (rule unlink_reports)
  have "ckeeps same_reports (replace_link env t l)"
    unfolding ckeeps_def
  proof (intro allI impI)
    fix h r h' assume "replace_link env t l h = (r, h')"
    then show "same_reports h h'" using mk report_frame.keeps_cbind [OF un mk]
      unfolding replace_link_def ckeeps_def by (auto simp: same_reports_def split: sum.splits if_splits)
  qed
  then show ?thesis unfolding ensure_symlink_def ccheck_def by (intro report_frame.keeps_cbind cio_reports)
qed

lemma ensure_symlink_same_at:
  assumes "l \<notin> P"
  shows "ckeeps (same_at P) (ensure_symlink env t l)"
proof -
  have mk: "ckeeps (same_at P) (make_symlink env t l)"
    unfolding make_symlink_def by (rule cerror_keeps) (rule symlink_same_at)
  have un: "ckeeps (same_at P) (cerror g (os_unlink env l))" for g by (rule cerror_keeps) (rule unlink_same_at [OF _ assms])
  have "ckeeps (same_at P) (replace_link env t l)"
    unfolding ckeeps_def
  proof (intro allI impI)
    fix h r h' assume "replace_link env t l h = (r, h')"
    then show "same_at P h h'" using mk file_frame.keeps_cbind [OF un mk]
      unfolding replace_link_def ckeeps_def by (auto simp: same_at_def split: sum.splits if_splits)
  qed
  moreover have "ckeeps (same_at P) (ccheck f (os_mkdir_all d))" for f d
    unfolding ccheck_def by (rule keeps_cio [where T = "{}"]) (auto intro: io_check_frame mkdir_frame)
  ultimately show ?thesis unfolding ensure_symlink_def by (intro file_frame.keeps_cbind)
qed

lemma write_helper_frame: "write_helper path_of render spec w = (r, w') \<Longrightarrow> only_changes {trim_space (path_of spec)} w w'"
proof -
  assume a: "write_helper path_of render spec w = (r, w')"
  let ?T = "{trim_space (path_of spec)}"
  have mk: "io_check f (os_mkdir_all d) w1 = (r1, w2) \<Longrightarrow> only_changes ?T w1 w2" for f d w1 r1 w2
    by (erule io_check_frame [rotated]) (rule mkdir_frame)
  have wr: "io_check f (os_write_file (trim_space (path_of spec)) c m) w1 = (r1, w2) \<Longrightarrow> only_changes ?T w1 w2" for f c m w1 r1 w2
    by (erule io_check_frame [rotated]) (rule os_write_file_frame)
  show ?thesis
  proof (cases "trim_space (path_of spec) = []")
    case True
    with a show ?thesis by (simp add: write_helper_def io_ret_def)
  next
    case False
    with a have "io_bind (io_check (wrap_prefix (''create helper directory for '' @ trim_space (path_of spec) @ '': ''))
        (os_mkdir_all (path_dir (trim_space (path_of spec))))) (\<lambda>_.
        io_check (wrap_prefix (''write helper '' @ trim_space (path_of spec) @ '': '')) (os_write_file (trim_space (path_of spec)) (render spec) 0x1ED)) w = (r, w')"
      by (simp add: write_helper_def Let_def)
    then show ?thesis by (rule io_bind_frame [rotated 2]) (auto intro: mk wr)
  qed
qed

text \<open>The files an update may write besides the binary.\<close>

definition helper_paths :: "platform_spec \<Rightarrow> string set" where
  "helper_paths spec = trim_space ` {psPrivilegedUpdateHelperPath spec, psRootProfileHelperPath spec, psPackageMutationHelperPath spec,
     psOperationalLogScanHelperPath spec, psTaskRootHelperPath spec, psBaseSudoersPath spec}"

lemma write_base_sudoers_same_at:
  assumes "programs_keep env P" "helper_paths spec \<inter> P = {}"
  shows "ckeeps (same_at P) (write_base_sudoers env spec)"
proof -
  have mk: "ckeeps (same_at P) (ccheck f (os_mkdir_all d))" for f d
    unfolding ccheck_def by (rule keeps_cio [where T = "{}"]) (auto intro: io_check_frame mkdir_frame)
  have wr: "ckeeps (same_at P) (ccheck f (os_write_file (trim_space (psBaseSudoersPath spec)) c m))" for f c m
    unfolding ccheck_def
    by (rule keeps_cio [where T = "{trim_space (psBaseSudoersPath spec)}"])
       (use assms(2) in \<open>auto simp: helper_paths_def intro: io_check_frame os_write_file_frame\<close>)
  have run: "ckeeps (same_at P) (\<lambda>h. case crun env argv h of ((out, Some e), h1) \<Rightarrow> (Inl (f out e), h1) | ((out, None), h1) \<Rightarrow> (Inr (), h1))" for argv f
    by (rule program_step_keeps) (rule crun_same_at [OF assms(1)])
  show ?thesis
    unfolding write_base_sudoers_def Let_def
    by (intro file_frame.keeps_if file_frame.keeps_cbind file_frame.keeps_cret mk wr run)
qed

lemma write_base_sudoers_reports: "ckeeps same_reports (write_base_sudoers env spec)"
proof -
  have run: "ckeeps same_reports (\<lambda>h. case crun env argv h of ((out, Some e), h1) \<Rightarrow> (Inl (f out e), h1) | ((out, None), h1) \<Rightarrow> (Inr (), h1))" for argv f
    by (rule program_step_keeps) (rule crun_reports)
  show ?thesis
    unfolding write_base_sudoers_def Let_def ccheck_def
    by (intro report_frame.keeps_if report_frame.keeps_cbind report_frame.keeps_cret cio_reports run)
qed

lemma refresh_helpers_same_at:
  assumes "programs_keep env P" "helper_paths spec \<inter> P = {}"
  shows "ckeeps (same_at P) (refresh_helpers env verb spec)"
proof -
  have wh: "ckeeps (same_at P) (cio (write_helper path_of render spec))" if "trim_space (path_of spec) \<in> helper_paths spec" for path_of render
    by (rule keeps_cio [OF write_helper_frame]) (use that assms(2) in auto)
  show ?thesis
    unfolding refresh_helpers_def write_privileged_update_helper_def write_root_profile_helper_def
      write_package_mutation_helper_def write_operational_log_scan_helper_def write_task_root_helper_def
    by (intro file_frame.keeps_cbind file_frame.keeps_cwrap wh write_base_sudoers_same_at assms) (simp_all add: helper_paths_def)
qed

lemma refresh_helpers_reports: "ckeeps same_reports (refresh_helpers env verb spec)"
  unfolding refresh_helpers_def
  by (intro report_frame.keeps_cbind report_frame.keeps_cwrap cio_reports write_base_sudoers_reports)

lemma load_persisted_frame: "load_persisted_profile env p w = (r, w') \<Longrightarrow> only_changes {} w w'"
  by (auto simp: load_persisted_profile_def Let_def intro: read_frame split: if_splits prod.splits sum.splits option.splits)

lemma reconcile_same_at:
  assumes "programs_keep env P"
  shows "ckeeps (same_at P) (reconcile_root_access_profile env spec)"
proof -
  have run: "ckeeps (same_at P) (\<lambda>h. case crun env argv h of ((out, Some e), h1) \<Rightarrow> (Inl (f out e), h1) | ((out, None), h1) \<Rightarrow> (Inr (), h1))" for argv f
    by (rule program_step_keeps) (rule crun_same_at [OF assms(1)])
  have ap: "ckeeps (same_at P) (apply_root_access_profile env spec p)" for p
    unfolding apply_root_access_profile_def Let_def by (intro file_frame.keeps_if file_frame.keeps_cret run)
  have cs: "ckeeps (same_at P) (case q of None \<Rightarrow> cret () | Some p \<Rightarrow> apply_root_access_profile env spec p)" for q
    by (cases q) (simp_all add: ap file_frame.keeps_cret)
  show ?thesis unfolding reconcile_root_access_profile_def
    by (intro file_frame.keeps_cbind cs keeps_cio [OF load_persisted_frame]) simp_all
qed

lemma reconcile_reports: "ckeeps same_reports (reconcile_root_access_profile env spec)"
proof -
  have run: "ckeeps same_reports (\<lambda>h. case crun env argv h of ((out, Some e), h1) \<Rightarrow> (Inl (f out e), h1) | ((out, None), h1) \<Rightarrow> (Inr (), h1))" for argv f
    by (rule program_step_keeps) (rule crun_reports)
  have ap: "ckeeps same_reports (apply_root_access_profile env spec p)" for p
    unfolding apply_root_access_profile_def Let_def by (intro report_frame.keeps_if report_frame.keeps_cret run)
  have cs: "ckeeps same_reports (case q of None \<Rightarrow> cret () | Some p \<Rightarrow> apply_root_access_profile env spec p)" for q
    by (cases q) (simp_all add: ap report_frame.keeps_cret)
  show ?thesis unfolding reconcile_root_access_profile_def by (intro report_frame.keeps_cbind cs cio_reports)
qed

lemma restart_keeps:
  assumes "\<And>argv h r h'. crun env argv h = (r, h') \<Longrightarrow> R h h'"
  shows "ckeeps R (restart_service env spec)"
  unfolding ckeeps_def restart_service_def using assms by (auto split: prod.splits option.splits)

lemma restart_same_at: "programs_keep env P \<Longrightarrow> ckeeps (same_at P) (restart_service env spec)"
  by (rule restart_keeps) (rule crun_same_at)

lemma restart_reports: "ckeeps same_reports (restart_service env spec)"
  by (rule restart_keeps) (rule crun_reports)

lemma load_config_frame: "load_managed_config lib spec w = (r, w') \<Longrightarrow> only_changes {} w w'"
  by (auto simp: load_managed_config_def load_config_file_def merge_config_file_def io_bind_def io_lift_def
      intro: read_frame split: prod.splits sum.splits)

lemma post_keeps: "(\<And>h. R h h) \<Longrightarrow> (\<And>h x. R h (h\<lparr>hoPosts := x\<rparr>)) \<Longrightarrow> ckeeps R (post_progress env c t p)"
  by (auto simp: ckeeps_def post_progress_def Let_def)

lemma report_progress_same_at: "ckeeps (same_at P) (report_managed_update_progress env spec o1 p)"
  unfolding report_managed_update_progress_def
  by (intro file_frame.keeps_cbind file_frame.keeps_if file_frame.keeps_cfail file_frame.keeps_cwrap file_frame.keeps_cguard
      post_keeps keeps_cio [OF load_config_frame]) (simp_all add: same_at_def)

lemma report_progress_reports: "ckeeps same_reports (report_managed_update_progress env spec o1 p)"
  unfolding report_managed_update_progress_def
  by (intro report_frame.keeps_cbind report_frame.keeps_if report_frame.keeps_cfail report_frame.keeps_cwrap report_frame.keeps_cguard
      post_keeps cio_reports) (simp_all add: same_reports_def)

lemma report_same_at: "ckeeps (same_at P) (report env spec o1 s n m)"
  unfolding ckeeps_def
proof (intro allI impI)
  fix h r h' assume "report env spec o1 s n m h = (r, h')"
  then obtain q where "report_managed_update_progress env spec o1 \<lparr>pgStatus = s, pgPercent = n, pgMessage = m\<rparr>
      (h\<lparr>hoProgress := n, hoReports := hoReports h @ [\<lparr>pgStatus = s, pgPercent = n, pgMessage = m\<rparr>]\<rparr>) = (q, h')"
    by (auto simp: report_def Let_def split: prod.splits)
  with report_progress_same_at [of P env spec o1] show "same_at P h h'" by (auto simp: ckeeps_def same_at_def)
qed

lemma report_result: "\<exists>h'. report env spec o1 s n m h = (Inr (), h') \<and> hoReports h' = hoReports h @ [\<lparr>pgStatus = s, pgPercent = n, pgMessage = m\<rparr>]
    \<and> hoProgress h' = n"
proof -
  let ?p = "\<lparr>pgStatus = s, pgPercent = n, pgMessage = m\<rparr>"
  obtain q h' where q: "report_managed_update_progress env spec o1 ?p (h\<lparr>hoProgress := n, hoReports := hoReports h @ [?p]\<rparr>) = (q, h')"
    by (cases "report_managed_update_progress env spec o1 ?p (h\<lparr>hoProgress := n, hoReports := hoReports h @ [?p]\<rparr>)")
  with report_progress_reports [of env spec o1 ?p] have "same_reports (h\<lparr>hoProgress := n, hoReports := hoReports h @ [?p]\<rparr>) h'"
    unfolding ckeeps_def by blast
  with q show ?thesis by (simp add: report_def same_reports_def)
qed

subsection \<open>Only a verified binary is installed\<close>

text \<open>Files a download may touch: temporary names in the directory.\<close>

definition download_paths :: "string \<Rightarrow> string set" where
  "download_paths dir = {p. \<exists>rest. p = dir @ ''/.'' @ rest}"

lemma last_index_pos: "last_index_of (c # s) x = Some i \<Longrightarrow> c \<noteq> x \<Longrightarrow> 0 < i"
  by (auto split: option.splits if_splits)

lemma temp_name_in:
  assumes "\<not> has_suffix dir ''/''"
  shows "temp_name dir (download_pattern v) rnd \<in> download_paths dir"
proof -
  obtain rest where p: "download_pattern v = CHR ''.'' # rest" by (simp add: download_pattern_def)
  show ?thesis
  proof (cases "last_index_of (download_pattern v) CHR ''*''")
    case None
    then show ?thesis using assms by (simp add: temp_name_def download_paths_def p)
  next
    case (Some i)
    then obtain k where "i = Suc k" using last_index_pos [of "CHR ''.''" rest] p by (cases i) auto
    with Some show ?thesis using assms by (simp add: temp_name_def download_paths_def p)
  qed
qed

lemma create_download_frame:
  assumes "\<not> has_suffix dir ''/''" "create_download dir v w = (r, w')"
  shows "only_changes (download_paths dir) w w' \<and> (\<forall>t. r = Inr t \<longrightarrow> t \<in> download_paths dir)"
proof (cases "os_create_temp dir (download_pattern v) w")
  case (Pair q w1)
  show ?thesis
  proof (cases q)
    case (Inl e)
    with assms(2) Pair show ?thesis by (auto simp: create_download_def only_changes_def dest: os_create_temp_err)
  next
    case (Inr t)
    with Pair have "t = temp_name dir (download_pattern v) (wtemp w (wtick w))"
      by (auto simp: os_create_temp_def Let_def split: option.splits)
    then have "t \<in> download_paths dir" using temp_name_in [OF assms(1)] by simp
    with Inr assms(2) Pair show ?thesis by (auto simp: create_download_def only_changes_def dest!: os_create_temp_ok)
  qed
qed

lemma copy_body_frame: "copy_body t r w = (q, w') \<Longrightarrow> only_changes {t} w w'"
  by (auto simp: copy_body_def split: prod.splits option.splits dest: os_write_frame)

lemma fetch_into_frame:
  assumes "fetch_into net url t w = (r, w')"
  shows "only_changes {t} w w' \<and> (\<forall>t'. r = Inr t' \<longrightarrow> t' = t)"
proof -
  have cp: "io_check f (copy_body t x) w1 = (q, w2) \<Longrightarrow> only_changes {t} w1 w2" for f x w1 q w2
    by (erule io_check_frame [rotated]) (rule copy_body_frame)
  have ch: "io_check f (os_chmod t m) w1 = (q, w2) \<Longrightarrow> only_changes {t} w1 w2" for f m w1 q w2
    by (erule io_check_frame [rotated]) (rule os_chmod_frame)
  have rt: "io_ret t w1 = (q, w2) \<Longrightarrow> only_changes {t} w1 w2" for w1 q w2 by (simp add: io_ret_def)
  have "only_changes {t} w w'"
  proof (cases "unNewRequest net url = None \<and> (\<exists>x. unGet net [(''Accept'', ''application/octet-stream''), (''User-Agent'', ''noderax-agent'')] url = Inr x \<and> good_status (wrStatus x))")
    case True
    then obtain x where "unNewRequest net url = None"
      "unGet net [(''Accept'', ''application/octet-stream''), (''User-Agent'', ''noderax-agent'')] url = Inr x" "good_status (wrStatus x)" by blast
    with assms have "io_bind (io_check (wrap_prefix ''write downloaded artifact: '') (copy_body t x)) (\<lambda>_.
        io_bind (io_check (wrap_prefix ''chmod downloaded artifact: '') (os_chmod t 0x1ED)) (\<lambda>_. io_ret t)) w = (r, w')"
      by (simp add: fetch_into_def)
    then show ?thesis by (rule io_bind_frame [rotated 2]) (auto intro: cp elim!: io_bind_frame [rotated 2] intro: ch rt)
  next
    case False
    with assms show ?thesis by (auto simp: fetch_into_def io_fail_def split: option.splits sum.splits if_splits)
  qed
  moreover have "r = Inr t' \<Longrightarrow> t' = t" for t'
    using assms by (auto simp: fetch_into_def io_bind_Inr split: option.splits sum.splits if_splits)
  ultimately show ?thesis by blast
qed

lemma download_frame:
  assumes "\<not> has_suffix dir ''/''" "download_release_artifact net url dir v w = (r, w')"
  shows "only_changes (download_paths dir) w w' \<and> (\<forall>t. r = Inr t \<longrightarrow> t \<in> download_paths dir)"
proof -
  obtain q w1 where m: "io_check (wrap_prefix (''create install directory '' @ dir @ '': '')) (os_mkdir_all dir) w = (q, w1)"
    by (cases "io_check (wrap_prefix (''create install directory '' @ dir @ '': '')) (os_mkdir_all dir) w")
  have 1: "only_changes (download_paths dir) w w1" by (rule io_check_frame [OF _ m]) (rule mkdir_frame)
  show ?thesis
  proof (cases q)
    case (Inl e)
    with assms(2) m 1 show ?thesis by (auto simp: download_release_artifact_def io_bind_def)
  next
    case (Inr u)
    obtain q2 w2 where c: "create_download dir v w1 = (q2, w2)" by (cases "create_download dir v w1")
    note 2 = create_download_frame [OF assms(1) c]
    show ?thesis
    proof (cases q2)
      case (Inl e)
      with assms(2) m Inr c 1 2 show ?thesis by (auto simp: download_release_artifact_def io_bind_def intro: only_changes_trans)
    next
      case t: (Inr t)
      obtain q3 w3 where f: "fetch_into net url t w2 = (q3, w3)" by (cases "fetch_into net url t w2")
      note 3 = fetch_into_frame [OF f]
      from t 2 have "t \<in> download_paths dir" by blast
      with 3 have "only_changes (download_paths dir) w2 w3" by (auto intro: only_changes_mono)
      moreover have "wfiles (snd (os_close t w3)) = wfiles w3" by (simp add: os_close_def)
      ultimately show ?thesis using assms(2) m Inr c t f 1 2 3
        by (auto simp: download_release_artifact_def io_bind_def closing_def only_changes_def)
    qed
  qed
qed

definition verified_file :: "release_artifact \<Rightarrow> (string \<times> nat) option \<Rightarrow> bool" where
  "verified_file a f \<longleftrightarrow> (\<exists>c. f = Some (c, 0x1ED) \<and> checksum_matches (raSHA256 a) c)"

lemma verify_ok:
  assumes "verify_artifact_checksum d s w = (Inr u, w')"
  shows "\<exists>c m. wfiles w d = Some (c, m) \<and> checksum_matches s c"
  using assms by (auto simp: verify_artifact_checksum_def os_read_file_def split: option.splits if_splits)

lemma verify_frame: "verify_artifact_checksum d s w = (r, w') \<Longrightarrow> wfiles w' = wfiles w"
  by (auto simp: verify_artifact_checksum_def split: prod.splits sum.splits dest: os_read_file_files)

lemma install_artifact_result:
  assumes "install_release_artifact d b w = (r, w')" "d \<noteq> b" "d \<noteq> b @ ''.next''" "wfiles w d = Some (c, m)"
  shows "(wfiles w' b = wfiles w b \<or> wfiles w' b = Some (c, 0x1ED)) \<and> (r = Inr u \<longrightarrow> wfiles w' b = Some (c, 0x1ED))"
proof -
  let ?s = "b @ ''.next''"
  obtain q1 w1 where 1: "os_remove ?s w = (q1, w1)" by (cases "os_remove ?s w")
  with os_remove_frame [OF 1] assms(3,4) have w1: "wfiles w1 d = Some (c, m)" "wfiles w1 b = wfiles w b" by (auto simp: only_changes_def)
  obtain q2 w2 where 2: "os_rename d ?s w1 = (q2, w2)" by (cases "os_rename d ?s w1")
  show ?thesis
  proof (cases q2)
    case (Some e)
    with assms(1) 1 2 w1 os_rename_err [of d ?s w1 e w2] show ?thesis
      by (auto simp: install_release_artifact_def Let_def io_bind_def io_check_def)
  next
    case None
    with os_rename_ok 2 w1 assms(2,3) have w2: "wfiles w2 ?s = Some (c, m)" "wfiles w2 b = wfiles w b" by fastforce+
    obtain q3 w3 where 3: "os_chmod ?s 0x1ED w2 = (q3, w3)" by (cases "os_chmod ?s 0x1ED w2")
    show ?thesis
    proof (cases q3)
      case (Some e)
      with assms(1) 1 2 None 3 w2 os_chmod_frame [OF 3] show ?thesis
        by (auto simp: install_release_artifact_def Let_def io_bind_def io_check_def only_changes_def)
    next
      case n3: None
      with os_chmod_ok 3 w2 have w3: "wfiles w3 ?s = Some (c, 0x1ED)" "wfiles w3 b = wfiles w b" by fastforce+
      obtain q4 w4 where 4: "os_rename ?s b w3 = (q4, w4)" by (cases "os_rename ?s b w3")
      have r: "(r, w') = (case q4 of Some e \<Rightarrow> (Inl (wrap_prefix ''replace managed binary: '' e), w4) | None \<Rightarrow> (Inr (), w4))"
        using assms(1) 1 2 None 3 n3 4 by (simp add: install_release_artifact_def Let_def io_bind_def io_check_def)
      show ?thesis
      proof (cases q4)
        case (Some e)
        with r os_rename_err 4 w3 show ?thesis by auto
      next
        case n4: None
        with r os_rename_ok 4 w3 show ?thesis by fastforce
      qed
    qed
  qed
qed

lemma activate_same_at:
  assumes "programs_keep env P" "helper_paths spec \<inter> P = {}" "psSymlinkPath spec \<notin> P"
  shows "ckeeps (same_at P) (activate_stages env waited spec o1)"
  unfolding activate_stages_def
  by (intro file_frame.keeps_cbind file_frame.keeps_if file_frame.keeps_cret file_frame.keeps_cwrap file_frame.keeps_cguard
      ensure_symlink_same_at refresh_helpers_same_at reconcile_same_at restart_same_at report_same_at assms)

lemma cio_step: "cio m h = (r, h') \<Longrightarrow> \<exists>w'. m (hoWorld h) = (r, w') \<and> h' = h\<lparr>hoWorld := w'\<rparr>"
  by (auto simp: cio_def cfiles_def split: prod.splits)

lemma ckeepsD: "ckeeps R m \<Longrightarrow> m h = (r, h') \<Longrightarrow> R h h'"
  by (simp add: ckeeps_def)

text \<open>The steps of an update run one after the other: a failing step ends it.\<close>

lemma cbind_cases:
  assumes "cbind m f h = (r, h')"
  obtains e where "m h = (Inl e, h')" "r = Inl e" | x h1 where "m h = (Inr x, h1)" "f x h1 = (r, h')"
proof (cases "m h")
  case (Pair q h1)
  show ?thesis
  proof (cases q)
    case (Inl e)
    with assms Pair that(1) show ?thesis by (auto simp: cbind_def)
  next
    case (Inr x)
    with assms Pair that(2) show ?thesis by (auto simp: cbind_def)
  qed
qed

lemma report_then:
  assumes "cbind (report env spec o1 s n m) f h = (r, h')"
  obtains h1 where "f () h1 = (r, h')" "\<And>P. same_at P h h1" "hoReports h1 = hoReports h @ [\<lparr>pgStatus = s, pgPercent = n, pgMessage = m\<rparr>]"
    "hoProgress h1 = n"
proof -
  obtain h1 where h1: "report env spec o1 s n m h = (Inr (), h1)" "hoReports h1 = hoReports h @ [\<lparr>pgStatus = s, pgPercent = n, pgMessage = m\<rparr>]"
    "hoProgress h1 = n" using report_result by blast
  then have "f () h1 = (r, h')" using assms by (simp add: cbind_def)
  then show thesis using that h1(2,3) ckeepsD [OF report_same_at h1(1)] by blast
qed

definition binary_at :: "platform_spec \<Rightarrow> ctl_host \<Rightarrow> (string \<times> nat) option" where
  "binary_at spec h = wfiles (hoWorld h) (psBinaryPath spec)"

lemma same_binary: "same_at {psBinaryPath spec} h h' \<longleftrightarrow> binary_at spec h' = binary_at spec h"
  by (simp add: same_at_def binary_at_def)

lemma install_stages_binary:
  assumes "install_stages env waited spec o1 d a h = (r, h')"
    and "d \<noteq> psBinaryPath spec" "d \<noteq> psBinaryPath spec @ ''.next''"
    and "programs_keep env {psBinaryPath spec}" "psBinaryPath spec \<notin> helper_paths spec" "psSymlinkPath spec \<noteq> psBinaryPath spec"
  shows "(binary_at spec h' = binary_at spec h \<or> verified_file a (binary_at spec h')) \<and> (r = Inr u \<longrightarrow> verified_file a (binary_at spec h'))"
proof -
  let ?b = "psBinaryPath spec"
  from assms(1) obtain h1 where 1: "cbind (cio (verify_artifact_checksum d (raSHA256 a))) (\<lambda>_.
     cbind (report env spec o1 ''installing'' 70 ''Replacing the managed noderax-agent binary.'') (\<lambda>_.
     cbind (cio (install_release_artifact d ?b)) (\<lambda>_. activate_stages env waited spec o1))) h1 = (r, h')" "same_at {?b} h h1"
    unfolding install_stages_def by (elim report_then) blast
  from 1(1) show ?thesis
  proof (rule cbind_cases)
    fix e assume "cio (verify_artifact_checksum d (raSHA256 a)) h1 = (Inl e, h')" "r = Inl e"
    with 1(2) show ?thesis by (auto simp: binary_at_def same_at_def dest!: cio_step verify_frame)
  next
    fix x h2 assume v: "cio (verify_artifact_checksum d (raSHA256 a)) h1 = (Inr x, h2)"
      and "cbind (report env spec o1 ''installing'' 70 ''Replacing the managed noderax-agent binary.'') (\<lambda>_.
        cbind (cio (install_release_artifact d ?b)) (\<lambda>_. activate_stages env waited spec o1)) h2 = (r, h')"
    then obtain h3 where 3: "cbind (cio (install_release_artifact d ?b)) (\<lambda>_. activate_stages env waited spec o1) h3 = (r, h')"
      "\<And>P. same_at P h2 h3" by (elim report_then) blast
    from v obtain w' where w': "verify_artifact_checksum d (raSHA256 a) (hoWorld h1) = (Inr x, w')" "h2 = h1\<lparr>hoWorld := w'\<rparr>" by (blast dest: cio_step)
    obtain c m where c: "wfiles (hoWorld h1) d = Some (c, m)" "checksum_matches (raSHA256 a) c" "wfiles (hoWorld h2) = wfiles (hoWorld h1)"
      using verify_ok [OF w'(1)] verify_frame [OF w'(1)] w'(2) by auto
    have d3: "wfiles (hoWorld h3) d = Some (c, m)" "wfiles (hoWorld h3) ?b = wfiles (hoWorld h1) ?b"
      using 3(2) [of "{d, ?b}"] c by (auto simp: same_at_def)
    then have b3: "binary_at spec h3 = binary_at spec h" using 1(2) by (simp add: binary_at_def same_at_def)
    have inst: "(binary_at spec h4 = binary_at spec h \<or> verified_file a (binary_at spec h4)) \<and> (q = Inr y \<longrightarrow> verified_file a (binary_at spec h4))"
      if "cio (install_release_artifact d ?b) h3 = (q, h4)" for q h4 y
    proof -
      from that obtain w' where w: "install_release_artifact d ?b (hoWorld h3) = (q, w')" "h4 = h3\<lparr>hoWorld := w'\<rparr>" by (blast dest: cio_step)
      from install_artifact_result [OF w(1) assms(2,3) d3(1), of y] w(2) b3 c(2) show ?thesis
        by (auto simp: binary_at_def verified_file_def)
    qed
    from 3(1) show ?thesis
    proof (rule cbind_cases)
      fix e assume "cio (install_release_artifact d ?b) h3 = (Inl e, h')" "r = Inl e"
      with inst show ?thesis by blast
    next
      fix y h4 assume i: "cio (install_release_artifact d ?b) h3 = (Inr y, h4)" and "activate_stages env waited spec o1 h4 = (r, h')"
      then have "binary_at spec h' = binary_at spec h4"
        using ckeepsD [OF activate_same_at, of env "{?b}" spec waited o1 h4 r h'] assms(4,5,6) by (simp add: same_binary)
      with inst [OF i, of y] show ?thesis by simp
    qed
  qed
qed

lemma fetch_manifest_tag: "fetch_release_manifest net v = Inr m \<Longrightarrow> rmChannel m = ''tag'' \<and> trim_space (rmVersion m) \<noteq> []"
proof -
  have 1: "fetch_manifest_from_url net u hd = Inr m \<Longrightarrow> rmChannel m = ''tag'' \<and> trim_space (rmVersion m) \<noteq> []" for u hd
    by (auto simp: fetch_manifest_from_url_def check_manifest_def split: option.splits sum.splits prod.splits if_splits)
  assume "fetch_release_manifest net v = Inr m"
  then show ?thesis
    by (auto simp: fetch_release_manifest_def fetch_from_github_def Let_def dest: 1
        split: option.splits sum.splits prod.splits if_splits)
qed

lemma removing_result: "removing t m h = (r, h') \<Longrightarrow> \<exists>h1. m h = (r, h1) \<and> same_at (- {t}) h1 h' \<and> same_reports h1 h'"
  by (auto simp: removing_def cfiles_def same_at_def same_reports_def split: prod.splits dest!: os_remove_frame)
    (auto simp: only_changes_def)

lemma linux_spec_paths:
  "psBinaryPath linux_spec \<notin> helper_paths linux_spec" "psSymlinkPath linux_spec \<noteq> psBinaryPath linux_spec"
  "psBinaryPath linux_spec \<notin> download_paths (psInstallDir linux_spec)"
  "psBinaryPath linux_spec @ ''.next'' \<notin> download_paths (psInstallDir linux_spec)"
  "\<not> has_suffix (psInstallDir linux_spec) ''/''"
proof -
  show "psBinaryPath linux_spec \<notin> helper_paths linux_spec"
    unfolding helper_paths_def linux_spec_def by code_simp
qed (simp_all add: linux_spec_def download_paths_def has_suffix_def)

lemma update_body_binary:
  assumes "update_body env net waited linux_spec o1 h = (r, h')" "programs_keep env {psBinaryPath linux_spec}"
  shows "(binary_at linux_spec h' = binary_at linux_spec h \<and> (\<exists>e. r = Inl e)) \<or>
    (\<exists>m a. fetch_release_manifest net (uoTargetVersion o1) = Inr m \<and> select_release_artifact m (ceArch env) = Inr a
      \<and> verified_file a (binary_at linux_spec h'))"
proof -
  let ?s = linux_spec
  let ?d = "\<lambda>a. cio (download_release_artifact net (raBinaryURL a) (psInstallDir ?s) (uoTargetVersion o1))"
  from assms(1) obtain h1 where 1: "cbind (clift (fetch_release_manifest net (uoTargetVersion o1))) (\<lambda>m.
     cbind (clift (select_release_artifact m (ceArch env))) (\<lambda>a. cbind (?d a) (\<lambda>t. removing t (install_stages env waited ?s o1 t a)))) h1 = (r, h')"
    "same_at {psBinaryPath ?s} h h1"
    unfolding update_body_def by (elim report_then) blast
  then have b1: "binary_at ?s h1 = binary_at ?s h" by (simp add: same_binary)
  show ?thesis
  proof (cases "fetch_release_manifest net (uoTargetVersion o1)")
    case (Inl e)
    with 1(1) b1 show ?thesis by (simp add: cfail_def) blast
  next
    case m: (Inr m)
    show ?thesis
    proof (cases "select_release_artifact m (ceArch env)")
      case (Inl e)
      with 1(1) m b1 show ?thesis by (simp add: cfail_def) blast
    next
      case a: (Inr a)
      with 1(1) m have "cbind (?d a) (\<lambda>t. removing t (install_stages env waited ?s o1 t a)) h1 = (r, h')" by simp
      then show ?thesis
      proof (rule cbind_cases)
        fix e assume d: "?d a h1 = (Inl e, h')" "r = Inl e"
        with linux_spec_paths have "binary_at ?s h' = binary_at ?s h1"
          by (auto simp: binary_at_def only_changes_def dest!: cio_step download_frame [rotated])
        with b1 d show ?thesis by simp
      next
        fix t h2 assume d: "?d a h1 = (Inr t, h2)" and rest: "removing t (install_stages env waited ?s o1 t a) h2 = (r, h')"
        from d linux_spec_paths(3,5) have t: "t \<in> download_paths (psInstallDir ?s)" "binary_at ?s h2 = binary_at ?s h1"
          by (auto simp: binary_at_def only_changes_def dest!: cio_step download_frame [rotated])
        with linux_spec_paths have ne: "t \<noteq> psBinaryPath ?s" "t \<noteq> psBinaryPath ?s @ ''.next''" by metis+
        obtain h3 where 3: "install_stages env waited ?s o1 t a h2 = (r, h3)" "same_at (- {t}) h3 h'"
          using removing_result [OF rest] by blast
        then have b3: "binary_at ?s h' = binary_at ?s h3" using ne by (auto simp: binary_at_def same_at_def)
        note i = install_stages_binary [OF 3(1) ne assms(2) linux_spec_paths(1,2)]
        show ?thesis
        proof (cases r)
          case (Inl e)
          with i b3 t(2) b1 m a show ?thesis by auto
        next
          case (Inr u)
          with i b3 m a show ?thesis by auto
        qed
      qed
    qed
  qed
qed

text \<open>Before the first report an update reads the configuration and makes a client; then its body runs.\<close>

lemma run_update_cases:
  assumes "run_update env net waited spec o1 h = (r, h')"
  obtains e where "r = Inl e" "\<And>P. same_at P h h'" "same_reports h h'"
    | h1 q h2 where "\<And>P. same_at P h h1" "hoReports h1 = hoReports h" "hoProgress h1 = 0" "update_body env net waited spec o1 h1 = (q, h2)"
      "(r, h') = (case q of Inl e \<Rightarrow> (Inl e, snd (report env spec o1 ''failed'' (hoProgress h2) (err_text e) h2)) | Inr u \<Rightarrow> (Inr u, h2))"
proof -
  let ?load = "cwrap (wrap_prefix ''load managed config: '') (cio (load_managed_config (ceLib env) spec))"
  let ?new = "\<lambda>c. cwrap (wrap_prefix ''configure API client: '') (cguard (ceNewClient env (cfAPIURL c) (cfAPITLSCAFile c)))"
  let ?body = "\<lambda>h. case update_body env net waited spec o1 (h\<lparr>hoProgress := 0\<rparr>) of
      (Inl e, h1) \<Rightarrow> (Inl e, snd (report env spec o1 ''failed'' (hoProgress h1) (err_text e) h1)) | (Inr u, h1) \<Rightarrow> (Inr u, h1)"
  have load: "ckeeps (same_at P) ?load" for P by (intro file_frame.keeps_cwrap keeps_cio [OF load_config_frame]) simp_all
  have load': "ckeeps same_reports ?load" by (intro report_frame.keeps_cwrap cio_reports)
  from assms show thesis unfolding run_update_def
  proof (rule cbind_cases)
    fix e assume "?load h = (Inl e, h')" "r = Inl e"
    then show thesis using that(1) ckeepsD [OF load] ckeepsD [OF load'] by blast
  next
    fix c h1 assume l: "?load h = (Inr c, h1)"
      and rest: "(if no_identity c then cfail (Plain ''managed agent identity is missing; self-update requires a registered node id and agent token'')
       else cbind (?new c) (\<lambda>_. ?body)) h1 = (r, h')"
    from l have s1: "same_at P h h1" "same_reports h h1" for P using ckeepsD [OF load] ckeepsD [OF load'] by blast+
    show thesis
    proof (cases "no_identity c \<or> ceNewClient env (cfAPIURL c) (cfAPITLSCAFile c) \<noteq> None")
      case True
      with rest have "(\<exists>e. r = Inl e) \<and> h' = h1" by (auto simp: cfail_def cbind_def cwrap_def cguard_def split: if_splits)
      with s1 that(1) show thesis by blast
    next
      case False
      with rest have b: "?body h1 = (r, h')" by (simp add: cbind_def cwrap_def cguard_def)
      obtain q h2 where q: "update_body env net waited spec o1 (h1\<lparr>hoProgress := 0\<rparr>) = (q, h2)"
        by (cases "update_body env net waited spec o1 (h1\<lparr>hoProgress := 0\<rparr>)")
      from s1 have "same_at P h (h1\<lparr>hoProgress := 0\<rparr>)" "hoReports (h1\<lparr>hoProgress := 0\<rparr>) = hoReports h" for P
        by (simp_all add: same_at_def same_reports_def)
      with b q that(2) [of "h1\<lparr>hoProgress := 0\<rparr>" q h2] show thesis by (simp split: sum.splits)
    qed
  qed
qed

text \<open>
  C5. An update installs nothing it has not verified: when it is over, whatever failed on the way, the managed
  binary is either the one from before, and then the update reports an error, or the executable whose
  SHA-256 is the one a release manifest of the channel \<open>tag\<close> gives for this architecture.
\<close>

theorem update_installs_verified_binary:
  assumes "apply_managed_update env net start checks linux_spec o1 h = Some (r, h')" "programs_keep env {psBinaryPath linux_spec}"
  shows "(binary_at linux_spec h' = binary_at linux_spec h \<and> (\<exists>e. r = Inl e)) \<or>
    (\<exists>m a. fetch_release_manifest net (uoTargetVersion o1) = Inr m \<and> rmChannel m = ''tag'' \<and> select_release_artifact m (ceArch env) = Inr a
      \<and> verified_file a (binary_at linux_spec h'))"
proof -
  obtain waited where "run_update env net waited linux_spec o1 h = (r, h')" using assms(1) by (auto simp: apply_managed_update_def)
  then show ?thesis
  proof (rule run_update_cases)
    fix e assume "r = Inl e" "\<And>P. same_at P h h'"
    then show ?thesis by (simp add: same_binary [symmetric])
  next
    fix h1 q h2 assume 1: "\<And>P. same_at P h h1" and q: "update_body env net waited linux_spec o1 h1 = (q, h2)"
      and e: "(r, h') = (case q of Inl e \<Rightarrow> (Inl e, snd (report env linux_spec o1 ''failed'' (hoProgress h2) (err_text e) h2)) | Inr u \<Rightarrow> (Inr u, h2))"
    have "binary_at linux_spec (snd (report env linux_spec o1 s n t h2)) = binary_at linux_spec h2" for s n t
      using ckeepsD [OF report_same_at [of "{psBinaryPath linux_spec}"] surjective_pairing] by (simp add: same_binary)
    with e have "binary_at linux_spec h' = binary_at linux_spec h2 \<and> ((\<exists>e. q = Inl e) \<longrightarrow> (\<exists>e. r = Inl e))" by (cases q) auto
    with update_body_binary [OF q assms(2)] 1 [of "{psBinaryPath linux_spec}"] fetch_manifest_tag show ?thesis by (fastforce simp: same_binary)
  qed
qed

subsection \<open>Progress\<close>

definition update_stages :: "(string \<times> int) list" where
  "update_stages = [(''downloading'', 20), (''verifying'', 45), (''installing'', 70), (''restarting'', 90), (''waiting_for_reconnect'', 95)]"

definition at_stage :: "ctl_host \<Rightarrow> nat \<Rightarrow> ctl_host \<Rightarrow> bool" where
  "at_stage h0 i h \<longleftrightarrow> (\<exists>new. hoReports h = hoReports h0 @ new \<and> map stage_of new = take i update_stages)
     \<and> (0 < i \<longrightarrow> hoProgress h = snd (update_stages ! (i - 1)))"

text \<open>From stage \<open>i\<close> a step leads to stage \<open>j\<close>, or fails at a stage from the first to the fourth.\<close>

definition stage_run :: "ctl_host \<Rightarrow> nat \<Rightarrow> nat \<Rightarrow> 'a ctl \<Rightarrow> bool" where
  "stage_run h0 i j m \<longleftrightarrow> (\<forall>h r h'. at_stage h0 i h \<longrightarrow> m h = (r, h') \<longrightarrow>
     (case r of Inr x \<Rightarrow> at_stage h0 j h' | Inl e \<Rightarrow> \<exists>k\<in>{1..4}. at_stage h0 k h'))"

lemma stage_same: "same_reports h h' \<Longrightarrow> at_stage h0 i h \<longleftrightarrow> at_stage h0 i h'"
  by (simp add: at_stage_def same_reports_def)

lemma stage_keeps: "ckeeps same_reports m \<Longrightarrow> i \<in> {1..4} \<Longrightarrow> stage_run h0 i i m"
  unfolding stage_run_def ckeeps_def using stage_same by (fastforce split: sum.splits)

lemma stage_bind:
  assumes "stage_run h0 i j m" "\<And>x. stage_run h0 j k (f x)"
  shows "stage_run h0 i k (cbind m f)"
  unfolding stage_run_def
proof (intro allI impI)
  fix h r h' assume 0: "at_stage h0 i h" and b: "cbind m f h = (r, h')"
  from b show "case r of Inr x \<Rightarrow> at_stage h0 k h' | Inl e \<Rightarrow> \<exists>k\<in>{1..4}. at_stage h0 k h'"
  proof (rule cbind_cases)
    fix e assume "m h = (Inl e, h')" "r = Inl e"
    with assms(1) 0 show ?thesis unfolding stage_run_def by fastforce
  next
    fix x h1 assume "m h = (Inr x, h1)" "f x h1 = (r, h')"
    moreover from this have "at_stage h0 j h1" using assms(1) 0 unfolding stage_run_def by fastforce
    ultimately show ?thesis using assms(2) [of x] unfolding stage_run_def by blast
  qed
qed

lemma stage_report:
  assumes "i < 5" "update_stages ! i = (s, n)"
  shows "stage_run h0 i (Suc i) (report env spec o1 s n m)"
  unfolding stage_run_def
proof (intro allI impI)
  fix h r h' assume 0: "at_stage h0 i h" and b: "report env spec o1 s n m h = (r, h')"
  then have h': "r = Inr ()" "hoReports h' = hoReports h @ [\<lparr>pgStatus = s, pgPercent = n, pgMessage = m\<rparr>]" "hoProgress h' = n"
    using report_result [of env spec o1 s n m h] by auto
  have "take (Suc i) update_stages = take i update_stages @ [(s, n)]"
    using assms by (subst take_Suc_conv_app_nth) (simp_all add: update_stages_def)
  with 0 h' assms(2) have "at_stage h0 (Suc i) h'" by (auto simp: at_stage_def stage_of_def)
  with h'(1) show "case r of Inr x \<Rightarrow> at_stage h0 (Suc i) h' | Inl e \<Rightarrow> \<exists>k\<in>{1..4}. at_stage h0 k h'" by simp
qed

lemma stage_removing: "stage_run h0 i j m \<Longrightarrow> stage_run h0 i j (removing t m)"
  unfolding stage_run_def
proof (intro allI impI)
  fix h r h' assume m: "\<forall>h r h'. at_stage h0 i h \<longrightarrow> m h = (r, h') \<longrightarrow>
     (case r of Inr x \<Rightarrow> at_stage h0 j h' | Inl e \<Rightarrow> \<exists>k\<in>{1..4}. at_stage h0 k h')"
    and 0: "at_stage h0 i h" and b: "removing t m h = (r, h')"
  obtain h1 where h1: "m h = (r, h1)" "same_reports h1 h'" using removing_result [OF b] by blast
  with m 0 have "case r of Inr x \<Rightarrow> at_stage h0 j h1 | Inl e \<Rightarrow> \<exists>k\<in>{1..4}. at_stage h0 k h1" by blast
  then show "case r of Inr x \<Rightarrow> at_stage h0 j h' | Inl e \<Rightarrow> \<exists>k\<in>{1..4}. at_stage h0 k h'"
    unfolding stage_same [OF h1(2)] .
qed

lemma activate_stages_run: "stage_run h0 3 5 (activate_stages env waited spec o1)"
proof -
  have 1: "stage_run h0 3 3 m" if "ckeeps same_reports m" for m :: "unit ctl" by (rule stage_keeps) (simp_all add: that)
  have 2: "stage_run h0 4 4 m" if "ckeeps same_reports m" for m :: "unit ctl" by (rule stage_keeps) (simp_all add: that)
  have r3: "stage_run h0 3 4 (report env spec o1 ''restarting'' 90 m)" for m
    using stage_report [of 3 "''restarting''" 90] by (simp add: update_stages_def)
  have r4: "stage_run h0 4 5 (report env spec o1 ''waiting_for_reconnect'' 95 m)" for m
    using stage_report [of 4 "''waiting_for_reconnect''" 95] by (simp add: update_stages_def)
  have "ckeeps same_reports (if psSymlinkPath spec \<noteq> [] then ensure_symlink env (psBinaryPath spec) (psSymlinkPath spec) else cret ())"
    by (intro report_frame.keeps_if ensure_symlink_reports report_frame.keeps_cret)
  then show ?thesis unfolding activate_stages_def
    by (intro stage_bind [OF 1] stage_bind [OF r3] stage_bind [OF 2] r4 refresh_helpers_reports report_frame.keeps_cwrap
        reconcile_reports restart_reports report_frame.keeps_cguard)
qed

lemma update_body_run: "stage_run h0 0 5 (update_body env net waited spec o1)"
proof -
  have k1: "stage_run h0 1 1 m" if "ckeeps same_reports m" for m :: "'a ctl" by (rule stage_keeps) (simp_all add: that)
  have k2: "stage_run h0 2 2 m" if "ckeeps same_reports m" for m :: "unit ctl" by (rule stage_keeps) (simp_all add: that)
  have k3: "stage_run h0 3 3 m" if "ckeeps same_reports m" for m :: "unit ctl" by (rule stage_keeps) (simp_all add: that)
  have r: "stage_run h0 0 1 (report env spec o1 ''downloading'' 20 m)" "stage_run h0 1 2 (report env spec o1 ''verifying'' 45 m)"
    "stage_run h0 2 3 (report env spec o1 ''installing'' 70 m)" for m
    using stage_report [of 0 "''downloading''" 20] stage_report [of 1 "''verifying''" 45] stage_report [of 2 "''installing''" 70]
    by (simp_all add: update_stages_def numeral_2_eq_2 numeral_3_eq_3)
  have inst: "stage_run h0 1 5 (install_stages env waited spec o1 t a)" for t a
    unfolding install_stages_def
    by (intro stage_bind [OF r(2)] stage_bind [OF k2] stage_bind [OF r(3)] stage_bind [OF k3] activate_stages_run cio_reports)
  have k1': "stage_run h0 1 1 m" if "ckeeps same_reports m" for m :: "release_manifest ctl" by (rule stage_keeps) (simp_all add: that)
  have k1'': "stage_run h0 1 1 m" if "ckeeps same_reports m" for m :: "release_artifact ctl" by (rule stage_keeps) (simp_all add: that)
  have k1''': "stage_run h0 1 1 m" if "ckeeps same_reports m" for m :: "string ctl" by (rule stage_keeps) (simp_all add: that)
  show ?thesis unfolding update_body_def
    by (intro stage_bind [OF r(1)] stage_bind [OF k1'] stage_bind [OF k1''] stage_bind [OF k1'''] stage_removing inst
        report_frame.keeps_clift cio_reports)
qed


subsection \<open>What the options do not change\<close>

text \<open>
  Asking for a roll-back changes nothing in what an update does.
\<close>

theorem rollback_has_no_effect:
  "apply_managed_update env net start checks spec (o1\<lparr>uoRollback := b\<rparr>) h = apply_managed_update env net start checks spec o1 h"
proof -
  have id: "uoTargetID (o1\<lparr>uoRollback := b\<rparr>) = uoTargetID o1" by simp
  have p: "report_managed_update_progress env spec (o1\<lparr>uoRollback := b\<rparr>) = report_managed_update_progress env spec o1"
    unfolding report_managed_update_progress_def id ..
  have r: "report env spec (o1\<lparr>uoRollback := b\<rparr>) = report env spec o1"
    by (simp add: report_def p fun_eq_iff)
  have a: "activate_stages env waited spec (o1\<lparr>uoRollback := b\<rparr>) = activate_stages env waited spec o1" for waited
    by (simp add: activate_stages_def r)
  have i: "install_stages env waited spec (o1\<lparr>uoRollback := b\<rparr>) = install_stages env waited spec o1" for waited
    by (simp add: install_stages_def r a fun_eq_iff)
  have u: "update_body env net waited spec (o1\<lparr>uoRollback := b\<rparr>) = update_body env net waited spec o1" for waited
    by (simp add: update_body_def r i)
  show ?thesis unfolding apply_managed_update_def run_update_def u r ..
qed

subsection \<open>Instances\<close>

text \<open>A host where every program succeeds and no network answers.\<close>

definition calm_env :: ctl_env where
  "calm_env = \<lparr>ceGoos = ''linux'', ceArch = ''amd64'', ceEuid = 0, ceLib = bare_lib, ceExists = (\<lambda>_. True),
     ceRun = (\<lambda>_ w. (([], None), w)), ceLinkFault = (\<lambda>_ _ _. None), ceNewClient = (\<lambda>_ _. None), ceHTTP = (\<lambda>_. Inl (Plain []))\<rparr>"

definition calm_host :: "world \<Rightarrow> ctl_host" where
  "calm_host w = \<lparr>hoWorld = w, hoLinks = (\<lambda>_. None), hoPosts = [], hoReports = [], hoProgress = 0, hoRan = []\<rparr>"

definition deaf_net :: update_net where
  "deaf_net = \<lparr>unNewRequest = (\<lambda>_. None), unGet = (\<lambda>_ _. Inl (Plain ''connection refused'')), unDecode = (\<lambda>_. Inl (Plain ''EOF'')),
     unJournal = ([], None), unParse = (\<lambda>_. Inl (Plain ''EOF''))\<rparr>"

definition sample_update :: update_options where
  "sample_update = \<lparr>uoTargetVersion = ''2.0.0'', uoTargetID = ''t1'', uoRequestFile = [], uoRollback = False, uoApplyNow = True\<rparr>"

definition active_check :: service_check where
  "active_check = \<lparr>scCtxErr = None, scActive = True, scNow = 0\<rparr>"

lemma calm_programs: "programs_keep calm_env P"
  by (simp add: programs_keep_def calm_env_def)

lemma active_wait: "wait_for_restarted_service name journal start [active_check] = Some None"
  by (simp add: wait_for_restarted_service_def active_check_def)

lemma sample_runs: "\<exists>r h'. apply_managed_update calm_env net 0 [active_check] linux_spec sample_update (calm_host quiet_world) = Some (r, h')"
  by (cases "run_update calm_env net None linux_spec sample_update (calm_host quiet_world)") (simp add: apply_managed_update_def active_wait)

theorem update_installs_verified_binary_witness:
  "\<exists>r h'. apply_managed_update calm_env deaf_net 0 [active_check] linux_spec sample_update (calm_host quiet_world) = Some (r, h') \<and>
    ((binary_at linux_spec h' = None \<and> (\<exists>e. r = Inl e)) \<or> (\<exists>a. verified_file a (binary_at linux_spec h')))"
proof -
  obtain r h' where r: "apply_managed_update calm_env deaf_net 0 [active_check] linux_spec sample_update (calm_host quiet_world) = Some (r, h')"
    using sample_runs by blast
  from update_installs_verified_binary [OF r calm_programs] r show ?thesis
    by (auto simp: binary_at_def calm_host_def)
qed


theorem service_wait_ends_witness:
  "\<exists>checks r. second_apart (0 - second) checks \<and> apply_managed_update calm_env deaf_net 0 checks linux_spec sample_update (calm_host quiet_world) = Some r"
proof -
  let ?c = "\<lambda>i. \<lparr>scCtxErr = None, scActive = False, scNow = int i * second\<rparr>"
  have 1: "second_apart (int a * second - second) (map ?c [a..<b])" for a b
  proof (induction "b - a" arbitrary: a)
    case (Suc n)
    then have "[a..<b] = a # [Suc a..<b]" "n = b - Suc a" by (simp_all add: upt_rec)
    with Suc(1) [of "Suc a"] show ?case by (simp add: algebra_simps)
  qed simp
  have c: "second_apart (0 - second) (map ?c [0..<32])" using 1 [of 0 32] by simp
  have "\<exists>r. apply_managed_update calm_env deaf_net 0 (map ?c [0..<32]) linux_spec sample_update (calm_host quiet_world) = Some r"
    by (rule service_wait_ends [OF c]) simp
  with c show ?thesis by blast
qed

theorem detached_arguments_round_trip_witness:
  "parse_update_options (unParse deaf_net) (drop 6 (detached_args linux_spec sample_update)) quiet_world = (Inr sample_update, quiet_world)"
proof -
  have t: "trim_space ''2.0.0'' = ''2.0.0''" "trim_space ''t1'' = ''t1''" by code_simp+
  have s: "trimmed_options sample_update = sample_update" by (simp add: trimmed_options_def sample_update_def t)
  have "uoTargetVersion sample_update \<noteq> []" "uoTargetID sample_update \<noteq> []" by (simp_all add: sample_update_def)
  from detached_arguments_round_trip [OF this s, of "unParse deaf_net" linux_spec quiet_world] show ?thesis
    by (simp add: sample_update_def)
qed

theorem update_request_round_trip_witness:
  "\<exists>w1 w2. write_managed_update_request \<lparr>upTargetVersion = ''2.0.0'', upTargetID = ''t1'', upRollback = True\<rparr> ''/r'' quiet_world = (None, w1)
    \<and> consume_managed_update_request (\<lambda>_. Inr (update_payload_json \<lparr>upTargetVersion = ''2.0.0'', upTargetID = ''t1'', upRollback = True\<rparr>)) ''/r'' w1
        = (Inr \<lparr>uoTargetVersion = ''2.0.0'', uoTargetID = ''t1'', uoRequestFile = [], uoRollback = True, uoApplyNow = False\<rparr>, w2)
    \<and> wfiles w2 ''/r'' = None"
proof -
  let ?p = "\<lparr>upTargetVersion = ''2.0.0'', upTargetID = ''t1'', upRollback = True\<rparr>"
  let ?parse = "\<lambda>_ :: string. Inr (update_payload_json ?p) :: goerror + json"
  have t: "trim_space ''2.0.0'' = ''2.0.0''" "trim_space ''t1'' = ''t1''" "trim_space ''/r'' = ''/r''" "path_clean ''/r'' = ''/r''" by code_simp+
  have rt: "request_target ''/r'' = ''/r''" by (simp add: request_target_def t)
  obtain w1 where w1: "write_managed_update_request ?p ''/r'' quiet_world = (None, w1)" "wfault w1 = (\<lambda>_ _. None)"
    by (simp add: write_managed_update_request_def replace_request_def Let_def t commit_request_def seal_temp_def os_defs append_file_def)
  have f: "wfiles w1 ''/r'' = Some (json_text (update_payload_json ?p) @ [CHR 0x0A], 0x180)"
    using update_writer.writer_ok [OF w1(1)] rt by simp
  obtain q w2 where q: "consume_managed_update_request ?parse ''/r'' w1 = (q, w2)"
    by (cases "consume_managed_update_request ?parse ''/r'' w1")
  have "decode_request ?parse ''/r'' (json_text (update_payload_json ?p) @ [CHR 0x0A])
      = Inr \<lparr>uoTargetVersion = ''2.0.0'', uoTargetID = ''t1'', uoRequestFile = [], uoRollback = True, uoApplyNow = False\<rparr>"
    using decode_options_payload [of ?parse ?p]
    by (simp add: decode_request_def check_request_def trimmed_options_def zero_options_def t)
  with q f w1(2) have "q = Inr \<lparr>uoTargetVersion = ''2.0.0'', uoTargetID = ''t1'', uoRequestFile = [], uoRollback = True, uoApplyNow = False\<rparr>"
    by (simp add: consume_managed_update_request_def os_read_file_def os_remove_def)
  with q have c: "consume_managed_update_request ?parse ''/r'' w1
      = (Inr \<lparr>uoTargetVersion = ''2.0.0'', uoTargetID = ''t1'', uoRequestFile = [], uoRollback = True, uoApplyNow = False\<rparr>, w2)" by simp
  have "wfiles w2 ''/r'' = None"
    using update_request_round_trip [OF w1(1) rt _ c] w1(2) by simp
  with w1(1) c show ?thesis by blast
qed

end
