(* ===== verification/Installer.thy ===== *)
theory Installer
  imports SelfUpdate Agent LogScan
begin

text \<open>
  The commands of \<open>internal/agentctl\<close> besides \<open>update\<close>: \<open>install\<close>, \<open>bootstrap\<close>, \<open>uninstall\<close>, the service
  actions, \<open>config\<close>, \<open>log-scan\<close> and \<open>version\<close>, and \<open>Handle\<close>, which picks one. A command gives the text it
  prints when it succeeds; the logo, prompts and logs are left out, as are the owners of files. \<open>install\<close>
  has no result while an enrollment is pending.
\<close>

subsection \<open>The host\<close>

record install_env =
  inCtl :: ctl_env
  inParseTime :: "string \<Rightarrow> goerror + int"
  inStat :: "ctl_host \<Rightarrow> string \<Rightarrow> goerror + bool"
  inRemoveAll :: "nat \<Rightarrow> string \<Rightarrow> (goerror \<times> (string \<Rightarrow> bool)) option"
  inExecutable :: "goerror + string"
  inEvalSymlinks :: "string \<Rightarrow> goerror + string"
  inLookupUser :: "string \<Rightarrow> goerror + string"
  inLookupGroup :: "string \<Rightarrow> goerror + string"
  inChown :: "nat \<Rightarrow> string \<Rightarrow> int \<Rightarrow> int \<Rightarrow> goerror option"
  inVersion :: string
  inCommit :: string
  inBuildDate :: string
  inHost :: host_details
  inLocation :: "node_location option"
  inNow :: int
  inWait :: wait_env
  inStdin :: "string list"
  inNet :: update_net
  inChecks :: "service_check list"
  inScanFile :: file_env
  inScanJournal :: journal_env
  inScanNow :: string

abbreviation in_lib :: "install_env \<Rightarrow> config_lib" where
  "in_lib env \<equiv> ceLib (inCtl env)"

definition in_agent :: "install_env \<Rightarrow> agent_lib" where
  "in_agent env = \<lparr>alConfig = in_lib env, alParseTime = inParseTime env\<rparr>"

subsection \<open>Files and directories\<close>

definition os_lstat :: "ctl_env \<Rightarrow> string \<Rightarrow> ctl_host \<Rightarrow> goerror option" where
  "os_lstat env p h =
     (case ceLinkFault env (wtick (hoWorld h)) ''lstat'' p of
        Some e \<Rightarrow> Some e
      | None \<Rightarrow> if hoLinks h p = None \<and> wfiles (hoWorld h) p = None then Some (not_exist ''lstat'' p) else None)"

definition remove_file_if_exists :: "ctl_env \<Rightarrow> string \<Rightarrow> bool ctl" where
  "remove_file_if_exists env path h =
     (let p = trim_space path in
      if p = [] then (Inr False, h)
      else case os_lstat env p h of
        Some e \<Rightarrow> (if err_is e OsErrNotExist then Inr False else Inl (wrap_prefix (''stat '' @ p @ '': '') e), h)
      | None \<Rightarrow>
          (case os_unlink env p h of
             (Some e, h1) \<Rightarrow> (Inl (wrap_prefix (''remove '' @ p @ '': '') e), h1)
           | (None, h1) \<Rightarrow> (Inr True, h1)))"

text \<open>Paths in the tree of a directory; \<open>os.RemoveAll\<close> may fail half-way.\<close>

definition in_tree :: "string \<Rightarrow> string \<Rightarrow> bool" where
  "in_tree d p \<longleftrightarrow> p = d \<or> has_prefix p (d @ ''/'')"

definition os_remove_all :: "install_env \<Rightarrow> string \<Rightarrow> ctl_host \<Rightarrow> goerror option \<times> ctl_host" where
  "os_remove_all env d h =
     (let fault = inRemoveAll env (wtick (hoWorld h)) d;
          gone = (\<lambda>p. in_tree d p \<and> (case fault of None \<Rightarrow> True | Some (e, left) \<Rightarrow> \<not> left p)) in
      (map_option fst fault,
       h\<lparr>hoWorld := set_files (\<lambda>p. if gone p then None else wfiles (hoWorld h) p) (hoWorld h),
         hoLinks := (\<lambda>p. if gone p then None else hoLinks h p)\<rparr>))"

definition remove_dir_if_exists :: "install_env \<Rightarrow> string \<Rightarrow> bool ctl" where
  "remove_dir_if_exists env path h =
     (let p = trim_space path in
      if p = [] then (Inr False, h)
      else case inStat env h p of
        Inl e \<Rightarrow> (if err_is e OsErrNotExist then Inr False else Inl (wrap_prefix (''stat '' @ p @ '': '') e), h)
      | Inr is_dir \<Rightarrow>
          if \<not> is_dir then (Inl (Plain (''expected directory at '' @ p)), h)
          else (case os_remove_all env p h of
              (Some e, h1) \<Rightarrow> (Inl (wrap_prefix (''remove directory '' @ p @ '': '') e), h1)
            | (None, h1) \<Rightarrow> (Inr True, h1)))"

text \<open>\<open>copyExecutable\<close>: the target is created or emptied before it is written.\<close>

definition copy_executable :: "install_env \<Rightarrow> string \<Rightarrow> string \<Rightarrow> unit ctl" where
  "copy_executable env src dst h =
     (if path_clean src = path_clean dst then (Inr (), h)
      else case inStat env h src of
        Inl e \<Rightarrow> (Inl (wrap_prefix (''stat source executable '' @ src @ '': '') e), h)
      | Inr is_dir \<Rightarrow>
          cbind (ccheck (wrap_prefix (''create binary directory for '' @ dst @ '': '')) (os_mkdir_all (path_dir dst))) (\<lambda>_.
          cbind (cwrap (wrap_prefix (''open source executable '' @ src @ '': '')) (cio (os_read_file src))) (\<lambda>content.
          cbind (ccheck (wrap_prefix (''open target executable '' @ dst @ '': ''))
            (os_write_file dst [] (and (mode_of (hoWorld h) src 0) 0x1ED))) (\<lambda>_.
          ccheck (wrap_prefix (''copy executable to '' @ dst @ '': '')) (os_write dst content)))) h)"

definition parse_id :: "string \<Rightarrow> string \<Rightarrow> string \<Rightarrow> goerror + int" where
  "parse_id kind name t = (case atoi t of Inl e \<Rightarrow> Inl (wrap_prefix (''parse '' @ kind @ '' for '' @ name @ '': '') e) | Inr n \<Rightarrow> Inr n)"

definition lookup_owner :: "install_env \<Rightarrow> string \<Rightarrow> string \<Rightarrow> goerror + int \<times> int" where
  "lookup_owner env owner grp =
     (let g = first_non_empty [grp, owner] in
      case inLookupUser env owner of
        Inl e \<Rightarrow> Inl (wrap_prefix (''lookup user '' @ owner @ '': '') e)
      | Inr uid \<Rightarrow>
          (case inLookupGroup env g of
             Inl e \<Rightarrow> Inl (wrap_prefix (''lookup group '' @ g @ '': '') e)
           | Inr gid \<Rightarrow> rbind (parse_id ''uid'' owner uid) (\<lambda>u. rbind (parse_id ''gid'' grp gid) (\<lambda>n. Inr (u, n)))))"

definition ensure_ownership :: "install_env \<Rightarrow> string \<Rightarrow> string \<Rightarrow> string \<Rightarrow> unit ctl" where
  "ensure_ownership env owner grp path h =
     (if ceEuid (inCtl env) \<noteq> 0 \<or> trim_space owner = [] \<or> trim_space path = [] then (Inr (), h)
      else case inStat env h path of
        Inl e \<Rightarrow> (if err_is e OsErrNotExist then Inr () else Inl (wrap_prefix (''stat '' @ path @ '': '') e), h)
      | Inr is_dir \<Rightarrow>
          (case lookup_owner env owner grp of
             Inl e \<Rightarrow> (Inl e, h)
           | Inr (u, g) \<Rightarrow>
               (case inChown env (wtick (hoWorld h)) path u g of
                  Some e \<Rightarrow> (Inl (wrap_prefix (''chown '' @ path @ '': '') e), h)
                | None \<Rightarrow>
                    if is_dir then (Inr (), h)
                    else ccheck (wrap_prefix (''chmod '' @ path @ '': '')) (os_chmod path 0x180) h)))"

subsection \<open>Asking at the terminal\<close>

text \<open>
  A \<open>bufio.Reader\<close>: what it has read ahead, and the chunks the reads to come deliver. \<open>ReadString\<close> reads until
  its buffer has a newline or the input ends.
\<close>

fun read_buffered :: "string \<Rightarrow> string list \<Rightarrow> string \<times> string \<times> string list \<times> bool" where
  "read_buffered buf [] = (case read_line buf of (l, r, eof) \<Rightarrow> (l, r, [], eof))"
| "read_buffered buf (c # cs) =
     (if CHR 0x0A \<in> set buf then (case read_line buf of (l, r, eof) \<Rightarrow> (l, r, c # cs, eof)) else read_buffered (buf @ c) cs)"

lemma read_buffered_shorter:
  "read_buffered buf cs = (l, r, cs', False) \<Longrightarrow> length r + length (concat cs') < length buf + length (concat cs)"
proof (induction buf cs rule: read_buffered.induct)
  case (2 buf c cs)
  then show ?case by (fastforce split: if_splits prod.splits dest: read_line_shorter)
qed (auto split: prod.splits dest: read_line_shorter)

function prompt_default :: "string \<Rightarrow> string \<Rightarrow> bool \<Rightarrow> string \<Rightarrow> string list \<Rightarrow> goerror + string \<times> string \<times> string list" where
  "prompt_default label def required buf cs =
     (case read_buffered buf cs of (line, buf1, cs1, eof) \<Rightarrow>
        (let v = (if trim_space line = [] then trim_space def else trim_space line) in
         if v \<noteq> [] \<or> \<not> required then Inr (v, buf1, cs1)
         else if eof then Inl (Plain (label @ '' is required''))
         else prompt_default label def required buf1 cs1))"
  by pat_completeness auto
termination
  by (relation "measure (\<lambda>(l, d, q, b, cs). length b + length (concat cs))") (auto dest!: read_buffered_shorter [OF sym])

declare prompt_default.simps [simp del]

subsection \<open>Services\<close>

definition run_quiet :: "ctl_env \<Rightarrow> string list \<Rightarrow> ctl_host \<Rightarrow> bool \<times> ctl_host" where
  "run_quiet env argv h = (case crun env argv h of ((out, e), h1) \<Rightarrow> (e = None, h1))"

text \<open>\<open>if c.isX() { if err := m; err != nil { return err } }\<close>.\<close>

definition when_ok :: "ctl_env \<Rightarrow> string list \<Rightarrow> unit ctl \<Rightarrow> unit ctl" where
  "when_ok env argv m h = (case run_quiet env argv h of (ok, h1) \<Rightarrow> if ok then m h1 else (Inr (), h1))"

definition unsupported_manager :: "platform_spec \<Rightarrow> goerror" where
  "unsupported_manager spec = Plain (''unsupported service manager '' @ quote_text (psManager spec))"

definition stop_and_disable_service :: "ctl_env \<Rightarrow> platform_spec \<Rightarrow> unit ctl" where
  "stop_and_disable_service env spec =
     (if psManager spec = ''systemd'' then
        if \<not> ceExists env ''systemctl'' then cret ()
        else cbind (when_ok env [''systemctl'', ''is-active'', ''--quiet'', psServiceName spec] (run_systemctl env [''stop'', psServiceName spec])) (\<lambda>_.
          when_ok env [''systemctl'', ''is-enabled'', ''--quiet'', psServiceName spec] (run_systemctl env [''disable'', psServiceName spec]))
      else if psManager spec = ''launchd'' then
        if \<not> ceExists env ''launchctl'' then cret ()
        else when_ok env [''launchctl'', ''print'', launchd_target spec] (run_launchctl env [''bootout'', launchd_target spec])
      else cfail (unsupported_manager spec))"

definition enable_and_start_service :: "ctl_env \<Rightarrow> platform_spec \<Rightarrow> unit ctl" where
  "enable_and_start_service env spec =
     (if psManager spec = ''systemd'' then
        cbind (run_systemctl env [''daemon-reload'']) (\<lambda>_. run_systemctl env [''enable'', ''--now'', psServiceName spec])
      else if psManager spec = ''launchd'' then
        cbind (when_ok env [''launchctl'', ''print'', launchd_target spec] (run_launchctl env [''bootout'', launchd_target spec])) (\<lambda>_.
        cbind (run_launchctl env [''bootstrap'', psServiceDomain spec, psServiceUnit spec]) (\<lambda>_.
        cbind (run_launchctl env [''enable'', launchd_target spec]) (\<lambda>_.
        run_launchctl env [''kickstart'', ''-k'', launchd_target spec])))
      else cfail (unsupported_manager spec))"

text \<open>\<open>start\<close> and \<open>restart\<close>: a loaded service is kicked, another one is loaded first.\<close>

definition kick_launchd :: "ctl_env \<Rightarrow> platform_spec \<Rightarrow> bool \<Rightarrow> unit ctl" where
  "kick_launchd env spec ready =
     (if ready then run_launchctl env [''kickstart'', ''-k'', launchd_target spec]
      else cbind (run_launchctl env [''bootstrap'', psServiceDomain spec, psServiceUnit spec]) (\<lambda>_.
        run_launchctl env [''kickstart'', ''-k'', launchd_target spec]))"

definition run_launchd_action :: "ctl_env \<Rightarrow> platform_spec \<Rightarrow> string \<Rightarrow> unit ctl" where
  "run_launchd_action env spec action h =
     (case run_quiet env [''launchctl'', ''print'', launchd_target spec] h of (ready, h1) \<Rightarrow>
        (if action = ''start'' then kick_launchd env spec ready
         else if action = ''stop'' then run_launchctl env [''bootout'', launchd_target spec]
         else if action = ''restart'' then kick_launchd env spec ready
         else if action = ''status'' then run_launchctl env [''print'', launchd_target spec]
         else cfail (Plain (''unsupported service action '' @ quote_text action))) h1)"

definition spec_for :: "ctl_env \<Rightarrow> (platform_spec \<Rightarrow> 'a ctl) \<Rightarrow> 'a ctl" where
  "spec_for env f = cbind (clift (current_platform_spec (ceGoos env))) f"

definition as_root :: "ctl_env \<Rightarrow> bool \<Rightarrow> 'a ctl \<Rightarrow> 'a ctl" where
  "as_root env needed m = cbind (cguard (if needed then require_root (ceEuid env) else None)) (\<lambda>_. m)"

definition service_action :: "ctl_env \<Rightarrow> string \<Rightarrow> unit ctl" where
  "service_action env action =
     spec_for env (\<lambda>spec. as_root env (service_action_requires_root spec action)
       (if psManager spec = ''systemd''
        then run_systemctl env (if action = ''status'' then [''--no-pager'', ''--full'', ''status'', psServiceName spec] else [action, psServiceName spec])
        else if psManager spec = ''launchd'' then run_launchd_action env spec action
        else cfail (unsupported_manager spec)))"

subsection \<open>\<open>config\<close>\<close>

definition show_config :: "install_env \<Rightarrow> platform_spec \<Rightarrow> string ctl" where
  "show_config env spec =
     (let path = managed_config_path (in_lib env) spec in
      cbind (cwrap (wrap_prefix (''read config file '' @ path @ '': '')) (cio (os_read_file path))) (\<lambda>data.
        cret (''Config path: '' @ path @ [CHR 0x0A] @ data @ [CHR 0x0A])))"

definition restart_after_set :: "install_env \<Rightarrow> platform_spec \<Rightarrow> string ctl" where
  "restart_after_set env spec h =
     (case inStat env h (psServiceUnit spec) of
        Inl e \<Rightarrow> (Inr [], h)
      | Inr is_dir \<Rightarrow>
          cbind (if psManager spec = ''systemd''
                 then cbind (run_systemctl (inCtl env) [''daemon-reload'']) (\<lambda>_. run_systemctl (inCtl env) [''restart'', psServiceName spec])
                 else if psManager spec = ''launchd'' then run_launchd_action (inCtl env) spec ''restart'' else cret ())
            (\<lambda>_. cret (''Service restarted to apply the new configuration.'' @ [CHR 0x0A])) h)"

definition set_config :: "install_env \<Rightarrow> platform_spec \<Rightarrow> string \<Rightarrow> string \<Rightarrow> string ctl" where
  "set_config env spec key v =
     cbind (cio (load_managed_config (in_lib env) spec)) (\<lambda>c0.
     cbind (clift (apply_config_value (in_lib env) key v (c0\<lparr>cfConfigFile := managed_config_path (in_lib env) spec\<rparr>))) (\<lambda>c.
     cbind (cguard (validate_config (in_lib env) c)) (\<lambda>_.
     cbind (cwrap (wrap_prefix ''write config file: '') (cio (save_config_file (in_lib env) (cfConfigFile c) c))) (\<lambda>_.
     cbind (ensure_ownership env (psServiceUser spec) (psServiceGroup spec) (cfConfigFile c)) (\<lambda>_.
     cbind (restart_after_set env spec) (\<lambda>t.
     cret (''Updated '' @ key @ '' in '' @ cfConfigFile c @ [CHR 0x0A] @ t)))))))"

definition config_command :: "install_env \<Rightarrow> string list \<Rightarrow> string ctl" where
  "config_command env args =
     (case args of
        [] \<Rightarrow> cfail (Plain ''usage: noderax-agent config <show|set>'')
      | sub # rest \<Rightarrow> spec_for (inCtl env) (\<lambda>spec.
          if sub = ''show'' then show_config env spec
          else if sub = ''set'' then
            as_root (inCtl env) (psRequiresRoot spec)
              (case rest of [key, v] \<Rightarrow> set_config env spec key v
                | _ \<Rightarrow> cfail (Plain ''usage: noderax-agent config set <key> <value>''))
          else cfail (Plain (''unsupported config command '' @ quote_text sub))))"

subsection \<open>\<open>install\<close> and \<open>bootstrap\<close>\<close>

definition existing_config :: "install_env \<Rightarrow> platform_spec \<Rightarrow> config io" where
  "existing_config env spec w =
     (case load_managed_config (in_lib env) spec w of
        (Inl e, w1) \<Rightarrow> (Inr default_config, w1) | (Inr c, w1) \<Rightarrow> (Inr c, w1))"

definition install_settings :: "install_env \<Rightarrow> install_options \<Rightarrow> config \<Rightarrow> goerror + config \<times> string list" where
  "install_settings env op c =
     (if ioNonInteractive op then
        (let c1 = c\<lparr>cfAPIURL := first_non_empty [ioAPIURL op, cfAPIURL c], cfLogLevel := first_non_empty [ioLogLevel op, cfLogLevel c],
             cfEnrollmentToken := trim_space (ioBootstrapToken op)\<rparr> in
         if trim_space (cfAPIURL c1) = [] then Inl (Plain ''non-interactive install requires --api-url'')
         else if trim_space (cfEnrollmentToken c1) = [] then Inl (Plain ''non-interactive install requires --bootstrap-token'')
         else Inr (c1, inStdin env))
      else
        rbind (prompt_default ''API URL'' (cfAPIURL c) True [] (inStdin env)) (\<lambda>(url, buf, cs).
        rbind (prompt_default ''Log level'' (cfLogLevel c) False buf cs) (\<lambda>(level, buf1, cs1).
        Inr (c\<lparr>cfAPIURL := url, cfLogLevel := (if level \<noteq> [] then level else cfLogLevel c), cfEnrollmentToken := []\<rparr>, cs1))))"

definition install_config :: "install_env \<Rightarrow> platform_spec \<Rightarrow> config \<Rightarrow> config" where
  "install_config env spec c =
     c\<lparr>cfConfigFile := managed_config_path (in_lib env) spec, cfStateFile := psStatePath spec, cfNodeID := [], cfAgentToken := []\<rparr>"

definition running_executable :: "install_env \<Rightarrow> goerror + string" where
  "running_executable env =
     (case inExecutable env of
        Inl e \<Rightarrow> Inl (wrap_prefix ''resolve executable path: '' e)
      | Inr p \<Rightarrow> Inr (case inEvalSymlinks env p of Inl e \<Rightarrow> p | Inr q \<Rightarrow> q))"

definition install_unit :: "platform_spec \<Rightarrow> config \<Rightarrow> unit ctl" where
  "install_unit spec c =
     (if psManager spec = ''systemd''
      then cwrap (wrap_prefix ''write service unit: '') (cio (write_service_unit (psServiceUnit spec) (render_service_unit spec (cfConfigFile c))))
      else if psManager spec = ''launchd''
      then cwrap (wrap_prefix ''write launchd plist: '') (cio (write_service_unit (psServiceUnit spec) (render_launchd_plist spec (cfConfigFile c))))
      else cfail (unsupported_manager spec))"

text \<open>Everything between the settings and the enrollment.\<close>

definition install_artifacts :: "install_env \<Rightarrow> platform_spec \<Rightarrow> config \<Rightarrow> unit ctl" where
  "install_artifacts env spec c =
     cbind (cguard (validate_config (in_lib env) c)) (\<lambda>_.
     cbind (cwrap (wrap_prefix ''write config file: '') (cio (save_config_file (in_lib env) (cfConfigFile c) c))) (\<lambda>_.
     cbind (ensure_ownership env (psServiceUser spec) (psServiceGroup spec) (cfConfigFile c)) (\<lambda>_.
     cbind (clift (running_executable env)) (\<lambda>exe.
     cbind (cwrap (wrap_prefix ''install binary: '') (copy_executable env exe (psBinaryPath spec))) (\<lambda>_.
     cbind (if psSymlinkPath spec \<noteq> [] then cwrap (wrap_prefix ''create symlink: '') (ensure_symlink (inCtl env) (psBinaryPath spec) (psSymlinkPath spec))
            else cret ()) (\<lambda>_.
     cbind (refresh_helpers (inCtl env) ''write'' spec) (\<lambda>_.
     cbind (cwrap (wrap_prefix ''apply default root access profile: '') (apply_root_access_profile (inCtl env) spec ''off'')) (\<lambda>_.
     install_unit spec c))))))))"

definition fresh_client :: client where
  "fresh_client = \<lparr>cAuthToken = [], cNodeIDHeader = []\<rparr>"

definition new_client :: "ctl_env \<Rightarrow> config \<Rightarrow> unit ctl" where
  "new_client env c = cwrap (wrap_prefix ''configure API client: '') (cguard (ceNewClient env (cfAPIURL c) (cfAPITLSCAFile c)))"

definition enroll_bootstrap :: "install_env \<Rightarrow> config \<Rightarrow> unit ctl" where
  "enroll_bootstrap env c =
     cbind (new_client (inCtl env) c) (\<lambda>_.
     cbind (cio (run_bootstrap_enrollment (in_agent env) c (ceHTTP (inCtl env)) fresh_client (inHost env) (inVersion env)
       (inLocation env) (inNow env) (cfEnrollmentToken c))) (\<lambda>i. cret ()))"

definition bootstrap_managed_install :: "install_env \<Rightarrow> platform_spec \<Rightarrow> config \<Rightarrow> unit ctl" where
  "bootstrap_managed_install env spec c =
     (if trim_space (psServiceUser spec) = [] then enroll_bootstrap env c
      else cbind (ensure_ownership env (psServiceUser spec) (psServiceGroup spec) (cfConfigFile c)) (\<lambda>_ h.
        (case crun (inCtl env) (''sudo'' # bootstrap_args spec c) h of
           ((out, Some e), h1) \<Rightarrow> (Inl (wrap_prefix ''bootstrap managed install: '' e), h1)
         | ((out, None), h1) \<Rightarrow> (Inr (), h1))))"

text \<open>The enrollment at the terminal reads standard input anew: what the prompts had read ahead is lost to it.\<close>

definition enroll_interactive :: "install_env \<Rightarrow> config \<Rightarrow> string list \<Rightarrow> ctl_host \<Rightarrow> ((goerror + unit) \<times> ctl_host) option" where
  "enroll_interactive env c cs h =
     (case new_client (inCtl env) c h of
        (Inl e, h1) \<Rightarrow> Some (Inl e, h1)
      | (Inr u, h1) \<Rightarrow>
          map_option (\<lambda>(r, w). (case r of None \<Rightarrow> Inr () | Some e \<Rightarrow> Inl e, h1\<lparr>hoWorld := w\<rparr>))
            (run_interactive_enrollment (in_agent env) c (ceHTTP (inCtl env)) fresh_client (inHost env) (inVersion env)
              (inLocation env) (inWait env) (concat cs) (hoWorld h1)))"

definition install_finish :: "install_env \<Rightarrow> platform_spec \<Rightarrow> config \<Rightarrow> string ctl" where
  "install_finish env spec c =
     cbind (enable_and_start_service (inCtl env) spec) (\<lambda>_.
     cret (render_install_summary (ceGoos (inCtl env)) spec c (inVersion env) (mirrored_config_path (in_lib env) (cfConfigFile c))))"

text \<open>Up to the enrollment: the platform, the options, the configuration and the input left.\<close>

definition install_prepare :: "install_env \<Rightarrow> string list \<Rightarrow> (platform_spec \<times> install_options \<times> config \<times> string list) ctl" where
  "install_prepare env args =
     spec_for (inCtl env) (\<lambda>spec. as_root (inCtl env) (psRequiresRoot spec)
       (cbind (cguard (ensure_service_manager (ceExists (inCtl env)) spec)) (\<lambda>_.
        cbind (clift (parse_install_options args)) (\<lambda>op.
        cbind (cio (existing_config env spec)) (\<lambda>c0.
        cbind (clift (install_settings env op c0)) (\<lambda>(c1, cs).
        cbind (install_artifacts env spec (install_config env spec c1)) (\<lambda>_.
        cret (spec, op, install_config env spec c1, cs))))))))"

definition install_command :: "install_env \<Rightarrow> string list \<Rightarrow> ctl_host \<Rightarrow> ((goerror + string) \<times> ctl_host) option" where
  "install_command env args h =
     (case install_prepare env args h of
        (Inl e, h1) \<Rightarrow> Some (Inl e, h1)
      | (Inr (spec, op, c, cs), h1) \<Rightarrow>
          (case (if ioNonInteractive op then Some (bootstrap_managed_install env spec c h1) else enroll_interactive env c cs h1) of
             None \<Rightarrow> None
           | Some (Inl e, h2) \<Rightarrow> Some (Inl e, h2)
           | Some (Inr u, h2) \<Rightarrow> Some (install_finish env spec c h2)))"

definition bootstrap_base :: "install_env \<Rightarrow> bootstrap_options \<Rightarrow> config io" where
  "bootstrap_base env op w =
     (if trim_space (boConfigFile op) = [] then (Inr default_config, w)
      else case load_config_file (in_lib env) (boConfigFile op) w of
        (Inl e, w1) \<Rightarrow> (Inr (default_config\<lparr>cfConfigFile := boConfigFile op\<rparr>), w1)
      | (Inr c, w1) \<Rightarrow> (Inr (c\<lparr>cfConfigFile := boConfigFile op\<rparr>), w1))"

definition bootstrap_config :: "bootstrap_options \<Rightarrow> config \<Rightarrow> config" where
  "bootstrap_config op c =
     c\<lparr>cfAPIURL := first_non_empty [boAPIURL op, cfAPIURL c], cfStateFile := first_non_empty [boStateFile op, cfStateFile c],
       cfLogLevel := first_non_empty [boLogLevel op, cfLogLevel c], cfEnrollmentToken := trim_space (boBootstrapToken op),
       cfNodeID := [], cfAgentToken := []\<rparr>"

definition bootstrap_command :: "install_env \<Rightarrow> string list \<Rightarrow> unit ctl" where
  "bootstrap_command env args =
     cbind (clift (parse_bootstrap_options args)) (\<lambda>op.
       if \<not> boNonInteractive op then cfail (Plain ''bootstrap currently requires --non-interactive'')
       else cbind (cio (bootstrap_base env op)) (\<lambda>c0.
         let c = bootstrap_config op c0 in
         if trim_space (cfAPIURL c) = [] then cfail (Plain ''bootstrap requires --api-url'')
         else if trim_space (cfEnrollmentToken c) = [] then cfail (Plain ''bootstrap requires --bootstrap-token'')
         else cbind (cguard (validate_config (in_lib env) c)) (\<lambda>_.
           cbind (if trim_space (cfConfigFile c) \<noteq> []
                  then cwrap (wrap_prefix ''write config file: '') (cio (save_config_file (in_lib env) (cfConfigFile c) c)) else cret ()) (\<lambda>_.
           enroll_bootstrap env c))))"

subsection \<open>\<open>uninstall\<close>\<close>

text \<open>Removals, recorded under a kind; the first error ends them.\<close>

fun remove_each :: "(string \<Rightarrow> bool ctl) \<Rightarrow> (string \<times> string) list \<Rightarrow> string list \<times> string list \<Rightarrow> (string list \<times> string list) ctl" where
  "remove_each rm [] acc = cret acc"
| "remove_each rm ((kind, path) # rest) acc =
     cbind (rm path) (\<lambda>did. remove_each rm rest (record_removal_result kind path did acc))"

definition removed_files :: "platform_spec \<Rightarrow> string \<Rightarrow> string \<Rightarrow> (string \<times> string) list" where
  "removed_files spec config state =
     [(''symlink'', psSymlinkPath spec), (''privileged update helper'', psPrivilegedUpdateHelperPath spec),
      (''root profile helper'', psRootProfileHelperPath spec), (''package mutation helper'', psPackageMutationHelperPath spec),
      (''operational log scan helper'', psOperationalLogScanHelperPath spec), (''task root helper'', psTaskRootHelperPath spec),
      (''base sudoers'', psBaseSudoersPath spec), (''root access sudoers'', psRootAccessSudoersPath spec),
      (''config file'', config), (''state file'', state)]"

definition removed_dirs :: "platform_spec \<Rightarrow> (string \<times> string) list" where
  "removed_dirs spec = [(''install directory'', psInstallDir spec), (''managed directory'', path_dir (psConfigPath spec)),
     (''managed directory'', path_dir (psStatePath spec))]"

text \<open>\<open>_ = c.runSystemctl(...)\<close>.\<close>

definition ignoring :: "unit ctl \<Rightarrow> unit ctl" where
  "ignoring m h = (case m h of (r, h1) \<Rightarrow> (Inr (), h1))"

definition after_unit :: "ctl_env \<Rightarrow> platform_spec \<Rightarrow> string list \<times> string list \<Rightarrow> (string list \<times> string list) ctl" where
  "after_unit env spec acc =
     (if psManager spec = ''systemd'' then
        cbind (if ceExists env ''systemctl''
               then cbind (ignoring (run_systemctl env [''daemon-reload''])) (\<lambda>_. ignoring (run_systemctl env [''reset-failed'', psServiceName spec]))
               else cret ()) (\<lambda>_. cret acc)
      else if psManager spec = ''launchd''
      then remove_each (remove_file_if_exists env) [(''log file'', psLogStdoutPath spec), (''log file'', psLogStderrPath spec)] acc
      else cret acc)"

definition installed_paths :: "install_env \<Rightarrow> platform_spec \<Rightarrow> (string \<times> string) io" where
  "installed_paths env spec w =
     (case installed_config_path (in_lib env) spec w of (config, w1) \<Rightarrow>
        (case installed_state_path (in_lib env) config (psStatePath spec) w1 of (state, w2) \<Rightarrow> (Inr (config, state), w2)))"

definition remove_installation :: "install_env \<Rightarrow> platform_spec \<Rightarrow> string \<Rightarrow> string \<Rightarrow> (string list \<times> string list) ctl" where
  "remove_installation env spec config state =
     cbind (remove_each (remove_file_if_exists (inCtl env)) [(''service unit'', psServiceUnit spec)] ([], [])) (\<lambda>a.
     cbind (after_unit (inCtl env) spec a) (\<lambda>b.
     cbind (remove_each (remove_file_if_exists (inCtl env)) (removed_files spec config state) b) (\<lambda>c.
     remove_each (remove_dir_if_exists env) (removed_dirs spec) c)))"

definition uninstall_command :: "install_env \<Rightarrow> string ctl" where
  "uninstall_command env =
     spec_for (inCtl env) (\<lambda>spec. as_root (inCtl env) (psRequiresRoot spec)
       (cbind (cio (installed_paths env spec)) (\<lambda>(config, state).
        cbind (stop_and_disable_service (inCtl env) spec) (\<lambda>_.
        cbind (remove_installation env spec config state) (\<lambda>(removed, missing).
        cret (render_uninstall_summary (ceGoos (inCtl env)) spec removed missing))))))"

subsection \<open>\<open>log-scan\<close> and \<open>version\<close>\<close>

definition limits_fields :: "limits field list" where
  "limits_fields = [(''maxLines'', dec_int ''Limits.maxLines'' liMaxLines_update), (''maxBytes'', dec_int ''Limits.maxBytes'' liMaxBytes_update),
     (''backfillLines'', dec_int ''Limits.backfillLines'' liBackfillLines_update)]"

definition cursor_fields :: "cursor field list" where
  "cursor_fields = [(''journalCursor'', dec_string ''Cursor.journalCursor'' cuJournalCursor_update),
     (''fileInode'', dec_string ''Cursor.fileInode'' cuFileInode_update), (''fileOffset'', dec_int ''Cursor.fileOffset'' cuFileOffset_update),
     (''lastReadAt'', dec_string ''Cursor.lastReadAt'' cuLastReadAt_update),
     (''cursorResetReason'', dec_string ''Cursor.cursorResetReason'' cuResetReason_update)]"

definition zero_cursor :: cursor where
  "zero_cursor = \<lparr>cuJournalCursor = [], cuFileInode = [], cuFileOffset = 0, cuLastReadAt = [], cuResetReason = []\<rparr>"

text \<open>The members a scan ignores are still checked for their types.\<close>

definition scan_request_fields :: "scan_request field list" where
  "scan_request_fields =
     [(''mode'', dec_string ''Request.mode'' srMode_update), (''sourcePresetId'', dec_string ''Request.sourcePresetId'' srSourcePresetID_update),
      (''limits'', \<lambda>j s. case decode_struct ''logscan.Limits'' limits_fields j (srLimits s) of (e, l) \<Rightarrow> (e, s\<lparr>srLimits := l\<rparr>)),
      (''cursor'', dec_struct_pointer ''logscan.Cursor'' cursor_fields zero_cursor srCursor_update srCursor),
      (''runAsRoot'', dec_bool ''Request.runAsRoot'' (\<lambda>f s. s)), (''rootScope'', dec_string ''Request.rootScope'' (\<lambda>f s. s)),
      (''internalContext'', \<lambda>j s. case j of JObj ms \<Rightarrow> (None, s) | JNull \<Rightarrow> (None, s)
         | _ \<Rightarrow> (Some (type_error (json_kind j) ''Request.internalContext'' ''map[string]interface {}''), s))]"

definition zero_scan_request :: scan_request where
  "zero_scan_request = \<lparr>srMode = [], srSourcePresetID = [], srLimits = \<lparr>liMaxLines = 0, liMaxBytes = 0, liBackfillLines = 0\<rparr>, srCursor = None\<rparr>"

definition load_scan_request :: "(string \<Rightarrow> goerror + json) \<Rightarrow> string \<Rightarrow> scan_request io" where
  "load_scan_request parse path w =
     (case os_read_file (path_clean path) w of
        (Inl e, w1) \<Rightarrow> (Inl (wrap_prefix ''open log scan request: '' e), w1)
      | (Inr data, w1) \<Rightarrow>
          (case (case parse data of Inl e \<Rightarrow> (Some e, zero_scan_request)
                 | Inr j \<Rightarrow> decode_struct ''logscan.Request'' scan_request_fields j zero_scan_request) of
             (Some e, r) \<Rightarrow> (Inl (wrap_prefix ''decode log scan request: '' e), w1)
           | (None, r) \<Rightarrow> (Inr r, w1)))"

definition cursor_json :: "cursor \<Rightarrow> json" where
  "cursor_json c = JObj (omit_empty ''journalCursor'' (cuJournalCursor c) @ omit_empty ''fileInode'' (cuFileInode c)
     @ omit_zero ''fileOffset'' (cuFileOffset c) @ omit_empty ''lastReadAt'' (cuLastReadAt c) @ omit_empty ''cursorResetReason'' (cuResetReason c))"

definition entry_json :: "entry \<Rightarrow> json" where
  "entry_json x = JObj (omit_empty ''timestamp'' (enTimestamp x) @ [(''message'', JStr (enMessage x))]
     @ omit_empty ''unit'' (enUnit x) @ omit_empty ''identifier'' (enIdentifier x))"

definition scan_result_json :: "scan_result \<Rightarrow> json" where
  "scan_result_json r = JObj
     [(''sourcePresetId'', JStr (scSourcePresetID r)),
      (''sourceType'', JStr (case scSourceType r of FileSource \<Rightarrow> ''file'' | JournalSource \<Rightarrow> ''journal'')),
      (''entries'', JArr (map entry_json (scEntries r))), (''cursor'', cursor_json (scCursor r)), (''truncated'', JBool (scTruncated r)),
      (''bytesRead'', JNum (int_text (scBytesRead r))), (''linesRead'', JNum (int_text (scLinesRead r))),
      (''warnings'', JArr (map JStr (scWarnings r)))]"

definition cli_log_scan :: "install_env \<Rightarrow> string list \<Rightarrow> string ctl" where
  "cli_log_scan env args =
     cbind (clift (parse_flags [(''request'', StringFlag (\<lambda>v s. v))] args [])) (\<lambda>(path, rest).
       if path = [] then cfail (Plain ''log-scan requires --request'')
       else if rest \<noteq> [] then cfail (Plain (''unexpected log-scan arguments: ['' @ str_join '' '' rest @ '']''))
       else cbind (cio (load_scan_request (unDecode (inNet env)) path)) (\<lambda>r.
         cbind (cfiles (\<lambda>w. (Inr (), snd (os_remove path w)))) (\<lambda>_.
         cbind (clift (run_scan (inScanFile env) (inScanJournal env) (inScanNow env) r)) (\<lambda>result.
         cret (json_text (scan_result_json result) @ [CHR 0x0A])))))"

definition version_info :: "install_env \<Rightarrow> string list \<Rightarrow> goerror + string" where
  "version_info env args =
     (if args \<noteq> [] then Inl (Plain (''unexpected version arguments: '' @ str_join '' '' args))
      else Inr (render_version_summary (inVersion env) (inCommit env) (inBuildDate env)))"

subsection \<open>\<open>Handle\<close>\<close>

definition silent :: "unit ctl \<Rightarrow> string ctl" where
  "silent m = cbind m (\<lambda>_. cret [])"

definition handled :: "string ctl \<Rightarrow> ctl_host \<Rightarrow> ((bool \<times> (goerror + string)) \<times> ctl_host) option" where
  "handled m h = (case m h of (r, h1) \<Rightarrow> Some ((True, r), h1))"

text \<open>Whether the arguments were a command, and its result.\<close>

definition handle :: "install_env \<Rightarrow> string list \<Rightarrow> ctl_host \<Rightarrow> ((bool \<times> (goerror + string)) \<times> ctl_host) option" where
  "handle env args h =
     (case args of
        [] \<Rightarrow> Some ((False, Inr []), h)
      | cmd # rest \<Rightarrow>
          if cmd = ''install'' then map_option (\<lambda>(r, h1). ((True, r), h1)) (install_command env rest h)
          else if cmd = ''bootstrap'' then handled (silent (bootstrap_command env rest)) h
          else if cmd = ''uninstall'' then handled (uninstall_command env) h
          else if cmd \<in> {''start'', ''stop'', ''restart'', ''status''} then handled (silent (service_action (inCtl env) cmd)) h
          else if cmd = ''update'' then
            map_option (\<lambda>(r, h1). ((True, case r of Inl e \<Rightarrow> Inl e | Inr u \<Rightarrow> Inr []), h1))
              (update_command (inCtl env) (inNet env) (inNow env) (inChecks env) rest h)
          else if cmd = ''config'' then handled (config_command env rest) h
          else if cmd = ''log-scan'' then handled (cli_log_scan env rest) h
          else if cmd \<in> {''version'', ''--version'', ''-v''} then handled (clift (version_info env rest)) h
          else Some ((False, Inr []), h))"

subsection \<open>Without root nothing changes\<close>

lemma not_root: "ceEuid env \<noteq> 0 \<Longrightarrow> as_root env True m h = (Inl (Plain ''this command must be run as root; try again with sudo''), h)"
  by (simp add: as_root_def require_root_def cguard_def cbind_def)

lemma linux_spec_for: "ceGoos env = ''linux'' \<Longrightarrow> spec_for env f = f linux_spec"
  by (simp add: spec_for_def current_platform_spec_def)

lemma update_needs_root:
  assumes "ceGoos env = ''linux''" "ceEuid env \<noteq> 0"
  shows "update_command env net start checks args h = Some (Inl (Plain ''this command must be run as root; try again with sudo''), h)"
proof -
  have "psRequiresRoot linux_spec" by (simp add: linux_spec_def)
  with assms show ?thesis by (simp add: update_command_def current_platform_spec_def require_root_def)
qed

lemma service_needs_root:
  assumes "ceGoos env = ''linux''" "ceEuid env \<noteq> 0" "cmd \<noteq> ''status''"
  shows "silent (service_action env cmd) h = (Inl (Plain ''this command must be run as root; try again with sudo''), h)"
proof -
  have "service_action_requires_root linux_spec cmd" using assms(3) by (simp add: service_action_requires_root_def linux_spec_def)
  then show ?thesis by (simp add: silent_def cbind_def service_action_def linux_spec_for [OF assms(1)] not_root [OF assms(2)])
qed

text \<open>
  C26. On Linux no command that manages the installation does anything for a user other than root: \<open>install\<close>,
  \<open>uninstall\<close>, \<open>update\<close>, \<open>start\<close>, \<open>stop\<close>, \<open>restart\<close> and \<open>config set\<close> fail before they touch a file, run a program
  or post a report.
\<close>

theorem management_needs_root:
  assumes "ceGoos (inCtl env) = ''linux''" "ceEuid (inCtl env) \<noteq> 0"
    and "cmd \<in> {''install'', ''uninstall'', ''update'', ''start'', ''stop'', ''restart''} \<or> (cmd = ''config'' \<and> (\<exists>r. rest = ''set'' # r))"
  shows "handle env (cmd # rest) h = Some ((True, Inl (Plain ''this command must be run as root; try again with sudo'')), h)"
proof -
  have r: "psRequiresRoot linux_spec" by (simp add: linux_spec_def)
  note l = linux_spec_for [OF assms(1)] not_root [OF assms(2)] r
  have install: "install_command env rest h = Some (Inl (Plain ''this command must be run as root; try again with sudo''), h)"
    by (simp add: install_command_def install_prepare_def l)
  have uninstall: "uninstall_command env h = (Inl (Plain ''this command must be run as root; try again with sudo''), h)"
    by (simp add: uninstall_command_def l)
  have config: "config_command env (''set'' # r) h = (Inl (Plain ''this command must be run as root; try again with sudo''), h)" for r
    by (simp add: config_command_def l)
  note update = update_needs_root [OF assms(1,2)]
  note service = service_needs_root [OF assms(1,2)]
  from assms(3) show ?thesis
    by (elim disjE conjE exE insertE emptyE)
      (simp_all add: handle_def handled_def install uninstall config update service)
qed

subsection \<open>What \<open>uninstall\<close> leaves\<close>

text \<open>Exactly the paths of a set are gone.\<close>

definition erased :: "string set \<Rightarrow> ctl_host \<Rightarrow> ctl_host \<Rightarrow> bool" where
  "erased S h h' \<longleftrightarrow> (\<forall>p. wfiles (hoWorld h') p = (if p \<in> S then None else wfiles (hoWorld h) p)
     \<and> hoLinks h' p = (if p \<in> S then None else hoLinks h p))"

text \<open>No path is a link and a file.\<close>

definition links_apart :: "ctl_host \<Rightarrow> bool" where
  "links_apart h \<longleftrightarrow> (\<forall>p. hoLinks h p = None \<or> wfiles (hoWorld h) p = None)"

lemma erased_trans: "erased S h1 h2 \<Longrightarrow> erased T h2 h3 \<Longrightarrow> erased (S \<union> T) h1 h3"
  unfolding erased_def by auto

lemma erased_apart: "erased S h h' \<Longrightarrow> links_apart h \<Longrightarrow> links_apart h'"
  unfolding erased_def links_apart_def by auto

interpretation erased_frame: host_frame "erased {}"
  by unfold_locales (simp_all add: erased_def)

text \<open>\<open>lstat\<close> and \<open>stat\<close> say that something does not exist only when it does not.\<close>

definition honest_stat :: "install_env \<Rightarrow> bool" where
  "honest_stat env \<longleftrightarrow>
     (\<forall>n p e. ceLinkFault (inCtl env) n ''lstat'' p = Some e \<longrightarrow> \<not> err_is e OsErrNotExist) \<and>
     (\<forall>h d e p. inStat env h d = Inl e \<longrightarrow> err_is e OsErrNotExist \<longrightarrow> in_tree d p \<longrightarrow> wfiles (hoWorld h) p = None \<and> hoLinks h p = None)"

lemma unlink_erased:
  assumes "os_unlink env p h = (None, h')" "links_apart h"
  shows "erased {p} h h'"
proof (cases "hoLinks h p")
  case None
  then obtain w' where "os_remove p (hoWorld h) = (None, w')" "h' = h\<lparr>hoWorld := w'\<rparr>"
    using assms(1) by (auto simp: os_unlink_def cfiles_def split: prod.splits)
  with None show ?thesis by (auto simp: erased_def os_remove_def split: option.splits if_splits)
next
  case (Some t)
  with assms(2) have "wfiles (hoWorld h) p = None" unfolding links_apart_def by (metis option.distinct(1))
  with Some assms(1) show ?thesis by (auto simp: erased_def os_unlink_def split: option.splits)
qed

text \<open>The paths a removal is about; a blank path is none.\<close>

definition file_scope :: "string \<Rightarrow> string set" where
  "file_scope path = {trim_space path} - {[]}"

definition dir_scope :: "string \<Rightarrow> string set" where
  "dir_scope path = (if trim_space path = [] then {} else Collect (in_tree (trim_space path)))"

lemma remove_file_erased:
  assumes "remove_file_if_exists (inCtl env) path h = (Inr did, h')" "links_apart h" "honest_stat env"
  shows "erased (file_scope path) h h'"
proof (cases "trim_space path = []")
  case True
  with assms(1) show ?thesis by (simp add: remove_file_if_exists_def file_scope_def erased_def)
next
  case ne: False
  show ?thesis
  proof (cases "os_lstat (inCtl env) (trim_space path) h")
    case (Some e)
    with assms(1) ne have "h' = h" "err_is e OsErrNotExist" by (auto simp: remove_file_if_exists_def Let_def split: if_splits)
    moreover from this Some assms(3) have "hoLinks h (trim_space path) = None \<and> wfiles (hoWorld h) (trim_space path) = None"
      by (auto simp: os_lstat_def honest_stat_def split: option.splits if_splits)
    ultimately show ?thesis by (simp add: erased_def file_scope_def)
  next
    case None
    with assms(1) ne have "os_unlink (inCtl env) (trim_space path) h = (None, h')"
      by (auto simp: remove_file_if_exists_def Let_def split: prod.splits option.splits)
    from unlink_erased [OF this assms(2)] ne show ?thesis by (simp add: file_scope_def)
  qed
qed

lemma remove_dir_erased:
  assumes "remove_dir_if_exists env path h = (Inr did, h')" "links_apart h" "honest_stat env"
  shows "erased (dir_scope path) h h'"
proof (cases "trim_space path = []")
  case True
  with assms(1) show ?thesis by (simp add: remove_dir_if_exists_def dir_scope_def erased_def)
next
  case ne: False
  show ?thesis
  proof (cases "inStat env h (trim_space path)")
    case (Inl e)
    with assms(1) ne have "h' = h" "err_is e OsErrNotExist" by (auto simp: remove_dir_if_exists_def Let_def split: if_splits)
    with Inl assms(3) ne show ?thesis unfolding honest_stat_def by (auto simp: erased_def dir_scope_def)
  next
    case (Inr is_dir)
    with assms(1) ne have "os_remove_all env (trim_space path) h = (None, h')"
      by (auto simp: remove_dir_if_exists_def Let_def split: prod.splits option.splits if_splits)
    with ne show ?thesis by (auto simp: os_remove_all_def Let_def erased_def dir_scope_def)
  qed
qed

lemma remove_each_erased:
  assumes rm: "\<And>path h did h'. rm path h = (Inr did, h') \<Longrightarrow> links_apart h \<Longrightarrow> erased (S path) h h'"
  shows "remove_each rm xs acc h = (Inr r, h') \<Longrightarrow> links_apart h \<Longrightarrow> erased (\<Union>x\<in>set xs. S (snd x)) h h'"
proof (induction xs arbitrary: acc h)
  case Nil
  then show ?case by (simp add: erased_def)
next
  case (Cons x xs)
  obtain kind path where x: "x = (kind, path)" by (cases x)
  from Cons.prems(1) x obtain did h1 where 1: "rm path h = (Inr did, h1)"
    "remove_each rm xs (record_removal_result kind path did acc) h1 = (Inr r, h')" by (auto simp: cbind_Inr)
  note e1 = rm [OF 1(1) Cons.prems(2)]
  from erased_trans [OF e1 Cons.IH [OF 1(2) erased_apart [OF e1 Cons.prems(2)]]] show ?case by (simp add: x)
qed

text \<open>Programs keep the files.\<close>

lemma crun_erased: "programs_keep env UNIV \<Longrightarrow> crun env argv h = (r, h') \<Longrightarrow> erased {} h h'"
  by (cases "ceRun env argv (hoWorld h)") (auto simp: crun_def erased_def programs_keep_def dest!: spec [of _ argv] spec [of _ "hoWorld h"])

lemma systemctl_erased: "programs_keep env UNIV \<Longrightarrow> ckeeps (erased {}) (run_systemctl env args)"
  unfolding ckeeps_def run_systemctl_def using crun_erased by (auto split: prod.splits option.splits)

lemma when_ok_erased: "programs_keep env UNIV \<Longrightarrow> ckeeps (erased {}) m \<Longrightarrow> ckeeps (erased {}) (when_ok env argv m)"
  unfolding ckeeps_def when_ok_def run_quiet_def
  by (auto split: prod.splits if_splits dest: crun_erased intro: erased_frame.frame_trans)

lemma ignoring_erased: "ckeeps (erased {}) m \<Longrightarrow> ckeeps (erased {}) (ignoring m)"
  unfolding ckeeps_def ignoring_def by (auto split: prod.splits)

lemma stop_linux_erased:
  assumes "programs_keep env UNIV"
  shows "ckeeps (erased {}) (stop_and_disable_service env linux_spec)"
proof -
  have "psManager linux_spec = ''systemd''" by (simp add: linux_spec_def)
  then show ?thesis unfolding stop_and_disable_service_def
    by (simp add: erased_frame.keeps_if erased_frame.keeps_cret erased_frame.keeps_cbind when_ok_erased systemctl_erased assms)
qed

lemma after_unit_erased:
  assumes "programs_keep env UNIV"
  shows "ckeeps (erased {}) (after_unit env linux_spec acc)"
proof -
  have "psManager linux_spec = ''systemd''" by (simp add: linux_spec_def)
  then show ?thesis unfolding after_unit_def
    by (simp add: erased_frame.keeps_if erased_frame.keeps_cret erased_frame.keeps_cbind ignoring_erased systemctl_erased assms)
qed

text \<open>What belongs to an installation with this configuration and state file.\<close>

definition installation :: "platform_spec \<Rightarrow> string \<Rightarrow> string \<Rightarrow> string set" where
  "installation spec config state =
     file_scope (psServiceUnit spec) \<union> (\<Union>x\<in>set (removed_files spec config state). file_scope (snd x))
     \<union> (\<Union>x\<in>set (removed_dirs spec). dir_scope (snd x))"

lemma remove_installation_erased:
  assumes "remove_installation env linux_spec config state h = (Inr r, h')" "links_apart h" "honest_stat env" "programs_keep (inCtl env) UNIV"
  shows "erased (installation linux_spec config state) h h'"
proof -
  have files: "remove_each (remove_file_if_exists (inCtl env)) xs acc h1 = (Inr q, h2) \<Longrightarrow> links_apart h1
      \<Longrightarrow> erased (\<Union>x\<in>set xs. file_scope (snd x)) h1 h2" for xs acc h1 q h2
    by (rule remove_each_erased) (rule remove_file_erased [OF _ _ assms(3)])
  have dirs: "remove_each (remove_dir_if_exists env) xs acc h1 = (Inr q, h2) \<Longrightarrow> links_apart h1
      \<Longrightarrow> erased (\<Union>x\<in>set xs. dir_scope (snd x)) h1 h2" for xs acc h1 q h2
    by (rule remove_each_erased) (rule remove_dir_erased [OF _ _ assms(3)])
  from assms(1) obtain a h1 b h2 c h3 where
    1: "remove_each (remove_file_if_exists (inCtl env)) [(''service unit'', psServiceUnit linux_spec)] ([], []) h = (Inr a, h1)"
    and 2: "after_unit (inCtl env) linux_spec a h1 = (Inr b, h2)"
    and 3: "remove_each (remove_file_if_exists (inCtl env)) (removed_files linux_spec config state) b h2 = (Inr c, h3)"
    and 4: "remove_each (remove_dir_if_exists env) (removed_dirs linux_spec) c h3 = (Inr r, h')"
    unfolding remove_installation_def cbind_Inr by blast
  note e1 = files [OF 1 assms(2)]
  note e2 = erased_trans [OF e1 ckeepsD [OF after_unit_erased [OF assms(4)] 2]]
  note e3 = erased_trans [OF e2 files [OF 3 erased_apart [OF e2 assms(2)]]]
  from erased_trans [OF e3 dirs [OF 4 erased_apart [OF e3 assms(2)]]]
  show ?thesis by (simp add: installation_def)
qed

lemma installed_paths_frame: "installed_paths env spec w = (r, w') \<Longrightarrow> wfiles w' = wfiles w"
  by (auto simp: installed_paths_def installed_config_path_def config_path_from_service_definition_def installed_state_path_def Let_def
      split: prod.splits sum.splits option.splits if_splits dest!: os_read_file_files)


subsection \<open>What \<open>install\<close> puts in place\<close>

definition text_at :: "ctl_host \<Rightarrow> string \<Rightarrow> string option" where
  "text_at h p = map_option fst (wfiles (hoWorld h) p)"

definition puts :: "string \<Rightarrow> string \<Rightarrow> ctl_host \<Rightarrow> ctl_host \<Rightarrow> bool" where
  "puts p t h h' \<longleftrightarrow> (\<forall>q. text_at h' q = (if q = p then Some t else text_at h q)) \<and> hoLinks h' = hoLinks h \<and> hoRan h' = hoRan h"

definition keeps_texts :: "ctl_host \<Rightarrow> ctl_host \<Rightarrow> bool" where
  "keeps_texts h h' \<longleftrightarrow> text_at h' = text_at h \<and> hoLinks h' = hoLinks h"

lemma write_at_puts:
  assumes "io_bind (io_check f (os_mkdir_all d)) (\<lambda>_. io_check g (os_write_file p t m)) (hoWorld h) = (Inr u, w')"
  shows "puts p t h (h\<lparr>hoWorld := w'\<rparr>)"
  using assms by (auto simp: io_bind_Inr io_check_iff puts_def text_at_def dest!: os_mkdir_all_files os_write_file_ok)

lemma write_helper_puts:
  assumes "cio (write_helper path_of render spec) h = (Inr u, h')" "trim_space (path_of spec) = path_of spec" "path_of spec \<noteq> []"
  shows "puts (path_of spec) (render spec) h h'"
proof -
  obtain w' where w': "write_helper path_of render spec (hoWorld h) = (Inr u, w')" "h' = h\<lparr>hoWorld := w'\<rparr>"
    using cio_step [OF assms(1)] by blast
  from w'(1) assms(2,3) have "io_bind (io_check (wrap_prefix (''create helper directory for '' @ path_of spec @ '': '')) (os_mkdir_all (path_dir (path_of spec))))
      (\<lambda>_. io_check (wrap_prefix (''write helper '' @ path_of spec @ '': '')) (os_write_file (path_of spec) (render spec) 0x1ED)) (hoWorld h) = (Inr u, w')"
    by (simp add: write_helper_def Let_def)
  then show ?thesis unfolding w'(2) by (rule write_at_puts)
qed

lemma crun_texts:
  assumes "programs_keep env UNIV" "crun env argv h = (r, h')"
  shows "keeps_texts h h' \<and> hoRan h' = hoRan h @ [argv]"
  using assms by (cases "ceRun env argv (hoWorld h)")
    (auto simp: crun_def keeps_texts_def text_at_def programs_keep_def fun_eq_iff dest!: spec [of _ argv] spec [of _ "hoWorld h"])

lemma linux_paths_trimmed:
  "trim_space (psPrivilegedUpdateHelperPath linux_spec) = psPrivilegedUpdateHelperPath linux_spec"
  "trim_space (psRootProfileHelperPath linux_spec) = psRootProfileHelperPath linux_spec"
  "trim_space (psPackageMutationHelperPath linux_spec) = psPackageMutationHelperPath linux_spec"
  "trim_space (psOperationalLogScanHelperPath linux_spec) = psOperationalLogScanHelperPath linux_spec"
  "trim_space (psTaskRootHelperPath linux_spec) = psTaskRootHelperPath linux_spec"
  "trim_space (psBaseSudoersPath linux_spec) = psBaseSudoersPath linux_spec"
  unfolding linux_spec_def by code_simp+

lemma base_sudoers_puts:
  assumes "write_base_sudoers env linux_spec h = (Inr u, h')" "programs_keep env UNIV"
  shows "\<exists>h1. puts (psBaseSudoersPath linux_spec) (render_base_sudoers linux_spec) h h1 \<and> keeps_texts h1 h'"
proof -
  let ?p = "psBaseSudoersPath linux_spec"
  have p: "?p \<noteq> []" by (simp add: linux_spec_def)
  from assms(1) p obtain h1 h2 where
    1: "ccheck (wrap_prefix (''create sudoers directory for '' @ ?p @ '': '')) (os_mkdir_all (path_dir ?p)) h = (Inr (), h1)"
    and 2: "ccheck (wrap_prefix (''write sudoers file '' @ ?p @ '': '')) (os_write_file ?p (render_base_sudoers linux_spec) 0x120) h1 = (Inr (), h2)"
    and 3: "(if ceExists env ''visudo'' then
        (\<lambda>h. case crun env [''visudo'', ''-cf'', ?p] h of
           ((out, Some e), h1) \<Rightarrow> (Inl (output_error (''validate sudoers file '' @ ?p @ '': '') out e), h1)
         | ((out, None), h1) \<Rightarrow> (Inr (), h1)) else cret ()) h2 = (Inr u, h')"
    by (auto simp: write_base_sudoers_def Let_def linux_paths_trimmed cbind_Inr)
  have "puts ?p (render_base_sudoers linux_spec) h h2"
    using 1 2 by (auto simp: ccheck_def io_check_iff puts_def text_at_def dest!: cio_step os_mkdir_all_files os_write_file_ok)
  moreover have "keeps_texts h2 h'"
    using 3 assms(2) by (auto split: if_splits prod.splits option.splits dest: crun_texts simp: keeps_texts_def)
  ultimately show ?thesis by blast
qed

text \<open>The files of the helpers and of the base rules.\<close>

definition helper_texts :: "platform_spec \<Rightarrow> (string \<times> string) list" where
  "helper_texts spec =
     [(psPrivilegedUpdateHelperPath spec, render_privileged_update_helper spec), (psRootProfileHelperPath spec, render_root_profile_helper spec),
      (psPackageMutationHelperPath spec, render_package_mutation_helper spec), (psOperationalLogScanHelperPath spec, render_operational_log_scan_helper spec),
      (psTaskRootHelperPath spec, render_task_root_helper spec), (psBaseSudoersPath spec, render_base_sudoers spec)]"

lemma puts_list:
  assumes "text_at h' = text_at h6" "puts p1 t1 h h1" "puts p2 t2 h1 h2" "puts p3 t3 h2 h3" "puts p4 t4 h3 h4" "puts p5 t5 h4 h5" "puts p6 t6 h5 h6"
    and "distinct [p1, p2, p3, p4, p5, p6]" "x \<in> set [(p1, t1), (p2, t2), (p3, t3), (p4, t4), (p5, t5), (p6, t6)]"
  shows "text_at h' (fst x) = Some (snd x)"
  using assms unfolding puts_def by auto

lemma helper_paths_distinct: "distinct (map fst (helper_texts linux_spec))"
  by (simp add: helper_texts_def linux_spec_def)

lemma refresh_helpers_texts:
  assumes "refresh_helpers env verb linux_spec h = (Inr u, h')" "programs_keep env UNIV"
  shows "\<forall>(p, t)\<in>set (helper_texts linux_spec). text_at h' p = Some t" "hoLinks h' = hoLinks h"
proof -
  from assms(1) obtain h1 h2 h3 h4 h5 where w:
    "cio (write_privileged_update_helper linux_spec) h = (Inr (), h1)" "cio (write_root_profile_helper linux_spec) h1 = (Inr (), h2)"
    "cio (write_package_mutation_helper linux_spec) h2 = (Inr (), h3)" "cio (write_operational_log_scan_helper linux_spec) h3 = (Inr (), h4)"
    "cio (write_task_root_helper linux_spec) h4 = (Inr (), h5)" "write_base_sudoers env linux_spec h5 = (Inr u, h')"
    by (auto simp: refresh_helpers_def cbind_Inr)
  have ne: "psPrivilegedUpdateHelperPath linux_spec \<noteq> []" "psRootProfileHelperPath linux_spec \<noteq> []" "psPackageMutationHelperPath linux_spec \<noteq> []"
    "psOperationalLogScanHelperPath linux_spec \<noteq> []" "psTaskRootHelperPath linux_spec \<noteq> []"
    by (simp_all add: linux_spec_def)
  note put = w(1) [unfolded write_privileged_update_helper_def, THEN write_helper_puts, OF linux_paths_trimmed(1) ne(1)]
    w(2) [unfolded write_root_profile_helper_def, THEN write_helper_puts, OF linux_paths_trimmed(2) ne(2)]
    w(3) [unfolded write_package_mutation_helper_def, THEN write_helper_puts, OF linux_paths_trimmed(3) ne(3)]
    w(4) [unfolded write_operational_log_scan_helper_def, THEN write_helper_puts, OF linux_paths_trimmed(4) ne(4)]
    w(5) [unfolded write_task_root_helper_def, THEN write_helper_puts, OF linux_paths_trimmed(5) ne(5)]
  obtain h6 where s: "puts (psBaseSudoersPath linux_spec) (render_base_sudoers linux_spec) h5 h6" "keeps_texts h6 h'"
    using base_sudoers_puts [OF w(6) assms(2)] by blast
  from s(2) have eq: "text_at h' = text_at h6" by (simp add: keeps_texts_def)
  show "\<forall>(p, t)\<in>set (helper_texts linux_spec). text_at h' p = Some t"
    using puts_list [OF eq put s(1)] helper_paths_distinct unfolding helper_texts_def by force
  show "hoLinks h' = hoLinks h" using put s by (simp add: puts_def keeps_texts_def)
qed


subsection \<open>Installing again\<close>

lemma io_bind_faults:
  assumes "\<And>w r w'. m w = (r, w') \<Longrightarrow> wfault w' = wfault w" "\<And>x w r w'. f x w = (r, w') \<Longrightarrow> wfault w' = wfault w"
    and "io_bind m f w = (r, w')"
  shows "wfault w' = wfault w"
proof -
  obtain q w1 where q: "m w = (q, w1)" by (cases "m w")
  show ?thesis
  proof (cases q)
    case (Inl e)
    with assms(3) q assms(1) show ?thesis by (simp add: io_bind_def)
  next
    case (Inr x)
    with assms(3) q have "f x w1 = (r, w')" by (simp add: io_bind_def)
    with assms(2) assms(1) [OF q] show ?thesis by simp
  qed
qed

lemma write_config_faults: "write_config_file p d w = (r, w') \<Longrightarrow> wfault w' = wfault w"
  unfolding write_config_file_def
  by (erule io_bind_faults [rotated 2])
    (auto simp: io_check_def os_mkdir_all_def os_write_file_def split: prod.splits option.splits)

lemma save_config_faults:
  assumes "save_config_file lib path c w = (r, w')"
  shows "wfault w' = wfault w"
proof (cases "trim_space path = []")
  case True
  with assms show ?thesis by (simp add: save_config_file_def io_fail_def)
next
  case False
  have mk: "io_check f (os_mkdir_all d) w = (r, w') \<Longrightarrow> wfault w' = wfault w" for f d w r w'
    by (auto simp: io_check_def os_mkdir_all_def split: option.splits)
  have mir: "(case mirror_path lib path of None \<Rightarrow> io_ret () | Some m \<Rightarrow> write_config_file m t) w = (r, w') \<Longrightarrow> wfault w' = wfault w" for t w r w'
    by (cases "mirror_path lib path") (auto simp: io_ret_def dest: write_config_faults)
  have wr: "io_bind (write_config_file path t) (\<lambda>_. case mirror_path lib path of None \<Rightarrow> io_ret () | Some m \<Rightarrow> write_config_file m t) w = (r, w')
      \<Longrightarrow> wfault w' = wfault w" for t w r w'
    by (erule io_bind_faults [rotated 2]) (auto dest: write_config_faults mir)
  have enc: "io_bind (io_lift e) (\<lambda>t. io_bind (write_config_file path t) (\<lambda>_. case mirror_path lib path of None \<Rightarrow> io_ret () | Some m \<Rightarrow> write_config_file m t)) w = (r, w')
      \<Longrightarrow> wfault w' = wfault w" for e w r w'
    by (erule io_bind_faults [rotated 2]) (auto simp: io_lift_def dest: wr)
  from assms False show ?thesis unfolding save_config_file_def if_not_P [OF False]
    by (elim io_bind_faults [rotated 2]) (auto dest: mk enc write_config_faults mir)
qed

lemma save_config_frame:
  assumes "save_config_file lib path c w = (Inr u, w')" "q \<noteq> path" "mirror_path lib path \<noteq> Some q"
  shows "wfiles w' q = wfiles w q"
proof -
  from assms(1) obtain data w1 w2 where
    a: "io_check (wrap_prefix (''create config directory for '' @ path @ '': '')) (os_mkdir_all (path_dir path)) w = (Inr (), w1)"
    and b: "write_config_file path data w1 = (Inr (), w2)"
    and rest: "(case mirror_path lib path of None \<Rightarrow> io_ret () | Some m \<Rightarrow> write_config_file m data) w2 = (Inr u, w')"
    by (auto simp: save_config_file_def io_bind_Inr split: if_splits sum.splits)
  have c: "wfiles w1 = wfiles w" using a by (auto simp: io_check_iff dest: os_mkdir_all_files)
  have "wfiles w2 q = wfiles w q" using write_config_file_ok [OF b] c assms(2) by simp
  moreover have "wfiles w' q = wfiles w2 q"
    using rest assms(3) by (cases "mirror_path lib path") (auto dest!: write_config_file_ok)
  ultimately show ?thesis by simp
qed

lemma stored_identity_ready:
  assumes "wfiles w (cfStateFile c) = Some (text, m)" "decode_identity lib text = Inr i" "identity_ready i"
    and "wfault w (wtick w) (OpReadFile (cfStateFile c)) = None"
  shows "stored_identity lib c w = (Inr (Some i), set_files (wfiles w) w)"
  using assms by (simp add: stored_identity_def load_identity_def os_read_file_def)

lemma enroll_with_identity:
  assumes "ceNewClient (inCtl env) (cfAPIURL c) (cfAPITLSCAFile c) = None"
    and "stored_identity (in_agent env) c (hoWorld h) = (Inr (Some i), w')"
  shows "enroll_bootstrap env c h = (Inr (), h\<lparr>hoWorld := w'\<rparr>)"
  using assms by (simp add: enroll_bootstrap_def new_client_def cbind_def cwrap_def cguard_def cio_def cfiles_def cret_def
      run_bootstrap_enrollment_def io_bind_def io_ret_def)

lemma missing_identity_stops_update:
  assumes "fst (load_managed_config (ceLib env) spec (hoWorld h)) = Inr c" "no_identity c"
  shows "\<exists>h'. run_update env net waited spec o1 h
    = (Inl (Plain ''managed agent identity is missing; self-update requires a registered node id and agent token''), h') \<and> hoReports h' = hoReports h"
proof (cases "load_managed_config (ceLib env) spec (hoWorld h)")
  case (Pair r w')
  with assms show ?thesis by (auto simp: run_update_def cbind_def cwrap_def cio_def cfiles_def cfail_def)
qed

lemma bootstrap_config_parts: "cfNodeID (bootstrap_config op c0) = []" "cfConfigFile (bootstrap_config op c0) = cfConfigFile c0"
  by (simp_all add: bootstrap_config_def)

lemma bootstrap_base_faults: "bootstrap_base env op w = (r, w') \<Longrightarrow> wfault w' = wfault w \<and> wfiles w' = wfiles w"
  by (auto simp: bootstrap_base_def load_config_file_def merge_config_file_def io_bind_def io_lift_def os_read_file_def
      split: prod.splits sum.splits option.splits if_splits)

text \<open>
  Bootstrapping a node again that is still registered takes its credentials out of the configuration: the stored
  identity makes the enrollment return early, the file keeps neither node id nor token, and every later
  self-update fails without a report although the identity file is intact.
\<close>

theorem reinstall_blocks_self_update:
  assumes run: "bootstrap_command env args h = (Inr u, h')" "parse_bootstrap_options args = Inr op"
      "bootstrap_base env op (hoWorld h) = (Inr c0, w0)" "c = bootstrap_config op c0"
    and path: "boConfigFile op = managed_config_path (in_lib env) spec" "trim_space (boConfigFile op) \<noteq> []"
    and identity: "wfiles (hoWorld h) (cfStateFile c) = Some (text, m)" "decode_identity (in_agent env) text = Inr i" "identity_ready i"
      "cfStateFile c \<noteq> boConfigFile op" "mirror_path (in_lib env) (boConfigFile op) \<notin> {Some (boConfigFile op), Some (cfStateFile c)}"
    and quiet: "wfault (hoWorld h) = (\<lambda>_ _. None)"
    and lib: "storable c" "\<And>ms. file_config_members (in_lib env) (file_config_of c) = Inr ms \<Longrightarrow> clParse (in_lib env) (json_indent 0 (JObj ms)) = Inr (JObj ms)"
      "\<And>q. Some (Num q) \<in> set (written_floats (file_config_of c)) \<Longrightarrow> clParseFloat (in_lib env) (clNumText (in_lib env) q) = Inr (Num q)"
  shows "wfiles (hoWorld h') (cfStateFile c) = Some (text, m) \<and>
    (\<exists>h''. run_update (inCtl env) net waited spec o1 h'
      = (Inl (Plain ''managed agent identity is missing; self-update requires a registered node id and agent token''), h'') \<and> hoReports h'' = hoReports h')"
proof -
  let ?p = "boConfigFile op"
  have p: "cfConfigFile c = ?p"
    using run(3,4) path(2) by (auto simp: bootstrap_base_def bootstrap_config_def split: prod.splits sum.splits if_splits)
  from run path(2) p obtain h1 where v: "validate_config (in_lib env) c = None"
    and sv: "cio (save_config_file (in_lib env) ?p c) (h\<lparr>hoWorld := w0\<rparr>) = (Inr (), h1)"
    and en: "enroll_bootstrap env c h1 = (Inr u, h')"
    by (auto simp: bootstrap_command_def cbind_Inr Let_def cio_def cfiles_def bootstrap_config_parts split: if_splits prod.splits)
  obtain w1 where w1: "save_config_file (in_lib env) ?p c w0 = (Inr (), w1)" "hoWorld h1 = w1" using cio_step [OF sv] by auto
  have m: "mirror_path (in_lib env) ?p \<noteq> Some ?p" "mirror_path (in_lib env) ?p \<noteq> Some (cfStateFile c)" using identity(5) by auto
  have f: "wfault w1 = (\<lambda>_ _. None)" using save_config_faults [OF w1(1)] bootstrap_base_faults [OF run(3)] quiet by simp
  have st: "wfiles w1 (cfStateFile c) = Some (text, m)"
    using save_config_frame [OF w1(1) identity(4) m(2)] bootstrap_base_faults [OF run(3)] identity(1) by simp
  have s: "stored_identity (in_agent env) c w1 = (Inr (Some i), set_files (wfiles w1) w1)"
    by (rule stored_identity_ready [OF st identity(2,3)]) (simp add: f)
  have cl: "ceNewClient (inCtl env) (cfAPIURL c) (cfAPITLSCAFile c) = None"
    using en by (auto simp: enroll_bootstrap_def new_client_def cbind_Inr)
  have w': "hoWorld h' = set_files (wfiles w1) w1" using enroll_with_identity [OF cl, of h1 i] s w1(2) en by auto
  obtain ms md where ms: "file_config_members (in_lib env) (file_config_of c) = Inr ms" "wfiles w1 ?p = Some (json_indent 0 (JObj ms), md)"
    by (rule save_config_file_ok [OF w1(1) m(1)])
  have "fst (load_config_file (in_lib env) ?p (hoWorld h')) = Inr (c\<lparr>cfConfigFile := ?p\<rparr>)"
    by (rule stored_config_loaded [OF ms(1) _ lib(1) v _ lib(2) [OF ms(1)] lib(3)]) (simp_all add: w' ms(2) f)
  then have "fst (load_managed_config (in_lib env) spec (hoWorld h')) = Inr (c\<lparr>cfConfigFile := ?p\<rparr>)"
    using path(1) by (simp add: load_managed_config_def)
  moreover have "no_identity (c\<lparr>cfConfigFile := ?p\<rparr>)" by (simp add: no_identity_def run(4) bootstrap_config_parts)
  ultimately show ?thesis using missing_identity_stops_update w' st by simp
qed

subsection \<open>Piped input\<close>

text \<open>
  An interactive installation whose answers come in one piece cannot enroll: the prompts for the API URL and the
  log level read all of them ahead, and the prompt for the email address, which reads anew, finds the end of the
  input.
\<close>

theorem piped_install_loses_email:
  assumes "inStdin env = [url @ [CHR 0x0A] @ level @ [CHR 0x0A] @ rest]" "trim_space (url @ [CHR 0x0A]) \<noteq> []"
    and "CHR 0x0A \<notin> set url" "CHR 0x0A \<notin> set level" "\<not> ioNonInteractive op" "install_settings env op c = Inr (c1, cs)"
  shows "cs = [] \<and> prompt_value ''Email address'' True (concat cs) = Inl (Plain ''email address is required'')"
proof -
  have t1: "takeWhile (\<lambda>x. x \<noteq> CHR 0x0A) (l @ CHR 0x0A # r) = l" "dropWhile (\<lambda>x. x \<noteq> CHR 0x0A) (l @ CHR 0x0A # r) = CHR 0x0A # r"
    if "CHR 0x0A \<notin> set l" for l r using that by (induct l) auto
  have 1: "prompt_default ''API URL'' (cfAPIURL c) True [] (inStdin env) = Inr (trim_space (url @ [CHR 0x0A]), level @ [CHR 0x0A] @ rest, [])"
    using t1 [OF assms(3)] assms(2) by (subst prompt_default.simps) (simp add: assms(1) read_line_def Let_def)
  obtain v b where 2: "prompt_default ''Log level'' (cfLogLevel c) False (level @ [CHR 0x0A] @ rest) [] = Inr (v, b, [])"
    using t1 [OF assms(4)] by (subst (asm) prompt_default.simps) (simp add: read_line_def Let_def)
  have "cs = []" using assms(5,6) 1 2 by (auto simp: install_settings_def)
  moreover have "prompt_value ''Email address'' True [] = Inl (Plain ''email address is required'')"
  proof -
    have "to_lower ''Email address'' = ''email address''" by code_simp
    then show ?thesis by (subst prompt_value.simps) (simp add: read_line_def trim_space_Nil)
  qed
  ultimately show ?thesis by simp
qed

subsection \<open>Instances\<close>

text \<open>A host where nothing fails: a step that succeeds there leaves such a host.\<close>

definition calm :: "((string \<Rightarrow> string option) \<Rightarrow> bool) \<Rightarrow> ctl_host \<Rightarrow> bool" where
  "calm L h \<longleftrightarrow> wfault (hoWorld h) = (\<lambda>_ _. None) \<and> L (hoLinks h)"

definition succeeds :: "((string \<Rightarrow> string option) \<Rightarrow> bool) \<Rightarrow> 'a ctl \<Rightarrow> bool" where
  "succeeds L m \<longleftrightarrow> (\<forall>h. calm L h \<longrightarrow> (\<exists>x h'. m h = (Inr x, h') \<and> calm L h'))"

lemma succeeds_bind: "succeeds L m \<Longrightarrow> (\<And>x. succeeds L (f x)) \<Longrightarrow> succeeds L (cbind m f)"
  unfolding succeeds_def cbind_def by fastforce

lemma succeeds_wrap: "succeeds L m \<Longrightarrow> succeeds L (cwrap f m)"
  unfolding succeeds_def cwrap_def by fastforce

lemma succeeds_ret: "succeeds L (cret x)"
  by (simp add: succeeds_def cret_def)

lemma succeeds_lift: "succeeds L (clift (Inr x))"
  by (simp add: succeeds_def clift_def)

lemma succeeds_guard: "succeeds L (cguard None)"
  by (simp add: succeeds_def cguard_def)

lemma succeeds_if: "(b \<Longrightarrow> succeeds L m) \<Longrightarrow> (\<not> b \<Longrightarrow> succeeds L n) \<Longrightarrow> succeeds L (if b then m else n)"
  by simp

lemma succeeds_mkdir: "succeeds L (ccheck f (os_mkdir_all d))"
  by (simp add: succeeds_def calm_def ccheck_def cio_def cfiles_def io_check_def os_mkdir_all_def)

lemma succeeds_write: "succeeds L (ccheck f (os_write_file p d m))"
  by (simp add: succeeds_def calm_def ccheck_def cio_def cfiles_def io_check_def os_write_file_def)

lemma succeeds_helper: "succeeds L (cio (write_helper path_of render spec))"
  by (simp add: succeeds_def calm_def cio_def cfiles_def write_helper_def Let_def io_bind_def io_check_def io_ret_def os_mkdir_all_def
      os_write_file_def split: prod.splits)

lemma succeeds_unit: "succeeds L (cio (write_service_unit p t))"
  by (simp add: succeeds_def calm_def cio_def cfiles_def write_service_unit_def io_bind_def io_check_def os_mkdir_all_def os_write_file_def)

lemma calm_run: "crun calm_env argv h = (([], None), h\<lparr>hoRan := hoRan h @ [argv]\<rparr>)"
  by (simp add: crun_def calm_env_def)

lemma succeeds_systemctl: "succeeds L (run_systemctl calm_env args)"
  by (simp add: succeeds_def calm_def run_systemctl_def calm_run)

lemma succeeds_when: "succeeds L m \<Longrightarrow> succeeds L (when_ok calm_env argv m)"
  unfolding succeeds_def when_ok_def run_quiet_def calm_run by (auto simp: calm_def)

lemma succeeds_ignoring: "succeeds L (ignoring m)" if "succeeds L m"
  using that unfolding succeeds_def ignoring_def by fastforce

definition calm_install :: install_env where
  "calm_install = \<lparr>inCtl = calm_env, inParseTime = (\<lambda>_. Inr 0), inStat = (\<lambda>_ _. Inr True), inRemoveAll = (\<lambda>_ _. None),
     inExecutable = Inr ''/opt/noderax-agent/noderax-agent'', inEvalSymlinks = Inr, inLookupUser = (\<lambda>_. Inr ''0''), inLookupGroup = (\<lambda>_. Inr ''0''),
     inChown = (\<lambda>_ _ _ _. None), inVersion = ''1.0.0'', inCommit = [], inBuildDate = [],
     inHost = \<lparr>hdHostname = ''n'', hdOS = ''linux'', hdPlatform = [], hdPlatformVersion = [], hdKernelVersion = [], hdArchitecture = ''amd64''\<rparr>,
     inLocation = None, inNow = 0, inWait = \<lparr>weCtxErr = Plain [], weParentOver = None, weStart = 0, wePolls = []\<rparr>, inStdin = [], inNet = deaf_net,
     inChecks = [active_check],
     inScanFile = \<lparr>feStat = Inr ([], 0), feOpen = None, feSeek = (\<lambda>_. None), feContent = [], feReadError = None, feCtx = (\<lambda>_. None)\<rparr>,
     inScanJournal = \<lparr>jeLookPath = Inl (Plain []), jeRun = (\<lambda>_. \<lparr>jrPipe = None, jrStart = None, jrOutput = [], jrReadError = None, jrCtx = (\<lambda>_. None),
       jrWait = None, jrStderr = []\<rparr>), jeParse = (\<lambda>_. Inl (Plain []))\<rparr>, inScanNow = []\<rparr>"

lemma calm_install_ctl [simp]: "inCtl calm_install = calm_env" "ceGoos calm_env = ''linux''" "ceEuid calm_env = 0"
  by (simp_all add: calm_install_def calm_env_def)

theorem management_needs_root_witness:
  "handle (calm_install\<lparr>inCtl := calm_env\<lparr>ceEuid := 1000\<rparr>\<rparr>) [''uninstall''] (calm_host quiet_world)
    = Some ((True, Inl (Plain ''this command must be run as root; try again with sudo'')), calm_host quiet_world)"
  by (rule management_needs_root) simp_all

lemma succeeds_remove_file: "succeeds (\<lambda>_. True) (remove_file_if_exists calm_env p)"
  by (auto simp: succeeds_def calm_def remove_file_if_exists_def Let_def os_lstat_def os_unlink_def cfiles_def os_remove_def not_exist_def
      calm_env_def)

lemma succeeds_remove_dir: "succeeds (\<lambda>_. True) (remove_dir_if_exists calm_install p)"
  by (auto simp: succeeds_def calm_def remove_dir_if_exists_def Let_def os_remove_all_def calm_install_def)

lemma succeeds_remove_each: "(\<And>p. succeeds L (rm p)) \<Longrightarrow> succeeds L (remove_each rm xs acc)"
proof (induction xs arbitrary: acc)
  case (Cons x xs)
  then show ?case by (cases x) (simp add: succeeds_bind del: split_paired_All)
qed (simp add: succeeds_ret)

lemma read_faults: "os_read_file p w = (r, w') \<Longrightarrow> wfault w' = wfault w"
  by (auto simp: os_read_file_def split: option.splits)

lemma installed_config_faults: "installed_config_path lib spec w = (p, w') \<Longrightarrow> wfault w' = wfault w"
  by (auto simp: installed_config_path_def config_path_from_service_definition_def Let_def split: prod.splits sum.splits dest!: read_faults)

lemma installed_state_faults: "installed_state_path lib c f w = (p, w') \<Longrightarrow> wfault w' = wfault w"
  by (auto simp: installed_state_path_def split: prod.splits sum.splits option.splits if_splits dest!: read_faults)

lemma succeeds_installed_paths: "succeeds L (cio (installed_paths env spec))"
  by (auto simp: succeeds_def calm_def cio_def cfiles_def installed_paths_def split: prod.splits
      dest!: installed_config_faults installed_state_faults)

lemma calm_uninstall: "succeeds (\<lambda>_. True) (uninstall_command calm_install)"
proof -
  have m: "psManager linux_spec = ''systemd''" by (simp add: linux_spec_def)
  have st: "succeeds (\<lambda>_. True) (stop_and_disable_service calm_env linux_spec)"
    unfolding stop_and_disable_service_def by (simp add: m succeeds_ret succeeds_bind succeeds_when succeeds_systemctl)
  have au: "succeeds (\<lambda>_. True) (after_unit calm_env linux_spec acc)" for acc
    unfolding after_unit_def by (simp add: m succeeds_ret succeeds_bind succeeds_ignoring succeeds_systemctl)
  have rm: "succeeds (\<lambda>_. True) (remove_installation calm_install linux_spec config state)" for config state
    unfolding remove_installation_def
    by (intro succeeds_bind au succeeds_remove_each) (simp_all add: au succeeds_remove_file succeeds_remove_dir)
  have "succeeds (\<lambda>_. True) (case x of (config, state) \<Rightarrow> cbind (stop_and_disable_service calm_env linux_spec) (\<lambda>_.
        cbind (remove_installation calm_install linux_spec config state) (\<lambda>(removed, missing).
        cret (render_uninstall_summary ''linux'' linux_spec removed missing))))" for x
    by (cases x) (auto intro!: succeeds_bind st rm succeeds_ret)
  then show ?thesis
    by (simp add: uninstall_command_def linux_spec_for as_root_def require_root_def succeeds_bind succeeds_guard succeeds_installed_paths)
qed


text \<open>An installation that has only been linked, set up with the options given.\<close>

definition linked :: "(string \<Rightarrow> string option) \<Rightarrow> bool" where
  "linked ls \<longleftrightarrow> ls (psSymlinkPath linux_spec) = Some (psBinaryPath linux_spec)"

definition install_sample :: config where
  "install_sample = default_config\<lparr>cfAPIURL := ''https://h'', cfEnrollmentToken := ''t''\<rparr>"

lemma in_lib_calm [simp]: "ceLib calm_env = bare_lib"
  by (simp add: calm_env_def)

lemma load_calm_fails: "\<exists>e w'. load_managed_config bare_lib spec w = (Inl e, w') \<and> wfault w' = wfault w"
  by (auto simp: load_managed_config_def load_config_file_def merge_config_file_def io_bind_def io_lift_def merge_config_text_def
      unmarshal_file_config_def bare_lib_def os_read_file_def rbind_def split: option.splits sum.splits)

lemma succeeds_existing: "calm L h \<Longrightarrow> \<exists>h'. cio (existing_config calm_install spec) h = (Inr default_config, h') \<and> calm L h'"
  using load_calm_fails [of spec "hoWorld h"] by (auto simp: cio_def cfiles_def existing_config_def calm_def)

lemma sample_install_valid:
  "validate_config bare_lib (install_config calm_install linux_spec install_sample) = None"
proof -
  have "managed_config_path bare_lib linux_spec = psConfigPath linux_spec" by (simp add: managed_config_path_def bare_lib_def)
  then show ?thesis
    unfolding validate_config_None
    by (simp add: validate_url_def numeric_checks_def text_checks_def validate_manual_location_def install_config_def install_sample_def
        default_config_def bare_lib_def sample_trims float_less_def float_greater_def has_prefix_def linux_spec_def)
      (code_simp)?
qed

lemma sample_install_text: "\<exists>t. config_text bare_lib (install_config env spec install_sample) = Inr t"
  by (simp add: config_text_def file_config_members_def bare_lib_def file_config_of_def optional_float_def marshal_float_def
      install_config_def install_sample_def default_config_def)

lemma succeeds_save:
  assumes "config_text bare_lib c = Inr t" "trim_space p \<noteq> []"
  shows "succeeds L (cio (save_config_file bare_lib p c))"
proof -
  have "mirror_path bare_lib p = None" by (simp add: mirror_path_def bare_lib_def)
  with assms show ?thesis
    by (simp add: succeeds_def calm_def cio_def cfiles_def save_config_file_def io_bind_def io_check_def io_lift_def write_config_file_def
        os_mkdir_all_def os_write_file_def io_ret_def)
qed

lemma succeeds_ownership: "succeeds L (ensure_ownership calm_install owner grp p)"
proof -
  have "atoi ''0'' = Inr 0" by code_simp
  then show ?thesis
    by (simp add: succeeds_def ensure_ownership_def lookup_owner_def parse_id_def calm_install_def calm_env_def Let_def)
qed

lemma succeeds_refresh: "succeeds L (refresh_helpers calm_env verb spec)"
  unfolding refresh_helpers_def write_base_sudoers_def Let_def write_privileged_update_helper_def write_root_profile_helper_def
    write_package_mutation_helper_def write_operational_log_scan_helper_def write_task_root_helper_def
  by (intro succeeds_bind succeeds_wrap succeeds_helper succeeds_if succeeds_ret succeeds_mkdir succeeds_write)
    (simp add: succeeds_def calm_run calm_def)

lemma succeeds_profile: "succeeds L (apply_root_access_profile calm_env spec p)"
  by (simp add: succeeds_def apply_root_access_profile_def Let_def calm_run calm_def cret_def)

lemma succeeds_symlink: "succeeds linked (ensure_symlink calm_env (psBinaryPath linux_spec) (psSymlinkPath linux_spec))"
proof -
  have "succeeds linked (replace_link calm_env (psBinaryPath linux_spec) (psSymlinkPath linux_spec))"
    by (simp add: succeeds_def calm_def linked_def replace_link_def os_readlink_def calm_env_def)
  then show ?thesis unfolding ensure_symlink_def by (intro succeeds_bind succeeds_mkdir)
qed

lemma sample_install_artifacts: "succeeds linked (install_artifacts calm_install linux_spec (install_config calm_install linux_spec install_sample))"
proof -
  obtain t where t: "config_text bare_lib (install_config calm_install linux_spec install_sample) = Inr t" using sample_install_text by blast
  have p: "cfConfigFile (install_config calm_install linux_spec install_sample) = ''/etc/noderax-agent/config.json''"
    by (simp add: install_config_def managed_config_path_def bare_lib_def linux_spec_def)
  have ne: "trim_space ''/etc/noderax-agent/config.json'' \<noteq> []" by code_simp
  have exe: "running_executable calm_install = Inr (psBinaryPath linux_spec)"
    by (simp add: running_executable_def calm_install_def linux_spec_def)
  have cp: "succeeds linked (copy_executable calm_install (psBinaryPath linux_spec) (psBinaryPath linux_spec))"
    by (simp add: succeeds_def copy_executable_def)
  have un: "succeeds linked (install_unit linux_spec c)" for c
    by (simp add: install_unit_def linux_spec_def succeeds_wrap succeeds_unit)
  note sv = succeeds_save [OF t, of "''/etc/noderax-agent/config.json''", OF ne]
  show ?thesis
    unfolding install_artifacts_def calm_install_ctl in_lib_calm sample_install_valid exe p cbind_simps
    by (intro succeeds_bind succeeds_guard succeeds_wrap sv succeeds_ownership succeeds_if succeeds_symlink succeeds_ret
        succeeds_refresh succeeds_profile un cp)
qed

lemma sample_install_options:
  "parse_install_options [''--non-interactive'', ''--api-url'', ''https://h'', ''--bootstrap-token'', ''t'']
    = Inr \<lparr>ioAPIURL = ''https://h'', ioBootstrapToken = ''t'', ioLogLevel = [], ioNonInteractive = True\<rparr>"
  using parse_flag_string [where n = "''api-url''" and fs = install_flags] parse_flag_string [where n = "''bootstrap-token''" and fs = install_flags]
    parse_flag_bool [where n = "''non-interactive''" and fs = install_flags]
  by (simp add: parse_install_options_def parse_command_def plain_name_def install_flags_def)

lemma sample_install_settings:
  "install_settings calm_install \<lparr>ioAPIURL = ''https://h'', ioBootstrapToken = ''t'', ioLogLevel = [], ioNonInteractive = True\<rparr> default_config
    = Inr (install_sample, [])"
proof -
  have "trim_space ''t'' = ''t''" "trim_space ''info'' = ''info''" by code_simp+
  then show ?thesis
    by (simp add: install_settings_def Let_def sample_trims default_config_def install_sample_def) (simp add: calm_install_def)
qed


theorem piped_install_loses_email_witness:
  "\<exists>c1 cs. install_settings (calm_install\<lparr>inStdin := [''https://h'' @ [CHR 0x0A] @ ''info'' @ [CHR 0x0A] @ ''me@example.com'']\<rparr>)
      \<lparr>ioAPIURL = [], ioBootstrapToken = [], ioLogLevel = [], ioNonInteractive = False\<rparr> default_config = Inr (c1, cs)
    \<and> prompt_value ''Email address'' True (concat cs) = Inl (Plain ''email address is required'')"
proof -
  let ?env = "calm_install\<lparr>inStdin := [''https://h'' @ [CHR 0x0A] @ ''info'' @ [CHR 0x0A] @ ''me@example.com'']\<rparr>"
  let ?op = "\<lparr>ioAPIURL = [], ioBootstrapToken = [], ioLogLevel = [], ioNonInteractive = False\<rparr>"
  have t: "trim_space (''https://h'' @ [CHR 0x0A]) = ''https://h''" "trim_space (''info'' @ [CHR 0x0A]) = ''info''" by code_simp+
  obtain c1 cs where s: "install_settings ?env ?op default_config = Inr (c1, cs)"
    using t by (simp add: install_settings_def prompt_default.simps read_line_def Let_def)
  have "prompt_value ''Email address'' True (concat cs) = Inl (Plain ''email address is required'')"
    by (rule conjunct2 [OF piped_install_loses_email [OF _ _ _ _ _ s, of "''https://h''" "''info''" "''me@example.com''"]])
      (use t in simp_all)
  with s show ?thesis by blast
qed

text \<open>A parser for one identity and one configuration file.\<close>

definition again_config :: config where
  "again_config = bootstrap_config
     \<lparr>boAPIURL = ''https://h'', boBootstrapToken = ''t'', boConfigFile = ''/etc/noderax-agent/config.json'', boStateFile = ''/s'', boLogLevel = ''info'', boNonInteractive = True\<rparr>
     (default_config\<lparr>cfConfigFile := ''/etc/noderax-agent/config.json''\<rparr>)"

definition again_members :: "(string \<times> json) list" where
  "again_members = (case file_config_members bare_lib (file_config_of again_config) of Inr ms \<Rightarrow> ms | Inl e \<Rightarrow> [])"

definition again_lib :: config_lib where
  "again_lib = bare_lib\<lparr>clParse := \<lambda>t. if t = ''i'' then Inr (identity_json sample_identity) else Inr (JObj again_members)\<rparr>"

definition again_install :: install_env where
  "again_install = calm_install\<lparr>inCtl := calm_env\<lparr>ceLib := again_lib\<rparr>\<rparr>"

definition again_host :: ctl_host where
  "again_host = calm_host (quiet_world\<lparr>wfiles := [''/s'' \<mapsto> (''i'', 0x180)]\<rparr>)"

lemma again_config_eq: "again_config = default_config\<lparr>cfAPIURL := ''https://h'', cfStateFile := ''/s'', cfEnrollmentToken := ''t'',
    cfConfigFile := ''/etc/noderax-agent/config.json''\<rparr>"
proof -
  have "trim_space ''t'' = ''t''" "trim_space ''info'' = ''info''" "trim_space ''/s'' = ''/s''" by code_simp+
  then show ?thesis by (simp add: again_config_def bootstrap_config_def default_config_def sample_trims)
qed

lemma again_members_ok: "file_config_members again_lib (file_config_of again_config) = Inr again_members"
  by (simp add: again_members_def file_config_members_def again_lib_def bare_lib_def file_config_of_def optional_float_def
      marshal_float_def again_config_eq default_config_def)

lemma again_members_text: "json_indent 0 (JObj again_members) \<noteq> ''i''"
  by simp

lemma again_storable: "storable again_config" "validate_config again_lib again_config = None"
proof -
  have n: "normalize_config again_config = again_config"
    by (simp add: normalize_config_def again_config_eq default_config_def sample_url)
  then show "storable again_config" unfolding storable_def by (simp add: n) (simp add: again_config_eq default_config_def int64_range_def)
  have "trim_space ''/s'' = ''/s''" by code_simp
  then show "validate_config again_lib again_config = None"
    unfolding validate_config_None
    by (simp add: validate_url_def numeric_checks_def text_checks_def validate_manual_location_def again_config_eq default_config_def
        again_lib_def bare_lib_def sample_trims float_less_def float_greater_def has_prefix_def)
qed

lemma again_decodes: "decode_identity (in_agent again_install) ''i'' = Inr sample_identity"
proof -
  let ?lib = "\<lparr>alConfig = bare_lib\<lparr>clParse := \<lambda>_. Inr (identity_json sample_identity)\<rparr>, alParseTime = (\<lambda>_. Inr 0)\<rparr>"
  have "identity_fields (in_agent again_install) = identity_fields ?lib"
  proof -
    have t: "dec_time l = dec_time l'" if "alParseTime l = alParseTime l'" for l l' :: agent_lib
      by (intro ext) (simp only: dec_time_def that)
    show ?thesis unfolding identity_fields_def by (subst t [of _ ?lib]) (simp_all add: in_agent_def again_install_def calm_install_def)
  qed
  moreover have "decode_identity ?lib (identity_text sample_identity) = Inr sample_identity"
    by (rule decode_identity_text) (simp_all add: sample_identity_def)
  ultimately show ?thesis
    by (simp add: decode_identity_def in_agent_def again_install_def again_lib_def)
qed

lemma again_saved:
  "\<exists>w1. save_config_file again_lib ''/etc/noderax-agent/config.json'' again_config (set_files (wfiles (hoWorld again_host)) (hoWorld again_host)) = (Inr (), w1)"
proof -
  have "config_text again_lib again_config = Inr (json_indent 0 (JObj again_members))" by (simp add: config_text_def again_members_ok)
  moreover have "mirror_path again_lib ''/etc/noderax-agent/config.json'' = None" by (simp add: mirror_path_def again_lib_def bare_lib_def)
  moreover have "trim_space ''/etc/noderax-agent/config.json'' \<noteq> []" by code_simp
  ultimately show ?thesis
    by (simp add: save_config_file_def io_bind_def io_check_def io_lift_def write_config_file_def os_mkdir_all_def os_write_file_def
        io_ret_def again_host_def calm_host_def del: json_indent.simps)
qed

theorem reinstall_blocks_self_update_witness:
  "\<exists>h'. bootstrap_command again_install (drop 5 (bootstrap_args linux_spec again_config)) again_host = (Inr (), h')
    \<and> wfiles (hoWorld h') ''/s'' = Some (''i'', 0x180)
    \<and> fst (run_update (inCtl again_install) deaf_net None linux_spec sample_update h')
      = Inl (Plain ''managed agent identity is missing; self-update requires a registered node id and agent token'')"
proof -
  let ?p = "''/etc/noderax-agent/config.json''"
  let ?op = "\<lparr>boAPIURL = ''https://h'', boBootstrapToken = ''t'', boConfigFile = ?p, boStateFile = ''/s'', boLogLevel = ''info'', boNonInteractive = True\<rparr>"
  let ?c0 = "default_config\<lparr>cfConfigFile := ?p\<rparr>"
  let ?args = "drop 5 (bootstrap_args linux_spec again_config)"
  have op: "parse_bootstrap_options ?args = Inr ?op"
    unfolding bootstrap_arguments_round_trip by (simp add: again_config_eq default_config_def)
  have lib: "in_lib again_install = again_lib" "ceNewClient (inCtl again_install) u f = None" for u f
    by (simp_all add: again_install_def calm_env_def)
  have tp: "trim_space ?p \<noteq> []" by code_simp
  have base: "bootstrap_base again_install ?op (hoWorld again_host) = (Inr ?c0, set_files (wfiles (hoWorld again_host)) (hoWorld again_host))"
    using tp by (simp add: bootstrap_base_def lib load_config_file_def merge_config_file_def io_bind_def os_read_file_def again_host_def calm_host_def)
  have c: "again_config = bootstrap_config ?op ?c0" by (simp add: again_config_def)
  have mp: "managed_config_path (in_lib again_install) linux_spec = ?p" "mirror_path (in_lib again_install) ?p = None"
    by (simp_all add: lib managed_config_path_def mirror_path_def again_lib_def bare_lib_def linux_spec_def)
  have st: "cfStateFile again_config = ''/s''" "cfConfigFile again_config = ?p" "cfAPIURL again_config = ''https://h''" "cfEnrollmentToken again_config = ''t''"
    by (simp_all add: again_config_eq)
  let ?w0 = "set_files (wfiles (hoWorld again_host)) (hoWorld again_host)"
  obtain w1 where w1: "save_config_file again_lib ?p again_config ?w0 = (Inr (), w1)" using again_saved by blast
  have f1: "wfault w1 = (\<lambda>_ _. None)" using save_config_faults [OF w1] by (simp add: again_host_def calm_host_def)
  have i1: "wfiles w1 ''/s'' = Some (''i'', 0x180)"
    using save_config_frame [OF w1, where q = "''/s''"] mp(2) by (simp add: lib again_host_def calm_host_def)
  let ?h1 = "again_host\<lparr>hoWorld := w1\<rparr>"
  have s: "stored_identity (in_agent again_install) again_config (hoWorld ?h1) = (Inr (Some sample_identity), set_files (wfiles w1) w1)"
    using stored_identity_ready [OF _ again_decodes, where w = w1 and c = again_config and m = "0x180"] i1 f1 st(1)
    by (simp add: identity_ready_def sample_identity_def)
  have e: "enroll_bootstrap again_install again_config ?h1 = (Inr (), ?h1\<lparr>hoWorld := set_files (wfiles w1) w1\<rparr>)"
    by (rule enroll_with_identity [OF lib(2) s])
  have tr: "trim_space ''https://h'' \<noteq> []" "trim_space ''t'' \<noteq> []" by code_simp+
  have run: "bootstrap_command again_install ?args again_host = (Inr (), ?h1\<lparr>hoWorld := set_files (wfiles w1) w1\<rparr>)"
    unfolding bootstrap_command_def op
    using tr tp st e w1 again_storable(2)
    by (simp add: base cbind_def cio_def cfiles_def cwrap_def cguard_def Let_def c [symmetric] lib)
  have "wfiles (hoWorld (?h1\<lparr>hoWorld := set_files (wfiles w1) w1\<rparr>)) (cfStateFile again_config) = Some (''i'', 0x180) \<and>
    (\<exists>h''. run_update (inCtl again_install) deaf_net None linux_spec sample_update (?h1\<lparr>hoWorld := set_files (wfiles w1) w1\<rparr>)
      = (Inl (Plain ''managed agent identity is missing; self-update requires a registered node id and agent token''), h'')
      \<and> hoReports h'' = hoReports (?h1\<lparr>hoWorld := set_files (wfiles w1) w1\<rparr>))"
  proof (rule reinstall_blocks_self_update [OF run op base c])
    show "wfiles (hoWorld again_host) (cfStateFile again_config) = Some (''i'', 0x180)" by (simp add: st again_host_def calm_host_def)
    show "decode_identity (in_agent again_install) ''i'' = Inr sample_identity" by (rule again_decodes)
    show "identity_ready sample_identity" by (simp add: identity_ready_def sample_identity_def)
    show "storable again_config" by (rule again_storable)
    show "clParse (in_lib again_install) (json_indent 0 (JObj ms)) = Inr (JObj ms)"
      if "file_config_members (in_lib again_install) (file_config_of again_config) = Inr ms" for ms
    proof -
      from that have "ms = again_members" by (simp add: lib again_members_ok)
      then show ?thesis using again_members_text unfolding lib by (simp add: again_lib_def del: json_indent.simps)
    qed
    show "clParseFloat (in_lib again_install) (clNumText (in_lib again_install) q) = Inr (Num q)"
      if "Some (Num q) \<in> set (written_floats (file_config_of again_config))" for q
      using that unfolding lib by (auto simp: written_floats_def file_config_of_def again_config_eq default_config_def again_lib_def bare_lib_def)
  qed (simp_all add: mp st tp again_host_def calm_host_def del: fun_upd_apply)
  then show ?thesis using run st(1) by auto
qed

end
