(* ===== verification/NodeLocation.thy ===== *)
theory NodeLocation
  imports Config SelfUpdate
begin

text \<open>
  \<open>internal/nodelocation/detector.go\<close> and \<open>internal/cloudmetadata/detector.go\<close>: where the node is. A location
  given in the configuration is taken first, then the metadata services of three clouds are asked, then, if
  the configuration allows it, a public address service. The functions pass the list of the requests made so
  far, newest last, and what the network answers may depend on it; clients, contexts and time limits are part
  of that answer. URL parsing, number parsing, the JSON decoder and the case conversions of \<open>strings\<close> beyond
  ASCII are the record \<open>location_lib\<close>.
\<close>

subsection \<open>Requests\<close>

record probe_request =
  prMethod :: string
  prURL :: string
  prHeaders :: "(string \<times> string) list"

text \<open>
  What the code asks of a \<open>url.URL\<close>: its parts, the query parameter \<open>token\<close> (\<open>Query().Get\<close>), and its text
  as it is and with that parameter set.
\<close>

record location_url =
  luScheme :: string
  luHost :: string
  luToken :: string
  luText :: string
  luWithToken :: "string \<Rightarrow> string"

record location_lib =
  lnNewRequest :: "string \<Rightarrow> string \<Rightarrow> goerror option"
  lnDo :: "probe_request list \<Rightarrow> probe_request \<Rightarrow> goerror + web_response"
  lnDecode :: "string \<Rightarrow> goerror + json"
  lnParseURL :: "string \<Rightarrow> goerror + location_url"
  lnParseFloat :: "string \<Rightarrow> goerror + go_float"
  lnToLower :: "string \<Rightarrow> string"
  lnEqualFold :: "string \<Rightarrow> string \<Rightarrow> bool"

type_synonym 'a probe = "probe_request list \<Rightarrow> (goerror + 'a) \<times> probe_request list"

definition probe_ret :: "goerror + 'a \<Rightarrow> 'a probe" where
  "probe_ret r rs = (r, rs)"

definition probe_bind :: "'a probe \<Rightarrow> (goerror + 'a \<Rightarrow> 'b probe) \<Rightarrow> 'b probe" where
  "probe_bind m f rs = (case m rs of (r, rs1) \<Rightarrow> f r rs1)"

text \<open>\<open>http.NewRequestWithContext\<close> and \<open>Client.Do\<close>.\<close>

definition new_request :: "location_lib \<Rightarrow> string \<Rightarrow> string \<Rightarrow> (string \<times> string) list \<Rightarrow> (probe_request \<Rightarrow> 'a probe) \<Rightarrow> 'a probe" where
  "new_request lib method url hdrs f =
     (case lnNewRequest lib method url of Some e \<Rightarrow> probe_ret (Inl e)
      | None \<Rightarrow> f \<lparr>prMethod = method, prURL = url, prHeaders = hdrs\<rparr>)"

definition do_request :: "location_lib \<Rightarrow> probe_request \<Rightarrow> web_response probe" where
  "do_request lib q rs = (lnDo lib rs q, rs @ [q])"

text \<open>
  \<open>io.LimitReader(body, n)\<close>: at most \<open>n\<close> bytes, and the error of the body only when it ends before them.
  \<open>json.NewDecoder\<close> on it reads the first value of the text.
\<close>

definition limited :: "nat \<Rightarrow> web_response \<Rightarrow> string \<times> goerror option" where
  "limited n r = (take n (wrBody r), if length (wrBody r) < n then wrReadErr r else None)"

definition read_limited :: "nat \<Rightarrow> web_response \<Rightarrow> goerror + string" where
  "read_limited n r = (case limited n r of (body, None) \<Rightarrow> Inr body | (_, Some e) \<Rightarrow> Inl e)"

definition decode_limited :: "location_lib \<Rightarrow> nat \<Rightarrow> web_response \<Rightarrow> goerror + json" where
  "decode_limited lib n r = (case limited n r of (body, err) \<Rightarrow>
     (case lnDecode lib body of Inr j \<Rightarrow> Inr j | Inl e \<Rightarrow> Inl (case err of Some re \<Rightarrow> re | None \<Rightarrow> e)))"

definition decoded :: "goerror option \<times> 'a \<Rightarrow> goerror + 'a" where
  "decoded p = (case p of (Some e, _) \<Rightarrow> Inl e | (None, x) \<Rightarrow> Inr x)"

subsection \<open>Cloud metadata\<close>

record cloud_detector =
  cdAWSEndpoint :: string
  cdGCPEndpoint :: string
  cdAzureEndpoint :: string

definition default_cloud_detector :: cloud_detector where
  "default_cloud_detector = \<lparr>cdAWSEndpoint = ''http://169.254.169.254'', cdGCPEndpoint = ''http://metadata.google.internal'',
     cdAzureEndpoint = ''http://169.254.169.254''\<rparr>"

definition build_location :: "location_lib \<Rightarrow> string \<Rightarrow> string \<Rightarrow> string \<Rightarrow> node_location option" where
  "build_location lib provider region zone =
     (let p = trim_space (lnToLower lib provider);
          r = trim_space (lnToLower lib region);
          z = trim_space (lnToLower lib zone)
      in if p = [] \<or> r = [] then None
         else Some \<lparr>locProvider = p, locSource = ''cloud_metadata'', locRegion = r, locZone = z,
                    locLatitude = None, locLongitude = None\<rparr>)"

definition last_path_segment :: "string \<Rightarrow> string" where
  "last_path_segment s = (let v = trim_right ''/'' s in
     case last_index_of v (CHR ''/'') of Some i \<Rightarrow> drop (Suc i) v | None \<Rightarrow> v)"

definition derive_gcp_region :: "location_lib \<Rightarrow> string \<Rightarrow> string" where
  "derive_gcp_region lib zone = (let z = trim_space (lnToLower lib zone) in
     if z = [] then []
     else case last_index_of z (CHR ''-'') of Some i \<Rightarrow> if i > 0 then take i z else z | None \<Rightarrow> z)"

text \<open>The two structs that metadata documents are decoded into have two string fields each.\<close>

record place_doc =
  pdRegion :: string
  pdZone :: string

definition zero_place :: place_doc where
  "zero_place = \<lparr>pdRegion = [], pdZone = []\<rparr>"

definition aws_fields :: "place_doc field list" where
  "aws_fields = [(''region'', dec_string ''.region'' pdRegion_update), (''availabilityZone'', dec_string ''.availabilityZone'' pdZone_update)]"

definition azure_fields :: "place_doc field list" where
  "azure_fields = [(''location'', dec_string ''.location'' pdRegion_update), (''zone'', dec_string ''.zone'' pdZone_update)]"

definition get_json :: "location_lib \<Rightarrow> 'a field list \<Rightarrow> 'a \<Rightarrow> probe_request \<Rightarrow> 'a probe" where
  "get_json lib fs zero q =
     probe_bind (do_request lib q) (\<lambda>resp. probe_ret
       (rbind resp (\<lambda>r.
          if \<not> good_status (wrStatus r) then Inl (Plain (''metadata status '' @ int_text (wrStatus r)))
          else rbind (decode_limited lib 65536 r) (\<lambda>j. decoded (decode_struct [] fs j zero)))))"

definition detect_aws_identity_document :: "location_lib \<Rightarrow> string \<Rightarrow> string \<Rightarrow> node_location option probe" where
  "detect_aws_identity_document lib base token =
     new_request lib ''GET'' (base @ ''/latest/dynamic/instance-identity/document'')
       (if token \<noteq> [] then [(''X-aws-ec2-metadata-token'', token)] else []) (\<lambda>q.
       probe_bind (get_json lib aws_fields zero_place q) (\<lambda>d. probe_ret
         (rbind d (\<lambda>p. Inr (build_location lib ''aws'' (pdRegion p) (pdZone p))))))"

text \<open>
  A token request that gets no answer, or a bad status, is followed by one for the document without a token;
  a token that cannot be read or is empty ends the detection.
\<close>

definition aws_token_answered :: "location_lib \<Rightarrow> string \<Rightarrow> web_response \<Rightarrow> node_location option probe" where
  "aws_token_answered lib base r =
     (if \<not> good_status (wrStatus r)
      then probe_bind (detect_aws_identity_document lib base []) (\<lambda>doc. probe_ret
        (case doc of Inr (Some l) \<Rightarrow> Inr (Some l)
         | _ \<Rightarrow> Inl (Plain (''aws metadata token status '' @ int_text (wrStatus r)))))
      else case read_limited 4096 r of
        Inl e \<Rightarrow> probe_ret (Inl e)
      | Inr body \<Rightarrow>
          (let token = trim_space body in
           if token = [] then probe_ret (Inl (Plain ''aws metadata token was empty''))
           else detect_aws_identity_document lib base token))"

definition detect_aws :: "location_lib \<Rightarrow> cloud_detector \<Rightarrow> node_location option probe" where
  "detect_aws lib d = (let base = trim_right ''/'' (cdAWSEndpoint d) in
     if base = [] then probe_ret (Inr None)
     else new_request lib ''PUT'' (base @ ''/latest/api/token'') [(''X-aws-ec2-metadata-token-ttl-seconds'', ''60'')] (\<lambda>q.
       probe_bind (do_request lib q) (\<lambda>resp. case resp of
         Inl e \<Rightarrow> detect_aws_identity_document lib base []
       | Inr r \<Rightarrow> aws_token_answered lib base r)))"

definition gcp_location :: "location_lib \<Rightarrow> web_response \<Rightarrow> goerror + node_location option" where
  "gcp_location lib r =
     (if \<not> good_status (wrStatus r) then Inl (Plain (''gcp metadata status '' @ int_text (wrStatus r)))
      else rbind (read_limited 4096 r) (\<lambda>body.
        let zone = last_path_segment (trim_space body) in
        Inr (build_location lib ''gcp'' (derive_gcp_region lib zone) zone)))"

definition detect_gcp :: "location_lib \<Rightarrow> cloud_detector \<Rightarrow> node_location option probe" where
  "detect_gcp lib d = (let base = trim_right ''/'' (cdGCPEndpoint d) in
     if base = [] then probe_ret (Inr None)
     else new_request lib ''GET'' (base @ ''/computeMetadata/v1/instance/zone'') [(''Metadata-Flavor'', ''Google'')] (\<lambda>q.
       probe_bind (do_request lib q) (\<lambda>resp. probe_ret (rbind resp (gcp_location lib)))))"

definition detect_azure :: "location_lib \<Rightarrow> cloud_detector \<Rightarrow> node_location option probe" where
  "detect_azure lib d = (let base = trim_right ''/'' (cdAzureEndpoint d) in
     if base = [] then probe_ret (Inr None)
     else new_request lib ''GET'' (base @ ''/metadata/instance/compute?api-version=2021-02-01'') [(''Metadata'', ''true'')] (\<lambda>q.
       probe_bind (get_json lib azure_fields zero_place q) (\<lambda>doc. probe_ret
         (rbind doc (\<lambda>p. Inr (build_location lib ''azure'' (pdRegion p) (pdZone p)))))))"

text \<open>The providers in order; the error of the last one that failed is kept.\<close>

fun try_providers :: "node_location option probe list \<Rightarrow> goerror option \<Rightarrow> node_location option probe" where
  "try_providers [] last_err = probe_ret (case last_err of None \<Rightarrow> Inr None | Some e \<Rightarrow> Inl e)"
| "try_providers (p # ps) last_err = probe_bind p (\<lambda>r. case r of
     Inr (Some l) \<Rightarrow> probe_ret (Inr (Some l))
   | Inr None \<Rightarrow> try_providers ps last_err
   | Inl e \<Rightarrow> try_providers ps (Some e))"

definition cloud_detect :: "location_lib \<Rightarrow> cloud_detector \<Rightarrow> node_location option probe" where
  "cloud_detect lib d = try_providers [detect_aws lib d, detect_gcp lib d, detect_azure lib d] None"

subsection \<open>Node location\<close>

definition normalize_label :: "string \<Rightarrow> string" where
  "normalize_label s = (let n = str_join '' '' (str_fields s); rs = runes n in
     if length rs > 80 then encode_runes (take 80 rs) else n)"

definition manual_location :: "config \<Rightarrow> node_location option" where
  "manual_location c =
     (let region = normalize_label (cfManualRegion c) in
      case (cfManualLatitude c, cfManualLongitude c) of
        (Some lat, Some long) \<Rightarrow>
          if region = [] \<or> \<not> valid_latitude lat \<or> \<not> valid_longitude long then None
          else Some \<lparr>locProvider = ''manual'', locSource = ''manual'', locRegion = region,
            locZone = normalize_label (cfManualZone c), locLatitude = Some lat, locLongitude = Some long\<rparr>
      | _ \<Rightarrow> None)"

definition build_ipinfo_url :: "location_lib \<Rightarrow> string \<Rightarrow> string \<Rightarrow> goerror + string" where
  "build_ipinfo_url lib endpoint token =
     rbind (lnParseURL lib (trim_space endpoint)) (\<lambda>u.
       if luScheme u = [] \<or> luHost u = [] then Inl (Plain ''ipinfo endpoint must be an absolute URL'')
       else if trim_space token \<noteq> [] \<and> luToken u = [] then Inr (luWithToken u (trim_space token))
       else Inr (luText u))"

definition parse_ipinfo_loc :: "location_lib \<Rightarrow> string \<Rightarrow> goerror + go_float \<times> go_float" where
  "parse_ipinfo_loc lib s =
     (case split_char (CHR '','') (trim_space s) of
        [a, b] \<Rightarrow>
          (case lnParseFloat lib (trim_space a) of
             Inl e \<Rightarrow> Inl (wrap_prefix ''parse ipinfo latitude: '' e)
           | Inr lat \<Rightarrow>
               (case lnParseFloat lib (trim_space b) of
                  Inl e \<Rightarrow> Inl (wrap_prefix ''parse ipinfo longitude: '' e)
                | Inr long \<Rightarrow>
                    if \<not> valid_latitude lat \<or> \<not> valid_longitude long
                    then Inl (Plain ''ipinfo coordinates were out of range'') else Inr (lat, long)))
      | _ \<Rightarrow> Inl (Plain ''ipinfo loc was empty or malformed''))"

record ipinfo_payload =
  ipIP :: string
  ipCity :: string
  ipRegion :: string
  ipCountry :: string
  ipLoc :: string

definition zero_ipinfo :: ipinfo_payload where
  "zero_ipinfo = \<lparr>ipIP = [], ipCity = [], ipRegion = [], ipCountry = [], ipLoc = []\<rparr>"

definition ipinfo_fields :: "ipinfo_payload field list" where
  "ipinfo_fields =
     [(''ip'', dec_string ''ipInfoPayload.ip'' ipIP_update), (''city'', dec_string ''ipInfoPayload.city'' ipCity_update),
      (''region'', dec_string ''ipInfoPayload.region'' ipRegion_update),
      (''country'', dec_string ''ipInfoPayload.country'' ipCountry_update), (''loc'', dec_string ''ipInfoPayload.loc'' ipLoc_update)]"

definition contains_equal_fold :: "location_lib \<Rightarrow> string list \<Rightarrow> string \<Rightarrow> bool" where
  "contains_equal_fold lib vs t = list_ex (\<lambda>v. lnEqualFold lib v t) vs"

fun label_parts :: "location_lib \<Rightarrow> string list \<Rightarrow> string list \<Rightarrow> string list" where
  "label_parts lib [] parts = parts"
| "label_parts lib (v # vs) parts =
     (let n = normalize_label v in
      if n = [] \<or> contains_equal_fold lib parts n then label_parts lib vs parts else label_parts lib vs (parts @ [n]))"

definition ipinfo_region :: "location_lib \<Rightarrow> ipinfo_payload \<Rightarrow> string" where
  "ipinfo_region lib p =
     (let parts = label_parts lib [ipCity p, ipRegion p, ipCountry p] [] in
      if parts \<noteq> [] then normalize_label (str_join '', '' parts)
      else if normalize_label (ipIP p) \<noteq> [] then normalize_label (ipIP p) else ''public-ip'')"

definition ipinfo_location :: "location_lib \<Rightarrow> web_response \<Rightarrow> goerror + node_location" where
  "ipinfo_location lib r =
     (if \<not> good_status (wrStatus r) then Inl (Plain (''ipinfo status '' @ int_text (wrStatus r)))
      else rbind (decode_limited lib 65536 r) (\<lambda>j.
           rbind (decoded (decode_struct ''nodelocation.ipInfoPayload'' ipinfo_fields j zero_ipinfo)) (\<lambda>p.
           rbind (parse_ipinfo_loc lib (ipLoc p)) (\<lambda>(lat, long).
             Inr \<lparr>locProvider = ''public_ip'', locSource = ''ipinfo'', locRegion = ipinfo_region lib p, locZone = [],
                  locLatitude = Some lat, locLongitude = Some long\<rparr>))))"

definition detect_ipinfo :: "location_lib \<Rightarrow> string \<Rightarrow> config \<Rightarrow> node_location probe" where
  "detect_ipinfo lib endpoint c =
     (case build_ipinfo_url lib endpoint (cfIPInfoToken c) of
        Inl e \<Rightarrow> probe_ret (Inl e)
      | Inr url \<Rightarrow> new_request lib ''GET'' url [(''Accept'', ''application/json'')] (\<lambda>q.
          probe_bind (do_request lib q) (\<lambda>resp. probe_ret (rbind resp (ipinfo_location lib)))))"

definition ipinfo_endpoint :: "string \<Rightarrow> string" where
  "ipinfo_endpoint e = (if trim_space e \<noteq> [] then trim_space e else ''https://ipinfo.io/json'')"

text \<open>
  \<open>Detector.Detect\<close>; \<open>endpoint\<close> is the field \<open>IPInfoEndpoint\<close> and \<open>cloud\<close> the field \<open>CloudDetect\<close>, both
  empty in the program, which then asks the default detector.
\<close>

definition location_detect :: "location_lib \<Rightarrow> string \<Rightarrow> node_location option probe option \<Rightarrow> config \<Rightarrow> node_location option probe" where
  "location_detect lib endpoint cloud c =
     (case manual_location c of
        Some l \<Rightarrow> probe_ret (Inr (Some l))
      | None \<Rightarrow>
          probe_bind (case cloud of Some f \<Rightarrow> f | None \<Rightarrow> cloud_detect lib default_cloud_detector) (\<lambda>r. case r of
            Inr (Some l) \<Rightarrow> probe_ret (Inr (Some l))
          | _ \<Rightarrow>
              if \<not> cfPublicIPEnabled c then probe_ret r
              else probe_bind (detect_ipinfo lib (ipinfo_endpoint endpoint) c) (\<lambda>i. probe_ret
                (case i of Inl e \<Rightarrow> Inl e | Inr l \<Rightarrow> Inr (Some l)))))"

definition detect_node_location :: "location_lib \<Rightarrow> config \<Rightarrow> node_location option probe" where
  "detect_node_location lib c = location_detect lib [] None c"


subsection \<open>Labels\<close>

lemma utf8_width_before_ascii:
  assumes "byte_in 0 127 c"
  shows "utf8_width (a # s @ c # t) = utf8_width (a # s)"
proof -
  have c: "\<not> byte_in 128 191 c" "\<not> byte_in (second_lo a) (second_hi a) c"
    using assms by (auto simp: byte_in_def second_lo_def)
  consider "s = []" | b where "s = [b]" | b d where "s = [b, d]" | b d e r where "s = b # d # e # r"
    by (metis list.exhaust)
  then show ?thesis by cases (simp_all add: utf8_width.simps(2) c split: list.splits)
qed

lemma runes_before_ascii: "byte_in 0 127 c \<Longrightarrow> runes (a @ c # t) = runes a @ [c] # runes t"
proof (induction a rule: runes.induct)
  case 1
  then show ?case by (simp add: runes_ascii_Cons)
next
  case (2 x a)
  let ?w = "max 1 (utf8_width (x # a))"
  have w: "utf8_width (x # a @ c # t) = utf8_width (x # a)" using 2(2) by (rule utf8_width_before_ascii)
  have l: "?w \<le> length (x # a)" using utf8_width_le [of "x # a"] by simp
  have d: "drop ?w (x # a @ c # t) = drop ?w (x # a) @ c # t" "take ?w (x # a @ c # t) = take ?w (x # a)"
    using l by (simp_all flip: append_Cons)
  have "runes ((x # a) @ c # t) = take ?w (x # a) # runes (drop ?w (x # a) @ c # t)"
    by (simp only: append_Cons runes.simps(2) w d)
  then show ?case by (simp only: 2(1) [OF 2(2)] runes.simps(2) append_Cons)
qed

lemma runes_str_join: "byte_in 0 127 c \<Longrightarrow> \<exists>rs. runes (str_join (c # sep) (w # ws)) = runes w @ rs"
  by (cases ws) (auto simp: runes_before_ascii)

definition whole_runes :: "string list \<Rightarrow> bool" where
  "whole_runes rs \<longleftrightarrow> runes (concat rs) = rs"

lemma whole_runes_append: "whole_runes (xs @ ys) \<Longrightarrow> whole_runes xs \<and> whole_runes ys"
  using runes_take [of "length xs" "concat (xs @ ys)"] runes_drop [of "length xs" "concat (xs @ ys)"]
  by (simp add: whole_runes_def)

lemma fields_from_words:
  assumes "whole_runes (cs @ rs)" "\<forall>r\<in>set cs. \<not> is_space r" "w \<in> set (fields_from rs (concat cs))"
  shows "w \<noteq> [] \<and> (\<forall>r\<in>set (runes w). \<not> is_space r)"
  using assms
proof (induction rs arbitrary: cs)
  case Nil
  then show ?case by (auto simp: whole_runes_def split: if_splits)
next
  case (Cons r rs)
  show ?case
  proof (cases "is_space r")
    case True
    have "whole_runes (cs @ r # rs)" by (fact Cons.prems(1))
    then have w: "whole_runes cs" "whole_runes rs"
      using whole_runes_append [of cs "r # rs"] whole_runes_append [of "[r]" rs] by auto
    from True Cons.prems(3) consider "concat cs \<noteq> []" "w = concat cs" | "w \<in> set (fields_from rs (concat []))"
      by (auto split: if_splits)
    then show ?thesis
    proof cases
      case 1
      then show ?thesis using w(1) Cons.prems(2) by (simp add: whole_runes_def)
    next
      case 2
      show ?thesis by (rule Cons.IH [of "[]"]) (use w(2) 2 in auto)
    qed
  next
    case False
    then have "w \<in> set (fields_from rs (concat (cs @ [r])))" using Cons.prems(3) by simp
    from Cons.IH [OF _ _ this] show ?thesis using Cons.prems(1,2) False by simp
  qed
qed

lemma str_fields_words: "w \<in> set (str_fields s) \<Longrightarrow> w \<noteq> [] \<and> (\<forall>r\<in>set (runes w). \<not> is_space r)"
  using fields_from_words [of "[]" "runes s" w] by (simp add: str_fields_def whole_runes_def)

lemma fields_from_Nil_iff:
  "\<forall>r\<in>set rs. r \<noteq> [] \<Longrightarrow> fields_from rs cur = [] \<longleftrightarrow> cur = [] \<and> (\<forall>r\<in>set rs. is_space r)"
  by (induction rs arbitrary: cur) auto

lemma str_fields_Nil_iff: "str_fields s = [] \<longleftrightarrow> trim_space s = []"
  by (auto simp: str_fields_def trim_space_Nil_iff fields_from_Nil_iff runes_nonempty)

text \<open>The runes of a joined text start with those of the first word.\<close>

lemma joined_nonblank:
  assumes "w \<noteq> []" "\<exists>r\<in>set (runes w). \<not> is_space r" "byte_in 0 127 c"
  shows "\<exists>r\<in>set (runes (str_join (c # sep) (w # ws))). \<not> is_space r"
  using assms runes_str_join [OF assms(3), of sep w ws] by auto

lemma normalize_label_Nil_iff: "normalize_label s = [] \<longleftrightarrow> trim_space s = []"
proof (cases "str_fields s")
  case Nil
  then show ?thesis by (simp add: normalize_label_def flip: str_fields_Nil_iff)
next
  case (Cons w ws)
  then have "w \<noteq> []" using str_fields_words [of w s] by simp
  then have "str_join '' '' (str_fields s) \<noteq> []" using Cons by (cases ws) auto
  moreover have "encode_runes (take 80 rs) \<noteq> []" if "length rs > 80" "set rs \<subseteq> set (runes t)" for rs t
    using that by (cases rs) (auto simp: encode_runes_def encode_rune_def dest!: runes_nonempty)
  ultimately show ?thesis using Cons by (auto simp: normalize_label_def Let_def simp flip: str_fields_Nil_iff)
qed

lemma normalize_label_nonblank:
  assumes "normalize_label s \<noteq> []"
  shows "trim_space (normalize_label s) \<noteq> []"
proof -
  from assms have "str_fields s \<noteq> []" by (simp add: normalize_label_Nil_iff str_fields_Nil_iff)
  then obtain w ws where f: "str_fields s = w # ws" by (cases "str_fields s") auto
  then have w: "w \<noteq> []" "\<forall>r\<in>set (runes w). \<not> is_space r" using str_fields_words [of w s] by auto
  then obtain r rs where r: "runes w = r # rs" by (cases "runes w") auto
  have sp: "byte_in 0 127 (CHR '' '')" by (simp add: byte_in_def)
  let ?n = "str_join '' '' (str_fields s)"
  obtain qs where q: "runes ?n = r # qs" using runes_str_join [OF sp, of "[]" w ws] f r by auto
  have sr: "\<not> is_space r" "\<not> is_space (encode_rune r)" using w(2) r by (auto simp: encode_rune_def is_space_def)
  have "\<exists>x\<in>set (runes (normalize_label s)). \<not> is_space x"
  proof (cases "length (runes ?n) > 80")
    case True
    have "runes (encode_runes (take 80 (runes ?n)) @ []) = map encode_rune (take 80 (runes ?n)) @ runes []"
      by (rule runes_encode_runes_append) (auto dest: in_set_takeD)
    then show ?thesis using True q sr by (auto simp: normalize_label_def Let_def)
  next
    case False
    then show ?thesis using q sr by (auto simp: normalize_label_def Let_def)
  qed
  then show ?thesis unfolding trim_space_Nil_iff by blast
qed

lemma rune_count_normalize_label: "rune_count (normalize_label s) \<le> 80"
proof (cases "length (runes (str_join '' '' (str_fields s))) > 80")
  case True
  let ?n = "str_join '' '' (str_fields s)"
  have "rune_count (encode_runes (take 80 (runes ?n)) @ []) = length (take 80 (runes ?n)) + rune_count []"
    by (rule rune_count_encode_runes_append) (auto dest: in_set_takeD)
  then show ?thesis using True by (simp add: normalize_label_def Let_def rune_count_def)
qed (simp add: normalize_label_def Let_def rune_count_def)

lemma label_parts_nonblank: "\<forall>v\<in>set parts. trim_space v \<noteq> [] \<Longrightarrow> v \<in> set (label_parts lib vs parts) \<Longrightarrow> trim_space v \<noteq> []"
proof (induction vs arbitrary: parts)
  case (Cons a vs)
  show ?case
  proof (cases "normalize_label a = [] \<or> contains_equal_fold lib parts (normalize_label a)")
    case True
    then show ?thesis using Cons.IH [OF Cons.prems(1)] Cons.prems(2) by (simp add: Let_def)
  next
    case False
    then have "\<forall>v\<in>set (parts @ [normalize_label a]). trim_space v \<noteq> []"
      using Cons.prems(1) by (auto simp: normalize_label_nonblank)
    from Cons.IH [OF this] False Cons.prems(2) show ?thesis by (simp add: Let_def)
  qed
qed simp

lemma ipinfo_region_ok: "ipinfo_region lib p \<noteq> [] \<and> rune_count (ipinfo_region lib p) \<le> 80"
proof (cases "label_parts lib [ipCity p, ipRegion p, ipCountry p] []")
  case Nil
  have "rune_count ''public-ip'' \<le> 80" by code_simp
  with Nil show ?thesis by (simp add: ipinfo_region_def rune_count_normalize_label)
next
  case (Cons w ws)
  then have "trim_space w \<noteq> []" using label_parts_nonblank [of "[]" w lib] by (metis empty_iff list.set(1) list.set_intros(1))
  then have "w \<noteq> []" "\<exists>r\<in>set (runes w). \<not> is_space r" by (auto simp: trim_space_Nil_iff)
  moreover have "byte_in 0 127 (CHR '','')" by (simp add: byte_in_def)
  ultimately have "\<exists>r\<in>set (runes (str_join '', '' (w # ws))). \<not> is_space r" by (rule joined_nonblank)
  then have "normalize_label (str_join '', '' (w # ws)) \<noteq> []"
    by (auto simp: normalize_label_Nil_iff trim_space_Nil_iff)
  with Cons show ?thesis unfolding ipinfo_region_def by (simp add: rune_count_normalize_label)
qed


subsection \<open>What is asked and what is found\<close>

text \<open>\<open>asks n P m\<close>: a step makes at most \<open>n\<close> requests, all with \<open>P\<close>.\<close>

definition asks :: "nat \<Rightarrow> (probe_request \<Rightarrow> bool) \<Rightarrow> 'a probe \<Rightarrow> bool" where
  "asks n P m \<longleftrightarrow> (\<forall>rs. \<exists>qs. snd (m rs) = rs @ qs \<and> length qs \<le> n \<and> (\<forall>q\<in>set qs. P q))"

lemma asks_ret [intro]: "asks n P (probe_ret r)"
  by (simp add: asks_def probe_ret_def)

lemma asks_ret1: "asks n P (probe_ret r)"
  by (simp add: asks_def probe_ret_def)

lemma asks_bind:
  assumes "asks a P m" "\<And>r. asks b P (f r)"
  shows "asks (a + b) P (probe_bind m f)"
  unfolding asks_def
proof
  fix rs
  obtain r rs1 where m: "m rs = (r, rs1)" by (cases "m rs") auto
  with assms(1) obtain qs where 1: "rs1 = rs @ qs" "length qs \<le> a" "\<forall>q\<in>set qs. P q" by (metis asks_def snd_conv)
  from assms(2) [of r] obtain ps where 2: "snd (f r rs1) = rs1 @ ps" "length ps \<le> b" "\<forall>q\<in>set ps. P q"
    unfolding asks_def by blast
  show "\<exists>qs. snd (probe_bind m f rs) = rs @ qs \<and> length qs \<le> a + b \<and> (\<forall>q\<in>set qs. P q)"
    by (rule exI [of _ "qs @ ps"]) (use m 1 2 in \<open>auto simp: probe_bind_def\<close>)
qed

lemma asks_bind0: "asks n P m \<Longrightarrow> (\<And>r. asks 0 P (f r)) \<Longrightarrow> asks n P (probe_bind m f)"
  using asks_bind [of n P m 0 f] by simp

lemma asks_map: "asks n P m \<Longrightarrow> asks n P (probe_bind m (\<lambda>r. probe_ret (g r)))"
  by (rule asks_bind0) (auto simp: asks_def probe_ret_def)

lemma asks_do: "P q \<Longrightarrow> asks 1 P (do_request lib q)"
  by (simp add: asks_def do_request_def)

lemma asks_new: "(\<And>q. prURL q = url \<Longrightarrow> asks n P (f q)) \<Longrightarrow> asks n P (new_request lib method url hdrs f)"
  by (auto simp: new_request_def split: option.splits)

lemma asks_mono: "asks a P m \<Longrightarrow> a \<le> b \<Longrightarrow> asks b P m"
  unfolding asks_def using order_trans by blast

text \<open>\<open>yields Q m\<close>: whatever a step finds has \<open>Q\<close>.\<close>

definition yields :: "('a \<Rightarrow> bool) \<Rightarrow> 'a probe \<Rightarrow> bool" where
  "yields Q m \<longleftrightarrow> (\<forall>rs x. fst (m rs) = Inr x \<longrightarrow> Q x)"

lemma yields_ret: "(\<And>x. r = Inr x \<Longrightarrow> Q x) \<Longrightarrow> yields Q (probe_ret r)"
  by (simp add: yields_def probe_ret_def)

lemma yields_bind: "(\<And>r. yields Q (f r)) \<Longrightarrow> yields Q (probe_bind m f)"
  by (simp add: yields_def probe_bind_def split: prod.split)

lemma yields_new: "(\<And>q. yields Q (f q)) \<Longrightarrow> yields Q (new_request lib method url hdrs f)"
  by (auto simp: new_request_def intro: yields_ret split: option.splits)

text \<open>The addresses below an endpoint.\<close>

definition below :: "string \<Rightarrow> probe_request \<Rightarrow> bool" where
  "below base q \<longleftrightarrow> has_prefix (prURL q) (trim_right ''/'' base @ ''/'')"

definition metadata_request :: "cloud_detector \<Rightarrow> probe_request \<Rightarrow> bool" where
  "metadata_request d q \<longleftrightarrow> below (cdAWSEndpoint d) q \<or> below (cdGCPEndpoint d) q \<or> below (cdAzureEndpoint d) q"

lemma belowI: "prURL q = trim_right ''/'' base @ CHR ''/'' # p \<Longrightarrow> below base q"
  by (auto simp: below_def has_prefix_iff)

lemma asks_get_json: "P q \<Longrightarrow> asks 1 P (get_json lib fs z q)"
  unfolding get_json_def by (intro asks_map asks_do)

lemma asks_document: "asks 1 (below (cdAWSEndpoint d)) (detect_aws_identity_document lib (trim_right ''/'' (cdAWSEndpoint d)) token)"
  unfolding detect_aws_identity_document_def
  by (intro asks_new asks_map asks_get_json belowI) simp

lemma asks_aws: "asks 2 (below (cdAWSEndpoint d)) (detect_aws lib d)"
proof -
  let ?B = "trim_right ''/'' (cdAWSEndpoint d)" and ?P = "below (cdAWSEndpoint d)"
  have t: "asks 1 ?P (aws_token_answered lib ?B r)" for r
  proof -
    have e: "asks 1 ?P (probe_ret x :: node_location option probe)" for x by (simp add: asks_def probe_ret_def)
    show ?thesis
    proof (cases "good_status (wrStatus r)")
      case False
      then show ?thesis unfolding aws_token_answered_def by (simp only: if_True not_False_eq_True) (intro asks_map asks_document)
    next
      case True
      then show ?thesis
        by (cases "read_limited 4096 r") (simp_all only: aws_token_answered_def sum.case Let_def e asks_document if_False not_True_eq_False if_cancel split: if_split, auto)
    qed
  qed
  have "asks (1 + 1) ?P (probe_bind (do_request lib q) (\<lambda>resp. case resp of
         Inl e \<Rightarrow> detect_aws_identity_document lib ?B [] | Inr r \<Rightarrow> aws_token_answered lib ?B r))" if "?P q" for q
    by (rule asks_bind [OF asks_do [of ?P q lib, OF that]]) (auto intro: asks_document t split: sum.splits simp del: One_nat_def)
  then show ?thesis unfolding detect_aws_def Let_def by (auto intro!: asks_new belowI simp: numeral_2_eq_2)
qed

lemma asks_gcp: "asks 1 (below (cdGCPEndpoint d)) (detect_gcp lib d)"
  unfolding detect_gcp_def Let_def
  by (auto intro!: asks_new asks_map asks_do belowI asks_ret1 simp del: One_nat_def)

lemma asks_azure: "asks 1 (below (cdAzureEndpoint d)) (detect_azure lib d)"
  unfolding detect_azure_def Let_def
  by (auto intro!: asks_new asks_map asks_get_json belowI asks_ret1 simp del: One_nat_def)

lemma asks_weaken: "asks n P m \<Longrightarrow> (\<And>q. P q \<Longrightarrow> Q q) \<Longrightarrow> asks n Q m"
  unfolding asks_def by metis

lemma asks_cloud: "asks 4 (metadata_request d) (cloud_detect lib d)"
proof -
  have p: "asks 2 (metadata_request d) (detect_aws lib d)" "asks 1 (metadata_request d) (detect_gcp lib d)"
    "asks 1 (metadata_request d) (detect_azure lib d)"
    by (rule asks_weaken [OF asks_aws] asks_weaken [OF asks_gcp] asks_weaken [OF asks_azure], simp add: metadata_request_def)+
  have 0: "asks 0 (metadata_request d) (try_providers [] e)" for e by auto
  have 1: "asks 1 (metadata_request d) (try_providers [detect_azure lib d] e)" for e
    unfolding try_providers.simps(2) [of "detect_azure lib d"]
    by (rule asks_bind0 [OF p(3)]) (auto intro: 0 split: sum.splits option.splits simp del: try_providers.simps)
  have 2: "asks (1 + 1) (metadata_request d) (try_providers [detect_gcp lib d, detect_azure lib d] e)" for e
    unfolding try_providers.simps(2) [of "detect_gcp lib d"]
    by (rule asks_bind [OF p(2)]) (auto intro: 1 split: sum.splits option.splits simp del: One_nat_def try_providers.simps)
  have "asks (2 + (1 + 1)) (metadata_request d) (try_providers [detect_aws lib d, detect_gcp lib d, detect_azure lib d] None)"
    unfolding try_providers.simps(2) [of "detect_aws lib d"]
    by (rule asks_bind [OF p(1)]) (auto intro: 2 split: sum.splits option.splits simp del: One_nat_def one_add_one try_providers.simps)
  then show ?thesis by (simp add: cloud_detect_def)
qed

definition cloud_location :: "node_location option \<Rightarrow> bool" where
  "cloud_location x \<longleftrightarrow> pred_option (\<lambda>l. locSource l = ''cloud_metadata'' \<and> locProvider l \<noteq> [] \<and> locRegion l \<noteq> []
     \<and> locLatitude l = None \<and> locLongitude l = None) x"

lemma build_location_cloud: "cloud_location (build_location lib p r z)"
  by (simp add: build_location_def cloud_location_def Let_def)

lemma cloud_location_None: "cloud_location None"
  by (simp add: cloud_location_def)

lemma yields_document: "yields cloud_location (detect_aws_identity_document lib base token)"
  unfolding detect_aws_identity_document_def
  by (rule yields_new, rule yields_bind, rule yields_ret) (auto simp: rbind_def build_location_cloud split: sum.splits)

lemma yields_token: "yields cloud_location (aws_token_answered lib base r)"
proof -
  have "yields cloud_location (probe_bind (detect_aws_identity_document lib base []) (\<lambda>doc. probe_ret
        (case doc of Inr (Some l) \<Rightarrow> Inr (Some l) | _ \<Rightarrow> Inl e)))" for e
    using yields_document [of lib base "[]"]
    by (auto simp: yields_def probe_bind_def probe_ret_def split: prod.splits sum.splits option.splits) (metis fst_conv)
  then show ?thesis unfolding aws_token_answered_def Let_def
    by (auto intro: yields_ret yields_document split: sum.splits)
qed

lemma yields_cloud: "yields cloud_location (cloud_detect lib d)"
proof -
  have 1: "yields cloud_location (detect_aws lib d)"
    unfolding detect_aws_def Let_def
    by (auto intro!: yields_new yields_bind intro: yields_ret yields_document yields_token cloud_location_None split: sum.splits)
  have 2: "yields cloud_location (detect_gcp lib d)"
    unfolding detect_gcp_def Let_def gcp_location_def
    by (auto intro!: yields_new yields_bind yields_ret simp: cloud_location_None rbind_def build_location_cloud split: sum.splits if_splits)
  have 3: "yields cloud_location (detect_azure lib d)"
    unfolding detect_azure_def Let_def
    by (auto intro!: yields_new yields_bind yields_ret simp: cloud_location_None rbind_def build_location_cloud split: sum.splits)
  have "yields cloud_location (try_providers ps e)" if "\<forall>p\<in>set ps. yields cloud_location p" for ps e
    using that
  proof (induction ps arbitrary: e)
    case Nil
    then show ?case by (auto intro!: yields_ret simp: cloud_location_None split: option.splits)
  next
    case (Cons p ps)
    then have "yields cloud_location p" "\<And>e. yields cloud_location (try_providers ps e)" by auto
    then have "fst (p rs) = Inr x \<Longrightarrow> cloud_location x" "fst (try_providers ps e rs) = Inr x \<Longrightarrow> cloud_location x" for e rs x
      by (auto simp: yields_def)
    then show ?case
      unfolding yields_def try_providers.simps probe_bind_def probe_ret_def
      by (auto split: prod.splits sum.splits option.splits) (metis fst_conv)+
  qed
  from this [of "[detect_aws lib d, detect_gcp lib d, detect_azure lib d]" None] show ?thesis
    unfolding cloud_detect_def using 1 2 3 by (simp del: try_providers.simps)
qed


subsection \<open>Properties\<close>

lemma location_detect_unfold:
  "detect_node_location lib c = (case manual_location c of
        Some l \<Rightarrow> probe_ret (Inr (Some l))
      | None \<Rightarrow> probe_bind (cloud_detect lib default_cloud_detector) (\<lambda>r. case r of
            Inr (Some l) \<Rightarrow> probe_ret (Inr (Some l))
          | _ \<Rightarrow> if \<not> cfPublicIPEnabled c then probe_ret r
              else probe_bind (detect_ipinfo lib ''https://ipinfo.io/json'' c) (\<lambda>i. probe_ret
                (case i of Inl e \<Rightarrow> Inl e | Inr l \<Rightarrow> Inr (Some l)))))"
proof -
  have "ipinfo_endpoint [] = ''https://ipinfo.io/json''" by (simp add: ipinfo_endpoint_def)
  then show ?thesis by (simp only: detect_node_location_def location_detect_def option.case)
qed

text \<open>A location that is found names a place, and has either both coordinates, in range, or none.\<close>

definition sound_location :: "node_location \<Rightarrow> bool" where
  "sound_location l \<longleftrightarrow> locProvider l \<noteq> [] \<and> locRegion l \<noteq> []
     \<and> (if locSource l = ''cloud_metadata'' then locLatitude l = None \<and> locLongitude l = None
        else (locProvider l, locSource l) \<in> {(''manual'', ''manual''), (''public_ip'', ''ipinfo'')} \<and> rune_count (locRegion l) \<le> 80
          \<and> (\<exists>lat long. locLatitude l = Some lat \<and> locLongitude l = Some long \<and> valid_latitude lat \<and> valid_longitude long))"

lemma manual_location_sound: "manual_location c = Some l \<Longrightarrow> sound_location l"
  by (auto simp: manual_location_def sound_location_def Let_def rune_count_normalize_label split: option.splits if_splits)

lemma parse_ipinfo_loc_valid: "parse_ipinfo_loc lib s = Inr (lat, long) \<Longrightarrow> valid_latitude lat \<and> valid_longitude long"
  by (auto simp: parse_ipinfo_loc_def split: list.splits sum.splits if_splits)

lemma ipinfo_location_sound: "ipinfo_location lib r = Inr l \<Longrightarrow> sound_location l"
  using ipinfo_region_ok [of lib]
  by (auto simp: ipinfo_location_def sound_location_def rbind_def dest!: parse_ipinfo_loc_valid split: sum.splits if_splits prod.splits)

lemma detect_ipinfo_sound: "yields sound_location (detect_ipinfo lib e c)"
  unfolding detect_ipinfo_def
  by (auto intro!: yields_new yields_bind yields_ret simp: rbind_def ipinfo_location_sound split: sum.splits)

lemma cloud_location_sound: "cloud_location (Some l) \<Longrightarrow> sound_location l"
  by (simp add: cloud_location_def sound_location_def)

text \<open>
  A location that is detected names a provider and a region. One from a cloud has no coordinates; one
  from the configuration or from the public address has both, a latitude in \<open>[-90, 90]\<close> and a longitude in
  \<open>[-180, 180]\<close>, whatever number the text of the answer was read as, and a region of at most 80 characters.
\<close>

theorem detected_location_sound:
  assumes "detect_node_location lib c rs = (Inr (Some l), rs')"
  shows "sound_location l"
proof (cases "manual_location c")
  case (Some l')
  with assms show ?thesis by (simp add: location_detect_unfold probe_ret_def manual_location_sound)
next
  case None
  obtain r rs1 where r: "cloud_detect lib default_cloud_detector rs = (r, rs1)" by fastforce
  have c: "r = Inr (Some l') \<Longrightarrow> sound_location l'" for l'
    using yields_cloud [of lib default_cloud_detector] r cloud_location_sound unfolding yields_def by (metis fst_conv)
  obtain i rs2 where i: "detect_ipinfo lib ''https://ipinfo.io/json'' c rs1 = (i, rs2)" by fastforce
  have p: "i = Inr l' \<Longrightarrow> sound_location l'" for l'
    using detect_ipinfo_sound [of lib "''https://ipinfo.io/json''" c] i unfolding yields_def by (metis fst_conv)
  from assms None r i show ?thesis
    by (auto simp: location_detect_unfold probe_bind_def probe_ret_def dest: c p split: sum.splits option.splits if_splits)
qed

text \<open>
  C38. What a node tells others by asking where it is: with a manual location nothing is asked; otherwise at
  most four requests go to the metadata addresses, and only where the configuration allows it and no cloud
  answered, one more, the only one that can carry the token, goes to the address service.
\<close>

theorem location_requests_confined:
  assumes "detect_node_location lib c [] = (r, qs)"
  shows "\<exists>ms ps. qs = ms @ ps \<and> length ms \<le> 4 \<and> (\<forall>q\<in>set ms. metadata_request default_cloud_detector q)
    \<and> (manual_location c \<noteq> None \<longrightarrow> qs = [])
    \<and> (ps \<noteq> [] \<longrightarrow> cfPublicIPEnabled c \<and> (\<nexists>l. fst (cloud_detect lib default_cloud_detector []) = Inr (Some l))
         \<and> (\<exists>q. ps = [q] \<and> build_ipinfo_url lib ''https://ipinfo.io/json'' (cfIPInfoToken c) = Inr (prURL q)))"
proof (cases "manual_location c")
  case (Some l)
  with assms show ?thesis by (intro exI [of _ "[]"]) (simp add: location_detect_unfold probe_ret_def)
next
  case None
  obtain d ms where d: "cloud_detect lib default_cloud_detector [] = (d, ms)" by fastforce
  have m: "length ms \<le> 4 \<and> (\<forall>q\<in>set ms. metadata_request default_cloud_detector q)"
    using asks_cloud [of default_cloud_detector lib] d unfolding asks_def by (metis append_Nil snd_conv)
  obtain i rs2 where i: "detect_ipinfo lib ''https://ipinfo.io/json'' c ms = (i, rs2)" by fastforce
  have p: "rs2 = ms \<or> (\<exists>q. rs2 = ms @ [q] \<and> build_ipinfo_url lib ''https://ipinfo.io/json'' (cfIPInfoToken c) = Inr (prURL q))"
    using i by (auto simp: detect_ipinfo_def new_request_def probe_ret_def probe_bind_def do_request_def split: sum.splits option.splits)
  consider (found) l where "d = Inr (Some l)" | (off) "\<nexists>l. d = Inr (Some l)" "\<not> cfPublicIPEnabled c"
    | (ask) "\<nexists>l. d = Inr (Some l)" "cfPublicIPEnabled c" by blast
  then show ?thesis
  proof cases
    case ask
    then have "qs = rs2" using assms None d i
      by (auto simp: location_detect_unfold probe_bind_def probe_ret_def split: sum.splits option.splits)
    with p m None d ask show ?thesis by (intro exI [of _ ms] exI [of _ "drop (length ms) rs2"]) auto
  qed (use assms None d m in \<open>auto simp: location_detect_unfold probe_bind_def probe_ret_def split: sum.splits option.splits\<close>)
qed

lemma validate_config_manual: "validate_config lib c = None \<Longrightarrow> validate_manual_location c = None"
  by (auto simp: validate_config_def first_error_def split: option.splits)

text \<open>
  A configuration that is accepted and names a manual location has it used as it is: its region as a
  label, its coordinates unchanged, and no request made.
\<close>

theorem accepted_manual_location_used:
  assumes "validate_config clib c = None" "trim_space (cfManualRegion c) \<noteq> []"
  shows "\<exists>l. detect_node_location lib c rs = (Inr (Some l), rs) \<and> locSource l = ''manual''
    \<and> locRegion l = normalize_label (cfManualRegion c) \<and> locLatitude l = cfManualLatitude c \<and> locLongitude l = cfManualLongitude c"
proof -
  from validate_config_manual [OF assms(1)] assms(2) have "manual_location c \<noteq> None"
    by (auto simp: validate_manual_location_def manual_location_def normalize_label_Nil_iff Let_def split: option.splits if_splits)
  then obtain l where "manual_location c = Some l" by blast
  then show ?thesis
    by (intro exI [of _ l]) (auto simp: location_detect_unfold probe_ret_def manual_location_def Let_def split: option.splits if_splits)
qed


subsection \<open>A node that only the address service knows\<close>

definition sample_location_lib :: location_lib where
  "sample_location_lib = \<lparr>lnNewRequest = (\<lambda>_ _. None),
     lnDo = (\<lambda>_ q. if prURL q = ''https://ipinfo.io/json?token=t'' then Inr \<lparr>wrStatus = 200, wrBody = ''{}'', wrReadErr = None\<rparr>
        else Inl (Plain ''no route to host'')),
     lnDecode = (\<lambda>_. Inr (JObj [(''city'', JStr ''Izmir''), (''loc'', JStr ''38,27'')])),
     lnParseURL = (\<lambda>u. Inr \<lparr>luScheme = ''https'', luHost = ''ipinfo.io'', luToken = [], luText = u, luWithToken = (\<lambda>t. u @ ''?token='' @ t)\<rparr>),
     lnParseFloat = (\<lambda>t. Inr (Num (if t = ''38'' then 38 else 27))),
     lnToLower = to_lower, lnEqualFold = (\<lambda>a b. a = b)\<rparr>"

definition roaming_config :: config where
  "roaming_config = plain_config\<lparr>cfPublicIPEnabled := True, cfIPInfoToken := ''t''\<rparr>"

definition izmir :: node_location where
  "izmir = \<lparr>locProvider = ''public_ip'', locSource = ''ipinfo'', locRegion = ''Izmir'', locZone = [],
     locLatitude = Some (Num 38), locLongitude = Some (Num 27)\<rparr>"

lemma roaming_manual: "manual_location roaming_config = None"
  by (simp add: manual_location_def roaming_config_def plain_config_def default_config_def)

lemma roaming_detected: "fst (detect_node_location sample_location_lib roaming_config []) = Inr (Some izmir)"
proof -
  have b: "trim_right ''/'' ''http://169.254.169.254'' = ''http://169.254.169.254''"
    "trim_right ''/'' ''http://metadata.google.internal'' = ''http://metadata.google.internal''" by code_simp+
  obtain ms where c: "cloud_detect sample_location_lib default_cloud_detector [] = (Inl (Plain ''no route to host''), ms)"
    by (simp add: cloud_detect_def default_cloud_detector_def detect_aws_def detect_gcp_def detect_azure_def b new_request_def
        detect_aws_identity_document_def get_json_def probe_bind_def probe_ret_def do_request_def rbind_def sample_location_lib_def)
  have t: "trim_space ''t'' = ''t''" "trim_space ''https://ipinfo.io/json'' = ''https://ipinfo.io/json''" by code_simp+
  have u: "build_ipinfo_url sample_location_lib ''https://ipinfo.io/json'' (cfIPInfoToken roaming_config) = Inr ''https://ipinfo.io/json?token=t''"
    by (simp add: build_ipinfo_url_def roaming_config_def t rbind_def sample_location_lib_def)
  have l: "parse_ipinfo_loc sample_location_lib ''38,27'' = Inr (Num 38, Num 27)" by code_simp
  have g: "ipinfo_region sample_location_lib \<lparr>ipIP = [], ipCity = ''Izmir'', ipRegion = [], ipCountry = [], ipLoc = ''38,27''\<rparr> = ''Izmir''"
    by code_simp
  have f: "find_field ipinfo_fields ''city'' = Some (dec_string ''ipInfoPayload.city'' ipCity_update)"
    "find_field ipinfo_fields ''loc'' = Some (dec_string ''ipInfoPayload.loc'' ipLoc_update)"
    by (simp_all add: ipinfo_fields_def find_field_def)
  have d: "decode_struct n ipinfo_fields (JObj [(''city'', JStr ''Izmir''), (''loc'', JStr ''38,27'')]) zero_ipinfo
      = (None, \<lparr>ipIP = [], ipCity = ''Izmir'', ipRegion = [], ipCountry = [], ipLoc = ''38,27''\<rparr>)" for n
    by (simp add: decode_struct_def f dec_string_def zero_ipinfo_def first_error_def)
  have i: "ipinfo_location sample_location_lib \<lparr>wrStatus = 200, wrBody = ''{}'', wrReadErr = None\<rparr> = Inr izmir"
    using l g by (simp add: ipinfo_location_def good_status_def decode_limited_def limited_def rbind_def decoded_def d
        sample_location_lib_def izmir_def)
  have n: "lnNewRequest sample_location_lib = (\<lambda>_ _. None)"
    "lnDo sample_location_lib rs \<lparr>prMethod = ''GET'', prURL = ''https://ipinfo.io/json?token=t'', prHeaders = hs\<rparr>
      = Inr \<lparr>wrStatus = 200, wrBody = ''{}'', wrReadErr = None\<rparr>" for rs hs by (simp_all add: sample_location_lib_def)
  have p: "cfPublicIPEnabled roaming_config" by (simp add: roaming_config_def)
  show ?thesis
    by (simp add: location_detect_unfold roaming_manual probe_bind_def c p detect_ipinfo_def u new_request_def n do_request_def
        probe_ret_def rbind_def i)
qed

theorem detected_location_sound_witness: "sound_location izmir"
  using detected_location_sound [of sample_location_lib roaming_config "[]" izmir] roaming_detected by (metis prod.collapse)

theorem location_requests_confined_witness:
  "\<exists>qs. snd (detect_node_location sample_location_lib roaming_config []) = qs \<and> length qs \<le> 5"
proof -
  obtain r qs where d: "detect_node_location sample_location_lib roaming_config [] = (r, qs)" by fastforce
  from location_requests_confined [OF d] obtain ms ps where "qs = ms @ ps" "length ms \<le> 4" "ps \<noteq> [] \<longrightarrow> (\<exists>q. ps = [q])" by blast
  then have "length qs \<le> 5" by (cases ps) auto
  with d show ?thesis by simp
qed

definition manual_config :: config where
  "manual_config = plain_config\<lparr>cfManualRegion := ''Rack 1'', cfManualLatitude := Some (Num 38), cfManualLongitude := Some (Num 27)\<rparr>"

theorem accepted_manual_location_used_witness:
  "\<exists>l. detect_node_location sample_location_lib manual_config [] = (Inr (Some l), []) \<and> locLatitude l = Some (Num 38)"
proof -
  have v: "validate_config bare_lib manual_config = None"
    unfolding validate_config_None
    by (simp add: validate_url_def numeric_checks_def text_checks_def validate_manual_location_def manual_config_def plain_config_def
        default_config_def bare_lib_def sample_trims float_less_def float_greater_def has_prefix_def valid_latitude_def valid_longitude_def)
      (code_simp)?
  have r: "trim_space (cfManualRegion manual_config) \<noteq> []" by code_simp
  from accepted_manual_location_used [OF v r, of sample_location_lib "[]"] show ?thesis
    by (auto simp: manual_config_def)
qed

end
