(* ===== verification/ReleaseMetadata.thy ===== *)
theory ReleaseMetadata
  imports GoFlag SelfUpdate NodeLocation "HOL-Library.List_Lexorder" "HOL-Library.Product_Lexorder"
begin

text \<open>
  \<open>cmd/release-metadata/main.go\<close>: the tool that describes a release. \<open>bundle\<close> reads the section of the
  version from the changelog and the checksums of the artifacts and writes the release manifest, which the
  self-update reads, and the release notes; \<open>catalog\<close> puts a manifest into the list of all releases. A slice
  is an option: \<open>None\<close> is \<open>nil\<close>, which is written as \<open>null\<close>. The JSON parser, \<open>time.Parse(time.RFC3339, _)\<close>
  and the clock are the record \<open>release_lib\<close>; times are nanoseconds since the epoch.
\<close>

subsection \<open>Data\<close>

record release_lib =
  reParse :: "string \<Rightarrow> goerror + json"
  reParseTime :: "string \<Rightarrow> goerror + int"
  reNow :: int

record notes_section =
  nsTitle :: string
  nsItems :: "string list option"

record release =
  rlVersion :: string
  rlPublishedAt :: string
  rlCommit :: string
  rlChannel :: string
  rlNotes :: "notes_section list option"
  rlInstaller :: "release_artifact option"
  rlAMD64 :: "release_artifact option"
  rlARM64 :: "release_artifact option"

record release_catalog =
  ctGeneratedAt :: string
  ctReleases :: "release list option"

definition zero_section :: notes_section where
  "zero_section = \<lparr>nsTitle = [], nsItems = None\<rparr>"

definition zero_release :: release where
  "zero_release = \<lparr>rlVersion = [], rlPublishedAt = [], rlCommit = [], rlChannel = [], rlNotes = None, rlInstaller = None,
     rlAMD64 = None, rlARM64 = None\<rparr>"

subsection \<open>Encoding and decoding\<close>

definition nil_or :: "('a \<Rightarrow> json) \<Rightarrow> 'a list option \<Rightarrow> json" where
  "nil_or f xs = (case xs of None \<Rightarrow> JNull | Some ys \<Rightarrow> JArr (map f ys))"

definition release_artifact_json :: "release_artifact \<Rightarrow> json" where
  "release_artifact_json a = JObj [(''binaryUrl'', JStr (raBinaryURL a)), (''sha256'', JStr (raSHA256 a))]"

definition omit_nil :: "string \<Rightarrow> release_artifact option \<Rightarrow> (string \<times> json) list" where
  "omit_nil k a = (case a of None \<Rightarrow> [] | Some x \<Rightarrow> [(k, release_artifact_json x)])"

definition section_json :: "notes_section \<Rightarrow> json" where
  "section_json s = JObj [(''title'', JStr (nsTitle s)), (''items'', nil_or JStr (nsItems s))]"

definition release_json :: "release \<Rightarrow> json" where
  "release_json r = JObj ([(''version'', JStr (rlVersion r)), (''publishedAt'', JStr (rlPublishedAt r)), (''commit'', JStr (rlCommit r)),
     (''channel'', JStr (rlChannel r)), (''notes'', nil_or section_json (rlNotes r))] @ omit_nil ''installer'' (rlInstaller r)
     @ [(''artifacts'', JObj (omit_nil ''amd64'' (rlAMD64 r) @ omit_nil ''arm64'' (rlARM64 r)))])"

definition catalog_json :: "release_catalog \<Rightarrow> json" where
  "catalog_json c = JObj (omit_empty ''generatedAt'' (ctGeneratedAt c) @ [(''releases'', nil_or release_json (ctReleases c))])"

text \<open>
  A slice is decoded element by element, each over the element that the slice held at its place; \<open>null\<close>
  makes it \<open>nil\<close>. The error of a value that is no list does not name the field.
\<close>

fun dec_elements :: "(json \<Rightarrow> 'a \<Rightarrow> goerror option \<times> 'a) \<Rightarrow> 'a \<Rightarrow> json list \<Rightarrow> 'a list \<Rightarrow> goerror option \<times> 'a list" where
  "dec_elements d z [] olds = (None, [])"
| "dec_elements d z (j # js) olds =
     (case d j (case olds of [] \<Rightarrow> z | x # _ \<Rightarrow> x) of (e, y) \<Rightarrow>
      case dec_elements d z js (tl olds) of (e1, ys) \<Rightarrow> (first_error e e1, y # ys))"

definition dec_slice :: "string \<Rightarrow> (json \<Rightarrow> 'a \<Rightarrow> goerror option \<times> 'a) \<Rightarrow> 'a \<Rightarrow>
    (('a list option \<Rightarrow> 'a list option) \<Rightarrow> 's \<Rightarrow> 's) \<Rightarrow> ('s \<Rightarrow> 'a list option) \<Rightarrow> json \<Rightarrow> 's \<Rightarrow> goerror option \<times> 's" where
  "dec_slice ty d z upd get j s =
     (case j of
        JArr js \<Rightarrow> (case dec_elements d z js (case get s of None \<Rightarrow> [] | Some xs \<Rightarrow> xs) of (e, ys) \<Rightarrow> (e, upd (\<lambda>_. Some ys) s))
      | JNull \<Rightarrow> (None, upd (\<lambda>_. None) s)
      | _ \<Rightarrow> (Some (Plain (''json: cannot unmarshal '' @ json_kind j @ '' into Go value of type '' @ ty)), s))"

definition section_fields :: "notes_section field list" where
  "section_fields = [(''title'', dec_string ''releaseNotesSection.title'' nsTitle_update),
     (''items'', dec_slice ''[]string'' (dec_string ''releaseNotesSection.items'' (\<lambda>f. f)) [] nsItems_update nsItems)]"

definition release_artifact_fields :: "release_artifact field list" where
  "release_artifact_fields = [(''binaryUrl'', dec_string ''releaseArtifact.binaryUrl'' raBinaryURL_update),
     (''sha256'', dec_string ''releaseArtifact.sha256'' raSHA256_update)]"

definition dec_artifact :: "((release_artifact option \<Rightarrow> release_artifact option) \<Rightarrow> release \<Rightarrow> release) \<Rightarrow> (release \<Rightarrow> release_artifact option) \<Rightarrow>
    json \<Rightarrow> release \<Rightarrow> goerror option \<times> release" where
  "dec_artifact = dec_struct_pointer ''main.releaseArtifact'' release_artifact_fields zero_artifact"

definition release_artifacts_fields :: "release field list" where
  "release_artifacts_fields = [(''amd64'', dec_artifact rlAMD64_update rlAMD64), (''arm64'', dec_artifact rlARM64_update rlARM64)]"

definition release_manifest_fields :: "release field list" where
  "release_manifest_fields =
     [(''version'', dec_string ''releaseManifest.version'' rlVersion_update),
      (''publishedAt'', dec_string ''releaseManifest.publishedAt'' rlPublishedAt_update),
      (''commit'', dec_string ''releaseManifest.commit'' rlCommit_update),
      (''channel'', dec_string ''releaseManifest.channel'' rlChannel_update),
      (''notes'', dec_slice ''[]main.releaseNotesSection'' (decode_struct ''main.releaseNotesSection'' section_fields) zero_section rlNotes_update rlNotes),
      (''installer'', dec_artifact rlInstaller_update rlInstaller),
      (''artifacts'', decode_struct ''main.releaseManifestArtifacts'' release_artifacts_fields)]"

definition dec_release :: "json \<Rightarrow> release \<Rightarrow> goerror option \<times> release" where
  "dec_release = decode_struct ''main.releaseManifest'' release_manifest_fields"

definition catalog_fields :: "release_catalog field list" where
  "catalog_fields =
     [(''generatedAt'', dec_string ''releaseCatalog.generatedAt'' ctGeneratedAt_update),
      (''releases'', dec_slice ''[]main.releaseManifest'' dec_release zero_release ctReleases_update ctReleases)]"

subsection \<open>Files\<close>

definition write_text_file :: "string \<Rightarrow> string \<Rightarrow> unit io" where
  "write_text_file path content =
     io_bind (io_check (wrap_prefix (''create directory for '' @ path @ '': '')) (os_mkdir_all (path_dir path))) (\<lambda>_.
     io_check (wrap_prefix (''write file '' @ path @ '': '')) (os_write_file path content 0x1A4))"

definition json_file_text :: "json \<Rightarrow> string" where
  "json_file_text j = json_indent 0 j @ [CHR 0x0A]"

definition write_json_file :: "string \<Rightarrow> json \<Rightarrow> unit io" where
  "write_json_file path j = write_text_file path (json_file_text j)"

definition read_release_file :: "release_lib \<Rightarrow> string \<Rightarrow> release io" where
  "read_release_file lib path w =
     (case os_read_file path w of
        (Inl e, w1) \<Rightarrow> (Inl (wrap_prefix (''read JSON file '' @ path @ '': '') e), w1)
      | (Inr data, w1) \<Rightarrow>
          ((case rbind (reParse lib data) (\<lambda>j. decoded (dec_release j zero_release)) of
              Inl e \<Rightarrow> Inl (wrap_prefix (''decode JSON file '' @ path @ '': '') e) | Inr r \<Rightarrow> Inr r), w1))"

text \<open>\<open>strings.Split(strings.ReplaceAll(_, "\r\n", "\n"), "\n")\<close>.\<close>

definition text_lines :: "string \<Rightarrow> string list" where
  "text_lines s = split_char CHR 0x0A (replace_all [CHR 0x0D, CHR 0x0A] [CHR 0x0A] s)"

subsection \<open>The changelog\<close>

definition parse_bullet_line :: "string \<Rightarrow> string option" where
  "parse_bullet_line line =
     (if has_prefix line ''- '' then Some (trim_space (trim_prefix line ''- ''))
      else if has_prefix line ''* '' then Some (trim_space (trim_prefix line ''* '')) else None)"

text \<open>The section being read, as its title and items, and the sections finished.\<close>

type_synonym section_draft = "string \<times> string list"

definition flush_current :: "section_draft \<Rightarrow> section_draft list \<Rightarrow> section_draft \<times> section_draft list" where
  "flush_current cur secs = (if trim_space (fst cur) = [] \<or> snd cur = [] then (cur, secs) else (([], []), secs @ [cur]))"

definition continued :: "string list \<Rightarrow> string \<Rightarrow> string list" where
  "continued items trimmed = items[length items - 1 := trim_space (last items @ '' '' @ trimmed)]"

fun changelog_sections :: "string \<Rightarrow> string list \<Rightarrow> bool \<Rightarrow> section_draft \<Rightarrow> section_draft list \<Rightarrow> section_draft list" where
  "changelog_sections header [] in_release cur secs = snd (flush_current cur secs)"
| "changelog_sections header (raw # rest) in_release cur secs =
     (let line = trim_right [CHR '' '', CHR 0x09] raw; trimmed = trim_space line in
      if has_prefix trimmed ''## ['' then
        if in_release then (case flush_current cur secs of (cur1, secs1) \<Rightarrow> snd (flush_current cur1 secs1))
        else changelog_sections header rest (trimmed = header \<or> has_prefix trimmed (header @ '' '')) cur secs
      else if \<not> in_release then changelog_sections header rest in_release cur secs
      else if has_prefix trimmed ''### '' then
        changelog_sections header rest True (trim_space (trim_prefix trimmed ''### ''), []) (snd (flush_current cur secs))
      else case parse_bullet_line trimmed of
        Some item \<Rightarrow> changelog_sections header rest True
          (if trim_space (fst cur) = [] then ''Notes'' else fst cur, snd cur @ [item]) secs
      | None \<Rightarrow>
          if trimmed = [] \<or> snd cur = [] then changelog_sections header rest True cur secs
          else if has_prefix line ''  '' \<or> has_prefix line [CHR 0x09]
          then changelog_sections header rest True (fst cur, continued (snd cur) trimmed) secs
          else changelog_sections header rest True cur secs)"

definition section_of :: "section_draft \<Rightarrow> notes_section" where
  "section_of d = \<lparr>nsTitle = fst d, nsItems = Some (snd d)\<rparr>"

definition section_header :: "string \<Rightarrow> string" where
  "section_header version = ''## ['' @ version @ '']''"

definition parse_changelog_release :: "string \<Rightarrow> string \<Rightarrow> notes_section list io" where
  "parse_changelog_release path version w =
     (case os_read_file path w of
        (Inl e, w1) \<Rightarrow> (Inl (wrap_prefix (''read changelog '' @ path @ '': '') e), w1)
      | (Inr content, w1) \<Rightarrow>
          (let secs = changelog_sections (section_header version) (text_lines content) False ([], []) [] in
           if secs = []
           then (Inl (Plain (''changelog '' @ path @ '' does not contain a structured section for version '' @ version)), w1)
           else (Inr (map section_of secs), w1)))"

subsection \<open>Checksums and artifacts\<close>

fun checksum_lines :: "string list \<Rightarrow> (string \<rightharpoonup> string) \<Rightarrow> goerror + (string \<rightharpoonup> string)" where
  "checksum_lines [] m = Inr m"
| "checksum_lines (raw # rest) m =
     (let line = trim_space raw; fs = str_fields line in
      if line = [] then checksum_lines rest m
      else if length fs < 2 then Inl (Plain (''invalid checksum line '' @ quote_text raw))
      else checksum_lines rest (m(trim_prefix (last fs) ''*'' \<mapsto> hd fs)))"

definition load_checksums :: "string \<Rightarrow> (string \<rightharpoonup> string) io" where
  "load_checksums path w =
     (case os_read_file path w of
        (Inl e, w1) \<Rightarrow> (Inl (wrap_prefix (''read checksums '' @ path @ '': '') e), w1)
      | (Inr content, w1) \<Rightarrow> (checksum_lines (text_lines content) (\<lambda>_. None), w1))"

definition build_release_artifact :: "string \<Rightarrow> string \<Rightarrow> (string \<rightharpoonup> string) \<Rightarrow> release_artifact option" where
  "build_release_artifact base name summap =
     (let s = trim_space (case summap name of None \<Rightarrow> [] | Some x \<Rightarrow> x) in
      if s = [] then None else Some \<lparr>raBinaryURL = base @ ''/'' @ name, raSHA256 = s\<rparr>)"

definition section_markdown :: "notes_section \<Rightarrow> string" where
  "section_markdown s = ''### '' @ nsTitle s @ [CHR 0x0A]
     @ concat (map (\<lambda>i. ''- '' @ i @ [CHR 0x0A]) (case nsItems s of None \<Rightarrow> [] | Some is \<Rightarrow> is))"

definition render_release_notes_markdown :: "string \<Rightarrow> notes_section list \<Rightarrow> string" where
  "render_release_notes_markdown version secs =
     ''## Noderax Agent '' @ version @ [CHR 0x0A, CHR 0x0A] @ str_join [CHR 0x0A] (map section_markdown secs)"

subsection \<open>The bundle command\<close>

record bundle_options =
  boVersion :: string
  boCommit :: string
  boPublishedAt :: string
  boArtifactsDir :: string
  boBaseURL :: string
  boManifest :: string
  boNotes :: string
  boChangelog :: string

definition zero_bundle :: bundle_options where
  "zero_bundle = \<lparr>boVersion = [], boCommit = [], boPublishedAt = [], boArtifactsDir = [], boBaseURL = [], boManifest = [],
     boNotes = [], boChangelog = ''CHANGELOG.md''\<rparr>"

definition bundle_flags :: "(string \<times> bundle_options flag_setter) list" where
  "bundle_flags =
     [(''version'', StringFlag (\<lambda>v. boVersion_update (\<lambda>_. v))), (''commit'', StringFlag (\<lambda>v. boCommit_update (\<lambda>_. v))),
      (''published-at'', StringFlag (\<lambda>v. boPublishedAt_update (\<lambda>_. v))), (''artifacts-dir'', StringFlag (\<lambda>v. boArtifactsDir_update (\<lambda>_. v))),
      (''download-base-url'', StringFlag (\<lambda>v. boBaseURL_update (\<lambda>_. v))), (''manifest-output'', StringFlag (\<lambda>v. boManifest_update (\<lambda>_. v))),
      (''release-notes-output'', StringFlag (\<lambda>v. boNotes_update (\<lambda>_. v))), (''changelog'', StringFlag (\<lambda>v. boChangelog_update (\<lambda>_. v)))]"

definition trimmed_bundle :: "bundle_options \<Rightarrow> bundle_options" where
  "trimmed_bundle b = \<lparr>boVersion = trim_space (boVersion b), boCommit = trim_space (boCommit b), boPublishedAt = trim_space (boPublishedAt b),
     boArtifactsDir = trim_space (boArtifactsDir b), boBaseURL = trim_right ''/'' (trim_space (boBaseURL b)),
     boManifest = trim_space (boManifest b), boNotes = trim_space (boNotes b), boChangelog = trim_space (boChangelog b)\<rparr>"

definition missing_option :: "bundle_options \<Rightarrow> goerror option" where
  "missing_option b = map_option (\<lambda>x. Plain (snd x @ '' is required'')) (find (\<lambda>x. fst x = [])
     [(boVersion b, ''--version''), (boCommit b, ''--commit''), (boPublishedAt b, ''--published-at''), (boArtifactsDir b, ''--artifacts-dir''),
      (boBaseURL b, ''--download-base-url''), (boManifest b, ''--manifest-output''), (boNotes b, ''--release-notes-output'')])"

definition bundle_release :: "bundle_options \<Rightarrow> notes_section list \<Rightarrow> (string \<rightharpoonup> string) \<Rightarrow> release" where
  "bundle_release b notes summap = \<lparr>rlVersion = boVersion b, rlPublishedAt = boPublishedAt b, rlCommit = boCommit b, rlChannel = ''tag'',
     rlNotes = Some notes, rlInstaller = build_release_artifact (boBaseURL b) ''install.sh'' summap,
     rlAMD64 = build_release_artifact (boBaseURL b) ''noderax-agent-linux-amd64'' summap,
     rlARM64 = build_release_artifact (boBaseURL b) ''noderax-agent-linux-arm64'' summap\<rparr>"

definition write_bundle :: "bundle_options \<Rightarrow> notes_section list \<Rightarrow> (string \<rightharpoonup> string) \<Rightarrow> unit io" where
  "write_bundle b notes summap =
     (let r = bundle_release b notes summap in
      if rlInstaller r = None \<or> rlAMD64 r = None \<or> rlARM64 r = None
      then io_fail (Plain ''release bundle is missing one or more required architecture artifacts'')
      else io_bind (write_json_file (boManifest b) (release_json r)) (\<lambda>_.
           write_text_file (boNotes b) (render_release_notes_markdown (boVersion b) notes)))"

definition run_bundle :: "release_lib \<Rightarrow> string list \<Rightarrow> unit io" where
  "run_bundle lib args =
     io_bind (io_lift (parse_flags bundle_flags args zero_bundle)) (\<lambda>(b0, _).
       let b = trimmed_bundle b0 in
       case missing_option b of
         Some e \<Rightarrow> io_fail e
       | None \<Rightarrow>
           (case reParseTime lib (boPublishedAt b) of
              Inl e \<Rightarrow> io_fail (wrap_prefix ''parse --published-at: '' e)
            | Inr _ \<Rightarrow>
                io_bind (parse_changelog_release (boChangelog b) (boVersion b)) (\<lambda>notes.
                io_bind (load_checksums (path_join [boArtifactsDir b, ''SHA256SUMS''])) (\<lambda>summap.
                  write_bundle b notes summap))))"

subsection \<open>The catalog\<close>

definition no_releases :: release_catalog where
  "no_releases = \<lparr>ctGeneratedAt = [], ctReleases = Some []\<rparr>"

text \<open>A catalog, or a list of releases, which older catalogs were.\<close>

definition decode_catalog :: "release_lib \<Rightarrow> string \<Rightarrow> string \<Rightarrow> goerror + release_catalog" where
  "decode_catalog lib path content =
     (let bad = Plain (''existing catalog '' @ path @ '' is not valid JSON'') in
      case reParse lib content of
        Inl e \<Rightarrow> Inl bad
      | Inr j \<Rightarrow>
          (case decode_struct ''main.releaseCatalog'' catalog_fields j \<lparr>ctGeneratedAt = [], ctReleases = None\<rparr> of (e, c) \<Rightarrow>
             if e = None \<and> ctReleases c \<noteq> None then Inr c
             else (case dec_slice ''[]main.releaseManifest'' dec_release zero_release ctReleases_update ctReleases j
                      \<lparr>ctGeneratedAt = [], ctReleases = None\<rparr> of
                     (None, c1) \<Rightarrow> Inr c1 | (Some _, _) \<Rightarrow> Inl bad)))"

definition load_catalog :: "release_lib \<Rightarrow> string \<Rightarrow> release_catalog io" where
  "load_catalog lib path w =
     (if trim_space path = [] then (Inr no_releases, w)
      else case os_read_file path w of
        (Inl e, w1) \<Rightarrow> (if err_is e OsErrNotExist then Inr no_releases
            else Inl (wrap_prefix (''read existing catalog '' @ path @ '': '') e), w1)
      | (Inr content, w1) \<Rightarrow>
          (if trim_space content = [] then Inr no_releases else decode_catalog lib path content, w1))"

text \<open>Go's \<open>>\<close> on strings: byte by byte.\<close>

fun str_greater :: "string \<Rightarrow> string \<Rightarrow> bool" where
  "str_greater s [] \<longleftrightarrow> s \<noteq> []"
| "str_greater [] t \<longleftrightarrow> False"
| "str_greater (a # s) (b # t) \<longleftrightarrow> (of_char a :: nat) > of_char b \<or> a = b \<and> str_greater s t"

definition newer :: "release_lib \<Rightarrow> release \<Rightarrow> release \<Rightarrow> bool" where
  "newer lib l r =
     (case (reParseTime lib (rlPublishedAt l), reParseTime lib (rlPublishedAt r)) of
        (Inr t1, Inr t2) \<Rightarrow>
          if t1 \<noteq> t2 then t1 > t2
          else if rlVersion l \<noteq> rlVersion r then str_greater (rlVersion l) (rlVersion r) else str_greater (rlCommit l) (rlCommit r)
      | _ \<Rightarrow> if rlVersion l \<noteq> rlVersion r then str_greater (rlVersion l) (rlVersion r) else str_greater (rlCommit l) (rlCommit r))"

text \<open>
  \<open>sort.SliceStable\<close>: an insertion sort for up to 20 elements; for more, a merge of sorted blocks, which
  gives the same list whenever the order is a strict weak one. \<open>rev_insert\<close> inserts into a sorted prefix
  that is held in reverse.
\<close>

fun rev_insert :: "('a \<Rightarrow> 'a \<Rightarrow> bool) \<Rightarrow> 'a \<Rightarrow> 'a list \<Rightarrow> 'a list" where
  "rev_insert lt x [] = [x]"
| "rev_insert lt x (y # ys) = (if lt x y then y # rev_insert lt x ys else x # y # ys)"

definition slice_stable :: "('a \<Rightarrow> 'a \<Rightarrow> bool) \<Rightarrow> 'a list \<Rightarrow> 'a list" where
  "slice_stable lt xs = rev (foldl (\<lambda>acc x. rev_insert lt x acc) [] xs)"

fun unseen :: "string set \<Rightarrow> release list \<Rightarrow> release list" where
  "unseen seen [] = []"
| "unseen seen (r # rs) = (if rlVersion r \<in> seen then unseen seen rs else r # unseen (insert (rlVersion r) seen) rs)"

definition merge_catalog :: "release_lib \<Rightarrow> release list \<Rightarrow> release \<Rightarrow> release list" where
  "merge_catalog lib existing r = slice_stable (newer lib) (r # unseen {rlVersion r} existing)"

record catalog_options =
  coManifest :: string
  coExisting :: string
  coOutput :: string

definition catalog_flags :: "(string \<times> catalog_options flag_setter) list" where
  "catalog_flags = [(''manifest'', StringFlag (\<lambda>v. coManifest_update (\<lambda>_. v))),
     (''existing'', StringFlag (\<lambda>v. coExisting_update (\<lambda>_. v))), (''output'', StringFlag (\<lambda>v. coOutput_update (\<lambda>_. v)))]"

definition merged_catalog :: "release_lib \<Rightarrow> release_catalog \<Rightarrow> release \<Rightarrow> release_catalog" where
  "merged_catalog lib existing r = \<lparr>ctGeneratedAt = format_rfc3339 (reNow lib),
     ctReleases = Some (merge_catalog lib (case ctReleases existing of None \<Rightarrow> [] | Some rs \<Rightarrow> rs) r)\<rparr>"

definition run_catalog :: "release_lib \<Rightarrow> string list \<Rightarrow> unit io" where
  "run_catalog lib args =
     io_bind (io_lift (parse_flags catalog_flags args \<lparr>coManifest = [], coExisting = [], coOutput = []\<rparr>)) (\<lambda>(c, _).
       let manifest = trim_space (coManifest c); existing = trim_space (coExisting c); out = trim_space (coOutput c) in
       if manifest = [] then io_fail (Plain ''--manifest is required'')
       else if out = [] then io_fail (Plain ''--output is required'')
       else io_bind (read_release_file lib manifest) (\<lambda>r.
            io_bind (load_catalog lib existing) (\<lambda>ex.
              write_json_file out (catalog_json (merged_catalog lib ex r)))))"

definition run_release_metadata :: "release_lib \<Rightarrow> string list \<Rightarrow> unit io" where
  "run_release_metadata lib args =
     (case args of
        [] \<Rightarrow> io_fail (Plain ''expected a subcommand: bundle or catalog'')
      | cmd # rest \<Rightarrow>
          if cmd = ''bundle'' then run_bundle lib rest
          else if cmd = ''catalog'' then run_catalog lib rest
          else io_fail (Plain (''unknown subcommand '' @ quote_text cmd)))"


subsection \<open>The catalog as a map from versions\<close>

lemma mset_rev_insert: "mset (rev_insert lt x ys) = add_mset x (mset ys)"
  by (induction ys) auto

lemma mset_slice_stable: "mset (slice_stable lt xs) = mset xs"
proof -
  have "mset (foldl (\<lambda>acc x. rev_insert lt x acc) acc xs) = mset acc + mset xs" for acc
    by (induction xs arbitrary: acc) (auto simp: mset_rev_insert)
  from this [of "[]"] show ?thesis by (simp add: slice_stable_def)
qed

lemma set_slice_stable [simp]: "set (slice_stable lt xs) = set xs"
  using mset_slice_stable [of lt xs] by (rule mset_eq_setD)

lemma distinct_map_slice_stable [simp]: "distinct (map f (slice_stable lt xs)) \<longleftrightarrow> distinct (map f xs)"
proof -
  have "mset (map f (slice_stable lt xs)) = mset (map f xs)" by (simp add: mset_slice_stable)
  then show ?thesis by (rule mset_eq_imp_distinct_iff)
qed

lemma set_rev_insert: "set (rev_insert lt x ys) = insert x (set ys)"
  by (induction ys) auto

lemma find_unique:
  "distinct (map f xs) \<Longrightarrow> find (\<lambda>r. f r = v) xs = Some r \<longleftrightarrow> r \<in> set xs \<and> f r = v"
  by (induction xs) (auto simp: rev_image_eqI)

lemma find_same_set:
  assumes "distinct (map f xs)" "distinct (map f ys)" "set xs = set ys"
  shows "find (\<lambda>r. f r = v) xs = find (\<lambda>r. f r = v) ys"
proof (cases "find (\<lambda>r. f r = v) xs")
  case None
  then show ?thesis using assms(3) by (metis find_None_iff)
next
  case (Some r)
  then show ?thesis using assms by (metis find_unique)
qed

lemma unseen_versions: "r \<in> set (unseen seen rs) \<Longrightarrow> rlVersion r \<notin> seen"
  by (induction seen rs rule: unseen.induct) (auto split: if_splits)

lemma distinct_unseen: "distinct (map rlVersion (unseen seen rs))"
  by (induction seen rs rule: unseen.induct) (auto dest: unseen_versions)

lemma find_unseen: "find (\<lambda>r. rlVersion r = v) (unseen seen rs) = (if v \<in> seen then None else find (\<lambda>r. rlVersion r = v) rs)"
  by (induction seen rs rule: unseen.induct) auto

lemma set_unseen: "set (unseen seen rs) \<subseteq> set rs"
  by (induction seen rs rule: unseen.induct) auto

text \<open>
  C29. A catalog is a map from versions to releases, and putting a manifest into it is an update of that map:
  its version now has this manifest, every other version the release it had, and none is listed twice,
  whatever the existing list holds and whether or not its dates can be read.
\<close>

theorem merged_catalog_is_update:
  "distinct (map rlVersion (merge_catalog lib existing r))
    \<and> (\<forall>v. find (\<lambda>x. rlVersion x = v) (merge_catalog lib existing r)
          = (if v = rlVersion r then Some r else find (\<lambda>x. rlVersion x = v) existing))"
proof -
  let ?xs = "r # unseen {rlVersion r} existing"
  have d: "distinct (map rlVersion ?xs)" by (auto simp: distinct_unseen dest: unseen_versions)
  then have "distinct (map rlVersion (merge_catalog lib existing r))" by (simp only: merge_catalog_def distinct_map_slice_stable)
  moreover from this d have "find (\<lambda>x. rlVersion x = v) (merge_catalog lib existing r) = find (\<lambda>x. rlVersion x = v) ?xs" for v
    by (intro find_same_set) (simp_all add: merge_catalog_def)
  ultimately show ?thesis by (auto simp: find_unseen)
qed

subsection \<open>Its order\<close>

lemma rev_insert_sorted:
  assumes "sorted_wrt (\<lambda>a b. \<not> lt a b) ys" "\<forall>a b. lt a b \<longrightarrow> \<not> lt b a"
    and "\<forall>a b c. \<not> lt a b \<longrightarrow> \<not> lt b c \<longrightarrow> \<not> lt a c"
  shows "sorted_wrt (\<lambda>a b. \<not> lt a b) (rev_insert lt x ys)"
  using assms(1)
proof (induction ys)
  case (Cons y ys)
  have s: "set (rev_insert lt x ys) = insert x (set ys)" by (rule set_rev_insert)
  show ?case
  proof (cases "lt x y")
    case True
    with Cons s assms(2) show ?thesis by auto
  next
    case False
    with Cons.prems assms(3) show ?thesis by auto
  qed
qed simp

lemma slice_stable_sorted:
  assumes "\<forall>a b. lt a b \<longrightarrow> \<not> lt b a" "\<forall>a b c. \<not> lt a b \<longrightarrow> \<not> lt b c \<longrightarrow> \<not> lt a c"
  shows "sorted_wrt (\<lambda>a b. \<not> lt b a) (slice_stable lt xs)"
proof -
  have "sorted_wrt (\<lambda>a b. \<not> lt a b) acc \<Longrightarrow> sorted_wrt (\<lambda>a b. \<not> lt a b) (foldl (\<lambda>acc x. rev_insert lt x acc) acc xs)" for acc
  proof (induction xs arbitrary: acc)
    case (Cons x xs)
    show ?case unfolding foldl.simps by (rule Cons.IH, rule rev_insert_sorted [OF Cons.prems assms])
  qed simp
  from this [of "[]"] show ?thesis by (simp add: slice_stable_def sorted_wrt_rev)
qed

text \<open>The sort looks at elements of the list only.\<close>

lemma rev_insert_cong:
  "(\<And>y. y \<in> set ys \<Longrightarrow> lt x y = lt' x y) \<Longrightarrow> rev_insert lt x ys = rev_insert lt' x ys"
  by (induction ys) auto

lemma slice_stable_cong:
  assumes "\<And>a b. a \<in> set xs \<Longrightarrow> b \<in> set xs \<Longrightarrow> lt a b = lt' a b"
  shows "slice_stable lt xs = slice_stable lt' xs"
proof -
  have "foldl (\<lambda>acc x. rev_insert lt x acc) acc ys = foldl (\<lambda>acc x. rev_insert lt' x acc) acc ys"
    if "set acc \<subseteq> set xs" "set ys \<subseteq> set xs" for acc ys
    using that
  proof (induction ys arbitrary: acc)
    case (Cons y ys)
    have e: "rev_insert lt y acc = rev_insert lt' y acc" by (rule rev_insert_cong) (use Cons.prems assms in auto)
    show ?case using Cons e by (simp add: set_rev_insert)
  qed simp
  then show ?thesis by (simp add: slice_stable_def)
qed

lemma str_greater_iff: "str_greater s t \<longleftrightarrow> map of_char t < (map of_char s :: nat list)"
proof (induction s t rule: str_greater.induct)
  case (1 s)
  then show ?case by (cases s) auto
qed auto

definition release_key :: "release_lib \<Rightarrow> release \<Rightarrow> int \<times> nat list \<times> nat list" where
  "release_key lib r = (case reParseTime lib (rlPublishedAt r) of Inr t \<Rightarrow> t | Inl _ \<Rightarrow> 0,
     map of_char (rlVersion r), map of_char (rlCommit r))"

definition dated :: "release_lib \<Rightarrow> release \<Rightarrow> bool" where
  "dated lib r \<longleftrightarrow> (\<exists>t. reParseTime lib (rlPublishedAt r) = Inr t)"

lemma of_char_list_eq [simp]: "(map of_char s = (map of_char t :: nat list)) \<longleftrightarrow> s = t"
  by (rule inj_map_eq_map) (auto simp: inj_on_def)

lemma newer_key: "dated lib a \<Longrightarrow> dated lib b \<Longrightarrow> newer lib a b \<longleftrightarrow> release_key lib b < release_key lib a"
  by (auto simp: dated_def newer_def release_key_def str_greater_iff le_less)

text \<open>
  Where every date can be read, the catalog lists the newest release first, later versions and then
  later commits first among releases of the same moment.
\<close>

theorem catalog_newest_first:
  assumes "dated lib r" "\<forall>x\<in>set existing. dated lib x"
  shows "sorted_wrt (\<lambda>a b. release_key lib b \<le> release_key lib a) (merge_catalog lib existing r)"
proof -
  let ?xs = "r # unseen {rlVersion r} existing"
  have "\<forall>x\<in>set ?xs. dated lib x" using assms set_unseen [of "{rlVersion r}" existing] by auto
  then have "merge_catalog lib existing r = slice_stable (\<lambda>a b. release_key lib b < release_key lib a) ?xs"
    unfolding merge_catalog_def by (intro slice_stable_cong newer_key) auto
  moreover have "sorted_wrt (\<lambda>a b. \<not> release_key lib a < release_key lib b)
      (slice_stable (\<lambda>a b. release_key lib b < release_key lib a) ?xs)"
    by (rule slice_stable_sorted) auto
  ultimately show ?thesis by (simp add: not_less)
qed


text \<open>
  C0. Where a date cannot be read the order is not one: such a release is compared by version only, the
  others by date, so that three releases may each come before the next in a circle. What the catalog lists
  then depends on the order of the list it was made from.
\<close>

definition undated_lib :: release_lib where
  "undated_lib = \<lparr>reParse = (\<lambda>_. Inl (Plain ''unexpected end of JSON input'')),
     reParseTime = (\<lambda>t. if t = ''2026-01-01T00:00:00Z'' then Inr 1 else if t = ''2026-02-01T00:00:00Z'' then Inr 2
        else Inl (Plain ''parsing time'')), reNow = 0\<rparr>"

definition old_release :: "string \<Rightarrow> string \<Rightarrow> release" where
  "old_release v t = zero_release\<lparr>rlVersion := v, rlPublishedAt := t\<rparr>"

theorem undated_release_breaks_order:
  "let a = old_release ''2'' []; b = old_release ''3'' ''2026-01-01T00:00:00Z''; c = old_release ''1'' ''2026-02-01T00:00:00Z'' in
     newer undated_lib b a \<and> newer undated_lib a c \<and> newer undated_lib c b
     \<and> merge_catalog undated_lib [a, b] c = [a, c, b] \<and> merge_catalog undated_lib [b, a] c = [c, b, a]"
  unfolding Let_def
  by (simp add: merge_catalog_def slice_stable_def newer_def undated_lib_def old_release_def zero_release_def)

subsection \<open>What is written is what is read\<close>

lemma release_lookup:
  "find_field release_artifact_fields ''binaryUrl'' = Some (dec_string ''releaseArtifact.binaryUrl'' raBinaryURL_update)"
  "find_field release_artifact_fields ''sha256'' = Some (dec_string ''releaseArtifact.sha256'' raSHA256_update)"
  "find_field section_fields ''title'' = Some (dec_string ''releaseNotesSection.title'' nsTitle_update)"
  "find_field section_fields ''items'' = Some (dec_slice ''[]string'' (dec_string ''releaseNotesSection.items'' (\<lambda>f. f)) [] nsItems_update nsItems)"
  "find_field release_artifacts_fields ''amd64'' = Some (dec_artifact rlAMD64_update rlAMD64)"
  "find_field release_artifacts_fields ''arm64'' = Some (dec_artifact rlARM64_update rlARM64)"
  "find_field release_manifest_fields ''version'' = Some (dec_string ''releaseManifest.version'' rlVersion_update)"
  "find_field release_manifest_fields ''publishedAt'' = Some (dec_string ''releaseManifest.publishedAt'' rlPublishedAt_update)"
  "find_field release_manifest_fields ''commit'' = Some (dec_string ''releaseManifest.commit'' rlCommit_update)"
  "find_field release_manifest_fields ''channel'' = Some (dec_string ''releaseManifest.channel'' rlChannel_update)"
  "find_field release_manifest_fields ''notes'' = Some (dec_slice ''[]main.releaseNotesSection''
     (decode_struct ''main.releaseNotesSection'' section_fields) zero_section rlNotes_update rlNotes)"
  "find_field release_manifest_fields ''installer'' = Some (dec_artifact rlInstaller_update rlInstaller)"
  "find_field release_manifest_fields ''artifacts'' = Some (decode_struct ''main.releaseManifestArtifacts'' release_artifacts_fields)"
  "find_field catalog_fields ''generatedAt'' = Some (dec_string ''releaseCatalog.generatedAt'' ctGeneratedAt_update)"
  "find_field catalog_fields ''releases'' = Some (dec_slice ''[]main.releaseManifest'' dec_release zero_release ctReleases_update ctReleases)"
  by (simp_all add: find_field_def release_artifact_fields_def section_fields_def release_artifacts_fields_def
      release_manifest_fields_def catalog_fields_def)

lemma dec_elements_map:
  "(\<And>x. x \<in> set xs \<Longrightarrow> d (f x) z = (None, x)) \<Longrightarrow> dec_elements d z (map f xs) [] = (None, xs)"
  by (induction xs) (auto simp: first_error_def)

lemma dec_slice_nil_or:
  assumes "\<And>x. d (f x) z = (None, x)" "get s = None" "upd (\<lambda>_. None) s = s"
  shows "dec_slice ty d z upd get (nil_or f xs) s = (None, upd (\<lambda>_. xs) s)"
  using assms dec_elements_map [of _ d f z] by (auto simp: dec_slice_def nil_or_def split: option.splits)

lemma dec_artifact_json:
  "get s = None \<Longrightarrow> dec_artifact upd get (release_artifact_json a) s = (None, upd (\<lambda>_. Some a) s)"
  by (cases a) (simp add: dec_artifact_def dec_struct_pointer_def release_artifact_json_def decode_struct_def release_lookup dec_string_def
      zero_artifact_def first_error_def)

lemma section_round_trip: "decode_struct t section_fields (section_json s) zero_section = (None, s)"
  by (cases s) (simp add: section_json_def decode_struct_def release_lookup dec_string_def dec_slice_nil_or zero_section_def first_error_def)

lemma dec_notes_json:
  "rlNotes s = None \<Longrightarrow> dec_slice ty (decode_struct t section_fields) zero_section rlNotes_update rlNotes (nil_or section_json ns) s
    = (None, s\<lparr>rlNotes := ns\<rparr>)"
  by (subst dec_slice_nil_or) (auto simp: section_round_trip intro: release.equality)

lemma dec_release_json: "dec_release (release_json r) zero_release = (None, r)"
  by (cases r) (auto simp: dec_release_def release_json_def decode_struct_def release_lookup dec_string_def omit_nil_def
      dec_notes_json dec_artifact_json zero_release_def
      first_error_def split: option.splits)

lemma decode_catalog_json:
  assumes "reParse lib t = Inr (catalog_json c)" "ctReleases c = Some rs"
  shows "decode_catalog lib path t = Inr c"
proof -
  let ?z = "\<lparr>ctGeneratedAt = [], ctReleases = None\<rparr>"
  have s: "dec_slice ''[]main.releaseManifest'' dec_release zero_release ctReleases_update ctReleases (nil_or release_json (Some rs)) c1
      = (None, c1\<lparr>ctReleases := Some rs\<rparr>)" if "ctReleases c1 = None" for c1 :: release_catalog
    using that by (subst dec_slice_nil_or) (auto simp: dec_release_json intro: release_catalog.equality)
  have "decode_struct ''main.releaseCatalog'' catalog_fields (catalog_json c) ?z = (None, c)"
    using assms(2) by (cases c) (auto simp: catalog_json_def decode_struct_def omit_empty_def release_lookup dec_string_def s first_error_def)
  then show ?thesis using assms by (simp add: decode_catalog_def)
qed

lemma write_text_file_done:
  assumes "write_text_file path t w = (Inr u, w')"
  shows "\<exists>mode. wfiles w' = (wfiles w)(path \<mapsto> (t, mode))"
  using assms
  by (auto simp: write_text_file_def io_bind_Inr io_check_iff os_mkdir_all_def os_write_file_def split: option.splits)


lemma catalog_text_nonblank: "trim_space (json_file_text (catalog_json k)) \<noteq> []"
proof (rule trim_space_ascii_mem)
  show "CHR ''{'' \<in> set (json_file_text (catalog_json k))" by (simp add: json_file_text_def catalog_json_def)
  show "byte_in 33 126 (CHR ''{'')" by (simp add: byte_in_def)
qed

text \<open>
  The catalog that the tool wrote is the catalog it reads the next time, if the parser reads the text
  written as the value it was written from: publishing one release after another goes through the file
  without losing or changing a release.
\<close>

theorem catalog_round_trip:
  assumes "run_catalog lib args w = (Inr (), w')"
    and "parse_flags catalog_flags args \<lparr>coManifest = [], coExisting = [], coOutput = []\<rparr> = Inr (c, rest)"
    and "wfault w' (wtick w') (OpReadFile (trim_space (coOutput c))) = None"
  shows "\<exists>r w1 ex w2 mode. read_release_file lib (trim_space (coManifest c)) w = (Inr r, w1)
    \<and> load_catalog lib (trim_space (coExisting c)) w1 = (Inr ex, w2)
    \<and> wfiles w' (trim_space (coOutput c)) = Some (json_file_text (catalog_json (merged_catalog lib ex r)), mode)
    \<and> (reParse lib (json_file_text (catalog_json (merged_catalog lib ex r))) = Inr (catalog_json (merged_catalog lib ex r))
        \<longrightarrow> fst (load_catalog lib (trim_space (coOutput c)) w') = Inr (merged_catalog lib ex r))"
proof -
  let ?out = "trim_space (coOutput c)"
  from assms(1,2) obtain r ex w1 w2 where r: "read_release_file lib (trim_space (coManifest c)) w = (Inr r, w1)"
    and x: "load_catalog lib (trim_space (coExisting c)) w1 = (Inr ex, w2)" and o: "?out \<noteq> []"
    and wr: "write_json_file ?out (catalog_json (merged_catalog lib ex r)) w2 = (Inr (), w')"
    by (auto simp: run_catalog_def io_bind_Inr Let_def split: if_splits)
  from wr obtain mode where f: "wfiles w' ?out = Some (json_file_text (catalog_json (merged_catalog lib ex r)), mode)"
    unfolding write_json_file_def by (auto dest!: write_text_file_done)
  have "reParse lib (json_file_text (catalog_json (merged_catalog lib ex r))) = Inr (catalog_json (merged_catalog lib ex r))
      \<Longrightarrow> decode_catalog lib ?out (json_file_text (catalog_json (merged_catalog lib ex r))) = Inr (merged_catalog lib ex r)"
    by (rule decode_catalog_json) (simp_all add: merged_catalog_def)
  with f o assms(3) have "reParse lib (json_file_text (catalog_json (merged_catalog lib ex r))) = Inr (catalog_json (merged_catalog lib ex r))
      \<Longrightarrow> fst (load_catalog lib ?out w') = Inr (merged_catalog lib ex r)"
    by (simp add: load_catalog_def os_read_file_def catalog_text_nonblank)
  with r x f show ?thesis by blast
qed

subsection \<open>The manifest reaches the updater\<close>

lemma updater_lookup:
  "find_field manifest_fields ''version'' = Some (dec_string ''releaseManifest.version'' rmVersion_update)"
  "find_field manifest_fields ''publishedAt'' = Some (dec_string ''releaseManifest.publishedAt'' rmPublishedAt_update)"
  "find_field manifest_fields ''commit'' = Some (dec_string ''releaseManifest.commit'' rmCommit_update)"
  "find_field manifest_fields ''channel'' = Some (dec_string ''releaseManifest.channel'' rmChannel_update)"
  "find_field manifest_fields ''artifacts'' = Some (decode_struct ''agentctl.releaseManifestArtifacts'' artifacts_fields)"
  "find_field manifest_fields ''notes'' = None" "find_field manifest_fields ''installer'' = None"
  "find_field artifacts_fields ''amd64''
     = Some (dec_struct_pointer ''agentctl.releaseManifestArtifact'' artifact_fields zero_artifact rmAMD64_update rmAMD64)"
  "find_field artifacts_fields ''arm64''
     = Some (dec_struct_pointer ''agentctl.releaseManifestArtifact'' artifact_fields zero_artifact rmARM64_update rmARM64)"
  "find_field artifact_fields ''binaryUrl'' = Some (dec_string ''releaseManifestArtifact.binaryUrl'' raBinaryURL_update)"
  "find_field artifact_fields ''sha256'' = Some (dec_string ''releaseManifestArtifact.sha256'' raSHA256_update)"
proof -
  have n: "map (fold_name \<circ> fst) manifest_fields = [''version'', ''publishedat'', ''commit'', ''channel'', ''artifacts'']"
    "fold_name ''notes'' = ''notes''" "fold_name ''installer'' = ''installer''"
    by (simp add: manifest_fields_def, code_simp) code_simp+
  have none: "find (\<lambda>f. fold_name (fst f) = k) fs = None" if "k \<notin> set (map (fold_name \<circ> fst) fs)" for k and fs :: "release_manifest field list"
    using that by (induction fs) auto
  have f: "find (\<lambda>f. fold_name (fst f) = ''notes'') manifest_fields = None" "find (\<lambda>f. fold_name (fst f) = ''installer'') manifest_fields = None"
    by (rule none, unfold n(1), simp)+
  have e: "find (\<lambda>f. fst f = ''notes'') manifest_fields = None" "find (\<lambda>f. fst f = ''installer'') manifest_fields = None"
    by (simp_all add: manifest_fields_def)
  show "find_field manifest_fields ''notes'' = None" by (simp only: find_field_def n f(1) e(1) option.case option.map)
  show "find_field manifest_fields ''installer'' = None" by (simp only: find_field_def n f(2) e(2) option.case option.map)
qed (simp_all add: find_field_def manifest_fields_def artifacts_fields_def artifact_fields_def)

definition updater_view :: "release \<Rightarrow> release_manifest" where
  "updater_view r = \<lparr>rmVersion = rlVersion r, rmPublishedAt = rlPublishedAt r, rmCommit = rlCommit r, rmChannel = rlChannel r,
     rmAMD64 = rlAMD64 r, rmARM64 = rlARM64 r\<rparr>"

lemma updater_artifact_json:
  "get s = None \<Longrightarrow> dec_struct_pointer t artifact_fields zero_artifact upd get (release_artifact_json a) s = (None, upd (\<lambda>_. Some a) s)"
  by (cases a) (simp add: dec_struct_pointer_def release_artifact_json_def decode_struct_def updater_lookup dec_string_def
      zero_artifact_def first_error_def)

lemma updater_decodes: "decode_struct t manifest_fields (release_json r) zero_manifest = (None, updater_view r)"
  by (auto simp: release_json_def decode_struct_def updater_lookup dec_string_def omit_nil_def updater_view_def
      updater_artifact_json zero_manifest_def first_error_def split: option.splits)

text \<open>\<open>serves net hs url t j\<close>: the network answers a request for \<open>url\<close> with the text \<open>t\<close>, which decodes to \<open>j\<close>.\<close>

definition serves :: "update_net \<Rightarrow> (string \<times> string) list \<Rightarrow> string \<Rightarrow> string \<Rightarrow> json \<Rightarrow> bool" where
  "serves net hs url t j \<longleftrightarrow> unNewRequest net url = None
     \<and> unGet net hs url = Inr \<lparr>wrStatus = 200, wrBody = t, wrReadErr = None\<rparr> \<and> unDecode net t = Inr j"

lemma served_manifest:
  assumes "serves net hs url t (release_json r)" "rlChannel r = ''tag''" "trim_space (rlVersion r) \<noteq> []"
  shows "fetch_manifest_from_url net url hs = Inr (updater_view r)"
  using assms by (simp add: serves_def fetch_manifest_from_url_def good_status_def decode_body_def updater_decodes check_manifest_def updater_view_def)

lemma missing_option_None:
  "missing_option b = None \<longleftrightarrow> boVersion b \<noteq> [] \<and> boCommit b \<noteq> [] \<and> boPublishedAt b \<noteq> [] \<and> boArtifactsDir b \<noteq> []
     \<and> boBaseURL b \<noteq> [] \<and> boManifest b \<noteq> [] \<and> boNotes b \<noteq> []"
  by (auto simp: missing_option_def split: if_splits)

lemma built_artifact:
  "build_release_artifact base n m = Some a \<longleftrightarrow>
     (\<exists>s. m n = Some s \<and> trim_space s \<noteq> [] \<and> a = \<lparr>raBinaryURL = base @ ''/'' @ n, raSHA256 = trim_space s\<rparr>)"
  by (auto simp: build_release_artifact_def Let_def split: option.splits)

definition artifact_name :: "string \<Rightarrow> string" where
  "artifact_name arch = ''noderax-agent-linux-'' @ arch"



subsection \<open>The changelog\<close>

lemma last_rune_trimmed: "trim_space t = t \<Longrightarrow> t \<noteq> [] \<Longrightarrow> \<not> is_space (last (runes t))"
proof -
  assume t: "trim_space t = t" "t \<noteq> []"
  have "runes t = rev (dropWhile is_space (rev (dropWhile is_space (runes t))))" using runes_trim_space [of t] t(1) by simp
  moreover have "runes t \<noteq> []" using t(2) by simp
  ultimately show ?thesis by (metis hd_dropWhile last_rev rev_is_Nil_conv)
qed

lemma trim_space_ends:
  assumes "runes s \<noteq> []" "\<not> is_space (hd (runes s))" "\<not> is_space (last (runes s))"
  shows "trim_space s = s"
proof -
  obtain r rs where r: "runes s = r # rs" using assms(1) by (cases "runes s") auto
  then have d: "dropWhile is_space (runes s) = runes s" using assms(2) by simp
  have "dropWhile is_space (rev (runes s)) = rev (runes s)"
    using assms(1,3) by (metis dropWhile_eq_self_iff hd_rev)
  then show ?thesis by (simp add: trim_space_def d)
qed

text \<open>A line that starts with a mark and goes on with a trimmed text is trimmed.\<close>

lemma marked_trimmed:
  assumes "is_ascii p" "p \<noteq> []" "\<not> ascii_space (hd p)" "trim_space t = t" "t \<noteq> []"
  shows "trim_space (p @ t) = p @ t"
proof (rule trim_space_ends)
  have r: "runes (p @ t) = map (\<lambda>c. [c]) p @ runes t" by (rule runes_ascii_append [OF assms(1)])
  show "runes (p @ t) \<noteq> []" "\<not> is_space (hd (runes (p @ t)))" using r assms(2,3) by (simp_all add: hd_append hd_map)
  show "\<not> is_space (last (runes (p @ t)))" using r last_rune_trimmed [OF assms(4,5)] assms(5) by simp
qed

lemma last_byte_trimmed:
  assumes "trim_space t = t" "t \<noteq> []"
  shows "\<not> ascii_space (last t)"
proof
  assume a: "ascii_space (last t)"
  then have b: "byte_in 0 127 (last t)" by (auto simp: ascii_space_def byte_in_def)
  have "runes (butlast t @ last t # []) = runes (butlast t) @ [last t] # runes []" by (rule runes_before_ascii [OF b])
  then have "last (runes t) = [last t]" using assms(2) by simp
  with last_rune_trimmed [OF assms] a show False by simp
qed

lemma trim_right_marked:
  assumes "trim_space t = t" "t \<noteq> []"
  shows "trim_right [CHR '' '', CHR 0x09] (p @ t) = p @ t"
proof -
  have "last t \<noteq> CHR '' ''" "last t \<noteq> CHR 0x09" using last_byte_trimmed [OF assms] by (auto simp: ascii_space_def byte_in_def)
  moreover have "rev (p @ t) = last t # rev (p @ butlast t)" using assms(2) by (metis append_butlast_last_id append_assoc rev_eq_Cons_iff rev_rev_ident)
  ultimately show ?thesis unfolding trim_right_def by (metis (no_types, lifting) dropWhile.simps(2) empty_iff insert_iff list.set(1) list.simps(15) rev_rev_ident)
qed

definition plain_text :: "string \<Rightarrow> bool" where
  "plain_text t \<longleftrightarrow> trim_space t = t \<and> t \<noteq> [] \<and> CHR 0x0A \<notin> set t \<and> CHR 0x0D \<notin> set t"

definition section_lines :: "section_draft \<Rightarrow> string list" where
  "section_lines d = (''### '' @ fst d) # map (\<lambda>i. ''- '' @ i) (snd d) @ [[]]"

definition plain_section :: "section_draft \<Rightarrow> bool" where
  "plain_section d \<longleftrightarrow> plain_text (fst d) \<and> snd d \<noteq> [] \<and> (\<forall>i\<in>set (snd d). plain_text i)"

text \<open>The lines of other releases and of what stands before them.\<close>

definition other_line :: "string \<Rightarrow> string \<Rightarrow> bool" where
  "other_line header l \<longleftrightarrow> (let t = trim_space (trim_right [CHR '' '', CHR 0x09] l) in t \<noteq> header \<and> \<not> has_prefix t (header @ '' ''))"

lemma skip_other_lines:
  "\<forall>l\<in>set pre. other_line header l \<Longrightarrow> changelog_sections header (pre @ ls) False cur secs = changelog_sections header ls False cur secs"
  by (induction pre) (simp_all add: Let_def other_line_def)

lemma read_items:
  assumes "\<forall>i\<in>set is. plain_text i" "trim_space title \<noteq> []"
  shows "changelog_sections header (map (\<lambda>i. ''- '' @ i) is @ ls) True (title, done) secs
    = changelog_sections header ls True (title, done @ is) secs"
  using assms(1)
proof (induction "is" arbitrary: "done")
  case (Cons i "is")
  have t: "trim_space (''- '' @ i) = ''- '' @ i" "trim_right [CHR '' '', CHR 0x09] (''- '' @ i) = ''- '' @ i" "trim_space i = i"
    using Cons.prems marked_trimmed [of "''- ''" i] trim_right_marked [of i "''- ''"]
    by (auto simp: plain_text_def byte_in_def ascii_space_def)
  have "changelog_sections header ((''- '' @ i) # map (\<lambda>i. ''- '' @ i) is @ ls) True (title, done) secs
    = changelog_sections header (map (\<lambda>i. ''- '' @ i) is @ ls) True (title, done @ [i]) secs"
    using t assms(2) by (simp add: Let_def parse_bullet_line_def trim_prefix_def)
  with Cons show ?case by simp
qed simp


lemma flush_twice: "(case flush_current cur secs of (cur1, secs1) \<Rightarrow> snd (flush_current cur1 secs1)) = snd (flush_current cur secs)"
  by (simp add: flush_current_def)

definition release_line :: "string \<Rightarrow> bool" where
  "release_line l \<longleftrightarrow> has_prefix (trim_space (trim_right [CHR '' '', CHR 0x09] l)) ''## [''"

lemma read_sections:
  assumes "\<forall>d\<in>set ds. plain_section d" "post = [] \<or> release_line (hd post)"
  shows "changelog_sections header (concat (map section_lines ds) @ post) True cur secs = snd (flush_current cur secs) @ ds"
  using assms(1)
proof (induction ds arbitrary: cur secs)
  case Nil
  show ?case
  proof (cases post)
    case (Cons l ls)
    then have "release_line l" using assms(2) by simp
    then show ?thesis by (simp add: Cons Let_def release_line_def flush_twice)
  qed simp
next
  case (Cons d ds)
  obtain t xs where d: "d = (t, xs)" by (cases d)
  let ?secs = "snd (flush_current cur secs)"
  have p: "trim_space t = t" "t \<noteq> []" "xs \<noteq> []" "\<forall>i\<in>set xs. plain_text i"
    using Cons.prems d by (auto simp: plain_section_def plain_text_def)
  have m: "trim_space (''### '' @ t) = ''### '' @ t" "trim_right [CHR '' '', CHR 0x09] (''### '' @ t) = ''### '' @ t"
    using p(1,2) marked_trimmed [of "''### ''" t] trim_right_marked [of t "''### ''"] by (auto simp: byte_in_def ascii_space_def)
  have t: "trim_space t \<noteq> []" using p by simp
  have b: "trim_right [CHR '' '', CHR 0x09] [] = []" by (simp add: trim_right_def)
  let ?rest = "[] # concat (map section_lines ds) @ post"
  have "changelog_sections header ((''### '' @ t) # map (\<lambda>i. ''- '' @ i) xs @ ?rest) True cur secs
      = changelog_sections header (map (\<lambda>i. ''- '' @ i) xs @ ?rest) True (t, []) ?secs"
    using m p(1) by (simp add: Let_def trim_prefix_def)
  also have "\<dots> = changelog_sections header ?rest True (t, xs) ?secs" using read_items [OF p(4) t, of header ?rest "[]"] by simp
  also have "\<dots> = changelog_sections header (concat (map section_lines ds) @ post) True (t, xs) ?secs"
    by (simp add: Let_def b parse_bullet_line_def)
  also have "\<dots> = snd (flush_current (t, xs) ?secs) @ ds" using Cons by simp
  also have "snd (flush_current (t, xs) ?secs) = ?secs @ [(t, xs)]" using t p(3) by (simp add: flush_current_def)
  finally show ?case by (simp add: d section_lines_def)
qed

lemma replace_absent: "CHR 0x0D \<notin> set s \<Longrightarrow> replace_all [CHR 0x0D, CHR 0x0A] u s = s"
  by (induction s) (auto simp: replace_all.simps(2))

lemma set_str_join: "set (str_join sep ws) \<subseteq> set sep \<union> \<Union> (set ` set ws)"
  by (induction sep ws rule: str_join.induct) auto

lemma text_lines_join:
  assumes "ls \<noteq> []" "\<forall>l\<in>set ls. CHR 0x0A \<notin> set l \<and> CHR 0x0D \<notin> set l"
  shows "text_lines (str_join [CHR 0x0A] ls) = ls"
proof -
  have "CHR 0x0D \<notin> set (str_join [CHR 0x0A] ls)" using set_str_join [of "[CHR 0x0A]" ls] assms(2) by auto
  then show ?thesis using assms by (simp add: text_lines_def replace_absent split_char_join)
qed

definition names_release :: "string \<Rightarrow> string \<Rightarrow> bool" where
  "names_release header l \<longleftrightarrow> (let t = trim_space (trim_right [CHR '' '', CHR 0x09] l) in t = header \<or> has_prefix t (header @ '' ''))"

lemma header_prefix: "names_release (section_header v) l \<Longrightarrow> release_line l"
  unfolding names_release_def release_line_def Let_def section_header_def by (auto simp: has_prefix_iff)

text \<open>
  A changelog is read as it was written: the sections of a release, each a title and its items, are
  found below the line that names the release, whatever other releases stand before and after it, and come
  out as they are, in their order, none added or lost.
\<close>

theorem changelog_round_trip:
  assumes "wfiles w path = Some (str_join [CHR 0x0A] (pre @ l # [] # concat (map section_lines ds) @ post), mode)"
    and "wfault w (wtick w) (OpReadFile path) = None"
    and "\<forall>x\<in>set pre. other_line (section_header v) x" "names_release (section_header v) l"
    and "ds \<noteq> []" "\<forall>d\<in>set ds. plain_section d" "post = [] \<or> release_line (hd post)"
    and "\<forall>x\<in>set (l # pre @ post). CHR 0x0A \<notin> set x \<and> CHR 0x0D \<notin> set x"
  shows "fst (parse_changelog_release path v w) = Inr (map section_of ds)"
proof -
  let ?ls = "pre @ l # [] # concat (map section_lines ds) @ post" and ?h = "section_header v"
  have "\<forall>x\<in>set (section_lines d). CHR 0x0A \<notin> set x \<and> CHR 0x0D \<notin> set x" if "plain_section d" for d
    using that by (auto simp: section_lines_def plain_section_def plain_text_def)
  then have "text_lines (str_join [CHR 0x0A] ?ls) = ?ls"
    using assms(6,8) by (intro text_lines_join) auto
  moreover have "changelog_sections ?h ?ls False ([], []) [] = changelog_sections ?h (l # [] # concat (map section_lines ds) @ post) False ([], []) []"
    by (rule skip_other_lines [OF assms(3)])
  moreover have "\<dots> = changelog_sections ?h ([] # concat (map section_lines ds) @ post) True ([], []) []"
    using assms(4) header_prefix [OF assms(4)] by (simp add: Let_def names_release_def release_line_def)
  moreover have "\<dots> = changelog_sections ?h (concat (map section_lines ds) @ post) True ([], []) []"
    by (simp add: Let_def trim_right_def parse_bullet_line_def)
  moreover have "\<dots> = ds" using read_sections [OF assms(6,7), of ?h "([], [])" "[]"] by (simp add: flush_current_def)
  ultimately show ?thesis using assms(1,2,5) by (simp add: parse_changelog_release_def os_read_file_def)
qed


subsection \<open>Instances\<close>

theorem catalog_newest_first_witness:
  "sorted_wrt (\<lambda>a b. release_key undated_lib b \<le> release_key undated_lib a)
     (merge_catalog undated_lib [old_release ''1'' ''2026-01-01T00:00:00Z''] (old_release ''2'' ''2026-02-01T00:00:00Z''))"
  by (rule catalog_newest_first) (simp_all add: dated_def undated_lib_def old_release_def)

definition sample_changelog :: "string list" where
  "sample_changelog = [''## [2]'', ''### New'', ''- later'', [], ''## [1] - May'', [], ''### Old'', ''- first'', ''- second'', []]"

definition sample_drafts :: "section_draft list" where
  "sample_drafts = [(''Old'', [''first'', ''second''])]"

definition release_world :: world where
  "release_world = quiet_world\<lparr>wfiles := [''m'' \<mapsto> (''{}'', 0x1A4), ''CHANGELOG.md'' \<mapsto> (str_join [CHR 0x0A] sample_changelog, 0x1A4),
     ''d/SHA256SUMS'' \<mapsto> (str_join [CHR 0x0A] [''a1  install.sh'', ''b2  noderax-agent-linux-amd64'', ''c3 *noderax-agent-linux-arm64''], 0x1A4)]\<rparr>"

lemma sample_changelog_read: "fst (parse_changelog_release ''CHANGELOG.md'' ''1'' release_world) = Inr (map section_of sample_drafts)"
proof (rule changelog_round_trip)
  show "wfiles release_world ''CHANGELOG.md'' = Some (str_join [CHR 0x0A] ([''## [2]'', ''### New'', ''- later'', []] @ ''## [1] - May'' # []
      # concat (map section_lines sample_drafts) @ []), 0x1A4)"
    by (simp add: release_world_def sample_changelog_def sample_drafts_def section_lines_def)
  show "\<forall>x\<in>set [''## [2]'', ''### New'', ''- later'', []]. other_line (section_header ''1'') x" by code_simp
  show "names_release (section_header ''1'') ''## [1] - May''" by code_simp
  show "\<forall>d\<in>set sample_drafts. plain_section d" by code_simp
  show "\<forall>x\<in>set (''## [1] - May'' # [''## [2]'', ''### New'', ''- later'', []] @ []). CHR 0x0A \<notin> set x \<and> CHR 0x0D \<notin> set x" by simp
qed (simp_all add: release_world_def quiet_world_def sample_drafts_def)

theorem changelog_round_trip_witness:
  "\<exists>w. fst (parse_changelog_release ''CHANGELOG.md'' ''1'' w) = Inr [\<lparr>nsTitle = ''Old'', nsItems = Some [''first'']\<rparr>]"
proof -
  let ?w = "quiet_world\<lparr>wfiles := [''CHANGELOG.md'' \<mapsto> (str_join [CHR 0x0A] ([] @ ''## [1]'' # [] # concat (map section_lines [(''Old'', [''first''])]) @ []), 0x1A4)]\<rparr>"
  have "fst (parse_changelog_release ''CHANGELOG.md'' ''1'' ?w) = Inr (map section_of [(''Old'', [''first''])])"
  proof (rule changelog_round_trip)
    show "wfiles ?w ''CHANGELOG.md'' = Some (str_join [CHR 0x0A] ([] @ ''## [1]'' # [] # concat (map section_lines [(''Old'', [''first''])]) @ []), 0x1A4)"
      by simp
    show "names_release (section_header ''1'') ''## [1]''" by code_simp
    show "\<forall>d\<in>set [(''Old'', [''first''])]. plain_section d" by code_simp
  qed (simp_all add: quiet_world_def)
  then show ?thesis by (auto simp: section_of_def)
qed

definition sample_release_lib :: release_lib where
  "sample_release_lib = \<lparr>reParse = (\<lambda>_. Inr (JObj [])), reParseTime = (\<lambda>_. Inr 0), reNow = 0\<rparr>"

lemma catalog_flag_names:
  "map_of catalog_flags ''manifest'' = Some (StringFlag (\<lambda>v. coManifest_update (\<lambda>_. v)))"
  "map_of catalog_flags ''output'' = Some (StringFlag (\<lambda>v. coOutput_update (\<lambda>_. v)))"
  by (simp_all add: catalog_flags_def)

lemma sample_catalog_flags:
  "parse_flags catalog_flags [''--manifest'', ''m'', ''--output'', ''o''] \<lparr>coManifest = [], coExisting = [], coOutput = []\<rparr>
     = Inr (\<lparr>coManifest = ''m'', coExisting = [], coOutput = ''o''\<rparr>, [])"
  by (simp add: parse_flags.simps(2) is_flag_def flag_name_def flag_parts_def cut_char_def catalog_flag_names)

lemma sample_words: "trim_space ''m'' = ''m''" "trim_space ''o'' = ''o''" "trim_space ''{}'' = ''{}''"
  by code_simp+

lemma sample_catalog_run:
  "\<exists>w'. run_catalog sample_release_lib [''--manifest'', ''m'', ''--output'', ''o''] release_world = (Inr (), w') \<and> wfault w' = (\<lambda>_ _. None)"
proof -
  let ?w = "set_files (wfiles release_world) release_world"
  have r: "read_release_file sample_release_lib ''m'' release_world = (Inr zero_release, ?w)"
    by (simp add: read_release_file_def os_read_file_def release_world_def quiet_world_def sample_release_lib_def dec_release_def
        decode_struct_def decoded_def rbind_def)
  have l: "load_catalog sample_release_lib [] w = (Inr no_releases, w)" for w by (simp add: load_catalog_def)
  have q: "wfault release_world = (\<lambda>_ _. None)" by (simp add: release_world_def quiet_world_def)
  show ?thesis
    by (simp add: run_catalog_def io_bind_def io_lift_def Let_def sample_catalog_flags sample_words r l write_json_file_def write_text_file_def
        io_check_def os_mkdir_all_def os_write_file_def q)
qed

theorem catalog_round_trip_witness:
  "\<exists>w' ex r mode. wfiles w' ''o'' = Some (json_file_text (catalog_json (merged_catalog sample_release_lib ex r)), mode)
     \<and> run_catalog sample_release_lib [''--manifest'', ''m'', ''--output'', ''o''] release_world = (Inr (), w')"
proof -
  obtain w' where w: "run_catalog sample_release_lib [''--manifest'', ''m'', ''--output'', ''o''] release_world = (Inr (), w')"
    "wfault w' = (\<lambda>_ _. None)" using sample_catalog_run by blast
  from catalog_round_trip [OF w(1) sample_catalog_flags] w show ?thesis by (auto simp: sample_words)
qed

definition sample_bundle_args :: "string list" where
  "sample_bundle_args = [''--version'', ''1'', ''--commit'', ''c'', ''--published-at'', ''t'', ''--artifacts-dir'', ''d'',
     ''--download-base-url'', ''u'', ''--manifest-output'', ''o'', ''--release-notes-output'', ''n'']"

definition sample_bundle :: bundle_options where
  "sample_bundle = \<lparr>boVersion = ''1'', boCommit = ''c'', boPublishedAt = ''t'', boArtifactsDir = ''d'', boBaseURL = ''u'', boManifest = ''o'',
     boNotes = ''n'', boChangelog = ''CHANGELOG.md''\<rparr>"

lemma sample_bundle_flags: "parse_flags bundle_flags sample_bundle_args zero_bundle = Inr (sample_bundle, [])"
  by (simp add: sample_bundle_args_def parse_flags.simps(2) is_flag_def flag_name_def flag_parts_def cut_char_def bundle_flags_def
      zero_bundle_def sample_bundle_def)

lemma sample_bundle_trimmed: "trimmed_bundle sample_bundle = sample_bundle"
  by code_simp

definition sample_sums :: "string \<rightharpoonup> string" where
  "sample_sums = [''install.sh'' \<mapsto> ''a1'', ''noderax-agent-linux-amd64'' \<mapsto> ''b2'', ''noderax-agent-linux-arm64'' \<mapsto> ''c3'']"

lemma sample_checksums:
  "checksum_lines [''a1  install.sh'', ''b2  noderax-agent-linux-amd64'', ''c3 *noderax-agent-linux-arm64''] (\<lambda>_. None) = Inr sample_sums"
proof -
  have t: "trim_space ''a1  install.sh'' = ''a1  install.sh''" "trim_space ''b2  noderax-agent-linux-amd64'' = ''b2  noderax-agent-linux-amd64''"
    "trim_space ''c3 *noderax-agent-linux-arm64'' = ''c3 *noderax-agent-linux-arm64''" by code_simp+
  have f: "str_fields ''a1  install.sh'' = [''a1'', ''install.sh'']" "str_fields ''b2  noderax-agent-linux-amd64'' = [''b2'', ''noderax-agent-linux-amd64'']"
    "str_fields ''c3 *noderax-agent-linux-arm64'' = [''c3'', ''*noderax-agent-linux-arm64'']" by code_simp+
  show ?thesis by (simp add: Let_def t f trim_prefix_def sample_sums_def)
qed

lemma sample_bundle_run:
  "\<exists>w'. run_bundle sample_release_lib sample_bundle_args release_world = (Inr (), w')"
proof -
  have p: "path_join [''d'', ''SHA256SUMS''] = ''d/SHA256SUMS''" by code_simp
  have "\<exists>w1. parse_changelog_release ''CHANGELOG.md'' ''1'' release_world = (Inr (map section_of sample_drafts), w1)
      \<and> wfiles w1 = wfiles release_world \<and> wfault w1 = (\<lambda>_ _. None)"
    using sample_changelog_read
    by (auto simp: parse_changelog_release_def os_read_file_def release_world_def quiet_world_def Let_def set_files_def split: if_splits)
  then obtain w1 where c: "parse_changelog_release ''CHANGELOG.md'' ''1'' release_world = (Inr (map section_of sample_drafts), w1)"
    "wfiles w1 = wfiles release_world" "wfault w1 = (\<lambda>_ _. None)" by blast
  let ?ls = "[''a1  install.sh'', ''b2  noderax-agent-linux-amd64'', ''c3 *noderax-agent-linux-arm64'']"
  have t: "text_lines (str_join [CHR 0x0A] ?ls) = ?ls" by (rule text_lines_join) simp_all
  have "wfiles w1 ''d/SHA256SUMS'' = Some (str_join [CHR 0x0A] ?ls, 0x1A4)" by (simp add: c(2) release_world_def)
  then have l: "load_checksums ''d/SHA256SUMS'' w1 = (Inr sample_sums, set_files (wfiles w1) w1)"
    using c(3) by (simp only: load_checksums_def os_read_file_def option.case prod.case sum.case t sample_checksums)
  have s: "trim_space ''a1'' = ''a1''" "trim_space ''b2'' = ''b2''" "trim_space ''c3'' = ''c3''" by code_simp+
  have b: "rlInstaller (bundle_release sample_bundle ns sample_sums) \<noteq> None" "rlAMD64 (bundle_release sample_bundle ns sample_sums) \<noteq> None"
    "rlARM64 (bundle_release sample_bundle ns sample_sums) \<noteq> None" for ns
    by (simp_all add: bundle_release_def build_release_artifact_def sample_sums_def s)
  have "\<exists>w'. write_bundle sample_bundle ns sample_sums (set_files (wfiles w1) w1) = (Inr (), w')" for ns
    using c(3) b [of ns]
    by (simp add: write_bundle_def Let_def io_bind_def write_json_file_def write_text_file_def io_check_def os_mkdir_all_def os_write_file_def
        set_files_def)
  moreover have "missing_option sample_bundle = None" by (simp add: missing_option_None sample_bundle_def)
  moreover have "boVersion sample_bundle = ''1''" "boChangelog sample_bundle = ''CHANGELOG.md''" "boArtifactsDir sample_bundle = ''d''"
    by (simp_all add: sample_bundle_def)
  ultimately show ?thesis
    using c(1) l p
    by (simp add: run_bundle_def io_lift_def io_bind_def sample_bundle_flags sample_bundle_trimmed Let_def sample_release_lib_def)
qed


end
