(* ===== verification/Spec2Isabelle.thy ===== *)
theory Spec2Isabelle
  imports RootAccess TaskExecutor TaskService LogScan Terminal RealtimeConnection Agent Installer ReleaseMetadata
begin

text \<open>
  The noderax agent: a daemon on a managed node that runs the tasks, terminals and log scans a control plane
  asks for and reports back. This development models its Go code under \<open>src/\<close> and proves what makes it
  correct and what keeps it from doing as root what the node's owner did not allow.

  \<^bold>\<open>Parts.\<close> \<open>internal/config\<close> gives the settings; \<open>internal/agent\<close> decides which identity the agent has,
  enrolls it and wires the rest; \<open>internal/realtime\<close> keeps a Socket.IO connection on which events leave
  and tasks, terminal commands, root access changes and new tokens arrive; \<open>internal/tasks\<close> claims tasks
  over HTTP, accepts them from the connection, runs them as processes and reports them; \<open>internal/logscan\<close>
  serves the log scans; \<open>internal/terminal\<close> runs interactive shells; \<open>internal/rootaccess\<close> holds the root
  access profile in force, which the other two ask before anything runs as root; \<open>internal/api\<close> has the
  messages and the HTTP client; \<open>internal/nodelocation\<close> and \<open>internal/cloudmetadata\<close> find out where the node
  is. \<open>internal/agentctl\<close> is the command line beside the daemon: it installs it with its root helpers, sudo
  rules and service unit, enrolls it, updates it and takes it away. The helpers it writes are the other end
  of what the daemon runs through \<open>sudo\<close>, so both ends are modelled and put together; so are
  \<open>cmd/release-metadata\<close>, which writes the manifest of a release, and the update that reads it.

  \<^bold>\<open>Theories.\<close> The language and its library: \<open>GoPrelude\<close> (errors, results, 64-bit numbers), \<open>GoStrings\<close>
  (bytes, UTF-8, \<open>strings\<close>, \<open>strconv\<close>), \<open>GoContainers\<close> (maps used as sets, buffered channels, and the locale
  of queues), \<open>GoTime\<close>, \<open>GoClock\<close> and \<open>GoDuration\<close> (durations and times as text), \<open>GoIO\<close> (paths, files and
  their failures), \<open>GoJson\<close> (decoding into structs, encoding), \<open>GoBase64\<close>. The program, in the order it
  builds up:
  \<^item> \<open>Api\<close> and \<open>TaskEvents\<close>: \<open>api/types.go\<close>, \<open>api/client.go\<close>, \<open>tasks/http_events.go\<close>. Requests, paths,
    the reports of a task and their retries.
  \<^item> \<open>RequestFiles\<close>, \<open>PackageParsers\<close>, \<open>TaskExecutor\<close>: \<open>tasks/executor.go\<close>. The files handed to privileged
    helpers, the parsers of \<open>dpkg -l\<close> and \<open>apt search\<close>, the command of every task type and its run.
  \<^item> \<open>RootAccess\<close>: \<open>rootaccess/manager.go\<close>. A manager record, what it allows, applying and storing profiles.
  \<^item> \<open>TaskService\<close>: \<open>tasks/service.go\<close>. The running set, the claim loop with its back-off, the cancellation
    monitor and the life of one task.
  \<^item> \<open>LogScan\<close>: \<open>logscan/scanner.go\<close>. Sources, cursors, previews and monitor scans of files and journals.
  \<^item> \<open>Terminal\<close>: \<open>terminal/manager.go\<close> and \<open>manager_unix.go\<close>. The registry of sessions, shells, sizes,
    output, and its steps as a relation, refined from a life cycle of sessions.
  \<^item> \<open>Realtime\<close> and \<open>RealtimeConnection\<close>: \<open>realtime/client.go\<close>, \<open>realtime/handlers.go\<close> and the command handler
    of \<open>agent/service.go\<close>. The outbound queue with its counters, the writer, the events; inbound dispatch,
    the callbacks of a connection and the loop that reconnects.
  \<^item> \<open>Config\<close>: \<open>config/config.go\<close>. \<open>Agent\<close>: \<open>agent/identity.go\<close>, \<open>agent/enrollment.go\<close> and the identity,
    rotation and location parts of \<open>agent/service.go\<close>.
  \<^item> \<open>GoFlag\<close>, \<open>Platform\<close>, \<open>RootHelpers\<close>, \<open>CtlHost\<close>, \<open>Installer\<close>: \<open>agentctl/commands.go\<close> and
    \<open>agentctl/logscan.go\<close>. The \<open>flag\<close> package as used; platforms, options, service definitions and the
    texts of the helper scripts; what those scripts do when they run and which sudo rules they write; the
    host that management commands act on (files, programs started, reports posted) and the calculus of what a
    command leaves alone; install, bootstrap, uninstall, config, service and log-scan.
  \<^item> \<open>GoSha256\<close> and \<open>SelfUpdate\<close>: \<open>agentctl/update.go\<close>. SHA-256 on 32-bit words; options, the detached
    updater, release manifest, download, checksum, replacement by renaming, restart and progress.
  \<^item> \<open>NodeLocation\<close>: \<open>nodelocation/detector.go\<close> and \<open>cloudmetadata/detector.go\<close>. The sources in order and the
    trace of the requests they make.
  \<^item> \<open>ReleaseMetadata\<close>: \<open>cmd/release-metadata/main.go\<close>. The changelog, the checksums, the manifest of a release
    and the catalog of all of them, with what the self-update reads of a manifest.
  This theory adds what spans components: root terminals and root tasks from the message that asks for them
  to the profile that allows them.

  \<^bold>\<open>State and operations.\<close> A struct is a record with one field per field that operations read or write
  (\<open>manager\<close>, \<open>executor\<close>, \<open>dispatch_state\<close>, \<open>term_manager\<close>, \<open>realtime\<close>, \<open>connection\<close>, \<open>config\<close>, \<open>agent\<close>); a method is
  a function from the record, its arguments and what it is told from outside to its result and the new
  record. Functions that touch files take and return a \<open>world\<close>, whose every call may fail or leave a part
  of its effect behind, so that theorems hold for every pattern of failures (a read that fails half-way counts
  as one that failed to start). Management commands act on a \<open>ctl_host\<close>, which adds the programs started and
  the reports posted; the detection of the location passes on the list of its requests. What processes, the host, HTTP,
  sockets, clocks, random sources and parsers of the standard library answer is an argument (records ending
  in \<open>_env\<close> or \<open>_lib\<close>). Goroutines are sequences of atomic steps: the callers of a channel and its counters
  (\<open>depth_step\<close>), the running tasks (\<open>dispatch\<close> and \<open>done\<close> events), the goroutines of a terminal
  (\<open>terminal_step\<close>) interleave in every order.

  \<^bold>\<open>What is shown.\<close> Safety of root: profiles are applied only when the helper confirmed them; a root task
  needs an approved scope and the operational scope runs its fixed list only; a root terminal needs an
  allowed profile and runs \<open>sudo\<close> with a fixed shell. Exactness: output, logs, scans, input and events are
  delivered unchanged, in order and once, up to stated bounds. Life cycles: every task accepted is completed
  once, every terminal opened is exited once, a session is authenticated exactly when acknowledged.
  Persistence: configuration, identity and profile survive a restart; request files are never torn.
  Both ends: the commands that tasks hand over are the commands the helpers run, the sudo rules of a profile
  permit what the agent approves, the package helper runs nothing but \<open>apt-get\<close> with plain names. Updates:
  the binary is the old one or one with the checksum a release manifest gives, and the reports are the stages
  reached. Installation: what install sets up and that uninstall takes away that and no more, as root only.
  Location: what is asked of whom, and that coordinates are in range. Releases: the changelog is read as it
  was written, the catalog is updated as a map from versions, the updater accepts what the tool wrote.
  Termination: retries, enrollment and scans end, with bounds. Where the code does not do what it means to,
  a theorem says so (\<open>padded_scope_escapes_allowlist\<close> below, \<open>rotation_lost_on_restart\<close>,
  \<open>stale_token_after_rotation\<close>, \<open>auth_error_strands_connection\<close>, \<open>wrapped_task_without_type_dropped\<close>,
  \<open>torn_identity_blocks_start\<close>, \<open>oversized_line_blocks_monitor\<close>, \<open>quiet_journal_loses_cursor\<close>,
  \<open>duplicate_start_leaks_process\<close>, \<open>timeout_overflows\<close>, \<open>concurrent_root_tasks_cross\<close>, \<open>rollback_has_no_effect\<close>,
  \<open>reinstall_blocks_self_update\<close>, \<open>piped_install_loses_email\<close>, \<open>undated_release_breaks_order\<close> and others).

  \<^bold>\<open>Bounds.\<close> There is no fuel: loops over input recurse on it or on a measure, and loops that wait take
  the list of what they meet (polls, turns, reads), so that a theorem about ending says how long a list
  suffices. Numbers are \<open>int\<close> with \<open>wrap64\<close> where a product or sum of untrusted values can overflow.
  Strings are bytes; floats are rationals with infinities and NaN.

  \<^bold>\<open>Not modelled.\<close> Logging and what is printed, the owners of files and the text of prompts;
  \<open>internal/metrics\<close> and \<open>internal/system\<close> (readings of the host on a ticker); the start and end of the workers in \<open>agent/service.go\<close>; the HTTP and Socket.IO
  libraries and the transport set-up of the API client. The shell of the helper scripts is modelled by what
  their lines do, not by a semantics of \<open>sh\<close>. The text of a few library errors is simplified, each where it
  is defined.
\<close>

section \<open>A root terminal, from the message to the profile\<close>


definition terminal_handler :: command_handler where
  "terminal_handler = \<lparr>hdTasks = None, hdTerminal = Some idle_manager, hdInput = []\<rparr>"

definition terminal_profile :: manager where
  "terminal_profile = (initial_manager ''/var/lib/noderax/identity.json'')
     \<lparr>mgState := (mgState (initial_manager ''/var/lib/noderax/identity.json''))\<lparr>rsAppliedProfile := ''terminal''\<rparr>\<rparr>"


section \<open>A root task and a scope with white space around it\<close>


definition padded_payload :: json where
  "padded_payload = JObj [(''command'', JStr ''id''), (''runAsRoot'', JBool True), (''rootScope'', JStr ''operational '')]"

definition operational_profile :: manager where
  "operational_profile = (initial_manager ''/var/lib/noderax/identity.json'')
     \<lparr>mgState := (mgState (initial_manager ''/var/lib/noderax/identity.json''))\<lparr>rsAppliedProfile := ''operational''\<rparr>\<rparr>"


end
